(* ===== verification/Prelude.thy ===== *)
theory Prelude
  imports Main "HOL-Library.List_Lexorder" "HOL-Library.Char_ord"
begin

text \<open>
  Shared vocabulary of the development: computations that read and write a state and may
  raise an error (the state survives a raise, as object mutation survives a JavaScript
  \<open>throw\<close>), the collections of rules that invert a successful run and that show a
  computation keeps an invariant, and generic lemmas on keyed rows.
\<close>

named_theorems run_iff \<open>inversion of a computation that returned\<close>
named_theorems run_err \<open>inversion of a computation that raised\<close>
named_theorems run_wp \<open>evaluating a run that returns\<close>
named_theorems run_fwd \<open>running a computation forward from a state\<close>
named_theorems keeps_rules \<open>introduction rules for invariants kept by a computation\<close>

section \<open>Computations with state and errors\<close>

type_synonym ('s, 'e, 'a) act = "'s \<Rightarrow> ('e + 'a) \<times> 's"

definition ret :: "'a \<Rightarrow> ('s, 'e, 'a) act" where
  "ret x = (\<lambda>s. (Inr x, s))"

definition throw :: "'e \<Rightarrow> ('s, 'e, 'a) act" where
  "throw e = (\<lambda>s. (Inl e, s))"

definition bnd :: "('s, 'e, 'a) act \<Rightarrow> ('a \<Rightarrow> ('s, 'e, 'b) act) \<Rightarrow> ('s, 'e, 'b) act" where
  "bnd m f = (\<lambda>s. case m s of (Inl e, s') \<Rightarrow> (Inl e, s') | (Inr x, s') \<Rightarrow> f x s')"

definition thn :: "('s, 'e, 'a) act \<Rightarrow> ('s, 'e, 'b) act \<Rightarrow> ('s, 'e, 'b) act" where
  "thn m k = bnd m (\<lambda>_. k)"

definition catch :: "('s, 'e, 'a) act \<Rightarrow> ('e \<Rightarrow> ('s, 'e, 'a) act) \<Rightarrow> ('s, 'e, 'a) act" where
  "catch m h = (\<lambda>s. case m s of (Inl e, s') \<Rightarrow> h e s' | (Inr x, s') \<Rightarrow> (Inr x, s'))"

text \<open>\<open>attempt\<close> turns a raise into a value: the \<open>try\<close>/\<open>catch\<close> whose two outcomes differ in type.\<close>

definition attempt :: "('s, 'e, 'a) act \<Rightarrow> ('s, 'e, 'e + 'a) act" where
  "attempt m = (\<lambda>s. case m s of (r, s') \<Rightarrow> (Inr r, s'))"

definition gets :: "('s \<Rightarrow> 'a) \<Rightarrow> ('s, 'e, 'a) act" where
  "gets f = (\<lambda>s. (Inr (f s), s))"

definition modify :: "('s \<Rightarrow> 's) \<Rightarrow> ('s, 'e, unit) act" where
  "modify f = (\<lambda>s. (Inr (), f s))"

definition lift :: "'e + 'a \<Rightarrow> ('s, 'e, 'a) act" where
  "lift r = (\<lambda>s. (r, s))"

definition guard :: "bool \<Rightarrow> 'e \<Rightarrow> ('s, 'e, unit) act" where
  "guard b e = (\<lambda>s. (if b then Inr () else Inl e, s))"

definition whenM :: "bool \<Rightarrow> ('s, 'e, unit) act \<Rightarrow> ('s, 'e, unit) act" where
  "whenM b m = (\<lambda>s. if b then m s else (Inr (), s))"

primrec each :: "('a \<Rightarrow> ('s, 'e, unit) act) \<Rightarrow> 'a list \<Rightarrow> ('s, 'e, unit) act" where
  "each f [] = ret ()"
| "each f (x # xs) = thn (f x) (each f xs)"

primrec collect :: "('a \<Rightarrow> ('s, 'e, 'b) act) \<Rightarrow> 'a list \<Rightarrow> ('s, 'e, 'b list) act" where
  "collect f [] = ret []"
| "collect f (x # xs) = bnd (f x) (\<lambda>y. bnd (collect f xs) (\<lambda>ys. ret (y # ys)))"

lemmas act_defs = ret_def throw_def bnd_def thn_def catch_def attempt_def gets_def
  modify_def lift_def guard_def whenM_def

subsection \<open>Inverting a run\<close>

lemma ret_run [run_iff]: "ret x s = (r, s') \<longleftrightarrow> r = Inr x \<and> s' = s"
  by (auto simp: ret_def)

lemma throw_run [run_iff]: "throw e s = (r, s') \<longleftrightarrow> r = Inl e \<and> s' = s"
  by (auto simp: throw_def)

lemma gets_run [run_iff]: "gets f s = (r, s') \<longleftrightarrow> r = Inr (f s) \<and> s' = s"
  by (auto simp: gets_def)

lemma modify_run [run_iff]: "modify f s = (r, s') \<longleftrightarrow> r = Inr () \<and> s' = f s"
  by (auto simp: modify_def)

lemma lift_run [run_iff]: "lift x s = (r, s') \<longleftrightarrow> x = r \<and> s' = s"
  by (auto simp: lift_def)

lemma guard_Inr [run_iff]: "guard b e s = (Inr u, s') \<longleftrightarrow> b \<and> s' = s"
  by (auto simp: guard_def)

lemma guard_Inl [run_err]: "guard b e s = (Inl x, s') \<longleftrightarrow> \<not> b \<and> x = e \<and> s' = s"
  by (auto simp: guard_def)

lemma bnd_Inr [run_iff]:
  "bnd m f s = (Inr y, s'') \<longleftrightarrow> (\<exists>x s'. m s = (Inr x, s') \<and> f x s' = (Inr y, s''))"
  by (auto simp: bnd_def split: prod.splits sum.splits)

lemma bnd_Inl [run_err]:
  "bnd m f s = (Inl e, s'') \<longleftrightarrow>
     m s = (Inl e, s'') \<or> (\<exists>x s'. m s = (Inr x, s') \<and> f x s' = (Inl e, s''))"
  by (auto simp: bnd_def split: prod.splits sum.splits)

lemma thn_Inr [run_iff]:
  "thn m k s = (Inr y, s'') \<longleftrightarrow> (\<exists>x s'. m s = (Inr x, s') \<and> k s' = (Inr y, s''))"
  by (simp add: thn_def bnd_Inr)

lemma thn_Inl [run_err]:
  "thn m k s = (Inl e, s'') \<longleftrightarrow>
     m s = (Inl e, s'') \<or> (\<exists>x s'. m s = (Inr x, s') \<and> k s' = (Inl e, s''))"
  by (simp add: thn_def bnd_Inl)

lemma whenM_run [run_iff]:
  "whenM b m s = (r, s') \<longleftrightarrow> (if b then m s = (r, s') else r = Inr () \<and> s' = s)"
  by (auto simp: whenM_def)

lemma catch_Inr [run_iff]:
  "catch m h s = (Inr y, s'') \<longleftrightarrow>
     m s = (Inr y, s'') \<or> (\<exists>e s'. m s = (Inl e, s') \<and> h e s' = (Inr y, s''))"
  by (auto simp: catch_def split: prod.splits sum.splits)

lemma attempt_run [run_iff]:
  "attempt m s = (r, s') \<longleftrightarrow> (\<exists>x. m s = (x, s') \<and> r = Inr x)"
  by (auto simp: attempt_def split: prod.splits)

subsection \<open>Forward evaluation\<close>

lemma bnd_step: "m s = (Inr x, s') \<Longrightarrow> bnd m f s = f x s'"
  by (simp add: bnd_def)

lemma bnd_fail: "m s = (Inl e, s') \<Longrightarrow> bnd m f s = (Inl e, s')"
  by (simp add: bnd_def)

lemma thn_step: "m s = (Inr x, s') \<Longrightarrow> thn m k s = k s'"
  by (simp add: thn_def bnd_def)

lemma thn_fail: "m s = (Inl e, s') \<Longrightarrow> thn m k s = (Inl e, s')"
  by (simp add: thn_def bnd_def)

lemma bnd_ret [simp]: "bnd (ret x) f = f x"
  by (simp add: act_defs)

lemma bnd_assoc: "bnd (bnd m f) g = bnd m (\<lambda>x. bnd (f x) g)"
  by (auto simp: bnd_def fun_eq_iff split: prod.splits sum.splits)

lemma ret_fwd [run_fwd]: "ret x s = (Inr x, s)"
  by (simp add: ret_def)

lemma throw_fwd [run_fwd]: "throw e s = (Inl e, s)"
  by (simp add: throw_def)

lemma gets_fwd [run_fwd]: "bnd (gets g) f s = f (g s) s"
  by (simp add: bnd_def gets_def)

lemma lift_fwd [run_fwd]: "bnd (lift r) f s = (case r of Inl e \<Rightarrow> (Inl e, s) | Inr x \<Rightarrow> f x s)"
  by (simp add: bnd_def lift_def split: sum.splits)

lemma lift_thn_fwd [run_fwd]: "thn (lift r) k s = (case r of Inl e \<Rightarrow> (Inl e, s) | Inr x \<Rightarrow> k s)"
  by (simp add: thn_def lift_fwd)

lemma guard_fwd [run_fwd]: "thn (guard b e) k s = (if b then k s else (Inl e, s))"
  by (simp add: thn_def bnd_def guard_def)

lemma bnd_throw [run_fwd]: "bnd (throw e) f s = (Inl e, s)"
  by (simp add: bnd_def throw_def)

lemma thn_ret [run_fwd]: "thn (ret x) k s = k s"
  by (simp add: thn_def bnd_def ret_def)

section \<open>Runs that return\<close>

text \<open>
  \<open>returns m s Q\<close> is the weakest precondition for \<open>m\<close> to return, without an error, a value and a
  state that satisfy \<open>Q\<close>. The rules of \<open>run_wp\<close> push it through a sequence of operations, so a
  concrete run is evaluated by simplification.
\<close>

definition returns :: "('s, 'e, 'a) act \<Rightarrow> 's \<Rightarrow> ('a \<Rightarrow> 's \<Rightarrow> bool) \<Rightarrow> bool" where
  "returns m s Q = (case m s of (Inl e, s') \<Rightarrow> False | (Inr x, s') \<Rightarrow> Q x s')"

lemma returnsD: "returns m s Q \<Longrightarrow> \<exists>x s'. m s = (Inr x, s') \<and> Q x s'"
  by (auto simp: returns_def split: prod.splits sum.splits)

lemma returnsI: "m s = (Inr x, s') \<Longrightarrow> Q x s' \<Longrightarrow> returns m s Q"
  by (simp add: returns_def)

lemma returns_mono: "returns m s P \<Longrightarrow> (\<And>x s'. P x s' \<Longrightarrow> Q x s') \<Longrightarrow> returns m s Q"
  by (auto simp: returns_def split: prod.splits sum.splits)

lemma returns_bnd [run_wp]: "returns (bnd m f) s Q = returns m s (\<lambda>x s'. returns (f x) s' Q)"
  by (auto simp: returns_def bnd_def split: prod.splits sum.splits)

lemma returns_thn [run_wp]: "returns (thn m k) s Q = returns m s (\<lambda>x s'. returns k s' Q)"
  by (simp add: thn_def returns_bnd)

lemma returns_ret [run_wp]: "returns (ret x) s Q = Q x s"
  by (simp add: returns_def ret_def)

lemma returns_gets [run_wp]: "returns (gets f) s Q = Q (f s) s"
  by (simp add: returns_def gets_def)

lemma returns_modify [run_wp]: "returns (modify f) s Q = Q () (f s)"
  by (simp add: returns_def modify_def)

lemma returns_lift [run_wp]: "returns (lift r) s Q = (case r of Inl e \<Rightarrow> False | Inr x \<Rightarrow> Q x s)"
  by (simp add: returns_def lift_def split: sum.splits)

lemma returns_guard [run_wp]: "returns (guard b e) s Q = (b \<and> Q () s)"
  by (simp add: returns_def guard_def)

lemma returns_throw [run_wp]: "returns (throw e) s Q = False"
  by (simp add: returns_def throw_def)

section \<open>Invariants kept by a computation\<close>

definition keeps :: "('s \<Rightarrow> bool) \<Rightarrow> ('s, 'e, 'a) act \<Rightarrow> bool" where
  "keeps I m \<longleftrightarrow> (\<forall>s. I s \<longrightarrow> I (snd (m s)))"

lemma keepsI: "(\<And>s r s'. I s \<Longrightarrow> m s = (r, s') \<Longrightarrow> I s') \<Longrightarrow> keeps I m"
  by (auto simp: keeps_def prod_eq_iff)

lemma keepsD: "keeps I m \<Longrightarrow> I s \<Longrightarrow> m s = (r, s') \<Longrightarrow> I s'"
  by (metis keeps_def snd_conv)

lemma keeps_ret [keeps_rules, simp]: "keeps I (ret x)"
  by (simp add: keeps_def ret_def)

lemma keeps_throw [keeps_rules, simp]: "keeps I (throw e)"
  by (simp add: keeps_def throw_def)

lemma keeps_gets [keeps_rules, simp]: "keeps I (gets f)"
  by (simp add: keeps_def gets_def)

lemma keeps_lift [keeps_rules, simp]: "keeps I (lift r)"
  by (simp add: keeps_def lift_def)

lemma keeps_guard [keeps_rules, simp]: "keeps I (guard b e)"
  by (simp add: keeps_def guard_def)

lemma keeps_modify: "(\<And>s. I s \<Longrightarrow> I (f s)) \<Longrightarrow> keeps I (modify f)"
  by (simp add: keeps_def modify_def)

lemma keeps_bnd [keeps_rules]:
  assumes "keeps I m" "\<And>x. keeps I (f x)"
  shows "keeps I (bnd m f)"
  using assms by (fastforce simp: keeps_def bnd_def split: prod.splits sum.splits)

lemma keeps_thn [keeps_rules]:
  assumes "keeps I m" "keeps I k"
  shows "keeps I (thn m k)"
  using assms by (simp add: thn_def keeps_bnd)

lemma keeps_catch [keeps_rules]:
  assumes "keeps I m" "\<And>e. keeps I (h e)"
  shows "keeps I (catch m h)"
  using assms by (fastforce simp: keeps_def catch_def split: prod.splits sum.splits)

lemma keeps_attempt [keeps_rules]: "keeps I m \<Longrightarrow> keeps I (attempt m)"
  by (fastforce simp: keeps_def attempt_def split: prod.splits)

lemma keeps_whenM [keeps_rules]: "(b \<Longrightarrow> keeps I m) \<Longrightarrow> keeps I (whenM b m)"
  by (simp add: keeps_def whenM_def)

lemma keeps_if [keeps_rules]:
  "(b \<Longrightarrow> keeps I m) \<Longrightarrow> (\<not> b \<Longrightarrow> keeps I k) \<Longrightarrow> keeps I (if b then m else k)"
  by simp

lemma keeps_option [keeps_rules]:
  "(x = None \<Longrightarrow> keeps I m) \<Longrightarrow> (\<And>y. x = Some y \<Longrightarrow> keeps I (f y)) \<Longrightarrow>
   keeps I (case x of None \<Rightarrow> m | Some y \<Rightarrow> f y)"
  by (cases x) auto

lemma keeps_sum [keeps_rules]:
  "(\<And>y. x = Inl y \<Longrightarrow> keeps I (f y)) \<Longrightarrow> (\<And>y. x = Inr y \<Longrightarrow> keeps I (g y)) \<Longrightarrow>
   keeps I (case x of Inl y \<Rightarrow> f y | Inr y \<Rightarrow> g y)"
  by (cases x) auto

lemma keeps_prod [keeps_rules]:
  "(\<And>a b. x = (a, b) \<Longrightarrow> keeps I (f a b)) \<Longrightarrow> keeps I (case x of (a, b) \<Rightarrow> f a b)"
  by (cases x) auto

lemma keeps_list [keeps_rules]:
  "(x = [] \<Longrightarrow> keeps I m) \<Longrightarrow> (\<And>y ys. x = y # ys \<Longrightarrow> keeps I (f y ys)) \<Longrightarrow>
   keeps I (case x of [] \<Rightarrow> m | y # ys \<Rightarrow> f y ys)"
  by (cases x) auto

lemma keeps_let [keeps_rules]: "(\<And>x. x = t \<Longrightarrow> keeps I (f x)) \<Longrightarrow> keeps I (let x = t in f x)"
  by simp

lemma keeps_each [keeps_rules]: "(\<And>x. x \<in> set xs \<Longrightarrow> keeps I (f x)) \<Longrightarrow> keeps I (each f xs)"
  by (induction xs) (auto intro: keeps_thn)

lemma keeps_collect [keeps_rules]:
  "(\<And>x. x \<in> set xs \<Longrightarrow> keeps I (f x)) \<Longrightarrow> keeps I (collect f xs)"
  by (induction xs) (auto intro!: keeps_bnd)

lemma keeps_conj: "keeps I m \<Longrightarrow> keeps J m \<Longrightarrow> keeps (\<lambda>s. I s \<and> J s) m"
  by (simp add: keeps_def)

text \<open>
  The two-state form: from \<open>P\<close> the computation ends in \<open>Q\<close>, whether it returns or raises.
  \<open>leads_read\<close> remembers the value a read returned.
\<close>

definition leads :: "('s \<Rightarrow> bool) \<Rightarrow> ('s, 'e, 'a) act \<Rightarrow> ('s \<Rightarrow> bool) \<Rightarrow> bool" where
  "leads P m Q \<longleftrightarrow> (\<forall>s. P s \<longrightarrow> Q (snd (m s)))"

lemma keeps_iff_leads: "keeps I m \<longleftrightarrow> leads I m I"
  by (simp add: keeps_def leads_def)

lemma leads_weaken: "keeps P m \<Longrightarrow> (\<And>s. P s \<Longrightarrow> Q s) \<Longrightarrow> leads P m Q"
  by (simp add: leads_def keeps_def)

lemma leads_strengthen: "(\<And>s. P s \<Longrightarrow> P' s) \<Longrightarrow> leads P' m Q \<Longrightarrow> leads P m Q"
  by (simp add: leads_def)

lemma leads_modify: "(\<And>s. P s \<Longrightarrow> Q (f s)) \<Longrightarrow> leads P (modify f) Q"
  by (simp add: leads_def modify_def)

lemma leads_read: "(\<And>v. leads (\<lambda>s. P s \<and> f s = v) (k v) Q) \<Longrightarrow> leads P (bnd (gets f) k) Q"
  by (simp add: leads_def bnd_def gets_def)

lemma leads_bnd:
  assumes "keeps P m" "\<And>x. leads P (f x) Q" "\<And>s. P s \<Longrightarrow> Q s"
  shows "leads P (bnd m f) Q"
  using assms by (fastforce simp: leads_def keeps_def bnd_def split: prod.splits sum.splits)

lemma leads_thn:
  assumes "keeps P m" "leads P k Q" "\<And>s. P s \<Longrightarrow> Q s"
  shows "leads P (thn m k) Q"
  using assms by (simp add: thn_def leads_bnd)

lemma leads_then:
  assumes "leads P m Q" "keeps Q k"
  shows "leads P (thn m k) Q"
  using assms by (fastforce simp: leads_def keeps_def thn_def bnd_def split: prod.splits sum.splits)

lemma leads_bind:
  assumes "leads P m Q" "\<And>x. keeps Q (f x)"
  shows "leads P (bnd m f) Q"
  using assms by (fastforce simp: leads_def keeps_def bnd_def split: prod.splits sum.splits)

lemma leads_if: "(b \<Longrightarrow> leads P m Q) \<Longrightarrow> (\<not> b \<Longrightarrow> leads P k Q) \<Longrightarrow> leads P (if b then m else k) Q"
  by simp

lemma leads_option:
  "(x = None \<Longrightarrow> leads P m Q) \<Longrightarrow> (\<And>y. x = Some y \<Longrightarrow> leads P (f y) Q) \<Longrightarrow>
   leads P (case x of None \<Rightarrow> m | Some y \<Rightarrow> f y) Q"
  by (cases x) auto

lemma leads_list:
  "(x = [] \<Longrightarrow> leads P m Q) \<Longrightarrow> (\<And>y ys. x = y # ys \<Longrightarrow> leads P (f y ys) Q) \<Longrightarrow>
   leads P (case x of [] \<Rightarrow> m | y # ys \<Rightarrow> f y ys) Q"
  by (cases x) auto

section \<open>Keyed rows\<close>

text \<open>
  A table is the list of its rows in insertion order. \<open>find_row\<close> is a
  \<open>SELECT * WHERE key = ?\<close>, \<open>update_row\<close> an \<open>UPDATE ... WHERE key = ?\<close>.
\<close>

primrec find_row :: "('r \<Rightarrow> 'k) \<Rightarrow> 'r list \<Rightarrow> 'k \<Rightarrow> 'r option" where
  "find_row key [] k = None"
| "find_row key (r # rs) k = (if key r = k then Some r else find_row key rs k)"

definition update_row :: "('r \<Rightarrow> 'k) \<Rightarrow> 'k \<Rightarrow> ('r \<Rightarrow> 'r) \<Rightarrow> 'r list \<Rightarrow> 'r list" where
  "update_row key k f rs = map (\<lambda>r. if key r = k then f r else r) rs"

lemma find_row_Some: "find_row key rs k = Some r \<Longrightarrow> r \<in> set rs \<and> key r = k"
  by (induction rs) (auto split: if_splits)

lemma find_row_None: "find_row key rs k = None \<longleftrightarrow> k \<notin> key ` set rs"
  by (induction rs) auto

lemma find_row_append:
  "find_row key (rs @ qs) k =
     (case find_row key rs k of None \<Rightarrow> find_row key qs k | Some r \<Rightarrow> Some r)"
  by (induction rs) auto

lemma find_row_distinct:
  "distinct (map key rs) \<Longrightarrow> r \<in> set rs \<Longrightarrow> find_row key rs (key r) = Some r"
  by (induction rs) (auto simp: rev_image_eqI)

lemma find_row_update:
  assumes "\<And>r. key (f r) = key r"
  shows "find_row key (update_row key k f rs) k' =
    (if k' = k then map_option f (find_row key rs k) else find_row key rs k')"
  using assms by (induction rs) (auto simp: update_row_def)

lemma keys_update_row [simp]:
  "(\<And>r. key (f r) = key r) \<Longrightarrow> map key (update_row key k f rs) = map key rs"
  by (induction rs) (auto simp: update_row_def)

lemma set_update_row:
  "set (update_row key k f rs) = (\<lambda>r. if key r = k then f r else r) ` set rs"
  by (simp add: update_row_def)

lemma length_update_row [simp]: "length (update_row key k f rs) = length rs"
  by (simp add: update_row_def)

lemma filter_update_row:
  assumes "\<And>r. key r = k \<Longrightarrow> P (f r) = P r"
  shows "filter P (update_row key k f rs) = update_row key k f (filter P rs)"
  using assms by (induction rs) (auto simp: update_row_def)

text \<open>
  The interface every table of the stores offers: the rows of one relation inside the
  database record, each with a primary key. Laws about reading after writing are proved
  here once and obtained per table by interpretation.
\<close>

locale table =
  fixes key :: "'r \<Rightarrow> 'k"
    and rows :: "'db \<Rightarrow> 'r list"
    and put :: "'r list \<Rightarrow> 'db \<Rightarrow> 'db"
  assumes rows_put: "rows (put rs d) = rs"
begin

lemma get_inserted:
  "key r \<notin> key ` set (rows d) \<Longrightarrow> find_row key (rows (put (rows d @ [r]) d)) (key r) = Some r"
  by (simp add: rows_put find_row_append find_row_None [THEN iffD2])

lemma get_old_after_insert:
  "find_row key (rows d) k = Some q \<Longrightarrow> find_row key (rows (put (rows d @ [r]) d)) k = Some q"
  by (simp add: rows_put find_row_append)

lemma get_updated:
  assumes "\<And>r. key (f r) = key r" and "find_row key (rows d) k = Some r"
  shows "find_row key (rows (put (update_row key k f (rows d)) d)) k = Some (f r)"
  using assms by (simp add: rows_put find_row_update)

lemma get_other_after_update:
  assumes "\<And>r. key (f r) = key r" and "k' \<noteq> k"
  shows "find_row key (rows (put (update_row key k f (rows d)) d)) k' = find_row key (rows d) k'"
  using assms by (simp add: rows_put find_row_update)

lemma distinct_after_insert:
  "distinct (map key (rows d)) \<Longrightarrow> key r \<notin> key ` set (rows d) \<Longrightarrow>
   distinct (map key (rows (put (rows d @ [r]) d)))"
  by (auto simp: rows_put)

lemma distinct_after_update:
  "(\<And>r. key (f r) = key r) \<Longrightarrow> distinct (map key (rows d)) \<Longrightarrow>
   distinct (map key (rows (put (update_row key k f (rows d)) d)))"
  by (simp add: rows_put)

end

section \<open>Refinement of a specification\<close>

text \<open>
  The interface between a component and the abstract machine it implements: every legal command
  takes related states to related states with the same reply. Inside the locale a whole sequence
  of commands is followed, so clients may reason on the abstract machine alone.
\<close>

fun run_commands :: "('cmd \<Rightarrow> 's \<Rightarrow> 'r \<times> 's) \<Rightarrow> 'cmd list \<Rightarrow> 's \<Rightarrow> 'r list \<times> 's" where
  "run_commands step [] s = ([], s)"
| "run_commands step (x # xs) s =
     (let (r, s') = step x s; (rs, s'') = run_commands step xs s' in (r # rs, s''))"

locale refinement =
  fixes related :: "'c \<Rightarrow> 'a \<Rightarrow> bool"
    and legal :: "'cmd \<Rightarrow> bool"
    and impl :: "'cmd \<Rightarrow> 'c \<Rightarrow> 'r \<times> 'c"
    and spec :: "'cmd \<Rightarrow> 'a \<Rightarrow> 'r \<times> 'a"
  assumes step_refines: "related c a \<Longrightarrow> legal x \<Longrightarrow>
    fst (impl x c) = fst (spec x a) \<and> related (snd (impl x c)) (snd (spec x a))"
begin

lemma run_refines:
  "related c a \<Longrightarrow> list_all legal xs \<Longrightarrow>
   fst (run_commands impl xs c) = fst (run_commands spec xs a) \<and>
   related (snd (run_commands impl xs c)) (snd (run_commands spec xs a))"
proof (induction xs arbitrary: c a)
  case (Cons x xs)
  then have "fst (impl x c) = fst (spec x a)" "related (snd (impl x c)) (snd (spec x a))"
    using step_refines by simp_all
  with Cons.IH Cons.prems(2) show ?case
    by (simp add: case_prod_unfold Let_def)
qed simp

end

end
