(* ===== verification/JsValue.thy ===== *)
theory JsValue
  imports Prelude
begin

text \<open>
  The JavaScript values the program passes around as JSON: their datatype, the coercions the
  sources use (\<open>String\<close>, truthiness, \<open>trim\<close>, \<open>parseInt\<close>), \<open>JSON.stringify\<close> on strings and
  numbers, and \<open>canonicalJson\<close> of \<open>src/builder/contracts.js\<close>, whose output is hashed. Numbers
  are the integers (every number the modelled code computes with is one); a string is the
  list of its code units below 256. The main results: \<open>canonicalJson\<close> ignores the order of
  object keys and is otherwise injective.
\<close>

section \<open>Values\<close>

datatype js =
    JNull
  | JBool bool
  | JNum int
  | JStr string
  | JArr "js list"
  | JObj "(string \<times> js) list"

text \<open>Property access: \<open>None\<close> is \<open>undefined\<close>.\<close>

fun js_get :: "js \<Rightarrow> string \<Rightarrow> js option" where
  "js_get (JObj kvs) k = map_of kvs k"
| "js_get _ k = None"

fun js_truthy :: "js \<Rightarrow> bool" where
  "js_truthy JNull = False"
| "js_truthy (JBool b) = b"
| "js_truthy (JNum n) = (n \<noteq> 0)"
| "js_truthy (JStr s) = (s \<noteq> [])"
| "js_truthy _ = True"

definition opt_truthy :: "js option \<Rightarrow> bool" where
  "opt_truthy v = (case v of None \<Rightarrow> False | Some x \<Rightarrow> js_truthy x)"

definition js_of_opt :: "('a \<Rightarrow> js) \<Rightarrow> 'a option \<Rightarrow> js" where
  "js_of_opt f x = (case x of None \<Rightarrow> JNull | Some y \<Rightarrow> f y)"

abbreviation jstr_opt :: "string option \<Rightarrow> js" where
  "jstr_opt \<equiv> js_of_opt JStr"

section \<open>Strings and numbers\<close>

definition digit_char :: "nat \<Rightarrow> char" where
  "digit_char d = char_of (48 + d)"

definition is_digit :: "char \<Rightarrow> bool" where
  "is_digit c \<longleftrightarrow> 48 \<le> (of_char c :: nat) \<and> (of_char c :: nat) \<le> 57"

fun show_nat :: "nat \<Rightarrow> string" where
  "show_nat n = (if n < 10 then [digit_char n] else show_nat (n div 10) @ [digit_char (n mod 10)])"

declare show_nat.simps [simp del]

definition show_int :: "int \<Rightarrow> string" where
  "show_int i = (if i < 0 then CHR ''-'' # show_nat (nat (- i)) else show_nat (nat i))"

definition join_with :: "string \<Rightarrow> string list \<Rightarrow> string" where
  "join_with sep ss = (case ss of [] \<Rightarrow> [] | x # xs \<Rightarrow> x @ concat (map (\<lambda>y. sep @ y) xs))"

text \<open>White space that \<open>String.prototype.trim\<close> removes, below 256.\<close>

definition is_space :: "char \<Rightarrow> bool" where
  "is_space c \<longleftrightarrow> (of_char c :: nat) \<in> {9, 10, 11, 12, 13, 32, 160}"

definition trim :: "string \<Rightarrow> string" where
  "trim s = rev (dropWhile is_space (rev (dropWhile is_space s)))"

text \<open>\<open>Number.parseInt(s, 10)\<close>; \<open>None\<close> is \<open>NaN\<close>.\<close>

definition digits_value :: "string \<Rightarrow> nat" where
  "digits_value ds = foldl (\<lambda>a c. 10 * a + (of_char c - 48)) 0 ds"

definition parseInt10 :: "string \<Rightarrow> int option" where
  "parseInt10 s =
     (let t = dropWhile is_space s;
          neg = (case t of c # _ \<Rightarrow> c = CHR ''-'' | [] \<Rightarrow> False);
          u = (case t of c # cs \<Rightarrow> if c = CHR ''-'' \<or> c = CHR ''+'' then cs else t | [] \<Rightarrow> t);
          ds = takeWhile is_digit u
      in if ds = [] then None
         else Some (if neg then - int (digits_value ds) else int (digits_value ds)))"

text \<open>\<open>String(v)\<close>.\<close>

fun js_String :: "js \<Rightarrow> string" where
  "js_String JNull = ''null''"
| "js_String (JBool b) = (if b then ''true'' else ''false'')"
| "js_String (JNum n) = show_int n"
| "js_String (JStr s) = s"
| "js_String (JArr xs) =
     join_with '','' (map (\<lambda>x. if x = JNull then [] else js_String x) xs)"
| "js_String (JObj kvs) = ''[object Object]''"

definition opt_String :: "js option \<Rightarrow> string" where
  "opt_String v = (case v of None \<Rightarrow> ''undefined'' | Some x \<Rightarrow> js_String x)"

definition hex_char :: "nat \<Rightarrow> char" where
  "hex_char d = (if d < 10 then char_of (48 + d) else char_of (87 + d))"

text \<open>One character of a JSON string literal.\<close>

definition json_escape :: "char \<Rightarrow> string" where
  "json_escape c =
     (let n = (of_char c :: nat) in
      if n = 34 then [CHR 0x5C, CHR 0x22]
      else if n = 92 then [CHR 0x5C, CHR 0x5C]
      else if n = 8 then [CHR 0x5C, CHR ''b'']
      else if n = 12 then [CHR 0x5C, CHR ''f'']
      else if n = 10 then [CHR 0x5C, CHR ''n'']
      else if n = 13 then [CHR 0x5C, CHR ''r'']
      else if n = 9 then [CHR 0x5C, CHR ''t'']
      else if n < 32 then [CHR 0x5C, CHR ''u'', CHR ''0'', CHR ''0'', hex_char (n div 16), hex_char (n mod 16)]
      else [c])"

definition json_quote :: "string \<Rightarrow> string" where
  "json_quote s = CHR 0x22 # concat (map json_escape s) @ [CHR 0x22]"

text \<open>\<open>JSON.stringify\<close> without indentation: keys in insertion order.\<close>

fun json_stringify :: "js \<Rightarrow> string" where
  "json_stringify JNull = ''null''"
| "json_stringify (JBool b) = (if b then ''true'' else ''false'')"
| "json_stringify (JNum n) = show_int n"
| "json_stringify (JStr s) = json_quote s"
| "json_stringify (JArr xs) = ''['' @ join_with '','' (map json_stringify xs) @ '']''"
| "json_stringify (JObj kvs) =
     ''{'' @ join_with '','' (map (\<lambda>(k, v). json_quote k @ '':'' @ json_stringify v) kvs) @ ''}''"

section \<open>canonicalJson\<close>

text \<open>The members are rendered first and then put in key order, which gives the same text.\<close>

fun canonicalJson :: "js \<Rightarrow> string" where
  "canonicalJson JNull = ''null''"
| "canonicalJson (JBool b) = json_stringify (JBool b)"
| "canonicalJson (JNum n) = json_stringify (JNum n)"
| "canonicalJson (JStr s) = json_stringify (JStr s)"
| "canonicalJson (JArr xs) = ''['' @ join_with '','' (map canonicalJson xs) @ '']''"
| "canonicalJson (JObj kvs) =
     ''{'' @ join_with '','' (map (\<lambda>(k, t). json_quote k @ '':'' @ t)
              (sort_key fst (map (\<lambda>(k, v). (k, canonicalJson v)) kvs))) @ ''}''"

text \<open>The reference for it: put the keys of every object in order, then stringify.\<close>

fun js_norm :: "js \<Rightarrow> js" where
  "js_norm (JArr xs) = JArr (map js_norm xs)"
| "js_norm (JObj kvs) = JObj (sort_key fst (map (\<lambda>(k, v). (k, js_norm v)) kvs))"
| "js_norm v = v"

lemma insort_key_map_fst:
  "insort_key fst (k, g v) (map (\<lambda>(k, v). (k, g v)) ps) =
   map (\<lambda>(k, v). (k, g v)) (insort_key fst (k, v) ps)"
  by (induction ps) auto

lemma sort_key_map_fst:
  "sort_key fst (map (\<lambda>(k, v). (k, g v)) ps) = map (\<lambda>(k, v). (k, g v)) (sort_key fst ps)"
  by (induction ps) (auto simp: insort_key_map_fst)

lemma map_snd_cong:
  "(\<And>k v. (k, v) \<in> set ps \<Longrightarrow> f v = g v) \<Longrightarrow>
   map (\<lambda>(k, v). (k, f v)) ps = map (\<lambda>(k, v). (k, g v)) ps"
  by auto

theorem canonicalJson_eq_stringify_norm: "canonicalJson v = json_stringify (js_norm v)"
proof (induction v)
  case (JArr xs)
  then show ?case by (simp cong: map_cong)
next
  case (JObj kvs)
  have "map (\<lambda>(k, v). (k, canonicalJson v)) kvs =
        map (\<lambda>(k, t). (k, json_stringify t)) (map (\<lambda>(k, v). (k, js_norm v)) kvs)"
    using JObj by auto
  then show ?case
    by (simp only: canonicalJson.simps js_norm.simps json_stringify.simps sort_key_map_fst)
       (simp add: split_def comp_def)
qed auto

subsection \<open>Injectivity\<close>

definition starts_delim :: "string \<Rightarrow> bool" where
  "starts_delim r \<longleftrightarrow> (case r of [] \<Rightarrow> True | c # _ \<Rightarrow> \<not> is_digit c)"

lemma starts_delim_Nil [simp]: "starts_delim []"
  by (simp add: starts_delim_def)

lemma starts_delim_Cons [simp]: "starts_delim (c # r) \<longleftrightarrow> \<not> is_digit c"
  by (simp add: starts_delim_def)

lemma is_digit_digit_char [simp]: "d < 10 \<Longrightarrow> is_digit (digit_char d)"
  by (auto simp: is_digit_def digit_char_def)

lemma digit_char_value [simp]: "d < 10 \<Longrightarrow> of_char (digit_char d) - 48 = d"
  by (simp add: digit_char_def)

lemma show_nat_digits: "\<forall>c \<in> set (show_nat n). is_digit c"
  by (induction n rule: show_nat.induct) (subst show_nat.simps, auto)

lemma show_nat_nonempty [simp]: "show_nat n \<noteq> []"
  by (subst show_nat.simps) simp

lemma digits_value_snoc: "digits_value (ds @ [c]) = 10 * digits_value ds + (of_char c - 48)"
  by (simp add: digits_value_def)

lemma digits_value_show: "digits_value (show_nat n) = n"
proof (induction n rule: show_nat.induct)
  case (1 n)
  show ?case
  proof (cases "n < 10")
    case True
    then show ?thesis by (subst show_nat.simps) (simp add: digits_value_def)
  next
    case False
    with 1 show ?thesis by (subst show_nat.simps) (simp add: digits_value_snoc)
  qed
qed

lemma takeWhile_show:
  assumes "starts_delim r"
  shows "takeWhile is_digit (show_nat n @ r) = show_nat n"
  using assms show_nat_digits [of n]
  by (cases r) (auto simp: takeWhile_append2 takeWhile_tail)

lemma show_nat_unique:
  assumes "show_nat n @ r = show_nat m @ q" "starts_delim r" "starts_delim q"
  shows "n = m \<and> r = q"
proof -
  have eq: "show_nat n = show_nat m"
    using assms takeWhile_show by metis
  then have "n = m" by (metis digits_value_show)
  with assms(1) show ?thesis by simp
qed

lemma hd_show_nat: "is_digit (hd (show_nat n))"
  using show_nat_digits [of n] by (simp add: hd_in_set)

lemma minus_not_digit [simp]: "\<not> is_digit CHR ''-''"
  by (simp add: is_digit_def)

lemma show_nat_not_minus: "show_nat n @ r \<noteq> CHR ''-'' # q"
  using hd_show_nat [of n] by (cases "show_nat n") auto

lemma show_int_unique:
  assumes "show_int n @ r = show_int m @ q" "starts_delim r" "starts_delim q"
  shows "n = m \<and> r = q"
proof (cases "n < 0"; cases "m < 0")
  assume "n < 0" "m < 0"
  with assms show_nat_unique [of "nat (- n)" r "nat (- m)" q] show ?thesis
    by (auto simp: show_int_def)
next
  assume "\<not> n < 0" "\<not> m < 0"
  with assms show_nat_unique [of "nat n" r "nat m" q] show ?thesis
    by (auto simp: show_int_def)
qed (use assms show_nat_not_minus in \<open>auto simp: show_int_def dest: sym\<close>)

text \<open>A reader for one escaped character shows that the escapes can be told apart.\<close>

definition hex_value :: "char \<Rightarrow> nat" where
  "hex_value c = (if of_char c < (58 :: nat) then of_char c - 48 else of_char c - 87)"

fun read_escape :: "string \<Rightarrow> (char \<times> string) option" where
  "read_escape [] = None"
| "read_escape (c # r) =
    (if c \<noteq> CHR 0x5C then Some (c, r)
     else case r of
         [] \<Rightarrow> None
       | d # r' \<Rightarrow>
          (if d = CHR 0x22 \<or> d = CHR 0x5C then Some (d, r')
           else if d = CHR ''b'' then Some (CHR 0x08, r')
           else if d = CHR ''f'' then Some (CHR 0x0C, r')
           else if d = CHR ''n'' then Some (CHR 0x0A, r')
           else if d = CHR ''r'' then Some (CHR 0x0D, r')
           else if d = CHR ''t'' then Some (CHR 0x09, r')
           else case r' of
               _ # _ # a # b # q \<Rightarrow> Some (char_of (16 * hex_value a + hex_value b), q)
             | _ \<Rightarrow> None))"

lemma hex_value_char [simp]: "d < 16 \<Longrightarrow> hex_value (hex_char d) = d"
  by (auto simp: hex_value_def hex_char_def)

lemma char_literal: "c = d \<longleftrightarrow> of_char c = (of_char d :: nat)"
  by simp

lemma read_escape_json: "read_escape (json_escape c @ r) = Some (c, r)"
proof -
  let ?n = "of_char c :: nat"
  consider "?n = 34" | "?n = 92" | "?n = 8" | "?n = 12" | "?n = 10" | "?n = 13" | "?n = 9"
    | "?n < 32" "?n \<notin> {8, 9, 10, 12, 13}" | "32 \<le> ?n" "?n \<noteq> 34" "?n \<noteq> 92"
    by fastforce
  then show ?thesis
  proof cases
    case 8
    then have "?n div 16 < 16" by simp
    with 8 show ?thesis by (simp add: json_escape_def Let_def)
  next
    case 9
    then have "c \<noteq> CHR 0x5C" by auto
    with 9 show ?thesis by (simp add: json_escape_def Let_def)
  qed (simp add: json_escape_def Let_def, simp add: char_literal)+
qed

lemma json_escape_unique: "json_escape c @ r = json_escape d @ q \<Longrightarrow> c = d \<and> r = q"
  by (metis read_escape_json option.inject prod.inject)

lemma json_escape_not_quote: "json_escape c @ r \<noteq> CHR 0x22 # q"
  by (auto simp: json_escape_def Let_def)

lemma quoted_unique:
  "concat (map json_escape s) @ CHR 0x22 # r = concat (map json_escape t) @ CHR 0x22 # q \<Longrightarrow>
   s = t \<and> r = q"
proof (induction s arbitrary: t)
  case Nil
  then show ?case
    using json_escape_not_quote [of "hd t"] by (cases t) (auto, metis)
next
  case (Cons c s)
  show ?case
  proof (cases t)
    case Nil
    with Cons.prems json_escape_not_quote show ?thesis by auto
  next
    case (Cons d t')
    with Cons.prems have
      "json_escape c @ (concat (map json_escape s) @ CHR 0x22 # r) =
       json_escape d @ (concat (map json_escape t') @ CHR 0x22 # q)"
      by simp
    from json_escape_unique [OF this] Cons.IH [of t'] Cons show ?thesis by simp
  qed
qed

lemma json_quote_unique: "json_quote s @ r = json_quote t @ q \<Longrightarrow> s = t \<and> r = q"
  using quoted_unique [of s r t q] by (simp add: json_quote_def)

text \<open>Elements of a list, each preceded by a comma.\<close>

definition commas :: "string list \<Rightarrow> string" where
  "commas ss = concat (map (\<lambda>y. CHR '','' # y) ss)"

lemma join_with_commas: "join_with '','' (x # xs) = x @ commas xs"
  by (simp add: join_with_def commas_def cong: map_cong)

lemma commas_Cons [simp]: "commas (x # xs) = CHR '','' # x @ commas xs"
  by (simp add: commas_def)

lemma commas_Nil [simp]: "commas [] = []"
  by (simp add: commas_def)

lemma not_digit_delims [simp]:
  "\<not> is_digit CHR '',''" "\<not> is_digit CHR '']''" "\<not> is_digit CHR ''}''"
  by (simp_all add: is_digit_def)

lemma commas_delim: "\<not> is_digit c \<Longrightarrow> starts_delim (commas ss @ c # r)"
  by (cases ss) auto

text \<open>If each element's text can be told apart, so can the joined text with its closing bracket.\<close>

lemma commas_unique:
  assumes "\<And>x y r q. x \<in> set xs \<Longrightarrow> f x @ r = f y @ q \<Longrightarrow> starts_delim r \<Longrightarrow> starts_delim q \<Longrightarrow>
             x = y \<and> r = q"
    and "commas (map f xs) @ c # r = commas (map f ys) @ c # q"
    and "c \<noteq> CHR '',''" and "\<not> is_digit c"
  shows "xs = ys \<and> r = q"
  using assms
proof (induction xs arbitrary: ys)
  case Nil
  then show ?case by (cases ys) auto
next
  case (Cons x xs)
  then obtain y ys' where ys: "ys = y # ys'" by (cases ys) auto
  with Cons.prems have "f x @ (commas (map f xs) @ c # r) = f y @ (commas (map f ys') @ c # q)"
    by simp
  with Cons.prems(1,4) commas_delim have
    "x = y \<and> commas (map f xs) @ c # r = commas (map f ys') @ c # q"
    by (metis list.set_intros(1))
  with Cons.IH [of ys'] Cons.prems ys show ?case by auto
qed

lemma joined_unique:
  assumes "\<And>x y r q. x \<in> set xs \<Longrightarrow> f x @ r = f y @ q \<Longrightarrow> starts_delim r \<Longrightarrow> starts_delim q \<Longrightarrow>
             x = y \<and> r = q"
    and "join_with '','' (map f xs) @ c # r = join_with '','' (map f ys) @ c # q"
    and "c \<noteq> CHR '',''" and "\<not> is_digit c"
    and "\<And>x r. f x @ r \<noteq> c # q" and "\<And>x q. f x @ q \<noteq> c # r"
  shows "xs = ys \<and> r = q"
proof (cases xs; cases ys)
  fix x xs' y ys'
  assume xs: "xs = x # xs'" and ys: "ys = y # ys'"
  with assms(2) have "commas (map f xs) @ c # r = commas (map f ys) @ c # q"
    by (simp add: join_with_commas)
  with assms(1,3,4) show ?thesis using commas_unique [of xs f c r ys q] by blast
next
  assume "xs = []" "ys = []"
  with assms(2) show ?thesis by (simp add: join_with_def)
next
  fix y ys' assume "xs = []" "ys = y # ys'"
  with assms(2,6) show ?thesis by (auto simp: join_with_def dest: sym)
next
  fix x xs' assume "xs = x # xs'" "ys = []"
  with assms(2,5) show ?thesis by (auto simp: join_with_def)
qed

lemma json_stringify_first:
  "json_stringify v \<noteq> [] \<and> (hd (json_stringify v) = (case v of
      JNull \<Rightarrow> CHR ''n'' | JBool b \<Rightarrow> (if b then CHR ''t'' else CHR ''f'')
    | JNum n \<Rightarrow> hd (show_int n) | JStr s \<Rightarrow> CHR 0x22 | JArr xs \<Rightarrow> CHR ''['' | JObj kvs \<Rightarrow> CHR ''{''))"
  by (cases v) (auto simp: json_quote_def show_int_def)

lemma hd_show_int: "is_digit (hd (show_int n)) \<or> hd (show_int n) = CHR ''-''"
  using hd_show_nat by (simp add: show_int_def)

lemma show_int_hd_other:
  "hd (show_int n) \<noteq> CHR ''n''" "hd (show_int n) \<noteq> CHR ''t''" "hd (show_int n) \<noteq> CHR ''f''"
  "hd (show_int n) \<noteq> CHR 0x22" "hd (show_int n) \<noteq> CHR ''[''" "hd (show_int n) \<noteq> CHR ''{''"
  "hd (show_int n) \<noteq> CHR '']''" "hd (show_int n) \<noteq> CHR ''}''"
  using hd_show_int [of n] by (auto simp: is_digit_def)

lemma json_stringify_same_head:
  assumes "json_stringify a @ r = json_stringify b @ q"
  shows "hd (json_stringify a) = hd (json_stringify b)"
  using assms json_stringify_first [of a] json_stringify_first [of b]
  by (metis hd_append2)

lemmas show_int_hd_others = show_int_hd_other show_int_hd_other [THEN not_sym]

fun same_kind :: "js \<Rightarrow> js \<Rightarrow> bool" where
  "same_kind JNull JNull = True"
| "same_kind (JBool _) (JBool _) = True"
| "same_kind (JNum _) (JNum _) = True"
| "same_kind (JStr _) (JStr _) = True"
| "same_kind (JArr _) (JArr _) = True"
| "same_kind (JObj _) (JObj _) = True"
| "same_kind _ _ = False"

lemma json_stringify_kind:
  assumes "json_stringify a @ r = json_stringify b @ q"
  shows "same_kind a b"
  using json_stringify_same_head [OF assms]
  by (cases a; cases b) (simp_all add: json_quote_def show_int_hd_others split: if_splits)

lemma json_stringify_not_close:
  "json_stringify v @ r \<noteq> CHR '']'' # q"
proof
  assume eq: "json_stringify v @ r = CHR '']'' # q"
  with json_stringify_first [of v] have "hd (json_stringify v) = CHR '']''"
    by (metis hd_append2 list.sel(1))
  with json_stringify_first [of v] show False
    by (cases v) (simp_all add: show_int_hd_others split: if_splits)
qed

definition member_text :: "string \<times> js \<Rightarrow> string" where
  "member_text kv = json_quote (fst kv) @ CHR '':'' # json_stringify (snd kv)"

lemma json_stringify_JObj:
  "json_stringify (JObj kvs) = CHR ''{'' # join_with '','' (map member_text kvs) @ [CHR ''}'']"
  by (simp add: member_text_def split_def cong: map_cong)

lemma json_stringify_unique:
  "json_stringify a @ r = json_stringify b @ q \<Longrightarrow> starts_delim r \<Longrightarrow> starts_delim q \<Longrightarrow>
   a = b \<and> r = q"
proof (induction a arbitrary: b r q)
  case (JArr xs)
  from json_stringify_kind [OF JArr.prems(1)] obtain ys where b: "b = JArr ys"
    by (cases b) auto
  have "xs = ys \<and> r = q"
    by (rule joined_unique [where f = json_stringify and c = "CHR '']''"])
       (use JArr b json_stringify_not_close in auto)
  with b show ?case by simp
next
  case (JObj kvs)
  from json_stringify_kind [OF JObj.prems(1)] obtain lvs where b: "b = JObj lvs"
    by (cases b) auto
  have step: "x = y \<and> r = q"
    if "x \<in> set kvs" "member_text x @ r = member_text y @ q" "starts_delim r" "starts_delim q"
    for x y r q
  proof -
    from that(2) json_quote_unique [of "fst x" _ "fst y"] have k: "fst x = fst y"
      and v: "json_stringify (snd x) @ r = json_stringify (snd y) @ q"
      by (auto simp: member_text_def)
    from JObj.IH [OF that(1) _ v that(3,4)] have "snd x = snd y \<and> r = q"
      by (cases x) auto
    with k show ?thesis by (simp add: prod_eq_iff)
  qed
  have "kvs = lvs \<and> r = q"
  proof (rule joined_unique [where f = member_text and c = "CHR ''}''"])
    show "x = y \<and> r = q"
      if "x \<in> set kvs" "member_text x @ r = member_text y @ q" "starts_delim r" "starts_delim q"
      for x y r q
      using that by (rule step)
    show "member_text x @ r \<noteq> CHR ''}'' # q" for x r q
      by (simp add: member_text_def json_quote_def)
    then show "member_text x @ q \<noteq> CHR ''}'' # r" for x q .
    show "join_with '','' (map member_text kvs) @ CHR ''}'' # r =
          join_with '','' (map member_text lvs) @ CHR ''}'' # q"
      using JObj.prems(1) by (simp only: b json_stringify_JObj) simp
  qed simp_all
  with b show ?case by simp
next
  case (JNum n)
  from json_stringify_kind [OF JNum.prems(1)] obtain m where b: "b = JNum m"
    by (cases b) auto
  with JNum show_int_unique [of n r m q] show ?case by simp
next
  case (JStr s)
  from json_stringify_kind [OF JStr.prems(1)] obtain t where b: "b = JStr t"
    by (cases b) auto
  with JStr json_quote_unique [of s r t q] show ?case by simp
next
  case JNull
  from json_stringify_kind [OF JNull.prems(1)] have "b = JNull"
    by (cases b) auto
  with JNull show ?case by simp
next
  case (JBool c)
  from json_stringify_kind [OF JBool.prems(1)] obtain d where b: "b = JBool d"
    by (cases b) auto
  with JBool show ?case by (auto split: if_splits)
qed

theorem json_stringify_inj: "json_stringify a = json_stringify b \<Longrightarrow> a = b"
  using json_stringify_unique [of a "[]" b "[]"] by simp

lemma canonicalJson_iff: "canonicalJson a = canonicalJson b \<longleftrightarrow> js_norm a = js_norm b"
  by (metis canonicalJson_eq_stringify_norm json_stringify_inj)

end
