(* ===== verification/Regex.thy ===== *)
theory Regex
  imports JsValue
begin

text \<open>
  The part of JavaScript's regular expressions the sources use: character classes, sequence,
  ordered alternation, greedy repetition, word boundaries, capture groups and back references,
  matched by backtracking. \<open>results r st\<close> lists the ways \<open>r\<close> can match at a position in the
  order the engine tries them, so its first element is the engine's match. \<open>replaceAll\<close> is
  \<open>String.prototype.replace\<close> with a global pattern.
\<close>

datatype rx =
    Eps
  | Cls "char \<Rightarrow> bool"
  | Seq rx rx
  | Alt rx rx
  | Star rx
  | WordB
  | Grp nat rx
  | Ref nat

text \<open>A position: what was read (last character first), what is left, the groups captured.\<close>

type_synonym mst = "string \<times> string \<times> (nat \<times> string) list"

definition is_word :: "char \<Rightarrow> bool" where
  "is_word c \<longleftrightarrow> (let n = (of_char c :: nat) in
     48 \<le> n \<and> n \<le> 57 \<or> 65 \<le> n \<and> n \<le> 90 \<or> 97 \<le> n \<and> n \<le> 122 \<or> n = 95)"

definition head_is_word :: "string \<Rightarrow> bool" where
  "head_is_word s = (case s of [] \<Rightarrow> False | c # _ \<Rightarrow> is_word c)"

text \<open>Greedy repetition: an iteration that reads nothing is not tried again.\<close>

primrec star_iter :: "nat \<Rightarrow> (mst \<Rightarrow> mst list) \<Rightarrow> mst \<Rightarrow> mst list" where
  "star_iter 0 f st = [st]"
| "star_iter (Suc n) f st =
     concat (map (star_iter n f)
       (filter (\<lambda>st'. length (fst (snd st')) < length (fst (snd st))) (f st))) @ [st]"

definition lit_match :: "string \<Rightarrow> mst \<Rightarrow> mst list" where
  "lit_match w st = (case st of (pre, post, g) \<Rightarrow>
     if take (length w) post = w then [(rev w @ pre, drop (length w) post, g)] else [])"

primrec results :: "rx \<Rightarrow> mst \<Rightarrow> mst list" where
  "results Eps st = [st]"
| "results (Cls p) st = (case st of (pre, post, g) \<Rightarrow>
     (case post of [] \<Rightarrow> [] | c # cs \<Rightarrow> if p c then [(c # pre, cs, g)] else []))"
| "results (Seq a b) st = concat (map (results b) (results a st))"
| "results (Alt a b) st = results a st @ results b st"
| "results (Star a) st = star_iter (length (fst (snd st))) (results a) st"
| "results WordB st = (case st of (pre, post, g) \<Rightarrow>
     if head_is_word pre \<noteq> head_is_word post then [st] else [])"
| "results (Grp n a) st = (case st of (pre, post, g) \<Rightarrow>
     map (\<lambda>(pre', post', g'). (pre', post', (n, rev (take (length pre' - length pre) pre')) # g'))
       (results a st))"
| "results (Ref n) st = (case st of (pre, post, g) \<Rightarrow>
     lit_match (case map_of g n of None \<Rightarrow> [] | Some w \<Rightarrow> w) st)"

definition char_is :: "char \<Rightarrow> rx" where
  "char_is c = Cls (\<lambda>d. d = c)"

primrec lit :: "string \<Rightarrow> rx" where
  "lit [] = Eps"
| "lit (c # cs) = Seq (char_is c) (lit cs)"

definition to_lower :: "char \<Rightarrow> char" where
  "to_lower c = (let n = (of_char c :: nat) in if 65 \<le> n \<and> n \<le> 90 then char_of (n + 32) else c)"

text \<open>A literal under the \<open>i\<close> flag.\<close>

primrec lit_i :: "string \<Rightarrow> rx" where
  "lit_i [] = Eps"
| "lit_i (c # cs) = Seq (Cls (\<lambda>d. to_lower d = to_lower c)) (lit_i cs)"

primrec alts :: "rx \<Rightarrow> rx list \<Rightarrow> rx" where
  "alts r [] = r"
| "alts r (q # qs) = Alt r (alts q qs)"

definition plus :: "rx \<Rightarrow> rx" where
  "plus r = Seq r (Star r)"

primrec times :: "nat \<Rightarrow> rx \<Rightarrow> rx" where
  "times 0 r = Eps"
| "times (Suc n) r = Seq r (times n r)"

text \<open>\<open>/^(?:r)$/.test(s)\<close>.\<close>

definition full_match :: "rx \<Rightarrow> string \<Rightarrow> bool" where
  "full_match r s = list_ex (\<lambda>(pre, post, g). post = []) (results r ([], s, []))"

fun replace_go :: "rx \<Rightarrow> (string \<Rightarrow> (nat \<Rightarrow> string) \<Rightarrow> string) \<Rightarrow> string \<Rightarrow> string \<Rightarrow> string" where
  "replace_go r f pre post =
     (case post of
        [] \<Rightarrow> []
      | c # cs \<Rightarrow>
         (case results r (pre, post, []) of
            (pre', post', g) # _ \<Rightarrow>
              (if length post' < length post
               then f (rev (take (length pre' - length pre) pre'))
                      (\<lambda>n. case map_of g n of None \<Rightarrow> [] | Some w \<Rightarrow> w)
                    @ replace_go r f pre' post'
               else c # replace_go r f (c # pre) cs)
          | [] \<Rightarrow> c # replace_go r f (c # pre) cs))"

declare replace_go.simps [simp del]

definition replaceAll :: "rx \<Rightarrow> (string \<Rightarrow> (nat \<Rightarrow> string) \<Rightarrow> string) \<Rightarrow> string \<Rightarrow> string" where
  "replaceAll r f s = replace_go r f [] s"

section \<open>Matching reads a prefix\<close>

definition whole :: "mst \<Rightarrow> string" where
  "whole st = rev (fst st) @ fst (snd st)"

lemma star_iter_whole:
  assumes "\<And>st st'. st' \<in> set (f st) \<Longrightarrow> whole st' = whole st"
    and "st' \<in> set (star_iter n f st)"
  shows "whole st' = whole st"
  using assms(2)
proof (induction n arbitrary: st)
  case (Suc n)
  then consider "st' = st" | q where "q \<in> set (f st)" "st' \<in> set (star_iter n f q)"
    by auto
  then show ?case
    using Suc.IH assms(1) by cases metis+
qed simp

text \<open>Whatever matches, what was read followed by what is left is the input.\<close>

lemma results_whole: "st' \<in> set (results r st) \<Longrightarrow> whole st' = whole st"
proof (induction r arbitrary: st st')
  case (Cls p)
  then show ?case by (auto simp: whole_def split: prod.splits list.splits if_splits)
next
  case (Seq a b)
  then obtain q where "q \<in> set (results a st)" "st' \<in> set (results b q)" by auto
  with Seq.IH show ?case by metis
next
  case (Star a)
  then show ?case using star_iter_whole [of "results a" st'] by simp
next
  case (Ref n)
  then show ?case
    by (auto simp: lit_match_def whole_def split: prod.splits option.splits if_splits)
       (metis append_take_drop_id)
next
  case (Grp n a)
  then show ?case by (fastforce simp: whole_def split: prod.splits)
qed (auto split: prod.splits if_splits)

text \<open>With no match anywhere, replacing changes nothing.\<close>

lemma replace_go_no_match:
  "(\<And>pre post. results r (pre, post, []) = []) \<Longrightarrow> replace_go r f pre post = post"
proof (induction post arbitrary: pre)
  case Nil
  then show ?case by (simp add: replace_go.simps)
next
  case (Cons c cs)
  then show ?case by (subst replace_go.simps) simp
qed

end
