(* ===== verification/Redact.thy ===== *)
theory Redact
  imports Regex
begin

text \<open>
  \<open>src/builder/secrets-redact.js\<close>: the patterns for secret-bearing keys and values, and the
  redaction of strings and of nested JSON values that the stores apply before they write an
  event payload, evidence or a list of checks. Shown: no value survives under a sensitive key
  at any depth, and the nesting of what is written is bounded.
\<close>

definition REDACTED :: string where
  "REDACTED = ''[REDACTED]''"

section \<open>Patterns\<close>

definition not_newline :: "char \<Rightarrow> bool" where
  "not_newline c \<longleftrightarrow> (of_char c :: nat) \<notin> {10, 13}"

definition any_chars :: rx where
  "any_chars = Star (Cls not_newline)"

definition SENSITIVE_KEY_RE :: rx where
  "SENSITIVE_KEY_RE = alts (lit_i ''CURSOR_API_KEY'')
    [lit_i ''CODEX_API_KEY'', lit_i ''OPENAI_API_KEY'', lit_i ''GITHUB_TOKEN'', lit_i ''GH_TOKEN'',
     lit_i ''DATABASE_URL'', Seq any_chars (lit_i ''_DATABASE_URL''),
     lit_i ''JARVIS_BUILDER_DATABASE_URL'', lit_i ''PGPASSWORD'', lit_i ''PGUSER'', lit_i ''PGHOST'',
     lit_i ''PGDATABASE'', Seq (lit_i ''POSTGRES_'') any_chars, Seq (lit_i ''GHL_'') any_chars,
     Seq (lit_i ''HIGHLEVEL_'') any_chars, Seq (lit_i ''META_'') any_chars,
     Seq (lit_i ''FACEBOOK_'') any_chars, Seq (lit_i ''STRIPE_'') any_chars,
     Seq (lit_i ''PAYMENT_'') any_chars, Seq (lit_i ''PAYPAL_'') any_chars,
     Seq (lit_i ''TWILIO_'') any_chars,
     Seq any_chars (alts (lit_i ''_KEY'') [lit_i ''_TOKEN'', lit_i ''_SECRET'', lit_i ''_PASSWORD'',
       lit_i ''_PASSWD'', Seq (lit_i ''_CREDENTIAL'') (Alt (lit_i ''S'') Eps)])]"

definition is_alnum :: "char \<Rightarrow> bool" where
  "is_alnum c \<longleftrightarrow> is_word c \<and> c \<noteq> CHR ''_''"

definition SENSITIVE_VALUE_HINT_RE :: rx where
  "SENSITIVE_VALUE_HINT_RE = Seq WordB (Seq
    (alts (Seq (lit ''crsr_'') (plus (Cls is_word)))
      [Seq (lit ''sk-'') (Seq (times 10 (Cls (\<lambda>c. is_word c \<or> c = CHR ''-''))) (Star (Cls (\<lambda>c. is_word c \<or> c = CHR ''-'')))),
       Seq (lit ''ghp_'') (plus (Cls is_word)),
       Seq (lit ''github_pat_'') (plus (Cls is_word)),
       Seq (lit ''ghl_'') (plus (Cls is_word)),
       Seq (lit ''xox'') (Seq (Cls (\<lambda>c. c \<in> set ''baprs'')) (Seq (lit ''-'') (plus (Cls (\<lambda>c. is_alnum c \<or> c = CHR ''-'')))))])
    WordB)"

text \<open>The names shared by the two key/value patterns (both carry the \<open>i\<close> flag).\<close>

definition secret_name :: rx where
  "secret_name = alts (lit_i ''CURSOR_API_KEY'')
    [lit_i ''CODEX_API_KEY'', lit_i ''OPENAI_API_KEY'', lit_i ''GITHUB_TOKEN'', lit_i ''GH_TOKEN'',
     Seq (plus (Cls is_word)) (alts (lit_i ''_KEY'') [lit_i ''_TOKEN'', lit_i ''_SECRET'', lit_i ''_PASSWORD''])]"

definition spaces :: rx where
  "spaces = Star (Cls is_space)"

definition KEY_VALUE_RE :: rx where
  "KEY_VALUE_RE = Seq (Grp 1 (Seq secret_name (Seq spaces (Seq (Cls (\<lambda>c. c = CHR ''='' \<or> c = CHR '':'')) spaces))))
    (Seq (Grp 2 (Alt (Cls (\<lambda>c. c = CHR 0x22 \<or> c = CHR 0x27)) Eps))
    (Seq (Grp 3 (plus (Cls (\<lambda>c. \<not> (c = CHR 0x22 \<or> c = CHR 0x27 \<or> c = CHR '','' \<or> is_space c \<or> c = CHR ''}'')))))
         (Grp 4 (Ref 2))))"

definition JSON_VALUE_RE :: rx where
  "JSON_VALUE_RE = Seq (Grp 1 (Seq (char_is (CHR 0x22)) (Seq secret_name (Seq (char_is (CHR 0x22)) (Seq spaces (Seq (char_is (CHR '':'')) spaces))))))
    (Seq (Grp 2 (char_is (CHR 0x22)))
    (Seq (Star (Alt (Seq (char_is (CHR 0x5C)) (Cls not_newline)) (Cls (\<lambda>c. c \<noteq> CHR 0x22 \<and> c \<noteq> CHR 0x5C))))
         (Grp 3 (char_is (CHR 0x22)))))"

definition SECRET_PROPERTY_RE :: rx where
  "SECRET_PROPERTY_RE = alts (lit_i ''apiKey'')
    [lit_i ''api_key'', lit_i ''token'', lit_i ''accessToken'', lit_i ''authorization'',
     lit_i ''password'', lit_i ''secret'', lit_i ''databaseUrl'', lit_i ''connectionString'']"

section \<open>Redaction\<close>

definition isSensitiveKey :: "string \<Rightarrow> bool" where
  "isSensitiveKey key = full_match SENSITIVE_KEY_RE key"

definition redactString :: "string list \<Rightarrow> string \<Rightarrow> string" where
  "redactString extraSecrets text =
     (let out = foldl (\<lambda>out secret. if 4 \<le> length secret
                  then replaceAll (lit secret) (\<lambda>_ _. REDACTED) out else out) text extraSecrets;
          out = replaceAll SENSITIVE_VALUE_HINT_RE (\<lambda>_ _. REDACTED) out;
          out = replaceAll KEY_VALUE_RE (\<lambda>_ g. g 1 @ g 2 @ REDACTED @ g 4) out
      in replaceAll JSON_VALUE_RE (\<lambda>_ g. g 1 @ g 2 @ REDACTED @ g 3) out)"

definition hidden_key :: "string \<Rightarrow> bool" where
  "hidden_key k \<longleftrightarrow> isSensitiveKey k \<or> full_match SECRET_PROPERTY_RE k"

fun redactSecrets :: "string list \<Rightarrow> nat \<Rightarrow> js \<Rightarrow> js" where
  "redactSecrets xs depth v =
     (if 30 < depth then JStr REDACTED
      else case v of
        JStr s \<Rightarrow> JStr (redactString xs s)
      | JArr vs \<Rightarrow> JArr (map (redactSecrets xs (Suc depth)) vs)
      | JObj kvs \<Rightarrow> JObj (map (\<lambda>(k, w).
          if isSensitiveKey k then (k, JStr REDACTED)
          else if full_match SECRET_PROPERTY_RE k then (k, JStr REDACTED)
          else (k, redactSecrets xs (Suc depth) w)) kvs)
      | _ \<Rightarrow> v)"

declare redactSecrets.simps [simp del]

text \<open>
  \<open>safeJsonStringify\<close> and the later \<open>JSON.parse\<close> of the row: on the values of \<^typ>\<open>js\<close>
  serialisation never fails and parsing gives the value back, so what a reader of the row sees
  is the redacted value.
\<close>

definition durableJson :: "js \<Rightarrow> js" where
  "durableJson v = redactSecrets [] 0 v"

section \<open>What redaction guarantees\<close>

fun secrets_hidden :: "js \<Rightarrow> bool" where
  "secrets_hidden (JArr vs) = list_all secrets_hidden vs"
| "secrets_hidden (JObj kvs) =
     list_all (\<lambda>(k, v). (hidden_key k \<longrightarrow> v = JStr REDACTED) \<and> secrets_hidden v) kvs"
| "secrets_hidden _ = True"

fun js_depth :: "js \<Rightarrow> nat" where
  "js_depth (JArr vs) = Suc (fold max (map js_depth vs) 0)"
| "js_depth (JObj kvs) = Suc (fold max (map (\<lambda>(k, v). js_depth v) kvs) 0)"
| "js_depth _ = 0"

lemma redactSecrets_hides: "secrets_hidden (redactSecrets xs d v)"
proof (induction v arbitrary: d)
  case (JArr vs)
  then show ?case by (subst redactSecrets.simps) (simp add: list_all_iff)
next
  case (JObj kvs)
  then show ?case
    by (subst redactSecrets.simps) (auto simp: list_all_iff hidden_key_def split: if_splits)
qed (subst redactSecrets.simps, simp)+

lemma fold_max_le: "fold max ns a \<le> b \<longleftrightarrow> a \<le> b \<and> (\<forall>n \<in> set ns. n \<le> (b :: nat))"
  by (induction ns arbitrary: a) auto

lemma redactSecrets_depth: "js_depth (redactSecrets xs d v) \<le> 31 - d"
proof (induction v arbitrary: d)
  case (JArr vs)
  show ?case
  proof (cases "30 < d")
    case False
    then have "31 - Suc d = 30 - d" "31 - d = Suc (30 - d)" by simp_all
    with JArr [where d = "Suc d"] False show ?thesis
      by (subst redactSecrets.simps) (auto simp: fold_max_le)
  qed (simp add: redactSecrets.simps)
next
  case (JObj kvs)
  show ?case
  proof (cases "30 < d")
    case False
    then have "31 - Suc d = 30 - d" "31 - d = Suc (30 - d)" by simp_all
    with JObj [where d = "Suc d"] False show ?thesis
      by (subst redactSecrets.simps) (fastforce simp: fold_max_le)
  qed (simp add: redactSecrets.simps)
qed (subst redactSecrets.simps, simp)+

text \<open>
  C35. What the stores write down holds no raw value under a sensitive key, at any nesting
  depth, and its own nesting is at most 31, however deep the value handed in was.
\<close>

theorem durableJson_safe:
  "secrets_hidden (durableJson v) \<and> js_depth (durableJson v) \<le> 31"
  using redactSecrets_hides redactSecrets_depth [of "[]" 0 v] by (simp add: durableJson_def)

end
