(* ===== verification/Contracts.thy ===== *)
theory Contracts
  imports Redact
begin

text \<open>
  \<open>src/builder/contracts.js\<close> and the error classes of the Builder: the status enumerations,
  the shape checks on hashes, the normalisation of a tool manifest and the payload whose
  SHA-256 binds a locked task. Shown: a manifest is normalised once and for all, and the
  payload's canonical text determines every field of the finish line.
\<close>

section \<open>Enumerations\<close>

datatype task_status = T_DRAFT | T_LOCKED | T_RUNNING | T_AWAITING_APPROVAL | T_VERIFIED
  | T_ACCEPTED | T_BLOCKED | T_NEEDS_OWNER | T_FAILED | T_CANCELLED

datatype run_status = R_PENDING | R_LAUNCHED | R_RUNNING | R_SUCCEEDED | R_FAILED
  | R_CANCELLED | R_STALE

datatype approval_status = A_PENDING | A_APPROVED | A_REJECTED | A_INVALIDATED | A_CONSUMED

datatype candidate_status = C_PROPOSED | C_VERIFYING | C_VERIFIED | C_REJECTED | C_SUPERSEDED

datatype failure_class = F_WORKER_CRASH | F_TEST_FAIL | F_CI_FAIL | F_TIMEOUT | F_COST_CAP
  | F_ATTEMPT_CAP | F_PROVIDER_ERROR | F_STALE_RUN | F_ACCEPTANCE_TAMPER
  | F_POLICY_VIOLATION | F_UNKNOWN

datatype event_type = TASK_CREATED | TASK_LOCKED | TASK_STATUS_CHANGED | RUN_CREATED
  | RUN_STATUS_CHANGED | WORKER_LAUNCHED | WORKER_STATUS | WORKER_CANCELLED | WORKER_COLLECTED
  | STALE_RUN_REJECTED | CANDIDATE_RECORDED | VERIFICATION_RECORDED | VERIFICATION_INVALIDATED
  | REVIEW_RECORDED | REVIEW_INVALIDATED | REVIEW_BYPASSED | RETRY_STARTED | RETRY_DENIED
  | RETRY_EXHAUSTED | APPROVAL_RECORDED | APPROVAL_INVALIDATED | TOOL_DENIED
  | RESEARCH_RECORDED | RECOVERY_RECONCILED | RECOVERY_BLOCKED | ORCHESTRATION_STARTED
  | ORCHESTRATION_DECIDED | CI_WAIT_STARTED | CI_WAIT_PROGRESS | CI_WAIT_FINISHED
  | CI_WAIT_INVALIDATED

datatype verification_result = V_PASS | V_FAIL | V_BLOCKED

datatype review_status = RV_PASS | RV_REQUEST_CHANGES | RV_BLOCKED

fun task_status_name :: "task_status \<Rightarrow> string" where
  "task_status_name T_DRAFT = ''DRAFT''"
| "task_status_name T_LOCKED = ''LOCKED''"
| "task_status_name T_RUNNING = ''RUNNING''"
| "task_status_name T_AWAITING_APPROVAL = ''AWAITING_APPROVAL''"
| "task_status_name T_VERIFIED = ''VERIFIED''"
| "task_status_name T_ACCEPTED = ''ACCEPTED''"
| "task_status_name T_BLOCKED = ''BLOCKED''"
| "task_status_name T_NEEDS_OWNER = ''NEEDS_OWNER''"
| "task_status_name T_FAILED = ''FAILED''"
| "task_status_name T_CANCELLED = ''CANCELLED''"

fun run_status_name :: "run_status \<Rightarrow> string" where
  "run_status_name R_PENDING = ''PENDING''"
| "run_status_name R_LAUNCHED = ''LAUNCHED''"
| "run_status_name R_RUNNING = ''RUNNING''"
| "run_status_name R_SUCCEEDED = ''SUCCEEDED''"
| "run_status_name R_FAILED = ''FAILED''"
| "run_status_name R_CANCELLED = ''CANCELLED''"
| "run_status_name R_STALE = ''STALE''"

fun candidate_status_name :: "candidate_status \<Rightarrow> string" where
  "candidate_status_name C_PROPOSED = ''PROPOSED''"
| "candidate_status_name C_VERIFYING = ''VERIFYING''"
| "candidate_status_name C_VERIFIED = ''VERIFIED''"
| "candidate_status_name C_REJECTED = ''REJECTED''"
| "candidate_status_name C_SUPERSEDED = ''SUPERSEDED''"

fun failure_class_name :: "failure_class \<Rightarrow> string" where
  "failure_class_name F_WORKER_CRASH = ''WORKER_CRASH''"
| "failure_class_name F_TEST_FAIL = ''TEST_FAIL''"
| "failure_class_name F_CI_FAIL = ''CI_FAIL''"
| "failure_class_name F_TIMEOUT = ''TIMEOUT''"
| "failure_class_name F_COST_CAP = ''COST_CAP''"
| "failure_class_name F_ATTEMPT_CAP = ''ATTEMPT_CAP''"
| "failure_class_name F_PROVIDER_ERROR = ''PROVIDER_ERROR''"
| "failure_class_name F_STALE_RUN = ''STALE_RUN''"
| "failure_class_name F_ACCEPTANCE_TAMPER = ''ACCEPTANCE_TAMPER''"
| "failure_class_name F_POLICY_VIOLATION = ''POLICY_VIOLATION''"
| "failure_class_name F_UNKNOWN = ''UNKNOWN''"

fun verification_result_name :: "verification_result \<Rightarrow> string" where
  "verification_result_name V_PASS = ''PASS''"
| "verification_result_name V_FAIL = ''FAIL''"
| "verification_result_name V_BLOCKED = ''BLOCKED''"

fun review_status_name :: "review_status \<Rightarrow> string" where
  "review_status_name RV_PASS = ''PASS''"
| "review_status_name RV_REQUEST_CHANGES = ''REQUEST_CHANGES''"
| "review_status_name RV_BLOCKED = ''BLOCKED''"

definition ACTIVE_RUN_STATUSES :: "run_status list" where
  "ACTIVE_RUN_STATUSES = [R_PENDING, R_LAUNCHED, R_RUNNING]"

definition is_active :: "run_status \<Rightarrow> bool" where
  "is_active st \<longleftrightarrow> st \<in> set ACTIVE_RUN_STATUSES"

lemma is_active_simps [simp]:
  "is_active R_PENDING" "is_active R_LAUNCHED" "is_active R_RUNNING"
  "\<not> is_active R_SUCCEEDED" "\<not> is_active R_FAILED" "\<not> is_active R_CANCELLED" "\<not> is_active R_STALE"
  by (simp_all add: is_active_def ACTIVE_RUN_STATUSES_def)

section \<open>Errors\<close>

text \<open>
  The error classes. \<open>UniqueViolation\<close> and \<open>ConstraintViolation\<close> are what the database raises
  for a duplicate key and for a failed foreign key or check; \<open>ExternalError\<close> is an error, with its name,
  raised by a provider, a GitHub client or another callback.
\<close>

datatype error_class = PlainError | TaskLockError | BuilderCoreError | VerifierError
  | CodexReviewError | ToolPolicyError | WorkerProviderError | OrchestratorError
  | GitHubLandingError | BuilderStoreConfigError | TickLockError
  | UniqueViolation | ConstraintViolation | ExternalError string

record js_error =
  err_class :: error_class
  err_code :: "string option"
  err_message :: string
  err_retryable :: bool

fun error_name :: "error_class \<Rightarrow> string" where
  "error_name TaskLockError = ''TaskLockError''"
| "error_name BuilderCoreError = ''BuilderCoreError''"
| "error_name VerifierError = ''VerifierError''"
| "error_name CodexReviewError = ''CodexReviewError''"
| "error_name ToolPolicyError = ''ToolPolicyError''"
| "error_name WorkerProviderError = ''WorkerProviderError''"
| "error_name OrchestratorError = ''OrchestratorError''"
| "error_name GitHubLandingError = ''GitHubLandingError''"
| "error_name BuilderStoreConfigError = ''BuilderStoreConfigError''"
| "error_name TickLockError = ''TickLockError''"
| "error_name (ExternalError n) = n"
| "error_name _ = ''Error''"

definition taskLockError :: "string \<Rightarrow> js_error" where
  "taskLockError reason = \<lparr>err_class = TaskLockError, err_code = None,
     err_message = ''task lock error: '' @ reason, err_retryable = False\<rparr>"

definition builderCoreError :: "string \<Rightarrow> string \<Rightarrow> js_error" where
  "builderCoreError reason code = \<lparr>err_class = BuilderCoreError, err_code = Some code,
     err_message = redactString [] (if reason = [] then ''builder error'' else reason), err_retryable = False\<rparr>"

definition codedError :: "error_class \<Rightarrow> string \<Rightarrow> string \<Rightarrow> js_error" where
  "codedError cls msg code = \<lparr>err_class = cls, err_code = Some code, err_message = msg, err_retryable = False\<rparr>"

definition plainError :: "string \<Rightarrow> js_error" where
  "plainError msg = \<lparr>err_class = PlainError, err_code = None, err_message = msg, err_retryable = False\<rparr>"

definition uniqueViolation :: "string \<Rightarrow> js_error" where
  "uniqueViolation cols = \<lparr>err_class = UniqueViolation, err_code = Some ''ERR_SQLITE_ERROR'',
     err_message = ''UNIQUE constraint failed: '' @ cols, err_retryable = False\<rparr>"

definition constraintViolation :: "string \<Rightarrow> js_error" where
  "constraintViolation what = \<lparr>err_class = ConstraintViolation, err_code = Some ''ERR_SQLITE_ERROR'',
     err_message = what @ '' constraint failed'', err_retryable = False\<rparr>"

section \<open>Shape checks\<close>

definition is_hex_lower :: "char \<Rightarrow> bool" where
  "is_hex_lower c \<longleftrightarrow> is_digit c \<or> 97 \<le> (of_char c :: nat) \<and> (of_char c :: nat) \<le> 102"

definition is_commit_sha :: "string \<Rightarrow> bool" where
  "is_commit_sha s \<longleftrightarrow> length s = 40 \<and> list_all is_hex_lower s"

definition assertCommitSha :: "string option \<Rightarrow> js_error + string" where
  "assertCommitSha v = (case v of
      Some s \<Rightarrow> if is_commit_sha s then Inr s
                else Inl (plainError ''invalid commit_sha: expected 40-char lowercase hex'')
    | None \<Rightarrow> Inl (plainError ''invalid commit_sha: expected 40-char lowercase hex''))"

definition assertTaskStatus :: "string \<Rightarrow> js_error + task_status" where
  "assertTaskStatus v =
     (case List.find (\<lambda>st. task_status_name st = v)
        [T_DRAFT, T_LOCKED, T_RUNNING, T_AWAITING_APPROVAL, T_VERIFIED, T_ACCEPTED, T_BLOCKED,
         T_NEEDS_OWNER, T_FAILED, T_CANCELLED] of
        Some st \<Rightarrow> Inr st
      | None \<Rightarrow> Inl (plainError (''invalid task status: '' @ v)))"

lemma assertTaskStatus_name [simp]: "assertTaskStatus (task_status_name st) = Inr st"
  by (cases st) (simp_all add: assertTaskStatus_def)

lemma assertCommitSha_Inr [simp]: "assertCommitSha v = Inr s \<longleftrightarrow> v = Some s \<and> is_commit_sha s"
  by (auto simp: assertCommitSha_def split: option.splits)

section \<open>Tool manifests and the lock payload\<close>

record tool_manifest =
  providers :: "string list"
  tools :: "string list"
  mode :: string

definition string_items :: "js option \<Rightarrow> string list" where
  "string_items v = (case v of Some (JArr xs) \<Rightarrow> sort (map js_String xs) | _ \<Rightarrow> [])"

definition normalizeToolManifest :: "js \<Rightarrow> tool_manifest" where
  "normalizeToolManifest manifest =
     \<lparr>providers = string_items (js_get manifest ''providers''),
      tools = string_items (js_get manifest ''tools''),
      mode = (case js_get manifest ''mode'' of None \<Rightarrow> ''build'' | Some JNull \<Rightarrow> ''build''
              | Some m \<Rightarrow> js_String m)\<rparr>"

definition manifest_js :: "tool_manifest \<Rightarrow> js" where
  "manifest_js m = JObj [(''providers'', JArr (map JStr (providers m))),
     (''tools'', JArr (map JStr (tools m))), (''mode'', JStr (mode m))]"

lemma map_js_String_JStr [simp]: "map (js_String \<circ> JStr) xs = xs"
  by (induction xs) auto

lemma normalize_manifest_js:
  "normalizeToolManifest (manifest_js m) =
     \<lparr>providers = sort (providers m), tools = sort (tools m), mode = mode m\<rparr>"
  by (simp add: normalizeToolManifest_def manifest_js_def string_items_def)

lemma normalize_sorted:
  "sorted (providers (normalizeToolManifest v)) \<and> sorted (tools (normalizeToolManifest v))"
  by (auto simp: normalizeToolManifest_def string_items_def split: option.splits js.splits)

lemma normalize_idem:
  "normalizeToolManifest (manifest_js (normalizeToolManifest v)) = normalizeToolManifest v"
  using normalize_sorted [of v] by (simp add: normalize_manifest_js sort_key_id_if_sorted)

definition buildTaskLockPayload ::
  "string \<Rightarrow> string \<Rightarrow> int \<Rightarrow> string \<Rightarrow> string list \<Rightarrow> tool_manifest \<Rightarrow> bool \<Rightarrow> js" where
  "buildTaskLockPayload tid intent version acceptance paths manifest review =
     JObj [(''task_id'', JStr tid), (''intent'', JStr intent), (''intent_version'', JNum version),
       (''acceptance_ref'', JStr acceptance), (''allowed_paths'', JArr (map JStr (sort paths))),
       (''tool_manifest'', manifest_js (normalizeToolManifest (manifest_js manifest))),
       (''review_required'', JBool review)]"

lemma map_norm_JStr [simp]: "map (js_norm \<circ> JStr) xs = map JStr xs"
  by simp

lemma js_norm_manifest:
  "js_norm (manifest_js m) = JObj [(''mode'', JStr (mode m)),
     (''providers'', JArr (map JStr (providers m))), (''tools'', JArr (map JStr (tools m)))]"
  by (simp add: manifest_js_def)

lemma js_norm_payload:
  "js_norm (buildTaskLockPayload tid i n a ps m r) =
     JObj [(''acceptance_ref'', JStr a), (''allowed_paths'', JArr (map JStr (sort ps))),
       (''intent'', JStr i), (''intent_version'', JNum n), (''review_required'', JBool r),
       (''task_id'', JStr tid),
       (''tool_manifest'', js_norm (manifest_js (normalizeToolManifest (manifest_js m))))]"
  by (simp add: buildTaskLockPayload_def)

lemma map_JStr_inj [simp]: "map JStr xs = map JStr ys \<longleftrightarrow> xs = ys"
  by (simp add: inj_def inj_map_eq_map)

text \<open>
  The text that is hashed when a task is locked determines the whole finish line: two
  payloads with the same canonical JSON agree on the task, the intent and its version, the
  acceptance reference, the set of allowed paths (as a sorted list), the normalised tool
  manifest and the review flag. So, for a collision-free hash, changing any of them changes
  the content hash.
\<close>

theorem lock_payload_binds_finish_line:
  "canonicalJson (buildTaskLockPayload tid i n a ps m r) =
   canonicalJson (buildTaskLockPayload tid' i' n' a' ps' m' r') \<longleftrightarrow>
     tid = tid' \<and> i = i' \<and> n = n' \<and> a = a' \<and> sort ps = sort ps' \<and> r = r' \<and>
     sort (providers m) = sort (providers m') \<and> sort (tools m) = sort (tools m') \<and> mode m = mode m'"
  by (auto simp: canonicalJson_iff js_norm_payload js_norm_manifest normalize_manifest_js)

end
