(* ===== verification/JsonParse.thy ===== *)
theory JsonParse
  imports JsValue
begin

text \<open>
  \<open>JSON.parse\<close> on the texts the Builder reads back: the landing snapshot stored inside a
  verification, and the output of the reviewer. Numbers are integers and \<open>\u\<close> escapes stand for
  code units below 256; other texts are treated as malformed. The main result is the round
  trip: parsing what \<open>JSON.stringify\<close> printed gives the value back.
\<close>

definition is_json_ws :: "char \<Rightarrow> bool" where
  "is_json_ws c \<longleftrightarrow> (of_char c :: nat) \<in> {9, 10, 13, 32}"

definition skip_ws :: "string \<Rightarrow> string" where
  "skip_ws s = dropWhile is_json_ws s"

definition is_hex :: "char \<Rightarrow> bool" where
  "is_hex c \<longleftrightarrow> is_digit c \<or> 97 \<le> (of_char c :: nat) \<and> (of_char c :: nat) \<le> 102
      \<or> 65 \<le> (of_char c :: nat) \<and> (of_char c :: nat) \<le> 70"

definition any_hex_value :: "char \<Rightarrow> nat" where
  "any_hex_value c = (if of_char c < (58 :: nat) then of_char c - 48
     else if of_char c < (71 :: nat) then of_char c - 55 else of_char c - 87)"

text \<open>One possibly escaped character of a string literal.\<close>

definition p_char :: "string \<Rightarrow> (char \<times> string) option" where
  "p_char s = (case s of [] \<Rightarrow> None | c # r \<Rightarrow>
     if of_char c < (32 :: nat) then None
     else if c \<noteq> CHR 0x5C then Some (c, r)
     else (case r of [] \<Rightarrow> None | d # q \<Rightarrow>
       if d = CHR 0x22 \<or> d = CHR 0x5C \<or> d = CHR ''/'' then Some (d, q)
       else if d = CHR ''b'' then Some (CHR 0x08, q)
       else if d = CHR ''f'' then Some (CHR 0x0C, q)
       else if d = CHR ''n'' then Some (CHR 0x0A, q)
       else if d = CHR ''r'' then Some (CHR 0x0D, q)
       else if d = CHR ''t'' then Some (CHR 0x09, q)
       else if d = CHR ''u'' then
         (case q of e # f # g # h # q' \<Rightarrow>
            if e = CHR ''0'' \<and> f = CHR ''0'' \<and> is_hex g \<and> is_hex h
            then Some (char_of (16 * any_hex_value g + any_hex_value h), q') else None
          | _ \<Rightarrow> None)
       else None))"

text \<open>The rest of a string literal, after its opening quote.\<close>

fun p_string :: "nat \<Rightarrow> string \<Rightarrow> (string \<times> string) option" where
  "p_string 0 s = None"
| "p_string (Suc n) s = (case s of [] \<Rightarrow> None | c # r \<Rightarrow>
     if c = CHR 0x22 then Some ([], r)
     else (case p_char s of None \<Rightarrow> None | Some (d, q) \<Rightarrow>
       (case p_string n q of None \<Rightarrow> None | Some (ds, q') \<Rightarrow> Some (d # ds, q'))))"

definition p_number :: "string \<Rightarrow> (js \<times> string) option" where
  "p_number s =
     (let neg = (case s of c # _ \<Rightarrow> c = CHR ''-'' | [] \<Rightarrow> False);
          u = (if neg then tl s else s);
          ds = takeWhile is_digit u; r = dropWhile is_digit u
      in if ds = [] \<or> (1 < length ds \<and> hd ds = CHR ''0'') then None
         else case r of
             c # _ \<Rightarrow> if c = CHR ''.'' \<or> c = CHR ''e'' \<or> c = CHR ''E'' then None
                      else Some (JNum (if neg then - int (digits_value ds) else int (digits_value ds)), r)
           | [] \<Rightarrow> Some (JNum (if neg then - int (digits_value ds) else int (digits_value ds)), r))"

text \<open>A repeated key keeps its first position and takes the last value.\<close>

definition put_member :: "string \<Rightarrow> js \<Rightarrow> (string \<times> js) list \<Rightarrow> (string \<times> js) list" where
  "put_member k v kvs = (case map_of kvs k of None \<Rightarrow> (k, v) # kvs | Some w \<Rightarrow> (k, w) # filter (\<lambda>(l, _). l \<noteq> k) kvs)"

fun p_value :: "nat \<Rightarrow> string \<Rightarrow> (js \<times> string) option"
and p_elems :: "nat \<Rightarrow> string \<Rightarrow> (js list \<times> string) option"
and p_members :: "nat \<Rightarrow> string \<Rightarrow> ((string \<times> js) list \<times> string) option" where
  "p_value 0 s = None"
| "p_value (Suc n) s = (case skip_ws s of [] \<Rightarrow> None | c # r \<Rightarrow>
     if c = CHR 0x22 then
       (case p_string (length r) r of None \<Rightarrow> None | Some (t, q) \<Rightarrow> Some (JStr t, q))
     else if c = CHR ''['' then
       (case skip_ws r of [] \<Rightarrow> None | d # q \<Rightarrow>
          if d = CHR '']'' then Some (JArr [], q)
          else (case p_elems n r of None \<Rightarrow> None | Some (xs, q') \<Rightarrow> Some (JArr xs, q')))
     else if c = CHR ''{'' then
       (case skip_ws r of [] \<Rightarrow> None | d # q \<Rightarrow>
          if d = CHR ''}'' then Some (JObj [], q)
          else (case p_members n r of None \<Rightarrow> None | Some (xs, q') \<Rightarrow> Some (JObj xs, q')))
     else if take 4 (c # r) = ''null'' then Some (JNull, drop 3 r)
     else if take 4 (c # r) = ''true'' then Some (JBool True, drop 3 r)
     else if take 5 (c # r) = ''false'' then Some (JBool False, drop 4 r)
     else p_number (c # r))"
| "p_elems 0 s = None"
| "p_elems (Suc n) s = (case p_value n s of None \<Rightarrow> None | Some (v, r) \<Rightarrow>
     (case skip_ws r of [] \<Rightarrow> None | d # q \<Rightarrow>
        if d = CHR '','' then
          (case p_elems n q of None \<Rightarrow> None | Some (vs, q') \<Rightarrow> Some (v # vs, q'))
        else if d = CHR '']'' then Some ([v], q) else None))"
| "p_members 0 s = None"
| "p_members (Suc n) s = (case skip_ws s of [] \<Rightarrow> None | c # r \<Rightarrow>
     if c \<noteq> CHR 0x22 then None
     else (case p_string (length r) r of None \<Rightarrow> None | Some (k, q) \<Rightarrow>
       (case skip_ws q of [] \<Rightarrow> None | d # q' \<Rightarrow>
          if d \<noteq> CHR '':'' then None
          else (case p_value n q' of None \<Rightarrow> None | Some (v, t) \<Rightarrow>
            (case skip_ws t of [] \<Rightarrow> None | e # t' \<Rightarrow>
               if e = CHR '','' then
                 (case p_members n t' of None \<Rightarrow> None | Some (kvs, t'') \<Rightarrow> Some (put_member k v kvs, t''))
               else if e = CHR ''}'' then Some ([(k, v)], t') else None)))))"

text \<open>\<open>JSON.parse(s)\<close>; \<open>None\<close> is a \<open>SyntaxError\<close>. The length of the text is fuel enough.\<close>

definition json_parse :: "string \<Rightarrow> js option" where
  "json_parse s = (case p_value (Suc (length s)) s of
      Some (v, r) \<Rightarrow> if skip_ws r = [] then Some v else None
    | None \<Rightarrow> None)"

section \<open>Round trip\<close>

fun wf_js :: "js \<Rightarrow> bool" where
  "wf_js (JArr vs) = list_all wf_js vs"
| "wf_js (JObj kvs) = (distinct (map fst kvs) \<and> list_all (\<lambda>(k, v). wf_js v) kvs)"
| "wf_js _ = True"

lemma any_hex_value_hex_char [simp]: "d < 16 \<Longrightarrow> any_hex_value (hex_char d) = d"
  by (auto simp: any_hex_value_def hex_char_def)

lemma is_hex_hex_char [simp]: "d < 16 \<Longrightarrow> is_hex (hex_char d)"
  by (auto simp: is_hex_def hex_char_def is_digit_def)

lemma p_char_escape: "p_char (json_escape c @ r) = Some (c, r)"
proof -
  let ?n = "of_char c :: nat"
  consider "?n = 34" | "?n = 92" | "?n = 8" | "?n = 12" | "?n = 10" | "?n = 13" | "?n = 9"
    | "?n < 32" "?n \<notin> {8, 9, 10, 12, 13}" | "32 \<le> ?n" "?n \<noteq> 34" "?n \<noteq> 92"
    by fastforce
  then show ?thesis
  proof cases
    case 8
    then have "?n div 16 < 16" by simp
    with 8 show ?thesis by (simp add: json_escape_def p_char_def Let_def)
  next
    case 9
    then have "c \<noteq> CHR 0x5C" by auto
    with 9 show ?thesis by (simp add: json_escape_def p_char_def Let_def)
  qed (simp add: json_escape_def p_char_def Let_def, simp add: char_literal)+
qed

lemma json_escape_nonempty: "0 < length (json_escape c)"
  by (simp add: json_escape_def Let_def)

lemma p_string_quoted:
  "length s < n \<Longrightarrow> p_string n (concat (map json_escape s) @ CHR 0x22 # r) = Some (s, r)"
proof (induction s arbitrary: n)
  case Nil
  then show ?case by (cases n) auto
next
  case (Cons c s)
  then obtain m where n: "n = Suc m" and IH: "p_string m (concat (map json_escape s) @ CHR 0x22 # r) = Some (s, r)"
    by (cases n) auto
  let ?t = "concat (map json_escape s) @ CHR 0x22 # r"
  obtain d q where dq: "json_escape c @ ?t = d # q" and d: "d \<noteq> CHR 0x22"
    using json_escape_nonempty [of c] json_escape_not_quote [of c ?t]
    by (cases "json_escape c @ ?t") auto
  then show ?case using IH p_char_escape [of c ?t] by (simp add: n)
qed

lemma length_concat_escape: "length s \<le> length (concat (map json_escape s))"
proof (induction s)
  case (Cons c s)
  then show ?case using json_escape_nonempty [of c] by (simp del: length_greater_0_conv)
qed simp

lemma p_string_json_quote:
  "\<exists>t. json_quote s @ r = CHR 0x22 # t \<and> p_string (length t) t = Some (s, r)"
proof (intro exI conjI)
  show "json_quote s @ r = CHR 0x22 # (concat (map json_escape s) @ CHR 0x22 # r)"
    by (simp add: json_quote_def)
  show "p_string (length (concat (map json_escape s) @ CHR 0x22 # r))
          (concat (map json_escape s) @ CHR 0x22 # r) = Some (s, r)"
    by (rule p_string_quoted) (use length_concat_escape [of s] in simp)
qed

text \<open>What may follow a value inside a printed text, or end it.\<close>

definition closes :: "string \<Rightarrow> bool" where
  "closes r \<longleftrightarrow> (case r of [] \<Rightarrow> True | c # _ \<Rightarrow> c = CHR '','' \<or> c = CHR '']'' \<or> c = CHR ''}'' \<or> c = CHR 0x0A)"

lemma closes_simps [simp]:
  "closes []" "closes (CHR 0x0A # r)" "closes (CHR '','' # r)" "closes (CHR '']'' # r)" "closes (CHR ''}'' # r)"
  by (simp_all add: closes_def)

lemma closes_delim: "closes r \<Longrightarrow> starts_delim r"
  by (auto simp: closes_def starts_delim_def is_digit_def split: list.splits)

lemma skip_ws_close [simp]:
  "skip_ws (CHR '','' # r) = CHR '','' # r" "skip_ws (CHR '']'' # r) = CHR '']'' # r"
  "skip_ws (CHR ''}'' # r) = CHR ''}'' # r" "skip_ws (CHR '':'' # r) = CHR '':'' # r"
  "skip_ws (CHR 0x22 # r) = CHR 0x22 # r" "skip_ws (CHR ''['' # r) = CHR ''['' # r"
  "skip_ws (CHR ''{'' # r) = CHR ''{'' # r" "skip_ws (CHR ''n'' # r) = CHR ''n'' # r"
  "skip_ws (CHR ''t'' # r) = CHR ''t'' # r" "skip_ws (CHR ''f'' # r) = CHR ''f'' # r"
  by (simp_all add: skip_ws_def is_json_ws_def)

lemma show_int_hd_not_ws: "\<not> is_json_ws (hd (show_int n))"
  using hd_show_int [of n] by (auto simp: is_json_ws_def is_digit_def)

lemma skip_ws_text: "skip_ws (json_stringify v @ r) = json_stringify v @ r"
proof -
  obtain c t where ct: "json_stringify v = c # t"
    using json_stringify_first [of v] by (cases "json_stringify v") auto
  then have "c = hd (json_stringify v)" by simp
  moreover have "\<not> is_json_ws (hd (json_stringify v))"
    using json_stringify_first [of v] show_int_hd_not_ws
    by (cases v) (auto simp: is_json_ws_def)
  ultimately show ?thesis by (simp add: ct skip_ws_def)
qed

lemma dropWhile_show:
  "starts_delim r \<Longrightarrow> dropWhile is_digit (show_nat n @ r) = r"
  using takeWhile_show [of r n] takeWhile_dropWhile_id [of is_digit "show_nat n @ r"] by simp

lemma show_nat_no_leading_zero: "1 < length (show_nat n) \<Longrightarrow> hd (show_nat n) \<noteq> CHR ''0''"
proof (induction n rule: show_nat.induct)
  case (1 n)
  show ?case
  proof (cases "n < 10")
    case True
    with 1 show ?thesis by (simp add: show_nat.simps)
  next
    case False
    show ?thesis
    proof (cases "n div 10 < 10")
      case True
      with False have "0 < n div 10" by simp
      with True have "digit_char (n div 10) \<noteq> CHR ''0''"
        by (auto simp: digit_char_def char_literal simp del: of_char_eq_iff)
      with True False show ?thesis by (simp add: show_nat.simps [of n] show_nat.simps [of "n div 10"])
    next
      case big: False
      then have "1 < length (show_nat (n div 10))"
        by (subst show_nat.simps) (simp add: Suc_lessI neq_Nil_conv)
      with 1 False have "hd (show_nat (n div 10)) \<noteq> CHR ''0''" by blast
      with False show ?thesis by (subst show_nat.simps) simp
    qed
  qed
qed

lemma p_number_digits:
  assumes "closes r" and "u = show_nat n @ r"
    and "s = (if neg then CHR ''-'' # u else u)"
  shows "p_number s = Some (JNum (if neg then - int n else int n), r)"
proof -
  have tw: "takeWhile is_digit u = show_nat n" and dw: "dropWhile is_digit u = r"
    using assms(1,2) closes_delim takeWhile_show dropWhile_show by auto
  have neg: "(case s of c # _ \<Rightarrow> c = CHR ''-'' | [] \<Rightarrow> False) = neg"
    using assms(2,3) show_nat_not_minus [of n r] by (auto split: list.splits)
  have u: "(if neg then tl s else s) = u"
    using assms(3) by simp
  have "\<not> (show_nat n = [] \<or> 1 < length (show_nat n) \<and> hd (show_nat n) = CHR ''0'')"
    using show_nat_no_leading_zero [of n] by auto
  then show ?thesis
    unfolding p_number_def Let_def neg u tw dw
    using assms(1) by (auto simp: closes_def digits_value_show split: list.splits)
qed

lemma p_number_show_int:
  assumes "closes r"
  shows "p_number (show_int i @ r) = Some (JNum i, r)"
  using p_number_digits [OF assms refl, of "show_int i @ r" "i < 0" "nat \<bar>i\<bar>"]
  by (auto simp: show_int_def split: if_splits)

lemma closes_commas: "closes (c # r) \<Longrightarrow> closes (commas ss @ c # r)"
  by (cases ss) auto

lemma p_value_number:
  assumes "closes r"
  shows "p_value (Suc n) (show_int i @ r) = Some (JNum i, r)"
proof -
  obtain c t where ct: "show_int i = c # t"
    using json_stringify_first [of "JNum i"] by (cases "show_int i") auto
  have "c \<noteq> CHR ''n''" "c \<noteq> CHR ''t''" "c \<noteq> CHR ''f''" "c \<noteq> CHR 0x22" "c \<noteq> CHR ''[''" "c \<noteq> CHR ''{''"
    using show_int_hd_other [of i] ct by simp_all
  moreover have "skip_ws (show_int i @ r) = c # t @ r"
    using skip_ws_text [of "JNum i" r] ct by simp
  ultimately show ?thesis
    using p_number_show_int [OF assms, of i] ct by simp
qed

lemma p_elems_text:
  assumes "\<And>v n r. v \<in> set (x # xs) \<Longrightarrow> closes r \<Longrightarrow> length (json_stringify v) \<le> n \<Longrightarrow>
             p_value n (json_stringify v @ r) = Some (v, r)"
    and "length (json_stringify x @ commas (map json_stringify xs)) < n"
  shows "p_elems n (json_stringify x @ commas (map json_stringify xs) @ CHR '']'' # r) = Some (x # xs, r)"
  using assms
proof (induction xs arbitrary: x n)
  case Nil
  then obtain m where "n = Suc m" by (cases n) auto
  with Nil show ?case by simp
next
  case (Cons y ys)
  then obtain m where n: "n = Suc m" by (cases n) auto
  have "p_value m (json_stringify x @ commas (map json_stringify (y # ys)) @ CHR '']'' # r) =
        Some (x, commas (map json_stringify (y # ys)) @ CHR '']'' # r)"
    by (rule Cons.prems(1)) (use Cons.prems(2) n in auto)
  moreover have "p_elems m (json_stringify y @ commas (map json_stringify ys) @ CHR '']'' # r) = Some (y # ys, r)"
    by (rule Cons.IH) (use Cons.prems n in auto)
  ultimately show ?case by (simp add: n)
qed

lemma p_members_step:
  assumes "p_value m (json_stringify v @ q) = Some (v, q)"
  shows "p_members (Suc m) (member_text (k, v) @ q) =
    (case skip_ws q of [] \<Rightarrow> None | e # t' \<Rightarrow>
       if e = CHR '','' then
         (case p_members m t' of None \<Rightarrow> None | Some (kvs, t'') \<Rightarrow> Some (put_member k v kvs, t''))
       else if e = CHR ''}'' then Some ([(k, v)], t') else None)"
proof -
  obtain t where t: "json_quote k @ (CHR '':'' # json_stringify v @ q) = CHR 0x22 # t"
    and p: "p_string (length t) t = Some (k, CHR '':'' # json_stringify v @ q)"
    using p_string_json_quote [of k "CHR '':'' # json_stringify v @ q"] by blast
  have "member_text (k, v) @ q = CHR 0x22 # t"
    using t by (simp add: member_text_def)
  with p assms show ?thesis by simp
qed

lemma p_members_text:
  assumes "\<And>k v n r. (k, v) \<in> set (kv # kvs) \<Longrightarrow> closes r \<Longrightarrow> length (json_stringify v) \<le> n \<Longrightarrow>
             p_value n (json_stringify v @ r) = Some (v, r)"
    and "distinct (map fst (kv # kvs))"
    and "length (member_text kv @ commas (map member_text kvs)) < n"
  shows "p_members n (member_text kv @ commas (map member_text kvs) @ CHR ''}'' # r) = Some (kv # kvs, r)"
  using assms
proof (induction kvs arbitrary: kv n)
  case Nil
  then obtain m where n: "n = Suc m" by (cases n) auto
  have "p_value m (json_stringify (snd kv) @ CHR ''}'' # r) = Some (snd kv, CHR ''}'' # r)"
    by (rule Nil.prems(1) [of "fst kv"]) (use Nil.prems(3) n in \<open>auto simp: member_text_def\<close>)
  from p_members_step [OF this, of "fst kv"] show ?case by (simp add: n)
next
  case (Cons lw lws)
  then obtain m where n: "n = Suc m" by (cases n) auto
  let ?q = "commas (map member_text (lw # lws)) @ CHR ''}'' # r"
  have "p_value m (json_stringify (snd kv) @ ?q) = Some (snd kv, ?q)"
    by (rule Cons.prems(1) [of "fst kv"]) (use Cons.prems(3) n in \<open>auto simp: member_text_def\<close>)
  moreover have "p_members m (member_text lw @ commas (map member_text lws) @ CHR ''}'' # r) = Some (lw # lws, r)"
    by (rule Cons.IH) (use Cons.prems n in auto)
  moreover have "put_member (fst kv) (snd kv) (lw # lws) = kv # lw # lws"
  proof -
    have "map_of (lw # lws) (fst kv) = None"
      using Cons.prems(2) by (simp only: map_of_eq_None_iff) auto
    then show ?thesis by (simp add: put_member_def)
  qed
  ultimately show ?case using p_members_step [of m "snd kv" ?q "fst kv"] by (simp add: n)
qed

lemma p_value_text:
  "wf_js v \<Longrightarrow> closes r \<Longrightarrow> length (json_stringify v) \<le> n \<Longrightarrow>
   p_value n (json_stringify v @ r) = Some (v, r)"
proof (induction v arbitrary: n r)
  case (JArr xs)
  then obtain m where n: "n = Suc m" by (cases n) auto
  show ?case
  proof (cases xs)
    case Nil
    then show ?thesis by (simp add: n join_with_def)
  next
    case (Cons y ys)
    have txt_eq: "json_stringify (JArr xs) @ r =
        CHR ''['' # json_stringify y @ commas (map json_stringify ys) @ CHR '']'' # r"
      by (simp add: Cons join_with_commas)
    have "p_elems m (json_stringify y @ commas (map json_stringify ys) @ CHR '']'' # r) = Some (y # ys, r)"
      by (rule p_elems_text)
         (use JArr Cons n in \<open>auto simp: list_all_iff join_with_commas\<close>)
    moreover obtain d q where "json_stringify y @ commas (map json_stringify ys) @ CHR '']'' # r = d # q" "d \<noteq> CHR '']''"
      using json_stringify_not_close [of y] json_stringify_first [of y]
      by (cases "json_stringify y @ commas (map json_stringify ys) @ CHR '']'' # r") auto
    ultimately show ?thesis
      unfolding txt_eq n using Cons skip_ws_text [of y "commas (map json_stringify ys) @ CHR '']'' # r"] by simp
  qed
next
  case (JObj kvs)
  then obtain m where n: "n = Suc m" by (cases n) auto
  show ?case
  proof (cases kvs)
    case Nil
    then show ?thesis by (simp add: n join_with_def)
  next
    case (Cons y ys)
    let ?t = "member_text y @ commas (map member_text ys) @ CHR ''}'' # r"
    have txt_eq: "json_stringify (JObj kvs) @ r = CHR ''{'' # ?t"
      by (simp only: json_stringify_JObj Cons list.map join_with_commas) simp
    have "length (json_stringify (JObj kvs)) = length (member_text y @ commas (map member_text ys)) + 2"
      by (simp only: json_stringify_JObj Cons list.map join_with_commas) simp
    with JObj.prems(3) n have len: "length (member_text y @ commas (map member_text ys)) < m" by simp
    have "p_members m ?t = Some (y # ys, r)"
    proof (rule p_members_text [OF _ _ len])
      show "p_value n' (json_stringify v @ q) = Some (v, q)"
        if "(k, v) \<in> set (y # ys)" "closes q" "length (json_stringify v) \<le> n'" for k v n' q
      proof (rule JObj.IH [of "(k, v)"])
        show "wf_js v" using that(1) JObj.prems(1) Cons by (auto simp: list_all_iff)
      qed (use that Cons in auto)
      show "distinct (map fst (y # ys))" using JObj.prems(1) Cons by simp
    qed
    moreover obtain t where "?t = CHR 0x22 # t"
      by (auto simp: member_text_def json_quote_def)
    ultimately show ?thesis
      unfolding txt_eq n using Cons by simp
  qed
next
  case (JNum i)
  then obtain m where "n = Suc m"
    using json_stringify_first [of "JNum i"] by (cases n) auto
  with JNum p_value_number show ?case by simp
next
  case (JStr s)
  then obtain m where n: "n = Suc m" by (cases n) (auto simp: json_quote_def)
  obtain t where "json_quote s @ r = CHR 0x22 # t" "p_string (length t) t = Some (s, r)"
    using p_string_json_quote by blast
  then show ?case by (simp add: n)
next
  case JNull
  then obtain m where "n = Suc m" by (cases n) auto
  then show ?case by simp
next
  case (JBool b)
  then obtain m where "n = Suc m" by (cases n) (auto split: if_splits)
  then show ?case by simp
qed

lemma json_parse_stringify: "wf_js v \<Longrightarrow> json_parse (json_stringify v) = Some v"
  using p_value_text [of v "[]" "Suc (length (json_stringify v))"]
  by (simp add: json_parse_def skip_ws_def del: p_value.simps)

lemma json_parse_line: "wf_js v \<Longrightarrow> json_parse (json_stringify v @ [CHR 0x0A]) = Some v"
  using p_value_text [of v "[CHR 0x0A]" "Suc (Suc (length (json_stringify v)))"]
  by (simp add: json_parse_def skip_ws_def is_json_ws_def del: p_value.simps)

end
