(* ===== verification/StoreProps.thy ===== *)
theory StoreProps
  imports Store
begin

text \<open>
  Properties of the store operations: the integrity the schema declares is kept by every
  operation, whatever it returns or raises; reads see the last write; leases and runs.
\<close>

section \<open>Integrity\<close>

definition wf_db :: "db \<Rightarrow> bool" where
  "wf_db d \<longleftrightarrow>
     distinct (map t_task_id (tasks d)) \<and>
     distinct (map r_factory_run_id (runs d)) \<and>
     distinct (map (\<lambda>r. (r_task_id r, r_attempt r)) (runs d)) \<and>
     distinct (map c_candidate_id (candidates d)) \<and>
     distinct (map v_verification_id (verifications d)) \<and>
     distinct (map rv_review_id (reviews d)) \<and>
     distinct (map a_approval_id (approvals d)) \<and>
     distinct (map e_event_id (events d)) \<and>
     distinct (map l_lease_key (leases d)) \<and>
     r_task_id ` set (runs d) \<subseteq> t_task_id ` set (tasks d) \<and>
     c_task_id ` set (candidates d) \<subseteq> t_task_id ` set (tasks d) \<and>
     c_factory_run_id ` set (candidates d) \<subseteq> r_factory_run_id ` set (runs d) \<and>
     v_candidate_id ` set (verifications d) \<subseteq> c_candidate_id ` set (candidates d) \<and>
     rv_candidate_id ` set (reviews d) \<subseteq> c_candidate_id ` set (candidates d) \<and>
     a_task_id ` set (approvals d) \<subseteq> t_task_id ` set (tasks d) \<and>
     (\<forall>r \<in> set (runs d). 1 \<le> r_attempt r) \<and>
     (\<forall>t \<in> set (tasks d). task_checks t)"

definition integrity :: "core \<Rightarrow> bool" where
  "integrity s \<longleftrightarrow> wf_db (db s)"

lemma integrity_ticks [simp]: "integrity (s\<lparr>ticks := n\<rparr>) = integrity s"
  by (simp add: integrity_def)

lemma integrity_current [simp]: "integrity (s\<lparr>current_run := c\<rparr>) = integrity s"
  by (simp add: integrity_def)

lemma integrity_recovery [simp]: "integrity (s\<lparr>last_recovery := c\<rparr>) = integrity s"
  by (simp add: integrity_def)

lemma keeps_now [keeps_rules]: "(\<And>s n. I s \<Longrightarrow> I (s\<lparr>ticks := n\<rparr>)) \<Longrightarrow> keeps I (now E)"
  by (simp add: keeps_def now_def)

lemma keeps_newId [keeps_rules]: "(\<And>s n. I s \<Longrightarrow> I (s\<lparr>ticks := n\<rparr>)) \<Longrightarrow> keeps I (newId E p)"
  by (simp add: keeps_def newId_def)

lemma integrity_now [simp]: "keeps integrity (now E)" "keeps integrity (newId E p)"
  by (simp_all add: keeps_now keeps_newId)

lemma keeps_modify_db: "(\<And>d. wf_db d \<Longrightarrow> wf_db (f d)) \<Longrightarrow> keeps integrity (modify_db f)"
  by (simp add: keeps_def modify_db_def modify_def integrity_def)

lemma keeps_tx: "keeps integrity m \<Longrightarrow> keeps integrity (tx m)"
  by (auto simp: keeps_def tx_def integrity_def split: prod.splits sum.splits)

lemma reads_keep [keeps_rules, simp]:
  "keeps I (getTask x)" "keeps I (getRun x)" "keeps I (getCandidate x)" "keeps I (getVerification x)"
  "keeps I (getReview x)" "keeps I (getApproval x)" "keeps I (getControlLease x)" "keeps I listTasks"
  "keeps I (listRunsForTask x)" "keeps I listActiveRuns" "keeps I (listCandidatesForTask x)"
  "keeps I (listVerificationsForCandidate x)" "keeps I (listReviewsForCandidate x)"
  "keeps I (listApprovalsForTask x)" "keeps I (listEventsForTask x)"
  by (simp_all add: getTask_def getRun_def getCandidate_def getVerification_def getReview_def
      getApproval_def getControlLease_def listTasks_def listRunsForTask_def listActiveRuns_def
      listCandidatesForTask_def listVerificationsForCandidate_def listReviewsForCandidate_def
      listApprovalsForTask_def listEventsForTask_def)

lemma logical_read_keeps [keeps_rules, simp]: "keeps I (getTaskByLogicalWorkId w)"
  by (simp add: getTaskByLogicalWorkId_def split: option.splits)

text \<open>Writing rows: what each kind of write needs of the database it starts from.\<close>

lemma wf_update_tasks:
  assumes "wf_db d" and "\<And>r. t_task_id (f r) = t_task_id r"
    and "\<And>r. r \<in> set (tasks d) \<Longrightarrow> t_task_id r = k \<Longrightarrow> task_checks (f r)"
  shows "wf_db (d\<lparr>tasks := update_row t_task_id k f (tasks d)\<rparr>)"
proof -
  have "map t_task_id (update_row t_task_id k f (tasks d)) = map t_task_id (tasks d)"
    using assms(2) by simp
  then have "t_task_id ` set (update_row t_task_id k f (tasks d)) = t_task_id ` set (tasks d)"
    by (metis list.set_map)
  with assms show ?thesis
    by (auto simp: wf_db_def set_update_row)
qed

lemma distinct_pairs_update:
  assumes ids: "distinct (map key rs)" and pairs: "distinct (map pair rs)"
    and key: "\<And>r. key (f r) = key r"
    and new: "\<And>r q. r \<in> set rs \<Longrightarrow> q \<in> set rs \<Longrightarrow> key r = k \<Longrightarrow> key q \<noteq> k \<Longrightarrow> pair (f r) \<noteq> pair q"
  shows "distinct (map pair (update_row key k f rs))"
proof -
  let ?rs = "update_row key k f rs"
  have "distinct (map key ?rs)" using ids key by simp
  then have "distinct ?rs" by (simp add: distinct_map)
  moreover have "inj_on pair (set ?rs)"
  proof (rule inj_onI)
    fix x y assume "x \<in> set ?rs" "y \<in> set ?rs" and eq: "pair x = pair y"
    then obtain r q where rq: "r \<in> set rs" "q \<in> set rs"
      and x: "x = (if key r = k then f r else r)" and y: "y = (if key q = k then f q else q)"
      by (auto simp: set_update_row)
    have uniq: "r = q" if "key r = key q"
      using ids rq that by (auto simp: distinct_map dest: inj_onD)
    have "r = q"
    proof (cases "key r = k"; cases "key q = k")
      assume "key r \<noteq> k" "key q \<noteq> k"
      with eq x y rq pairs show ?thesis by (auto simp: distinct_map dest: inj_onD)
    qed (use new [OF rq] new [OF rq(2,1)] eq x y uniq in auto)
    with x y show "x = y" by simp
  qed
  ultimately show ?thesis by (simp add: distinct_map)
qed

lemma wf_update_runs:
  assumes "wf_db d" and id: "\<And>r. r_factory_run_id (f r) = r_factory_run_id r"
    and tid: "\<And>r. r_task_id (f r) = r_task_id r"
    and pos: "\<And>r. r \<in> set (runs d) \<Longrightarrow> r_factory_run_id r = k \<Longrightarrow> 1 \<le> r_attempt (f r)"
    and new: "\<And>r q. r \<in> set (runs d) \<Longrightarrow> q \<in> set (runs d) \<Longrightarrow> r_factory_run_id r = k \<Longrightarrow>
       r_factory_run_id q \<noteq> k \<Longrightarrow> \<not> (r_task_id q = r_task_id r \<and> r_attempt q = r_attempt (f r))"
  shows "wf_db (d\<lparr>runs := update_row r_factory_run_id k f (runs d)\<rparr>)"
proof -
  let ?rs = "update_row r_factory_run_id k f (runs d)"
  have ids: "map r_factory_run_id ?rs = map r_factory_run_id (runs d)"
    and tids: "map r_task_id ?rs = map r_task_id (runs d)"
    using id tid by (simp_all add: update_row_def)
  then have sets: "r_factory_run_id ` set ?rs = r_factory_run_id ` set (runs d)"
    "r_task_id ` set ?rs = r_task_id ` set (runs d)"
    by (metis list.set_map)+
  have "distinct (map (\<lambda>r. (r_task_id r, r_attempt r)) ?rs)"
  proof (rule distinct_pairs_update)
    fix r q assume "r \<in> set (runs d)" "q \<in> set (runs d)" "r_factory_run_id r = k" "r_factory_run_id q \<noteq> k"
    from new [OF this] tid show "(r_task_id (f r), r_attempt (f r)) \<noteq> (r_task_id q, r_attempt q)" by auto
  qed (use assms(1) id in \<open>simp_all add: wf_db_def\<close>)
  moreover have "\<forall>r \<in> set ?rs. 1 \<le> r_attempt r"
    using assms(1) pos by (auto simp: wf_db_def set_update_row)
  ultimately show ?thesis
    using assms(1) ids sets by (simp add: wf_db_def)
qed

lemma wf_update_candidates:
  assumes "wf_db d" and "\<And>r. c_candidate_id (f r) = c_candidate_id r"
    "\<And>r. c_task_id (f r) = c_task_id r" "\<And>r. c_factory_run_id (f r) = c_factory_run_id r"
  shows "wf_db (d\<lparr>candidates := update_row c_candidate_id k f (candidates d)\<rparr>)"
proof -
  let ?cs = "update_row c_candidate_id k f (candidates d)"
  have ids: "map c_candidate_id ?cs = map c_candidate_id (candidates d)"
    "map c_task_id ?cs = map c_task_id (candidates d)"
    "map c_factory_run_id ?cs = map c_factory_run_id (candidates d)"
    using assms(2-4) by (simp_all add: update_row_def)
  then have "c_candidate_id ` set ?cs = c_candidate_id ` set (candidates d)"
    "c_task_id ` set ?cs = c_task_id ` set (candidates d)"
    "c_factory_run_id ` set ?cs = c_factory_run_id ` set (candidates d)"
    by (metis list.set_map)+
  with assms(1) ids(1) show ?thesis by (simp add: wf_db_def)
qed

lemma wf_update_verifications:
  assumes "wf_db d" and "\<And>r. v_verification_id (f r) = v_verification_id r"
    "\<And>r. v_candidate_id (f r) = v_candidate_id r"
  shows "wf_db (d\<lparr>verifications := update_row v_verification_id k f (verifications d)\<rparr>)"
proof -
  let ?vs = "update_row v_verification_id k f (verifications d)"
  have ids: "map v_verification_id ?vs = map v_verification_id (verifications d)"
    "map v_candidate_id ?vs = map v_candidate_id (verifications d)"
    using assms(2,3) by (simp_all add: update_row_def)
  then have "v_candidate_id ` set ?vs = v_candidate_id ` set (verifications d)"
    by (metis list.set_map)
  with assms(1) ids(1) show ?thesis by (simp add: wf_db_def)
qed

lemma wf_update_reviews:
  assumes "wf_db d" and "\<And>r. rv_review_id (f r) = rv_review_id r"
    "\<And>r. rv_candidate_id (f r) = rv_candidate_id r"
  shows "wf_db (d\<lparr>reviews := update_row rv_review_id k f (reviews d)\<rparr>)"
proof -
  let ?vs = "update_row rv_review_id k f (reviews d)"
  have ids: "map rv_review_id ?vs = map rv_review_id (reviews d)"
    "map rv_candidate_id ?vs = map rv_candidate_id (reviews d)"
    using assms(2,3) by (simp_all add: update_row_def)
  then have "rv_candidate_id ` set ?vs = rv_candidate_id ` set (reviews d)"
    by (metis list.set_map)
  with assms(1) ids(1) show ?thesis by (simp add: wf_db_def)
qed

lemma wf_update_approvals:
  assumes "wf_db d" and "\<And>r. a_approval_id (f r) = a_approval_id r" "\<And>r. a_task_id (f r) = a_task_id r"
  shows "wf_db (d\<lparr>approvals := update_row a_approval_id k f (approvals d)\<rparr>)"
proof -
  let ?vs = "update_row a_approval_id k f (approvals d)"
  have ids: "map a_approval_id ?vs = map a_approval_id (approvals d)"
    "map a_task_id ?vs = map a_task_id (approvals d)"
    using assms(2,3) by (simp_all add: update_row_def)
  then have "a_task_id ` set ?vs = a_task_id ` set (approvals d)"
    by (metis list.set_map)
  with assms(1) ids(1) show ?thesis by (simp add: wf_db_def)
qed

lemma wf_filter_leases: "wf_db d \<Longrightarrow> wf_db (d\<lparr>leases := filter P (leases d)\<rparr>)"
  by (simp add: wf_db_def distinct_map_filter)

lemma wf_update_leases:
  "wf_db d \<Longrightarrow> (\<And>l. l_lease_key (f l) = l_lease_key l) \<Longrightarrow>
   wf_db (d\<lparr>leases := update_row l_lease_key k f (leases d)\<rparr>)"
  by (simp add: wf_db_def)

subsection \<open>Every store operation keeps integrity\<close>

lemma insertTask_integrity [keeps_rules, simp]: "keeps integrity (insertTask E t)"
proof (rule keepsI)
  fix s r s' assume i: "integrity s" and run: "insertTask E t s = (r, s')"
  show "integrity s'"
  proof (cases r)
    case (Inr x)
    with run i show ?thesis
      by (auto simp: insertTask_def now_def run_iff modify_db_def Let_def integrity_def wf_db_def task_checks_def)
  next
    case (Inl e)
    with run i show ?thesis
      by (auto simp: insertTask_def now_def run_iff run_err modify_db_def Let_def)
  qed
qed

lemma updateTask_integrity [keeps_rules, simp]: "keeps integrity (updateTask E tid p)"
proof (rule keepsI)
  fix s r s' assume i: "integrity s" and run: "updateTask E tid p s = (r, s')"
  show "integrity s'"
  proof (cases r)
    case (Inr x)
    with run i show ?thesis
      by (auto simp: updateTask_def getTask_def now_def run_iff modify_db_def Let_def integrity_def
          task_checks_def intro!: wf_update_tasks split: option.splits)
  next
    case (Inl e)
    with run i show ?thesis
      by (auto simp: updateTask_def getTask_def now_def run_iff run_err modify_db_def Let_def split: option.splits)
  qed
qed

lemma insertRun_integrity [keeps_rules, simp]: "keeps integrity (insertRun E x)"
proof (rule keepsI)
  fix s r s' assume i: "integrity s" and run: "insertRun E x s = (r, s')"
  show "integrity s'"
  proof (cases r)
    case (Inr y)
    with run i show ?thesis
      by (auto simp: insertRun_def now_def run_iff modify_db_def Let_def integrity_def wf_db_def list_ex_iff)
  next
    case (Inl e)
    with run i show ?thesis
      by (auto simp: insertRun_def now_def run_iff run_err modify_db_def Let_def)
  qed
qed

lemma run_written_simps [simp]:
  "r_factory_run_id (run_written f r) = r_factory_run_id r" "r_task_id (run_written f r) = r_task_id r"
  "r_created_at (run_written f r) = r_created_at r" "r_status (run_written f r) = r_status (f r)"
  "r_attempt (run_written f r) = r_attempt (f r)" "r_provider_run_id (run_written f r) = r_provider_run_id (f r)"
  "r_failure_class (run_written f r) = r_failure_class (f r)" "r_ended_at (run_written f r) = r_ended_at (f r)"
  "r_provider_agent_id (run_written f r) = r_provider_agent_id (f r)" "r_provider (run_written f r) = r_provider (f r)"
  "r_started_at (run_written f r) = r_started_at (f r)"
  by (simp_all add: run_written_def Let_def)

lemma releaseByRun_integrity [keeps_rules, simp]: "keeps integrity (releaseControlLeaseByRun rid)"
  by (simp add: releaseControlLeaseByRun_def keeps_modify_db wf_filter_leases)

lemma updateRun_integrity [keeps_rules, simp]: "keeps integrity (updateRun rid f)"
proof (rule keepsI)
  fix s r s' assume i: "integrity s" and run: "updateRun rid f s = (r, s')"
  have only: "q = cur" if "find_row r_factory_run_id (runs (db s)) rid = Some cur"
    "q \<in> set (runs (db s))" "r_factory_run_id q = rid" for q cur
    using that i find_row_distinct [of r_factory_run_id "runs (db s)" q] by (simp add: integrity_def wf_db_def)
  show "integrity s'"
  proof (cases "\<exists>cur. find_row r_factory_run_id (runs (db s)) rid = Some cur \<and> 1 \<le> r_attempt (f cur) \<and>
      \<not> list_ex (\<lambda>q. r_factory_run_id q \<noteq> rid \<and> r_task_id q = r_task_id cur \<and> r_attempt q = r_attempt (f cur)) (runs (db s))")
    case True
    then obtain cur where cur: "find_row r_factory_run_id (runs (db s)) rid = Some cur"
      and ok: "1 \<le> r_attempt (f cur)"
        "\<not> list_ex (\<lambda>q. r_factory_run_id q \<noteq> rid \<and> r_task_id q = r_task_id cur \<and> r_attempt q = r_attempt (f cur)) (runs (db s))"
      by blast
    have "wf_db ((db s)\<lparr>runs := update_row r_factory_run_id rid (run_written f) (runs (db s))\<rparr>)"
      by (rule wf_update_runs) (use i ok only [OF cur] in \<open>auto simp: integrity_def list_ex_iff\<close>)
    moreover from wf_filter_leases [OF this] have
      "wf_db ((db s)\<lparr>runs := update_row r_factory_run_id rid (run_written f) (runs (db s)),
         leases := filter (\<lambda>l. l_factory_run_id l \<noteq> Some rid) (leases (db s))\<rparr>)" by simp
    ultimately show ?thesis
      using run cur ok by (auto simp: updateRun_def getRun_def act_defs modify_db_def Let_def integrity_def
          releaseControlLeaseByRun_def split: if_splits)
  next
    case False
    with run i show ?thesis
      by (auto simp: updateRun_def getRun_def act_defs modify_db_def Let_def split: option.splits if_splits)
  qed
qed

lemma tryClaim_integrity [keeps_rules, simp]: "keeps integrity (tryClaimPendingDispatch rid)"
proof -
  have "wf_db (d\<lparr>runs := update_row r_factory_run_id rid (\<lambda>r. r\<lparr>r_status := R_LAUNCHED\<rparr>) (runs d)\<rparr>)"
    if "wf_db d" for d
  proof (rule wf_update_runs [OF that])
    fix r q assume "r \<in> set (runs d)" "q \<in> set (runs d)" "r_factory_run_id r = rid" "r_factory_run_id q \<noteq> rid"
    moreover have "inj_on (\<lambda>r. (r_task_id r, r_attempt r)) (set (runs d))"
      using that by (simp add: wf_db_def distinct_map)
    ultimately show "\<not> (r_task_id q = r_task_id r \<and> r_attempt q = r_attempt (r\<lparr>r_status := R_LAUNCHED\<rparr>))"
      by (auto dest: inj_onD)
  qed (use that in \<open>simp_all add: wf_db_def\<close>)
  then show ?thesis
    by (auto simp: tryClaimPendingDispatch_def intro!: keeps_rules keeps_modify_db)
qed

lemma insertCandidate_integrity [keeps_rules, simp]: "keeps integrity (insertCandidate E c)"
proof (rule keepsI)
  fix s r s' assume i: "integrity s" and run: "insertCandidate E c s = (r, s')"
  show "integrity s'"
  proof (cases r)
    case (Inr y)
    with run i show ?thesis
      by (auto simp: insertCandidate_def now_def run_iff modify_db_def Let_def integrity_def wf_db_def)
  next
    case (Inl e)
    with run i show ?thesis
      by (auto simp: insertCandidate_def now_def run_iff run_err modify_db_def Let_def)
  qed
qed

lemma candidate_written_simps [simp]:
  "c_candidate_id (candidate_written f c) = c_candidate_id c" "c_task_id (candidate_written f c) = c_task_id c"
  "c_factory_run_id (candidate_written f c) = c_factory_run_id c" "c_created_at (candidate_written f c) = c_created_at c"
  "c_status (candidate_written f c) = c_status (f c)" "c_commit_sha (candidate_written f c) = c_commit_sha (f c)"
  "c_verification_ref (candidate_written f c) = c_verification_ref (f c)" "c_review_ref (candidate_written f c) = c_review_ref (f c)"
  "c_branch (candidate_written f c) = c_branch (f c)" "c_pr_number (candidate_written f c) = c_pr_number (f c)"
  "c_ci_status (candidate_written f c) = c_ci_status (f c)" "c_ci_conclusion (candidate_written f c) = c_ci_conclusion (f c)"
  by (simp_all add: candidate_written_def)

lemma updateCandidate_integrity [keeps_rules, simp]: "keeps integrity (updateCandidate cid f)"
  unfolding updateCandidate_def by (intro keeps_rules keeps_modify_db wf_update_candidates) simp_all

lemma insertVerification_integrity [keeps_rules, simp]: "keeps integrity (insertVerification v)"
proof (rule keepsI)
  fix s r s' assume i: "integrity s" and run: "insertVerification v s = (r, s')"
  show "integrity s'"
  proof (cases r)
    case (Inr y)
    with run i show ?thesis
      by (auto simp: insertVerification_def run_iff modify_db_def Let_def integrity_def wf_db_def)
  next
    case (Inl e)
    with run i show ?thesis
      by (auto simp: insertVerification_def run_iff run_err modify_db_def Let_def)
  qed
qed

lemma verification_written_simps [simp]:
  "v_verification_id (verification_written f v) = v_verification_id v"
  "v_candidate_id (verification_written f v) = v_candidate_id v"
  "v_commit_sha (verification_written f v) = v_commit_sha v"
  "v_result (verification_written f v) = v_result (f v)"
  "v_invalidated_at (verification_written f v) = v_invalidated_at (f v)"
  by (simp_all add: verification_written_def Let_def)

lemma updateVerification_integrity [keeps_rules, simp]: "keeps integrity (updateVerification vid f)"
  unfolding updateVerification_def by (intro keeps_rules keeps_modify_db wf_update_verifications) simp_all

lemma insertReview_integrity [keeps_rules, simp]: "keeps integrity (insertReview v)"
proof (rule keepsI)
  fix s r s' assume i: "integrity s" and run: "insertReview v s = (r, s')"
  show "integrity s'"
  proof (cases r)
    case (Inr y)
    with run i show ?thesis
      by (auto simp: insertReview_def run_iff modify_db_def Let_def integrity_def wf_db_def)
  next
    case (Inl e)
    with run i show ?thesis
      by (auto simp: insertReview_def run_iff run_err modify_db_def Let_def)
  qed
qed

lemma review_written_simps [simp]:
  "rv_review_id (review_written f v) = rv_review_id v"
  "rv_candidate_id (review_written f v) = rv_candidate_id v"
  "rv_commit_sha (review_written f v) = rv_commit_sha v"
  "rv_review_status (review_written f v) = rv_review_status (f v)"
  "rv_invalidated_at (review_written f v) = rv_invalidated_at (f v)"
  by (simp_all add: review_written_def Let_def)

lemma updateReview_integrity [keeps_rules, simp]: "keeps integrity (updateReview vid f)"
  unfolding updateReview_def by (intro keeps_rules keeps_modify_db wf_update_reviews) simp_all

lemma insertApproval_integrity [keeps_rules, simp]: "keeps integrity (insertApproval E a)"
proof (rule keepsI)
  fix s r s' assume i: "integrity s" and run: "insertApproval E a s = (r, s')"
  show "integrity s'"
  proof (cases r)
    case (Inr y)
    with run i show ?thesis
      by (auto simp: insertApproval_def now_def run_iff modify_db_def Let_def integrity_def wf_db_def)
  next
    case (Inl e)
    with run i show ?thesis
      by (auto simp: insertApproval_def now_def run_iff run_err modify_db_def Let_def)
  qed
qed

lemma approval_written_simps [simp]:
  "a_approval_id (approval_written f v) = a_approval_id v" "a_task_id (approval_written f v) = a_task_id v"
  "a_status (approval_written f v) = a_status (f v)" "a_candidate_id (approval_written f v) = a_candidate_id (f v)"
  by (simp_all add: approval_written_def)

lemma updateApproval_integrity [keeps_rules, simp]: "keeps integrity (updateApproval vid f)"
  unfolding updateApproval_def by (intro keeps_rules keeps_modify_db wf_update_approvals) simp_all

lemma appendEvent_integrity [keeps_rules, simp]: "keeps integrity (appendEvent E tid rid ty ref p)"
proof (rule keepsI)
  fix s r s' assume i: "integrity s" and run: "appendEvent E tid rid ty ref p s = (r, s')"
  show "integrity s'"
  proof (cases r)
    case (Inr y)
    with run i show ?thesis
      by (auto simp: appendEvent_def now_def newId_def run_iff modify_db_def integrity_def wf_db_def)
  next
    case (Inl e)
    with run i show ?thesis
      by (auto simp: appendEvent_def now_def newId_def run_iff run_err modify_db_def)
  qed
qed

lemma wf_add_lease:
  "wf_db d \<Longrightarrow> l_lease_key l \<notin> l_lease_key ` set (leases d) \<Longrightarrow> wf_db (d\<lparr>leases := leases d @ [l]\<rparr>)"
  by (simp add: wf_db_def)

text \<open>Integrity, with a given lease key not taken.\<close>

definition lease_free :: "string \<Rightarrow> core \<Rightarrow> bool" where
  "lease_free k s \<longleftrightarrow> integrity s \<and> k \<notin> l_lease_key ` set (leases (db s))"

lemma lease_free_ticks [simp]: "lease_free k (s\<lparr>ticks := n\<rparr>) = lease_free k s"
  by (simp add: lease_free_def)

lemma keeps_lease_free [simp]:
  "keeps (lease_free k) (now E)" "keeps (lease_free k) (newId E p)"
  by (simp_all add: keeps_now keeps_newId)

lemma insertRun_lease_free [simp]: "keeps (lease_free k) (insertRun E x)"
proof (rule keepsI)
  fix s r s' assume i: "lease_free k s" and run: "insertRun E x s = (r, s')"
  from keepsD [OF insertRun_integrity _ run] i have "integrity s'" by (simp add: lease_free_def)
  moreover have "leases (db s') = leases (db s)"
    using run by (auto simp: insertRun_def now_def act_defs modify_db_def Let_def split: if_splits)
  ultimately show "lease_free k s'" using i by (simp add: lease_free_def)
qed

lemma add_lease_leads:
  "leads (lease_free (l_lease_key l)) (modify_db (\<lambda>d. d\<lparr>leases := leases d @ [l]\<rparr>)) integrity"
  unfolding modify_db_def
  by (rule leads_modify) (simp add: lease_free_def integrity_def wf_add_lease)

lemma update_lease_keeps:
  "(\<And>l. l_lease_key (f l) = l_lease_key l) \<Longrightarrow>
   keeps integrity (modify_db (\<lambda>d. d\<lparr>leases := update_row l_lease_key k f (leases d)\<rparr>))"
  by (rule keeps_modify_db) (simp add: wf_update_leases)

lemma lease_none_free:
  "integrity s \<and> find_row l_lease_key (leases (db s)) k = None \<Longrightarrow> lease_free k s"
  by (simp add: lease_free_def find_row_None)

lemma acquireControlLease_integrity [keeps_rules, simp]: "keeps integrity (acquireControlLease E k w tid rid)"
  unfolding acquireControlLease_def getControlLease_def
proof (rule keeps_tx, unfold keeps_iff_leads, rule leads_read, rule leads_option)
  fix v :: "lease option" assume "v = None"
  show "leads (\<lambda>s. integrity s \<and> find_row l_lease_key (leases (db s)) k = v)
     (bnd (now E) (\<lambda>ts. thn (modify_db (\<lambda>d. d\<lparr>leases := leases d @
         [\<lparr>l_lease_key = k, l_owner = w, l_task_id = tid, l_factory_run_id = rid, l_acquired_at = ts\<rparr>]\<rparr>))
        (bnd (gets (\<lambda>s. find_row l_lease_key (leases (db s)) k)) (\<lambda>l'. ret (Acquired False l'))))) integrity"
  proof (rule leads_strengthen, rule lease_none_free)
    show "leads (lease_free k) (bnd (now E) (\<lambda>ts. thn (modify_db (\<lambda>d. d\<lparr>leases := leases d @
         [\<lparr>l_lease_key = k, l_owner = w, l_task_id = tid, l_factory_run_id = rid, l_acquired_at = ts\<rparr>]\<rparr>))
        (bnd (gets (\<lambda>s. find_row l_lease_key (leases (db s)) k)) (\<lambda>l'. ret (Acquired False l'))))) integrity"
      by (rule leads_bnd, simp, rule leads_then)
         (use add_lease_leads [of "lease.make k w tid rid _"] in \<open>auto simp: lease.make_def lease_free_def intro!: keeps_rules\<close>)
  qed (simp add: \<open>v = None\<close>)
next
  fix v :: "lease option" and l assume "v = Some l"
  show "leads (\<lambda>s. integrity s \<and> find_row l_lease_key (leases (db s)) k = v)
     (if l_owner l = w then bnd (now E) (\<lambda>ts. thn (modify_db (\<lambda>d. d\<lparr>leases := update_row l_lease_key k
            (\<lambda>l. l\<lparr>l_task_id := (if tid = None then l_task_id l else tid),
                   l_factory_run_id := (if rid = None then l_factory_run_id l else rid),
                   l_acquired_at := ts\<rparr>) (leases d)\<rparr>))
           (bnd (gets (\<lambda>s. find_row l_lease_key (leases (db s)) k)) (\<lambda>l'. ret (Acquired True l'))))
      else ret (LeaseHeld l)) integrity"
    by (rule leads_strengthen [where P' = integrity], simp, unfold keeps_iff_leads [symmetric])
       (intro keeps_rules update_lease_keeps; simp)
qed

lemma releaseControlLease_integrity [keeps_rules, simp]: "keeps integrity (releaseControlLease k w)"
  unfolding releaseControlLease_def
  by (rule keeps_modify_db) (auto intro!: wf_filter_leases split: option.splits)

text \<open>The tail of the transaction, by whether the lease was read as absent.\<close>

lemma lease_to_run_keeps: "lease \<noteq> None \<Longrightarrow> keeps integrity (lease_to_run tid w run ts lease)"
  by (simp add: lease_to_run_def update_lease_keeps)

lemma lease_to_run_leads:
  "leads (lease_free ACTIVE_CODING_LEASE_KEY) (lease_to_run tid w run ts None) integrity"
  using add_lease_leads [of "lease.make ACTIVE_CODING_LEASE_KEY w (Some tid) _ ts"]
  by (simp add: lease_to_run_def lease.make_def)

lemma fresh_id_keeps [simp]:
  "keeps integrity (case rid of None \<Rightarrow> newId E p | Some x \<Rightarrow> ret x)"
  "keeps (lease_free k) (case rid of None \<Rightarrow> newId E p | Some x \<Rightarrow> ret x)"
  by (simp_all split: option.splits)

lemma insert_leased_run_some:
  "lease \<noteq> None \<Longrightarrow> keeps integrity (insert_leased_run E tid prov w rid prid paid n lease)"
  unfolding insert_leased_run_def
  by (rule keeps_bnd, simp, rule keeps_bnd, simp, rule keeps_bnd, simp, rule keeps_thn)
     (simp_all add: lease_to_run_keeps)

lemma insert_leased_run_none:
  "leads (lease_free ACTIVE_CODING_LEASE_KEY) (insert_leased_run E tid prov w rid prid paid n None) integrity"
  unfolding insert_leased_run_def
  by (rule leads_bnd, simp, rule leads_bnd, simp, rule leads_bnd, simp, rule leads_then)
     (simp_all add: lease_to_run_leads lease_free_def)

lemma leads_read_only: "leads P m P \<Longrightarrow> (\<And>s. P s \<Longrightarrow> Q s) \<Longrightarrow> leads P m Q"
  by (simp add: leads_def)

lemma tryInsertActiveRun_body:
  "leads (\<lambda>s. integrity s \<and> find_row l_lease_key (leases (db s)) ACTIVE_CODING_LEASE_KEY = lease)
     (bnd (listRunsForTask tid) (\<lambda>existing.
       (case filter (\<lambda>r. is_active (r_status r)) existing of
          r # _ \<Rightarrow> ret (RunNotInserted ''ACTIVE_RUN_EXISTS'' (Some r) lease)
        | [] \<Rightarrow> insert_leased_run E tid provider w rid prid paid (m existing) lease))) integrity"
proof (rule leads_bnd, simp, rule leads_list)
  fix existing
  let ?P = "\<lambda>s. integrity s \<and> find_row l_lease_key (leases (db s)) ACTIVE_CODING_LEASE_KEY = lease"
  show "leads ?P (insert_leased_run E tid provider w rid prid paid (m existing) lease) integrity"
  proof (cases lease)
    case None
    then show ?thesis
      using lease_none_free by (auto intro: leads_strengthen [OF _ insert_leased_run_none])
  next
    case (Some l)
    then have "leads integrity (insert_leased_run E tid provider w rid prid paid (m existing) lease) integrity"
      using insert_leased_run_some by (simp add: keeps_iff_leads)
    then show ?thesis by (rule leads_strengthen [rotated]) simp
  qed
qed (auto simp: leads_def ret_def)

lemma tryInsertActiveRun_integrity [keeps_rules, simp]:
  "keeps integrity (tryInsertActiveRun E tid prov w rid prid paid n)"
  unfolding tryInsertActiveRun_def
proof (rule keeps_catch, rule keeps_tx)
  show "keeps integrity (bnd (getControlLease ACTIVE_CODING_LEASE_KEY) (\<lambda>lease.
     if (\<exists>l \<in> set_option lease. l_owner l \<noteq> w) then
       bnd (case Option.bind lease l_factory_run_id of
              Some lr \<Rightarrow> getRun lr
            | None \<Rightarrow> bnd listActiveRuns (\<lambda>rs. ret (hd_opt rs)))
           (\<lambda>existing. ret (RunNotInserted ''LEASE_HELD'' existing lease))
     else
       bnd (listRunsForTask tid) (\<lambda>existing.
       (case filter (\<lambda>r. is_active (r_status r)) existing of
          r # _ \<Rightarrow> ret (RunNotInserted ''ACTIVE_RUN_EXISTS'' (Some r) lease)
        | [] \<Rightarrow> insert_leased_run E tid prov w rid prid paid
                  (case n of Some a \<Rightarrow> a | None \<Rightarrow> int (length existing) + 1) lease))))"
    unfolding getControlLease_def keeps_iff_leads
  proof (rule leads_read, rule leads_if)
    fix v :: "lease option"
    let ?m = "bnd (case Option.bind v l_factory_run_id of
                None \<Rightarrow> bnd listActiveRuns (\<lambda>rs. ret (hd_opt rs)) | Some lr \<Rightarrow> getRun lr)
           (\<lambda>existing. ret (RunNotInserted ''LEASE_HELD'' existing v)) :: insert_result cact"
    have "keeps integrity ?m" by (intro keeps_rules)
    then show "leads (\<lambda>s. integrity s \<and> find_row l_lease_key (leases (db s)) ACTIVE_CODING_LEASE_KEY = v)
        ?m integrity"
      by (simp add: keeps_def leads_def)
  qed (rule tryInsertActiveRun_body)
qed (intro keeps_rules)

section \<open>Fresh identifiers\<close>

text \<open>
  Event identifiers are random UUIDs. Where a property states that an operation returns, it
  assumes what the platform documents of them: no UUID is drawn twice and none of those still
  to come is already in the event log.
\<close>

definition fresh_env :: "env \<Rightarrow> core \<Rightarrow> bool" where
  "fresh_env E s \<longleftrightarrow> inj (env_uuid E) \<and>
     (\<forall>n \<ge> ticks s. ''evt_'' @ env_uuid E n \<notin> e_event_id ` set (events (db s)))"

definition logged :: "env \<Rightarrow> string option \<Rightarrow> string option \<Rightarrow> event_type \<Rightarrow> string option \<Rightarrow> js \<Rightarrow> core \<Rightarrow> core" where
  "logged E tid rid ty ref payload s =
     s\<lparr>ticks := ticks s + 2, db := (db s)\<lparr>events := events (db s) @
        [\<lparr>e_event_id = ''evt_'' @ env_uuid E (ticks s), e_task_id = tid, e_factory_run_id = rid,
          e_event_type = ty, e_evidence_ref = ref, e_payload = durable_opt (Some payload),
          e_timestamp = env_clock E (Suc (ticks s))\<rparr>]\<rparr>\<rparr>"

lemma appendEvent_ok:
  "fresh_env E s \<Longrightarrow> appendEvent E tid rid ty ref p s = (Inr (), logged E tid rid ty ref p s)"
  by (auto simp: appendEvent_def fresh_env_def logged_def newId_def now_def act_defs modify_db_def)

lemma fresh_env_logged: "fresh_env E s \<Longrightarrow> fresh_env E (logged E tid rid ty ref p s)"
  by (auto simp: fresh_env_def logged_def inj_eq)

lemma fresh_env_mono:
  "fresh_env E s \<Longrightarrow> ticks s \<le> ticks s' \<Longrightarrow> events (db s') = events (db s) \<Longrightarrow> fresh_env E s'"
  by (auto simp: fresh_env_def)

lemma appendEvent_frame:
  assumes "appendEvent E tid rid ty ref p s = (r, s')"
  shows "tasks (db s') = tasks (db s) \<and> runs (db s') = runs (db s) \<and> candidates (db s') = candidates (db s) \<and>
    verifications (db s') = verifications (db s) \<and> reviews (db s') = reviews (db s) \<and>
    approvals (db s') = approvals (db s) \<and> leases (db s') = leases (db s) \<and>
    current_run s' = current_run s \<and> last_recovery s' = last_recovery s"
  using assms
  by (auto simp: appendEvent_def newId_def now_def act_defs modify_db_def split: if_splits)

lemma logged_frame [simp]:
  "tasks (db (logged E tid rid ty ref p s)) = tasks (db s)"
  "runs (db (logged E tid rid ty ref p s)) = runs (db s)"
  "candidates (db (logged E tid rid ty ref p s)) = candidates (db s)"
  "verifications (db (logged E tid rid ty ref p s)) = verifications (db s)"
  "reviews (db (logged E tid rid ty ref p s)) = reviews (db s)"
  "approvals (db (logged E tid rid ty ref p s)) = approvals (db s)"
  "leases (db (logged E tid rid ty ref p s)) = leases (db s)"
  "current_run (logged E tid rid ty ref p s) = current_run s"
  "last_recovery (logged E tid rid ty ref p s) = last_recovery s"
  "ticks (logged E tid rid ty ref p s) = ticks s + 2"
  by (simp_all add: logged_def)

text \<open>A concrete platform, for applying the properties at concrete inputs.\<close>

definition demo_env :: env where
  "demo_env = \<lparr>env_uuid = (\<lambda>n. replicate n CHR ''a''), env_clock = (\<lambda>n. n),
     env_sha256 = (\<lambda>x. CHR ''h'' # x)\<rparr>"

lemma demo_env_inj [simp]: "inj (env_uuid demo_env)"
  by (auto simp: demo_env_def inj_def)

lemma demo_env_sha [simp]: "env_sha256 demo_env x \<noteq> []"
  by (simp add: demo_env_def)

lemma fresh_demo [simp]: "events (db s) = [] \<Longrightarrow> fresh_env demo_env s"
  by (simp add: fresh_env_def)

end
