(* ===== verification/TaskLock.thy ===== *)
theory TaskLock
  imports StoreProps
begin

text \<open>
  The task-lock path (\<open>src/builder/task-lock.js\<close>) and the store's \<open>claimLogicalWork\<close>: an owner's
  request is normalised into a draft, the draft is locked under the SHA-256 of its finish
  line, and from then on the fields of the finish line are immutable. Shown: locking a draft
  binds the stored row to its hash and every later check of that hash succeeds, a mutation
  attempt on a locked task never changes a bound field, and a piece of logical work is
  claimed at most once.
\<close>

section \<open>Normalising a request\<close>

record normalized_intent =
  n_intent :: string
  n_acceptance_ref :: string
  n_allowed_paths :: "string list"
  n_tool_manifest :: tool_manifest
  n_review_required :: bool
  n_priority :: int
  n_max_attempts :: int
  n_max_runtime_ms :: int
  n_cost_budget_status :: string
  n_intent_version :: int

definition normalizeAllowedPaths :: "js option \<Rightarrow> js_error + string list" where
  "normalizeAllowedPaths paths = (case paths of
      Some (JArr (p # ps)) \<Rightarrow>
        (let normalized = remdups (filter (\<lambda>s. s \<noteq> []) (map (\<lambda>v. trim (js_String v)) (p # ps)))
         in if normalized = [] then Inl (taskLockError ''allowed_paths must contain at least one path'')
            else Inr (sort normalized))
    | _ \<Rightarrow> Inl (taskLockError ''allowed_paths must be a non-empty array''))"

definition requireNonEmptyString :: "string \<Rightarrow> js option \<Rightarrow> js_error + string" where
  "requireNonEmptyString name v = (case v of
      Some (JStr s) \<Rightarrow> if trim s = [] then Inl (taskLockError (name @ '' is required'')) else Inr (trim s)
    | _ \<Rightarrow> Inl (taskLockError (name @ '' is required'')))"

text \<open>\<open>value == null ? dflt : Number.parseInt(value, 10)\<close>; \<open>None\<close> is \<open>NaN\<close>.\<close>

definition parseInt_or :: "int \<Rightarrow> js option \<Rightarrow> int option" where
  "parseInt_or dflt v = (case v of None \<Rightarrow> Some dflt | Some JNull \<Rightarrow> Some dflt
     | Some x \<Rightarrow> parseInt10 (js_String x))"

definition sum_bind :: "'e + 'a \<Rightarrow> ('a \<Rightarrow> 'e + 'b) \<Rightarrow> 'e + 'b" where
  "sum_bind x f = (case x of Inl e \<Rightarrow> Inl e | Inr y \<Rightarrow> f y)"

definition is_object :: "js \<Rightarrow> bool" where
  "is_object v = (case v of JArr _ \<Rightarrow> True | JObj _ \<Rightarrow> True | _ \<Rightarrow> False)"

definition normalizeOwnerIntent :: "js \<Rightarrow> js_error + normalized_intent" where
  "normalizeOwnerIntent input =
     (if \<not> is_object input then Inl (taskLockError ''intent payload is required'') else
      sum_bind (requireNonEmptyString ''intent'' (js_get input ''intent'')) (\<lambda>intent.
      sum_bind (requireNonEmptyString ''acceptance_ref'' (js_get input ''acceptance_ref'')) (\<lambda>acceptance.
      sum_bind (normalizeAllowedPaths (js_get input ''allowed_paths'')) (\<lambda>paths.
      (case parseInt_or 100 (js_get input ''priority'') of
         None \<Rightarrow> Inl (taskLockError ''priority must be a number'')
       | Some prio \<Rightarrow>
      (case parseInt_or 2 (js_get input ''max_attempts'') of
         None \<Rightarrow> Inl (taskLockError ''max_attempts must be >= 1'')
       | Some attempts \<Rightarrow>
      if attempts < 1 then Inl (taskLockError ''max_attempts must be >= 1'') else
      (case parseInt_or 1800000 (js_get input ''max_runtime_ms'') of
         None \<Rightarrow> Inl (taskLockError ''max_runtime_ms must be >= 1'')
       | Some runtime \<Rightarrow>
      if runtime < 1 then Inl (taskLockError ''max_runtime_ms must be >= 1'') else
      Inr \<lparr>n_intent = intent, n_acceptance_ref = acceptance, n_allowed_paths = paths,
           n_tool_manifest = normalizeToolManifest
             (case js_get input ''tool_manifest'' of Some m \<Rightarrow> if js_truthy m then m else JObj [] | None \<Rightarrow> JObj []),
           n_review_required = (case js_get input ''review_required'' of None \<Rightarrow> True | Some b \<Rightarrow> js_truthy b),
           n_priority = prio, n_max_attempts = attempts, n_max_runtime_ms = runtime,
           n_cost_budget_status = (if opt_truthy (js_get input ''cost_budget_status'')
              then opt_String (js_get input ''cost_budget_status'') else ''UNKNOWN''),
           n_intent_version = 1\<rparr>)))))))"

section \<open>Drafts and locks\<close>

text \<open>A field of the request that is \<open>null\<close> or absent, or its text.\<close>

definition js_str_field :: "js \<Rightarrow> string \<Rightarrow> string option" where
  "js_str_field v k = (case js_get v k of None \<Rightarrow> None | Some JNull \<Rightarrow> None | Some x \<Rightarrow> Some (js_String x))"

definition draft_of :: "string \<Rightarrow> string option \<Rightarrow> normalized_intent \<Rightarrow> task" where
  "draft_of tid w n = \<lparr>t_task_id = tid, t_logical_work_id = w, t_intent = n_intent n,
     t_intent_version = n_intent_version n, t_acceptance_ref = n_acceptance_ref n,
     t_allowed_paths = n_allowed_paths n, t_tool_manifest = n_tool_manifest n,
     t_review_required = n_review_required n, t_status = T_DRAFT, t_priority = n_priority n,
     t_max_attempts = n_max_attempts n, t_max_runtime_ms = n_max_runtime_ms n,
     t_cost_budget_status = n_cost_budget_status n, t_proposal_id = None, t_content_hash = None,
     t_locked_at = None, t_created_at = 0, t_updated_at = 0\<rparr>"

definition createDraftTask :: "env \<Rightarrow> js \<Rightarrow> task cact" where
  "createDraftTask E ownerIntent =
     bnd (lift (normalizeOwnerIntent ownerIntent)) (\<lambda>n.
     bnd (case js_get ownerIntent ''task_id'' of
            Some v \<Rightarrow> if js_truthy v then ret (js_String v) else newId E ''task''
          | None \<Rightarrow> newId E ''task'') (\<lambda>tid.
     bnd (insertTask E (draft_of tid (js_str_field ownerIntent ''logical_work_id'') n)) (\<lambda>task.
     thn (appendEvent E (Some (t_task_id task)) None TASK_CREATED None
           (JObj [(''status'', JStr (task_status_name (t_status task))),
                  (''acceptance_ref'', JStr (t_acceptance_ref task)),
                  (''allowed_paths'', JArr (map JStr (t_allowed_paths task))),
                  (''logical_work_id'', jstr_opt (t_logical_work_id task))]))
         (ret task))))"

definition lock_payload :: "task \<Rightarrow> js" where
  "lock_payload t = buildTaskLockPayload (t_task_id t) (t_intent t) (t_intent_version t)
     (t_acceptance_ref t) (t_allowed_paths t) (t_tool_manifest t) (t_review_required t)"

definition taskContentHash :: "env \<Rightarrow> js \<Rightarrow> string" where
  "taskContentHash E payload = env_sha256 E (canonicalJson payload)"

definition lockTask :: "env \<Rightarrow> string \<Rightarrow> task cact" where
  "lockTask E taskId =
     bnd (getTask taskId) (\<lambda>found. case found of
       None \<Rightarrow> throw (taskLockError (''unknown task_id: '' @ taskId))
     | Some task \<Rightarrow>
       if t_status task = T_LOCKED then ret task
       else if t_status task \<noteq> T_DRAFT then
         throw (taskLockError (''cannot lock task in status '' @ task_status_name (t_status task)
                 @ ''; expected DRAFT''))
       else
         bnd (newId E ''prop'') (\<lambda>pid.
         let hash = taskContentHash E (lock_payload task) in
         bnd (now E) (\<lambda>ts.
         bnd (updateTask E taskId [P_status ''LOCKED'', P_proposal_id (Some pid),
                P_content_hash (Some hash), P_locked_at (Some ts)]) (\<lambda>locked.
         thn (appendEvent E (Some (t_task_id locked)) None TASK_LOCKED None
                (JObj [(''proposal_id'', JStr pid), (''content_hash'', JStr hash),
                       (''acceptance_ref'', JStr (t_acceptance_ref locked)),
                       (''lock_payload'', lock_payload task)]))
             (ret locked)))))"

definition createAndLockTask :: "env \<Rightarrow> js \<Rightarrow> task cact" where
  "createAndLockTask E ownerIntent =
     bnd (createDraftTask E ownerIntent) (\<lambda>draft. lockTask E (t_task_id draft))"

definition verifyTaskHash :: "env \<Rightarrow> task option \<Rightarrow> js_error + unit" where
  "verifyTaskHash E task = (case task of
      None \<Rightarrow> Inl (taskLockError ''task is not locked with proposal/content hash'')
    | Some t \<Rightarrow>
        if t_content_hash t \<in> {None, Some []} \<or> t_proposal_id t \<in> {None, Some []}
        then Inl (taskLockError ''task is not locked with proposal/content hash'')
        else if Some (taskContentHash E (lock_payload t)) \<noteq> t_content_hash t
        then Inl (taskLockError ''content_hash mismatch; locked finish line was altered'')
        else Inr ())"

section \<open>Mutating a task\<close>

definition IMMUTABLE_WHEN_LOCKED :: "string list" where
  "IMMUTABLE_WHEN_LOCKED = [''intent'', ''intent_version'', ''acceptance_ref'', ''allowed_paths'',
     ''tool_manifest'', ''review_required'', ''max_attempts'', ''max_runtime_ms'',
     ''cost_budget_status'', ''proposal_id'', ''content_hash'']"

definition isPostLockStatus :: "task_status \<Rightarrow> bool" where
  "isPostLockStatus st \<longleftrightarrow> st \<in> {T_LOCKED, T_RUNNING, T_AWAITING_APPROVAL, T_VERIFIED, T_ACCEPTED,
     T_BLOCKED, T_NEEDS_OWNER, T_FAILED, T_CANCELLED}"

text \<open>An entry of a patch object as its key and value, and the same key read off a task.\<close>

fun patch_entry :: "task_patch \<Rightarrow> string \<times> js" where
  "patch_entry (P_logical_work_id w) = (''logical_work_id'', jstr_opt w)"
| "patch_entry (P_intent i) = (''intent'', JStr i)"
| "patch_entry (P_intent_version n) = (''intent_version'', JNum n)"
| "patch_entry (P_acceptance_ref a) = (''acceptance_ref'', JStr a)"
| "patch_entry (P_allowed_paths ps) = (''allowed_paths'', JArr (map JStr ps))"
| "patch_entry (P_tool_manifest m) = (''tool_manifest'', manifest_js m)"
| "patch_entry (P_review_required b) = (''review_required'', JBool b)"
| "patch_entry (P_status v) = (''status'', JStr v)"
| "patch_entry (P_priority p) = (''priority'', JNum p)"
| "patch_entry (P_max_attempts n) = (''max_attempts'', JNum n)"
| "patch_entry (P_max_runtime_ms n) = (''max_runtime_ms'', JNum n)"
| "patch_entry (P_cost_budget_status c) = (''cost_budget_status'', JStr c)"
| "patch_entry (P_proposal_id p) = (''proposal_id'', jstr_opt p)"
| "patch_entry (P_content_hash h) = (''content_hash'', jstr_opt h)"
| "patch_entry (P_locked_at l) = (''locked_at'', js_of_opt (\<lambda>ms. JStr (isoString ms)) l)"
| "patch_entry (P_other k) = (k, JNull)"

definition task_field :: "task \<Rightarrow> string \<Rightarrow> js" where
  "task_field t k =
    (if k = ''intent'' then JStr (t_intent t)
     else if k = ''intent_version'' then JNum (t_intent_version t)
     else if k = ''acceptance_ref'' then JStr (t_acceptance_ref t)
     else if k = ''allowed_paths'' then JArr (map JStr (t_allowed_paths t))
     else if k = ''tool_manifest'' then manifest_js (t_tool_manifest t)
     else if k = ''review_required'' then JBool (t_review_required t)
     else if k = ''max_attempts'' then JNum (t_max_attempts t)
     else if k = ''max_runtime_ms'' then JNum (t_max_runtime_ms t)
     else if k = ''cost_budget_status'' then JStr (t_cost_budget_status t)
     else if k = ''proposal_id'' then jstr_opt (t_proposal_id t)
     else if k = ''content_hash'' then jstr_opt (t_content_hash t)
     else JNull)"

definition normalizeComparable :: "string \<Rightarrow> js \<Rightarrow> js" where
  "normalizeComparable key v =
    (if key = ''allowed_paths'' \<or> key = ''tool_manifest'' then JStr (json_stringify v)
     else if key = ''review_required'' then JBool (js_truthy v)
     else v)"

fun immutable_keys_unchanged :: "task \<Rightarrow> (string \<times> js) list \<Rightarrow> js_error + unit" where
  "immutable_keys_unchanged t [] = Inr ()"
| "immutable_keys_unchanged t ((k, v) # kvs) =
     (if k \<notin> set IMMUTABLE_WHEN_LOCKED then immutable_keys_unchanged t kvs
      else if normalizeComparable k (task_field t k) \<noteq> normalizeComparable k v then
        Inl (taskLockError (''immutable field '' @ [CHR 0x27] @ k @ [CHR 0x27]
              @ '' cannot change after lock (acceptance/hash binding)''))
      else immutable_keys_unchanged t kvs)"

definition assertTaskMutable :: "task option \<Rightarrow> task_patch list \<Rightarrow> js_error + unit" where
  "assertTaskMutable task patch = (case task of
      None \<Rightarrow> Inl (taskLockError ''unknown task'')
    | Some t \<Rightarrow>
       if t_status t = T_DRAFT then Inr ()
       else if t_status t \<noteq> T_LOCKED \<and> \<not> isPostLockStatus (t_status t) then Inr ()
       else immutable_keys_unchanged t (map patch_entry patch))"

section \<open>Claiming logical work\<close>

datatype claim_result = Claimed task | AlreadyClaimed "task option"

text \<open>Looking the work up by task, then by work identifier; the driver refuses to bind an absent
  (\<open>undefined\<close>) task identifier.\<close>

definition find_claim :: "js \<Rightarrow> task option cact" where
  "find_claim input =
     bnd (case js_get input ''task_id'' of
            None \<Rightarrow> throw (codedError PlainError
               ''Provided value cannot be bound to SQLite parameter 1.'' ''ERR_INVALID_ARG_TYPE'')
          | Some JNull \<Rightarrow> ret None
          | Some v \<Rightarrow> getTask (js_String v)) (\<lambda>byId.
     (case byId of Some t \<Rightarrow> ret (Some t)
      | None \<Rightarrow> getTaskByLogicalWorkId (js_str_field input ''logical_work_id'')))"

definition claimLogicalWork :: "env \<Rightarrow> js \<Rightarrow> claim_result cact" where
  "claimLogicalWork E input = catch (tx (
     bnd (find_claim input) (\<lambda>existing. case existing of
       Some t \<Rightarrow> ret (AlreadyClaimed (Some t))
     | None \<Rightarrow> bnd (createAndLockTask E input) (\<lambda>t. ret (Claimed t)))))
     (\<lambda>err. if isUniqueViolation err then bnd (find_claim input) (\<lambda>t. ret (AlreadyClaimed t))
            else throw err)"

section \<open>Locking binds the stored row\<close>

lemma createDraftTask_integrity [keeps_rules, simp]: "keeps integrity (createDraftTask E i)"
  unfolding createDraftTask_def by (intro keeps_rules; simp)

lemma lockTask_integrity [keeps_rules, simp]: "keeps integrity (lockTask E tid)"
  unfolding lockTask_def by (intro keeps_rules; simp)

lemma createAndLockTask_integrity [keeps_rules, simp]: "keeps integrity (createAndLockTask E i)"
  unfolding createAndLockTask_def by (intro keeps_rules)

lemma find_claim_keeps [keeps_rules, simp]: "keeps I (find_claim i)"
  unfolding find_claim_def by (auto intro!: keeps_rules split: js.splits)

lemma claimLogicalWork_integrity [keeps_rules, simp]: "keeps integrity (claimLogicalWork E i)"
  unfolding claimLogicalWork_def by (intro keeps_rules keeps_tx)

lemma verifyTaskHash_Inr:
  "verifyTaskHash E task = Inr u \<longleftrightarrow>
     (\<exists>t. task = Some t \<and> t_content_hash t = Some (taskContentHash E (lock_payload t)) \<and>
          taskContentHash E (lock_payload t) \<noteq> [] \<and> t_proposal_id t \<noteq> None \<and> t_proposal_id t \<noteq> Some [])"
  by (auto simp: verifyTaskHash_def split: option.splits)

definition lock_row :: "env \<Rightarrow> nat \<Rightarrow> task \<Rightarrow> task" where
  "lock_row E k d = d\<lparr>t_status := T_LOCKED, t_proposal_id := Some (''prop_'' @ env_uuid E k),
     t_content_hash := Some (taskContentHash E (lock_payload d)),
     t_locked_at := Some (env_clock E (Suc k)), t_updated_at := env_clock E (k + 2)\<rparr>"

lemma lock_payload_lock_row [simp]: "lock_payload (lock_row E k d) = lock_payload d"
  by (simp add: lock_payload_def lock_row_def)

lemma lock_row_fields [simp]:
  "t_task_id (lock_row E k d) = t_task_id d" "t_status (lock_row E k d) = T_LOCKED"
  "t_logical_work_id (lock_row E k d) = t_logical_work_id d"
  "t_tool_manifest (lock_row E k d) = t_tool_manifest d" "t_allowed_paths (lock_row E k d) = t_allowed_paths d"
  "t_intent (lock_row E k d) = t_intent d" "t_acceptance_ref (lock_row E k d) = t_acceptance_ref d"
  "t_max_attempts (lock_row E k d) = t_max_attempts d" "t_review_required (lock_row E k d) = t_review_required d"
  "t_content_hash (lock_row E k d) = Some (taskContentHash E (lock_payload d))"
  "t_proposal_id (lock_row E k d) = Some (''prop_'' @ env_uuid E k)"
  "task_checks (lock_row E k d) = task_checks d"
  by (simp_all add: lock_row_def task_checks_def)

lemma lock_row_verifies:
  "(\<And>x. env_sha256 E x \<noteq> []) \<Longrightarrow> verifyTaskHash E (Some (lock_row E k d)) = Inr ()"
  by (simp add: verifyTaskHash_Inr taskContentHash_def)

lemma find_holds: "List.find P xs = Some x \<Longrightarrow> P x"
  by (induction xs) (auto split: if_splits)

lemma assertTaskStatus_Inr: "assertTaskStatus v = Inr st \<Longrightarrow> task_status_name st = v"
  unfolding assertTaskStatus_def
  by (auto simp del: List.find.simps dest: find_holds split: option.splits)

lemma LOCKED_parses [simp]: "assertTaskStatus ''LOCKED'' = Inr T_LOCKED"
  using assertTaskStatus_name [of T_LOCKED] by simp

lemma updateTask_ok:
  assumes "find_row t_task_id (tasks (db s)) tid = Some cur" "patch_task cur p = Inr q"
    and nx: "next = q\<lparr>t_task_id := t_task_id cur, t_created_at := t_created_at cur,
                        t_updated_at := env_clock E (ticks s)\<rparr>"
    and "task_checks next" "logical_work_free (db s) tid (t_logical_work_id next)"
  shows "updateTask E tid p s = (Inr next, s\<lparr>ticks := Suc (ticks s), db := (db s)\<lparr>tasks :=
     update_row t_task_id tid (\<lambda>r. next\<lparr>t_task_id := t_task_id r\<rparr>) (tasks (db s))\<rparr>\<rparr>)"
  using assms(1,2,4,5)
  by (simp add: updateTask_def getTask_def act_defs now_def modify_db_def Let_def nx [symmetric])

definition lock_event :: "env \<Rightarrow> nat \<Rightarrow> task \<Rightarrow> js" where
  "lock_event E k d = JObj [(''proposal_id'', JStr (''prop_'' @ env_uuid E k)),
      (''content_hash'', JStr (taskContentHash E (lock_payload d))),
      (''acceptance_ref'', JStr (t_acceptance_ref d)), (''lock_payload'', lock_payload d)]"

lemma lockTask_draft:
  assumes d: "find_row t_task_id (tasks (db s)) tid = Some d" and st: "t_status d = T_DRAFT"
    and ok: "task_checks d" "logical_work_free (db s) tid (t_logical_work_id d)"
    and fresh: "fresh_env E s"
  shows "\<exists>s'. lockTask E tid s = (Inr (lock_row E (ticks s) d), s') \<and> fresh_env E s' \<and>
     tasks (db s') = update_row t_task_id tid (\<lambda>r. (lock_row E (ticks s) d)\<lparr>t_task_id := t_task_id r\<rparr>) (tasks (db s))"
proof -
  let ?t = "lock_row E (ticks s) d" and ?s0 = "s\<lparr>ticks := ticks s + 2\<rparr>"
  have tid: "t_task_id d = tid" using find_row_Some [OF d] by simp
  let ?s1 = "?s0\<lparr>ticks := Suc (ticks ?s0), db := (db ?s0)\<lparr>tasks := update_row t_task_id tid
       (\<lambda>r. ?t\<lparr>t_task_id := t_task_id r\<rparr>) (tasks (db ?s0))\<rparr>\<rparr>"
  have fresh1: "fresh_env E ?s1" using fresh by (rule fresh_env_mono) simp_all
  have upd: "updateTask E tid [P_status ''LOCKED'', P_proposal_id (Some (''prop_'' @ env_uuid E (ticks s))),
      P_content_hash (Some (taskContentHash E (lock_payload d))), P_locked_at (Some (env_clock E (Suc (ticks s))))] ?s0
      = (Inr ?t, ?s1)"
    by (rule updateTask_ok [OF _ _ _ _ _]) (use d ok in \<open>auto simp: lock_row_def task_checks_def\<close>)
  have "lockTask E tid s = (Inr ?t, logged E (Some tid) None TASK_LOCKED None (lock_event E (ticks s) d) ?s1)"
    unfolding lockTask_def getTask_def
    using d st upd appendEvent_ok [OF fresh1]
    by (simp add: bnd_def thn_def gets_def ret_def newId_def now_def Let_def tid lock_event_def)
  then show ?thesis using fresh_env_logged [OF fresh1] by auto
qed

lemma update_row_last:
  assumes "key r = k" "k \<notin> key ` set rs"
  shows "update_row key k f (rs @ [r]) = rs @ [f r]"
proof -
  have "map (\<lambda>r. if key r = k then f r else r) rs = rs"
    using assms(2) by (intro map_idI) auto
  then show ?thesis using assms(1) by (simp add: update_row_def)
qed

lemma createAndLockTask_ok:
  assumes n: "normalizeOwnerIntent input = Inr n"
    and tid: "js_get input ''task_id'' = Some (JStr tid)" "tid \<noteq> []"
    and free: "tid \<notin> t_task_id ` set (tasks (db s))"
      "logical_work_free (db s) tid (js_str_field input ''logical_work_id'')"
    and fresh: "fresh_env E s" and sha: "\<And>x. env_sha256 E x \<noteq> []"
  shows "\<exists>t s'. createAndLockTask E input s = (Inr t, s') \<and> tasks (db s') = tasks (db s) @ [t] \<and>
     t_task_id t = tid \<and> t_status t = T_LOCKED \<and> verifyTaskHash E (Some t) = Inr () \<and>
     t_intent t = n_intent n \<and> t_acceptance_ref t = n_acceptance_ref n \<and>
     t_allowed_paths t = n_allowed_paths n \<and> t_tool_manifest t = n_tool_manifest n \<and>
     t_review_required t = n_review_required n \<and> t_max_attempts t = n_max_attempts n \<and>
     t_logical_work_id t = js_str_field input ''logical_work_id'' \<and> fresh_env E s'"
proof -
  let ?w = "js_str_field input ''logical_work_id''"
  define d where "d = (draft_of tid ?w n)\<lparr>t_created_at := env_clock E (ticks s), t_updated_at := env_clock E (ticks s)\<rparr>"
  have checks: "task_checks (draft_of tid ?w n)"
    using n by (auto simp: normalizeOwnerIntent_def task_checks_def draft_of_def sum_bind_def
        split: if_splits sum.splits option.splits)
  let ?s1 = "s\<lparr>ticks := Suc (ticks s), db := (db s)\<lparr>tasks := tasks (db s) @ [d]\<rparr>\<rparr>"
  have fresh1: "fresh_env E ?s1" using fresh by (rule fresh_env_mono) simp_all
  obtain p where draft: "createDraftTask E input s = (Inr d, logged E (Some tid) None TASK_CREATED None p ?s1)"
    using n tid free checks appendEvent_ok [OF fresh1]
    by (simp add: createDraftTask_def insertTask_def act_defs now_def modify_db_def Let_def d_def
        draft_of_def)
  let ?s2 = "logged E (Some tid) None TASK_CREATED None p ?s1"
  have fields: "t_task_id d = tid" "t_status d = T_DRAFT" "t_logical_work_id d = ?w" "task_checks d"
    using checks by (simp_all add: d_def draft_of_def task_checks_def)
  have found: "find_row t_task_id (tasks (db ?s2)) tid = Some d"
    using free(1) fields by (simp add: find_row_append find_row_None [THEN iffD2])
  have "logical_work_free (db ?s2) tid (t_logical_work_id d)"
    using free(2) fields by (simp add: logical_work_free_def)
  from lockTask_draft [OF found fields(2,4) this fresh_env_logged [OF fresh1]] obtain s'
    where lock: "lockTask E tid ?s2 = (Inr (lock_row E (ticks ?s2) d), s')" and fresh': "fresh_env E s'"
      and rows: "tasks (db s') = update_row t_task_id tid
        (\<lambda>r. (lock_row E (ticks ?s2) d)\<lparr>t_task_id := t_task_id r\<rparr>) (tasks (db s) @ [d])"
    by auto
  have "createAndLockTask E input s = (Inr (lock_row E (ticks ?s2) d), s')"
    using lock draft by (simp add: createAndLockTask_def bnd_def fields)
  moreover have "tasks (db s') = tasks (db s) @ [lock_row E (ticks ?s2) d]"
    using free(1) fields by (simp add: rows update_row_last)
  ultimately show ?thesis
    using lock_row_verifies [OF sha] fresh' by (auto simp: d_def draft_of_def)
qed

text \<open>
  C27. A request that normalises, under a task id that is not taken and a work id that is free,
  is created and locked: the call returns, appends exactly one task row, and that row is
  \<open>LOCKED\<close>, carries the normalised request, and passes the check of its content hash.
\<close>

theorem createAndLockTask_locks:
  assumes n: "normalizeOwnerIntent input = Inr n"
    and tid: "js_get input ''task_id'' = Some (JStr tid)" "tid \<noteq> []"
    and free: "tid \<notin> t_task_id ` set (tasks (db s))"
      "logical_work_free (db s) tid (js_str_field input ''logical_work_id'')"
    and fresh: "fresh_env E s" and sha: "\<And>x. env_sha256 E x \<noteq> []"
  shows "\<exists>t s'. createAndLockTask E input s = (Inr t, s') \<and> tasks (db s') = tasks (db s) @ [t] \<and>
     t_task_id t = tid \<and> t_status t = T_LOCKED \<and> verifyTaskHash E (Some t) = Inr () \<and>
     t_intent t = n_intent n \<and> t_acceptance_ref t = n_acceptance_ref n \<and>
     t_allowed_paths t = n_allowed_paths n \<and> t_tool_manifest t = n_tool_manifest n \<and>
     t_review_required t = n_review_required n \<and> t_max_attempts t = n_max_attempts n \<and>
     t_logical_work_id t = js_str_field input ''logical_work_id''"
  using createAndLockTask_ok [OF assms] by blast

definition demo_intent :: js where
  "demo_intent = JObj [(''task_id'', JStr ''T1''), (''intent'', JStr '' add a page ''),
     (''acceptance_ref'', JStr ''docs/a.md''), (''allowed_paths'', JArr [JStr ''src'', JStr ''lib'', JStr ''src'']),
     (''tool_manifest'', JObj [(''providers'', JArr [JStr ''cursor'']), (''tools'', JArr [JStr ''code''])]),
     (''logical_work_id'', JStr ''W1'')]"

lemma trim_demo: "trim '' add a page '' = ''add a page''" "trim ''docs/a.md'' = ''docs/a.md''"
  "trim ''src'' = ''src''" "trim ''lib'' = ''lib''"
  by code_simp+

definition demo_normal :: normalized_intent where
  "demo_normal = \<lparr>n_intent = ''add a page'', n_acceptance_ref = ''docs/a.md'',
     n_allowed_paths = [''lib'', ''src''],
     n_tool_manifest = \<lparr>providers = [''cursor''], tools = [''code''], mode = ''build''\<rparr>,
     n_review_required = True, n_priority = 100, n_max_attempts = 2, n_max_runtime_ms = 1800000,
     n_cost_budget_status = ''UNKNOWN'', n_intent_version = 1\<rparr>"

lemma demo_intent_normal: "normalizeOwnerIntent demo_intent = Inr demo_normal"
  by (simp add: normalizeOwnerIntent_def demo_intent_def demo_normal_def is_object_def sum_bind_def
      requireNonEmptyString_def trim_demo normalizeAllowedPaths_def parseInt_or_def
      normalizeToolManifest_def string_items_def opt_truthy_def) code_simp?

theorem createAndLockTask_witness:
  "\<exists>t s'. createAndLockTask demo_env demo_intent new_core = (Inr t, s') \<and> tasks (db s') = [t] \<and>
     t_status t = T_LOCKED \<and> t_intent t = ''add a page'' \<and> verifyTaskHash demo_env (Some t) = Inr ()"
  using createAndLockTask_locks [of demo_intent demo_normal "''T1''" new_core demo_env]
    demo_intent_normal
  by (auto simp: demo_intent_def new_core_def empty_db_def logical_work_free_def demo_normal_def)

section \<open>A mutation attempt leaves the finish line\<close>

lemma immutable_ok:
  "immutable_keys_unchanged t kvs = Inr () \<longleftrightarrow>
     (\<forall>(k, v) \<in> set kvs. k \<in> set IMMUTABLE_WHEN_LOCKED \<longrightarrow>
        normalizeComparable k (task_field t k) = normalizeComparable k v)"
  by (induction t kvs rule: immutable_keys_unchanged.induct) auto

text \<open>The fields of a task that \<open>IMMUTABLE_WHEN_LOCKED\<close> names.\<close>

record finish_line =
  fl_intent :: string
  fl_intent_version :: int
  fl_acceptance_ref :: string
  fl_allowed_paths :: "string list"
  fl_tool_manifest :: tool_manifest
  fl_review_required :: bool
  fl_max_attempts :: int
  fl_max_runtime_ms :: int
  fl_cost_budget_status :: string
  fl_proposal_id :: "string option"
  fl_content_hash :: "string option"

definition finish_line_of :: "task \<Rightarrow> finish_line" where
  "finish_line_of t = \<lparr>fl_intent = t_intent t, fl_intent_version = t_intent_version t,
     fl_acceptance_ref = t_acceptance_ref t, fl_allowed_paths = t_allowed_paths t,
     fl_tool_manifest = t_tool_manifest t, fl_review_required = t_review_required t,
     fl_max_attempts = t_max_attempts t, fl_max_runtime_ms = t_max_runtime_ms t,
     fl_cost_budget_status = t_cost_budget_status t, fl_proposal_id = t_proposal_id t,
     fl_content_hash = t_content_hash t\<rparr>"

lemma json_stringify_eq [simp]: "json_stringify v = json_stringify w \<longleftrightarrow> v = w"
  by (metis json_stringify_inj)

lemma manifest_js_inj [simp]: "manifest_js m = manifest_js m' \<longleftrightarrow> m = m'"
  by (cases m; cases m') (auto simp: manifest_js_def)

lemma jstr_opt_inj [simp]: "jstr_opt a = jstr_opt b \<longleftrightarrow> a = b"
  by (cases a; cases b) (simp_all add: js_of_opt_def)

lemma map_sum_Inr: "map_sum f g x = Inr y \<longleftrightarrow> (\<exists>z. x = Inr z \<and> y = g z)"
  by (cases x) auto

lemma patch_field_finish_line:
  assumes "patch_field t p = Inr t'" and "finish_line_of t = finish_line_of t0"
    and "t_cost_budget_status t0 \<noteq> []"
    and "fst (patch_entry p) \<in> set IMMUTABLE_WHEN_LOCKED \<longrightarrow>
      normalizeComparable (fst (patch_entry p)) (task_field t0 (fst (patch_entry p))) =
      normalizeComparable (fst (patch_entry p)) (snd (patch_entry p))"
  shows "finish_line_of t' = finish_line_of t0"
  using assms
  by (cases p) (auto simp: finish_line_of_def normalizeComparable_def task_field_def
      IMMUTABLE_WHEN_LOCKED_def map_sum_Inr simp del: json_stringify.simps split: if_splits)

lemma patch_task_finish_line:
  assumes "patch_task t ps = Inr t'" and "finish_line_of t = finish_line_of t0"
    and "t_cost_budget_status t0 \<noteq> []" and "immutable_keys_unchanged t0 (map patch_entry ps) = Inr ()"
  shows "finish_line_of t' = finish_line_of t0"
  using assms
proof (induction t ps rule: patch_task.induct)
  case (2 t p ps)
  from 2(2) obtain u where u: "patch_field t p = Inr u" "patch_task u ps = Inr t'"
    by (auto split: sum.splits)
  have "finish_line_of u = finish_line_of t0"
    by (rule patch_field_finish_line [OF u(1) 2(3,4)]) (use 2(5) in \<open>auto simp: immutable_ok\<close>)
  with 2 u show ?case by (auto simp: immutable_ok)
qed simp

section \<open>Work is claimed once\<close>

lemma find_claim_db: "find_claim i s = (r, s') \<Longrightarrow> s' = s"
  by (auto simp: find_claim_def getTask_def getTaskByLogicalWorkId_def act_defs
      split: option.splits js.splits if_splits sum.splits prod.splits)

lemma insertTask_row:
  assumes "insertTask E x s = (Inr t, s')"
  shows "tasks (db s') = tasks (db s) @ [t] \<and> t_task_id x \<notin> t_task_id ` set (tasks (db s)) \<and>
    (\<exists>ts. t = x\<lparr>t_created_at := ts, t_updated_at := ts\<rparr>)"
  using assms by (auto simp: insertTask_def run_iff now_def modify_db_def Let_def)

lemma updateTask_row:
  assumes "updateTask E tid p s = (Inr t, s')"
  shows "\<exists>cur q ts. find_row t_task_id (tasks (db s)) tid = Some cur \<and> patch_task cur p = Inr q \<and>
    t = q\<lparr>t_task_id := t_task_id cur, t_created_at := t_created_at cur, t_updated_at := ts\<rparr> \<and>
    tasks (db s') = update_row t_task_id tid (\<lambda>r. t\<lparr>t_task_id := t_task_id r\<rparr>) (tasks (db s)) \<and>
    runs (db s') = runs (db s) \<and> candidates (db s') = candidates (db s) \<and>
    verifications (db s') = verifications (db s) \<and> reviews (db s') = reviews (db s) \<and>
    leases (db s') = leases (db s) \<and> events (db s') = events (db s) \<and>
    approvals (db s') = approvals (db s) \<and> current_run s' = current_run s"
  using assms
  by (auto simp: updateTask_def getTask_def run_iff now_def modify_db_def Let_def
      eq_commute [of "Inr _" "patch_task _ _"] split: option.splits)

lemma updateTask_get:
  assumes "updateTask E tid p s = (Inr t, s')"
  shows "find_row t_task_id (tasks (db s')) tid = Some t"
proof -
  from updateTask_row [OF assms] obtain cur q ts where
    cur: "find_row t_task_id (tasks (db s)) tid = Some cur"
    and t: "t = q\<lparr>t_task_id := t_task_id cur, t_created_at := t_created_at cur, t_updated_at := ts\<rparr>"
    and rows: "tasks (db s') = update_row t_task_id tid (\<lambda>r. t\<lparr>t_task_id := t_task_id r\<rparr>) (tasks (db s))"
    by auto
  have "t_task_id t = tid" using find_row_Some [OF cur] by (simp add: t)
  then show ?thesis using cur find_row_Some [OF cur] by (simp add: rows find_row_update)
qed

lemma createDraftTask_row:
  assumes "createDraftTask E i s = (Inr d, s')"
  shows "tasks (db s') = tasks (db s) @ [d] \<and> t_task_id d \<notin> t_task_id ` set (tasks (db s)) \<and>
    t_status d = T_DRAFT \<and> t_logical_work_id d = js_str_field i ''logical_work_id'' \<and>
    (\<forall>v. js_get i ''task_id'' = Some v \<longrightarrow> js_truthy v \<longrightarrow> t_task_id d = js_String v)"
proof -
  from assms obtain n tid s1 s2 where
    tid: "(case js_get i ''task_id'' of Some v \<Rightarrow> if js_truthy v then ret (js_String v) else newId E ''task''
          | None \<Rightarrow> newId E ''task'') s = (Inr tid, s1)"
    and ins: "insertTask E (draft_of tid (js_str_field i ''logical_work_id'') n) s1 = (Inr d, s2)"
    and ev: "appendEvent E (Some (t_task_id d)) None TASK_CREATED None
           (JObj [(''status'', JStr (task_status_name (t_status d))),
                  (''acceptance_ref'', JStr (t_acceptance_ref d)),
                  (''allowed_paths'', JArr (map JStr (t_allowed_paths d))),
                  (''logical_work_id'', jstr_opt (t_logical_work_id d))]) s2 = (Inr (), s')"
    by (auto simp: createDraftTask_def run_iff)
  have s1: "db s1 = db s" using tid by (auto simp: newId_def ret_def split: option.splits if_splits)
  from insertTask_row [OF ins] obtain ts where
    d: "d = (draft_of tid (js_str_field i ''logical_work_id'') n)\<lparr>t_created_at := ts, t_updated_at := ts\<rparr>"
    and rows: "tasks (db s2) = tasks (db s1) @ [d]" "tid \<notin> t_task_id ` set (tasks (db s1))"
    by (auto simp: draft_of_def)
  then have "t_task_id d = tid" "t_status d = T_DRAFT" "t_logical_work_id d = js_str_field i ''logical_work_id''"
    by (simp_all add: draft_of_def)
  moreover have "tid = js_String v" if "js_get i ''task_id'' = Some v" "js_truthy v" for v
    using tid that by (simp add: ret_def)
  moreover have "tasks (db s') = tasks (db s2)" using appendEvent_frame [OF ev] by simp
  ultimately show ?thesis using rows s1 by simp
qed

lemma lockTask_row:
  assumes "lockTask E tid s = (Inr t, s')" and "find_row t_task_id (tasks (db s)) tid = Some d"
  shows "find_row t_task_id (tasks (db s')) tid = Some t \<and> t_status t = T_LOCKED \<and>
    t_logical_work_id t = t_logical_work_id d \<and> t_task_id t = tid"
proof (cases "t_status d = T_LOCKED")
  case True
  with assms show ?thesis using find_row_Some [OF assms(2)]
    by (auto simp: lockTask_def getTask_def run_iff)
next
  case False
  with assms obtain p h l s1 s2 where
    upd: "updateTask E tid [P_status ''LOCKED'', P_proposal_id p, P_content_hash h, P_locked_at l] s1 = (Inr t, s2)"
    and s1: "db s1 = db s" and s2: "tasks (db s') = tasks (db s2)"
    by (auto simp: lockTask_def getTask_def run_iff newId_def now_def Let_def dest: appendEvent_frame split: if_splits)
  from updateTask_row [OF upd] s1 assms(2) obtain q ts where
    q: "patch_task d [P_status ''LOCKED'', P_proposal_id p, P_content_hash h, P_locked_at l] = Inr q"
    and t: "t = q\<lparr>t_task_id := t_task_id d, t_created_at := t_created_at d, t_updated_at := ts\<rparr>"
    by auto
  have "t_status t = T_LOCKED" "t_logical_work_id t = t_logical_work_id d" "t_task_id t = t_task_id d"
    using q by (auto simp: t)
  with updateTask_get [OF upd] s2 find_row_Some [OF assms(2)] show ?thesis by simp
qed

text \<open>
  A piece of logical work is claimed once: after a claim that created a task, a second
  claim with the same task id, or with the same non-empty work id, creates nothing, leaves the
  whole state as it is, and answers with a task that is already there.
\<close>

theorem claimLogicalWork_once:
  assumes first: "claimLogicalWork E i s = (Inr (Claimed t), s')"
    and second: "js_get i ''task_id'' = Some (JStr tid)" "tid \<noteq> []" "js_get j ''task_id'' = Some (JStr tid')"
    and same: "tid' = tid \<or> js_get i ''logical_work_id'' = Some (JStr w) \<and> w \<noteq> [] \<and>
       js_get j ''logical_work_id'' = Some (JStr w)"
  shows "\<exists>u \<in> set (tasks (db s')). claimLogicalWork E' j s' = (Inr (AlreadyClaimed (Some u)), s')"
proof -
  from first obtain s1 where s1: "createAndLockTask E i s = (Inr t, s')"
    by (auto simp: claimLogicalWork_def tx_def run_iff split: prod.splits sum.splits option.splits if_splits
        dest!: find_claim_db)
  then obtain d s2 where d: "createDraftTask E i s = (Inr d, s2)" and l: "lockTask E (t_task_id d) s2 = (Inr t, s')"
    by (auto simp: createAndLockTask_def run_iff)
  note dr = createDraftTask_row [OF d]
  have "find_row t_task_id (tasks (db s2)) (t_task_id d) = Some d"
    using dr by (simp add: find_row_append find_row_None [THEN iffD2])
  note lr = lockTask_row [OF l this]
  have t: "find_row t_task_id (tasks (db s')) tid = Some t" using lr dr second by simp
  have "\<exists>u. find_claim j s' = (Inr (Some u), s') \<and> u \<in> set (tasks (db s'))"
  proof (cases "find_row t_task_id (tasks (db s')) tid'")
    case (Some u)
    then show ?thesis using second find_row_Some [OF Some]
      by (simp add: find_claim_def getTask_def act_defs)
  next
    case None
    with t same have "tid' \<noteq> tid" and w: "js_get i ''logical_work_id'' = Some (JStr w)" "w \<noteq> []"
      "js_get j ''logical_work_id'' = Some (JStr w)" by auto
    have "t_logical_work_id t = Some w" using lr dr w by (simp add: js_str_field_def)
    then have "Some w \<in> t_logical_work_id ` set (tasks (db s'))"
      using find_row_Some [OF t] by force
    then obtain u where u: "find_row t_logical_work_id (tasks (db s')) (Some w) = Some u"
      using find_row_None [of t_logical_work_id "tasks (db s')" "Some w"] by auto
    with None w second find_row_Some [OF u] show ?thesis
      by (simp add: find_claim_def getTask_def getTaskByLogicalWorkId_def js_str_field_def act_defs)
  qed
  then show ?thesis
    by (auto simp: claimLogicalWork_def tx_def catch_def bnd_def ret_def)
qed

definition demo_intent2 :: js where
  "demo_intent2 = JObj [(''task_id'', JStr ''T2''), (''logical_work_id'', JStr ''W1'')]"

theorem claimLogicalWork_once_witness:
  "\<exists>t s' u. claimLogicalWork demo_env demo_intent new_core = (Inr (Claimed t), s') \<and>
     claimLogicalWork demo_env demo_intent2 s' = (Inr (AlreadyClaimed (Some u)), s')"
proof -
  obtain t s' where "createAndLockTask demo_env demo_intent new_core = (Inr t, s')"
    using createAndLockTask_ok [of demo_intent demo_normal "''T1''" new_core demo_env] demo_intent_normal
    by (auto simp: demo_intent_def new_core_def empty_db_def logical_work_free_def)
  moreover have "find_claim demo_intent new_core = (Inr None, new_core)"
    by (simp add: find_claim_def demo_intent_def getTask_def getTaskByLogicalWorkId_def js_str_field_def
        act_defs new_core_def empty_db_def)
  ultimately have "claimLogicalWork demo_env demo_intent new_core = (Inr (Claimed t), s')"
    by (simp add: claimLogicalWork_def tx_def catch_def bnd_def ret_def)
  with claimLogicalWork_once [OF this, of "''T1''" demo_intent2 "''T2''" "''W1''" demo_env]
  show ?thesis by (auto simp: demo_intent_def demo_intent2_def)
qed

end
