(* ===== verification/CoreTasks.thy ===== *)
theory CoreTasks
  imports TaskLock
begin

text \<open>
  The task and run bookkeeping of \<open>BuilderCore\<close> (\<open>src/builder/core.js\<close>): status changes,
  guarded mutation, creation of runs, the pointer to the one authorised coding run, stale
  runs and approvals. Shown: no operation here breaks the integrity of the store, a locked
  finish line survives every status change and every accepted mutation, a run is created only
  for a task whose hash verifies, and an approval is bound to that hash.
\<close>

section \<open>Tasks\<close>

definition verifyLockedTask :: "env \<Rightarrow> string \<Rightarrow> task cact" where
  "verifyLockedTask E taskId =
     bnd (getTask taskId) (\<lambda>task.
     thn (lift (verifyTaskHash E task)) (case task of Some t \<Rightarrow> ret t
       | None \<Rightarrow> throw (taskLockError ''task is not locked with proposal/content hash'')))"

definition updateTaskStatus :: "env \<Rightarrow> string \<Rightarrow> string \<Rightarrow> task cact" where
  "updateTaskStatus E taskId status =
     bnd (getTask taskId) (\<lambda>found. case found of
       None \<Rightarrow> throw (taskLockError (''unknown task_id: '' @ taskId))
     | Some task \<Rightarrow>
       thn (guard (\<not> (t_status task = T_DRAFT \<and> status \<noteq> ''LOCKED''))
              (taskLockError ''draft task must be locked before other status changes''))
      (thn (lift (verifyTaskHash E (Some task)))
      (bnd (updateTask E taskId [P_status status]) (\<lambda>updated.
       thn (appendEvent E (Some taskId) None TASK_STATUS_CHANGED None
              (JObj [(''from'', JStr (task_status_name (t_status task))), (''to'', JStr status)]))
           (ret updated)))))"

definition attemptMutateLockedTask :: "env \<Rightarrow> string \<Rightarrow> task_patch list \<Rightarrow> task cact" where
  "attemptMutateLockedTask E taskId patch =
     bnd (getTask taskId) (\<lambda>task.
     thn (lift (assertTaskMutable task patch)) (updateTask E taskId patch))"

section \<open>Runs\<close>

definition createRun ::
  "env \<Rightarrow> string \<Rightarrow> string \<Rightarrow> string option \<Rightarrow> string option \<Rightarrow> int option \<Rightarrow> run cact" where
  "createRun E taskId provider prid paid attempt_no =
     bnd (getTask taskId) (\<lambda>found. case found of
       None \<Rightarrow> throw (taskLockError (''unknown task_id: '' @ taskId))
     | Some task \<Rightarrow>
       thn (guard (t_status task \<noteq> T_DRAFT) (taskLockError ''cannot create run for unlocked draft task''))
      (thn (lift (verifyTaskHash E (Some task)))
      (bnd (listRunsForTask taskId) (\<lambda>existing.
       let nextAttempt = (case attempt_no of Some n \<Rightarrow> n | None \<Rightarrow> int (length existing) + 1) in
       bnd (newId E ''run'') (\<lambda>rid.
       bnd (catch (insertRun E (pending_run rid taskId provider prid paid nextAttempt))
              (\<lambda>err. if isUniqueViolation err
                 then throw (builderCoreError (''active run already exists for task '' @ taskId)
                               ''ACTIVE_WORKER_EXISTS'')
                 else throw err)) (\<lambda>run.
       thn (appendEvent E (Some taskId) (Some (r_factory_run_id run)) RUN_CREATED None
              (JObj [(''attempt'', JNum (r_attempt run)), (''provider'', JStr provider)]))
           (ret run)))))))"

definition set_current :: "string option \<Rightarrow> unit cact" where
  "set_current r = modify (\<lambda>s. s\<lparr>current_run := r\<rparr>)"

text \<open>The pointer as JavaScript reads it: an empty identifier is falsy.\<close>

definition current_pointer :: "core \<Rightarrow> string option" where
  "current_pointer s = (if current_run s = Some [] then None else current_run s)"

definition active_from_store :: "run option cact" where
  "active_from_store =
     bnd listActiveRuns (\<lambda>active.
     (case active of
        [] \<Rightarrow> ret None
      | [r] \<Rightarrow> thn (set_current (Some (r_factory_run_id r))) (ret (Some r))
      | _ \<Rightarrow> throw (builderCoreError
               (''invariant broken: '' @ show_nat (length active) @ '' active coding runs'')
               ''MULTIPLE_ACTIVE_RUNS'')))"

definition getCurrentCodingRun :: "run option cact" where
  "getCurrentCodingRun =
     bnd (gets current_pointer) (\<lambda>ptr. case ptr of
       None \<Rightarrow> active_from_store
     | Some rid \<Rightarrow>
       bnd (getRun rid) (\<lambda>cur.
       if (\<exists>r \<in> set_option cur. is_active (r_status r)) then ret cur
       else thn (set_current None) active_from_store))"

definition reject_stale :: "env \<Rightarrow> run \<Rightarrow> string \<Rightarrow> string \<Rightarrow> unit cact" where
  "reject_stale E run rid curId = appendEvent E (Some (r_task_id run)) (Some rid) STALE_RUN_REJECTED None
     (JObj [(''rejected_factory_run_id'', JStr rid), (''current_factory_run_id'', JStr curId)])"

definition assertAuthorizedRun :: "env \<Rightarrow> string \<Rightarrow> bool \<Rightarrow> run cact" where
  "assertAuthorizedRun E rid allowTerminalCurrent =
     bnd (getRun rid) (\<lambda>found. case found of
       None \<Rightarrow> throw (builderCoreError (''unknown factory_run_id: '' @ rid) ''UNKNOWN_RUN'')
     | Some run \<Rightarrow>
       bnd getCurrentCodingRun (\<lambda>current. case current of
         Some c \<Rightarrow>
           if r_factory_run_id c \<noteq> rid then
             thn (reject_stale E run rid (r_factory_run_id c))
                 (throw (builderCoreError (''stale run rejected: '' @ rid
                    @ '' is not current authorized run '' @ r_factory_run_id c) ''STALE_RUN''))
           else ret run
       | None \<Rightarrow>
           if \<not> allowTerminalCurrent \<and> r_status run = R_STALE
           then throw (builderCoreError (''stale run rejected: '' @ rid) ''STALE_RUN'')
           else ret run))"

definition clear_current_if :: "string \<Rightarrow> unit cact" where
  "clear_current_if rid = modify (\<lambda>s. if current_run s = Some rid then s\<lparr>current_run := None\<rparr> else s)"

definition markRunStale :: "env \<Rightarrow> string \<Rightarrow> run cact" where
  "markRunStale E rid =
     bnd (getRun rid) (\<lambda>found. case found of
       None \<Rightarrow> throw (builderCoreError (''unknown factory_run_id: '' @ rid) ''BUILDER_CORE_ERROR'')
     | Some run \<Rightarrow>
       bnd (now E) (\<lambda>ts.
       bnd (updateRun rid (\<lambda>r. r\<lparr>r_status := R_STALE, r_ended_at := Some ts,
                                r_failure_class := Some F_STALE_RUN\<rparr>)) (\<lambda>updated.
       thn (clear_current_if rid)
      (thn (appendEvent E (Some (r_task_id run)) (Some rid) RUN_STATUS_CHANGED None
              (JObj [(''to'', JStr ''STALE'')]))
           (ret updated)))))"

section \<open>Approvals\<close>

text \<open>A falsy \<open>commit_sha\<close> (absent, or the empty text) is not checked.\<close>

definition recordApproval ::
  "env \<Rightarrow> string \<Rightarrow> string \<Rightarrow> string option \<Rightarrow> string option \<Rightarrow> approval_status \<Rightarrow> approval cact" where
  "recordApproval E taskId approvedBy cid sha status =
     bnd (getTask taskId) (\<lambda>found. case found of
       None \<Rightarrow> throw (taskLockError (''unknown task_id: '' @ taskId))
     | Some task \<Rightarrow>
       thn (lift (verifyTaskHash E (Some task)))
      (case (t_proposal_id task, t_content_hash task) of
         (Some pid, Some hash) \<Rightarrow>
           thn (if sha \<in> {None, Some []} then ret () else thn (lift (assertCommitSha sha)) (ret ()))
          (bnd (newId E ''appr'') (\<lambda>aid.
           bnd (insertApproval E \<lparr>a_approval_id = aid, a_task_id = taskId, a_proposal_id = pid,
                  a_content_hash = hash, a_candidate_id = cid, a_commit_sha = sha,
                  a_approved_by = approvedBy, a_approved_at = 0, a_status = status\<rparr>) (\<lambda>approval.
           thn (appendEvent E (Some taskId) None APPROVAL_RECORDED None
                  (JObj [(''approval_id'', JStr (a_approval_id approval)),
                         (''proposal_id'', JStr (a_proposal_id approval)),
                         (''content_hash'', JStr (a_content_hash approval)),
                         (''candidate_id'', jstr_opt cid), (''commit_sha'', jstr_opt sha)]))
               (ret approval))))
       | _ \<Rightarrow> throw (taskLockError ''approval requires locked proposal_id + content_hash'')))"

section \<open>Invariants of the whole Builder\<close>

text \<open>
  The interface between the store and everything above it: a predicate on the state that each
  write primitive keeps. Inside the locale, and in its extensions in the later theories, every
  composite operation of the Builder is shown to keep such a predicate, whatever its external
  collaborators answer and wherever it stops. The store's integrity, the binding of locked
  tasks to their hash and the append-only event log are its instances. A patch of a candidate
  never names its commit or branch.
\<close>

locale core_frame =
  fixes E :: env and I :: "core \<Rightarrow> bool"
  assumes ticks_I: "\<And>s n. I s \<Longrightarrow> I (s\<lparr>ticks := n\<rparr>)"
    and current_I: "\<And>s c. I s \<Longrightarrow> I (s\<lparr>current_run := c\<rparr>)"
    and recovery_I: "\<And>s c. I s \<Longrightarrow> I (s\<lparr>last_recovery := c\<rparr>)"
    and appendEvent_I: "\<And>tid rid ty ref p. keeps I (appendEvent E tid rid ty ref p)"
    and updateTaskStatus_I: "\<And>tid st. keeps I (updateTaskStatus E tid st)"
    and createAndLockTask_I: "\<And>i. keeps I (createAndLockTask E i)"
    and claimLogicalWork_I: "\<And>i. keeps I (claimLogicalWork E i)"
    and updateRun_I: "\<And>rid f. keeps I (updateRun rid f)"
    and tryClaim_I: "\<And>rid. keeps I (tryClaimPendingDispatch rid)"
    and insertCandidate_I: "\<And>c. keeps I (insertCandidate E c)"
    and updateCandidate_I: "\<And>cid f. (\<And>c. c_commit_sha (f c) = c_commit_sha c \<and> c_branch (f c) = c_branch c) \<Longrightarrow>
      keeps I (updateCandidate cid f)"
    and insertVerification_I: "\<And>v. keeps I (insertVerification v)"
    and updateVerification_I: "\<And>vid f. keeps I (updateVerification vid f)"
    and insertReview_I: "\<And>r. keeps I (insertReview r)"
    and updateReview_I: "\<And>rid f. keeps I (updateReview rid f)"
    and insertApproval_I: "\<And>a. keeps I (insertApproval E a)"
    and updateApproval_I: "\<And>aid f. keeps I (updateApproval aid f)"
    and acquire_I: "\<And>k w tid rid. keeps I (acquireControlLease E k w tid rid)"
    and release_I: "\<And>k w. keeps I (releaseControlLease k w)"
begin

lemmas primitives_I [keeps_rules] = appendEvent_I updateTaskStatus_I createAndLockTask_I
  claimLogicalWork_I updateRun_I tryClaim_I insertCandidate_I updateCandidate_I
  insertVerification_I updateVerification_I insertReview_I updateReview_I insertApproval_I
  updateApproval_I acquire_I release_I

lemma now_I [keeps_rules]: "keeps I (now E)"
  by (rule keeps_now) (rule ticks_I)

lemma newId_I [keeps_rules]: "keeps I (newId E p)"
  by (rule keeps_newId) (rule ticks_I)

lemma set_current_I [keeps_rules]: "keeps I (set_current c)"
  unfolding set_current_def by (rule keeps_modify) (rule current_I)

lemma clear_current_if_I [keeps_rules]: "keeps I (clear_current_if rid)"
  unfolding clear_current_if_def by (rule keeps_modify) (simp add: current_I)

lemma verifyLockedTask_I [keeps_rules]: "keeps I (verifyLockedTask E tid)"
  unfolding verifyLockedTask_def by (intro keeps_rules)

lemma active_from_store_I [keeps_rules]: "keeps I active_from_store"
  unfolding active_from_store_def by (intro keeps_rules)

lemma getCurrentCodingRun_I [keeps_rules]: "keeps I getCurrentCodingRun"
  unfolding getCurrentCodingRun_def by (intro keeps_rules)

lemma assertAuthorizedRun_I [keeps_rules]: "keeps I (assertAuthorizedRun E rid b)"
  unfolding assertAuthorizedRun_def reject_stale_def by (intro keeps_rules)

lemma markRunStale_I [keeps_rules]: "keeps I (markRunStale E rid)"
  unfolding markRunStale_def by (intro keeps_rules)

lemma recordApproval_I [keeps_rules]: "keeps I (recordApproval E tid by cid sha st)"
  unfolding recordApproval_def by (intro keeps_rules)

end

text \<open>A predicate that the insertion of a run keeps as well is kept by everything.\<close>

locale core_invariant = core_frame E I for E :: env and I :: "core \<Rightarrow> bool" +
  assumes insertRun_I [keeps_rules]: "\<And>r. keeps I (insertRun E r)"
    and tryInsert_I [keeps_rules]: "\<And>tid prov w rid prid paid n. keeps I (tryInsertActiveRun E tid prov w rid prid paid n)"
begin

lemma createRun_I [keeps_rules]: "keeps I (createRun E tid p prid paid n)"
  unfolding createRun_def by (intro keeps_rules)

end

lemma updateTaskStatus_integrity [keeps_rules, simp]: "keeps integrity (updateTaskStatus E tid st)"
  unfolding updateTaskStatus_def by (intro keeps_rules)

interpretation integ: core_invariant E integrity for E
  by unfold_locales simp_all

text \<open>
  Predicates on the database that do not depend on the tables of runs, candidates and
  evidence, and that an appended event keeps.
\<close>

locale db_frame =
  fixes E :: env and J :: "db \<Rightarrow> bool"
  assumes runs_J: "\<And>d x. J (d\<lparr>runs := x\<rparr>) = J d"
    and candidates_J: "\<And>d x. J (d\<lparr>candidates := x\<rparr>) = J d"
    and verifications_J: "\<And>d x. J (d\<lparr>verifications := x\<rparr>) = J d"
    and reviews_J: "\<And>d x. J (d\<lparr>reviews := x\<rparr>) = J d"
    and approvals_J: "\<And>d x. J (d\<lparr>approvals := x\<rparr>) = J d"
    and leases_J: "\<And>d x. J (d\<lparr>leases := x\<rparr>) = J d"
    and events_J: "\<And>d e. J d \<Longrightarrow> J (d\<lparr>events := events d @ [e]\<rparr>)"
    and status_J: "\<And>tid st. keeps (\<lambda>s. J (db s)) (updateTaskStatus E tid st)"
    and lock_J: "\<And>i. keeps (\<lambda>s. J (db s)) (createAndLockTask E i)"
begin

abbreviation JI :: "core \<Rightarrow> bool" where "JI \<equiv> \<lambda>s. J (db s)"

lemmas tables_J = runs_J candidates_J verifications_J reviews_J approvals_J leases_J

lemma modify_db_J: "(\<And>d. J d \<Longrightarrow> J (f d)) \<Longrightarrow> keeps JI (modify_db f)"
  by (simp add: keeps_def modify_db_def modify_def)

lemma tx_J: "keeps JI m \<Longrightarrow> keeps JI (tx m)"
  by (auto simp: keeps_def tx_def split: prod.splits sum.splits)

lemma world_J: "keeps JI (now E)" "keeps JI (newId E p)"
  by (simp_all add: keeps_now keeps_newId)

lemmas base_J = keeps_rules world_J

lemma appendEvent_J: "keeps JI (appendEvent E tid rid ty ref p)"
  unfolding appendEvent_def by (intro base_J modify_db_J events_J)

lemma insertRun_J: "keeps JI (insertRun E r)"
  unfolding insertRun_def by (intro base_J modify_db_J; simp add: tables_J)

lemma releaseByRun_J: "keeps JI (releaseControlLeaseByRun rid)"
  unfolding releaseControlLeaseByRun_def by (intro modify_db_J) (simp add: tables_J)

lemma updateRun_J: "keeps JI (updateRun rid f)"
  unfolding updateRun_def by (intro base_J modify_db_J releaseByRun_J; simp add: tables_J)

lemma tryClaim_J: "keeps JI (tryClaimPendingDispatch rid)"
  unfolding tryClaimPendingDispatch_def by (intro base_J modify_db_J; simp add: tables_J)

lemma insertCandidate_J: "keeps JI (insertCandidate E c)"
  unfolding insertCandidate_def by (intro base_J modify_db_J; simp add: tables_J)

lemma updateCandidate_J: "keeps JI (updateCandidate cid f)"
  unfolding updateCandidate_def by (intro base_J modify_db_J; simp add: tables_J)

lemma insertVerification_J: "keeps JI (insertVerification v)"
  unfolding insertVerification_def by (intro base_J modify_db_J; simp add: tables_J)

lemma updateVerification_J: "keeps JI (updateVerification vid f)"
  unfolding updateVerification_def by (intro base_J modify_db_J; simp add: tables_J)

lemma insertReview_J: "keeps JI (insertReview r)"
  unfolding insertReview_def by (intro base_J modify_db_J; simp add: tables_J)

lemma updateReview_J: "keeps JI (updateReview rid f)"
  unfolding updateReview_def by (intro base_J modify_db_J; simp add: tables_J)

lemma insertApproval_J: "keeps JI (insertApproval E a)"
  unfolding insertApproval_def by (intro base_J modify_db_J; simp add: tables_J)

lemma updateApproval_J: "keeps JI (updateApproval aid f)"
  unfolding updateApproval_def by (intro base_J modify_db_J; simp add: tables_J)

lemma acquire_J: "keeps JI (acquireControlLease E k w tid rid)"
  unfolding acquireControlLease_def by (intro tx_J base_J modify_db_J; simp add: tables_J)

lemma release_J: "keeps JI (releaseControlLease k w)"
  unfolding releaseControlLease_def by (intro modify_db_J) (simp add: tables_J)

lemma tryInsert_J: "keeps JI (tryInsertActiveRun E tid prov w rid prid paid n)"
  unfolding tryInsertActiveRun_def insert_leased_run_def lease_to_run_def
  by (intro tx_J base_J insertRun_J modify_db_J; simp add: tables_J)

lemma claim_J: "keeps JI (claimLogicalWork E i)"
  unfolding claimLogicalWork_def by (intro tx_J base_J lock_J)

end

sublocale db_frame \<subseteq> core_invariant E "\<lambda>s. J (db s)"
  by unfold_locales
     (simp_all add: appendEvent_J status_J lock_J claim_J insertRun_J updateRun_J tryClaim_J
       insertCandidate_J updateCandidate_J insertVerification_J updateVerification_J insertReview_J
       updateReview_J insertApproval_J updateApproval_J acquire_J release_J tryInsert_J)

section \<open>The event log only grows\<close>

definition log_extends :: "event list \<Rightarrow> db \<Rightarrow> bool" where
  "log_extends old d \<longleftrightarrow> (\<exists>xs. events d = old @ xs)"

lemma log_extends_append: "log_extends old d \<Longrightarrow> log_extends old (d\<lparr>events := events d @ [e]\<rparr>)"
  by (auto simp: log_extends_def)

lemma log_extends_tables [simp]:
  "log_extends old (d\<lparr>tasks := a\<rparr>) = log_extends old d" "log_extends old (d\<lparr>runs := b\<rparr>) = log_extends old d"
  "log_extends old (d\<lparr>candidates := c\<rparr>) = log_extends old d"
  "log_extends old (d\<lparr>verifications := v\<rparr>) = log_extends old d"
  "log_extends old (d\<lparr>reviews := r\<rparr>) = log_extends old d"
  "log_extends old (d\<lparr>approvals := p\<rparr>) = log_extends old d" "log_extends old (d\<lparr>leases := l\<rparr>) = log_extends old d"
  by (simp_all add: log_extends_def)

lemma log_modify:
  "(\<And>d. log_extends old d \<Longrightarrow> log_extends old (f d)) \<Longrightarrow>
   keeps (\<lambda>s. log_extends old (db s)) (modify_db f)"
  by (simp add: keeps_def modify_db_def modify_def)

lemma log_world: "keeps (\<lambda>s. log_extends old (db s)) (now E)" "keeps (\<lambda>s. log_extends old (db s)) (newId E p)"
  by (simp_all add: keeps_now keeps_newId)

lemma log_task_writes:
  "keeps (\<lambda>s. log_extends old (db s)) (insertTask E t)"
  "keeps (\<lambda>s. log_extends old (db s)) (updateTask E tid p)"
  "keeps (\<lambda>s. log_extends old (db s)) (appendEvent E tid' rid ty ref pl)"
  unfolding insertTask_def updateTask_def appendEvent_def
  by (intro keeps_rules log_world log_modify; simp add: log_extends_append)+

lemma log_updateTaskStatus: "keeps (\<lambda>s. log_extends old (db s)) (updateTaskStatus E tid st)"
  unfolding updateTaskStatus_def by (intro keeps_rules log_task_writes)

lemma log_createAndLockTask: "keeps (\<lambda>s. log_extends old (db s)) (createAndLockTask E i)"
  unfolding createAndLockTask_def createDraftTask_def lockTask_def
  by (intro keeps_rules log_task_writes log_world)

interpretation log: db_frame E "log_extends old" for E old
  by unfold_locales (simp_all add: log_updateTaskStatus log_createAndLockTask log_extends_append)

section \<open>Locked tasks stay bound to their hash\<close>

definition tasks_bound :: "env \<Rightarrow> db \<Rightarrow> bool" where
  "tasks_bound E d \<longleftrightarrow>
     (\<forall>t \<in> set (tasks d). t_status t \<noteq> T_DRAFT \<longrightarrow> verifyTaskHash E (Some t) = Inr ())"

lemma bound_verifies:
  assumes "finish_line_of t = finish_line_of d" "t_task_id t = t_task_id d"
  shows "verifyTaskHash E (Some t) = verifyTaskHash E (Some d)"
  using assms by (simp add: verifyTaskHash_def finish_line_of_def lock_payload_def)

lemma finish_line_task_id [simp]:
  "finish_line_of (t\<lparr>t_task_id := x\<rparr>) = finish_line_of t"
  "finish_line_of (t\<lparr>t_created_at := n\<rparr>) = finish_line_of t"
  "finish_line_of (t\<lparr>t_updated_at := n\<rparr>) = finish_line_of t"
  "finish_line_of (t\<lparr>t_status := st\<rparr>) = finish_line_of t"
  by (simp_all add: finish_line_of_def)

lemma tasks_bound_update:
  assumes "tasks_bound E d" and "tasks d' = update_row t_task_id tid (\<lambda>r. t\<lparr>t_task_id := t_task_id r\<rparr>) (tasks d)"
    and "t_task_id t = tid" and "t_status t \<noteq> T_DRAFT \<longrightarrow> verifyTaskHash E (Some t) = Inr ()"
  shows "tasks_bound E d'"
  using assms by (auto simp: tasks_bound_def set_update_row split: if_splits)

text \<open>Where a task operation stops with an error, it has written no task row.\<close>

lemma updateTask_error: "updateTask E tid p s = (Inl e, s') \<Longrightarrow> tasks (db s') = tasks (db s)"
  by (auto simp: updateTask_def getTask_def run_iff run_err now_def modify_db_def Let_def split: option.splits)

lemma tasks_bound_cong: "tasks d' = tasks d \<Longrightarrow> tasks_bound E d' = tasks_bound E d"
  by (simp add: tasks_bound_def)

lemma updateTaskStatus_row:
  assumes "updateTaskStatus E tid st s = (r, s')"
  shows "(\<exists>e. r = Inl e) \<and> tasks (db s') = tasks (db s) \<or>
    (\<exists>d t. find_row t_task_id (tasks (db s)) tid = Some d \<and> verifyTaskHash E (Some d) = Inr () \<and>
       finish_line_of t = finish_line_of d \<and> t_task_id t = tid \<and> task_status_name (t_status t) = st \<and>
       tasks (db s') = update_row t_task_id tid (\<lambda>r. t\<lparr>t_task_id := t_task_id r\<rparr>) (tasks (db s)) \<and>
       (\<forall>u. r = Inr u \<longrightarrow> u = t))"
proof (cases "find_row t_task_id (tasks (db s)) tid")
  case None
  with assms show ?thesis by (auto simp: updateTaskStatus_def getTask_def act_defs)
next
  case (Some d)
  let ?ev = "appendEvent E (Some tid) None TASK_STATUS_CHANGED None
              (JObj [(''from'', JStr (task_status_name (t_status d))), (''to'', JStr st)])"
  show ?thesis
  proof (cases "\<not> (t_status d = T_DRAFT \<and> st \<noteq> ''LOCKED'') \<and> verifyTaskHash E (Some d) = Inr ()")
    case False
    with assms Some show ?thesis
      by (auto simp: updateTaskStatus_def getTask_def act_defs split: if_splits sum.splits)
  next
    case True
    then have run: "bnd (updateTask E tid [P_status st]) (\<lambda>u. thn ?ev (ret u)) s = (r, s')"
      using assms Some by (simp add: updateTaskStatus_def getTask_def bnd_def thn_def gets_def guard_def lift_def)
    obtain x s1 where upd: "updateTask E tid [P_status st] s = (x, s1)" by fastforce
    show ?thesis
    proof (cases x)
      case (Inl e)
      with run upd updateTask_error show ?thesis by (auto simp: bnd_def)
    next
      case (Inr t)
      with run upd have ev: "thn ?ev (ret t) s1 = (r, s')" by (simp add: bnd_def)
      obtain y s2 where ap: "?ev s1 = (y, s2)" by fastforce
      with ev have s2: "tasks (db s') = tasks (db s1)" and r: "\<forall>u. r = Inr u \<longrightarrow> u = t"
        using appendEvent_frame [OF ap] by (auto simp: thn_def bnd_def ret_def split: sum.splits)
      from updateTask_row [OF upd [unfolded Inr]] Some obtain q ts where
        q: "patch_task d [P_status st] = Inr q"
        and t: "t = q\<lparr>t_task_id := t_task_id d, t_created_at := t_created_at d, t_updated_at := ts\<rparr>"
        and rows: "tasks (db s1) = update_row t_task_id tid (\<lambda>r. t\<lparr>t_task_id := t_task_id r\<rparr>) (tasks (db s))"
        by (metis option.inject)
      from q have "finish_line_of q = finish_line_of d" "task_status_name (t_status q) = st"
        by (auto simp: map_sum_Inr dest: assertTaskStatus_Inr split: sum.splits)
      then have "finish_line_of t = finish_line_of d \<and> t_task_id t = tid \<and> task_status_name (t_status t) = st"
        using find_row_Some [OF Some] by (simp add: t)
      with True Some rows s2 r show ?thesis by auto
    qed
  qed
qed

lemma bound_updateTaskStatus: "keeps (\<lambda>s. tasks_bound E (db s)) (updateTaskStatus E tid st)"
proof (rule keepsI)
  fix s r s' assume i: "tasks_bound E (db s)" and run: "updateTaskStatus E tid st s = (r, s')"
  from updateTaskStatus_row [OF run] show "tasks_bound E (db s')"
  proof (elim disjE exE conjE)
    fix d t assume d: "find_row t_task_id (tasks (db s)) tid = Some d" "verifyTaskHash E (Some d) = Inr ()"
      "finish_line_of t = finish_line_of d" "t_task_id t = tid"
      and rows: "tasks (db s') = update_row t_task_id tid (\<lambda>r. t\<lparr>t_task_id := t_task_id r\<rparr>) (tasks (db s))"
    have "t_task_id t = t_task_id d" using find_row_Some [OF d(1)] d(4) by simp
    with d have "verifyTaskHash E (Some t) = Inr ()" using bound_verifies by metis
    then show ?thesis using tasks_bound_update [OF i rows d(4)] by simp
  qed (use i in \<open>simp add: tasks_bound_def\<close>)
qed

lemma bound_insertDraft: "t_status t = T_DRAFT \<Longrightarrow> keeps (\<lambda>s. tasks_bound E (db s)) (insertTask E' t)"
  unfolding insertTask_def
  by (intro keeps_rules keeps_now) (auto simp: keeps_def modify_db_def modify_def tasks_bound_def)

lemma bound_world [keeps_rules]:
  "keeps (\<lambda>s. tasks_bound E (db s)) (now E')" "keeps (\<lambda>s. tasks_bound E (db s)) (newId E' p)"
  by (simp_all add: keeps_now keeps_newId)

lemma bound_appendEvent [keeps_rules]: "keeps (\<lambda>s. tasks_bound E (db s)) (appendEvent E' tid rid ty ref p)"
  by (rule keepsI) (metis appendEvent_frame tasks_bound_cong)

lemma lockTask_rows:
  assumes "lockTask E tid s = (r, s')"
  shows "tasks (db s') = tasks (db s) \<or>
    (\<exists>d t ts. find_row t_task_id (tasks (db s)) tid = Some d \<and> t_status d = T_DRAFT \<and>
       t = (lock_row E (ticks s) d)\<lparr>t_updated_at := ts\<rparr> \<and>
       tasks (db s') = update_row t_task_id tid (\<lambda>r. t\<lparr>t_task_id := t_task_id r\<rparr>) (tasks (db s)))"
proof (cases "\<exists>d. find_row t_task_id (tasks (db s)) tid = Some d \<and> t_status d = T_DRAFT")
  case False
  with assms show ?thesis
    by (auto simp: lockTask_def getTask_def act_defs split: option.splits if_splits)
next
  case True
  then obtain d where d: "find_row t_task_id (tasks (db s)) tid = Some d" "t_status d = T_DRAFT" by auto
  let ?s0 = "s\<lparr>ticks := Suc (Suc (ticks s))\<rparr>"
  let ?p = "[P_status ''LOCKED'', P_proposal_id (Some (''prop_'' @ env_uuid E (ticks s))),
      P_content_hash (Some (taskContentHash E (lock_payload d))), P_locked_at (Some (env_clock E (Suc (ticks s))))]"
  obtain x s1 where upd: "updateTask E tid ?p ?s0 = (x, s1)" by fastforce
  show ?thesis
  proof (cases x)
    case (Inl e)
    with assms d upd have "s' = s1"
      by (simp add: lockTask_def getTask_def bnd_def gets_def newId_def now_def Let_def)
    with updateTask_error [OF upd [unfolded Inl]] show ?thesis by simp
  next
    case (Inr t)
    with assms d upd have "thn (appendEvent E (Some (t_task_id t)) None TASK_LOCKED None
        (JObj [(''proposal_id'', JStr (''prop_'' @ env_uuid E (ticks s))),
          (''content_hash'', JStr (taskContentHash E (lock_payload d))),
          (''acceptance_ref'', JStr (t_acceptance_ref t)), (''lock_payload'', lock_payload d)])) (ret t) s1 = (r, s')"
      by (simp add: lockTask_def getTask_def bnd_def gets_def newId_def now_def Let_def)
    then have s': "tasks (db s') = tasks (db s1)"
      by (auto simp: thn_def bnd_def ret_def dest: appendEvent_frame split: prod.splits sum.splits)
    have "find_row t_task_id (tasks (db ?s0)) tid = Some d" using d by simp
    with updateTask_row [OF upd [unfolded Inr]] obtain q ts where
      q: "patch_task d ?p = Inr q"
      and t: "t = q\<lparr>t_task_id := t_task_id d, t_created_at := t_created_at d, t_updated_at := ts\<rparr>"
      and rows: "tasks (db s1) = update_row t_task_id tid (\<lambda>r. t\<lparr>t_task_id := t_task_id r\<rparr>) (tasks (db ?s0))"
      by (metis option.inject)
    from q have "t = (lock_row E (ticks s) d)\<lparr>t_updated_at := ts\<rparr>"
      by (auto simp: t lock_row_def)
    with d s' rows show ?thesis by auto
  qed
qed

lemma bound_lockTask:
  assumes sha: "\<And>x. env_sha256 E x \<noteq> []"
  shows "keeps (\<lambda>s. tasks_bound E (db s)) (lockTask E tid)"
proof (rule keepsI)
  fix s r s' assume i: "tasks_bound E (db s)" and run: "lockTask E tid s = (r, s')"
  from lockTask_rows [OF run] show "tasks_bound E (db s')"
  proof (elim disjE exE conjE)
    fix d t ts assume d: "find_row t_task_id (tasks (db s)) tid = Some d"
      and t: "t = (lock_row E (ticks s) d)\<lparr>t_updated_at := ts\<rparr>"
      and rows: "tasks (db s') = update_row t_task_id tid (\<lambda>r. t\<lparr>t_task_id := t_task_id r\<rparr>) (tasks (db s))"
    have "t_task_id t = tid" using find_row_Some [OF d] by (simp add: t)
    moreover have "verifyTaskHash E (Some t) = Inr ()"
      using bound_verifies [of t "lock_row E (ticks s) d" E] lock_row_verifies [OF sha] by (simp add: t)
    ultimately show ?thesis using tasks_bound_update [OF i rows] by simp
  qed (use i in \<open>simp add: tasks_bound_def\<close>)
qed

lemma bound_createAndLockTask:
  assumes sha: "\<And>x. env_sha256 E x \<noteq> []"
  shows "keeps (\<lambda>s. tasks_bound E (db s)) (createAndLockTask E i)"
  unfolding createAndLockTask_def createDraftTask_def
  by (intro keeps_rules bound_lockTask [OF sha] bound_insertDraft) (simp add: draft_of_def)

text \<open>SHA-256 digests are never empty; for such an environment the binding is an invariant.\<close>

definition hash_bound :: "env \<Rightarrow> db \<Rightarrow> bool" where
  "hash_bound E d \<longleftrightarrow> ((\<forall>x. env_sha256 E x \<noteq> []) \<longrightarrow> tasks_bound E d)"

lemma keeps_imp: "(P \<Longrightarrow> keeps J m) \<Longrightarrow> keeps (\<lambda>s. P \<longrightarrow> J s) m"
  by (auto simp: keeps_def)

lemma hash_bound_tables [simp]:
  "hash_bound E (d\<lparr>runs := b\<rparr>) = hash_bound E d" "hash_bound E (d\<lparr>candidates := c\<rparr>) = hash_bound E d"
  "hash_bound E (d\<lparr>verifications := v\<rparr>) = hash_bound E d" "hash_bound E (d\<lparr>reviews := r\<rparr>) = hash_bound E d"
  "hash_bound E (d\<lparr>approvals := p\<rparr>) = hash_bound E d" "hash_bound E (d\<lparr>leases := l\<rparr>) = hash_bound E d"
  "hash_bound E (d\<lparr>events := e\<rparr>) = hash_bound E d"
  by (simp_all add: hash_bound_def tasks_bound_def)

lemma hash_bound_task_ops:
  "keeps (\<lambda>s. hash_bound E (db s)) (updateTaskStatus E tid st)"
  "keeps (\<lambda>s. hash_bound E (db s)) (createAndLockTask E i)"
  unfolding hash_bound_def
  by (rule keeps_imp, simp add: bound_updateTaskStatus bound_createAndLockTask)+

interpretation bound: db_frame E "hash_bound E" for E
  by unfold_locales (simp_all add: hash_bound_task_ops)

section \<open>Properties\<close>

lemma updateTaskStatus_facts:
  assumes "updateTaskStatus E tid st s = (Inr t, s')"
  shows "\<exists>d. find_row t_task_id (tasks (db s)) tid = Some d \<and>
     find_row t_task_id (tasks (db s')) tid = Some t \<and> task_status_name (t_status t) = st \<and>
     finish_line_of t = finish_line_of d \<and> verifyTaskHash E (Some d) = Inr () \<and>
     verifyTaskHash E (Some t) = Inr ()"
  using updateTaskStatus_row [OF assms]
proof (elim disjE exE conjE)
  fix d u assume d: "find_row t_task_id (tasks (db s)) tid = Some d" "verifyTaskHash E (Some d) = Inr ()"
      "finish_line_of u = finish_line_of d" "t_task_id u = tid" "task_status_name (t_status u) = st"
      and rows: "tasks (db s') = update_row t_task_id tid (\<lambda>r. u\<lparr>t_task_id := t_task_id r\<rparr>) (tasks (db s))"
      and "\<forall>x. Inr t = Inr x \<longrightarrow> x = u"
  then have u: "u = t" by simp
  have id: "t_task_id d = tid" using find_row_Some [OF d(1)] by simp
  have "find_row t_task_id (tasks (db s')) tid = Some t"
    using d id by (simp add: rows find_row_update u)
  moreover have "verifyTaskHash E (Some t) = Inr ()"
    using bound_verifies [of t d E] d id u by simp
  ultimately show ?thesis using d u by auto
qed simp

text \<open>
  A status change that returns has verified the content hash first, and moves nothing of
  the finish line: the stored row is the old one with the requested status, every field named
  immutable is the same and the hash still verifies.
\<close>

lemma updateTaskStatus_keeps_finish_line:
  assumes "updateTaskStatus E tid st s = (Inr t, s')"
  shows "\<exists>d. find_row t_task_id (tasks (db s)) tid = Some d \<and>
     find_row t_task_id (tasks (db s')) tid = Some t \<and> task_status_name (t_status t) = st \<and>
     finish_line_of t = finish_line_of d \<and> verifyTaskHash E (Some d) = Inr () \<and>
     verifyTaskHash E (Some t) = Inr ()"
  using assms by (rule updateTaskStatus_facts)

lemma immutable_err: "immutable_keys_unchanged t kvs = Inl e \<Longrightarrow> err_class e = TaskLockError"
  by (induction t kvs rule: immutable_keys_unchanged.induct) (auto simp: taskLockError_def split: if_splits)

lemma assertTaskMutable_locked:
  "t_status t \<noteq> T_DRAFT \<Longrightarrow> assertTaskMutable (Some t) p = immutable_keys_unchanged t (map patch_entry p)"
  by (cases "t_status t") (simp_all add: assertTaskMutable_def isPostLockStatus_def)

lemma attemptMutate_run:
  assumes "find_row t_task_id (tasks (db s)) tid = Some t" "t_status t \<noteq> T_DRAFT"
  shows "attemptMutateLockedTask E tid patch s =
    (case immutable_keys_unchanged t (map patch_entry patch) of
       Inl e \<Rightarrow> (Inl e, s) | Inr _ \<Rightarrow> updateTask E tid patch s)"
  using assms
  by (simp add: attemptMutateLockedTask_def getTask_def assertTaskMutable_locked bnd_def thn_def gets_def lift_def
      split: sum.splits)

lemma attemptMutate_accepted:
  assumes t: "find_row t_task_id (tasks (db s)) tid = Some t" "t_status t \<noteq> T_DRAFT"
    and cost: "t_cost_budget_status t \<noteq> []"
    and run: "attemptMutateLockedTask E tid patch s = (Inr t', s')"
  shows "finish_line_of t' = finish_line_of t \<and> verifyTaskHash E (Some t') = verifyTaskHash E (Some t) \<and>
          find_row t_task_id (tasks (db s')) tid = Some t'"
proof -
  from run have ok: "immutable_keys_unchanged t (map patch_entry patch) = Inr ()"
    and upd: "updateTask E tid patch s = (Inr t', s')"
    by (auto simp: attemptMutate_run [OF t] split: sum.splits)
  from updateTask_row [OF upd] t(1) obtain q ts where q: "patch_task t patch = Inr q"
    and t': "t' = q\<lparr>t_task_id := t_task_id t, t_created_at := t_created_at t, t_updated_at := ts\<rparr>"
    by (metis option.inject)
  have "finish_line_of t' = finish_line_of t"
    using patch_task_finish_line [OF q refl cost ok] by (simp add: t')
  moreover have "t_task_id t' = t_task_id t" by (simp add: t')
  ultimately show ?thesis using bound_verifies updateTask_get [OF upd] by blast
qed

text \<open>
  C14. On a task that is past \<open>DRAFT\<close>, a mutation that changes any field named immutable is
  refused with a lock error and the state is untouched, and a mutation that is accepted leaves
  the finish line and the validity of its hash as they were.
\<close>

theorem attemptMutateLockedTask_guarded:
  assumes t: "find_row t_task_id (tasks (db s)) tid = Some t" "t_status t \<noteq> T_DRAFT"
    and cost: "t_cost_budget_status t \<noteq> []"
  shows "(\<forall>k v. (k, v) \<in> set (map patch_entry patch) \<longrightarrow> k \<in> set IMMUTABLE_WHEN_LOCKED \<longrightarrow>
            normalizeComparable k (task_field t k) \<noteq> normalizeComparable k v \<longrightarrow>
            (\<exists>e. attemptMutateLockedTask E tid patch s = (Inl e, s) \<and> err_class e = TaskLockError)) \<and>
         (\<forall>t' s'. attemptMutateLockedTask E tid patch s = (Inr t', s') \<longrightarrow>
            finish_line_of t' = finish_line_of t \<and> verifyTaskHash E (Some t') = verifyTaskHash E (Some t) \<and>
            find_row t_task_id (tasks (db s')) tid = Some t')"
proof (intro conjI allI impI)
  fix k v assume "(k, v) \<in> set (map patch_entry patch)" "k \<in> set IMMUTABLE_WHEN_LOCKED"
    "normalizeComparable k (task_field t k) \<noteq> normalizeComparable k v"
  then have "immutable_keys_unchanged t (map patch_entry patch) \<noteq> Inr ()"
    unfolding immutable_ok by (metis (mono_tags, lifting) case_prodD)
  then obtain e where "immutable_keys_unchanged t (map patch_entry patch) = Inl e"
    by (cases "immutable_keys_unchanged t (map patch_entry patch)") auto
  then show "\<exists>e. attemptMutateLockedTask E tid patch s = (Inl e, s) \<and> err_class e = TaskLockError"
    using immutable_err by (auto simp: attemptMutate_run [OF t])
qed (use attemptMutate_accepted [OF assms] in blast)+

definition demo_task :: task where
  "demo_task = lock_row demo_env 3 ((draft_of ''T1'' (Some ''W1'') demo_normal)\<lparr>t_created_at := 1\<rparr>)"

definition demo_core :: core where
  "demo_core = new_core\<lparr>db := empty_db\<lparr>tasks := [demo_task]\<rparr>\<rparr>"

lemma demo_task_facts [simp]:
  "t_task_id demo_task = ''T1''" "t_status demo_task = T_LOCKED" "t_cost_budget_status demo_task = ''UNKNOWN''"
  "t_acceptance_ref demo_task = ''docs/a.md''" "task_checks demo_task" "t_logical_work_id demo_task = Some ''W1''"
  "t_max_attempts demo_task = 2"
  "t_tool_manifest demo_task = \<lparr>providers = [''cursor''], tools = [''code''], mode = ''build''\<rparr>"
  "t_review_required demo_task"
  by (simp_all add: demo_task_def lock_row_def draft_of_def demo_normal_def task_checks_def)

lemma demo_task_verifies [simp]: "verifyTaskHash demo_env (Some demo_task) = Inr ()"
  unfolding demo_task_def by (rule lock_row_verifies) simp

lemma demo_core_facts [simp]:
  "tasks (db demo_core) = [demo_task]" "runs (db demo_core) = []" "candidates (db demo_core) = []"
  "verifications (db demo_core) = []" "reviews (db demo_core) = []" "approvals (db demo_core) = []"
  "events (db demo_core) = []" "leases (db demo_core) = []" "current_run demo_core = None" "ticks demo_core = 0"
  by (simp_all add: demo_core_def new_core_def empty_db_def)

theorem attemptMutateLockedTask_guarded_witness:
  "\<exists>e. attemptMutateLockedTask demo_env ''T1'' [P_acceptance_ref ''docs/easier.md''] demo_core = (Inl e, demo_core)"
proof -
  have "normalizeComparable ''acceptance_ref'' (task_field demo_task ''acceptance_ref'') \<noteq>
      normalizeComparable ''acceptance_ref'' (JStr ''docs/easier.md'')"
    by (simp add: normalizeComparable_def task_field_def)
  then show ?thesis
    using attemptMutateLockedTask_guarded [of demo_core "''T1''" demo_task "[P_acceptance_ref ''docs/easier.md'']" demo_env]
    by (auto simp: IMMUTABLE_WHEN_LOCKED_def)
qed

lemma RUNNING_parses [simp]: "assertTaskStatus ''RUNNING'' = Inr T_RUNNING"
  using assertTaskStatus_name [of T_RUNNING] by simp

lemma updateTaskStatus_ok:
  assumes d: "find_row t_task_id (tasks (db s)) tid = Some d" and st: "t_status d \<noteq> T_DRAFT"
    and v: "verifyTaskHash E (Some d) = Inr ()" and ok: "assertTaskStatus st = Inr x"
    and "task_checks d" "logical_work_free (db s) tid (t_logical_work_id d)" and fresh: "fresh_env E s"
  shows "\<exists>t s'. updateTaskStatus E tid st s = (Inr t, s') \<and> fresh_env E s' \<and> t = d\<lparr>t_status := x, t_updated_at := env_clock E (ticks s)\<rparr> \<and>
    tasks (db s') = update_row t_task_id tid (\<lambda>r. t\<lparr>t_task_id := t_task_id r\<rparr>) (tasks (db s)) \<and>
    runs (db s') = runs (db s) \<and> current_run s' = current_run s"
proof -
  let ?t = "d\<lparr>t_status := x, t_updated_at := env_clock E (ticks s)\<rparr>"
  let ?s1 = "s\<lparr>ticks := Suc (ticks s), db := (db s)\<lparr>tasks := update_row t_task_id tid
       (\<lambda>r. ?t\<lparr>t_task_id := t_task_id r\<rparr>) (tasks (db s))\<rparr>\<rparr>"
  have upd: "updateTask E tid [P_status st] s = (Inr ?t, ?s1)"
    by (rule updateTask_ok [OF d]) (use assms in \<open>auto simp: task_checks_def\<close>)
  have fresh1: "fresh_env E ?s1" using fresh by (rule fresh_env_mono) simp_all
  have "updateTaskStatus E tid st s = (Inr ?t, logged E (Some tid) None TASK_STATUS_CHANGED None
      (JObj [(''from'', JStr (task_status_name (t_status d))), (''to'', JStr st)]) ?s1)"
    unfolding updateTaskStatus_def getTask_def
    using d st v upd appendEvent_ok [OF fresh1]
    by (simp add: bnd_def thn_def gets_def ret_def guard_def lift_def)
  then show ?thesis using fresh_env_logged [OF fresh1] by auto
qed

lemma updateTaskStatus_witness:
  "\<exists>t s'. updateTaskStatus demo_env ''T1'' ''RUNNING'' demo_core = (Inr t, s') \<and>
     finish_line_of t = finish_line_of demo_task \<and> t_status t = T_RUNNING"
proof -
  obtain t s' where run: "updateTaskStatus demo_env ''T1'' ''RUNNING'' demo_core = (Inr t, s')"
    and t: "t_status t = T_RUNNING"
    using updateTaskStatus_ok [of demo_core "''T1''" demo_task demo_env "''RUNNING''"]
    by (auto simp: logical_work_free_def)
  from updateTaskStatus_keeps_finish_line [OF run] t run show ?thesis by auto
qed

section \<open>A lock that can be taken back\<close>

text \<open>
  The status is not among the immutable fields: a mutation may set it back to \<open>DRAFT\<close>, and a draft's
  fields may all be changed. Two accepted mutations rewrite the acceptance of a locked task.
\<close>

lemma lock_reopens:
  "case attemptMutateLockedTask demo_env ''T1'' [P_status ''DRAFT''] demo_core of
     (Inr t, s) \<Rightarrow> (case attemptMutateLockedTask demo_env ''T1'' [P_acceptance_ref ''docs/easier.md''] s of
        (Inr t', _) \<Rightarrow> t_acceptance_ref t' = ''docs/easier.md'' | _ \<Rightarrow> False)
   | _ \<Rightarrow> False"
  by code_simp

end
