(* ===== verification/WorkerProvider.thy ===== *)
theory WorkerProvider
  imports CoreTasks
begin

text \<open>
  The seam to coding workers (\<open>src/builder/worker-provider.js\<close>). A provider is code outside the
  Builder: its four methods are parameters, and an answer may differ from call to call (it
  depends on the number of the call). \<open>normalizeProviderResult\<close> is what every answer passes
  through. Shown: an answer that claims task authority is always refused, and what is accepted
  carries a known status and redacted evidence.
\<close>

datatype provider_status = PS_CREATING | PS_LAUNCHED | PS_RUNNING | PS_FINISHED | PS_ERROR
  | PS_CANCELLED | PS_EXPIRED | PS_TIMEOUT | PS_UNKNOWN

fun provider_status_name :: "provider_status \<Rightarrow> string" where
  "provider_status_name PS_CREATING = ''CREATING''"
| "provider_status_name PS_LAUNCHED = ''LAUNCHED''"
| "provider_status_name PS_RUNNING = ''RUNNING''"
| "provider_status_name PS_FINISHED = ''FINISHED''"
| "provider_status_name PS_ERROR = ''ERROR''"
| "provider_status_name PS_CANCELLED = ''CANCELLED''"
| "provider_status_name PS_EXPIRED = ''EXPIRED''"
| "provider_status_name PS_TIMEOUT = ''TIMEOUT''"
| "provider_status_name PS_UNKNOWN = ''UNKNOWN''"

definition PROVIDER_STATUS :: "provider_status list" where
  "PROVIDER_STATUS = [PS_CREATING, PS_LAUNCHED, PS_RUNNING, PS_FINISHED, PS_ERROR, PS_CANCELLED,
     PS_EXPIRED, PS_TIMEOUT, PS_UNKNOWN]"

definition workerProviderError :: "string \<Rightarrow> string \<Rightarrow> js_error" where
  "workerProviderError msg code = codedError WorkerProviderError
     (redactString [] (if msg = [] then ''provider error'' else msg)) code"

record provider_result =
  pr_factory_run_id :: js
  pr_provider :: js
  pr_provider_run_id :: "string option"
  pr_provider_agent_id :: "string option"
  pr_provider_status :: provider_status
  pr_evidence :: js
  pr_error :: js

definition claims_task_authority :: "js \<Rightarrow> bool" where
  "claims_task_authority v \<longleftrightarrow> js_get v ''task_status'' \<noteq> None \<or> js_get v ''task_done'' \<noteq> None
     \<or> js_get v ''task_accepted'' = Some (JBool True)"

definition parse_provider_status :: "js option \<Rightarrow> provider_status option" where
  "parse_provider_status v = List.find (\<lambda>st. v = Some (JStr (provider_status_name st))) PROVIDER_STATUS"

definition normalizeProviderResult :: "js \<Rightarrow> js_error + provider_result" where
  "normalizeProviderResult v =
    (if \<not> is_object v then Inl (workerProviderError ''provider result is required'' ''INVALID_RESULT'')
     else if \<not> opt_truthy (js_get v ''factory_run_id'') then
       Inl (workerProviderError ''provider result missing factory_run_id'' ''INVALID_RESULT'')
     else if \<not> opt_truthy (js_get v ''provider'') then
       Inl (workerProviderError ''provider result missing provider'' ''INVALID_RESULT'')
     else (case parse_provider_status (js_get v ''provider_status'') of
       None \<Rightarrow> Inl (workerProviderError (''invalid provider_status: ''
                 @ opt_String (js_get v ''provider_status'')) ''INVALID_RESULT'')
     | Some st \<Rightarrow>
         if claims_task_authority v then
           Inl (workerProviderError ''provider must never mark a task DONE/ACCEPTED''
                  ''PROVIDER_AUTHORITY_VIOLATION'')
         else Inr \<lparr>pr_factory_run_id = the (js_get v ''factory_run_id''),
                   pr_provider = the (js_get v ''provider''),
                   pr_provider_run_id = js_str_field v ''provider_run_id'',
                   pr_provider_agent_id = js_str_field v ''provider_agent_id'',
                   pr_provider_status = st,
                   pr_evidence = redactSecrets [] 0
                     (case js_get v ''evidence'' of Some e \<Rightarrow> if is_object e then e else JObj [] | None \<Rightarrow> JObj []),
                   pr_error = (case js_get v ''error'' of None \<Rightarrow> JNull | Some JNull \<Rightarrow> JNull
                     | Some e \<Rightarrow> redactSecrets [] 0 e)\<rparr>))"

section \<open>Providers\<close>

record approved_tools =
  at_allowed_tool_manifest :: tool_manifest
  at_providers :: "string list"
  at_tools :: "string list"
  at_mode :: string

record launch_args =
  la_factory_run_id :: string
  la_task :: task
  la_prompt :: string
  la_envVars :: js
  la_approved_tools :: approved_tools

record observe_args =
  ob_factory_run_id :: string
  ob_provider_run_id :: string
  ob_provider_agent_id :: string
  ob_wait :: bool

text \<open>An object offered as a provider: a member that is not a function is \<open>None\<close>.\<close>

record raw_provider =
  rp_name :: string
  rp_launch :: "(nat \<Rightarrow> launch_args \<Rightarrow> js_error + js) option"
  rp_status :: "(nat \<Rightarrow> observe_args \<Rightarrow> js_error + js) option"
  rp_cancel :: "(nat \<Rightarrow> observe_args \<Rightarrow> js_error + js) option"
  rp_collect :: "(nat \<Rightarrow> observe_args \<Rightarrow> js_error + js) option"

record worker_provider =
  wp_name :: string
  wp_launch :: "nat \<Rightarrow> launch_args \<Rightarrow> js_error + js"
  wp_status :: "nat \<Rightarrow> observe_args \<Rightarrow> js_error + js"
  wp_cancel :: "nat \<Rightarrow> observe_args \<Rightarrow> js_error + js"
  wp_collect :: "nat \<Rightarrow> observe_args \<Rightarrow> js_error + js"

definition require_method :: "string \<Rightarrow> 'f option \<Rightarrow> js_error + 'f" where
  "require_method name f = (case f of Some g \<Rightarrow> Inr g
     | None \<Rightarrow> Inl (workerProviderError (''worker provider missing method: '' @ name) ''INVALID_PROVIDER''))"

definition assertWorkerProvider :: "raw_provider option \<Rightarrow> js_error + worker_provider" where
  "assertWorkerProvider provider = (case provider of
      None \<Rightarrow> Inl (workerProviderError ''worker provider is required'' ''INVALID_PROVIDER'')
    | Some p \<Rightarrow>
        if rp_name p = [] then Inl (workerProviderError ''worker provider.name is required'' ''INVALID_PROVIDER'')
        else sum_bind (require_method ''launch'' (rp_launch p)) (\<lambda>l.
             sum_bind (require_method ''status'' (rp_status p)) (\<lambda>st.
             sum_bind (require_method ''cancel'' (rp_cancel p)) (\<lambda>c.
             sum_bind (require_method ''collect'' (rp_collect p)) (\<lambda>co.
             Inr \<lparr>wp_name = rp_name p, wp_launch = l, wp_status = st, wp_cancel = c, wp_collect = co\<rparr>)))))"

text \<open>Calling code outside the Builder: the answer may depend on when the call is made.\<close>

definition call_out :: "(nat \<Rightarrow> 'a \<Rightarrow> js_error + 'b) \<Rightarrow> 'a \<Rightarrow> 'b cact" where
  "call_out f x = (\<lambda>s. (f (ticks s) x, s\<lparr>ticks := Suc (ticks s)\<rparr>))"

lemma call_out_keeps [keeps_rules]: "(\<And>s n. I s \<Longrightarrow> I (s\<lparr>ticks := n\<rparr>)) \<Longrightarrow> keeps I (call_out f x)"
  by (simp add: keeps_def call_out_def)

section \<open>Properties\<close>

lemma parse_provider_status_name [simp]:
  "parse_provider_status (Some (JStr (provider_status_name st))) = Some st"
  by (cases st) (simp_all add: parse_provider_status_def PROVIDER_STATUS_def)

lemma parse_provider_status_Some:
  "parse_provider_status v = Some st \<longleftrightarrow> v = Some (JStr (provider_status_name st))"
proof
  assume "parse_provider_status v = Some st"
  then show "v = Some (JStr (provider_status_name st))"
    unfolding parse_provider_status_def by (rule find_holds)
qed simp

text \<open>
  An answer of a provider that is accepted claims no authority over the task (no
  \<open>task_status\<close>, no \<open>task_done\<close>, no \<open>task_accepted: true\<close>), reports exactly the run and the
  known status it was sent with, and its evidence and error hold no raw secret at any depth.
\<close>

theorem normalizeProviderResult_accepted:
  assumes "normalizeProviderResult v = Inr r"
  shows "js_get v ''task_status'' = None \<and> js_get v ''task_done'' = None \<and>
     js_get v ''task_accepted'' \<noteq> Some (JBool True) \<and>
     js_get v ''provider_status'' = Some (JStr (provider_status_name (pr_provider_status r))) \<and>
     js_get v ''factory_run_id'' = Some (pr_factory_run_id r) \<and> js_truthy (pr_factory_run_id r) \<and>
     secrets_hidden (pr_evidence r) \<and> secrets_hidden (pr_error r)"
proof -
  from assms have st: "parse_provider_status (js_get v ''provider_status'') = Some (pr_provider_status r)"
    and na: "\<not> claims_task_authority v" and f: "opt_truthy (js_get v ''factory_run_id'')"
    and rid: "pr_factory_run_id r = the (js_get v ''factory_run_id'')"
    by (auto simp: normalizeProviderResult_def split: if_splits option.splits)
  have "secrets_hidden (pr_evidence r) \<and> secrets_hidden (pr_error r)"
    using assms redactSecrets_hides
    by (auto simp: normalizeProviderResult_def split: if_splits option.splits js.splits)
  then show ?thesis
    using st na f rid by (auto simp: parse_provider_status_Some claims_task_authority_def opt_truthy_def split: option.splits)
qed

definition demo_answer :: "string \<Rightarrow> provider_status \<Rightarrow> js" where
  "demo_answer rid st = JObj [(''factory_run_id'', JStr rid), (''provider'', JStr ''cursor''),
     (''provider_status'', JStr (provider_status_name st)), (''provider_run_id'', JStr ''p1''),
     (''provider_agent_id'', JStr ''ag1'')]"

definition demo_result :: "string \<Rightarrow> provider_status \<Rightarrow> provider_result" where
  "demo_result rid st = \<lparr>pr_factory_run_id = JStr rid, pr_provider = JStr ''cursor'',
     pr_provider_run_id = Some ''p1'', pr_provider_agent_id = Some ''ag1'', pr_provider_status = st,
     pr_evidence = JObj [], pr_error = JNull\<rparr>"

lemma demo_answer_normal:
  "rid \<noteq> [] \<Longrightarrow> normalizeProviderResult (demo_answer rid st) = Inr (demo_result rid st)"
  by (simp add: normalizeProviderResult_def demo_answer_def demo_result_def is_object_def opt_truthy_def
      claims_task_authority_def js_str_field_def redactSecrets.simps)

theorem normalizeProviderResult_witness:
  "normalizeProviderResult (demo_answer ''r1'' PS_RUNNING) = Inr (demo_result ''r1'' PS_RUNNING) \<and>
   secrets_hidden (pr_evidence (demo_result ''r1'' PS_RUNNING))"
  using normalizeProviderResult_accepted [OF demo_answer_normal [of "''r1''" PS_RUNNING]]
    demo_answer_normal [of "''r1''" PS_RUNNING] by simp

end
