(* ===== verification/ToolPolicy.thy ===== *)
theory ToolPolicy
  imports WorkerProvider
begin

text \<open>
  Task-scoped tool and research policy (\<open>src/builder/tool-policy.js\<close>): default deny against
  the locked manifest, resolution of a permitted provider, the screen on what a tool returns,
  and \<open>invokeTaskTool\<close>, which ties them together. Shown: a request outside the manifest never
  reaches the tool, resolution never leaves the manifest, the screen finds exactly the
  authority keys within its depth, and an invocation leaves every task row alone.
\<close>

definition toolPolicyError :: "string \<Rightarrow> string \<Rightarrow> js_error" where
  "toolPolicyError msg code = codedError ToolPolicyError msg code"

definition RESEARCH_FORBIDDEN_AUTHORITY_KEYS :: "string list" where
  "RESEARCH_FORBIDDEN_AUTHORITY_KEYS = [''intent'', ''intent_version'', ''acceptance_ref'',
     ''allowed_paths'', ''tool_manifest'', ''allowed_tool_manifest'', ''credentials'', ''api_key'',
     ''secret'', ''approval'', ''approval_status'', ''grant_approval'', ''max_attempts'',
     ''max_runtime_ms'', ''cost_budget_status'', ''status'', ''mark_done'', ''done'', ''task_status'',
     ''proposal_id'', ''content_hash'', ''review_required'']"

definition getAllowedToolManifest :: "task option \<Rightarrow> js_error + tool_manifest" where
  "getAllowedToolManifest task = (case task of
      None \<Rightarrow> Inl (toolPolicyError ''unknown task'' ''UNKNOWN_TASK'')
    | Some t \<Rightarrow> Inr (normalizeToolManifest (manifest_js (t_tool_manifest t))))"

definition isToolAllowed :: "task option \<Rightarrow> string option \<Rightarrow> string option \<Rightarrow> js_error + bool" where
  "isToolAllowed task provider tool =
     sum_bind (getAllowedToolManifest task) (\<lambda>manifest.
     Inr (if (\<exists>p \<in> set_option provider. p \<notin> set (providers manifest)) then False
          else if (\<exists>t \<in> set_option tool. t \<notin> set (tools manifest)) then False
          else if provider = None \<and> tool = None then False
          else True))"

definition opt_or :: "string \<Rightarrow> string option \<Rightarrow> string" where
  "opt_or dflt x = (case x of None \<Rightarrow> dflt | Some y \<Rightarrow> y)"

definition assertToolAllowed :: "task option \<Rightarrow> string option \<Rightarrow> string option \<Rightarrow> js_error + tool_manifest" where
  "assertToolAllowed task provider tool =
     sum_bind (isToolAllowed task provider tool) (\<lambda>ok.
     if \<not> ok then Inl (toolPolicyError (''unauthorized tool request denied (default deny): provider=''
                          @ opt_or ''-'' provider @ '' tool='' @ opt_or ''-'' tool) ''UNAUTHORIZED_TOOL'')
     else getAllowedToolManifest task)"

record resolved_provider =
  rs_provider :: string
  rs_fallback :: bool
  rs_unavailable :: bool
  rs_requested :: "string option"

definition available :: "js \<Rightarrow> string \<Rightarrow> bool" where
  "available availability p \<longleftrightarrow> js_get availability p \<noteq> Some (JBool False)"

definition resolvePermittedProvider :: "task option \<Rightarrow> string option \<Rightarrow> js \<Rightarrow> js_error + resolved_provider" where
  "resolvePermittedProvider task provider availability =
     sum_bind (getAllowedToolManifest task) (\<lambda>manifest.
     (case provider of
        None \<Rightarrow> Inl (toolPolicyError ''provider not permitted by task tool_manifest: null'' ''UNAUTHORIZED_TOOL'')
      | Some requested \<Rightarrow>
         if requested = [] \<or> requested \<notin> set (providers manifest) then
           Inl (toolPolicyError (''provider not permitted by task tool_manifest: '' @ requested) ''UNAUTHORIZED_TOOL'')
         else if available availability requested then
           Inr \<lparr>rs_provider = requested, rs_fallback = False, rs_unavailable = False, rs_requested = None\<rparr>
         else
           (case filter (\<lambda>p. p \<noteq> requested \<and> available availability p) (providers manifest) of
              [a] \<Rightarrow> Inr \<lparr>rs_provider = a, rs_fallback = True, rs_unavailable = True, rs_requested = Some requested\<rparr>
            | [] \<Rightarrow> Inl (toolPolicyError (''permitted provider unavailable and no permitted fallback: '' @ requested)
                         ''PROVIDER_UNAVAILABLE'')
            | _ \<Rightarrow> Inl (toolPolicyError (''permitted provider unavailable; multiple permitted fallbacks are ambiguous: ''
                         @ requested) ''PROVIDER_FALLBACK_AMBIGUOUS''))))"

section \<open>The screen on tool output\<close>

text \<open>The set of keys found so far is a list without repetition, in the order of discovery.\<close>

definition note_key :: "string \<Rightarrow> string list \<Rightarrow> string list" where
  "note_key k found = (if k \<in> set RESEARCH_FORBIDDEN_AUTHORITY_KEYS \<and> k \<notin> set found then found @ [k] else found)"

fun collectForbiddenAuthorityKeys :: "js \<Rightarrow> string list \<Rightarrow> nat \<Rightarrow> string list" where
  "collectForbiddenAuthorityKeys (JArr xs) found depth =
     (if 6 < depth then found
      else fold (\<lambda>x f. collectForbiddenAuthorityKeys x f (Suc depth)) xs found)"
| "collectForbiddenAuthorityKeys (JObj kvs) found depth =
     (if 6 < depth then found
      else fold (\<lambda>kv f. collectForbiddenAuthorityKeys (snd kv) (note_key (fst kv) f) (Suc depth)) kvs found)"
| "collectForbiddenAuthorityKeys v found depth = found"

declare collectForbiddenAuthorityKeys.simps(1,2) [simp del]

definition assertResearchCannotMutateAuthority :: "js \<Rightarrow> js_error + unit" where
  "assertResearchCannotMutateAuthority result =
     (let forbidden = collectForbiddenAuthorityKeys result [] 0 in
      if forbidden \<noteq> [] then
        Inl (toolPolicyError (''research/tool output attempted forbidden authority mutation: ''
              @ join_with '','' forbidden) ''RESEARCH_AUTHORITY_VIOLATION'')
      else Inr ())"

definition assertNoAuthorityPatchFromResearch :: "string \<Rightarrow> js \<Rightarrow> js_error + unit" where
  "assertNoAuthorityPatchFromResearch taskId patch = (case patch of
      JObj kvs \<Rightarrow>
        (case filter (\<lambda>(k, v). k \<in> set RESEARCH_FORBIDDEN_AUTHORITY_KEYS) kvs of
           [] \<Rightarrow> Inr ()
         | (k, v) # _ \<Rightarrow> Inl (taskLockError (''research/tool cannot mutate authority field ''
              @ [CHR 0x27] @ k @ [CHR 0x27] @ '' on task '' @ taskId)))
    | _ \<Rightarrow> Inr ())"

definition workerApprovedTools :: "task option \<Rightarrow> js_error + approved_tools" where
  "workerApprovedTools task =
     sum_bind (getAllowedToolManifest task) (\<lambda>m.
     Inr \<lparr>at_allowed_tool_manifest = m, at_providers = providers m, at_tools = tools m, at_mode = mode m\<rparr>)"

section \<open>Invoking a tool\<close>

record tool_request =
  tq_task_id :: string
  tq_provider :: "string option"
  tq_tool :: "string option"
  tq_args :: "js option"
  tq_availability :: js

record invoke_args =
  ia_provider :: string
  ia_tool :: "string option"
  ia_args :: js
  ia_task :: task
  ia_allowed_tool_manifest :: tool_manifest
  ia_fallback :: bool

text \<open>An entry of an object literal whose value may be \<open>undefined\<close>: serialisation leaves it out.\<close>

definition opt_entry :: "string \<Rightarrow> string option \<Rightarrow> (string \<times> js) list" where
  "opt_entry k v = (case v of None \<Rightarrow> [] | Some x \<Rightarrow> [(k, JStr x)])"

definition denied_event :: "env \<Rightarrow> tool_request \<Rightarrow> string option \<Rightarrow> string \<Rightarrow> string \<Rightarrow> failure_class \<Rightarrow> unit cact" where
  "denied_event E q provider code msg fc = appendEvent E (Some (tq_task_id q)) None TOOL_DENIED None
     (JObj (opt_entry ''provider'' provider @ opt_entry ''tool'' (tq_tool q)
        @ [(''code'', JStr code), (''message'', JStr msg), (''failure_class'', JStr (failure_class_name fc))]))"

definition policy_check :: "task \<Rightarrow> tool_request \<Rightarrow> js_error + resolved_provider" where
  "policy_check task q =
     sum_bind (assertToolAllowed (Some task) (tq_provider q) (tq_tool q)) (\<lambda>_.
     resolvePermittedProvider (Some task) (tq_provider q) (tq_availability q))"

definition deny_request :: "env \<Rightarrow> tool_request \<Rightarrow> task \<Rightarrow> js_error \<Rightarrow> 'a cact" where
  "deny_request E q task err =
     (let code = opt_or ''TOOL_POLICY_VIOLATION'' (err_code err) in
      thn (denied_event E q (tq_provider q) code (err_message err) F_POLICY_VIOLATION)
     (thn (if code \<in> {''UNAUTHORIZED_TOOL'', ''PROVIDER_UNAVAILABLE'', ''PROVIDER_FALLBACK_AMBIGUOUS'',
                        ''RESEARCH_AUTHORITY_VIOLATION''}
              \<and> t_status task \<noteq> T_BLOCKED \<and> t_status task \<noteq> T_FAILED
           then thn (updateTaskStatus E (tq_task_id q) ''BLOCKED'') (ret ()) else ret ())
          (throw err)))"

definition screen_output :: "env \<Rightarrow> tool_request \<Rightarrow> task \<Rightarrow> resolved_provider \<Rightarrow> js \<Rightarrow> unit cact" where
  "screen_output E q task res raw = (case assertResearchCannotMutateAuthority raw of
      Inr _ \<Rightarrow> ret ()
    | Inl err \<Rightarrow>
        thn (denied_event E q (Some (rs_provider res)) (opt_or [] (err_code err)) (err_message err) F_POLICY_VIOLATION)
       (thn (if t_status task \<noteq> T_BLOCKED then thn (updateTaskStatus E (tq_task_id q) ''BLOCKED'') (ret ()) else ret ())
            (throw err)))"

definition tool_evidence :: "tool_request \<Rightarrow> resolved_provider \<Rightarrow> string \<Rightarrow> js \<Rightarrow> nat \<Rightarrow> nat \<Rightarrow> js" where
  "tool_evidence q res eid raw captured started = JObj ([(''evidence_id'', JStr eid),
     (''task_id'', JStr (tq_task_id q)), (''provider'', JStr (rs_provider res))]
     @ opt_entry ''requested_provider'' (tq_provider q) @ opt_entry ''tool'' (tq_tool q)
     @ [(''untrusted'', JBool True), (''authoritative'', JBool False), (''fallback'', JBool (rs_fallback res)),
        (''args_digest'', JStr (json_stringify (case tq_args q of Some JNull \<Rightarrow> JObj [] | Some a \<Rightarrow> a | None \<Rightarrow> JObj []))),
        (''result'', raw), (''captured_at'', JStr (isoString captured)), (''started_at'', JStr (isoString started))])"

definition run_tool ::
  "env \<Rightarrow> tool_request \<Rightarrow> (nat \<Rightarrow> invoke_args \<Rightarrow> js_error + js) \<Rightarrow> task \<Rightarrow> resolved_provider \<Rightarrow> (js \<times> tool_manifest) cact" where
  "run_tool E q invoke task res =
     bnd (now E) (\<lambda>started.
     bnd (lift (getAllowedToolManifest (Some task))) (\<lambda>manifest.
     bnd (catch (call_out invoke \<lparr>ia_provider = rs_provider res, ia_tool = tq_tool q,
              ia_args = (case tq_args q of Some a \<Rightarrow> a | None \<Rightarrow> JObj []), ia_task = task,
              ia_allowed_tool_manifest = manifest, ia_fallback = rs_fallback res\<rparr>)
            (\<lambda>err. thn (denied_event E q (Some (rs_provider res)) (opt_or ''TOOL_INVOKE_FAILED'' (err_code err))
                          (err_message err) F_PROVIDER_ERROR)
                       (throw err))) (\<lambda>raw.
     thn (screen_output E q task res raw)
    (bnd (newId E ''trev'') (\<lambda>eid.
     bnd (now E) (\<lambda>captured.
     let evidence = tool_evidence q res eid raw captured started in
     thn (appendEvent E (Some (tq_task_id q)) None RESEARCH_RECORDED (Some eid) evidence)
    (bnd (getTask (tq_task_id q)) (\<lambda>after.
     thn (lift (verifyTaskHash E after))
    (thn (guard (\<forall>a \<in> set_option after. t_status a \<noteq> T_ACCEPTED)
            (builderCoreError ''tool/research path cannot mark task DONE/ACCEPTED'' ''AUTHORITY_VIOLATION''))
    (bnd (lift (getAllowedToolManifest after)) (\<lambda>m. ret (evidence, m))))))))))))"

definition invokeTaskTool ::
  "env \<Rightarrow> tool_request \<Rightarrow> (nat \<Rightarrow> invoke_args \<Rightarrow> js_error + js) option \<Rightarrow> (js \<times> tool_manifest) cact" where
  "invokeTaskTool E q invoke =
     bnd (getTask (tq_task_id q)) (\<lambda>found. case found of
       None \<Rightarrow> throw (toolPolicyError (''unknown task_id: '' @ tq_task_id q) ''UNKNOWN_TASK'')
     | Some task \<Rightarrow>
       thn (lift (verifyTaskHash E (Some task)))
      (case policy_check task q of
         Inl err \<Rightarrow> deny_request E q task err
       | Inr res \<Rightarrow>
           (case invoke of
              None \<Rightarrow> throw (toolPolicyError ''tool invoke function required'' ''INVOKE_MISSING'')
            | Some f \<Rightarrow> run_tool E q f task res)))"

context core_frame
begin

lemma call_out_I [keeps_rules]: "keeps I (call_out f x)"
  by (rule call_out_keeps) (rule ticks_I)

lemma invokeTaskTool_I [keeps_rules]: "keeps I (invokeTaskTool E q f)"
  unfolding invokeTaskTool_def deny_request_def run_tool_def screen_output_def denied_event_def
  by (intro keeps_rules)

end

section \<open>Properties\<close>

text \<open>The specification of the screen: the key occurs within \<open>n\<close> levels of nesting.\<close>

fun key_within :: "nat \<Rightarrow> js \<Rightarrow> string \<Rightarrow> bool" where
  "key_within (Suc n) (JArr xs) k = (\<exists>x \<in> set xs. key_within n x k)"
| "key_within (Suc n) (JObj kvs) k = (\<exists>kv \<in> set kvs. fst kv = k \<or> key_within n (snd kv) k)"
| "key_within _ _ k = False"

lemma set_note_key: "set (note_key k f) = set f \<union> ({k} \<inter> set RESEARCH_FORBIDDEN_AUTHORITY_KEYS)"
  by (auto simp: note_key_def)

lemma fold_collects:
  assumes "\<And>x f. x \<in> set xs \<Longrightarrow> set (g x f) = set f \<union> S x"
  shows "set (fold g xs f) = set f \<union> (\<Union>x \<in> set xs. S x)"
  using assms by (induction xs arbitrary: f) auto

lemma collect_spec:
  "set (collectForbiddenAuthorityKeys v found d) =
     set found \<union> {k \<in> set RESEARCH_FORBIDDEN_AUTHORITY_KEYS. key_within (7 - d) v k}"
proof (induction v arbitrary: found d)
  case (JArr xs)
  show ?case
  proof (cases "6 < d")
    case False
    then have "7 - d = Suc (7 - Suc d)" by simp
    moreover have "set (fold (\<lambda>x f. collectForbiddenAuthorityKeys x f (Suc d)) xs found) = set found \<union>
        (\<Union>x \<in> set xs. {k \<in> set RESEARCH_FORBIDDEN_AUTHORITY_KEYS. key_within (7 - Suc d) x k})"
      by (rule fold_collects) (rule JArr)
    ultimately show ?thesis using False by (auto simp: collectForbiddenAuthorityKeys.simps(1))
  qed (simp add: collectForbiddenAuthorityKeys.simps(1))
next
  case (JObj kvs)
  show ?case
  proof (cases "6 < d")
    case False
    then have "7 - d = Suc (7 - Suc d)" by simp
    moreover have "set (fold (\<lambda>kv f. collectForbiddenAuthorityKeys (snd kv) (note_key (fst kv) f) (Suc d)) kvs found) =
        set found \<union> (\<Union>kv \<in> set kvs. ({fst kv} \<inter> set RESEARCH_FORBIDDEN_AUTHORITY_KEYS) \<union>
          {k \<in> set RESEARCH_FORBIDDEN_AUTHORITY_KEYS. key_within (7 - Suc d) (snd kv) k})"
      by (rule fold_collects) (use JObj in \<open>fastforce simp: set_note_key\<close>)
    ultimately show ?thesis using False by (auto simp: collectForbiddenAuthorityKeys.simps(2))
  qed (simp add: collectForbiddenAuthorityKeys.simps(2))
qed (cases "7 - d", simp_all)

text \<open>
  C39. The screen on tool output accepts a value exactly when none of the authority keys occurs
  in it within seven levels of nesting.
\<close>

theorem research_screen_exact:
  "assertResearchCannotMutateAuthority v = Inr () \<longleftrightarrow>
     set RESEARCH_FORBIDDEN_AUTHORITY_KEYS \<inter> {k. key_within 7 v k} = {}"
  using collect_spec [of v "[]" 0]
  by (auto simp: assertResearchCannotMutateAuthority_def Let_def simp flip: set_empty)

lemma getAllowed_Some [simp]:
  "getAllowedToolManifest (Some t) =
     Inr \<lparr>providers = sort (providers (t_tool_manifest t)), tools = sort (tools (t_tool_manifest t)),
          mode = mode (t_tool_manifest t)\<rparr>"
  by (simp add: getAllowedToolManifest_def normalize_manifest_js)

lemma policy_check_Inr:
  assumes "policy_check t q = Inr res"
  shows "\<exists>p. tq_provider q = Some p \<and> p \<in> set (providers (t_tool_manifest t)) \<and>
    rs_provider res \<in> set (providers (t_tool_manifest t)) \<and>
    (\<forall>x. tq_tool q = Some x \<longrightarrow> x \<in> set (tools (t_tool_manifest t))) \<and>
    (if rs_fallback res then \<not> available (tq_availability q) p \<and> rs_provider res \<noteq> p \<and>
        available (tq_availability q) (rs_provider res)
     else rs_provider res = p \<and> available (tq_availability q) p)"
proof -
  from assms obtain p where p: "tq_provider q = Some p" "p \<in> set (providers (t_tool_manifest t))"
    and t: "\<forall>x. tq_tool q = Some x \<longrightarrow> x \<in> set (tools (t_tool_manifest t))"
    and r: "resolvePermittedProvider (Some t) (Some p) (tq_availability q) = Inr res"
    by (auto simp: policy_check_def assertToolAllowed_def isToolAllowed_def sum_bind_def resolvePermittedProvider_def
        split: if_splits sum.splits option.splits)
  let ?alts = "filter (\<lambda>x. x \<noteq> p \<and> available (tq_availability q) x) (sort (providers (t_tool_manifest t)))"
  show ?thesis
  proof (cases "available (tq_availability q) p")
    case False
    with r obtain a where a: "?alts = [a]" and res: "res = \<lparr>rs_provider = a, rs_fallback = True, rs_unavailable = True, rs_requested = Some p\<rparr>"
      by (auto simp: resolvePermittedProvider_def sum_bind_def split: if_splits list.splits)
    have "a \<in> set ?alts" using a by simp
    with False p t res show ?thesis by auto
  qed (use p t r in \<open>auto simp: resolvePermittedProvider_def sum_bind_def split: if_splits\<close>)
qed

text \<open>
  C15. Default deny: when a request names no provider, a provider outside the locked manifest,
  or a tool outside it, the call raises, and what happens does not depend on the tool at all:
  it is never invoked.
\<close>

theorem invokeTaskTool_denied:
  assumes "find_row t_task_id (tasks (db s)) (tq_task_id q) = Some t"
    and "tq_provider q = None \<or> \<not> set_option (tq_provider q) \<subseteq> set (providers (t_tool_manifest t)) \<or>
         \<not> set_option (tq_tool q) \<subseteq> set (tools (t_tool_manifest t))"
  shows "(\<exists>e. fst (invokeTaskTool E q f s) = Inl e) \<and> invokeTaskTool E q f s = invokeTaskTool E q g s"
proof -
  from assms(2) obtain err where err: "policy_check t q = Inl err"
    by (cases "policy_check t q") (auto dest!: policy_check_Inr)
  have raises: "\<exists>e. fst (deny_request E q t err s') = Inl e" for s'
    by (auto simp: deny_request_def Let_def act_defs split: prod.splits sum.splits)
  show ?thesis
    using assms(1) err raises
    by (auto simp: invokeTaskTool_def getTask_def bnd_def gets_def thn_def lift_def split: sum.splits)
qed

definition demo_request :: "string \<Rightarrow> string \<Rightarrow> tool_request" where
  "demo_request p x = \<lparr>tq_task_id = ''T1'', tq_provider = Some p, tq_tool = Some x, tq_args = None,
     tq_availability = JObj []\<rparr>"

theorem invokeTaskTool_denied_witness:
  "\<exists>e. fst (invokeTaskTool demo_env (demo_request ''cursor'' ''deploy'') None demo_core) = Inl e \<and>
     invokeTaskTool demo_env (demo_request ''cursor'' ''deploy'') (Some (\<lambda>_ _. Inr JNull)) demo_core =
     invokeTaskTool demo_env (demo_request ''cursor'' ''deploy'') None demo_core"
proof -
  have "\<not> set_option (tq_tool (demo_request ''cursor'' ''deploy'')) \<subseteq> set (tools (t_tool_manifest demo_task))"
    by (simp add: demo_request_def)
  then show ?thesis
    using invokeTaskTool_denied [of demo_core "demo_request ''cursor'' ''deploy''" demo_task demo_env None
        "Some (\<lambda>_ _. Inr JNull)"]
    by (auto simp: demo_request_def)
qed

lemma deny_raises: "deny_request E q t err s \<noteq> (Inr x, s')"
  by (auto simp: deny_request_def Let_def run_iff)

lemma screen_output_Inr:
  "screen_output E q t res raw s = (Inr u, s') \<longleftrightarrow> assertResearchCannotMutateAuthority raw = Inr () \<and> s' = s"
  by (auto simp: screen_output_def run_iff split: sum.splits)

text \<open>
  An invocation that returns stayed inside the locked manifest: the task's hash was valid,
  the tool ran once, with a provider of the manifest (the requested one, or the only available
  permitted one when that is unavailable), its raw answer names no authority key, every task
  row is as before, and the recorded evidence is marked untrusted and not authoritative.
\<close>

theorem invokeTaskTool_scoped:
  assumes "invokeTaskTool E q (Some f) s = (Inr (ev, m), s')"
  shows "\<exists>t res raw. find_row t_task_id (tasks (db s)) (tq_task_id q) = Some t \<and>
     verifyTaskHash E (Some t) = Inr () \<and> policy_check t q = Inr res \<and>
     rs_provider res \<in> set (providers (t_tool_manifest t)) \<and>
     set_option (tq_tool q) \<subseteq> set (tools (t_tool_manifest t)) \<and>
     f (Suc (ticks s)) \<lparr>ia_provider = rs_provider res, ia_tool = tq_tool q,
        ia_args = (case tq_args q of Some a \<Rightarrow> a | None \<Rightarrow> JObj []), ia_task = t,
        ia_allowed_tool_manifest = m, ia_fallback = rs_fallback res\<rparr> = Inr raw \<and>
     assertResearchCannotMutateAuthority raw = Inr () \<and> tasks (db s') = tasks (db s) \<and>
     js_get ev ''untrusted'' = Some (JBool True) \<and> js_get ev ''authoritative'' = Some (JBool False)"
proof -
  from assms obtain t where t: "find_row t_task_id (tasks (db s)) (tq_task_id q) = Some t"
    "verifyTaskHash E (Some t) = Inr ()"
    by (auto simp: invokeTaskTool_def getTask_def run_iff split: option.splits)
  with assms obtain res where res: "policy_check t q = Inr res" "run_tool E q f t res s = (Inr (ev, m), s')"
    by (cases "policy_check t q") (auto simp: invokeTaskTool_def getTask_def run_iff deny_raises)
  let ?m0 = "\<lparr>providers = sort (providers (t_tool_manifest t)), tools = sort (tools (t_tool_manifest t)),
          mode = mode (t_tool_manifest t)\<rparr>"
  from res(2) obtain raw s1 c0 c1 eid where
    raw: "f (Suc (ticks s)) \<lparr>ia_provider = rs_provider res, ia_tool = tq_tool q,
        ia_args = (case tq_args q of Some a \<Rightarrow> a | None \<Rightarrow> JObj []), ia_task = t,
        ia_allowed_tool_manifest = ?m0, ia_fallback = rs_fallback res\<rparr> = Inr raw"
    and clean: "assertResearchCannotMutateAuthority raw = Inr ()"
    and ev: "ev = tool_evidence q res eid raw c1 c0"
    and app: "appendEvent E (Some (tq_task_id q)) None RESEARCH_RECORDED (Some eid) ev s1 = (Inr (), s')"
    and s1: "db s1 = db s"
    and fin: "getAllowedToolManifest (find_row t_task_id (tasks (db s')) (tq_task_id q)) = Inr m"
    by (auto simp: run_tool_def run_iff now_def newId_def call_out_def screen_output_Inr getTask_def Let_def)
  have rows: "tasks (db s') = tasks (db s)" using appendEvent_frame [OF app] s1 by simp
  then have m: "m = ?m0" using fin t by simp
  show ?thesis
    using t res(1) policy_check_Inr [OF res(1)] raw clean rows m
    by (auto simp: ev tool_evidence_def opt_entry_def split: option.splits)
qed

definition demo_tool :: "nat \<Rightarrow> invoke_args \<Rightarrow> js_error + js" where
  "demo_tool n a = Inr (JObj [(''summary'', JStr (ia_provider a))])"

lemma demo_policy: "policy_check demo_task (demo_request ''cursor'' ''code'') =
    Inr \<lparr>rs_provider = ''cursor'', rs_fallback = False, rs_unavailable = False, rs_requested = None\<rparr>"
  by (simp add: policy_check_def demo_request_def assertToolAllowed_def isToolAllowed_def sum_bind_def
      resolvePermittedProvider_def available_def)

lemma demo_screen: "assertResearchCannotMutateAuthority (JObj [(''summary'', JStr x)]) = Inr ()"
  by (simp add: assertResearchCannotMutateAuthority_def collectForbiddenAuthorityKeys.simps(2) note_key_def
      RESEARCH_FORBIDDEN_AUTHORITY_KEYS_def)

theorem invokeTaskTool_scoped_witness:
  "\<exists>ev m s'. invokeTaskTool demo_env (demo_request ''cursor'' ''code'') (Some demo_tool) demo_core = (Inr (ev, m), s') \<and>
     tasks (db s') = tasks (db demo_core) \<and> js_get ev ''authoritative'' = Some (JBool False)"
proof -
  have fresh: "fresh_env demo_env (demo_core\<lparr>ticks := n\<rparr>)" for n
    by simp
  have "\<exists>ev m s'. invokeTaskTool demo_env (demo_request ''cursor'' ''code'') (Some demo_tool) demo_core = (Inr (ev, m), s')"
    by (simp add: invokeTaskTool_def run_tool_def act_defs getTask_def demo_policy now_def newId_def call_out_def
        demo_tool_def screen_output_def demo_screen Let_def appendEvent_ok [OF fresh])
       (simp add: demo_request_def)
  then obtain ev m s' where run:
    "invokeTaskTool demo_env (demo_request ''cursor'' ''code'') (Some demo_tool) demo_core = (Inr (ev, m), s')"
    by blast
  from invokeTaskTool_scoped [OF run] run show ?thesis by auto
qed

end
