(* ===== verification/CoreWorkers.thy ===== *)
theory CoreWorkers
  imports ToolPolicy
begin

text \<open>
  Coding workers under \<open>BuilderCore\<close> (\<open>src/builder/core.js\<close>): launching a worker on a fresh run
  or on a pending one, observing, cancelling and collecting it, and applying what a provider
  reports. Shown: a launch needs a valid hash and a provider of the locked manifest, a second
  worker is never launched while one is active, and a cancelled or stale run keeps its status
  whatever a provider reports later.
\<close>

definition mapProviderStatusToRunStatus :: "provider_status \<Rightarrow> run_status" where
  "mapProviderStatusToRunStatus st = (case st of
      PS_CREATING \<Rightarrow> R_LAUNCHED | PS_LAUNCHED \<Rightarrow> R_LAUNCHED
    | PS_RUNNING \<Rightarrow> R_RUNNING | PS_FINISHED \<Rightarrow> R_SUCCEEDED
    | PS_ERROR \<Rightarrow> R_FAILED | PS_TIMEOUT \<Rightarrow> R_FAILED | PS_EXPIRED \<Rightarrow> R_FAILED
    | PS_CANCELLED \<Rightarrow> R_CANCELLED
    | PS_UNKNOWN \<Rightarrow> R_RUNNING)"

definition noProvider :: js_error where
  "noProvider = builderCoreError ''no worker provider configured'' ''NO_PROVIDER''"

definition launch_failure_evidence :: "js_error \<Rightarrow> js" where
  "launch_failure_evidence err = JObj [(''error'', JObj [(''name'', JStr (error_name (err_class err))),
     (''message'', JStr (err_message err)),
     (''code'', JStr (case err_code err of Some c \<Rightarrow> if c = [] then ''LAUNCH_FAILED'' else c | None \<Rightarrow> ''LAUNCH_FAILED'')),
     (''retryable'', JBool (err_retryable err))])]"

text \<open>The call of the provider and what follows it, common to both launch paths.\<close>

definition call_launch :: "env \<Rightarrow> worker_provider \<Rightarrow> run \<Rightarrow> launch_args \<Rightarrow> provider_result cact" where
  "call_launch E wp run args =
     catch (bnd (call_out (wp_launch wp) args) (\<lambda>v. lift (normalizeProviderResult v)))
       (\<lambda>err.
          bnd (now E) (\<lambda>ts.
          thn (updateRun (r_factory_run_id run) (\<lambda>r. r\<lparr>r_status := R_FAILED, r_ended_at := Some ts,
                 r_failure_class := Some F_PROVIDER_ERROR, r_evidence := Some (launch_failure_evidence err)\<rparr>))
         (thn (set_current None) (throw err))))"

definition launched_event :: "env \<Rightarrow> run \<Rightarrow> provider_result \<Rightarrow> bool \<Rightarrow> unit cact" where
  "launched_event E run res onExisting = appendEvent E (Some (r_task_id run)) (Some (r_factory_run_id run))
     WORKER_LAUNCHED None
     (JObj ([(''provider'', pr_provider res), (''provider_run_id'', jstr_opt (pr_provider_run_id res)),
        (''provider_agent_id'', jstr_opt (pr_provider_agent_id res)),
        (''provider_status'', JStr (provider_status_name (pr_provider_status res)))]
        @ (if onExisting then [(''on_existing_run'', JBool True)] else [])))"

definition finish_launch :: "env \<Rightarrow> run \<Rightarrow> provider_result \<Rightarrow> bool \<Rightarrow> (run \<times> provider_result) cact" where
  "finish_launch E run res onExisting =
     (if pr_factory_run_id res \<noteq> JStr (r_factory_run_id run) then
        thn (markRunStale E (r_factory_run_id run))
            (throw (builderCoreError ''provider returned mismatched factory_run_id'' ''FACTORY_RUN_MISMATCH''))
      else
        bnd (now E) (\<lambda>ts.
        bnd (updateRun (r_factory_run_id run) (\<lambda>r. r\<lparr>r_provider_run_id := pr_provider_run_id res,
               r_provider_agent_id := pr_provider_agent_id res,
               r_status := mapProviderStatusToRunStatus (pr_provider_status res),
               r_started_at := Some ts, r_evidence := Some (pr_evidence res)\<rparr>)) (\<lambda>updated.
        thn (updateTaskStatus E (r_task_id run) ''RUNNING'')
       (thn (launched_event E run res onExisting)
            (ret (updated, res))))))"

definition require_permitted :: "worker_provider \<Rightarrow> task \<Rightarrow> approved_tools cact" where
  "require_permitted wp task =
     bnd (lift (workerApprovedTools (Some task))) (\<lambda>approved.
     thn (guard (wp_name wp \<in> set (at_providers approved))
            (builderCoreError (''coding worker provider not permitted by tool_manifest: '' @ wp_name wp)
               ''UNAUTHORIZED_TOOL''))
         (ret approved))"

definition launchCodingWorker ::
  "env \<Rightarrow> worker_provider option \<Rightarrow> string \<Rightarrow> string \<Rightarrow> js \<Rightarrow> (run \<times> provider_result) cact" where
  "launchCodingWorker E provider taskId prompt envVars = (case provider of
      None \<Rightarrow> throw noProvider
    | Some wp \<Rightarrow>
      bnd getCurrentCodingRun (\<lambda>existing. case existing of
        Some r \<Rightarrow> throw (builderCoreError (''only one coding worker may be active; current='' @ r_factory_run_id r)
                          ''ACTIVE_WORKER_EXISTS'')
      | None \<Rightarrow>
        bnd (verifyLockedTask E taskId) (\<lambda>task.
        bnd (require_permitted wp task) (\<lambda>approved.
        bnd (createRun E taskId (wp_name wp) None None None) (\<lambda>run.
        thn (set_current (Some (r_factory_run_id run)))
       (bnd (call_launch E wp run \<lparr>la_factory_run_id = r_factory_run_id run, la_task = task, la_prompt = prompt,
               la_envVars = envVars, la_approved_tools = approved\<rparr>) (\<lambda>res.
        finish_launch E run res False)))))))"

definition launchCodingWorkerOnRun ::
  "env \<Rightarrow> worker_provider option \<Rightarrow> string \<Rightarrow> string \<Rightarrow> js \<Rightarrow> (run \<times> provider_result) cact" where
  "launchCodingWorkerOnRun E provider rid prompt envVars = (case provider of
      None \<Rightarrow> throw noProvider
    | Some wp \<Rightarrow>
      bnd (assertAuthorizedRun E rid False) (\<lambda>run.
      thn (guard (r_status run = R_PENDING)
             (builderCoreError (''launchCodingWorkerOnRun requires PENDING run, got ''
                @ run_status_name (r_status run)) ''INVALID_RUN_STATUS''))
     (bnd (tryClaimPendingDispatch rid) (\<lambda>claimed.
      thn (guard (claimed \<noteq> None)
             (builderCoreError (''launch already claimed for '' @ rid) ''ALREADY_DISPATCHING''))
     (bnd (verifyLockedTask E (r_task_id run)) (\<lambda>task.
      bnd (require_permitted wp task) (\<lambda>approved.
      thn (set_current (Some (r_factory_run_id run)))
     (bnd (call_launch E wp run \<lparr>la_factory_run_id = r_factory_run_id run, la_task = task, la_prompt = prompt,
             la_envVars = envVars, la_approved_tools = approved\<rparr>) (\<lambda>res.
      finish_launch E run res True)))))))))"

section \<open>Observing a worker\<close>

text \<open>The object spread \<open>{ ...a, ...b }\<close>: later entries replace earlier ones in place.\<close>

fun obj_put :: "string \<Rightarrow> js \<Rightarrow> (string \<times> js) list \<Rightarrow> (string \<times> js) list" where
  "obj_put k v [] = [(k, v)]"
| "obj_put k v ((j, w) # r) = (if j = k then (k, v) # r else (j, w) # obj_put k v r)"

definition obj_entries :: "js option \<Rightarrow> (string \<times> js) list" where
  "obj_entries v = (case v of Some (JObj kvs) \<Rightarrow> kvs
     | Some (JArr xs) \<Rightarrow> map (\<lambda>(i, x). (show_nat i, x)) (zip [0..<length xs] xs) | _ \<Rightarrow> [])"

definition obj_spread :: "(string \<times> js) list \<Rightarrow> (string \<times> js) list \<Rightarrow> (string \<times> js) list" where
  "obj_spread a b = foldl (\<lambda>acc (k, v). obj_put k v acc) a b"

definition merged_evidence :: "run \<Rightarrow> provider_result \<Rightarrow> js" where
  "merged_evidence run res = JObj (obj_spread (obj_spread (obj_entries (r_evidence run)) (obj_entries (Some (pr_evidence res))))
     [(''last_provider_status'', JStr (provider_status_name (pr_provider_status res))),
      (''last_provider_error'', pr_error res)])"

definition sticky :: "run_status \<Rightarrow> bool" where
  "sticky st \<longleftrightarrow> st \<in> {R_CANCELLED, R_STALE}"

definition observed_status :: "run \<Rightarrow> provider_result \<Rightarrow> run_status" where
  "observed_status run res =
     (if sticky (r_status run) then r_status run else mapProviderStatusToRunStatus (pr_provider_status res))"

definition observed_failure :: "run \<Rightarrow> provider_result \<Rightarrow> failure_class option" where
  "observed_failure run res =
     (if sticky (r_status run) then r_failure_class run
      else if pr_provider_status res = PS_TIMEOUT then Some F_TIMEOUT
      else if pr_provider_status res = PS_ERROR then Some F_PROVIDER_ERROR
      else r_failure_class run)"

text \<open>The clock is read only when the run ends now: not when it stays active, nor when it had ended.\<close>

definition observed_end :: "env \<Rightarrow> run \<Rightarrow> run_status \<Rightarrow> nat option cact" where
  "observed_end E run st =
     (if is_active st then ret None
      else case r_ended_at run of Some t \<Rightarrow> ret (Some t) | None \<Rightarrow> bnd (now E) (\<lambda>ts. ret (Some ts)))"

definition applyProviderObservation ::
  "env \<Rightarrow> run \<Rightarrow> provider_result \<Rightarrow> event_type \<Rightarrow> (run \<times> provider_result) cact" where
  "applyProviderObservation E run res ty =
     thn (guard (pr_factory_run_id res = JStr (r_factory_run_id run))
            (builderCoreError ''provider factory_run_id mismatch'' ''FACTORY_RUN_MISMATCH''))
    (let st = observed_status run res in
     bnd (observed_end E run st) (\<lambda>ended.
     bnd (updateRun (r_factory_run_id run) (\<lambda>r. r\<lparr>
            r_provider_run_id := (case pr_provider_run_id res of None \<Rightarrow> r_provider_run_id run | x \<Rightarrow> x),
            r_provider_agent_id := (case pr_provider_agent_id res of None \<Rightarrow> r_provider_agent_id run | x \<Rightarrow> x),
            r_status := st, r_ended_at := ended, r_failure_class := observed_failure run res,
            r_evidence := Some (merged_evidence run res)\<rparr>)) (\<lambda>updated.
     thn (if \<not> is_active (r_status updated) then clear_current_if (r_factory_run_id run) else ret ())
    (thn (appendEvent E (Some (r_task_id run)) (Some (r_factory_run_id run)) ty None
            (JObj [(''provider_status'', JStr (provider_status_name (pr_provider_status res))),
                   (''provider_run_id'', jstr_opt (pr_provider_run_id res)),
                   (''provider_agent_id'', jstr_opt (pr_provider_agent_id res)),
                   (''error'', pr_error res), (''local_run_status'', JStr (run_status_name (r_status updated)))]))
         (ret (updated, res))))))"

text \<open>A run with both provider identifiers, as the arguments of an observation.\<close>

definition provider_mapping :: "run \<Rightarrow> bool \<Rightarrow> js_error + observe_args" where
  "provider_mapping run w = (case (r_provider_run_id run, r_provider_agent_id run) of
      (Some p, Some a) \<Rightarrow>
        if p = [] \<or> a = [] then Inl (builderCoreError ''run missing provider mapping'' ''MISSING_PROVIDER_MAPPING'')
        else Inr \<lparr>ob_factory_run_id = r_factory_run_id run, ob_provider_run_id = p, ob_provider_agent_id = a, ob_wait = w\<rparr>
    | _ \<Rightarrow> Inl (builderCoreError ''run missing provider mapping'' ''MISSING_PROVIDER_MAPPING''))"

definition observe ::
  "(nat \<Rightarrow> observe_args \<Rightarrow> js_error + js) \<Rightarrow> run \<Rightarrow> bool \<Rightarrow> provider_result cact" where
  "observe f run w =
     bnd (lift (provider_mapping run w)) (\<lambda>args.
     bnd (call_out f args) (\<lambda>v. lift (normalizeProviderResult v)))"

definition refreshWorkerStatus :: "env \<Rightarrow> worker_provider option \<Rightarrow> string \<Rightarrow> (run \<times> provider_result) cact" where
  "refreshWorkerStatus E provider rid = (case provider of
      None \<Rightarrow> throw noProvider
    | Some wp \<Rightarrow>
      bnd (assertAuthorizedRun E rid False) (\<lambda>run.
      bnd (observe (wp_status wp) run False) (\<lambda>res.
      applyProviderObservation E run res WORKER_STATUS)))"

definition cancelCodingWorker :: "env \<Rightarrow> worker_provider option \<Rightarrow> string \<Rightarrow> (run \<times> provider_result) cact" where
  "cancelCodingWorker E provider rid = (case provider of
      None \<Rightarrow> throw noProvider
    | Some wp \<Rightarrow>
      bnd (assertAuthorizedRun E rid False) (\<lambda>run.
      bnd (observe (wp_cancel wp) run False) (\<lambda>res.
      bnd (applyProviderObservation E run res WORKER_CANCELLED) (\<lambda>applied.
      thn (set_current None) (ret applied)))))"

definition collectCodingWorker ::
  "env \<Rightarrow> worker_provider option \<Rightarrow> string \<Rightarrow> bool \<Rightarrow> (run \<times> provider_result \<times> task_status) cact" where
  "collectCodingWorker E provider rid w = (case provider of
      None \<Rightarrow> throw noProvider
    | Some wp \<Rightarrow>
      bnd (assertAuthorizedRun E rid True) (\<lambda>run.
      bnd (observe (wp_collect wp) run w) (\<lambda>res.
      bnd (applyProviderObservation E run res WORKER_COLLECTED) (\<lambda>applied.
      thn (if \<not> is_active (r_status (fst applied)) then set_current None else ret ())
     (bnd (getTask (r_task_id run)) (\<lambda>task. case task of
        None \<Rightarrow> throw (plainError ''Cannot read properties of null'')
      | Some t \<Rightarrow> ret (fst applied, snd applied, t_status t)))))))"

definition applyProviderResult :: "env \<Rightarrow> string \<Rightarrow> js \<Rightarrow> (run \<times> provider_result) cact" where
  "applyProviderResult E rid v =
     bnd (getRun rid) (\<lambda>found. case found of
       None \<Rightarrow> throw (builderCoreError (''unknown factory_run_id: '' @ rid) ''UNKNOWN_RUN'')
     | Some run \<Rightarrow>
       if sticky (r_status run) then
         thn (appendEvent E (Some (r_task_id run)) (Some rid) STALE_RUN_REJECTED None
                (JObj ([(''rejected_factory_run_id'', JStr rid), (''run_status'', JStr (run_status_name (r_status run)))]
                   @ (case js_get v ''provider_status'' of None \<Rightarrow> [] | Some x \<Rightarrow> [(''provider_status'', x)]))))
             (throw (builderCoreError (''cancelled/stale run cannot become authoritative: '' @ rid) ''STALE_RUN''))
       else
         bnd getCurrentCodingRun (\<lambda>current.
         (case filter (\<lambda>c. r_factory_run_id c \<noteq> rid) (case current of None \<Rightarrow> [] | Some c \<Rightarrow> [c]) of
            c # _ \<Rightarrow> thn (reject_stale E run rid (r_factory_run_id c))
                       (throw (builderCoreError (''stale run rejected: '' @ rid) ''STALE_RUN''))
          | [] \<Rightarrow> bnd (lift (normalizeProviderResult v)) (\<lambda>res.
                 applyProviderObservation E run res WORKER_STATUS))))"

context core_frame
begin

lemma call_launch_I [keeps_rules]: "keeps I (call_launch E wp run args)"
  unfolding call_launch_def by (intro keeps_rules)

lemma finish_launch_I [keeps_rules]: "keeps I (finish_launch E run res b)"
  unfolding finish_launch_def launched_event_def by (intro keeps_rules)

lemma require_permitted_I [keeps_rules]: "keeps I (require_permitted wp t)"
  unfolding require_permitted_def by (intro keeps_rules)

lemma launchCodingWorkerOnRun_I [keeps_rules]: "keeps I (launchCodingWorkerOnRun E wp rid p ev)"
  unfolding launchCodingWorkerOnRun_def by (intro keeps_rules)

lemma applyProviderObservation_I [keeps_rules]: "keeps I (applyProviderObservation E run res ty)"
  unfolding applyProviderObservation_def observed_end_def by (intro keeps_rules)

lemma observe_I [keeps_rules]: "keeps I (observe f run w)"
  unfolding observe_def by (intro keeps_rules)

lemma refreshWorkerStatus_I [keeps_rules]: "keeps I (refreshWorkerStatus E wp rid)"
  unfolding refreshWorkerStatus_def by (intro keeps_rules)

lemma cancelCodingWorker_I [keeps_rules]: "keeps I (cancelCodingWorker E wp rid)"
  unfolding cancelCodingWorker_def by (intro keeps_rules)

lemma collectCodingWorker_I [keeps_rules]: "keeps I (collectCodingWorker E wp rid w)"
  unfolding collectCodingWorker_def by (intro keeps_rules)

lemma applyProviderResult_I [keeps_rules]: "keeps I (applyProviderResult E rid v)"
  unfolding applyProviderResult_def reject_stale_def by (intro keeps_rules)

end

context core_invariant
begin

lemma launchCodingWorker_I [keeps_rules]: "keeps I (launchCodingWorker E wp tid p ev)"
  unfolding launchCodingWorker_def by (intro keeps_rules)

end

section \<open>At most one active worker\<close>

text \<open>Operations that leave the table of runs alone.\<close>

lemma updateTaskStatus_runs: "updateTaskStatus E tid st s = (r, s') \<Longrightarrow> runs (db s') = runs (db s)"
  by (cases r)
     (auto simp: updateTaskStatus_def getTask_def updateTask_def run_iff run_err now_def modify_db_def Let_def
       dest!: appendEvent_frame split: option.splits)

lemma runs_frame:
  "keeps (\<lambda>s. P (runs (db s))) (appendEvent E tid rid ty ref p)"
  "keeps (\<lambda>s. P (runs (db s))) (updateTaskStatus E tid' st)"
  "keeps (\<lambda>s. P (runs (db s))) (now E)" "keeps (\<lambda>s. P (runs (db s))) (newId E pre)"
  "keeps (\<lambda>s. P (runs (db s))) (set_current c)" "keeps (\<lambda>s. P (runs (db s))) (clear_current_if rid')"
  "keeps (\<lambda>s. P (runs (db s))) (call_out f x)" "keeps (\<lambda>s. P (runs (db s))) (verifyLockedTask E tid'')"
  "keeps (\<lambda>s. P (runs (db s))) getCurrentCodingRun"
  subgoal by (rule keepsI) (metis appendEvent_frame)
  subgoal by (rule keepsI) (metis updateTaskStatus_runs)
  subgoal by (simp add: keeps_now)
  subgoal by (simp add: keeps_newId)
  subgoal by (simp add: set_current_def keeps_modify)
  subgoal by (simp add: clear_current_if_def keeps_modify)
  subgoal by (simp add: call_out_keeps)
  subgoal unfolding verifyLockedTask_def by (intro keeps_rules)
  subgoal unfolding getCurrentCodingRun_def active_from_store_def set_current_def
    by (intro keeps_rules keeps_modify; simp)
  done

definition only_active :: "string \<Rightarrow> run list \<Rightarrow> bool" where
  "only_active rid rs \<longleftrightarrow> (\<forall>r \<in> set rs. is_active (r_status r) \<longrightarrow> r_factory_run_id r = rid)"

definition single_active :: "run list \<Rightarrow> bool" where
  "single_active rs \<longleftrightarrow> (\<exists>rid. only_active rid rs)"

lemma run_written_id [simp]: "r_factory_run_id (run_written f r) = r_factory_run_id r"
  "r_task_id (run_written f r) = r_task_id r"
  by (simp_all add: run_written_def Let_def)

lemma updateRun_runs:
  "updateRun rid f s = (r, s') \<Longrightarrow> runs (db s') = runs (db s) \<or>
     runs (db s') = update_row r_factory_run_id rid (run_written f) (runs (db s))"
  by (cases r)
     (auto simp: updateRun_def getRun_def run_iff run_err modify_db_def Let_def releaseControlLeaseByRun_def
       split: option.splits if_splits)

lemma updateRun_only: "keeps (\<lambda>s. only_active rid (runs (db s))) (updateRun rid f)"
  by (rule keepsI) (auto simp: only_active_def set_update_row dest!: updateRun_runs)

lemma markRunStale_only: "keeps (\<lambda>s. only_active rid (runs (db s))) (markRunStale E rid)"
  unfolding markRunStale_def by (intro keeps_rules updateRun_only runs_frame)

lemma call_launch_only:
  "r_factory_run_id run = rid \<Longrightarrow> keeps (\<lambda>s. only_active rid (runs (db s))) (call_launch E wp run args)"
  unfolding call_launch_def by (auto intro!: keeps_rules updateRun_only runs_frame)

lemma finish_launch_only:
  "r_factory_run_id run = rid \<Longrightarrow> keeps (\<lambda>s. only_active rid (runs (db s))) (finish_launch E run res b)"
  unfolding finish_launch_def launched_event_def
  by (auto intro!: keeps_rules updateRun_only runs_frame markRunStale_only)

lemma getCurrentCodingRun_None:
  assumes "getCurrentCodingRun s = (Inr None, s')"
  shows "runs (db s') = runs (db s) \<and> (\<forall>r \<in> set (runs (db s)). \<not> is_active (r_status r))"
proof -
  have "filter (\<lambda>r. is_active (r_status r)) (runs (db s)) = []"
    using assms
    by (auto simp: getCurrentCodingRun_def active_from_store_def run_iff set_current_def listActiveRuns_def getRun_def
        split: option.splits if_splits list.splits dest!: arg_cong [where f = set])
  with keepsD [OF runs_frame(9) [of "\<lambda>rs. rs = runs (db s)"] refl assms] show ?thesis
    by (auto simp: filter_empty_conv)
qed

lemma catch_Inl [run_err]:
  "catch m h s = (Inl e, s'') \<longleftrightarrow> (\<exists>e' s'. m s = (Inl e', s') \<and> h e' s' = (Inl e, s''))"
  by (auto simp: catch_def split: prod.splits sum.splits)

lemma insertRun_runs:
  assumes "insertRun E x s = (r, s')"
  shows "(case r of Inl _ \<Rightarrow> runs (db s') = runs (db s)
     | Inr q \<Rightarrow> runs (db s') = runs (db s) @ [q] \<and> r_factory_run_id q = r_factory_run_id x \<and>
         r_task_id q = r_task_id x \<and> r_status q = r_status x \<and> r_attempt q = r_attempt x \<and>
         r_provider q = r_provider x \<and>
         r_factory_run_id x \<notin> r_factory_run_id ` set (runs (db s)) \<and> tasks (db s') = tasks (db s))"
  using assms
  by (cases r) (auto simp: insertRun_def run_iff run_err now_def modify_db_def Let_def)

lemma createRun_Inr:
  assumes "createRun E tid p prid paid n s = (Inr q, s')"
  shows "runs (db s') = runs (db s) @ [q] \<and> r_task_id q = tid \<and> r_status q = R_PENDING \<and> r_provider q = p \<and>
    r_factory_run_id q = ''run_'' @ env_uuid E (ticks s) \<and>
    r_factory_run_id q \<notin> r_factory_run_id ` set (runs (db s)) \<and> tasks (db s') = tasks (db s) \<and>
    (\<exists>t. find_row t_task_id (tasks (db s)) tid = Some t \<and> t_status t \<noteq> T_DRAFT \<and> verifyTaskHash E (Some t) = Inr ())"
proof -
  from assms obtain t k s2 where
    t: "find_row t_task_id (tasks (db s)) tid = Some t" "t_status t \<noteq> T_DRAFT" "verifyTaskHash E (Some t) = Inr ()"
    and ins: "insertRun E (pending_run (''run_'' @ env_uuid E (ticks s)) tid p prid paid k) (s\<lparr>ticks := Suc (ticks s)\<rparr>) = (Inr q, s2)"
    and s': "runs (db s') = runs (db s2)" "tasks (db s') = tasks (db s2)"
    by (auto simp: createRun_def getTask_def run_iff newId_def listRunsForTask_def Let_def
        dest!: appendEvent_frame split: option.splits if_splits)
  from insertRun_runs [OF ins] t s' show ?thesis by (simp add: pending_run_def)
qed

lemma require_permitted_state:
  "require_permitted w task s = (y, s') \<Longrightarrow> s' = s \<and> (\<forall>a. y = Inr a \<longrightarrow>
     wp_name w \<in> set (providers (t_tool_manifest task)) \<and> workerApprovedTools (Some task) = Inr a)"
  by (auto simp: require_permitted_def workerApprovedTools_def sum_bind_def act_defs split: if_splits)

lemma createRun_Inl:
  assumes "createRun E tid p prid paid n s = (Inl e, s')"
  shows "runs (db s') = runs (db s) \<or> (\<exists>q. runs (db s') = runs (db s) @ [q])"
  using assms
  by (auto simp: createRun_def getTask_def run_iff run_err newId_def listRunsForTask_def Let_def
      dest!: appendEvent_frame insertRun_runs split: option.splits if_splits)

lemma only_active_append: "\<forall>r \<in> set rs. \<not> is_active (r_status r) \<Longrightarrow> only_active (r_factory_run_id q) (rs @ [q])"
  by (auto simp: only_active_def)

lemma launch_from_none:
  assumes none: "\<forall>r \<in> set (runs (db s)). \<not> is_active (r_status r)"
    and run: "bnd (createRun E tid p prid paid n) (\<lambda>run. thn (set_current (Some (r_factory_run_id run)))
       (bnd (call_launch E wp run (args run)) (\<lambda>res. finish_launch E run res b))) s = (r, s')"
  shows "single_active (runs (db s'))"
proof (cases "createRun E tid p prid paid n s")
  case (Pair x s1)
  show ?thesis
  proof (cases x)
    case (Inl e)
    with run Pair have "s' = s1" by (simp add: bnd_def)
    with createRun_Inl [OF Pair [unfolded Inl]] none show ?thesis
      by (auto simp: single_active_def only_active_def)
  next
    case (Inr q)
    let ?rid = "r_factory_run_id q"
    have "only_active ?rid (runs (db s1))"
      using createRun_Inr [OF Pair [unfolded Inr]] only_active_append [OF none, of q] by metis
    moreover have "keeps (\<lambda>s. only_active ?rid (runs (db s))) (thn (set_current (Some ?rid))
       (bnd (call_launch E wp q (args q)) (\<lambda>res. finish_launch E q res b)))"
      by (intro keeps_rules runs_frame call_launch_only finish_launch_only refl)
    ultimately show ?thesis
      using run Pair Inr by (auto simp: bnd_def single_active_def dest: keepsD)
  qed
qed

text \<open>
  At most one coding worker is active: if all active runs are one run, so are they after
  any attempt to launch a worker, however it ends and whatever the provider does.
\<close>

theorem launchCodingWorker_single_active:
  assumes "single_active (runs (db s))" and "launchCodingWorker E wp tid prompt envVars s = (r, s')"
  shows "single_active (runs (db s'))"
proof (cases wp)
  case None
  with assms show ?thesis by (simp add: launchCodingWorker_def throw_def)
next
  case (Some w)
  obtain x s1 where cur: "getCurrentCodingRun s = (x, s1)" by fastforce
  have same: "runs (db s1) = runs (db s)"
    by (rule keepsD [OF runs_frame(9) refl cur])
  show ?thesis
  proof (cases "x = Inr None")
    case False
    with assms Some cur have "s' = s1"
      by (auto simp: launchCodingWorker_def bnd_def throw_def split: sum.splits option.splits)
    with assms same show ?thesis by simp
  next
    case True
    with getCurrentCodingRun_None cur same have none: "\<forall>r \<in> set (runs (db s1)). \<not> is_active (r_status r)" by auto
    let ?rest = "\<lambda>task approved. bnd (createRun E tid (wp_name w) None None None) (\<lambda>run.
        thn (set_current (Some (r_factory_run_id run)))
       (bnd (call_launch E w run \<lparr>la_factory_run_id = r_factory_run_id run, la_task = task, la_prompt = prompt,
               la_envVars = envVars, la_approved_tools = approved\<rparr>) (\<lambda>res. finish_launch E run res False)))"
    from assms Some cur True
    have "bnd (verifyLockedTask E tid) (\<lambda>task. bnd (require_permitted w task) (?rest task)) s1 = (r, s')"
      by (simp add: launchCodingWorker_def bnd_def)
    moreover have "runs (db s2) = runs (db s1)" if "verifyLockedTask E tid s1 = (y, s2)" for y s2
      by (rule keepsD [OF runs_frame(8) refl that])
    ultimately consider "runs (db s') = runs (db s1)"
      | task approved s2 where "?rest task approved s2 = (r, s')" "runs (db s2) = runs (db s1)"
      by (auto simp: bnd_def [of "verifyLockedTask E tid"] bnd_def [of "require_permitted w _"]
          split: prod.splits sum.splits dest!: require_permitted_state)
    then show ?thesis
    proof cases
      case 1
      with assms same show ?thesis by simp
    next
      case 2
      show ?thesis by (rule launch_from_none [OF _ 2(1)]) (use none 2 in simp)
    qed
  qed
qed

section \<open>A launch that goes through\<close>

lemma createRun_ok:
  assumes t: "find_row t_task_id (tasks (db s)) tid = Some t" "t_status t \<noteq> T_DRAFT" "verifyTaskHash E (Some t) = Inr ()"
    and new: "''run_'' @ env_uuid E (ticks s) \<notin> r_factory_run_id ` set (runs (db s))"
      "\<And>r. r \<in> set (runs (db s)) \<Longrightarrow> r_task_id r = tid \<Longrightarrow>
         r_attempt r \<noteq> int (length (filter (\<lambda>r. r_task_id r = tid) (runs (db s)))) + 1"
    and fresh: "fresh_env E s"
  shows "\<exists>q s'. createRun E tid p prid paid None s = (Inr q, s') \<and> fresh_env E s' \<and> current_run s' = current_run s"
proof -
  let ?n = "int (length (filter (\<lambda>r. r_task_id r = tid) (runs (db s)))) + 1"
  let ?x = "pending_run (''run_'' @ env_uuid E (ticks s)) tid p prid paid ?n"
  let ?s0 = "s\<lparr>ticks := Suc (ticks s)\<rparr>"
  have tid: "tid \<in> t_task_id ` set (tasks (db s))" using find_row_Some [OF t(1)] by force
  obtain q s1 where ins: "insertRun E ?x ?s0 = (Inr q, s1)" and s1: "events (db s1) = events (db s)" "ticks s \<le> ticks s1" "current_run s1 = current_run s"
    using new tid by (force simp: insertRun_def act_defs now_def modify_db_def Let_def pending_run_def list_ex_iff)
  have fresh1: "fresh_env E s1" using fresh_env_mono [OF fresh s1(2,1)] .
  have "createRun E tid p prid paid None s = (Inr q, logged E (Some tid) (Some (r_factory_run_id q)) RUN_CREATED None
      (JObj [(''attempt'', JNum (r_attempt q)), (''provider'', JStr p)]) s1)"
    using t ins appendEvent_ok [OF fresh1]
    by (simp add: createRun_def getTask_def listRunsForTask_def newId_def bnd_def thn_def gets_def guard_def lift_def
        ret_def catch_def Let_def)
  then show ?thesis using fresh_env_logged [OF fresh1] s1 by auto
qed

lemma updateRun_ok:
  assumes cur: "find_row r_factory_run_id (runs (db s)) rid = Some c" and i: "integrity s"
    and keep: "r_attempt (f c) = r_attempt c"
  shows "\<exists>s'. updateRun rid f s = (Inr (run_written f c), s') \<and>
     runs (db s') = update_row r_factory_run_id rid (run_written f) (runs (db s)) \<and> tasks (db s') = tasks (db s) \<and>
     events (db s') = events (db s) \<and> ticks s' = ticks s \<and> current_run s' = current_run s \<and>
     candidates (db s') = candidates (db s)"
proof -
  have c: "c \<in> set (runs (db s))" "r_factory_run_id c = rid" using find_row_Some [OF cur] by auto
  have inj: "inj_on (\<lambda>r. (r_task_id r, r_attempt r)) (set (runs (db s)))"
    and pos: "1 \<le> r_attempt c" using i c by (auto simp: integrity_def wf_db_def distinct_map)
  have "\<not> list_ex (\<lambda>q. r_factory_run_id q \<noteq> rid \<and> r_task_id q = r_task_id c \<and> r_attempt q = r_attempt c) (runs (db s))"
    using c inj by (auto simp: list_ex_iff dest: inj_onD)
  moreover have "r_attempt (run_written f c) = r_attempt c" using keep by (simp add: run_written_def Let_def)
  ultimately show ?thesis
    using cur pos
    by (auto simp: updateRun_def getRun_def act_defs modify_db_def Let_def releaseControlLeaseByRun_def)
qed

text \<open>What a provider promises of \<open>launch\<close>: it answers, with a well-formed result for the run it was given.\<close>

definition launches :: "worker_provider \<Rightarrow> bool" where
  "launches w \<longleftrightarrow> (\<forall>n a. la_factory_run_id a \<noteq> [] \<longrightarrow> (\<exists>v res. wp_launch w n a = Inr v \<and> normalizeProviderResult v = Inr res \<and>
     pr_factory_run_id res = JStr (la_factory_run_id a)))"

lemma finish_launch_ok:
  assumes i: "integrity s" and fresh: "fresh_env E s"
    and q: "find_row r_factory_run_id (runs (db s)) (r_factory_run_id q) = Some q"
    and t: "find_row t_task_id (tasks (db s)) (r_task_id q) = Some t" "t_status t \<noteq> T_DRAFT" "verifyTaskHash E (Some t) = Inr ()"
    and free: "logical_work_free (db s) (r_task_id q) (t_logical_work_id t)" and rid: "pr_factory_run_id res = JStr (r_factory_run_id q)"
  shows "\<exists>u s' t'. finish_launch E q res b s = (Inr (u, res), s') \<and>
    find_row r_factory_run_id (runs (db s')) (r_factory_run_id q) = Some u \<and> r_factory_run_id u = r_factory_run_id q \<and>
    r_status u = mapProviderStatusToRunStatus (pr_provider_status res) \<and> current_run s' = current_run s \<and>
    find_row t_task_id (tasks (db s')) (r_task_id q) = Some t' \<and> t_status t' = T_RUNNING"
proof -
  let ?f = "\<lambda>r. r\<lparr>r_provider_run_id := pr_provider_run_id res, r_provider_agent_id := pr_provider_agent_id res,
               r_status := mapProviderStatusToRunStatus (pr_provider_status res),
               r_started_at := Some (env_clock E (ticks s)), r_evidence := Some (pr_evidence res)\<rparr>"
  let ?s0 = "s\<lparr>ticks := Suc (ticks s)\<rparr>"
  obtain s1 where upd: "updateRun (r_factory_run_id q) ?f ?s0 = (Inr (run_written ?f q), s1)"
    and s1: "runs (db s1) = update_row r_factory_run_id (r_factory_run_id q) (run_written ?f) (runs (db s))"
      "tasks (db s1) = tasks (db s)" "events (db s1) = events (db s)" "ticks s1 = Suc (ticks s)" "current_run s1 = current_run s"
    using updateRun_ok [of ?s0 "r_factory_run_id q" q ?f] q i by auto
  have fresh1: "fresh_env E s1" using fresh s1 by (auto intro: fresh_env_mono)
  have tc: "task_checks t" using i find_row_Some [OF t(1)] by (auto simp: integrity_def wf_db_def)
  have "\<exists>t' s2. updateTaskStatus E (r_task_id q) ''RUNNING'' s1 = (Inr t', s2) \<and> fresh_env E s2 \<and>
      t' = t\<lparr>t_status := T_RUNNING, t_updated_at := env_clock E (ticks s1)\<rparr> \<and>
      tasks (db s2) = update_row t_task_id (r_task_id q) (\<lambda>r. t'\<lparr>t_task_id := t_task_id r\<rparr>) (tasks (db s1)) \<and>
      runs (db s2) = runs (db s1) \<and> current_run s2 = current_run s1"
    using t tc s1 free by (intro updateTaskStatus_ok [OF _ _ _ RUNNING_parses _ _ fresh1]) (auto simp: logical_work_free_def)
  then obtain t' s2 where st: "updateTaskStatus E (r_task_id q) ''RUNNING'' s1 = (Inr t', s2)" and fresh2: "fresh_env E s2"
    and t': "t' = t\<lparr>t_status := T_RUNNING, t_updated_at := env_clock E (ticks s1)\<rparr>"
    and s2: "tasks (db s2) = update_row t_task_id (r_task_id q) (\<lambda>r. t'\<lparr>t_task_id := t_task_id r\<rparr>) (tasks (db s1))"
      "runs (db s2) = runs (db s1)" "current_run s2 = current_run s1" by blast
  have run: "finish_launch E q res b s = (Inr (run_written ?f q, res), snd (launched_event E q res b s2))"
    using upd st rid appendEvent_ok [OF fresh2]
    by (simp add: finish_launch_def bnd_def thn_def now_def ret_def launched_event_def)
  have ev: "db (snd (launched_event E q res b s2)) = (db s2)\<lparr>events := events (db (snd (launched_event E q res b s2)))\<rparr>"
     "current_run (snd (launched_event E q res b s2)) = current_run s2"
    using appendEvent_ok [OF fresh2] by (simp_all add: launched_event_def logged_def)
  have "find_row t_task_id (tasks (db s2)) (r_task_id q) = Some t'"
    using t(1) s1(2) find_row_Some [OF t(1)] by (simp add: s2 find_row_update t')
  moreover have "find_row r_factory_run_id (runs (db s2)) (r_factory_run_id q) = Some (run_written ?f q)"
    using q by (simp add: s2 s1 find_row_update)
  moreover have "tasks (db (snd (launched_event E q res b s2))) = tasks (db s2)"
    "runs (db (snd (launched_event E q res b s2))) = runs (db s2)" by (subst ev, simp)+
  ultimately show ?thesis
    using ev run s1 s2 t' by (auto simp: run_written_def Let_def)
qed

lemma getCurrentCodingRun_idle:
  assumes "\<forall>r \<in> set (runs (db s)). \<not> is_active (r_status r)"
  shows "\<exists>s'. getCurrentCodingRun s = (Inr None, s') \<and> db s' = db s \<and> ticks s' = ticks s"
proof -
  have "filter (\<lambda>r. is_active (r_status r)) (runs (db s)) = []" using assms by (simp add: filter_empty_conv)
  then show ?thesis
    using assms
    by (auto simp: getCurrentCodingRun_def active_from_store_def listActiveRuns_def getRun_def set_current_def act_defs
        split: option.splits dest!: find_row_Some)
qed

lemma launch_run:
  assumes "getCurrentCodingRun s = (Inr None, s1)" "verifyLockedTask E tid s1 = (Inr t, s1)"
    "require_permitted w t s1 = (Inr a, s1)" "createRun E tid (wp_name w) None None None s1 = (Inr q, s2)"
    "wp_launch w (ticks s2) \<lparr>la_factory_run_id = r_factory_run_id q, la_task = t, la_prompt = prompt,
       la_envVars = envVars, la_approved_tools = a\<rparr> = Inr v" "normalizeProviderResult v = Inr res"
  shows "launchCodingWorker E (Some w) tid prompt envVars s =
    finish_launch E q res False (s2\<lparr>current_run := Some (r_factory_run_id q), ticks := Suc (ticks s2)\<rparr>)"
  using assms
  by (simp add: launchCodingWorker_def bnd_def thn_def set_current_def modify_def call_launch_def catch_def call_out_def lift_def)

text \<open>
  C28. A launch goes through: with no active run, a task past \<open>DRAFT\<close> whose hash is valid, a
  provider that its locked manifest permits and that answers for the run it is given, the call
  returns; the new run is stored with the status the provider reported, it is the current run
  of the Builder, and the task is \<open>RUNNING\<close>.
\<close>

theorem launchCodingWorker_launches:
  assumes i: "integrity s" and idle: "\<forall>r \<in> set (runs (db s)). \<not> is_active (r_status r)"
    and t: "find_row t_task_id (tasks (db s)) tid = Some t" "t_status t \<noteq> T_DRAFT" "verifyTaskHash E (Some t) = Inr ()"
    and free: "logical_work_free (db s) tid (t_logical_work_id t)"
    and permitted: "wp_name w \<in> set (providers (t_tool_manifest t))" and answers: "launches w"
    and new: "''run_'' @ env_uuid E (ticks s) \<notin> r_factory_run_id ` set (runs (db s))"
      "\<And>r. r \<in> set (runs (db s)) \<Longrightarrow> r_task_id r = tid \<Longrightarrow>
         r_attempt r \<noteq> int (length (filter (\<lambda>r. r_task_id r = tid) (runs (db s)))) + 1"
    and fresh: "fresh_env E s"
  shows "\<exists>r res s' t'. launchCodingWorker E (Some w) tid prompt envVars s = (Inr (r, res), s') \<and>
     find_row r_factory_run_id (runs (db s')) (r_factory_run_id r) = Some r \<and>
     r_status r = mapProviderStatusToRunStatus (pr_provider_status res) \<and>
     current_run s' = Some (r_factory_run_id r) \<and>
     find_row t_task_id (tasks (db s')) tid = Some t' \<and> t_status t' = T_RUNNING"
proof -
  obtain s1 where cur: "getCurrentCodingRun s = (Inr None, s1)" and s1: "db s1 = db s" "ticks s1 = ticks s"
    using getCurrentCodingRun_idle [OF idle] by blast
  have ver: "verifyLockedTask E tid s1 = (Inr t, s1)"
    using t s1 by (simp add: verifyLockedTask_def getTask_def act_defs)
  obtain a where req: "require_permitted w t s1 = (Inr a, s1)"
    using permitted by (simp add: require_permitted_def workerApprovedTools_def sum_bind_def act_defs)
  have fresh1: "fresh_env E s1" using fresh s1 by (auto intro: fresh_env_mono)
  obtain q s2 where cr: "createRun E tid (wp_name w) None None None s1 = (Inr q, s2)" and fresh2: "fresh_env E s2"
    using createRun_ok [of s1 tid t E "wp_name w" None None] t new fresh1 s1 by auto
  note q = createRun_Inr [OF cr]
  obtain v res where v: "wp_launch w (ticks s2) \<lparr>la_factory_run_id = r_factory_run_id q, la_task = t, la_prompt = prompt,
       la_envVars = envVars, la_approved_tools = a\<rparr> = Inr v" "normalizeProviderResult v = Inr res"
      "pr_factory_run_id res = JStr (r_factory_run_id q)"
    using answers q unfolding launches_def by (metis launch_args.select_convs(1) append_is_Nil_conv list.distinct(1))
  let ?s3 = "s2\<lparr>current_run := Some (r_factory_run_id q), ticks := Suc (ticks s2)\<rparr>"
  have i1: "integrity s1" using i s1 by (simp add: integrity_def)
  then have "integrity s2" by (rule keepsD [OF integ.createRun_I _ cr])
  then have i3: "integrity ?s3" by (simp add: integrity_def)
  have fresh3: "fresh_env E ?s3" using fresh2 by (rule fresh_env_mono) simp_all
  have "\<exists>u s' t'. finish_launch E q res False ?s3 = (Inr (u, res), s') \<and>
    find_row r_factory_run_id (runs (db s')) (r_factory_run_id q) = Some u \<and> r_factory_run_id u = r_factory_run_id q \<and>
    r_status u = mapProviderStatusToRunStatus (pr_provider_status res) \<and> current_run s' = current_run ?s3 \<and>
    find_row t_task_id (tasks (db s')) (r_task_id q) = Some t' \<and> t_status t' = T_RUNNING"
    by (rule finish_launch_ok [OF i3 fresh3])
       (use q t free v s1 in \<open>auto simp: find_row_append find_row_None [THEN iffD2] logical_work_free_def\<close>)
  then show ?thesis
    using launch_run [OF cur ver req cr v(1,2)] q by auto
qed

definition demo_wp :: worker_provider where
  "demo_wp = \<lparr>wp_name = ''cursor'', wp_launch = (\<lambda>_ a. Inr (demo_answer (la_factory_run_id a) PS_RUNNING)),
     wp_status = (\<lambda>_ a. Inr (demo_answer (ob_factory_run_id a) PS_FINISHED)),
     wp_cancel = (\<lambda>_ a. Inr (demo_answer (ob_factory_run_id a) PS_CANCELLED)),
     wp_collect = (\<lambda>_ a. Inr (demo_answer (ob_factory_run_id a) PS_FINISHED))\<rparr>"

lemma demo_wp_launches: "launches demo_wp"
  by (auto simp: launches_def demo_wp_def demo_answer_normal) (simp add: demo_result_def)

lemma demo_core_integrity [simp]: "integrity demo_core"
  by (simp add: integrity_def wf_db_def)

theorem launchCodingWorker_witness:
  "\<exists>r res s'. launchCodingWorker demo_env (Some demo_wp) ''T1'' ''go'' (JObj []) demo_core = (Inr (r, res), s') \<and>
     current_run s' = Some (r_factory_run_id r)"
proof -
  have "wp_name demo_wp \<in> set (providers (t_tool_manifest demo_task))" by (simp add: demo_wp_def)
  from launchCodingWorker_launches [OF demo_core_integrity _ _ _ _ _ this demo_wp_launches,
      of "''T1''" demo_env "''go''" "JObj []"]
  show ?thesis by (simp add: logical_work_free_def) blast
qed

theorem launchCodingWorker_single_active_witness:
  "single_active (runs (db demo_core)) \<and>
   single_active (runs (db (snd (launchCodingWorker demo_env (Some demo_wp) ''T1'' ''go'' (JObj []) demo_core))))"
proof -
  have none: "single_active (runs (db demo_core))" by (simp add: single_active_def only_active_def)
  then show ?thesis
    using launchCodingWorker_single_active [OF none, of demo_env "Some demo_wp" "''T1''" "''go''" "JObj []"]
    by (metis prod.collapse)
qed

section \<open>Cancelled and stale runs\<close>

definition has_status :: "string \<Rightarrow> run_status \<Rightarrow> run list \<Rightarrow> bool" where
  "has_status rid st rs \<longleftrightarrow> (\<exists>r. find_row r_factory_run_id rs rid = Some r \<and> r_status r = st)"

lemma run_written_status: "r_status (run_written f r) = r_status (f r)"
  by (simp add: run_written_def Let_def)

lemma assertAuthorizedRun_reads:
  assumes "assertAuthorizedRun E rid b s = (r, s')"
  shows "runs (db s') = runs (db s) \<and> (\<forall>x. r = Inr x \<longrightarrow> find_row r_factory_run_id (runs (db s)) rid = Some x)"
proof -
  have "keeps (\<lambda>s. runs (db s) = R) (assertAuthorizedRun E rid b)" for R
    unfolding assertAuthorizedRun_def reject_stale_def by (intro keeps_rules runs_frame)
  from keepsD [OF this refl assms] have "runs (db s') = runs (db s)" .
  moreover have "find_row r_factory_run_id (runs (db s)) rid = Some x" if "r = Inr x" for x
    using assms that by (auto simp: assertAuthorizedRun_def getRun_def run_iff split: option.splits if_splits)
  ultimately show ?thesis by blast
qed

lemma observation_sticky:
  assumes st: "sticky st" "has_status k st (runs (db s))"
    and run: "find_row r_factory_run_id (runs (db s)) rid = Some run"
    and obs: "applyProviderObservation E run res ty s = (r, s')"
  shows "has_status k st (runs (db s'))"
proof -
  have id: "r_factory_run_id run = rid" using find_row_Some [OF run] by simp
  define P where "P rs \<longleftrightarrow> has_status k st rs \<and> (k = rid \<longrightarrow> r_status run = st)" for rs
  have P: "P (runs (db s))" using st run by (auto simp: P_def has_status_def)
  have upd: "keeps (\<lambda>s. P (runs (db s))) (updateRun rid f)" if "\<And>x. r_status (f x) = observed_status run res" for f
  proof (rule keepsI)
    fix u x u' assume p: "P (runs (db u))" and "updateRun rid f u = (x, u')"
    from updateRun_runs [OF this(2)] p st(1) that show "P (runs (db u'))"
      by (auto simp: P_def has_status_def find_row_update run_written_status observed_status_def)
  qed
  have "keeps (\<lambda>s. P (runs (db s))) (applyProviderObservation E run res ty)"
    unfolding applyProviderObservation_def observed_end_def id Let_def
    by (intro keeps_rules runs_frame upd) simp
  from keepsD [OF this P obs] show ?thesis by (simp add: P_def)
qed

lemma bnd_ret_right: "bnd m ret = m"
  by (auto simp: bnd_def ret_def fun_eq_iff split: prod.splits sum.splits)

lemma reads_then_observes:
  assumes st: "sticky st" and g: "\<And>run x. keeps (\<lambda>s. has_status k st (runs (db s))) (g run x)"
  shows "keeps (\<lambda>s. has_status k st (runs (db s)))
     (bnd (assertAuthorizedRun E rid b) (\<lambda>run. bnd (observe f run w) (\<lambda>res.
        bnd (applyProviderObservation E run res ty) (g run))))"
proof (rule keepsI)
  fix s r s' assume h: "has_status k st (runs (db s))"
    and run: "bnd (assertAuthorizedRun E rid b) (\<lambda>run. bnd (observe f run w) (\<lambda>res.
        bnd (applyProviderObservation E run res ty) (g run))) s = (r, s')"
  obtain x s1 where a: "assertAuthorizedRun E rid b s = (x, s1)" by fastforce
  note reads = assertAuthorizedRun_reads [OF a]
  show "has_status k st (runs (db s'))"
  proof (cases x)
    case (Inl e)
    with run a reads h show ?thesis by (simp add: bnd_def)
  next
    case (Inr q)
    obtain y s2 where o: "observe f q w s1 = (y, s2)" by fastforce
    have s2: "runs (db s2) = runs (db s1)"
      using o by (auto simp: observe_def act_defs call_out_def split: sum.splits)
    show ?thesis
    proof (cases y)
      case (Inl e)
      with run a o Inr s2 reads h show ?thesis by (simp add: bnd_def)
    next
      case (Inr res)
      obtain z s3 where ap: "applyProviderObservation E q res ty s2 = (z, s3)" by fastforce
      have "has_status k st (runs (db s3))"
        by (rule observation_sticky [OF st _ _ ap, of k rid]) (use s2 reads h \<open>x = Inr q\<close> in simp_all)
      with run a o ap \<open>x = Inr q\<close> Inr keepsD [OF g] show ?thesis by (auto simp: bnd_def split: sum.splits)
    qed
  qed
qed

lemma applyProviderResult_sticky:
  assumes st: "sticky st"
  shows "keeps (\<lambda>s. has_status k st (runs (db s))) (applyProviderResult E rid v)"
  unfolding applyProviderResult_def getRun_def keeps_iff_leads reject_stale_def
proof (rule leads_read, rule leads_option, goal_cases)
  case (2 x q)
  have obs: "leads (\<lambda>s. has_status k st (runs (db s)) \<and> find_row r_factory_run_id (runs (db s)) rid = Some q)
      (applyProviderObservation E q res ty) (\<lambda>s. has_status k st (runs (db s)))" for res ty
    using observation_sticky [OF st] by (force simp: leads_def prod_eq_iff)
  show ?case unfolding 2
    by (intro leads_if leads_bnd leads_list leads_thn obs keeps_rules
            runs_frame [where P = "\<lambda>rs. has_status k st rs \<and> find_row r_factory_run_id rs rid = Some q"])
       (simp_all add: leads_def throw_def)
qed (simp add: leads_def throw_def)

text \<open>
  C11. A run that was cancelled or marked stale keeps that status: refreshing, cancelling or
  collecting a worker, on this run or on another one, and applying a late provider result never
  give it another status, whatever the provider reports and however the call ends.
\<close>

theorem cancelled_and_stale_are_final:
  assumes st: "sticky st" and h: "has_status k st (runs (db s))"
  shows "has_status k st (runs (db (snd (refreshWorkerStatus E wp rid s)))) \<and>
     has_status k st (runs (db (snd (cancelCodingWorker E wp rid s)))) \<and>
     has_status k st (runs (db (snd (collectCodingWorker E wp rid w s)))) \<and>
     has_status k st (runs (db (snd (applyProviderResult E rid v s))))"
proof -
  note rule = reads_then_observes [OF st]
  have "keeps (\<lambda>s. has_status k st (runs (db s))) (refreshWorkerStatus E wp rid)"
    using rule [of k "\<lambda>_. ret" E rid False] by (auto simp: refreshWorkerStatus_def bnd_ret_right split: option.splits)
  moreover have "keeps (\<lambda>s. has_status k st (runs (db s))) (cancelCodingWorker E wp rid)"
    unfolding cancelCodingWorker_def by (intro keeps_option rule keeps_rules runs_frame)
  moreover have "keeps (\<lambda>s. has_status k st (runs (db s))) (collectCodingWorker E wp rid w)"
    unfolding collectCodingWorker_def by (intro keeps_option rule keeps_rules runs_frame)
  ultimately show ?thesis using applyProviderResult_sticky [OF st] h by (simp add: keeps_def)
qed

definition demo_cancelled :: core where
  "demo_cancelled = demo_core\<lparr>db := (db demo_core)\<lparr>runs :=
     [(pending_run ''R1'' ''T1'' ''cursor'' (Some ''p1'') (Some ''ag1'') 1)\<lparr>r_status := R_CANCELLED\<rparr>]\<rparr>\<rparr>"

theorem cancelled_and_stale_are_final_witness:
  "has_status ''R1'' R_CANCELLED (runs (db (snd (collectCodingWorker demo_env (Some demo_wp) ''R1'' True demo_cancelled))))"
proof -
  have "has_status ''R1'' R_CANCELLED (runs (db demo_cancelled))"
    by (simp add: has_status_def demo_cancelled_def pending_run_def)
  moreover have "sticky R_CANCELLED" by (simp add: sticky_def)
  ultimately show ?thesis using cancelled_and_stale_are_final by blast
qed

end
