(* ===== verification/Landing.thy ===== *)
theory Landing
  imports CoreWorkers
begin

text \<open>
  GitHub landing truth (\<open>src/builder/github-landing.js\<close>): the client built over the \<open>gh\<close>
  command line, whose output is a parameter, and \<open>summarizeCi\<close>, the summary of the check runs
  of one commit. Shown: the summary reports success exactly when no check run of the commit is
  unfinished or bad.
\<close>

section \<open>What the client returns\<close>

text \<open>A missing field is \<open>JNull\<close>; \<open>cr_head_sha\<close> is the tag some clients put on a run.\<close>

record check_run =
  cr_id :: js
  cr_name :: js
  cr_status :: js
  cr_conclusion :: js
  cr_html_url :: js
  cr_head_sha :: "string option"

record pull_request =
  pq_number :: int
  pq_html_url :: "string option"
  pq_head_ref :: "string option"
  pq_head_sha :: "string option"

text \<open>
  The client's methods as the Builder calls them; like every call out, an answer may depend on
  the moment. \<open>gh_findPullRequestsForHead\<close> gives the numbers of the pull requests found, and
  \<open>gh_getCombinedStatus\<close> the aggregate state.
\<close>

record github_client =
  gh_getCommit :: "nat \<Rightarrow> string \<Rightarrow> js_error + string option"
  gh_findPullRequestsForHead :: "nat \<Rightarrow> string \<Rightarrow> js_error + int list"
  gh_getPullRequest :: "nat \<Rightarrow> int \<Rightarrow> js_error + pull_request"
  gh_getCheckRuns :: "nat \<Rightarrow> string \<Rightarrow> js_error + check_run list"
  gh_getCombinedStatus :: "nat \<Rightarrow> string \<Rightarrow> js_error + string option"
  gh_getBranchHeadSha :: "nat \<Rightarrow> string \<Rightarrow> js_error + string"

record ci_summary =
  ci_status :: string
  ci_conclusion :: "string option"
  ci_checks :: "check_run list"
  ci_combined_state :: "string option"
  ci_captured_at :: nat

section \<open>Summarising continuous integration\<close>

definition run_completed :: "check_run \<Rightarrow> bool" where
  "run_completed r \<longleftrightarrow> cr_status r = JStr ''completed''"

definition run_failed :: "check_run \<Rightarrow> bool" where
  "run_failed r \<longleftrightarrow> cr_conclusion r \<in> set (map JStr [''failure'', ''timed_out'', ''action_required'', ''cancelled''])"

definition run_passed :: "check_run \<Rightarrow> bool" where
  "run_passed r \<longleftrightarrow> cr_conclusion r \<in> set (map JStr [''success'', ''neutral'', ''skipped''])"

definition summarize_runs :: "check_run list \<Rightarrow> string option \<Rightarrow> string \<times> string option" where
  "summarize_runs checkRuns combined =
    (if checkRuns \<noteq> [] then
       if list_ex (\<lambda>r. \<not> run_completed r) checkRuns then (''pending'', None)
       else if list_ex run_failed checkRuns then (''completed'', Some ''failure'')
       else if list_all run_passed checkRuns then (''completed'', Some ''success'')
       else (''completed'', Some ''neutral'')
     else (case combined of
        None \<Rightarrow> (''unknown'', None)
      | Some st \<Rightarrow>
         if st = [] then (''unknown'', None)
         else if st = ''pending'' then (''pending'', None)
         else if st = ''success'' then (''completed'', Some ''success'')
         else if st = ''failure'' then (''completed'', Some ''failure'')
         else (''unknown'', None)))"

definition summarizeCi :: "env \<Rightarrow> check_run list \<Rightarrow> string option \<Rightarrow> ci_summary cact" where
  "summarizeCi E checkRuns combined =
     bnd (now E) (\<lambda>ts.
     ret \<lparr>ci_status = fst (summarize_runs checkRuns combined), ci_conclusion = snd (summarize_runs checkRuns combined),
          ci_checks = checkRuns, ci_combined_state = (if combined = Some [] then None else combined),
          ci_captured_at = ts\<rparr>)"

section \<open>The client over the command line\<close>

text \<open>\<open>encodeURIComponent\<close> on the characters below 256 (UTF-8, upper-case hex).\<close>

definition hex_upper :: "nat \<Rightarrow> char" where
  "hex_upper d = (if d < 10 then char_of (48 + d) else char_of (55 + d))"

definition percent :: "nat \<Rightarrow> string" where
  "percent b = [CHR 0x25, hex_upper (b div 16), hex_upper (b mod 16)]"

definition uri_unreserved :: "char \<Rightarrow> bool" where
  "uri_unreserved c \<longleftrightarrow> is_digit c \<or> 65 \<le> (of_char c :: nat) \<and> (of_char c :: nat) \<le> 90
     \<or> 97 \<le> (of_char c :: nat) \<and> (of_char c :: nat) \<le> 122
     \<or> (of_char c :: nat) \<in> {45, 95, 46, 33, 126, 42, 39, 40, 41}"

definition encodeURIComponent :: "string \<Rightarrow> string" where
  "encodeURIComponent s = concat (map (\<lambda>c. let n = (of_char c :: nat) in
     if uri_unreserved c then [c]
     else if n < 128 then percent n
     else percent (192 + n div 64) @ percent (128 + n mod 64)) s)"

definition gitHubLandingError :: "string \<Rightarrow> string \<Rightarrow> js_error" where
  "gitHubLandingError msg code = codedError GitHubLandingError msg code"

text \<open>An error the platform raises itself.\<close>

definition nativeError :: "string \<Rightarrow> string \<Rightarrow> js_error" where
  "nativeError name msg = \<lparr>err_class = ExternalError name, err_code = None, err_message = msg, err_retryable = False\<rparr>"

text \<open>\<open>api(path)\<close>: the output of \<open>gh api\<close> parsed as JSON, \<open>null\<close> when it is empty.\<close>

definition gh_api :: "(nat \<Rightarrow> string list \<Rightarrow> js_error + string) \<Rightarrow> nat \<Rightarrow> string \<Rightarrow> js_error + js" where
  "gh_api runGh n path = (case runGh n [''api'', path] of
      Inl e \<Rightarrow> Inl e
    | Inr out \<Rightarrow> if trim out = [] then Inr JNull
        else (case json_parse (trim out) of Some v \<Rightarrow> Inr v
              | None \<Rightarrow> Inl (nativeError ''SyntaxError'' ''Unexpected token'')))"

text \<open>Reading a property of \<open>null\<close> raises; a missing one is \<open>undefined\<close>.\<close>

definition read_prop :: "js \<Rightarrow> string \<Rightarrow> js_error + js option" where
  "read_prop v k = (if v = JNull then Inl (nativeError ''TypeError'' ''Cannot read properties of null'')
     else Inr (js_get v k))"

definition as_str :: "js option \<Rightarrow> string option" where
  "as_str v = (case v of Some (JStr s) \<Rightarrow> Some s | _ \<Rightarrow> None)"

definition sub_prop :: "js option \<Rightarrow> string \<Rightarrow> js option" where
  "sub_prop v k = (case v of None \<Rightarrow> None | Some x \<Rightarrow> js_get x k)"

definition items_of :: "js \<Rightarrow> string \<Rightarrow> js list" where
  "items_of v k = (case js_get v k of Some (JArr xs) \<Rightarrow> xs | _ \<Rightarrow> [])"

definition js_or_null :: "js option \<Rightarrow> js" where
  "js_or_null v = (case v of None \<Rightarrow> JNull | Some x \<Rightarrow> x)"

definition as_num :: "js option \<Rightarrow> int" where
  "as_num v = (case v of Some (JNum n) \<Rightarrow> n | _ \<Rightarrow> 0)"

definition createGhLandingClient ::
  "string \<Rightarrow> string \<Rightarrow> (nat \<Rightarrow> string list \<Rightarrow> js_error + string) \<Rightarrow> github_client" where
  "createGhLandingClient owner repo runGh =
    (let base = ''/repos/'' @ owner @ ''/'' @ repo in
     \<lparr>gh_getCommit = (\<lambda>n sha. sum_bind (gh_api runGh n (base @ ''/commits/'' @ sha)) (\<lambda>data.
        sum_bind (read_prop data ''sha'') (\<lambda>v. Inr (as_str v)))),
      gh_findPullRequestsForHead = (\<lambda>n branch.
        sum_bind (gh_api runGh n (''/search/issues?q='' @ encodeURIComponent
          (''repo:'' @ owner @ ''/'' @ repo @ '' is:pr head:'' @ owner @ '':'' @ branch) @ ''&per_page=5'')) (\<lambda>data.
        Inr (map (\<lambda>it. as_num (js_get it ''number'')) (items_of data ''items'')))),
      gh_getPullRequest = (\<lambda>n number. sum_bind (gh_api runGh n (base @ ''/pulls/'' @ show_int number)) (\<lambda>data.
        sum_bind (read_prop data ''number'') (\<lambda>num.
        Inr \<lparr>pq_number = as_num num, pq_html_url = as_str (js_get data ''html_url''),
             pq_head_ref = as_str (sub_prop (js_get data ''head'') ''ref''),
             pq_head_sha = as_str (sub_prop (js_get data ''head'') ''sha'')\<rparr>))),
      gh_getCheckRuns = (\<lambda>n sha.
        sum_bind (gh_api runGh n (base @ ''/commits/'' @ sha @ ''/check-runs?per_page=100'')) (\<lambda>data.
        Inr (map (\<lambda>r. \<lparr>cr_id = js_or_null (js_get r ''id''), cr_name = js_or_null (js_get r ''name''),
                        cr_status = js_or_null (js_get r ''status''), cr_conclusion = js_or_null (js_get r ''conclusion''),
                        cr_html_url = js_or_null (js_get r ''html_url''), cr_head_sha = None\<rparr>) (items_of data ''check_runs'')))),
      gh_getCombinedStatus = (\<lambda>n sha.
        (case sum_bind (gh_api runGh n (base @ ''/commits/'' @ sha @ ''/status'')) (\<lambda>data. read_prop data ''state'') of
           Inl _ \<Rightarrow> Inr (Some ''pending'')
         | Inr v \<Rightarrow> Inr (as_str v))),
      gh_getBranchHeadSha = (\<lambda>n branch.
        sum_bind (gh_api runGh n (base @ ''/git/ref/heads/'' @ encodeURIComponent branch)) (\<lambda>data.
        (case as_str (sub_prop (js_get data ''object'') ''sha'') of
           Some sha \<Rightarrow> if sha = [] then Inl (gitHubLandingError (''branch head sha unavailable: '' @ branch) ''BRANCH_SHA_MISSING'')
                       else Inr sha
         | None \<Rightarrow> Inl (gitHubLandingError (''branch head sha unavailable: '' @ branch) ''BRANCH_SHA_MISSING''))))\<rparr>)"

section \<open>Properties\<close>

text \<open>
  Continuous integration is summarised as a completed success exactly when every check run
  of the commit is completed with a conclusion among success, neutral and skipped, or, for a
  commit without check runs, when its combined status is success. One unfinished or failed
  check run is enough to prevent it.
\<close>

theorem summarize_runs_success:
  "summarize_runs checkRuns combined = (''completed'', Some ''success'') \<longleftrightarrow>
     (if checkRuns = [] then combined = Some ''success''
      else list_all (\<lambda>r. run_completed r \<and> run_passed r) checkRuns)"
proof -
  have excl: "run_passed r \<Longrightarrow> \<not> run_failed r" for r by (auto simp: run_passed_def run_failed_def)
  show ?thesis
  proof (cases "checkRuns = []")
    case True
    then show ?thesis by (cases combined) (simp_all add: summarize_runs_def)
  next
    case False
    then have "summarize_runs checkRuns combined = (''completed'', Some ''success'') \<longleftrightarrow>
        \<not> list_ex (\<lambda>r. \<not> run_completed r) checkRuns \<and> \<not> list_ex run_failed checkRuns \<and> list_all run_passed checkRuns"
      by (simp add: summarize_runs_def)
    also have "\<dots> \<longleftrightarrow> list_all (\<lambda>r. run_completed r \<and> run_passed r) checkRuns"
      using excl unfolding list_ex_iff list_all_iff by blast
    finally show ?thesis using False by simp
  qed
qed

end
