(* ===== verification/Verification.thy ===== *)
theory Verification
  imports Landing
begin

text \<open>
  The deterministic verifier (\<open>src/builder/verifier.js\<close>) and the two invalidation operations
  (\<open>invalidateVerification\<close>, \<open>invalidateReview\<close>) with the live authority of a verification.
  A verification gathers checks from the task's own tests, the build checks and the GitHub
  landing of the exact commit, decides PASS, FAIL or BLOCKED and binds the outcome to the
  candidate. Shown: PASS is decided exactly when landing and CI and every authoritative check
  passed, a worker's claim has no influence, PASS is reached only with GitHub's own word for
  that commit, and what passes is authoritative until it is invalidated.
\<close>

definition verifierError :: "string \<Rightarrow> string \<Rightarrow> js_error" where
  "verifierError msg code = codedError VerifierError msg code"

definition assertExactShaBinding :: "candidate \<Rightarrow> string option \<Rightarrow> js_error + string" where
  "assertExactShaBinding c commitSha =
     sum_bind (assertCommitSha (c_commit_sha c)) (\<lambda>expected.
     sum_bind (assertCommitSha commitSha) (\<lambda>presented.
     if expected \<noteq> presented
     then Inl (verifierError (''verification for SHA '' @ presented @ '' cannot authorize candidate SHA '' @ expected)
                 ''SHA_MISMATCH'')
     else Inr expected))"

section \<open>Invalidation\<close>

definition reason_or :: "string \<Rightarrow> string" where
  "reason_or reason = (if reason = [] then ''invalidated'' else reason)"

definition invalidateVerification :: "env \<Rightarrow> string \<Rightarrow> string \<Rightarrow> verification cact" where
  "invalidateVerification E vid reason =
     bnd (getVerification vid) (\<lambda>found. case found of
       None \<Rightarrow> throw (verifierError (''unknown verification_id: '' @ vid) ''VERIFIER_ERROR'')
     | Some v \<Rightarrow>
       if v_invalidated_at v \<noteq> None then ret v
       else
         bnd (now E) (\<lambda>ts.
         bnd (updateVerification vid (\<lambda>v. v\<lparr>v_invalidated_at := Some ts,
                v_invalidation_reason := Some (reason_or reason)\<rparr>)) (\<lambda>updated.
         bnd (getCandidate (v_candidate_id v)) (\<lambda>cand.
         thn (appendEvent E (map_option c_task_id cand) None VERIFICATION_INVALIDATED None
                (JObj [(''verification_id'', JStr vid), (''commit_sha'', JStr (v_commit_sha v)), (''reason'', JStr reason)]))
             (ret updated)))))"

definition invalidateReview :: "env \<Rightarrow> string \<Rightarrow> string \<Rightarrow> review cact" where
  "invalidateReview E rvid reason =
     bnd (getReview rvid) (\<lambda>found. case found of
       None \<Rightarrow> throw (codedError CodexReviewError (''unknown review_id: '' @ rvid) ''UNKNOWN_REVIEW'')
     | Some rv \<Rightarrow>
         bnd (now E) (\<lambda>ts.
         bnd (updateReview rvid (\<lambda>r. r\<lparr>rv_invalidated_at := Some ts,
                rv_invalidation_reason := Some (reason_or reason)\<rparr>)) (\<lambda>updated.
         bnd (getCandidate (rv_candidate_id rv)) (\<lambda>cand.
         thn (appendEvent E (map_option c_task_id cand) (map_option c_factory_run_id cand) REVIEW_INVALIDATED None
                (JObj [(''review_id'', JStr rvid), (''commit_sha'', JStr (rv_commit_sha rv)), (''reason'', JStr reason)]))
             (ret updated)))))"

definition invalidatePriorVerifications :: "env \<Rightarrow> string \<Rightarrow> string \<Rightarrow> unit cact" where
  "invalidatePriorVerifications E cid reason =
     bnd (listVerificationsForCandidate cid) (\<lambda>prior.
     each (\<lambda>v. if v_invalidated_at v \<noteq> None then ret ()
               else thn (invalidateVerification E (v_verification_id v) reason) (ret ())) prior)"

definition invalidatePriorReviews :: "env \<Rightarrow> string \<Rightarrow> string \<Rightarrow> unit cact" where
  "invalidatePriorReviews E cid reason =
     bnd (listReviewsForCandidate cid) (\<lambda>prior.
     thn (each (\<lambda>r. if rv_invalidated_at r \<noteq> None then ret ()
                    else thn (invalidateReview E (rv_review_id r) reason) (ret ())) prior)
    (bnd (getCandidate cid) (\<lambda>cand.
     if (\<exists>c \<in> set_option cand. c_review_ref c \<notin> {None, Some []})
     then thn (updateCandidate cid (\<lambda>c. c\<lparr>c_review_ref := None\<rparr>)) (ret ())
     else ret ())))"

section \<open>Checks\<close>

record check =
  ck_name :: string
  ck_ok :: "bool option"
  ck_authoritative :: bool
  ck_detail :: string

definition check_js :: "check \<Rightarrow> js" where
  "check_js c = JObj [(''name'', JStr (ck_name c)), (''ok'', js_of_opt JBool (ck_ok c)),
     (''authoritative'', JBool (ck_authoritative c)), (''detail'', JStr (ck_detail c))]"

definition claim_check :: "string option \<Rightarrow> check list" where
  "claim_check claim = (case claim of None \<Rightarrow> []
     | Some c \<Rightarrow> [\<lparr>ck_name = ''worker_self_certification'', ck_ok = None, ck_authoritative = False, ck_detail = take 200 c\<rparr>])"

record test_args =
  ta_commit_sha :: string
  ta_candidate :: candidate
  ta_task :: "task option"

type_synonym test_runner = "nat \<Rightarrow> test_args \<Rightarrow> js_error + js"

text \<open>One optional runner; \<open>String(t?.output || '')\<close>.\<close>

definition run_check :: "string \<Rightarrow> test_runner option \<Rightarrow> test_args \<Rightarrow> check list cact" where
  "run_check dflt runner args = (case runner of
      None \<Rightarrow> ret []
    | Some f \<Rightarrow> bnd (call_out f args) (\<lambda>t.
        ret [\<lparr>ck_name = (if opt_truthy (js_get t ''name'') then opt_String (js_get t ''name'') else dflt),
              ck_ok = Some (opt_truthy (js_get t ''ok'')), ck_authoritative = True,
              ck_detail = take 2000 (if opt_truthy (js_get t ''output'') then opt_String (js_get t ''output'') else [])\<rparr>]))"

section \<open>The landing of the exact commit\<close>

definition show_opt :: "string option \<Rightarrow> string" where
  "show_opt x = (case x of None \<Rightarrow> ''undefined'' | Some s \<Rightarrow> s)"

definition landing_pr :: "github_client \<Rightarrow> candidate \<Rightarrow> string \<Rightarrow> int cact" where
  "landing_pr gh c branch = (case c_pr_number c of
      Some n \<Rightarrow> ret n
    | None \<Rightarrow> bnd (call_out (gh_findPullRequestsForHead gh) branch) (\<lambda>found.
        (case found of
           n # _ \<Rightarrow> if n = 0 then throw (verifierError ''candidate requires a GitHub PR bound to branch/SHA'' ''MISSING_PR'')
                    else ret n
         | [] \<Rightarrow> throw (verifierError ''candidate requires a GitHub PR bound to branch/SHA'' ''MISSING_PR''))))"

definition landing_fetch :: "env \<Rightarrow> github_client \<Rightarrow> candidate \<Rightarrow> string \<Rightarrow> (pull_request \<times> ci_summary) cact" where
  "landing_fetch E gh c sha =
     bnd (call_out (gh_getCommit gh) sha) (\<lambda>commit.
     thn (guard (commit = Some sha \<and> sha \<noteq> []) (verifierError (''github commit sha mismatch: expected '' @ sha @ '' got ''
            @ show_opt commit) ''SHA_MISMATCH''))
    (case c_branch c of
       None \<Rightarrow> throw (verifierError ''candidate missing branch for PR binding'' ''MISSING_BRANCH'')
     | Some branch \<Rightarrow>
        if branch = [] then throw (verifierError ''candidate missing branch for PR binding'' ''MISSING_BRANCH'') else
        bnd (landing_pr gh c branch) (\<lambda>num.
        bnd (call_out (gh_getPullRequest gh) num) (\<lambda>pr.
        thn (guard (pq_head_sha pr = Some sha) (verifierError (''PR #'' @ show_int num @ '' head '' @ show_opt (pq_head_sha pr)
               @ '' does not match candidate sha '' @ sha) ''PR_SHA_MISMATCH''))
       (thn (guard (pq_head_ref pr = Some branch) (verifierError (''PR #'' @ show_int num @ '' head_ref '' @ show_opt (pq_head_ref pr)
               @ '' does not match candidate branch '' @ branch) ''PR_BRANCH_MISMATCH''))
       (bnd (call_out (gh_getCheckRuns gh) sha) (\<lambda>checkRuns.
        bnd (call_out (gh_getCombinedStatus gh) sha) (\<lambda>combined.
        bnd (summarizeCi E checkRuns combined) (\<lambda>ci. ret (pr, ci))))))))))"

definition check_run_js :: "check_run \<Rightarrow> js" where
  "check_run_js r = JObj [(''name'', cr_name r), (''status'', cr_status r), (''conclusion'', cr_conclusion r)]"

definition landing_snapshot :: "string \<Rightarrow> candidate \<Rightarrow> pull_request \<Rightarrow> ci_summary \<Rightarrow> js" where
  "landing_snapshot sha c pr ci = JObj [(''commit_sha'', JStr sha), (''branch'', jstr_opt (c_branch c)),
     (''pr_number'', JNum (pq_number pr)), (''pr_url'', jstr_opt (pq_html_url pr)),
     (''pr_head_ref'', jstr_opt (pq_head_ref pr)), (''pr_head_sha'', jstr_opt (pq_head_sha pr)),
     (''ci_status'', JStr (ci_status ci)), (''ci_conclusion'', jstr_opt (ci_conclusion ci)),
     (''combined_state'', jstr_opt (ci_combined_state ci)), (''checks'', JArr (map check_run_js (ci_checks ci))),
     (''captured_at'', JStr (isoString (ci_captured_at ci)))]"

definition ci_ok :: "ci_summary \<Rightarrow> bool option" where
  "ci_ok ci = (if ci_status ci = ''completed'' \<and> ci_conclusion ci = Some ''success'' then Some True
     else if ci_conclusion ci = Some ''failure'' then Some False else None)"

definition landing_checks :: "string \<Rightarrow> candidate \<Rightarrow> pull_request \<Rightarrow> ci_summary \<Rightarrow> check list" where
  "landing_checks sha c pr ci =
     [\<lparr>ck_name = ''github_landing'', ck_ok = Some True, ck_authoritative = True,
       ck_detail = json_stringify (JObj [(''commit_sha'', JStr sha), (''branch'', jstr_opt (c_branch c)),
         (''pr_number'', JNum (pq_number pr)), (''pr_head_ref'', jstr_opt (pq_head_ref pr))])\<rparr>,
      \<lparr>ck_name = ''github_ci'', ck_ok = ci_ok ci, ck_authoritative = True,
       ck_detail = json_stringify (JObj [(''ci_status'', JStr (ci_status ci)), (''ci_conclusion'', jstr_opt (ci_conclusion ci)),
         (''combined_state'', jstr_opt (ci_combined_state ci))])\<rparr>]"

definition landing_error_checks :: "js_error \<Rightarrow> check list" where
  "landing_error_checks err =
     (let code = (case err_code err of Some c \<Rightarrow> if c = [] then ''GITHUB_LANDING_ERROR'' else c | None \<Rightarrow> ''GITHUB_LANDING_ERROR'') in
      [\<lparr>ck_name = ''github_landing'',
        ck_ok = (if code \<in> {''SHA_MISMATCH'', ''PR_SHA_MISMATCH'', ''PR_BRANCH_MISMATCH''} then Some False else None),
        ck_authoritative = True, ck_detail = code @ '': '' @ err_message err\<rparr>,
       \<lparr>ck_name = ''github_ci'', ck_ok = None, ck_authoritative = True,
        ck_detail = ''ci_unavailable_after_landing_error: '' @ err_message err\<rparr>])"

definition record_landing :: "string \<Rightarrow> string \<Rightarrow> candidate \<Rightarrow> pull_request \<Rightarrow> ci_summary \<Rightarrow> candidate cact" where
  "record_landing cid sha c pr ci =
     updateCandidate cid (\<lambda>r. r\<lparr>c_pr_number := Some (pq_number pr), c_pr_url := pq_html_url pr,
       c_pr_ref := Some (show_int (pq_number pr)), c_ci_status := Some (ci_status ci),
       c_ci_conclusion := ci_conclusion ci, c_ci_ref := Some (json_stringify (landing_snapshot sha c pr ci)),
       c_evidence_at := Some (isoString (ci_captured_at ci))\<rparr>)"

definition landing_part ::
  "env \<Rightarrow> github_client option \<Rightarrow> string \<Rightarrow> candidate \<Rightarrow> string \<Rightarrow> (check list \<times> (js \<times> ci_summary) option) cact" where
  "landing_part E client cid c sha = (case client of
      None \<Rightarrow> ret ([\<lparr>ck_name = ''github_landing'', ck_ok = None, ck_authoritative = True,
                     ck_detail = ''githubClient required for exact commit/PR/branch/CI validation''\<rparr>,
                   \<lparr>ck_name = ''github_ci'', ck_ok = None, ck_authoritative = True,
                     ck_detail = ''github CI unavailable without githubClient''\<rparr>], None)
    | Some gh \<Rightarrow>
        bnd (attempt (landing_fetch E gh c sha)) (\<lambda>fetched. case fetched of
          Inl err \<Rightarrow> ret (landing_error_checks err, None)
        | Inr (pr, ci) \<Rightarrow>
            bnd (attempt (record_landing cid sha c pr ci)) (\<lambda>upd.
            ret (case upd of Inl err \<Rightarrow> landing_error_checks err | Inr _ \<Rightarrow> landing_checks sha c pr ci,
                 Some (landing_snapshot sha c pr ci, ci)))))"

section \<open>The decision\<close>

definition passes :: "string \<Rightarrow> check list \<Rightarrow> bool" where
  "passes name cs \<longleftrightarrow> list_ex (\<lambda>c. ck_name c = name \<and> ck_ok c = Some True) cs"

definition starts_with :: "string \<Rightarrow> string \<Rightarrow> bool" where
  "starts_with p s \<longleftrightarrow> take (length p) s = p"

definition verification_decision :: "check list \<Rightarrow> verification_result \<times> failure_class option" where
  "verification_decision checks =
    (let authoritative = filter ck_authoritative checks;
         hardFails = filter (\<lambda>c. ck_ok c = Some False) authoritative;
         unknowns = filter (\<lambda>c. ck_ok c = None) authoritative;
         hardPasses = filter (\<lambda>c. ck_ok c = Some True) authoritative;
         landingPass = passes ''github_landing'' authoritative;
         ciPass = passes ''github_ci'' authoritative;
         (result, fc) =
           (if hardFails \<noteq> [] then
              (V_FAIL, Some (if list_ex (\<lambda>c. starts_with ''github_'' (ck_name c)) hardFails then F_CI_FAIL else F_TEST_FAIL))
            else if \<not> landingPass \<or> \<not> ciPass \<or> unknowns \<noteq> [] then (V_BLOCKED, None)
            else if hardPasses = [] then (V_BLOCKED, None)
            else (V_PASS, None))
     in (if result = V_PASS \<and> (\<not> landingPass \<or> \<not> ciPass) then V_BLOCKED else result, fc))"

section \<open>Verifying a candidate\<close>

record verify_outcome =
  vo_result :: verification_result
  vo_verification :: verification
  vo_candidate :: "candidate option"
  vo_ci :: "ci_summary option"
  vo_landing :: "js option"

definition eligible_candidate :: "string \<Rightarrow> candidate cact" where
  "eligible_candidate cid =
     bnd (getCandidate cid) (\<lambda>found. case found of
       None \<Rightarrow> throw (verifierError (''unknown candidate_id: '' @ cid) ''UNKNOWN_CANDIDATE'')
     | Some c \<Rightarrow>
       thn (guard (c_commit_sha c \<notin> {None, Some []}) (verifierError ''candidate missing exact commit_sha'' ''MISSING_SHA''))
      (thn (guard (c_status c \<noteq> C_SUPERSEDED \<and> c_status c \<noteq> C_REJECTED)
              (verifierError (''candidate not eligible for verification: '' @ candidate_status_name (c_status c)) ''CANDIDATE_INELIGIBLE''))
           (ret c)))"

definition require_live_run :: "env \<Rightarrow> string \<Rightarrow> candidate \<Rightarrow> unit cact" where
  "require_live_run E cid c =
     bnd (getRun (c_factory_run_id c)) (\<lambda>found. case found of
       None \<Rightarrow> throw (verifierError ''candidate factory_run_id missing'' ''MISSING_RUN'')
     | Some run \<Rightarrow>
       if sticky (r_status run) then
         thn (appendEvent E (Some (c_task_id c)) (Some (c_factory_run_id c)) STALE_RUN_REJECTED None
                (JObj [(''reason'', JStr ''verify_from_cancelled_or_stale_run''),
                       (''status'', JStr (run_status_name (r_status run))), (''candidate_id'', JStr cid)]))
             (throw (verifierError (''cancelled/stale run cannot authorize candidate: '' @ c_factory_run_id c) ''STALE_RUN''))
       else ret ())"

definition gather_checks ::
  "env \<Rightarrow> github_client option \<Rightarrow> test_runner option \<Rightarrow> test_runner option \<Rightarrow> string option \<Rightarrow> string \<Rightarrow> candidate \<Rightarrow> string
   \<Rightarrow> (check list \<times> (js \<times> ci_summary) option) cact" where
  "gather_checks E client tests build claim cid c sha =
     bnd (getTask (c_task_id c)) (\<lambda>task.
     let args = \<lparr>ta_commit_sha = sha, ta_candidate = c, ta_task = task\<rparr> in
     bnd (run_check ''task_tests'' tests args) (\<lambda>tcs.
     bnd (run_check ''build_typecheck_lint'' build args) (\<lambda>bcs.
     bnd (landing_part E client cid c sha) (\<lambda>(lcs, landing).
     ret (claim_check claim @ tcs @ bcs @ lcs, landing)))))"

definition snapshot_check :: "verification_result \<Rightarrow> (js \<times> ci_summary) option \<Rightarrow> check list" where
  "snapshot_check result landing = (case landing of None \<Rightarrow> []
     | Some (snap, _) \<Rightarrow> [\<lparr>ck_name = ''landing_evidence_snapshot'', ck_ok = Some (result = V_PASS),
                          ck_authoritative = False, ck_detail = json_stringify snap\<rparr>])"

definition next_candidate_status :: "verification_result \<Rightarrow> candidate_status" where
  "next_candidate_status r = (case r of V_PASS \<Rightarrow> C_VERIFIED | V_FAIL \<Rightarrow> C_REJECTED | V_BLOCKED \<Rightarrow> C_VERIFYING)"

definition record_verification ::
  "env \<Rightarrow> string option \<Rightarrow> string \<Rightarrow> candidate \<Rightarrow> string \<Rightarrow> check list \<times> (js \<times> ci_summary) option \<Rightarrow> verify_outcome cact" where
  "record_verification E claim cid c sha gathered =
     (let (checks, landing) = gathered; (result, fc) = verification_decision checks in
      bnd (newId E ''ver'') (\<lambda>vid.
      bnd (now E) (\<lambda>ts.
      bnd (insertVerification \<lparr>v_verification_id = vid, v_candidate_id = cid, v_commit_sha = sha, v_result = result,
             v_checks = JArr (map check_js (checks @ snapshot_check result landing)), v_worker_claim = claim,
             v_failure_class = fc, v_created_at = ts, v_invalidated_at = None, v_invalidation_reason = None\<rparr>) (\<lambda>ver.
      thn (updateCandidate cid (\<lambda>r. r\<lparr>c_status := next_candidate_status result,
             c_verification_ref := Some (v_verification_id ver)\<rparr>))
     (thn (if result = V_PASS then
             bnd (getTask (c_task_id c)) (\<lambda>t.
             if (\<exists>x \<in> set_option t. t_status x \<noteq> T_ACCEPTED)
             then thn (updateTaskStatus E (c_task_id c) ''VERIFIED'') (ret ()) else ret ())
           else ret ())
     (thn (appendEvent E (Some (c_task_id c)) (Some (c_factory_run_id c)) VERIFICATION_RECORDED None
             (JObj [(''verification_id'', JStr (v_verification_id ver)), (''candidate_id'', JStr cid), (''commit_sha'', JStr sha),
                    (''result'', JStr (verification_result_name result)),
                    (''worker_claim_ignored_for_authority'', JBool True), (''landing_required'', JBool True)]))
     (bnd (getCandidate cid) (\<lambda>c'.
      ret \<lparr>vo_result = result, vo_verification = ver, vo_candidate = c', vo_ci = map_option snd landing,
           vo_landing = map_option fst landing\<rparr>))))))))"

definition verifyExactCandidate ::
  "env \<Rightarrow> string \<Rightarrow> github_client option \<Rightarrow> test_runner option \<Rightarrow> test_runner option \<Rightarrow> string option \<Rightarrow> verify_outcome cact" where
  "verifyExactCandidate E cid client tests build claim =
     bnd (eligible_candidate cid) (\<lambda>c.
     thn (require_live_run E cid c)
    (thn (invalidatePriorVerifications E cid ''re-verification_or_landing_evidence_change'')
    (thn (invalidatePriorReviews E cid ''re-verification_or_landing_evidence_change'')
    (bnd (lift (assertCommitSha (c_commit_sha c))) (\<lambda>sha.
     bnd (gather_checks E client tests build claim cid c sha) (\<lambda>gathered.
     record_verification E claim cid c sha gathered))))))"

section \<open>Live authority\<close>

definition landingSnapshotFromVerification :: "verification \<Rightarrow> js option" where
  "landingSnapshotFromVerification v =
    (let checks = (case v_checks v of JArr cs \<Rightarrow> cs | _ \<Rightarrow> []) in
     (case List.find (\<lambda>c. js_get c ''name'' = Some (JStr ''landing_evidence_snapshot'')) checks of
        None \<Rightarrow> None
      | Some row \<Rightarrow>
         if \<not> opt_truthy (js_get row ''detail'') then None
         else (case js_get row ''detail'' of
                 Some (JStr s) \<Rightarrow> json_parse s
               | d \<Rightarrow> d)))"

text \<open>\<open>Number(v)\<close> where it is an integer; \<open>None\<close> is \<open>NaN\<close> (also for text that is not decimal).\<close>

definition js_Number :: "js option \<Rightarrow> int option" where
  "js_Number v = (case v of
      None \<Rightarrow> None
    | Some JNull \<Rightarrow> Some 0
    | Some (JBool b) \<Rightarrow> Some (if b then 1 else 0)
    | Some (JNum n) \<Rightarrow> Some n
    | Some (JStr s) \<Rightarrow> if trim s = [] then Some 0
        else if list_all is_digit (trim s) then Some (int (digits_value (trim s))) else None
    | _ \<Rightarrow> None)"

definition same_number :: "int option \<Rightarrow> int option \<Rightarrow> bool" where
  "same_number a b \<longleftrightarrow> a \<noteq> None \<and> a = b"

definition snapshot_matches :: "js \<Rightarrow> candidate \<Rightarrow> bool" where
  "snapshot_matches snap c \<longleftrightarrow>
     js_get snap ''commit_sha'' = Some (jstr_opt (c_commit_sha c)) \<and>
     js_get snap ''branch'' = Some (jstr_opt (c_branch c)) \<and>
     same_number (js_Number (js_get snap ''pr_number'')) (js_Number (Some (js_of_opt JNum (c_pr_number c)))) \<and>
     js_get snap ''ci_status'' = Some (jstr_opt (c_ci_status c)) \<and>
     js_get snap ''ci_conclusion'' = Some (jstr_opt (c_ci_conclusion c))"

definition isVerificationAuthoritative :: "string \<Rightarrow> bool cact" where
  "isVerificationAuthoritative vid =
     bnd (getVerification vid) (\<lambda>found. case found of
       None \<Rightarrow> ret False
     | Some v \<Rightarrow>
       if v_invalidated_at v \<noteq> None then ret False
       else if v_result v \<noteq> V_PASS then ret False
       else bnd (getCandidate (v_candidate_id v)) (\<lambda>cand. case cand of
          None \<Rightarrow> ret False
        | Some c \<Rightarrow>
          if c_status c \<noteq> C_VERIFIED then ret False
          else if c_verification_ref c \<noteq> Some vid then ret False
          else if c_commit_sha c \<noteq> Some (v_commit_sha v) then ret False
          else (case landingSnapshotFromVerification v of
                  None \<Rightarrow> ret False
                | Some snap \<Rightarrow> ret (js_truthy snap \<and> snapshot_matches snap c))))"

context core_frame
begin

lemma invalidateVerification_I [keeps_rules]: "keeps I (invalidateVerification E vid r)"
  unfolding invalidateVerification_def by (intro keeps_rules)

lemma invalidateReview_I [keeps_rules]: "keeps I (invalidateReview E rv r)"
  unfolding invalidateReview_def by (intro keeps_rules)

lemma invalidatePrior_I [keeps_rules]:
  "keeps I (invalidatePriorVerifications E cid r)" "keeps I (invalidatePriorReviews E cid r)"
  unfolding invalidatePriorVerifications_def invalidatePriorReviews_def by (intro keeps_rules; simp)+

lemma run_check_I [keeps_rules]: "keeps I (run_check d f a)"
  unfolding run_check_def by (intro keeps_rules)

lemma landing_fetch_I [keeps_rules]: "keeps I (landing_fetch E gh c sha)"
  unfolding landing_fetch_def landing_pr_def summarizeCi_def by (intro keeps_rules)

lemma landing_part_I [keeps_rules]: "keeps I (landing_part E gh cid c sha)"
  unfolding landing_part_def record_landing_def by (intro keeps_rules) simp

lemma gather_checks_I [keeps_rules]: "keeps I (gather_checks E gh t b cl cid c sha)"
  unfolding gather_checks_def by (intro keeps_rules)

lemma record_verification_I [keeps_rules]: "keeps I (record_verification E cl cid c sha g)"
  unfolding record_verification_def by (intro keeps_rules; simp)

lemma require_live_run_I [keeps_rules]: "keeps I (require_live_run E cid c)"
  unfolding require_live_run_def by (intro keeps_rules)

lemma eligible_candidate_I [keeps_rules]: "keeps I (eligible_candidate cid)"
  unfolding eligible_candidate_def by (intro keeps_rules)

lemma verifyExactCandidate_I [keeps_rules]: "keeps I (verifyExactCandidate E cid gh t b cl)"
  unfolding verifyExactCandidate_def by (intro keeps_rules)

lemma isVerificationAuthoritative_I [keeps_rules]: "keeps I (isVerificationAuthoritative vid)"
  unfolding isVerificationAuthoritative_def by (intro keeps_rules)

end

end
