(* ===== verification/VerificationProps.thy ===== *)
theory VerificationProps
  imports Verification
begin

text \<open>
  Properties of the deterministic verifier: the exact condition for PASS, what a PASS says
  about GitHub's own data on the commit, and that verifying again revokes what came before.
\<close>

section \<open>The decision\<close>

lemma passes_list_all:
  "list_all (\<lambda>c. ck_ok c = Some True) cs \<Longrightarrow> passes n cs \<longleftrightarrow> n \<in> ck_name ` set cs"
  by (auto simp: passes_def list_ex_iff list_all_iff)

lemma passes_nonempty: "passes n cs \<Longrightarrow> filter (\<lambda>c. ck_ok c = Some True) cs \<noteq> []"
  by (auto simp: passes_def list_ex_iff filter_empty_conv)

lemma no_bad_checks:
  "list_all (\<lambda>c. ck_ok c = Some True) cs \<longleftrightarrow>
     filter (\<lambda>c. ck_ok c = Some False) cs = [] \<and> filter (\<lambda>c. ck_ok c = None) cs = []"
  by (auto simp: list_all_iff filter_empty_conv) (metis (full_types) option.exhaust)

lemma decision_pass:
  "fst (verification_decision cs) = V_PASS \<longleftrightarrow>
     list_all (\<lambda>c. ck_ok c = Some True) (filter ck_authoritative cs) \<and>
     passes ''github_landing'' (filter ck_authoritative cs) \<and> passes ''github_ci'' (filter ck_authoritative cs)"
  using passes_nonempty [of "''github_ci''" "filter ck_authoritative cs"]
  unfolding verification_decision_def Let_def no_bad_checks
  by (auto split: if_splits)

lemma decision_claim: "verification_decision (claim_check claim @ cs) = verification_decision cs"
proof -
  have "filter ck_authoritative (claim_check claim @ cs) = filter ck_authoritative cs"
    by (simp add: claim_check_def split: option.splits)
  then show ?thesis by (simp only: verification_decision_def)
qed

text \<open>
  C10. The verifier decides PASS exactly when every authoritative check passed and among them
  are the GitHub landing and the GitHub CI check; whatever a worker claims about its own work
  leaves the decision and the failure class unchanged.
\<close>

theorem verification_decision_pass:
  "(fst (verification_decision (claim_check claim @ cs)) = V_PASS \<longleftrightarrow>
     list_all (\<lambda>c. ck_ok c = Some True) (filter ck_authoritative cs) \<and>
     passes ''github_landing'' (filter ck_authoritative cs) \<and> passes ''github_ci'' (filter ck_authoritative cs)) \<and>
   verification_decision (claim_check claim @ cs) = verification_decision cs"
  by (simp add: decision_claim decision_pass)

section \<open>PASS needs GitHub's word for the commit\<close>

lemma run_check_Inr:
  assumes "run_check d (Some f) args s = (Inr cs, s')"
  shows "\<exists>t c. f (ticks s) args = Inr t \<and> cs = [c] \<and> ck_ok c = Some (opt_truthy (js_get t ''ok'')) \<and> ck_authoritative c"
  using assms by (auto simp: run_check_def run_iff call_out_def)

lemma summarizeCi_Inr:
  "summarizeCi E rs comb s = (Inr ci, s') \<Longrightarrow> (ci_status ci, ci_conclusion ci) = summarize_runs rs comb"
  by (auto simp: summarizeCi_def run_iff now_def)

lemma landing_fetch_Inr:
  assumes "landing_fetch E gh c sha s = (Inr (pr, ci), s')"
  shows "\<exists>branch num n1 n2 n3 n4 rs comb. c_branch c = Some branch \<and>
    gh_getCommit gh n1 sha = Inr (Some sha) \<and> gh_getPullRequest gh n2 num = Inr pr \<and>
    pq_head_sha pr = Some sha \<and> pq_head_ref pr = Some branch \<and>
    gh_getCheckRuns gh n3 sha = Inr rs \<and> gh_getCombinedStatus gh n4 sha = Inr comb \<and>
    (ci_status ci, ci_conclusion ci) = summarize_runs rs comb"
proof -
  from assms obtain branch num s2 rs comb where "c_branch c = Some branch" "gh_getCommit gh (ticks s) sha = Inr (Some sha)"
    "gh_getPullRequest gh (ticks s2) num = Inr pr" "pq_head_sha pr = Some sha" "pq_head_ref pr = Some branch"
    "gh_getCheckRuns gh (Suc (ticks s2)) sha = Inr rs" "gh_getCombinedStatus gh (Suc (Suc (ticks s2))) sha = Inr comb"
    "summarizeCi E rs comb (s2\<lparr>ticks := Suc (Suc (Suc (ticks s2)))\<rparr>) = (Inr ci, s')"
    by (auto simp: landing_fetch_def run_iff call_out_def split: option.splits if_splits)
  then show ?thesis using summarizeCi_Inr by blast
qed

lemma landing_part_pass:
  assumes "landing_part E client cid c sha s = (Inr (cs, landing), s')"
    and "list_all (\<lambda>c. ck_ok c = Some True) (filter ck_authoritative cs)"
  shows "\<exists>gh pr ci s1. client = Some gh \<and> landing_fetch E gh c sha s = (Inr (pr, ci), s1) \<and>
    ci_status ci = ''completed'' \<and> ci_conclusion ci = Some ''success'' \<and>
    landing = Some (landing_snapshot sha c pr ci, ci) \<and> cs = landing_checks sha c pr ci \<and>
    (\<exists>c'. record_landing cid sha c pr ci s1 = (Inr c', s'))"
proof -
  have bad: "\<not> list_all (\<lambda>c. ck_ok c = Some True) (filter ck_authoritative (landing_error_checks e))" for e
    by (simp add: landing_error_checks_def Let_def)
  obtain gh where gh: "client = Some gh"
    using assms by (cases client) (auto simp: landing_part_def run_iff)
  obtain x s1 where fetch: "landing_fetch E gh c sha s = (x, s1)" by fastforce
  with assms bad gh obtain pr ci where x: "x = Inr (pr, ci)"
    by (cases x) (auto simp: landing_part_def attempt_def bnd_def ret_def)
  obtain y s2 where rec: "record_landing cid sha c pr ci s1 = (y, s2)" by fastforce
  with assms bad gh fetch x obtain c' where y: "y = Inr c'" "cs = landing_checks sha c pr ci" "s' = s2"
    "landing = Some (landing_snapshot sha c pr ci, ci)"
    by (cases y) (auto simp: landing_part_def attempt_def bnd_def ret_def)
  have "ci_status ci = ''completed'' \<and> ci_conclusion ci = Some ''success''"
    using assms(2) y(2) by (auto simp: landing_checks_def ci_ok_def split: if_splits)
  with gh fetch x rec y show ?thesis by blast
qed

lemma verifyExactCandidate_stages:
  assumes "verifyExactCandidate E cid client tests build claim s = (Inr out, s')"
  shows "\<exists>c sha g sA sB s1 s2. find_row c_candidate_id (candidates (db s)) cid = Some c \<and> c_commit_sha c = Some sha \<and>
    is_commit_sha sha \<and> c_status c \<noteq> C_SUPERSEDED \<and> c_status c \<noteq> C_REJECTED \<and>
    require_live_run E cid c s = (Inr (), sA) \<and>
    invalidatePriorVerifications E cid ''re-verification_or_landing_evidence_change'' sA = (Inr (), sB) \<and>
    invalidatePriorReviews E cid ''re-verification_or_landing_evidence_change'' sB = (Inr (), s1) \<and>
    gather_checks E client tests build claim cid c sha s1 = (Inr g, s2) \<and>
    record_verification E claim cid c sha g s2 = (Inr out, s')"
proof -
  from assms obtain c s0 where c: "eligible_candidate cid s = (Inr c, s0)"
    and rest: "thn (require_live_run E cid c)
    (thn (invalidatePriorVerifications E cid ''re-verification_or_landing_evidence_change'')
    (thn (invalidatePriorReviews E cid ''re-verification_or_landing_evidence_change'')
    (bnd (lift (assertCommitSha (c_commit_sha c))) (\<lambda>sha.
     bnd (gather_checks E client tests build claim cid c sha) (\<lambda>gathered.
     record_verification E claim cid c sha gathered))))) s0 = (Inr out, s')"
    unfolding verifyExactCandidate_def bnd_Inr by blast
  have "s0 = s" "find_row c_candidate_id (candidates (db s)) cid = Some c" "c_status c \<noteq> C_SUPERSEDED" "c_status c \<noteq> C_REJECTED"
    using c by (auto simp: eligible_candidate_def getCandidate_def run_iff split: option.splits)
  moreover from rest obtain sha g sA sB s1 s2 u1 u2 u3 where
    "require_live_run E cid c s0 = (Inr u1, sA)"
    "invalidatePriorVerifications E cid ''re-verification_or_landing_evidence_change'' sA = (Inr u2, sB)"
    "invalidatePriorReviews E cid ''re-verification_or_landing_evidence_change'' sB = (Inr u3, s1)"
    "c_commit_sha c = Some sha" "is_commit_sha sha"
    "gather_checks E client tests build claim cid c sha s1 = (Inr g, s2)"
    "record_verification E claim cid c sha g s2 = (Inr out, s')"
    unfolding thn_Inr bnd_Inr lift_run assertCommitSha_Inr by blast
  ultimately show ?thesis by (metis (full_types) old.unit.exhaust)
qed

lemma record_verification_result:
  "record_verification E claim cid c sha (cs, landing) s = (Inr out, s') \<Longrightarrow> vo_result out = fst (verification_decision cs)"
  by (auto simp: record_verification_def run_iff Let_def split: prod.splits)

lemma verify_pass_facts:
  assumes run: "verifyExactCandidate E cid client tests build claim s = (Inr out, s')"
    and pass: "vo_result out = V_PASS"
  shows "\<exists>gh c sha branch pr num n1 n2 n3 n4 rs comb. client = Some gh \<and>
     find_row c_candidate_id (candidates (db s)) cid = Some c \<and>
     c_commit_sha c = Some sha \<and> is_commit_sha sha \<and> c_branch c = Some branch \<and>
     gh_getCommit gh n1 sha = Inr (Some sha) \<and> gh_getPullRequest gh n2 num = Inr pr \<and>
     pq_head_sha pr = Some sha \<and> pq_head_ref pr = Some branch \<and>
     gh_getCheckRuns gh n3 sha = Inr rs \<and> gh_getCombinedStatus gh n4 sha = Inr comb \<and>
     summarize_runs rs comb = (''completed'', Some ''success'') \<and>
     (\<forall>f. tests = Some f \<longrightarrow> (\<exists>n a t. f n a = Inr t \<and> opt_truthy (js_get t ''ok''))) \<and>
     (\<forall>f. build = Some f \<longrightarrow> (\<exists>n a t. f n a = Inr t \<and> opt_truthy (js_get t ''ok'')))"
proof -
  from verifyExactCandidate_stages [OF run] obtain c sha g s1 s2 where
    c: "find_row c_candidate_id (candidates (db s)) cid = Some c" "c_commit_sha c = Some sha" "is_commit_sha sha"
    and ga: "gather_checks E client tests build claim cid c sha s1 = (Inr g, s2)"
    and re: "record_verification E claim cid c sha g s2 = (Inr out, s')" by blast
  from ga obtain args tcs bcs lcs landing t0 t1 t2 where
    tcs: "run_check ''task_tests'' tests args t0 = (Inr tcs, t1)"
    and bcs: "run_check ''build_typecheck_lint'' build args t1 = (Inr bcs, t2)"
    and lcs: "landing_part E client cid c sha t2 = (Inr (lcs, landing), s2)"
    and g: "g = (claim_check claim @ tcs @ bcs @ lcs, landing)"
    unfolding gather_checks_def by (auto simp: run_iff Let_def)
  have "fst (verification_decision (tcs @ bcs @ lcs)) = V_PASS"
    using record_verification_result [OF re [unfolded g]] pass by (simp add: decision_claim)
  then have all: "list_all (\<lambda>c. ck_ok c = Some True) (filter ck_authoritative tcs)"
    "list_all (\<lambda>c. ck_ok c = Some True) (filter ck_authoritative bcs)"
    "list_all (\<lambda>c. ck_ok c = Some True) (filter ck_authoritative lcs)"
    by (simp_all add: decision_pass)
  from landing_part_pass [OF lcs all(3)] obtain gh pr ci s3 where gh: "client = Some gh"
    and fetch: "landing_fetch E gh c sha t2 = (Inr (pr, ci), s3)"
    and ci: "ci_status ci = ''completed''" "ci_conclusion ci = Some ''success''" by blast
  have "\<exists>n a t. f n a = Inr t \<and> opt_truthy (js_get t ''ok'')" if "tests = Some f" for f
    using run_check_Inr [OF tcs [unfolded that]] all(1) by auto blast
  moreover have "\<exists>n a t. f n a = Inr t \<and> opt_truthy (js_get t ''ok'')" if "build = Some f" for f
    using run_check_Inr [OF bcs [unfolded that]] all(2) by auto blast
  moreover obtain branch num n1 n2 n3 n4 rs comb where "c_branch c = Some branch"
    "gh_getCommit gh n1 sha = Inr (Some sha)" "gh_getPullRequest gh n2 num = Inr pr"
    "pq_head_sha pr = Some sha" "pq_head_ref pr = Some branch" "gh_getCheckRuns gh n3 sha = Inr rs"
    "gh_getCombinedStatus gh n4 sha = Inr comb" "summarize_runs rs comb = (''completed'', Some ''success'')"
    using landing_fetch_Inr [OF fetch] ci by (metis (no_types, lifting))
  ultimately show ?thesis using c gh by blast
qed

text \<open>
  C5. A PASS is GitHub's word, not the worker's: if verifying a candidate returns PASS, then
  there was a GitHub client, it returned exactly the candidate's commit, a pull request whose
  head is that commit on the candidate's branch, and check runs of that commit that summarise
  as a completed success; and the task's tests and the build checks, where given, were run and
  reported success.
\<close>

theorem verify_pass_sound:
  assumes run: "verifyExactCandidate E cid client tests build claim s = (Inr out, s')"
    and pass: "vo_result out = V_PASS"
  shows "\<exists>gh c sha branch pr num n1 n2 n3 n4 rs comb. client = Some gh \<and>
     find_row c_candidate_id (candidates (db s)) cid = Some c \<and>
     c_commit_sha c = Some sha \<and> is_commit_sha sha \<and> c_branch c = Some branch \<and>
     gh_getCommit gh n1 sha = Inr (Some sha) \<and> gh_getPullRequest gh n2 num = Inr pr \<and>
     pq_head_sha pr = Some sha \<and> pq_head_ref pr = Some branch \<and>
     gh_getCheckRuns gh n3 sha = Inr rs \<and> gh_getCombinedStatus gh n4 sha = Inr comb \<and>
     summarize_runs rs comb = (''completed'', Some ''success'') \<and>
     (\<forall>f. tests = Some f \<longrightarrow> (\<exists>n a t. f n a = Inr t \<and> opt_truthy (js_get t ''ok''))) \<and>
     (\<forall>f. build = Some f \<longrightarrow> (\<exists>n a t. f n a = Inr t \<and> opt_truthy (js_get t ''ok'')))"
  using assms by (rule verify_pass_facts)

section \<open>Verifying again revokes what came before\<close>

lemma updateTaskStatus_verifications:
  "updateTaskStatus E tid st s = (r, s') \<Longrightarrow> verifications (db s') = verifications (db s) \<and> candidates (db s') = candidates (db s)"
  by (cases r)
     (auto simp: updateTaskStatus_def getTask_def updateTask_def run_iff run_err now_def modify_db_def Let_def
       dest!: appendEvent_frame split: option.splits)

lemma updateReview_frame:
  "updateReview rid f s = (r, s') \<Longrightarrow> verifications (db s') = verifications (db s) \<and> candidates (db s') = candidates (db s)"
  by (cases r) (auto simp: updateReview_def getReview_def run_iff run_err modify_db_def split: option.splits)

lemma updateCandidate_frame:
  "updateCandidate cid f s = (r, s') \<Longrightarrow> verifications (db s') = verifications (db s)"
  by (cases r) (auto simp: updateCandidate_def getCandidate_def run_iff run_err modify_db_def split: option.splits)

lemma ver_frame:
  "keeps (\<lambda>s. P (verifications (db s))) (appendEvent E tid rid ty ref p)"
  "keeps (\<lambda>s. P (verifications (db s))) (updateTaskStatus E tid' st)"
  "keeps (\<lambda>s. P (verifications (db s))) (now E)" "keeps (\<lambda>s. P (verifications (db s))) (newId E pre)"
  "keeps (\<lambda>s. P (verifications (db s))) (call_out g x)"
  "keeps (\<lambda>s. P (verifications (db s))) (updateCandidate cid h)"
  "keeps (\<lambda>s. P (verifications (db s))) (updateReview rvid k)"
  subgoal by (rule keepsI) (metis appendEvent_frame)
  subgoal by (rule keepsI) (metis updateTaskStatus_verifications)
  subgoal by (simp add: keeps_now)
  subgoal by (simp add: keeps_newId)
  subgoal by (simp add: call_out_keeps)
  subgoal by (rule keepsI) (metis updateCandidate_frame)
  subgoal by (rule keepsI) (metis updateReview_frame)
  done

lemma ver_frame_stages:
  "keeps (\<lambda>s. P (verifications (db s))) (require_live_run E cid c)"
  "keeps (\<lambda>s. P (verifications (db s))) (invalidateReview E rv reason)"
  "keeps (\<lambda>s. P (verifications (db s))) (invalidatePriorReviews E cid reason)"
  "keeps (\<lambda>s. P (verifications (db s))) (gather_checks E client tests build claim cid c sha)"
  unfolding require_live_run_def invalidatePriorReviews_def invalidateReview_def gather_checks_def run_check_def
    landing_part_def landing_fetch_def landing_pr_def record_landing_def summarizeCi_def
  by (intro keeps_rules ver_frame)+

text \<open>The verifications of a candidate that still stand, by identifier.\<close>

definition standing :: "string \<Rightarrow> verification list \<Rightarrow> string set" where
  "standing cid vs = {v_verification_id v | v. v \<in> set vs \<and> v_candidate_id v = cid \<and> v_invalidated_at v = None}"

lemma invalidateVerification_standing:
  assumes "invalidateVerification E vid reason s = (Inr u, s')" and "integrity s"
  shows "standing cid (verifications (db s')) \<subseteq> standing cid (verifications (db s)) - {vid}"
proof -
  have ids: "distinct (map v_verification_id (verifications (db s)))" using assms(2) by (simp add: integrity_def wf_db_def)
  obtain v where v: "find_row v_verification_id (verifications (db s)) vid = Some v"
    using assms(1) by (auto simp: invalidateVerification_def getVerification_def run_iff split: option.splits)
  show ?thesis
  proof (cases "v_invalidated_at v = None")
    case False
    with assms(1) v have "s' = s" by (simp add: invalidateVerification_def getVerification_def run_iff)
    moreover have "w = v" if "w \<in> set (verifications (db s))" "v_verification_id w = vid" for w
      using find_row_distinct [OF ids that(1)] that v by simp
    ultimately show ?thesis using False by (auto simp: standing_def)
  next
    case True
    with assms(1) v obtain f s1 s2 where up: "updateVerification vid f s1 = (Inr u, s2)" and s1: "db s1 = db s"
      and s': "verifications (db s') = verifications (db s2)" and f: "\<And>x. v_invalidated_at (f x) \<noteq> None"
      by (auto simp: invalidateVerification_def getVerification_def getCandidate_def run_iff now_def
          dest!: appendEvent_frame)
    have rows: "verifications (db s2) = update_row v_verification_id vid (verification_written f) (verifications (db s))"
      using up s1 by (auto simp: updateVerification_def getVerification_def run_iff modify_db_def split: option.splits)
    have f': "(v_invalidated_at (f x) = None) = False" for x using f by simp
    have "\<exists>v \<in> set (verifications (db s)). w = v \<and> v_verification_id v \<noteq> vid"
      if "w \<in> set (verifications (db s2))" "v_invalidated_at w = None" for w
      using that rows by (auto simp: f' set_update_row verification_written_def Let_def split: if_splits)
    then show ?thesis unfolding s' standing_def by blast
  qed
qed

lemma invalidate_all_standing:
  assumes "each (\<lambda>v. if v_invalidated_at v \<noteq> None then ret ()
        else thn (invalidateVerification E (v_verification_id v) reason) (ret ())) prior s = (Inr (), s')"
    and "integrity s" and "standing cid (verifications (db s)) \<subseteq> standing cid prior"
  shows "standing cid (verifications (db s')) = {}"
  using assms
proof (induction prior arbitrary: s)
  case Nil
  then show ?case by (auto simp: ret_def standing_def)
next
  case (Cons p ps)
  show ?case
  proof (cases "v_invalidated_at p = None")
    case False
    then have "standing cid (p # ps) = standing cid ps" by (auto simp: standing_def)
    with Cons False show ?thesis by (auto simp: thn_def bnd_ret)
  next
    case True
    with Cons.prems(1) obtain u s1 where iv: "invalidateVerification E (v_verification_id p) reason s = (Inr u, s1)"
      and rest: "each (\<lambda>v. if v_invalidated_at v \<noteq> None then ret ()
        else thn (invalidateVerification E (v_verification_id v) reason) (ret ())) ps s1 = (Inr (), s')"
      by (auto simp: run_iff)
    have i1: "integrity s1" by (rule keepsD [OF integ.invalidateVerification_I Cons.prems(2) iv])
    have "standing cid (p # ps) \<subseteq> insert (v_verification_id p) (standing cid ps)" by (auto simp: standing_def)
    with invalidateVerification_standing [OF iv Cons.prems(2), of cid] Cons.prems(3)
    have "standing cid (verifications (db s1)) \<subseteq> standing cid ps" by blast
    from Cons.IH [OF rest i1 this] show ?thesis .
  qed
qed

lemma invalidatePriorVerifications_clears:
  assumes "invalidatePriorVerifications E cid reason s = (Inr (), s')" and "integrity s"
  shows "standing cid (verifications (db s')) = {}"
proof -
  from assms(1) have run: "each (\<lambda>v. if v_invalidated_at v \<noteq> None then ret ()
        else thn (invalidateVerification E (v_verification_id v) reason) (ret ()))
        (sort_key v_created_at (filter (\<lambda>v. v_candidate_id v = cid) (verifications (db s)))) s = (Inr (), s')"
    by (simp add: invalidatePriorVerifications_def listVerificationsForCandidate_def run_iff)
  show ?thesis by (rule invalidate_all_standing [OF run assms(2)]) (auto simp: standing_def)
qed

lemma record_verification_rows:
  assumes "record_verification E claim cid c sha g s = (Inr out, s')"
  shows "verifications (db s') = verifications (db s) @ [vo_verification out] \<and>
    v_result (vo_verification out) = vo_result out \<and> v_candidate_id (vo_verification out) = cid \<and>
    v_commit_sha (vo_verification out) = sha \<and> v_invalidated_at (vo_verification out) = None"
proof -
  obtain cs landing res fc where g: "g = (cs, landing)" "verification_decision cs = (res, fc)" by (metis surj_pair)
  from assms obtain x ver sI sJ where ins: "insertVerification x sI = (Inr ver, sJ)" and sI: "db sI = db s"
    and x: "v_result x = res" "v_candidate_id x = cid" "v_commit_sha x = sha" "v_invalidated_at x = None"
    and rest: "thn (updateCandidate cid (\<lambda>r. r\<lparr>c_status := next_candidate_status res,
             c_verification_ref := Some (v_verification_id ver)\<rparr>))
     (thn (if res = V_PASS then
             bnd (getTask (c_task_id c)) (\<lambda>t.
             if (\<exists>x \<in> set_option t. t_status x \<noteq> T_ACCEPTED)
             then thn (updateTaskStatus E (c_task_id c) ''VERIFIED'') (ret ()) else ret ())
           else ret ())
     (thn (appendEvent E (Some (c_task_id c)) (Some (c_factory_run_id c)) VERIFICATION_RECORDED None
             (JObj [(''verification_id'', JStr (v_verification_id ver)), (''candidate_id'', JStr cid), (''commit_sha'', JStr sha),
                    (''result'', JStr (verification_result_name res)),
                    (''worker_claim_ignored_for_authority'', JBool True), (''landing_required'', JBool True)]))
     (bnd (getCandidate cid) (\<lambda>c'.
      ret \<lparr>vo_result = res, vo_verification = ver, vo_candidate = c', vo_ci = map_option snd landing,
           vo_landing = map_option fst landing\<rparr>)))) sJ = (Inr out, s')" (is "?rest sJ = _")
    unfolding record_verification_def g Let_def prod.case bnd_Inr newId_def now_def
    by (auto simp del: append.simps)
  have "keeps (\<lambda>s. verifications (db s) = verifications (db sJ)) ?rest"
    by (intro keeps_rules ver_frame)
  from keepsD [OF this refl rest] have "verifications (db s') = verifications (db sJ)" .
  moreover have "vo_result out = res \<and> vo_verification out = ver"
    using rest by (auto simp: run_iff)
  moreover have "verifications (db sJ) = verifications (db sI) @ [ver] \<and> ver = x\<lparr>v_checks := durableJson (v_checks x)\<rparr>"
    using ins by (auto simp: insertVerification_def run_iff modify_db_def Let_def)
  ultimately show ?thesis using sI x by simp
qed

text \<open>
  Verifying a candidate again revokes what came before: when the call returns, every other
  verification of that candidate is invalidated, so the one just recorded is the only one that
  still stands; it is recorded for the candidate's exact commit with the result returned.
\<close>

theorem verify_revokes_prior:
  assumes run: "verifyExactCandidate E cid client tests build claim s = (Inr out, s')" and i: "integrity s"
  shows "standing cid (verifications (db s')) = {v_verification_id (vo_verification out)} \<and>
     vo_verification out \<in> set (verifications (db s')) \<and> v_result (vo_verification out) = vo_result out \<and>
     (\<exists>c. find_row c_candidate_id (candidates (db s)) cid = Some c \<and>
          c_commit_sha c = Some (v_commit_sha (vo_verification out)))"
proof -
  from verifyExactCandidate_stages [OF run] obtain c sha g sA sB s1 s2 where
    c: "find_row c_candidate_id (candidates (db s)) cid = Some c" "c_commit_sha c = Some sha"
    and live: "require_live_run E cid c s = (Inr (), sA)"
    and pv: "invalidatePriorVerifications E cid ''re-verification_or_landing_evidence_change'' sA = (Inr (), sB)"
    and pr: "invalidatePriorReviews E cid ''re-verification_or_landing_evidence_change'' sB = (Inr (), s1)"
    and ga: "gather_checks E client tests build claim cid c sha s1 = (Inr g, s2)"
    and re: "record_verification E claim cid c sha g s2 = (Inr out, s')" by blast
  have iA: "integrity sA" by (rule keepsD [OF integ.require_live_run_I i live])
  have "verifications (db s2) = verifications (db s1)"
    by (rule keepsD [OF ver_frame_stages(4) refl ga])
  also have "\<dots> = verifications (db sB)"
    by (rule keepsD [OF ver_frame_stages(3) refl pr])
  finally have "standing cid (verifications (db s2)) = {}"
    using invalidatePriorVerifications_clears [OF pv iA] by simp
  with record_verification_rows [OF re] c show ?thesis
    by (auto simp: standing_def)
qed

section \<open>A verification that passes\<close>

lemma VERIFIED_parses [simp]: "assertTaskStatus ''VERIFIED'' = Inr T_VERIFIED"
  using assertTaskStatus_name [of T_VERIFIED] by simp

lemma record_verification_pass:
  assumes pass: "fst (verification_decision cs) = V_PASS" and fresh: "fresh_env E s"
    and c: "find_row c_candidate_id (candidates (db s)) cid = Some c0"
    and t: "find_row t_task_id (tasks (db s)) (c_task_id c) = Some t" "t_status t \<noteq> T_DRAFT"
      "t_status t \<noteq> T_ACCEPTED" "verifyTaskHash E (Some t) = Inr ()" "task_checks t"
    and free: "logical_work_free (db s) (c_task_id c) (t_logical_work_id t)"
    and vid: "''ver_'' @ env_uuid E (ticks s) \<notin> v_verification_id ` set (verifications (db s))"
  shows "\<exists>out s'. record_verification E claim cid c sha (cs, landing) s = (Inr out, s') \<and> vo_result out = V_PASS"
proof -
  obtain fc where dec: "verification_decision cs = (V_PASS, fc)" using pass by (metis prod.collapse)
  define x where "x = \<lparr>v_verification_id = ''ver_'' @ env_uuid E (ticks s), v_candidate_id = cid, v_commit_sha = sha, v_result = V_PASS,
             v_checks = JArr (map check_js (cs @ snapshot_check V_PASS landing)), v_worker_claim = claim,
             v_failure_class = fc, v_created_at = env_clock E (Suc (ticks s)), v_invalidated_at = None, v_invalidation_reason = None\<rparr>"
  let ?s0 = "s\<lparr>ticks := Suc (Suc (ticks s))\<rparr>"
  have "cid \<in> c_candidate_id ` set (candidates (db s))" using find_row_Some [OF c] by force
  then obtain ver s1 where ins: "insertVerification x ?s0 = (Inr ver, s1)"
    and s1: "candidates (db s1) = candidates (db s)" "tasks (db s1) = tasks (db s)" "events (db s1) = events (db s)" "ticks s1 = ticks s + 2"
    using vid by (simp add: insertVerification_def act_defs modify_db_def Let_def x_def)
  let ?f = "\<lambda>r. r\<lparr>c_status := next_candidate_status V_PASS, c_verification_ref := Some (v_verification_id ver)\<rparr>"
  obtain c1 s2 where upd: "updateCandidate cid ?f s1 = (Inr c1, s2)"
    and s2: "tasks (db s2) = tasks (db s)" "events (db s2) = events (db s)" "ticks s2 = ticks s + 2"
    using c s1 by (simp add: updateCandidate_def getCandidate_def act_defs modify_db_def)
  have fresh2: "fresh_env E s2" using fresh s2 by (auto intro: fresh_env_mono)
  obtain t' s3 where st: "updateTaskStatus E (c_task_id c) ''VERIFIED'' s2 = (Inr t', s3)" and fresh3: "fresh_env E s3"
    using updateTaskStatus_ok [of s2 "c_task_id c" t E "''VERIFIED''" T_VERIFIED] t s2 fresh2 free
    by (auto simp: logical_work_free_def)
  have "record_verification E claim cid c sha (cs, landing) s = (Inr \<lparr>vo_result = V_PASS, vo_verification = ver,
      vo_candidate = find_row c_candidate_id (candidates (db s3)) cid, vo_ci = map_option snd landing,
      vo_landing = map_option fst landing\<rparr>, snd (appendEvent E (Some (c_task_id c)) (Some (c_factory_run_id c)) VERIFICATION_RECORDED None
             (JObj [(''verification_id'', JStr (v_verification_id ver)), (''candidate_id'', JStr cid), (''commit_sha'', JStr sha),
                    (''result'', JStr (verification_result_name V_PASS)),
                    (''worker_claim_ignored_for_authority'', JBool True), (''landing_required'', JBool True)]) s3))"
    using ins upd st appendEvent_ok [OF fresh3] t s2
    by (simp add: record_verification_def dec bnd_def thn_def newId_def now_def x_def getTask_def gets_def ret_def getCandidate_def)
  then show ?thesis by auto
qed

definition demo_sha :: string where
  "demo_sha = replicate 40 CHR ''a''"

definition demo_candidate :: candidate where
  "demo_candidate = \<lparr>c_candidate_id = ''C1'', c_task_id = ''T1'', c_factory_run_id = ''R1'',
     c_provider_run_id = Some ''p1'', c_branch = Some ''br'', c_commit_sha = Some demo_sha, c_pr_number = None,
     c_pr_url = None, c_pr_ref = None, c_verification_ref = None, c_review_ref = None, c_ci_status = None,
     c_ci_conclusion = None, c_ci_ref = None, c_evidence_at = None, c_status = C_PROPOSED, c_created_at = 5\<rparr>"

definition demo_run :: run where
  "demo_run = (pending_run ''R1'' ''T1'' ''cursor'' (Some ''p1'') (Some ''ag1'') 1)\<lparr>r_status := R_SUCCEEDED\<rparr>"

definition demo_built :: core where
  "demo_built = demo_core\<lparr>db := (db demo_core)\<lparr>runs := [demo_run], candidates := [demo_candidate]\<rparr>\<rparr>"

definition demo_gh :: github_client where
  "demo_gh = \<lparr>gh_getCommit = (\<lambda>n sha. Inr (Some sha)), gh_findPullRequestsForHead = (\<lambda>n b. Inr [7]),
     gh_getPullRequest = (\<lambda>n k. Inr \<lparr>pq_number = k, pq_html_url = None, pq_head_ref = Some ''br'', pq_head_sha = Some demo_sha\<rparr>),
     gh_getCheckRuns = (\<lambda>n sha. Inr [\<lparr>cr_id = JNum 1, cr_name = JStr ''ci'', cr_status = JStr ''completed'', cr_conclusion = JStr ''success'',
       cr_html_url = JNull, cr_head_sha = None\<rparr>]),
     gh_getCombinedStatus = (\<lambda>n sha. Inr None), gh_getBranchHeadSha = (\<lambda>n b. Inr demo_sha)\<rparr>"

lemma demo_built_facts [simp]:
  "tasks (db demo_built) = [demo_task]" "runs (db demo_built) = [demo_run]" "candidates (db demo_built) = [demo_candidate]"
  "verifications (db demo_built) = []" "reviews (db demo_built) = []" "approvals (db demo_built) = []"
  "events (db demo_built) = []" "leases (db demo_built) = []" "current_run demo_built = None" "ticks demo_built = 0"
  by (simp_all add: demo_built_def)

lemma demo_sha_ok [simp]: "is_commit_sha demo_sha" "demo_sha \<noteq> []"
  by (simp_all add: demo_sha_def is_commit_sha_def list_all_iff is_hex_lower_def)

lemma demo_built_integrity [simp]: "integrity demo_built"
  by (simp add: integrity_def wf_db_def demo_run_def demo_candidate_def pending_run_def)

lemma demo_fetch:
  "\<exists>pr ci s1. landing_fetch demo_env demo_gh demo_candidate demo_sha demo_built = (Inr (pr, ci), s1) \<and>
     ci_ok ci = Some True \<and> db s1 = db demo_built"
  by (simp add: landing_fetch_def landing_pr_def act_defs call_out_def demo_gh_def demo_candidate_def summarizeCi_def now_def
      summarize_runs_def run_completed_def run_failed_def run_passed_def ci_ok_def)

lemma demo_gather:
  "\<exists>cs landing s1. gather_checks demo_env (Some demo_gh) None None claim ''C1'' demo_candidate demo_sha demo_built = (Inr (cs, landing), s1) \<and>
     fst (verification_decision cs) = V_PASS \<and> tasks (db s1) = tasks (db demo_built) \<and> events (db s1) = [] \<and> verifications (db s1) = [] \<and>
     find_row c_candidate_id (candidates (db s1)) ''C1'' \<noteq> None"
proof -
  obtain pr ci s1 where f: "landing_fetch demo_env demo_gh demo_candidate demo_sha demo_built = (Inr (pr, ci), s1)"
    and ci: "ci_ok ci = Some True" and s1: "db s1 = db demo_built" using demo_fetch by blast
  have "fst (verification_decision (claim_check claim @ landing_checks demo_sha demo_candidate pr ci)) = V_PASS"
    using ci unfolding decision_claim decision_pass by (simp add: landing_checks_def passes_def)
  then show ?thesis
    using f s1
    by (simp add: gather_checks_def getTask_def run_check_def landing_part_def act_defs record_landing_def updateCandidate_def
        getCandidate_def modify_db_def) (simp add: demo_candidate_def update_row_def candidate_written_def)
qed

lemma demo_verify:
  "\<exists>out s'. verifyExactCandidate demo_env ''C1'' (Some demo_gh) None None claim demo_built = (Inr out, s') \<and> vo_result out = V_PASS"
proof -
  obtain cs landing s1 where g: "gather_checks demo_env (Some demo_gh) None None claim ''C1'' demo_candidate demo_sha demo_built = (Inr (cs, landing), s1)"
    and dec: "fst (verification_decision cs) = V_PASS"
    and s1: "tasks (db s1) = tasks (db demo_built)" "events (db s1) = []" "verifications (db s1) = []"
    and c: "find_row c_candidate_id (candidates (db s1)) ''C1'' \<noteq> None" using demo_gather by blast
  then obtain c0 where c0: "find_row c_candidate_id (candidates (db s1)) ''C1'' = Some c0" by blast
  have fresh: "fresh_env demo_env s1" using s1 by simp
  have tid: "c_task_id demo_candidate = ''T1''" by (simp add: demo_candidate_def)
  have "\<exists>out s'. record_verification demo_env claim ''C1'' demo_candidate demo_sha (cs, landing) s1 = (Inr out, s') \<and> vo_result out = V_PASS"
    by (rule record_verification_pass [OF dec fresh c0, of _ demo_task]) (use s1 in \<open>simp_all add: logical_work_free_def tid\<close>)
  moreover have "verifyExactCandidate demo_env ''C1'' (Some demo_gh) None None claim demo_built =
      record_verification demo_env claim ''C1'' demo_candidate demo_sha (cs, landing) s1"
    using g
    by (simp add: verifyExactCandidate_def eligible_candidate_def require_live_run_def invalidatePriorVerifications_def
        invalidatePriorReviews_def getCandidate_def getRun_def listVerificationsForCandidate_def listReviewsForCandidate_def
        act_defs demo_run_def sticky_def pending_run_def assertCommitSha_def)
       (simp add: demo_candidate_def assertCommitSha_def)
  ultimately show ?thesis by simp
qed

theorem verify_pass_sound_witness:
  "\<exists>out s' sha. verifyExactCandidate demo_env ''C1'' (Some demo_gh) None None (Some ''all done'') demo_built = (Inr out, s') \<and>
     vo_result out = V_PASS \<and> is_commit_sha sha \<and> gh_getCommit demo_gh 0 sha = Inr (Some sha)"
proof -
  obtain out s' where run: "verifyExactCandidate demo_env ''C1'' (Some demo_gh) None None (Some ''all done'') demo_built = (Inr out, s')"
    and pass: "vo_result out = V_PASS" using demo_verify by blast
  from verify_pass_sound [OF run pass] obtain sha where "is_commit_sha sha" by blast
  with run pass show ?thesis by (auto simp: demo_gh_def)
qed

theorem verify_revokes_prior_witness:
  "\<exists>out s'. verifyExactCandidate demo_env ''C1'' (Some demo_gh) None None None demo_built = (Inr out, s') \<and>
     standing ''C1'' (verifications (db s')) = {v_verification_id (vo_verification out)}"
proof -
  obtain out s' where run: "verifyExactCandidate demo_env ''C1'' (Some demo_gh) None None None demo_built = (Inr out, s')"
    using demo_verify by blast
  from verify_revokes_prior [OF run demo_built_integrity] run show ?thesis by blast
qed

end
