(* ===== verification/Retry.thy ===== *)
theory Retry
  imports VerificationProps
begin

text \<open>
  Bounded repair (\<open>src/builder/retry.js\<close>): the retry policy of a task and
  \<open>beginRepairAttempt\<close>, which closes the task's active run and mints a fresh one, or stops the
  task. Shown: no repair is started for a non-retryable failure or at the attempt cap, so the
  number of runs of a task never passes its locked maximum; a repair that starts has a fresh
  pending run that is the current one. Also shown, as a finding: an active run of another task
  is left active beside the new one.
\<close>

section \<open>Policy\<close>

record retry_policy =
  rp_max_attempts :: int
  rp_max_runtime_ms :: int
  rp_cost_supported :: bool
  rp_cost_status :: string

definition resolveRetryPolicy :: "task \<Rightarrow> retry_policy" where
  "resolveRetryPolicy t = \<lparr>rp_max_attempts = t_max_attempts t, rp_max_runtime_ms = t_max_runtime_ms t,
     rp_cost_supported = False,
     rp_cost_status = (if t_cost_budget_status t = [] then ''UNKNOWN'' else t_cost_budget_status t)\<rparr>"

text \<open>The policy of a task that is not there is the default one.\<close>

definition getRetryPolicy :: "string \<Rightarrow> retry_policy cact" where
  "getRetryPolicy tid = bnd (getTask tid) (\<lambda>found. ret (case found of
      Some t \<Rightarrow> resolveRetryPolicy t
    | None \<Rightarrow> \<lparr>rp_max_attempts = 2, rp_max_runtime_ms = 30 * 60 * 1000, rp_cost_supported = False, rp_cost_status = ''UNKNOWN''\<rparr>))"

definition NON_RETRYABLE_FAILURE_CLASSES :: "failure_class list" where
  "NON_RETRYABLE_FAILURE_CLASSES = [F_ACCEPTANCE_TAMPER, F_POLICY_VIOLATION]"

definition isRetryableFailureClass :: "failure_class option \<Rightarrow> bool" where
  "isRetryableFailureClass fc = (case fc of None \<Rightarrow> True | Some f \<Rightarrow> f \<notin> set NON_RETRYABLE_FAILURE_CLASSES)"

text \<open>A run that has not ended counts up to the present; a run that has not started counts nothing.\<close>

definition run_elapsed :: "env \<Rightarrow> run \<Rightarrow> nat cact" where
  "run_elapsed E r = (case r_started_at r of
      None \<Rightarrow> ret 0
    | Some start \<Rightarrow>
       bnd (case r_ended_at r of Some e \<Rightarrow> ret e | None \<Rightarrow> now E) (\<lambda>end'.
       ret (if start \<le> end' then end' - start else 0)))"

definition elapsedRuntimeMsFromRuns :: "env \<Rightarrow> run list \<Rightarrow> nat cact" where
  "elapsedRuntimeMsFromRuns E rs = bnd (collect (run_elapsed E) rs) (\<lambda>ns. ret (sum_list ns))"

definition countAttempts :: "string \<Rightarrow> nat cact" where
  "countAttempts tid = bnd (listRunsForTask tid) (\<lambda>rs. ret (length rs))"

definition elapsedRuntimeMs :: "env \<Rightarrow> string \<Rightarrow> nat cact" where
  "elapsedRuntimeMs E tid = bnd (listRunsForTask tid) (elapsedRuntimeMsFromRuns E)"

section \<open>Beginning a repair\<close>

datatype repair_result =
    RepairStopped task task_status failure_class string
  | RepairStarted run "task option" nat

definition fc_js :: "failure_class option \<Rightarrow> js" where
  "fc_js fc = js_of_opt (\<lambda>f. JStr (failure_class_name f)) fc"

definition stop_repair ::
  "env \<Rightarrow> string \<Rightarrow> task_status \<Rightarrow> event_type \<Rightarrow> js \<Rightarrow> failure_class \<Rightarrow> string \<Rightarrow> repair_result cact" where
  "stop_repair E tid st ty payload fc reason =
     bnd (updateTaskStatus E tid (task_status_name st)) (\<lambda>updated.
     thn (appendEvent E (Some tid) None ty None payload)
         (ret (RepairStopped updated st fc reason)))"

definition close_current_run :: "env \<Rightarrow> string \<Rightarrow> failure_class \<Rightarrow> string \<Rightarrow> unit cact" where
  "close_current_run E tid fc reason =
     bnd getCurrentCodingRun (\<lambda>current. case current of
       None \<Rightarrow> ret ()
     | Some cur \<Rightarrow>
       if r_task_id cur \<noteq> tid then ret ()
       else
         bnd (now E) (\<lambda>ts.
         thn (updateRun (r_factory_run_id cur) (\<lambda>r. r\<lparr>r_status := R_FAILED, r_ended_at := Some ts,
                r_failure_class := Some fc,
                r_evidence := Some (JObj (obj_spread (obj_entries (r_evidence cur)) [(''repair_reason'', JStr reason)]))\<rparr>))
        (thn (clear_current_if (r_factory_run_id cur))
             (appendEvent E (Some tid) (Some (r_factory_run_id cur)) RUN_STATUS_CHANGED None
                (JObj [(''to'', JStr ''FAILED''), (''failure_class'', JStr (failure_class_name fc)), (''reason'', JStr reason)])))))"

definition start_repair_tail ::
  "env \<Rightarrow> task \<Rightarrow> string \<Rightarrow> failure_class \<Rightarrow> string \<Rightarrow> nat \<Rightarrow> run \<Rightarrow> unit cact" where
  "start_repair_tail E task tid fc reason attempts fresh =
     thn (if t_status task \<noteq> T_RUNNING then thn (updateTaskStatus E tid ''RUNNING'') (ret ()) else ret ())
         (appendEvent E (Some tid) (Some (r_factory_run_id fresh)) RETRY_STARTED None
            (JObj [(''previous_attempts'', JNum (int attempts)), (''next_attempt'', JNum (r_attempt fresh)),
                   (''failure_class'', JStr (failure_class_name fc)), (''reason'', JStr reason),
                   (''cost_budget'', JObj [(''supported'', JBool False),
                      (''status'', JStr (rp_cost_status (resolveRetryPolicy task)))])]))"

definition start_repair ::
  "env \<Rightarrow> task \<Rightarrow> string \<Rightarrow> failure_class \<Rightarrow> string \<Rightarrow> string \<Rightarrow> nat \<Rightarrow> repair_result cact" where
  "start_repair E task tid fc reason provider attempts =
     thn (close_current_run E tid fc reason)
    (bnd (createRun E tid provider None None None) (\<lambda>fresh.
     thn (set_current (Some (r_factory_run_id fresh)))
    (thn (start_repair_tail E task tid fc reason attempts fresh)
    (bnd (getTask tid) (\<lambda>t. ret (RepairStarted fresh t attempts))))))"

definition beginRepairAttempt ::
  "env \<Rightarrow> string \<Rightarrow> failure_class \<Rightarrow> string \<Rightarrow> string \<Rightarrow> repair_result cact" where
  "beginRepairAttempt E tid fc reason provider =
     bnd (getTask tid) (\<lambda>found. case found of
       None \<Rightarrow> throw (builderCoreError (''unknown task_id: '' @ tid) ''UNKNOWN_TASK'')
     | Some task \<Rightarrow>
       let policy = resolveRetryPolicy task in
       if \<not> isRetryableFailureClass (Some fc) then
         stop_repair E tid T_BLOCKED RETRY_DENIED
           (JObj [(''reason'', JStr ''non_retryable_failure_class''), (''failure_class'', JStr (failure_class_name fc))])
           fc ''non_retryable_failure_class''
       else
         bnd (listRunsForTask tid) (\<lambda>rs.
         let attempts = length rs in
         if rp_max_attempts policy \<le> int attempts then
           stop_repair E tid T_NEEDS_OWNER RETRY_EXHAUSTED
             (JObj [(''attempts'', JNum (int attempts)), (''max_attempts'', JNum (rp_max_attempts policy)),
                    (''failure_class'', JStr (failure_class_name fc)), (''reason'', JStr ''attempt_cap'')])
             F_ATTEMPT_CAP ''attempt_cap''
         else
           bnd (elapsedRuntimeMsFromRuns E rs) (\<lambda>runtimeMs.
           if rp_max_runtime_ms policy \<le> int runtimeMs then
             stop_repair E tid T_BLOCKED RETRY_EXHAUSTED
               (JObj [(''runtime_ms'', JNum (int runtimeMs)), (''max_runtime_ms'', JNum (rp_max_runtime_ms policy)),
                      (''failure_class'', JStr ''TIMEOUT''), (''reason'', JStr ''runtime_cap'')])
               F_TIMEOUT ''runtime_cap''
           else start_repair E task tid fc reason provider attempts)))"

context core_frame
begin

lemma elapsed_I [keeps_rules]: "keeps I (elapsedRuntimeMsFromRuns E rs)"
  unfolding elapsedRuntimeMsFromRuns_def run_elapsed_def by (intro keeps_rules)

lemma stop_repair_I [keeps_rules]: "keeps I (stop_repair E tid st ty p fc r)"
  unfolding stop_repair_def by (intro keeps_rules)

lemma close_current_run_I [keeps_rules]: "keeps I (close_current_run E tid fc r)"
  unfolding close_current_run_def by (intro keeps_rules)

lemma start_repair_tail_I [keeps_rules]: "keeps I (start_repair_tail E t tid fc r n q)"
  unfolding start_repair_tail_def by (intro keeps_rules)

end

context core_invariant
begin

lemma start_repair_I [keeps_rules]: "keeps I (start_repair E t tid fc r p n)"
  unfolding start_repair_def by (intro keeps_rules)

lemma beginRepairAttempt_I [keeps_rules]: "keeps I (beginRepairAttempt E tid fc r p)"
  unfolding beginRepairAttempt_def Let_def by (intro keeps_rules)

end

section \<open>The number of runs of a task\<close>

definition run_count :: "string \<Rightarrow> run list \<Rightarrow> nat" where
  "run_count tid rs = length (filter (\<lambda>r. r_task_id r = tid) rs)"

lemma run_count_update:
  "(\<And>r. r_task_id (f r) = r_task_id r) \<Longrightarrow> run_count tid (update_row key k f rs) = run_count tid rs"
  by (induction rs) (auto simp: run_count_def update_row_def)

lemma updateRun_count: "keeps (\<lambda>s. run_count tid (runs (db s)) \<le> n) (updateRun rid f)"
  by (rule keepsI) (auto dest!: updateRun_runs simp: run_count_update)

lemma elapsed_runs: "keeps (\<lambda>s. P (runs (db s))) (elapsedRuntimeMsFromRuns E rs)"
  unfolding elapsedRuntimeMsFromRuns_def run_elapsed_def by (intro keeps_rules runs_frame)

lemma stop_repair_runs: "keeps (\<lambda>s. P (runs (db s))) (stop_repair E tid st ty p fc r)"
  unfolding stop_repair_def by (intro keeps_rules runs_frame)

lemma start_repair_tail_runs: "keeps (\<lambda>s. P (runs (db s))) (start_repair_tail E t tid fc r n q)"
  unfolding start_repair_tail_def by (intro keeps_rules runs_frame)

lemma close_current_run_count: "keeps (\<lambda>s. run_count tid (runs (db s)) \<le> n) (close_current_run E t' fc r)"
  unfolding close_current_run_def
  by (intro keeps_rules updateRun_count runs_frame [where P = "\<lambda>rs. run_count tid rs \<le> n"])

lemma createRun_count:
  "createRun E tid p prid paid a s = (r, s') \<Longrightarrow> run_count tid (runs (db s')) \<le> Suc (run_count tid (runs (db s)))"
  by (cases r) (auto dest!: createRun_Inl createRun_Inr simp: run_count_def)

lemma start_repair_count:
  "leads (\<lambda>s. run_count tid (runs (db s)) \<le> n) (start_repair E task tid fc r p k) (\<lambda>s. run_count tid (runs (db s)) \<le> Suc n)"
proof -
  have "leads (\<lambda>s. run_count tid (runs (db s)) \<le> n) (createRun E tid p None None None) (\<lambda>s. run_count tid (runs (db s)) \<le> Suc n)"
    unfolding leads_def by (metis createRun_count Suc_le_mono le_trans prod.collapse)
  then show ?thesis
    unfolding start_repair_def
    by (intro leads_thn close_current_run_count leads_bind keeps_rules
        start_repair_tail_runs [where P = "\<lambda>rs. run_count tid rs \<le> Suc n"] runs_frame [where P = "\<lambda>rs. run_count tid rs \<le> Suc n"]) auto
qed

lemma beginRepairAttempt_run:
  assumes t: "find_row t_task_id (tasks (db s)) tid = Some t"
    and run: "beginRepairAttempt E tid fc reason p s = (r, s')"
  shows "(\<exists>st ty pl f why. stop_repair E tid st ty pl f why s = (r, s')) \<or>
    (\<exists>s1. runs (db s1) = runs (db s) \<and> (integrity s \<longrightarrow> integrity s1) \<and> isRetryableFailureClass (Some fc) \<and>
       int (run_count tid (runs (db s))) < t_max_attempts t \<and>
       ((\<exists>st ty pl f why. stop_repair E tid st ty pl f why s1 = (r, s')) \<or>
        start_repair E t tid fc reason p (run_count tid (runs (db s))) s1 = (r, s')))"
proof (cases "isRetryableFailureClass (Some fc) \<and> int (run_count tid (runs (db s))) < t_max_attempts t")
  case False
  then consider "\<not> isRetryableFailureClass (Some fc)"
    | "isRetryableFailureClass (Some fc)" "t_max_attempts t \<le> int (length (filter (\<lambda>r. r_task_id r = tid) (runs (db s))))"
    unfolding run_count_def using not_less by blast
  then have "\<exists>st ty pl f why. stop_repair E tid st ty pl f why s = (r, s')"
  proof cases
    case 1
    with t run show ?thesis
      by (simp add: beginRepairAttempt_def getTask_def bnd_def gets_def Let_def) blast
  next
    case 2
    with t run show ?thesis
      by (simp add: beginRepairAttempt_def getTask_def listRunsForTask_def bnd_def gets_def resolveRetryPolicy_def Let_def) blast
  qed
  then show ?thesis ..
next
  case True
  let ?rs = "sort_key r_attempt (filter (\<lambda>r. r_task_id r = tid) (runs (db s)))"
  obtain x s1 where el: "elapsedRuntimeMsFromRuns E ?rs s = (x, s1)" by fastforce
  have s1: "runs (db s1) = runs (db s)" by (rule keepsD [OF elapsed_runs refl el])
  have s1': "integrity s \<longrightarrow> integrity s1" using keepsD [OF integ.elapsed_I _ el] by blast
  have el_ok: "\<exists>ns s'. collect (run_elapsed E) xs u = (Inr ns, s')" for xs u
  proof (induction xs arbitrary: u)
    case (Cons a xs)
    have "\<exists>n s'. run_elapsed E a u = (Inr n, s')"
      by (auto simp: run_elapsed_def act_defs now_def split: option.splits)
    then obtain n u' where "run_elapsed E a u = (Inr n, u')" by blast
    moreover obtain ns u'' where "collect (run_elapsed E) xs u' = (Inr ns, u'')" using Cons by blast
    ultimately show ?case by (simp add: bnd_def ret_def)
  qed (simp add: ret_def)
  from el_ok [of ?rs s] el obtain n where x: "x = Inr n"
    by (auto simp: elapsedRuntimeMsFromRuns_def bnd_def ret_def)
  have len: "length ?rs = run_count tid (runs (db s))" by (simp add: run_count_def)
  have "(\<exists>st ty pl f why. stop_repair E tid st ty pl f why s1 = (r, s')) \<or>
      start_repair E t tid fc reason p (length ?rs) s1 = (r, s')"
  proof (cases "t_max_runtime_ms t \<le> int n")
    case True
    with t run \<open>isRetryableFailureClass (Some fc) \<and> _\<close> el x show ?thesis
      by (simp add: beginRepairAttempt_def getTask_def listRunsForTask_def bnd_def gets_def resolveRetryPolicy_def run_count_def
          Let_def) (intro disjI1 exI)
  next
    case False
    with t run True el x show ?thesis
      by (simp add: beginRepairAttempt_def getTask_def listRunsForTask_def bnd_def gets_def resolveRetryPolicy_def run_count_def
          Let_def)
  qed
  then have "(\<exists>st ty pl f why. stop_repair E tid st ty pl f why s1 = (r, s')) \<or>
      start_repair E t tid fc reason p (run_count tid (runs (db s))) s1 = (r, s')"
    unfolding len .
  with True s1 s1' show ?thesis by blast
qed

lemma beginRepairAttempt_count:
  assumes t: "find_row t_task_id (tasks (db s)) tid = Some t"
    and run: "beginRepairAttempt E tid fc reason p s = (r, s')"
  shows "int (run_count tid (runs (db s'))) \<le> max (int (run_count tid (runs (db s)))) (t_max_attempts t) \<and>
    (\<not> isRetryableFailureClass (Some fc) \<longrightarrow> runs (db s') = runs (db s))"
  using beginRepairAttempt_run [OF t run]
proof (elim disjE exE conjE)
  fix st ty pl f why assume "stop_repair E tid st ty pl f why s = (r, s')"
  from keepsD [OF stop_repair_runs [where P = "\<lambda>rs. rs = runs (db s)"] refl this] show ?thesis by simp
next
  fix s1 st ty pl f why assume s1: "runs (db s1) = runs (db s)" and "stop_repair E tid st ty pl f why s1 = (r, s')"
  from keepsD [OF stop_repair_runs [where P = "\<lambda>rs. rs = runs (db s)"] s1 this(2)] show ?thesis by simp
next
  fix s1 assume s1: "runs (db s1) = runs (db s)" "int (run_count tid (runs (db s))) < t_max_attempts t"
    "isRetryableFailureClass (Some fc)" and st: "start_repair E t tid fc reason p (run_count tid (runs (db s))) s1 = (r, s')"
  from start_repair_count [of tid "run_count tid (runs (db s))" E t fc reason p "run_count tid (runs (db s))"] st s1(1)
  have "run_count tid (runs (db s')) \<le> Suc (run_count tid (runs (db s)))"
    by (auto simp: leads_def dest!: spec [of _ s1])
  with s1 show ?thesis by auto
qed

text \<open>
  C16. Repair is bounded: whatever failure a repair is asked for, and however it ends, the task
  has afterwards no more runs than it had before or than its locked maximum of attempts,
  whichever is larger; and a failure that is not retryable starts no run at all.
\<close>

theorem beginRepairAttempt_bounded:
  assumes t: "find_row t_task_id (tasks (db s)) tid = Some t"
    and run: "beginRepairAttempt E tid fc reason p s = (r, s')"
  shows "int (run_count tid (runs (db s'))) \<le> max (int (run_count tid (runs (db s)))) (t_max_attempts t) \<and>
    (\<not> isRetryableFailureClass (Some fc) \<longrightarrow> runs (db s') = runs (db s))"
  using assms by (rule beginRepairAttempt_count)

theorem beginRepairAttempt_bounded_witness:
  "\<exists>r s'. beginRepairAttempt demo_env ''T1'' F_ACCEPTANCE_TAMPER ''tests edited'' ''cursor'' demo_core = (r, s') \<and>
     int (run_count ''T1'' (runs (db s'))) \<le> 2 \<and> runs (db s') = []"
proof -
  obtain r s' where run: "beginRepairAttempt demo_env ''T1'' F_ACCEPTANCE_TAMPER ''tests edited'' ''cursor'' demo_core = (r, s')"
    by fastforce
  have "find_row t_task_id (tasks (db demo_core)) ''T1'' = Some demo_task" by simp
  from beginRepairAttempt_bounded [OF this run] run show ?thesis
    by (auto simp: run_count_def isRetryableFailureClass_def NON_RETRYABLE_FAILURE_CLASSES_def)
qed

section \<open>A repair that starts\<close>

lemma updateTaskStatus_current: "updateTaskStatus E tid st s = (r, s') \<Longrightarrow> current_run s' = current_run s"
  by (cases r)
     (auto simp: updateTaskStatus_def getTask_def updateTask_def run_iff run_err now_def modify_db_def Let_def
       dest!: appendEvent_frame split: option.splits)

lemma current_frame:
  "keeps (\<lambda>s. current_run s = c) (appendEvent E tid rid ty ref p)"
  "keeps (\<lambda>s. current_run s = c) (updateTaskStatus E tid' st)"
  subgoal by (rule keepsI) (metis appendEvent_frame)
  subgoal by (rule keepsI) (metis updateTaskStatus_current)
  done

lemma start_repair_tail_current: "keeps (\<lambda>s. current_run s = c) (start_repair_tail E t tid fc r n q)"
  unfolding start_repair_tail_def by (intro keeps_rules current_frame)

lemma getCurrentCodingRun_Some:
  "getCurrentCodingRun s = (Inr (Some c), s') \<Longrightarrow> c \<in> set (runs (db s)) \<and> is_active (r_status c)"
  by (auto simp: getCurrentCodingRun_def active_from_store_def run_iff set_current_def listActiveRuns_def getRun_def
        split: option.splits if_splits list.splits dest: find_row_Some dest!: arg_cong [where f = set])

text \<open>The runs of other tasks are left as they are, and the task's own active run is closed.\<close>

lemma close_current_run_effect:
  assumes i: "integrity s" and one: "single_active (runs (db s))" and run: "close_current_run E tid fc reason s = (Inr (), s')"
  shows "(\<forall>r \<in> set (runs (db s')). r_task_id r = tid \<longrightarrow> \<not> is_active (r_status r)) \<and>
    (\<forall>r \<in> set (runs (db s)). r_task_id r \<noteq> tid \<longrightarrow> r \<in> set (runs (db s'))) \<and>
    r_factory_run_id ` set (runs (db s')) = r_factory_run_id ` set (runs (db s))"
proof -
  have same: "r = q" if "r \<in> set (runs (db s))" "q \<in> set (runs (db s))" "r_factory_run_id r = r_factory_run_id q" for r q
    using i that by (auto simp: integrity_def wf_db_def distinct_map dest: inj_onD)
  have only: "r = q" if "r \<in> set (runs (db s))" "q \<in> set (runs (db s))" "is_active (r_status r)" "is_active (r_status q)" for r q
    using one same that unfolding single_active_def only_active_def by blast
  from run obtain cur s1 where cur: "getCurrentCodingRun s = (Inr cur, s1)"
    by (auto simp: close_current_run_def run_iff)
  have s1: "runs (db s1) = runs (db s)" by (rule keepsD [OF runs_frame(9) refl cur])
  show ?thesis
  proof (cases "\<exists>c. cur = Some c \<and> r_task_id c = tid")
    case False
    with run cur have "s' = s1" by (auto simp: close_current_run_def run_iff split: option.splits)
    moreover have "\<not> is_active (r_status r)" if r: "r \<in> set (runs (db s))" "r_task_id r = tid" for r
    proof (cases cur)
      case None
      with getCurrentCodingRun_None cur r show ?thesis by blast
    next
      case (Some c)
      with getCurrentCodingRun_Some cur have "c \<in> set (runs (db s))" "is_active (r_status c)" by auto
      with only [of r c] r False Some show ?thesis by blast
    qed
    ultimately show ?thesis using s1 by auto
  next
    case True
    then obtain c where c: "cur = Some c" "r_task_id c = tid" by blast
    let ?rid = "r_factory_run_id c"
    from run cur c obtain f q s2 s3 where up: "updateRun ?rid f s2 = (Inr q, s3)" and s2: "runs (db s2) = runs (db s1)"
      and f: "\<And>r. r_status (f r) = R_FAILED" and s': "runs (db s') = runs (db s3)"
      by (auto simp: close_current_run_def run_iff now_def clear_current_if_def dest!: appendEvent_frame)
    have rows: "runs (db s3) = update_row r_factory_run_id ?rid (run_written f) (runs (db s))"
      using up s1 s2 by (auto simp: updateRun_def getRun_def run_iff modify_db_def Let_def releaseControlLeaseByRun_def
          split: option.splits if_splits)
    have cc: "c \<in> set (runs (db s))" "is_active (r_status c)" using getCurrentCodingRun_Some cur c by auto
    have closed: "r_status (run_written f r) = R_FAILED" for r by (simp add: run_written_def Let_def f)
    have "\<not> is_active (r_status r)" if "r \<in> set (runs (db s'))" "r_task_id r = tid" for r
      using that only [OF _ cc(1) _ cc(2)] unfolding s' rows set_update_row by (auto simp: closed f split: if_splits)
    moreover have "r \<in> set (runs (db s'))" if "r \<in> set (runs (db s))" "r_task_id r \<noteq> tid" for r
      using that same [OF _ cc(1)] c(2) unfolding s' rows set_update_row by (force split: if_splits)
    moreover have "r_factory_run_id ` set (runs (db s')) = r_factory_run_id ` set (runs (db s))"
      unfolding s' rows set_update_row image_image by (rule image_cong) simp_all
    ultimately show ?thesis by blast
  qed
qed

lemma started_stages:
  assumes i: "integrity s" and run: "beginRepairAttempt E tid fc reason p s = (Inr (RepairStarted q t' n), s')"
  shows "\<exists>t s1 s2 s3. find_row t_task_id (tasks (db s)) tid = Some t \<and> runs (db s1) = runs (db s) \<and> integrity s1 \<and> int n < t_max_attempts t \<and>
    close_current_run E tid fc reason s1 = (Inr (), s2) \<and> createRun E tid p None None None s2 = (Inr q, s3) \<and>
    runs (db s') = runs (db s3) \<and> current_run s' = Some (r_factory_run_id q)"
proof -
  obtain t where t: "find_row t_task_id (tasks (db s)) tid = Some t"
    using run by (auto simp: beginRepairAttempt_def getTask_def run_iff split: option.splits)
  have no_stop: "stop_repair E tid st ty pl f why u \<noteq> (Inr (RepairStarted q t' n), s')" for st ty pl f why u
    by (auto simp: stop_repair_def run_iff)
  from beginRepairAttempt_run [OF t run] no_stop obtain s1 where
    s1: "runs (db s1) = runs (db s)" and cap: "int (run_count tid (runs (db s))) < t_max_attempts t"
    and start: "start_repair E t tid fc reason p (run_count tid (runs (db s))) s1 = (Inr (RepairStarted q t' n), s')"
    and i1: "integrity s1"
    using i by blast
  from start obtain s2 s3 where close: "close_current_run E tid fc reason s1 = (Inr (), s2)"
    and new: "createRun E tid p None None None s2 = (Inr q, s3)" and n: "n = run_count tid (runs (db s))"
    and rest: "start_repair_tail E t tid fc reason n q (s3\<lparr>current_run := Some (r_factory_run_id q)\<rparr>) = (Inr (), s')"
    by (auto simp: start_repair_def start_repair_tail_def run_iff set_current_def getTask_def simp del: append.simps)
  from keepsD [OF start_repair_tail_runs [of "\<lambda>rs. rs = runs (db s3)"] _ rest] have r': "runs (db s') = runs (db s3)" by simp
  from keepsD [OF start_repair_tail_current [of "Some (r_factory_run_id q)"] _ rest]
  have cur: "current_run s' = Some (r_factory_run_id q)" by simp
  show ?thesis using t s1 i1 cap n close new r' cur by blast
qed

lemma started_current:
  assumes "integrity s" "beginRepairAttempt E tid fc reason p s = (Inr (RepairStarted q t' n), s')"
  shows "find_row r_factory_run_id (runs (db s')) (r_factory_run_id q) = Some q \<and> r_task_id q = tid \<and> r_status q = R_PENDING \<and>
    r_factory_run_id q \<noteq> [] \<and> current_run s' = Some (r_factory_run_id q)"
  using started_stages [OF assms] by (auto dest!: createRun_Inr simp: find_row_append find_row_None [THEN iffD2])

text \<open>
  C36. When a repair starts, it starts afresh: the run returned is new, pending and the current
  one, it is the only active run of the task, and the attempts before it were below the locked
  maximum. The runs of other tasks are not touched: an active run of another task stays active
  beside the new one.
\<close>

theorem beginRepairAttempt_started:
  assumes i: "integrity s" and one: "single_active (runs (db s))"
    and run: "beginRepairAttempt E tid fc reason p s = (Inr (RepairStarted q t' n), s')"
  shows "q \<in> set (runs (db s')) \<and> r_task_id q = tid \<and> r_status q = R_PENDING \<and>
    r_factory_run_id q \<notin> r_factory_run_id ` set (runs (db s)) \<and> current_run s' = Some (r_factory_run_id q) \<and>
    (\<forall>r \<in> set (runs (db s')). r_task_id r = tid \<and> is_active (r_status r) \<longrightarrow> r = q) \<and>
    (\<forall>r \<in> set (runs (db s)). r_task_id r \<noteq> tid \<longrightarrow> r \<in> set (runs (db s'))) \<and>
    (\<exists>t. find_row t_task_id (tasks (db s)) tid = Some t \<and> int n < t_max_attempts t)"
  using started_stages [OF i run]
proof (elim exE conjE)
  fix t s1 s2 s3 assume t: "find_row t_task_id (tasks (db s)) tid = Some t" and s1: "runs (db s1) = runs (db s)" and i1: "integrity s1"
    and cap: "int n < t_max_attempts t" and close: "close_current_run E tid fc reason s1 = (Inr (), s2)"
    and new: "createRun E tid p None None None s2 = (Inr q, s3)" and r': "runs (db s') = runs (db s3)"
    and cur: "current_run s' = Some (r_factory_run_id q)"
  show ?thesis
    using close_current_run_effect [OF i1 _ close] one s1 createRun_Inr [OF new] r' cur cap t by auto
qed

theorem beginRepairAttempt_started_witness:
  "\<exists>q t' s'. beginRepairAttempt demo_env ''T1'' F_TEST_FAIL ''repair'' ''cursor'' demo_core = (Inr (RepairStarted q t' 0), s') \<and>
     r_status q = R_PENDING \<and> current_run s' = Some (r_factory_run_id q)"
proof -
  have "\<exists>q s1. createRun demo_env ''T1'' ''cursor'' None None None demo_core = (Inr q, s1) \<and> fresh_env demo_env s1 \<and>
      current_run s1 = current_run demo_core"
    by (rule createRun_ok [of _ _ demo_task]) simp_all
  then obtain q s1 where new: "createRun demo_env ''T1'' ''cursor'' None None None demo_core = (Inr q, s1)"
    and f1: "fresh_env demo_env s1" by blast
  have t1: "tasks (db s1) = [demo_task]" using createRun_Inr [OF new] by simp
  let ?s2 = "s1\<lparr>current_run := Some (r_factory_run_id q)\<rparr>"
  have f2: "fresh_env demo_env ?s2" by (rule fresh_env_mono [OF f1]) simp_all
  obtain t s3 where st: "updateTaskStatus demo_env ''T1'' ''RUNNING'' ?s2 = (Inr t, s3)" and f3: "fresh_env demo_env s3"
    using updateTaskStatus_ok [of ?s2 "''T1''" demo_task demo_env "''RUNNING''" T_RUNNING] t1 f2
    by (auto simp: logical_work_free_def)
  have start: "\<exists>t' s'. start_repair demo_env demo_task ''T1'' F_TEST_FAIL ''repair'' ''cursor'' 0 demo_core = (Inr (RepairStarted q t' 0), s')"
    using new st appendEvent_ok [OF f3]
    by (simp add: start_repair_def start_repair_tail_def close_current_run_def getCurrentCodingRun_def current_pointer_def
        active_from_store_def listActiveRuns_def act_defs set_current_def getTask_def)
  have rt: "\<not> t_max_runtime_ms demo_task \<le> 0" by (simp add: demo_task_def lock_row_def draft_of_def demo_normal_def)
  have "beginRepairAttempt demo_env ''T1'' F_TEST_FAIL ''repair'' ''cursor'' demo_core =
      start_repair demo_env demo_task ''T1'' F_TEST_FAIL ''repair'' ''cursor'' 0 demo_core"
    by (simp add: rt beginRepairAttempt_def getTask_def listRunsForTask_def act_defs resolveRetryPolicy_def Let_def
        isRetryableFailureClass_def NON_RETRYABLE_FAILURE_CLASSES_def elapsedRuntimeMsFromRuns_def)
  with start obtain t' s' where run: "beginRepairAttempt demo_env ''T1'' F_TEST_FAIL ''repair'' ''cursor'' demo_core = (Inr (RepairStarted q t' 0), s')"
    by auto
  have "integrity demo_core" "single_active (runs (db demo_core))"
    by (simp_all add: integrity_def wf_db_def single_active_def only_active_def)
  from beginRepairAttempt_started [OF this run] run show ?thesis by blast
qed

end
