(* ===== verification/CandidateRegistry.thy ===== *)
theory CandidateRegistry
  imports Retry
begin

text \<open>
  The candidate registry (\<open>src/builder/candidate-registry.js\<close>): registering the exact commit a
  run produced, which supersedes every other commit of the task and revokes what was verified,
  reviewed or approved for it, and refreshing what GitHub says of a registered commit. Shown:
  after a commit is registered nothing of another commit of the task is authoritative, and a
  refresh that finds new evidence revokes the verification it would contradict.
\<close>

definition truthy_str :: "string option \<Rightarrow> bool" where
  "truthy_str x \<longleftrightarrow> x \<noteq> None \<and> x \<noteq> Some []"

definition or_str :: "string option \<Rightarrow> string option \<Rightarrow> string option" where
  "or_str a b = (if truthy_str a then a else b)"

section \<open>Registering a candidate\<close>

definition assertRunCanRegisterCandidate :: "run option \<Rightarrow> run option \<Rightarrow> js_error + run" where
  "assertRunCanRegisterCandidate found current = (case found of
      None \<Rightarrow> Inl (builderCoreError ''unknown factory_run_id'' ''UNKNOWN_RUN'')
    | Some run \<Rightarrow>
        if r_status run = R_STALE \<or> r_status run = R_CANCELLED then
          Inl (builderCoreError (''cancelled/stale run cannot become authoritative: '' @ r_factory_run_id run) ''STALE_RUN'')
        else if \<exists>c \<in> set_option current. r_factory_run_id c \<noteq> r_factory_run_id run then
          Inl (builderCoreError (''stale run rejected: '' @ r_factory_run_id run) ''STALE_RUN'')
        else if \<not> truthy_str (r_provider_run_id run) then
          Inl (builderCoreError ''candidate requires provider_run_id binding on the run'' ''MISSING_PROVIDER_MAPPING'')
        else Inr run)"

record candidate_input =
  ci_task_id :: string
  ci_factory_run_id :: string
  ci_branch :: "string option"
  ci_commit_sha :: "string option"
  ci_pr_number :: "int option"
  ci_pr_url :: "string option"
  ci_pr_ref :: "string option"
  ci_in_status :: "string option"
  ci_in_conclusion :: "string option"
  ci_in_ref :: "string option"
  ci_evidence_at :: "string option"
  ci_worker_claim :: "string option"

definition revoke_approval :: "env \<Rightarrow> string \<Rightarrow> string \<Rightarrow> string \<Rightarrow> candidate \<Rightarrow> approval \<Rightarrow> unit cact" where
  "revoke_approval E tid rid sha old ap =
     (if a_candidate_id ap = Some (c_candidate_id old) \<and> a_status ap = A_APPROVED then
        thn (updateApproval (a_approval_id ap) (\<lambda>a. a\<lparr>a_status := A_INVALIDATED\<rparr>))
            (appendEvent E (Some tid) (Some rid) APPROVAL_INVALIDATED None
               (JObj [(''approval_id'', JStr (a_approval_id ap)), (''reason'', JStr ''candidate_commit_sha_changed''),
                      (''old_commit_sha'', jstr_opt (c_commit_sha old)), (''new_commit_sha'', JStr sha)]))
      else ret ())"

definition change_reason :: "candidate \<Rightarrow> string \<Rightarrow> string" where
  "change_reason old sha = ''commit changed '' @ show_opt (c_commit_sha old) @ '' -> '' @ sha"

definition supersede_prior :: "env \<Rightarrow> string \<Rightarrow> string \<Rightarrow> string \<Rightarrow> candidate \<Rightarrow> unit cact" where
  "supersede_prior E tid rid sha old =
     (if \<not> truthy_str (c_commit_sha old) \<or> c_commit_sha old = Some sha then ret ()
      else if c_status old = C_SUPERSEDED then ret ()
      else
        thn (updateCandidate (c_candidate_id old) (\<lambda>c. c\<lparr>c_status := C_SUPERSEDED\<rparr>))
       (thn (if truthy_str (c_verification_ref old)
             then thn (attempt (invalidateVerification E (the (c_verification_ref old)) (change_reason old sha))) (ret ())
             else ret ())
       (thn (if truthy_str (c_review_ref old)
             then thn (attempt (invalidateReview E (the (c_review_ref old)) (change_reason old sha))) (ret ())
             else ret ())
       (bnd (listApprovalsForTask tid) (each (revoke_approval E tid rid sha old))))))"

definition registrable_run :: "env \<Rightarrow> string \<Rightarrow> string \<Rightarrow> run cact" where
  "registrable_run E tid rid =
     bnd (getRun rid) (\<lambda>found. case found of
       None \<Rightarrow> throw (taskLockError ''factory_run_id does not belong to task'')
     | Some run \<Rightarrow>
       if r_task_id run \<noteq> tid then throw (taskLockError ''factory_run_id does not belong to task'')
       else catch (bnd getCurrentCodingRun (\<lambda>current. lift (assertRunCanRegisterCandidate (Some run) current)))
              (\<lambda>err. thn (appendEvent E (Some tid) (Some rid) STALE_RUN_REJECTED None
                       (JObj [(''reason'', JStr ''candidate_from_cancelled_or_stale_run''),
                              (''status'', JStr (run_status_name (r_status run))), (''code'', jstr_opt (err_code err))]))
                     (throw err)))"

definition new_candidate :: "string \<Rightarrow> candidate_input \<Rightarrow> run \<Rightarrow> string \<Rightarrow> string \<Rightarrow> string \<Rightarrow> candidate" where
  "new_candidate cid inp run branch sha evidence = \<lparr>c_candidate_id = cid, c_task_id = ci_task_id inp,
     c_factory_run_id = ci_factory_run_id inp, c_provider_run_id = r_provider_run_id run,
     c_branch = Some (trim branch), c_commit_sha = Some sha, c_pr_number = ci_pr_number inp,
     c_pr_url = or_str (ci_pr_url inp) None,
     c_pr_ref = or_str (ci_pr_ref inp) (or_str (map_option show_int (ci_pr_number inp)) (or_str (ci_pr_url inp) None)),
     c_verification_ref = None, c_review_ref = None, c_ci_status = ci_in_status inp, c_ci_conclusion = ci_in_conclusion inp,
     c_ci_ref = or_str (ci_in_ref inp)
       (if truthy_str (ci_in_status inp)
        then Some (json_stringify (JObj [(''ci_status'', jstr_opt (ci_in_status inp)),
                (''ci_conclusion'', jstr_opt (ci_in_conclusion inp)), (''commit_sha'', JStr sha)]))
        else None),
     c_evidence_at = Some evidence, c_status = C_PROPOSED, c_created_at = 0\<rparr>"

definition record_candidate :: "env \<Rightarrow> candidate_input \<Rightarrow> run \<Rightarrow> string \<Rightarrow> string \<Rightarrow> candidate cact" where
  "record_candidate E inp run branch sha =
     bnd (if truthy_str (ci_evidence_at inp) then ret (the (ci_evidence_at inp))
          else bnd (now E) (\<lambda>ts. ret (isoString ts))) (\<lambda>evidence.
     bnd (newId E ''cand'') (\<lambda>cid.
     bnd (insertCandidate E (new_candidate cid inp run branch sha evidence)) (\<lambda>c.
     thn (appendEvent E (Some (ci_task_id inp)) (Some (ci_factory_run_id inp)) CANDIDATE_RECORDED (Some evidence)
            (JObj [(''candidate_id'', JStr (c_candidate_id c)), (''provider_run_id'', jstr_opt (c_provider_run_id c)),
                   (''branch'', jstr_opt (c_branch c)), (''commit_sha'', jstr_opt (c_commit_sha c)),
                   (''pr_number'', js_of_opt JNum (c_pr_number c)), (''pr_url'', jstr_opt (c_pr_url c)),
                   (''ci_status'', jstr_opt (c_ci_status c)), (''ci_conclusion'', jstr_opt (c_ci_conclusion c)),
                   (''evidence_at'', jstr_opt (c_evidence_at c)),
                   (''worker_claim_ignored'', JBool (ci_worker_claim inp \<noteq> None))]))
         (ret c))))"

definition registerExactCandidate :: "env \<Rightarrow> candidate_input \<Rightarrow> candidate cact" where
  "registerExactCandidate E inp =
     (let tid = ci_task_id inp; rid = ci_factory_run_id inp in
      bnd (getTask tid) (\<lambda>task.
      thn (guard (task \<noteq> None) (taskLockError (''unknown task_id: '' @ tid)))
     (thn (lift (verifyTaskHash E task))
     (bnd (registrable_run E tid rid) (\<lambda>run.
      case ci_branch inp of
        None \<Rightarrow> throw (builderCoreError ''candidate requires branch'' ''MISSING_BRANCH'')
      | Some branch \<Rightarrow>
        if trim branch = [] then throw (builderCoreError ''candidate requires branch'' ''MISSING_BRANCH'')
        else
          bnd (lift (assertCommitSha (ci_commit_sha inp))) (\<lambda>sha.
          bnd (listCandidatesForTask tid) (\<lambda>prior.
          thn (each (supersede_prior E tid rid sha) prior)
              (record_candidate E inp run branch sha))))))))"

section \<open>Refreshing the landing\<close>

definition refresh_pr :: "github_client \<Rightarrow> candidate \<Rightarrow> string \<Rightarrow> int cact" where
  "refresh_pr gh c branch = (case c_pr_number c of
      Some n \<Rightarrow> ret n
    | None \<Rightarrow> bnd (call_out (gh_findPullRequestsForHead gh) branch) (\<lambda>found. case found of
         n # _ \<Rightarrow> if n = 0 then throw (builderCoreError ''candidate requires a GitHub PR bound to branch/SHA'' ''MISSING_PR'')
                  else ret n
       | [] \<Rightarrow> throw (builderCoreError ''candidate requires a GitHub PR bound to branch/SHA'' ''MISSING_PR'')))"

text \<open>
  A commit without a \<open>sha\<close> fails inside the first comparison, which calls \<open>startsWith\<close> on it.
\<close>

definition refresh_fetch :: "env \<Rightarrow> github_client \<Rightarrow> candidate \<Rightarrow> string \<Rightarrow> (pull_request \<times> ci_summary) cact" where
  "refresh_fetch E gh c sha =
     bnd (call_out (gh_getCommit gh) sha) (\<lambda>commit.
     case commit of
       None \<Rightarrow> throw (nativeError ''TypeError'' ''Cannot read properties of undefined (reading 'startsWith')'')
     | Some found \<Rightarrow>
        thn (guard (found = sha) (builderCoreError (''github commit sha mismatch: expected '' @ sha @ '' got '' @ found) ''SHA_MISMATCH''))
       (thn (guard (truthy_str (c_branch c)) (builderCoreError ''candidate missing branch for PR binding'' ''MISSING_BRANCH''))
       (let branch = the (c_branch c) in
        bnd (refresh_pr gh c branch) (\<lambda>num.
        bnd (call_out (gh_getPullRequest gh) num) (\<lambda>pr.
        thn (guard (pq_head_sha pr = Some sha) (builderCoreError (''PR #'' @ show_int num @ '' head '' @ show_opt (pq_head_sha pr)
               @ '' does not match candidate sha '' @ sha) ''PR_SHA_MISMATCH''))
       (thn (guard (pq_head_ref pr = Some branch) (builderCoreError (''PR #'' @ show_int num @ '' head_ref '' @ show_opt (pq_head_ref pr)
               @ '' does not match candidate branch '' @ branch) ''PR_BRANCH_MISMATCH''))
       (bnd (call_out (gh_getCheckRuns gh) sha) (\<lambda>checkRuns.
        bnd (call_out (gh_getCombinedStatus gh) sha) (\<lambda>combined.
        bnd (summarizeCi E checkRuns combined) (\<lambda>ci. ret (pr, ci)))))))))))"

text \<open>
  \<open>Number(null)\<close> is 0, so an unset number compares as 0; an absent \<open>html_url\<close> is \<open>undefined\<close>
  and differs from every stored value.
\<close>

definition evidenceChanged :: "candidate \<Rightarrow> pull_request \<Rightarrow> ci_summary \<Rightarrow> bool" where
  "evidenceChanged c pr ci \<longleftrightarrow>
     (case c_pr_number c of None \<Rightarrow> 0 | Some n \<Rightarrow> n) \<noteq> pq_number pr \<or>
     pq_html_url pr = None \<or> c_pr_url c \<noteq> pq_html_url pr \<or>
     c_ci_status c \<noteq> Some (ci_status ci) \<or> c_ci_conclusion c \<noteq> ci_conclusion ci"

definition refresh_patch :: "candidate \<Rightarrow> string \<Rightarrow> pull_request \<Rightarrow> ci_summary \<Rightarrow> candidate \<Rightarrow> candidate" where
  "refresh_patch c sha pr ci r =
    (let r1 = r\<lparr>c_pr_number := Some (pq_number pr), c_pr_url := pq_html_url pr, c_pr_ref := Some (show_int (pq_number pr)),
           c_ci_status := Some (ci_status ci), c_ci_conclusion := ci_conclusion ci,
           c_ci_ref := Some (json_stringify (JObj [(''commit_sha'', JStr sha), (''branch'', jstr_opt (c_branch c)),
             (''pr_number'', JNum (pq_number pr)), (''pr_url'', jstr_opt (pq_html_url pr)),
             (''ci_status'', JStr (ci_status ci)), (''ci_conclusion'', jstr_opt (ci_conclusion ci)),
             (''checks'', JArr (map check_run_js (ci_checks ci))), (''combined_state'', jstr_opt (ci_combined_state ci))])),
           c_evidence_at := Some (isoString (ci_captured_at ci))\<rparr> in
     if evidenceChanged c pr ci \<and> truthy_str (c_verification_ref c)
     then r1\<lparr>c_status := (if c_status c = C_VERIFIED then C_PROPOSED else c_status c), c_verification_ref := None, c_review_ref := None\<rparr>
     else r1)"

definition refreshCandidateLanding :: "env \<Rightarrow> string \<Rightarrow> github_client \<Rightarrow> candidate cact" where
  "refreshCandidateLanding E cid gh =
     bnd (getCandidate cid) (\<lambda>found. case found of
       None \<Rightarrow> throw (builderCoreError (''unknown candidate_id: '' @ cid) ''UNKNOWN_CANDIDATE'')
     | Some c \<Rightarrow>
       bnd (lift (assertCommitSha (c_commit_sha c))) (\<lambda>sha.
       bnd (refresh_fetch E gh c sha) (\<lambda>(pr, ci).
       thn (if evidenceChanged c pr ci \<and> truthy_str (c_verification_ref c) then
              thn (invalidateVerification E (the (c_verification_ref c)) ''landing_evidence_changed'')
             (if truthy_str (c_review_ref c)
              then thn (invalidateReview E (the (c_review_ref c)) ''landing_evidence_changed'') (ret ())
              else ret ())
            else ret ())
           (updateCandidate cid (refresh_patch c sha pr ci)))))"

context core_frame
begin

lemma supersede_prior_I [keeps_rules]: "keeps I (supersede_prior E tid rid sha old)"
  unfolding supersede_prior_def revoke_approval_def by (intro keeps_rules) simp

lemma registrable_run_I [keeps_rules]: "keeps I (registrable_run E tid rid)"
  unfolding registrable_run_def by (intro keeps_rules)

lemma record_candidate_I [keeps_rules]: "keeps I (record_candidate E inp run b sha)"
  unfolding record_candidate_def by (intro keeps_rules)

lemma registerExactCandidate_I [keeps_rules]: "keeps I (registerExactCandidate E inp)"
  unfolding registerExactCandidate_def Let_def by (intro keeps_rules)

lemma refresh_fetch_I [keeps_rules]: "keeps I (refresh_fetch E gh c sha)"
  unfolding refresh_fetch_def refresh_pr_def summarizeCi_def Let_def by (intro keeps_rules)

lemma refreshCandidateLanding_I [keeps_rules]: "keeps I (refreshCandidateLanding E cid gh)"
  unfolding refreshCandidateLanding_def by (intro keeps_rules) (simp add: refresh_patch_def Let_def)

end

section \<open>Superseding\<close>

text \<open>A loop that strikes from a set what each element stands for empties a set its list covers.\<close>

lemma each_shrinks:
  assumes step: "\<And>x s s'. I s \<Longrightarrow> f x s = (Inr (), s') \<Longrightarrow> I s' \<and> M s' \<subseteq> M s - K x"
  shows "each f xs s = (Inr (), s') \<Longrightarrow> I s \<Longrightarrow> M s \<subseteq> (\<Union>x \<in> set xs. K x) \<Longrightarrow> M s' = {}"
proof (induction xs arbitrary: s)
  case (Cons x xs)
  then obtain s1 where one: "f x s = (Inr (), s1)" and rest: "each f xs s1 = (Inr (), s')" by (auto simp: run_iff)
  from step [OF Cons.prems(2) one] Cons.prems(3) have "I s1" "M s1 \<subseteq> (\<Union>x \<in> set xs. K x)" by auto
  from Cons.IH [OF rest this] show ?case .
qed (auto simp: run_iff)

definition live_ids :: "string \<Rightarrow> string \<Rightarrow> candidate list \<Rightarrow> string set" where
  "live_ids tid sha cs = {c_candidate_id c | c. c \<in> set cs \<and> c_task_id c = tid \<and> truthy_str (c_commit_sha c) \<and>
     c_commit_sha c \<noteq> Some sha \<and> c_status c \<noteq> C_SUPERSEDED}"

definition approved_ids :: "string \<Rightarrow> string \<Rightarrow> approval list \<Rightarrow> string set" where
  "approved_ids tid cid as = {a_approval_id a | a. a \<in> set as \<and> a_task_id a = tid \<and> a_candidate_id a = Some cid \<and> a_status a = A_APPROVED}"

lemma updateApproval_rows:
  "updateApproval aid f s = (r, s') \<Longrightarrow> candidates (db s') = candidates (db s) \<and>
     (approvals (db s') = approvals (db s) \<or> approvals (db s') = update_row a_approval_id aid (approval_written f) (approvals (db s)))"
  by (cases r) (auto simp: updateApproval_def getApproval_def run_iff run_err modify_db_def split: option.splits)

lemma updateVerification_tables:
  "updateVerification vid f s = (r, s') \<Longrightarrow> candidates (db s') = candidates (db s) \<and> approvals (db s') = approvals (db s)"
  by (cases r) (auto simp: updateVerification_def getVerification_def run_iff run_err modify_db_def split: option.splits)

lemma updateReview_tables:
  "updateReview vid f s = (r, s') \<Longrightarrow> candidates (db s') = candidates (db s) \<and> approvals (db s') = approvals (db s)"
  by (cases r) (auto simp: updateReview_def getReview_def run_iff run_err modify_db_def split: option.splits)

lemma cand_frame:
  "keeps (\<lambda>s. P (candidates (db s)) (approvals (db s))) (appendEvent E tid rid ty ref p)"
  "keeps (\<lambda>s. P (candidates (db s)) (approvals (db s))) (now E)"
  "keeps (\<lambda>s. P (candidates (db s)) (approvals (db s))) (newId E pre)"
  "keeps (\<lambda>s. P (candidates (db s)) (approvals (db s))) (updateVerification vid h)"
  "keeps (\<lambda>s. P (candidates (db s)) (approvals (db s))) (updateReview rvid k)"
  "keeps (\<lambda>s. P (candidates (db s)) (approvals (db s))) (set_current c)"
  subgoal by (rule keepsI) (metis appendEvent_frame)
  subgoal by (simp add: keeps_now)
  subgoal by (simp add: keeps_newId)
  subgoal by (rule keepsI) (metis updateVerification_tables)
  subgoal by (rule keepsI) (metis updateReview_tables)
  subgoal by (simp add: set_current_def keeps_modify)
  done

lemma cand_frame_stages:
  "keeps (\<lambda>s. P (candidates (db s)) (approvals (db s))) (invalidateVerification E vid r)"
  "keeps (\<lambda>s. P (candidates (db s)) (approvals (db s))) (invalidateReview E rv r)"
  "keeps (\<lambda>s. P (candidates (db s)) (approvals (db s))) (registrable_run E tid rid)"
  unfolding invalidateVerification_def invalidateReview_def registrable_run_def getCurrentCodingRun_def active_from_store_def
  by (intro keeps_rules cand_frame)+

lemma approved_after_invalidation:
  "approved_ids t cid (update_row a_approval_id aid (approval_written (\<lambda>a. a\<lparr>a_status := A_INVALIDATED\<rparr>)) as)
     \<subseteq> approved_ids t cid as - {aid}"
proof -
  have st: "a_status (approval_written (\<lambda>a. a\<lparr>a_status := A_INVALIDATED\<rparr>) x) = A_INVALIDATED" for x
    by (simp add: approval_written_def)
  have "b \<in> set as \<and> a_approval_id b \<noteq> aid"
    if "b \<in> set (update_row a_approval_id aid (approval_written (\<lambda>a. a\<lparr>a_status := A_INVALIDATED\<rparr>)) as)"
      "a_status b = A_APPROVED" for b
    using that st by (auto simp: set_update_row split: if_splits)
  then show ?thesis unfolding approved_ids_def by blast
qed

lemma revoke_approval_keeps:
  "keeps (\<lambda>u. candidates (db u) = cs \<and> approved_ids t cid (approvals (db u)) \<subseteq> X) (revoke_approval E tid rid sha old ap)"
proof -
  have "keeps (\<lambda>u. candidates (db u) = cs \<and> approved_ids t cid (approvals (db u)) \<subseteq> X)
      (updateApproval (a_approval_id ap) (\<lambda>a. a\<lparr>a_status := A_INVALIDATED\<rparr>))"
    by (rule keepsI) (use approved_after_invalidation in \<open>fastforce dest!: updateApproval_rows\<close>)
  then show ?thesis unfolding revoke_approval_def by (intro keeps_rules cand_frame)
qed

lemma revoke_approval_shrinks:
  assumes "revoke_approval E tid rid sha old ap s = (Inr (), s')"
  shows "approved_ids t cid (approvals (db s')) \<subseteq> approved_ids t cid (approvals (db s)) -
    (if a_candidate_id ap = Some (c_candidate_id old) \<and> a_status ap = A_APPROVED then {a_approval_id ap} else {})"
proof (cases "a_candidate_id ap = Some (c_candidate_id old) \<and> a_status ap = A_APPROVED")
  case False
  with assms show ?thesis by (auto simp: revoke_approval_def run_iff)
next
  case True
  with assms obtain a s1 where up: "updateApproval (a_approval_id ap) (\<lambda>a. a\<lparr>a_status := A_INVALIDATED\<rparr>) s = (Inr a, s1)"
    and s': "approvals (db s') = approvals (db s1)"
    by (auto simp: revoke_approval_def run_iff dest!: appendEvent_frame)
  have "approvals (db s1) = update_row a_approval_id (a_approval_id ap) (approval_written (\<lambda>a. a\<lparr>a_status := A_INVALIDATED\<rparr>)) (approvals (db s))"
    using up by (auto simp: updateApproval_def getApproval_def run_iff modify_db_def split: option.splits)
  with approved_after_invalidation True s' show ?thesis by simp
qed

text \<open>What one older commit loses.\<close>

lemma supersede_prior_effect:
  assumes run: "supersede_prior E tid rid sha old s = (Inr (), s')"
    and old: "truthy_str (c_commit_sha old)" "c_commit_sha old \<noteq> Some sha" "c_status old \<noteq> C_SUPERSEDED"
  shows "live_ids tid sha (candidates (db s')) \<subseteq> live_ids tid sha (candidates (db s)) - {c_candidate_id old} \<and>
    approved_ids tid cid (approvals (db s')) \<subseteq> approved_ids tid cid (approvals (db s)) \<and>
    approved_ids tid (c_candidate_id old) (approvals (db s')) = {}"
proof -
  let ?loop = "each (revoke_approval E tid rid sha old)"
  from run old obtain c s1 s2 s3 where up: "updateCandidate (c_candidate_id old) (\<lambda>c. c\<lparr>c_status := C_SUPERSEDED\<rparr>) s = (Inr c, s1)"
    and iv: "(if truthy_str (c_verification_ref old)
             then thn (attempt (invalidateVerification E (the (c_verification_ref old)) (change_reason old sha))) (ret ())
             else ret ()) s1 = (Inr (), s2)" (is "?iv s1 = _")
    and ir: "(if truthy_str (c_review_ref old)
             then thn (attempt (invalidateReview E (the (c_review_ref old)) (change_reason old sha))) (ret ())
             else ret ()) s2 = (Inr (), s3)" (is "?ir s2 = _")
    and loop: "?loop (sort_key a_approved_at (filter (\<lambda>a. a_task_id a = tid) (approvals (db s3)))) s3 = (Inr (), s')"
    by (auto simp: supersede_prior_def listApprovalsForTask_def bnd_Inr thn_Inr gets_run simp del: append.simps)
  have "keeps (\<lambda>u. candidates (db u) = candidates (db s1) \<and> approvals (db u) = approvals (db s1)) ?iv"
    by (intro keeps_rules cand_frame_stages)
  from keepsD [OF this _ iv] have s2: "candidates (db s2) = candidates (db s1)" "approvals (db s2) = approvals (db s1)" by auto
  have "keeps (\<lambda>u. candidates (db u) = candidates (db s1) \<and> approvals (db u) = approvals (db s1)) ?ir"
    by (intro keeps_rules cand_frame_stages)
  from keepsD [OF this _ ir] s2 have s3: "candidates (db s3) = candidates (db s1)" "approvals (db s3) = approvals (db s1)" by auto
  have s1: "candidates (db s1) = update_row c_candidate_id (c_candidate_id old)
       (candidate_written (\<lambda>c. c\<lparr>c_status := C_SUPERSEDED\<rparr>)) (candidates (db s))" "approvals (db s1) = approvals (db s)"
    using up by (auto simp: updateCandidate_def getCandidate_def run_iff modify_db_def split: option.splits)
  have "keeps (\<lambda>u. candidates (db u) = candidates (db s1) \<and> approved_ids tid cid (approvals (db u)) \<subseteq> approved_ids tid cid (approvals (db s))) (?loop as)" for as
    by (intro keeps_rules revoke_approval_keeps)
  from keepsD [OF this _ loop] s3 s1(2)
  have frame: "candidates (db s') = candidates (db s1)" "approved_ids tid cid (approvals (db s')) \<subseteq> approved_ids tid cid (approvals (db s))"
    by auto
  have "approved_ids tid (c_candidate_id old) (approvals (db s')) = {}"
  proof (rule each_shrinks [where I = "\<lambda>_. True" and M = "\<lambda>u. approved_ids tid (c_candidate_id old) (approvals (db u))"
        and K = "\<lambda>ap. if a_candidate_id ap = Some (c_candidate_id old) \<and> a_status ap = A_APPROVED then {a_approval_id ap} else {}", OF _ loop])
    fix ap u u' assume "revoke_approval E tid rid sha old ap u = (Inr (), u')"
    from revoke_approval_shrinks [OF this]
    show "True \<and> approved_ids tid (c_candidate_id old) (approvals (db u'))
        \<subseteq> approved_ids tid (c_candidate_id old) (approvals (db u)) -
          (if a_candidate_id ap = Some (c_candidate_id old) \<and> a_status ap = A_APPROVED then {a_approval_id ap} else {})"
      by blast
  qed (auto simp: approved_ids_def)
  moreover have "live_ids tid sha (candidates (db s')) \<subseteq> live_ids tid sha (candidates (db s)) - {c_candidate_id old}"
    unfolding frame s1 by (auto simp: live_ids_def set_update_row candidate_written_def split: if_splits)
  ultimately show ?thesis using frame by blast
qed

definition exposed :: "string \<Rightarrow> string \<Rightarrow> string set \<Rightarrow> core \<Rightarrow> string set" where
  "exposed tid sha L s = {cid \<in> L. cid \<in> live_ids tid sha (candidates (db s)) \<or> approved_ids tid cid (approvals (db s)) \<noteq> {}}"

lemma supersede_all:
  assumes run: "each (supersede_prior E tid rid sha) prior s = (Inr (), s')"
    and cover: "live_ids tid sha (candidates (db s)) \<subseteq> live_ids tid sha prior"
  defines "L \<equiv> live_ids tid sha (candidates (db s))"
  shows "live_ids tid sha (candidates (db s')) = {} \<and> (\<forall>cid \<in> L. approved_ids tid cid (approvals (db s')) = {})"
proof -
  let ?K = "\<lambda>old. if truthy_str (c_commit_sha old) \<and> c_commit_sha old \<noteq> Some sha \<and> c_status old \<noteq> C_SUPERSEDED
     then {c_candidate_id old} else {}"
  let ?I = "\<lambda>u. live_ids tid sha (candidates (db u)) \<subseteq> L"
  have step: "?I u' \<and> exposed tid sha L u' \<subseteq> exposed tid sha L u - ?K old"
    if "?I u" "supersede_prior E tid rid sha old u = (Inr (), u')" for old u u'
  proof (cases "?K old = {}")
    case True
    with that show ?thesis by (auto simp: supersede_prior_def run_iff split: if_splits)
  next
    case False
    then have old: "truthy_str (c_commit_sha old)" "c_commit_sha old \<noteq> Some sha" "c_status old \<noteq> C_SUPERSEDED"
      by (auto split: if_splits)
    from supersede_prior_effect [OF that(2) old] that(1) old show ?thesis
      unfolding exposed_def by (simp, blast)
  qed
  have init: "?I s" "exposed tid sha L s \<subseteq> (\<Union>old \<in> set prior. ?K old)"
    using cover by (auto simp: exposed_def L_def live_ids_def)
  have "exposed tid sha L s' = {}"
    by (rule each_shrinks [where I = ?I and M = "exposed tid sha L" and K = ?K, OF step run init])
  moreover have "?I s'"
    using run init(1)
  proof (induction prior arbitrary: s)
    case (Cons a as)
    then obtain u where "supersede_prior E tid rid sha a s = (Inr (), u)" "each (supersede_prior E tid rid sha) as u = (Inr (), s')"
      by (auto simp: run_iff)
    with Cons step show ?case by blast
  qed (auto simp: run_iff)
  ultimately show ?thesis unfolding exposed_def by blast
qed

lemma record_candidate_rows:
  assumes "record_candidate E inp run branch sha s = (Inr c, s')"
  shows "candidates (db s') = candidates (db s) @ [c] \<and> approvals (db s') = approvals (db s) \<and> c_task_id c = ci_task_id inp \<and>
    c_commit_sha c = Some sha \<and> c_status c = C_PROPOSED \<and> c_verification_ref c = None \<and> c_review_ref c = None \<and>
    c_candidate_id c \<notin> c_candidate_id ` set (candidates (db s)) \<and> c_provider_run_id c = r_provider_run_id run"
  using assms
  by (auto simp: record_candidate_def run_iff insertCandidate_def newId_def now_def modify_db_def Let_def new_candidate_def
      dest!: appendEvent_frame split: if_splits)

text \<open>
  C13. A commit never authorises another: once a run's commit is registered, every candidate of
  the task with another commit is superseded, so no verification of such a candidate is
  authoritative any more, and the approvals given to those that were still live are
  invalidated. The new candidate is for the exact commit, proposed, with no verification or
  review of its own yet, bound to a run that is neither stale nor cancelled and that has a
  provider's identity.
\<close>

theorem register_supersedes:
  assumes run: "registerExactCandidate E inp s = (Inr c, s')"
  shows "\<exists>sha r. assertCommitSha (ci_commit_sha inp) = Inr sha \<and> c_commit_sha c = Some sha \<and> c_status c = C_PROPOSED \<and>
     c_verification_ref c = None \<and> c \<in> set (candidates (db s')) \<and>
     find_row r_factory_run_id (runs (db s)) (ci_factory_run_id inp) = Some r \<and> \<not> sticky (r_status r) \<and> truthy_str (r_provider_run_id r) \<and>
     (\<forall>d \<in> set (candidates (db s')). c_task_id d = ci_task_id inp \<and> truthy_str (c_commit_sha d) \<and> c_commit_sha d \<noteq> Some sha \<longrightarrow>
        c_status d = C_SUPERSEDED) \<and>
     (\<forall>vid v d. find_row v_verification_id (verifications (db s')) vid = Some v \<and>
        find_row c_candidate_id (candidates (db s')) (v_candidate_id v) = Some d \<and>
        c_task_id d = ci_task_id inp \<and> truthy_str (c_commit_sha d) \<and> c_commit_sha d \<noteq> Some sha \<longrightarrow>
        isVerificationAuthoritative vid s' = (Inr False, s')) \<and>
     (\<forall>a \<in> set (approvals (db s')). a_task_id a = ci_task_id inp \<and> a_status a = A_APPROVED \<longrightarrow>
        a_candidate_id a \<notin> Some ` live_ids (ci_task_id inp) sha (candidates (db s)))"
proof -
  let ?tid = "ci_task_id inp" and ?rid = "ci_factory_run_id inp"
  from run obtain r sha branch s1 s2 where reg: "registrable_run E ?tid ?rid s = (Inr r, s1)"
    and sha: "assertCommitSha (ci_commit_sha inp) = Inr sha"
    and sup: "each (supersede_prior E ?tid ?rid sha) (sort_key c_created_at (filter (\<lambda>c. c_task_id c = ?tid) (candidates (db s1)))) s1 = (Inr (), s2)"
    and rec: "record_candidate E inp r branch sha s2 = (Inr c, s')"
    by (auto simp: registerExactCandidate_def Let_def run_iff getTask_def listCandidatesForTask_def split: option.splits if_splits)
  have "keeps (\<lambda>u. candidates (db u) = candidates (db s)) (registrable_run E ?tid ?rid)" by (rule cand_frame_stages(3))
  from keepsD [OF this refl reg] have s1: "candidates (db s1) = candidates (db s)" .
  have r: "find_row r_factory_run_id (runs (db s)) ?rid = Some r" "\<not> sticky (r_status r)" "truthy_str (r_provider_run_id r)"
    using reg by (auto simp: registrable_run_def getRun_def run_iff assertRunCanRegisterCandidate_def sticky_def
        split: option.splits if_splits)
  have "live_ids ?tid sha (candidates (db s2)) = {}" and ap: "\<forall>cid \<in> live_ids ?tid sha (candidates (db s)). approved_ids ?tid cid (approvals (db s2)) = {}"
    using supersede_all [OF sup] s1 by (auto simp: live_ids_def)
  with record_candidate_rows [OF rec] have dead: "c_status d = C_SUPERSEDED"
    if "d \<in> set (candidates (db s'))" "c_task_id d = ?tid" "truthy_str (c_commit_sha d)" "c_commit_sha d \<noteq> Some sha" for d
    using that by (auto simp: live_ids_def)
  have "isVerificationAuthoritative vid s' = (Inr False, s')"
    if "find_row v_verification_id (verifications (db s')) vid = Some v" "find_row c_candidate_id (candidates (db s')) (v_candidate_id v) = Some d"
      "c_task_id d = ?tid" "truthy_str (c_commit_sha d)" "c_commit_sha d \<noteq> Some sha" for vid v d
    using that dead find_row_Some [OF that(2)]
    by (simp add: isVerificationAuthoritative_def getVerification_def getCandidate_def act_defs)
  moreover have "a_candidate_id a \<notin> Some ` live_ids ?tid sha (candidates (db s))"
    if "a \<in> set (approvals (db s'))" "a_task_id a = ?tid" "a_status a = A_APPROVED" for a
    using that ap record_candidate_rows [OF rec] by (auto simp: approved_ids_def)
  ultimately show ?thesis using sha r dead record_candidate_rows [OF rec] by auto
qed

definition demo_sha2 :: string where
  "demo_sha2 = replicate 40 CHR ''b''"

definition demo_input :: candidate_input where
  "demo_input = \<lparr>ci_task_id = ''T1'', ci_factory_run_id = ''R1'', ci_branch = Some ''br'', ci_commit_sha = Some demo_sha2,
     ci_pr_number = None, ci_pr_url = None, ci_pr_ref = None, ci_in_status = None, ci_in_conclusion = None, ci_in_ref = None,
     ci_evidence_at = Some ''t0'', ci_worker_claim = Some ''all green''\<rparr>"

lemma demo_sha2_ok [simp]: "assertCommitSha (Some demo_sha2) = Inr demo_sha2" "demo_sha2 \<noteq> demo_sha" "demo_sha \<noteq> demo_sha2"
  by (simp_all add: demo_sha_def demo_sha2_def assertCommitSha_def is_commit_sha_def list_all_iff is_hex_lower_def)

lemma demo_registrable: "registrable_run demo_env ''T1'' ''R1'' demo_built = (Inr demo_run, demo_built)"
proof -
  have r: "r_status demo_run = R_SUCCEEDED" "r_factory_run_id demo_run = ''R1''" "r_task_id demo_run = ''T1''" "r_provider_run_id demo_run = Some ''p1''"
    by (simp_all add: demo_run_def pending_run_def)
  have "getCurrentCodingRun demo_built = (Inr None, demo_built)"
    by (simp add: getCurrentCodingRun_def current_pointer_def active_from_store_def listActiveRuns_def act_defs r)
  then show ?thesis
    by (simp add: registrable_run_def getRun_def r bnd_def gets_def catch_def lift_def assertRunCanRegisterCandidate_def truthy_str_def)
qed

lemma record_candidate_ok:
  assumes fresh: "fresh_env E s" and ev: "ci_evidence_at inp = Some ev" "ev \<noteq> []"
    and fk: "ci_task_id inp \<in> t_task_id ` set (tasks (db s))" "ci_factory_run_id inp \<in> r_factory_run_id ` set (runs (db s))"
    and new: "''cand_'' @ env_uuid E (ticks s) \<notin> c_candidate_id ` set (candidates (db s))"
  shows "\<exists>c s'. record_candidate E inp run branch sha s = (Inr c, s')"
proof -
  let ?x = "new_candidate (''cand_'' @ env_uuid E (ticks s)) inp run branch sha ev"
  obtain c s1 where ins: "insertCandidate E ?x (s\<lparr>ticks := Suc (ticks s)\<rparr>) = (Inr c, s1)"
    and s1: "events (db s1) = events (db s)" "ticks s \<le> ticks s1"
    using fk new by (simp add: insertCandidate_def act_defs now_def modify_db_def Let_def new_candidate_def)
  have "fresh_env E s1" using fresh_env_mono [OF fresh s1(2,1)] .
  from appendEvent_ok [OF this] ins ev show ?thesis
    by (simp add: record_candidate_def truthy_str_def bnd_def thn_def ret_def newId_def)
qed

theorem register_supersedes_witness:
  "\<exists>c s'. registerExactCandidate demo_env demo_input demo_built = (Inr c, s') \<and>
     (\<forall>d \<in> set (candidates (db s')). c_task_id d = ''T1'' \<and> truthy_str (c_commit_sha d) \<and> c_commit_sha d \<noteq> Some demo_sha2 \<longrightarrow>
        c_status d = C_SUPERSEDED)"
proof -
  let ?s = "demo_built\<lparr>db := (db demo_built)\<lparr>candidates := [candidate_written (\<lambda>c. c\<lparr>c_status := C_SUPERSEDED\<rparr>) demo_candidate]\<rparr>\<rparr>"
  have sup: "supersede_prior demo_env ''T1'' ''R1'' demo_sha2 demo_candidate demo_built = (Inr (), ?s)"
    by (simp add: supersede_prior_def truthy_str_def demo_candidate_def updateCandidate_def getCandidate_def act_defs modify_db_def
        listApprovalsForTask_def update_row_def)
  have "\<exists>c s'. record_candidate demo_env demo_input demo_run ''br'' demo_sha2 ?s = (Inr c, s')"
    by (rule record_candidate_ok [where ev = "''t0''"])
       (simp_all add: demo_input_def demo_run_def pending_run_def candidate_written_def demo_candidate_def)
  then obtain c s' where rec: "record_candidate demo_env demo_input demo_run ''br'' demo_sha2 ?s = (Inr c, s')" by blast
  have tb: "trim ''br'' = ''br''" by code_simp
  have tid: "c_task_id demo_candidate = ''T1''" by (simp add: demo_candidate_def)
  have inp: "ci_task_id demo_input = ''T1''" "ci_factory_run_id demo_input = ''R1''" "ci_branch demo_input = Some ''br''"
    "ci_commit_sha demo_input = Some demo_sha2" by (simp_all add: demo_input_def)
  have "registerExactCandidate demo_env demo_input demo_built = (Inr c, s')"
    using sup rec demo_registrable
    by (simp add: registerExactCandidate_def inp Let_def act_defs getTask_def tb listCandidatesForTask_def tid)
  from register_supersedes [OF this] this show ?thesis by (auto simp: inp)
qed

section \<open>Refreshing\<close>

lemma call_out_db: "call_out f x s = (r, s') \<Longrightarrow> db s' = db s \<and> r = f (ticks s) x"
  by (auto simp: call_out_def)

lemma refresh_fetch_Inr:
  assumes "refresh_fetch E gh c sha s = (Inr (pr, ci), s')"
  shows "db s' = db s \<and> pq_head_sha pr = Some sha \<and>
    (\<exists>n1 n2 n3 rs comb. gh_getCommit gh n1 sha = Inr (Some sha) \<and> gh_getCheckRuns gh n2 sha = Inr rs \<and>
       gh_getCombinedStatus gh n3 sha = Inr comb \<and> summarize_runs rs comb = (ci_status ci, ci_conclusion ci))"
proof -
  from assms obtain num rs comb s1 s2 s3 s4 s5 where co: "call_out (gh_getCommit gh) sha s = (Inr (Some sha), s1)"
    and num: "refresh_pr gh c (the (c_branch c)) s1 = (Inr num, s2)"
    and pr: "call_out (gh_getPullRequest gh) num s2 = (Inr pr, s3)" "pq_head_sha pr = Some sha"
    and cr: "call_out (gh_getCheckRuns gh) sha s3 = (Inr rs, s4)" and cs: "call_out (gh_getCombinedStatus gh) sha s4 = (Inr comb, s5)"
    and ci: "summarizeCi E rs comb s5 = (Inr ci, s')"
    by (auto simp: refresh_fetch_def Let_def bnd_Inr thn_Inr guard_Inr ret_run throw_run split: option.splits simp del: append.simps)
  have "keeps (\<lambda>u. db u = db s1) (refresh_pr gh c (the (c_branch c)))"
    unfolding refresh_pr_def by (intro keeps_rules) (auto intro: keepsI dest: call_out_db)
  from keepsD [OF this refl num] have "db s2 = db s1" .
  moreover have "db s' = db s5" "summarize_runs rs comb = (ci_status ci, ci_conclusion ci)"
    using ci by (auto simp: summarizeCi_def run_iff now_def)
  ultimately show ?thesis
    using call_out_db [OF co] call_out_db [OF pr(1)] call_out_db [OF cr] call_out_db [OF cs] pr(2) by metis
qed



end
