(* ===== verification/FinishLine.thy ===== *)
theory FinishLine
  imports Retry
begin

text \<open>
  The finish line of a task (its intent, acceptance reference, paths, tools, limits and review
  requirement) as an invariant of the whole Builder: an instance of the frame interface, so
  that every composite operation of the later theories inherits it.
\<close>

definition finish_fixed :: "string \<Rightarrow> finish_line \<Rightarrow> db \<Rightarrow> bool" where
  "finish_fixed tid fl d \<longleftrightarrow> (\<exists>t. find_row t_task_id (tasks d) tid = Some t \<and> finish_line_of t = fl)"

lemma finish_fixed_tables [simp]:
  "finish_fixed tid fl (d\<lparr>runs := b\<rparr>) = finish_fixed tid fl d" "finish_fixed tid fl (d\<lparr>candidates := c\<rparr>) = finish_fixed tid fl d"
  "finish_fixed tid fl (d\<lparr>verifications := v\<rparr>) = finish_fixed tid fl d" "finish_fixed tid fl (d\<lparr>reviews := r\<rparr>) = finish_fixed tid fl d"
  "finish_fixed tid fl (d\<lparr>approvals := p\<rparr>) = finish_fixed tid fl d" "finish_fixed tid fl (d\<lparr>leases := l\<rparr>) = finish_fixed tid fl d"
  "finish_fixed tid fl (d\<lparr>events := e\<rparr>) = finish_fixed tid fl d"
  by (simp_all add: finish_fixed_def)

lemma finish_fixed_cong: "tasks d = tasks d' \<Longrightarrow> finish_fixed tid fl d = finish_fixed tid fl d'"
  by (simp add: finish_fixed_def)

lemma fixed_updateTaskStatus: "keeps (\<lambda>s. finish_fixed tid fl (db s)) (updateTaskStatus E tid' st)"
proof (rule keepsI)
  fix s r s' assume i: "finish_fixed tid fl (db s)" and run: "updateTaskStatus E tid' st s = (r, s')"
  from updateTaskStatus_row [OF run] show "finish_fixed tid fl (db s')"
  proof (elim disjE exE conjE)
    fix d t assume d: "find_row t_task_id (tasks (db s)) tid' = Some d" "finish_line_of t = finish_line_of d" "t_task_id t = tid'"
      and rows: "tasks (db s') = update_row t_task_id tid' (\<lambda>r. t\<lparr>t_task_id := t_task_id r\<rparr>) (tasks (db s))"
    have "t\<lparr>t_task_id := t_task_id d\<rparr> = t" using find_row_Some [OF d(1)] d(3) by simp
    with i d show ?thesis by (auto simp: finish_fixed_def rows find_row_update)
  qed (use i in \<open>simp add: finish_fixed_def\<close>)
qed

lemma fixed_lockTask_other:
  assumes "tid \<noteq> tid'"
  shows "keeps (\<lambda>s. finish_fixed tid fl (db s)) (lockTask E tid')"
proof (rule keepsI)
  fix s r s' assume i: "finish_fixed tid fl (db s)" and run: "lockTask E tid' s = (r, s')"
  from lockTask_rows [OF run] assms i show "finish_fixed tid fl (db s')"
    by (auto simp: finish_fixed_def find_row_update)
qed

lemma fixed_world: "keeps (\<lambda>s. finish_fixed tid fl (db s)) (now E)" "keeps (\<lambda>s. finish_fixed tid fl (db s)) (newId E p)"
  by (simp_all add: keeps_now keeps_newId)

lemma fixed_appendEvent: "keeps (\<lambda>s. finish_fixed tid fl (db s)) (appendEvent E t r ty ref p)"
  by (rule keepsI) (metis appendEvent_frame finish_fixed_cong)

lemma fixed_insertTask: "keeps (\<lambda>s. finish_fixed tid fl (db s)) (insertTask E t)"
  unfolding insertTask_def
  by (intro keeps_rules fixed_world) (auto simp: keeps_def modify_db_def modify_def finish_fixed_def find_row_append split: option.splits)

lemma fixed_createDraftTask: "keeps (\<lambda>s. finish_fixed tid fl (db s)) (createDraftTask E i)"
  unfolding createDraftTask_def by (intro keeps_rules fixed_world fixed_insertTask fixed_appendEvent)

lemma createDraftTask_new:
  assumes "createDraftTask E i s = (Inr t, s')" and "finish_fixed tid fl (db s)"
  shows "tid \<noteq> t_task_id t"
proof -
  from assms(1) obtain x s1 s2 where "insertTask E x s1 = (Inr t, s2)" and "db s1 = db s"
    by (auto simp: createDraftTask_def run_iff newId_def split: option.splits if_splits)
  then have "t_task_id t \<notin> t_task_id ` set (tasks (db s))"
    by (auto simp: insertTask_def run_iff now_def Let_def)
  moreover obtain d where "find_row t_task_id (tasks (db s)) tid = Some d" using assms(2) by (auto simp: finish_fixed_def)
  then have "tid \<in> t_task_id ` set (tasks (db s))" by (force dest: find_row_Some)
  ultimately show ?thesis by blast
qed

lemma fixed_createAndLockTask: "keeps (\<lambda>s. finish_fixed tid fl (db s)) (createAndLockTask E i)"
proof (rule keepsI)
  fix s r s' assume i: "finish_fixed tid fl (db s)" and run: "createAndLockTask E i s = (r, s')"
  obtain x s1 where dr: "createDraftTask E i s = (x, s1)" by fastforce
  have i1: "finish_fixed tid fl (db s1)" by (rule keepsD [OF fixed_createDraftTask i dr])
  show "finish_fixed tid fl (db s')"
  proof (cases x)
    case (Inl e)
    with run dr i1 show ?thesis by (simp add: createAndLockTask_def bnd_def)
  next
    case (Inr t)
    with run dr have lock: "lockTask E (t_task_id t) s1 = (r, s')" by (simp add: createAndLockTask_def bnd_def)
    from createDraftTask_new [OF dr [unfolded Inr] i] have "tid \<noteq> t_task_id t" .
    from keepsD [OF fixed_lockTask_other [OF this] i1 lock] show ?thesis .
  qed
qed

interpretation finish: db_frame E "finish_fixed tid fl" for E tid fl
  by unfold_locales (simp_all add: fixed_updateTaskStatus fixed_createAndLockTask)

end
