(* ===== verification/Review.thy ===== *)
theory Review
  imports CandidateRegistry FinishLine
begin

text \<open>
  The independent review (\<open>src/builder/codex-review.js\<close>): the prompt, the reader of the
  reviewer's output, the command-line invoker with its single fallback, the review of an exact
  candidate, the gate, and the live authority of a review. The reviewer's process, the diff and
  the invoker are parameters. Shown: the gate opens exactly when the verifier and (where it is
  required) the reviewer passed the same commit, a review starts only from an authoritative
  verification of the exact commit, an unreadable answer is never a pass, a printed review is
  read back, and an authoritative review implies an authoritative verification.
\<close>

definition codexReviewError :: "string \<Rightarrow> string \<Rightarrow> js_error" where
  "codexReviewError msg code = codedError CodexReviewError msg code"

section \<open>Reading the reviewer's output\<close>

text \<open>\<open>text.split(/\r?\n/)\<close>.\<close>

fun split_lines :: "string \<Rightarrow> string list" where
  "split_lines [] = [[]]"
| "split_lines (c # cs) =
     (if c = CHR 0x0A then [] # split_lines cs
      else if c = CHR 0x0D \<and> cs \<noteq> [] \<and> hd cs = CHR 0x0A then [] # split_lines (tl cs)
      else (case split_lines cs of [] \<Rightarrow> [[c]] | l # ls \<Rightarrow> (c # l) # ls))"

text \<open>\<open>r.test(s)\<close>: a match somewhere.\<close>

fun rx_search :: "rx \<Rightarrow> string \<Rightarrow> string \<Rightarrow> bool" where
  "rx_search r pre [] = (results r (pre, [], []) \<noteq> [])"
| "rx_search r pre (c # cs) = (results r (pre, c # cs, []) \<noteq> [] \<or> rx_search r (c # pre) cs)"

definition rx_test :: "rx \<Rightarrow> string \<Rightarrow> bool" where
  "rx_test r s = rx_search r [] s"

definition isCodexModelCapacityOrUnavailable :: "string \<Rightarrow> bool" where
  "isCodexModelCapacityOrUnavailable text =
    (if rx_test (alts (lit_i ''unauthorized'') (map lit_i [''authentication'', ''auth failed'', ''invalid api key'',
          ''login required'', ''forbidden'', ''policy'', ''permission denied'', ''not logged in''])) text then False
     else rx_test (alts (lit_i ''at capacity'') [lit_i ''selected model is at capacity'',
          Seq (lit_i ''model '') (Seq any_chars (lit_i '' unavailable'')), lit_i ''unavailable model'', lit_i ''unknown model'',
          lit_i ''model_not_found'', lit_i ''model not found'', lit_i ''try a different model'']) text)"

datatype parsed_review = ParsedReview review_status "string list" | ReviewUnreadable string

definition parse_review_status :: "js option \<Rightarrow> review_status option" where
  "parse_review_status v = List.find (\<lambda>st. v = Some (JStr (review_status_name st))) [RV_PASS, RV_REQUEST_CHANGES, RV_BLOCKED]"

fun is_str :: "js \<Rightarrow> bool" where
  "is_str (JStr s) = True"
| "is_str _ = False"

definition string_list :: "js option \<Rightarrow> string list option" where
  "string_list v = (case v of
      Some (JArr xs) \<Rightarrow> if list_all is_str xs then Some (map js_String xs) else None
    | _ \<Rightarrow> None)"

text \<open>The texts one line of the output contributes.\<close>

definition line_texts :: "string \<Rightarrow> string list" where
  "line_texts line = (case json_parse line of
      None \<Rightarrow> []
    | Some event \<Rightarrow>
       (let item = (case js_get event ''item'' of None \<Rightarrow> JNull | Some v \<Rightarrow> v) in
        (case (js_get item ''type'', js_get item ''text'') of
           (Some ty, Some (JStr txt)) \<Rightarrow> if ty = JStr ''agent_message'' then [txt] else []
         | _ \<Rightarrow> []) @
        (case js_get event ''result'' of Some (JStr txt) \<Rightarrow> [txt] | _ \<Rightarrow> []) @
        (if js_truthy event \<and> \<not> opt_truthy (js_get event ''type'') \<and> \<not> opt_truthy (js_get event ''item'')
            \<and> \<not> opt_truthy (js_get event ''result'')
         then [line] else [])))"

definition read_review :: "string \<Rightarrow> (review_status \<times> string list) option" where
  "read_review text = (case json_parse (trim text) of
      Some (JObj kvs) \<Rightarrow>
        (case (parse_review_status (js_get (JObj kvs) ''review_status''), string_list (js_get (JObj kvs) ''findings'')) of
           (Some st, Some fs) \<Rightarrow> Some (st, fs)
         | _ \<Rightarrow> None)
    | _ \<Rightarrow> None)"

primrec first_review :: "string list \<Rightarrow> parsed_review" where
  "first_review [] = ReviewUnreadable ''REVIEW_PROTOCOL_ERROR''"
| "first_review (t # ts) = (case read_review t of Some (st, fs) \<Rightarrow> ParsedReview st fs | None \<Rightarrow> first_review ts)"

definition review_texts :: "string \<Rightarrow> string list" where
  "review_texts output = concat (map line_texts (split_lines output)) @ [trim output]"

definition parseCodexReviewOutput :: "js option \<Rightarrow> parsed_review" where
  "parseCodexReviewOutput output = (case output of
      Some (JStr text) \<Rightarrow> first_review (rev (review_texts text))
    | _ \<Rightarrow> ReviewUnreadable ''EMPTY_OUTPUT'')"

section \<open>The prompt\<close>

text \<open>\<open>JSON.stringify(v, null, 2)\<close>, with \<open>n\<close> the current indentation.\<close>

fun json_indented :: "nat \<Rightarrow> js \<Rightarrow> string" where
  "json_indented n (JArr xs) = (if xs = [] then ''[]'' else
     CHR ''['' # CHR 0x0A # join_with [CHR '','', CHR 0x0A] (map (\<lambda>x. replicate (n + 2) CHR '' '' @ json_indented (n + 2) x) xs)
       @ CHR 0x0A # replicate n CHR '' '' @ '']'')"
| "json_indented n (JObj kvs) = (if kvs = [] then ''{}'' else
     CHR ''{'' # CHR 0x0A # join_with [CHR '','', CHR 0x0A]
       (map (\<lambda>(k, v). replicate (n + 2) CHR '' '' @ json_quote k @ '': '' @ json_indented (n + 2) v) kvs)
       @ CHR 0x0A # replicate n CHR '' '' @ ''}'')"
| "json_indented n v = json_stringify v"

definition show_null :: "string option \<Rightarrow> string" where
  "show_null x = (case x of None \<Rightarrow> ''null'' | Some s \<Rightarrow> s)"

definition buildCodexReviewPrompt :: "task \<Rightarrow> candidate \<Rightarrow> verification \<Rightarrow> string \<Rightarrow> string" where
  "buildCodexReviewPrompt task candidate verification diff = join_with [CHR 0x0A]
    [''You are the independent READ-ONLY Codex reviewer for JARVIS Builder Stage 1.'',
     ''ROLE LIMITS (hard):'',
     ''- Do NOT modify code, tests, acceptance criteria, or git state.'',
     ''- Do NOT approve, merge, or mark the task DONE.'',
     ''- Do NOT treat the implementation worker self-report as evidence.'',
     ''- Review only. Output JSON matching the provided schema.'',
     [],
     ''candidate_id: '' @ c_candidate_id candidate,
     ''commit_sha: '' @ show_null (c_commit_sha candidate),
     ''task_id: '' @ t_task_id task,
     ''locked_intent: '' @ t_intent task,
     ''locked_acceptance_ref: '' @ t_acceptance_ref task,
     ''allowed_paths: '' @ json_stringify (JArr (map JStr (t_allowed_paths task))),
     ''deterministic_verification_result: '' @ verification_result_name (v_result verification),
     ''deterministic_verification_id: '' @ v_verification_id verification,
     ''deterministic_checks:'',
     json_indented 0 (if js_truthy (v_checks verification) then v_checks verification else JArr []),
     [],
     ''CANDIDATE DIFF (exact SHA; truncated if large):'',
     (if diff = [] then ''(no diff provided)'' else diff),
     [],
     ''EVIDENCE RULES:'',
     ''- The supplied CANDIDATE DIFF is authoritative for this exact commit_sha.'',
     ''- Do NOT require the commit to exist in the local git checkout.'',
     ''- Do NOT emit intermediate schema JSON. Emit the schema JSON once as the final answer only.'',
     ''- Prefer the supplied diff + deterministic_checks over exploratory shell commands.'',
     [],
     ''Return ONLY JSON: {'' @ [CHR 0x22] @ ''review_status'' @ [CHR 0x22, CHR '':'', CHR 0x22] @ ''PASS|REQUEST_CHANGES|BLOCKED''
       @ [CHR 0x22, CHR '','', CHR 0x22] @ ''findings'' @ [CHR 0x22] @ '':[]}.'',
     ''Use REQUEST_CHANGES for material defects; BLOCKED if you cannot complete a safe review.'']"

section \<open>The command-line invoker\<close>

record exec_failure =
  xf_stdout :: "string option"
  xf_stderr :: "string option"
  xf_message :: "string option"
  xf_code :: "string option"
  xf_name :: "string option"

text \<open>
  \<open>exec n k args\<close>: what the \<open>k\<close>-th process of the \<open>n\<close>-th review prints, or how it fails.
  An error with no output and no message prints as its name.
\<close>

type_synonym codex_exec = "nat \<Rightarrow> nat \<Rightarrow> string list \<Rightarrow> exec_failure + string"

definition failure_raw :: "exec_failure \<Rightarrow> string" where
  "failure_raw err = (case or_str (xf_stdout err) (or_str (xf_stderr err) (or_str (xf_message err) None)) of
      Some s \<Rightarrow> s | None \<Rightarrow> (case xf_name err of None \<Rightarrow> ''Error'' | Some n \<Rightarrow> n))"

definition event_error_message :: "string \<Rightarrow> string option" where
  "event_error_message line = (case json_parse line of
      None \<Rightarrow> None
    | Some ev \<Rightarrow>
       (let ty = js_get ev ''type''; msg = js_get ev ''message'';
            emsg = (case js_get ev ''error'' of None \<Rightarrow> None | Some e \<Rightarrow> js_get e ''message'') in
        if ty = Some (JStr ''error'') \<and> opt_truthy msg then Some (take 400 (opt_String msg))
        else if ty = Some (JStr ''turn.failed'') \<and> opt_truthy emsg then Some (take 400 (opt_String emsg))
        else None))"

definition extractInvokerErrorMessage :: "string \<Rightarrow> string" where
  "extractInvokerErrorMessage raw =
    (let lines = filter (\<lambda>l. trim l \<noteq> []) (split_lines raw) in
     (case List.find (\<lambda>l. event_error_message l \<noteq> None) (rev lines) of
        Some l \<Rightarrow> the (event_error_message l)
      | None \<Rightarrow> take 400 (if lines = [] then ''codex failed'' else last lines)))"

definition turn_event :: "string \<Rightarrow> rx" where
  "turn_event name = Seq (lit_i (CHR 0x22 # ''type'' @ [CHR 0x22])) (Seq spaces (Seq (lit '':'') (Seq spaces
     (lit_i (CHR 0x22 # name @ [CHR 0x22])))))"

definition model_js :: "string \<Rightarrow> js" where
  "model_js m = (if m = [] then JNull else JStr m)"

definition codex_args :: "string \<Rightarrow> string \<Rightarrow> string \<Rightarrow> string \<Rightarrow> string list" where
  "codex_args repoRoot schemaPath modelId prompt =
     [''-a'', ''never'', ''exec'', ''-C'', repoRoot, ''-s'', ''read-only'', ''--ephemeral'', ''--json'', ''--output-schema'', schemaPath]
     @ (if modelId = [] then [] else [''-m'', modelId]) @ [prompt]"

definition runOnce :: "(string list \<Rightarrow> exec_failure + string) \<Rightarrow> string \<Rightarrow> string \<Rightarrow> string \<Rightarrow> string \<Rightarrow> (string \<times> js) list" where
  "runOnce exec repoRoot schemaPath prompt modelId = (case exec (codex_args repoRoot schemaPath modelId prompt) of
      Inr out \<Rightarrow> [(''ok'', JBool True), (''raw'', JStr out), (''model'', model_js modelId)]
    | Inl err \<Rightarrow>
       (let raw = failure_raw err;
            timedOut = rx_test (Alt (lit_i ''ETIMEDOUT'') (lit_i ''timed out''))
              (case or_str (xf_code err) (or_str (xf_message err) None) of None \<Rightarrow> [] | Some s \<Rightarrow> s);
            failed = rx_test (turn_event ''turn.failed'') raw;
            completed = rx_test (turn_event ''turn.completed'') raw \<or> failed;
            readable = (case parseCodexReviewOutput (Some (JStr raw)) of ParsedReview _ _ \<Rightarrow> True | ReviewUnreadable _ \<Rightarrow> False) in
        if readable \<and> completed \<and> \<not> failed
        then [(''ok'', JBool True), (''raw'', JStr raw), (''model'', model_js modelId), (''recovered_from_nonzero_exit'', JBool True)]
        else [(''ok'', JBool False), (''raw'', JStr raw), (''model'', model_js modelId),
              (''error'', JObj [(''name'', JStr (case or_str (xf_name err) None of None \<Rightarrow> ''Error'' | Some n \<Rightarrow> n)),
                 (''message'', JStr (extractInvokerErrorMessage raw)),
                 (''code'', JStr (if timedOut then ''TIMEOUT'' else ''CODEX_INVOKE_FAILED'')), (''retryable'', JBool False)])]))"

record review_invoker =
  iv_mode :: string
  iv_primary_model :: js
  iv_fallback_model :: js
  iv_review :: "nat \<Rightarrow> string \<Rightarrow> js_error + js"

definition codex_review :: "codex_exec \<Rightarrow> string \<Rightarrow> string \<Rightarrow> string \<Rightarrow> string \<Rightarrow> nat \<Rightarrow> string \<Rightarrow> js" where
  "codex_review exec repoRoot schemaPath model fallbackModel n prompt =
    (let primary = runOnce (exec n 0) repoRoot schemaPath prompt model;
         single = JObj (primary @ [(''primary_model'', model_js model), (''fallback_model'', JNull), (''fallback_used'', JBool False),
                    (''attempts'', JNum 1)]);
         why = (let raw = map_of primary ''raw'' in
                if opt_truthy raw then raw else (case map_of primary ''error'' of None \<Rightarrow> None | Some e \<Rightarrow> js_get e ''message'')) in
     if opt_truthy (map_of primary ''ok'') then single
     else if fallbackModel \<noteq> [] \<and> fallbackModel \<noteq> model \<and>
             isCodexModelCapacityOrUnavailable (if opt_truthy why then opt_String why else [])
     then JObj (runOnce (exec n 1) repoRoot schemaPath prompt fallbackModel @
            [(''primary_model'', model_js model), (''fallback_model'', model_js fallbackModel), (''fallback_used'', JBool True),
             (''primary_error'', (case map_of primary ''error'' of None \<Rightarrow> JNull | Some e \<Rightarrow> e)), (''attempts'', JNum 2)])
     else single)"

definition createCodexReviewInvoker :: "codex_exec \<Rightarrow> string \<Rightarrow> string \<Rightarrow> string \<Rightarrow> string \<Rightarrow> review_invoker" where
  "createCodexReviewInvoker exec repoRoot schemaPath model fallbackModel =
     \<lparr>iv_mode = ''read-only'', iv_primary_model = model_js model, iv_fallback_model = model_js fallbackModel,
      iv_review = (\<lambda>n prompt. Inr (codex_review exec repoRoot schemaPath model fallbackModel n prompt))\<rparr>"

section \<open>The gate\<close>

datatype gate_status = G_PASS | G_FAIL | G_BLOCKED

record review_gate =
  g_ok :: bool
  g_status :: gate_status
  g_reason :: string
  g_bypassed :: bool

definition gate :: "bool \<Rightarrow> gate_status \<Rightarrow> string \<Rightarrow> review_gate" where
  "gate ok st reason = \<lparr>g_ok = ok, g_status = st, g_reason = reason, g_bypassed = False\<rparr>"

definition evaluateReviewGate :: "task \<Rightarrow> verification option \<Rightarrow> review option \<Rightarrow> review_gate" where
  "evaluateReviewGate task verification review = (case verification of
      None \<Rightarrow> gate False G_BLOCKED ''deterministic_verification_missing_or_invalid''
    | Some v \<Rightarrow>
      if v_invalidated_at v \<noteq> None then gate False G_BLOCKED ''deterministic_verification_missing_or_invalid''
      else if v_result v \<noteq> V_PASS then
        gate False (if v_result v = V_FAIL then G_FAIL else G_BLOCKED) ''deterministic_verification_not_pass''
      else if \<not> t_review_required task then
        \<lparr>g_ok = True, g_status = G_PASS, g_reason = ''review_required_false_verifier_pass'', g_bypassed = True\<rparr>
      else (case review of
          None \<Rightarrow> gate False G_BLOCKED ''review_required_missing''
        | Some r \<Rightarrow>
          if rv_invalidated_at r \<noteq> None then gate False G_BLOCKED ''review_invalidated''
          else if rv_commit_sha r \<noteq> v_commit_sha v then gate False G_BLOCKED ''review_sha_mismatch''
          else if rv_candidate_id r \<noteq> v_candidate_id v then gate False G_BLOCKED ''review_candidate_mismatch''
          else (case rv_review_status r of
              RV_PASS \<Rightarrow> gate True G_PASS ''codex_pass''
            | RV_REQUEST_CHANGES \<Rightarrow> gate False G_FAIL ''request_changes''
            | RV_BLOCKED \<Rightarrow> gate False G_BLOCKED ''review_blocked'')))"

section \<open>Reviewing a candidate\<close>

type_synonym diff_source = "nat \<Rightarrow> string \<times> candidate \<times> task \<Rightarrow> js_error + js"

definition review_subject :: "env \<Rightarrow> string \<Rightarrow> (candidate \<times> task) cact" where
  "review_subject E cid =
     bnd (getCandidate cid) (\<lambda>found. case found of
       None \<Rightarrow> throw (codexReviewError (''unknown candidate_id: '' @ cid) ''UNKNOWN_CANDIDATE'')
     | Some c \<Rightarrow>
     bnd (getTask (c_task_id c)) (\<lambda>tfound. case tfound of
       None \<Rightarrow> throw (codexReviewError (''unknown task_id: '' @ c_task_id c) ''UNKNOWN_TASK'')
     | Some task \<Rightarrow>
     bnd (getRun (c_factory_run_id c)) (\<lambda>rfound. case rfound of
       None \<Rightarrow> throw (codexReviewError ''candidate factory_run_id missing'' ''MISSING_RUN'')
     | Some run \<Rightarrow>
       if r_status run = R_STALE \<or> r_status run = R_CANCELLED then
         thn (appendEvent E (Some (t_task_id task)) (Some (r_factory_run_id run)) STALE_RUN_REJECTED None
                (JObj [(''reason'', JStr ''review_from_cancelled_or_stale_run''),
                       (''status'', JStr (run_status_name (r_status run))), (''candidate_id'', JStr cid)]))
             (throw (builderCoreError (''cancelled/stale run cannot authorize review: '' @ r_factory_run_id run) ''STALE_RUN''))
       else ret (c, task))))"

text \<open>A verification object the caller hands in only counts by its identifier.\<close>

definition required_verification :: "string \<Rightarrow> candidate \<Rightarrow> string \<Rightarrow> verification option \<Rightarrow> verification cact" where
  "required_verification cid c sha presented =
     thn (guard (\<forall>p \<in> set_option presented. v_verification_id p \<noteq> [] \<and> c_verification_ref c = Some (v_verification_id p))
            (verifierError ''Codex review requires the candidate current stored verification_ref'' ''VERIFIER_REQUIRED_FIRST''))
    (bnd (if truthy_str (c_verification_ref c) then getVerification (the (c_verification_ref c)) else ret None) (\<lambda>found.
     case found of
       None \<Rightarrow> throw (verifierError ''Codex review requires prior deterministic PASS on the exact candidate'' ''VERIFIER_REQUIRED_FIRST'')
     | Some ver \<Rightarrow>
       bnd (isVerificationAuthoritative (v_verification_id ver)) (\<lambda>live.
       thn (guard live (verifierError ''Codex review requires prior deterministic PASS on the exact candidate'' ''VERIFIER_REQUIRED_FIRST''))
      (thn (guard (v_commit_sha ver = sha \<and> v_candidate_id ver = cid)
              (codexReviewError ''verification is not bound to this candidate/SHA'' ''SHA_MISMATCH''))
           (ret ver)))))"

definition store_review :: "env \<Rightarrow> string \<Rightarrow> string \<Rightarrow> review_status \<Rightarrow> string list \<Rightarrow> js \<Rightarrow> review cact" where
  "store_review E cid sha st findings evidence =
     bnd (newId E ''rev'') (\<lambda>rid.
     bnd (now E) (\<lambda>ts.
     bnd (insertReview \<lparr>rv_review_id = rid, rv_candidate_id = cid, rv_commit_sha = sha, rv_review_status = st,
            rv_findings = JArr (map JStr findings), rv_evidence = Some evidence, rv_reviewed_at = ts,
            rv_invalidated_at = None, rv_invalidation_reason = None\<rparr>) (\<lambda>review.
     thn (updateCandidate cid (\<lambda>c. c\<lparr>c_review_ref := Some (rv_review_id review)\<rparr>)) (ret review))))"

definition review_event :: "env \<Rightarrow> event_type \<Rightarrow> task \<Rightarrow> candidate \<Rightarrow> string \<Rightarrow> string \<Rightarrow> string \<Rightarrow> (string \<times> js) list \<Rightarrow> unit cact" where
  "review_event E ty task c cid sha rid extra =
     appendEvent E (Some (t_task_id task)) (Some (c_factory_run_id c)) ty None
       (JObj ([(''review_id'', JStr rid), (''candidate_id'', JStr cid), (''commit_sha'', JStr sha)] @ extra))"

definition reload_gate :: "task \<Rightarrow> verification \<Rightarrow> review \<Rightarrow> review_gate cact" where
  "reload_gate task ver review =
     bnd (getTask (t_task_id task)) (\<lambda>found. case found of
       None \<Rightarrow> throw (nativeError ''TypeError'' ''Cannot read properties of null (reading 'review_required')'')
     | Some t \<Rightarrow> ret (evaluateReviewGate t (Some ver) (Some review)))"

definition block_task :: "env \<Rightarrow> task \<Rightarrow> unit cact" where
  "block_task E task = (if t_status task \<noteq> T_BLOCKED
     then thn (updateTaskStatus E (t_task_id task) ''BLOCKED'') (ret ()) else ret ())"

definition nullish :: "js option \<Rightarrow> js option \<Rightarrow> js" where
  "nullish a b = (case a of Some v \<Rightarrow> if v = JNull then (case b of Some w \<Rightarrow> w | None \<Rightarrow> JNull) else v
     | None \<Rightarrow> (case b of Some w \<Rightarrow> w | None \<Rightarrow> JNull))"

definition modelEvidence :: "review_invoker \<Rightarrow> js \<Rightarrow> (string \<times> js) list" where
  "modelEvidence iv invoked =
    [(''primary_model'', nullish (js_get invoked ''primary_model'') (Some (iv_primary_model iv))),
     (''fallback_model'', if opt_truthy (js_get invoked ''fallback_used'')
        then nullish (js_get invoked ''fallback_model'') (Some (iv_fallback_model iv)) else JNull),
     (''fallback_used'', JBool (opt_truthy (js_get invoked ''fallback_used''))),
     (''model_used'', nullish (js_get invoked ''model'') None),
     (''attempts'', nullish (js_get invoked ''attempts'') (Some (JNum 1)))]"

definition or_empty :: "js option \<Rightarrow> string" where
  "or_empty v = (if opt_truthy v then opt_String v else [])"

definition codex_failed :: "env \<Rightarrow> review_invoker \<Rightarrow> candidate \<Rightarrow> task \<Rightarrow> verification \<Rightarrow> string \<Rightarrow> string \<Rightarrow> js \<Rightarrow> (review \<times> review_gate) cact" where
  "codex_failed E iv c task ver cid sha invoked =
    (let err = js_get invoked ''error''; msg = (case err of None \<Rightarrow> None | Some e \<Rightarrow> js_get e ''message'') in
     bnd (store_review E cid sha RV_BLOCKED
            [''Codex unavailable/error/timeout: '' @ (if opt_truthy msg then opt_String msg else ''unknown'')]
            (JObj ([(''error'', if opt_truthy err then the err else JObj [(''code'', JStr ''CODEX_UNAVAILABLE'')]),
                    (''raw_excerpt'', JStr (take 8000 (or_empty (js_get invoked ''raw''))))] @ modelEvidence iv invoked))) (\<lambda>review.
     thn (review_event E REVIEW_RECORDED task c cid sha (rv_review_id review) [(''review_status'', JStr ''BLOCKED'')])
    (thn (block_task E task)
    (bnd (reload_gate task ver review) (\<lambda>g. ret (review, g))))))"

definition codex_unreadable :: "env \<Rightarrow> review_invoker \<Rightarrow> task \<Rightarrow> verification \<Rightarrow> string \<Rightarrow> string \<Rightarrow> js \<Rightarrow> string \<Rightarrow> (review \<times> review_gate) cact" where
  "codex_unreadable E iv task ver cid sha invoked code =
     bnd (store_review E cid sha RV_BLOCKED [''Codex review protocol error: '' @ code]
            (JObj ([(''error'', JObj [(''code'', JStr code)]), (''raw_excerpt'', JStr (take 2000 (or_empty (js_get invoked ''raw''))))]
                   @ modelEvidence iv invoked))) (\<lambda>review.
     thn (block_task E task)
    (bnd (reload_gate task ver review) (\<lambda>g. ret (review, g))))"

definition codex_answered :: "env \<Rightarrow> review_invoker \<Rightarrow> candidate \<Rightarrow> task \<Rightarrow> verification \<Rightarrow> string \<Rightarrow> string \<Rightarrow> js \<Rightarrow> review_status \<Rightarrow> string list
     \<Rightarrow> (review \<times> review_gate) cact" where
  "codex_answered E iv c task ver cid sha invoked st findings =
     bnd (store_review E cid sha st findings
            (JObj ([(''verification_id'', JStr (v_verification_id ver)),
                    (''invoker_mode'', JStr (if iv_mode iv = [] then ''read-only'' else iv_mode iv)),
                    (''raw_excerpt'', JStr (take 2000 (or_empty (js_get invoked ''raw''))))] @ modelEvidence iv invoked))) (\<lambda>review.
     thn (review_event E REVIEW_RECORDED task c cid sha (rv_review_id review)
            [(''review_status'', JStr (review_status_name (rv_review_status review)))])
    (bnd (reload_gate task ver review) (\<lambda>g.
     thn (if \<not> g_ok g \<and> st = RV_REQUEST_CHANGES
          then thn (updateCandidate cid (\<lambda>c. c\<lparr>c_status := C_REJECTED\<rparr>)) (ret ()) else ret ())
         (ret (review, g)))))"

definition ask_codex :: "env \<Rightarrow> review_invoker \<Rightarrow> diff_source \<Rightarrow> candidate \<Rightarrow> task \<Rightarrow> verification \<Rightarrow> string \<Rightarrow> string \<Rightarrow> (review \<times> review_gate) cact" where
  "ask_codex E iv getDiff c task ver cid sha =
     bnd (call_out getDiff (sha, c, task)) (\<lambda>diff.
     bnd (call_out (iv_review iv) (buildCodexReviewPrompt task c ver (take 120000 (or_empty (Some diff))))) (\<lambda>invoked.
     if \<not> opt_truthy (js_get invoked ''ok'') then codex_failed E iv c task ver cid sha invoked
     else (case parseCodexReviewOutput (js_get invoked ''raw'') of
         ReviewUnreadable code \<Rightarrow> codex_unreadable E iv task ver cid sha invoked code
       | ParsedReview st findings \<Rightarrow> codex_answered E iv c task ver cid sha invoked st findings)))"

definition decide_review ::
  "env \<Rightarrow> review_invoker option \<Rightarrow> diff_source \<Rightarrow> candidate \<Rightarrow> task \<Rightarrow> verification \<Rightarrow> string \<Rightarrow> string \<Rightarrow> (review \<times> review_gate) cact" where
  "decide_review E invoker getDiff c task ver cid sha =
    (if \<not> t_review_required task then
       bnd (store_review E cid sha RV_PASS [''review_required=false; Codex bypassed; deterministic verifier remains mandatory'']
              (JObj [(''bypassed'', JBool True), (''reason'', JStr ''review_required_false''),
                     (''verification_id'', JStr (v_verification_id ver))])) (\<lambda>bypass.
       thn (review_event E REVIEW_BYPASSED task c cid sha (rv_review_id bypass) [])
           (ret (bypass, evaluateReviewGate task (Some ver) (Some bypass))))
     else (case invoker of
         None \<Rightarrow>
           bnd (store_review E cid sha RV_BLOCKED [''Codex invoker unavailable'']
                  (JObj [(''error'', JObj [(''code'', JStr ''INVOKER_MISSING'')])])) (\<lambda>blocked.
           ret (blocked, evaluateReviewGate task (Some ver) (Some blocked)))
       | Some iv \<Rightarrow> ask_codex E iv getDiff c task ver cid sha))"

definition reviewExactCandidate ::
  "env \<Rightarrow> string \<Rightarrow> review_invoker option \<Rightarrow> diff_source \<Rightarrow> verification option \<Rightarrow> (review \<times> review_gate) cact" where
  "reviewExactCandidate E cid invoker getDiff presented =
     bnd (review_subject E cid) (\<lambda>(c, task).
     bnd (lift (assertCommitSha (c_commit_sha c))) (\<lambda>sha.
     bnd (required_verification cid c sha presented) (\<lambda>ver.
     decide_review E invoker getDiff c task ver cid sha)))"

section \<open>Authority\<close>

definition isReviewAuthoritative :: "string \<Rightarrow> bool cact" where
  "isReviewAuthoritative rvid =
     bnd (getReview rvid) (\<lambda>found. case found of
       None \<Rightarrow> ret False
     | Some review \<Rightarrow>
       if rv_invalidated_at review \<noteq> None then ret False
       else if rv_review_status review \<noteq> RV_PASS then ret False
       else bnd (getCandidate (rv_candidate_id review)) (\<lambda>cand. case cand of
          None \<Rightarrow> ret False
        | Some c \<Rightarrow>
          if c_status c \<noteq> C_VERIFIED then ret False
          else if c_review_ref c \<noteq> Some rvid then ret False
          else if c_commit_sha c \<noteq> Some (rv_commit_sha review) then ret False
          else if \<not> truthy_str (c_verification_ref c) then ret False
          else if (case rv_evidence review of None \<Rightarrow> None | Some e \<Rightarrow> js_get e ''verification_id'')
                    \<noteq> Some (JStr (the (c_verification_ref c))) then ret False
          else isVerificationAuthoritative (the (c_verification_ref c))))"

definition REVIEWER_FORBIDDEN :: "string list" where
  "REVIEWER_FORBIDDEN = [''intent'', ''acceptance_ref'', ''allowed_paths'', ''tool_manifest'', ''content_hash'', ''proposal_id'', ''review_required'']"

definition assertReviewerCannotMutate :: "js \<Rightarrow> js_error + unit" where
  "assertReviewerCannotMutate patch = (case List.find (\<lambda>k. js_get patch k \<noteq> None) REVIEWER_FORBIDDEN of
      Some key \<Rightarrow> Inl (codexReviewError (''reviewer cannot mutate locked field: '' @ key) ''REVIEWER_MUTATION_FORBIDDEN'')
    | None \<Rightarrow>
       if opt_truthy (js_get patch ''commit_sha'')
       then Inl (codexReviewError ''reviewer cannot mutate candidate commit_sha'' ''REVIEWER_MUTATION_FORBIDDEN'')
       else Inr ())"

lemma keeps_parsed_review [keeps_rules]:
  "(\<And>st fs. keeps I (f st fs)) \<Longrightarrow> (\<And>c. keeps I (g c)) \<Longrightarrow>
   keeps I (case p of ParsedReview st fs \<Rightarrow> f st fs | ReviewUnreadable c \<Rightarrow> g c)"
  by (cases p) simp_all

context core_frame
begin

lemma review_subject_I [keeps_rules]: "keeps I (review_subject E cid)"
  unfolding review_subject_def by (intro keeps_rules)

lemma required_verification_I [keeps_rules]: "keeps I (required_verification cid c sha p)"
  unfolding required_verification_def by (intro keeps_rules)

lemma store_review_I [keeps_rules]: "keeps I (store_review E cid sha st fs ev)"
  unfolding store_review_def by (intro keeps_rules) simp

lemma review_parts_I [keeps_rules]:
  "keeps I (review_event E ty t c cid sha rid x)" "keeps I (reload_gate t v r)" "keeps I (block_task E t)"
  unfolding review_event_def reload_gate_def block_task_def by (intro keeps_rules)+

lemma codex_outcomes_I [keeps_rules]:
  "keeps I (codex_failed E iv c t v cid sha x)" "keeps I (codex_unreadable E iv t v cid sha x code)"
  "keeps I (codex_answered E iv c t v cid sha x st fs)"
  unfolding codex_failed_def codex_unreadable_def codex_answered_def Let_def by (intro keeps_rules; simp)+

lemma ask_codex_I [keeps_rules]: "keeps I (ask_codex E iv gd c t v cid sha)"
  unfolding ask_codex_def by (intro keeps_rules ticks_I)

lemma reviewExactCandidate_I [keeps_rules]: "keeps I (reviewExactCandidate E cid iv gd p)"
  unfolding reviewExactCandidate_def decide_review_def by (intro keeps_rules)

lemma isReviewAuthoritative_I [keeps_rules]: "keeps I (isReviewAuthoritative rv)"
  unfolding isReviewAuthoritative_def by (intro keeps_rules)

end

section \<open>Properties\<close>

lemma gate_open:
  "g_ok (evaluateReviewGate task verification review) \<longleftrightarrow>
     (\<exists>v. verification = Some v \<and> v_invalidated_at v = None \<and> v_result v = V_PASS \<and>
       (t_review_required task \<longrightarrow> (\<exists>r. review = Some r \<and> rv_invalidated_at r = None \<and> rv_review_status r = RV_PASS \<and>
          rv_commit_sha r = v_commit_sha v \<and> rv_candidate_id r = v_candidate_id v)))"
  by (auto simp: evaluateReviewGate_def gate_def split: option.splits review_status.splits)

text \<open>
  C17. The gate opens exactly when the deterministic verification exists, was not invalidated
  and passed, and, for a task that requires review, the review exists, was not invalidated,
  passed, and is of the same candidate and the same commit as the verification.
\<close>

theorem review_gate_open:
  "g_ok (evaluateReviewGate task verification review) \<longleftrightarrow>
     verification \<noteq> None \<and> v_invalidated_at (the verification) = None \<and> v_result (the verification) = V_PASS \<and>
     (if t_review_required task then review \<noteq> None \<and> rv_invalidated_at (the review) = None \<and> rv_review_status (the review) = RV_PASS \<and>
        rv_commit_sha (the review) = v_commit_sha (the verification) \<and>
        rv_candidate_id (the review) = v_candidate_id (the verification) else True)"
  by (auto simp: gate_open)

lemma trim_braces: "trim (CHR ''{'' # xs @ ''}'') = CHR ''{'' # xs @ ''}''"
  by (simp add: trim_def is_space_def)

lemma parse_review_status_name [simp]: "parse_review_status (Some (JStr (review_status_name st))) = Some st"
  by (cases st) (simp_all add: parse_review_status_def)

lemma string_list_strings [simp]: "string_list (Some (JArr (map JStr fs))) = Some fs"
  by (simp add: string_list_def list_all_iff comp_def)

lemma parse_printed_review:
  assumes "wf_js (JObj kvs)" and "map_of kvs ''review_status'' = Some (JStr (review_status_name st))"
    and "map_of kvs ''findings'' = Some (JArr (map JStr fs))"
  shows "parseCodexReviewOutput (Some (JStr (json_stringify (JObj kvs)))) = ParsedReview st fs"
proof -
  have t: "trim (json_stringify (JObj kvs)) = json_stringify (JObj kvs)" by (simp add: trim_braces)
  have "read_review (json_stringify (JObj kvs)) = Some (st, fs)"
    unfolding read_review_def t json_parse_stringify [OF assms(1)] by (simp add: assms)
  then show ?thesis by (simp add: parseCodexReviewOutput_def review_texts_def t del: json_stringify.simps)
qed

text \<open>
  C38. A review printed as JSON is read back: whatever its status and findings, and with any
  other members beside them, parsing the printed object returns exactly that review.
\<close>

theorem review_output_roundtrip:
  assumes "wf_js (JObj kvs)" and "map_of kvs ''review_status'' = Some (JStr (review_status_name st))"
    and "map_of kvs ''findings'' = Some (JArr (map JStr fs))"
  shows "parseCodexReviewOutput (Some (JStr (json_stringify (JObj kvs)))) = ParsedReview st fs"
  by (rule parse_printed_review [OF assms])

theorem review_output_roundtrip_witness:
  "parseCodexReviewOutput (Some (JStr (json_stringify (JObj [(''review_status'', JStr ''REQUEST_CHANGES''),
     (''findings'', JArr [JStr ''off by one''])])))) = ParsedReview RV_REQUEST_CHANGES [''off by one'']"
proof -
  let ?kvs = "[(''review_status'', JStr ''REQUEST_CHANGES''), (''findings'', JArr [JStr ''off by one''])]"
  have "wf_js (JObj ?kvs)" "map_of ?kvs ''review_status'' = Some (JStr (review_status_name RV_REQUEST_CHANGES))"
    "map_of ?kvs ''findings'' = Some (JArr (map JStr [''off by one'']))" by simp_all
  from review_output_roundtrip [OF this] show ?thesis .
qed

lemma first_review_sound:
  "first_review ts = ParsedReview st fs \<Longrightarrow> \<exists>t \<in> set ts. read_review t = Some (st, fs)"
  by (induction ts) (auto split: option.splits)

lemma read_review_sound:
  assumes "read_review t = Some (st, fs)"
  shows "\<exists>kvs. json_parse (trim t) = Some (JObj kvs) \<and> map_of kvs ''review_status'' = Some (JStr (review_status_name st)) \<and>
     map_of kvs ''findings'' = Some (JArr (map JStr fs))"
proof -
  have ps: "v = Some (JStr (review_status_name x))" if "parse_review_status v = Some x" for v x
    using that by (auto simp: parse_review_status_def split: if_splits)
  have sl: "v = Some (JArr (map JStr xs))" if "string_list v = Some xs" for v xs
  proof -
    from that obtain ys where v: "v = Some (JArr ys)" and all: "list_all is_str ys"
      and xs: "xs = map js_String ys" by (auto simp: string_list_def split: option.splits js.splits if_splits)
    from all have "map JStr (map js_String ys) = ys" by (induction ys) (auto elim: is_str.elims)
    then show ?thesis using v xs by simp
  qed
  from assms obtain kvs where k: "json_parse (trim t) = Some (JObj kvs)"
    and "parse_review_status (map_of kvs ''review_status'') = Some st" "string_list (map_of kvs ''findings'') = Some fs"
    by (auto simp: read_review_def split: option.splits js.splits)
  with ps sl show ?thesis by blast
qed

text \<open>
  C37. Nothing but a well-formed review is ever read as one: when the output is read as a
  review, one of the texts of the output (a whole line, the text of an agent message, a result
  or the whole output) is the JSON of an object with exactly that status and those findings; any
  other output is refused.
\<close>

theorem review_output_sound:
  "parseCodexReviewOutput output = ParsedReview st fs \<Longrightarrow>
   \<exists>text t kvs. output = Some (JStr text) \<and> t \<in> set (review_texts text) \<and> json_parse (trim t) = Some (JObj kvs) \<and>
     map_of kvs ''review_status'' = Some (JStr (review_status_name st)) \<and> map_of kvs ''findings'' = Some (JArr (map JStr fs))"
  using first_review_sound read_review_sound
  by (fastforce simp: parseCodexReviewOutput_def split: option.splits js.splits)

theorem review_output_sound_witness:
  "\<exists>text t kvs. text = json_stringify (JObj [(''review_status'', JStr ''PASS''), (''findings'', JArr [])]) \<and>
     t \<in> set (review_texts text) \<and> json_parse (trim t) = Some (JObj kvs) \<and>
     map_of kvs ''review_status'' = Some (JStr ''PASS'')"
proof -
  let ?kvs = "[(''review_status'', JStr ''PASS''), (''findings'', JArr [])]"
  have "wf_js (JObj ?kvs)" "map_of ?kvs ''review_status'' = Some (JStr (review_status_name RV_PASS))"
    "map_of ?kvs ''findings'' = Some (JArr (map JStr []))" by simp_all
  from review_output_sound [OF parse_printed_review [OF this]] show ?thesis by (auto simp del: json_stringify.simps)
qed

section \<open>A review rests on the verification of the same commit\<close>

lemma insertReview_rows:
  assumes "insertReview x s = (r, s')"
  shows "tasks (db s') = tasks (db s) \<and> set (reviews (db s)) \<subseteq> set (reviews (db s')) \<and>
    (\<forall>y. r = Inr y \<longrightarrow> y \<in> set (reviews (db s')) \<and> rv_candidate_id y = rv_candidate_id x \<and> rv_commit_sha y = rv_commit_sha x \<and>
       rv_review_status y = rv_review_status x \<and> rv_invalidated_at y = rv_invalidated_at x)"
  using assms by (cases r) (auto simp: insertReview_def run_iff run_err modify_db_def Let_def)

lemma updateCandidate_rows:
  "updateCandidate cid f s = (r, s') \<Longrightarrow> tasks (db s') = tasks (db s) \<and> reviews (db s') = reviews (db s)"
  by (cases r) (auto simp: updateCandidate_def getCandidate_def run_iff run_err modify_db_def split: option.splits)

lemma store_review_result:
  assumes "store_review E cid sha st fs ev s = (Inr rv, s')"
  shows "rv \<in> set (reviews (db s')) \<and> rv_candidate_id rv = cid \<and> rv_commit_sha rv = sha \<and> rv_review_status rv = st \<and>
    rv_invalidated_at rv = None"
  using assms by (auto simp: store_review_def run_iff newId_def now_def dest!: insertReview_rows updateCandidate_rows)

lemma updateTaskStatus_reviews: "updateTaskStatus E tid st s = (r, s') \<Longrightarrow> reviews (db s') = reviews (db s)"
  by (cases r)
     (auto simp: updateTaskStatus_def getTask_def updateTask_def run_iff run_err now_def modify_db_def Let_def
       dest!: appendEvent_frame split: option.splits)

lemma review_frame:
  "keeps (\<lambda>s. rv \<in> set (reviews (db s))) (review_event E ty t c cid sha rid x)"
  "keeps (\<lambda>s. rv \<in> set (reviews (db s))) (block_task E t)"
  "keeps (\<lambda>s. rv \<in> set (reviews (db s))) (reload_gate t v r)"
  "keeps (\<lambda>s. rv \<in> set (reviews (db s))) (updateCandidate cid' f)"
proof -
  have "keeps (\<lambda>s. rv \<in> set (reviews (db s))) (appendEvent E a b ty ref p)" for a b ty ref p
    by (rule keepsI) (metis appendEvent_frame)
  moreover have "keeps (\<lambda>s. rv \<in> set (reviews (db s))) (updateTaskStatus E tid st)" for tid st
    by (rule keepsI) (metis updateTaskStatus_reviews)
  ultimately show "keeps (\<lambda>s. rv \<in> set (reviews (db s))) (review_event E ty t c cid sha rid x)"
    "keeps (\<lambda>s. rv \<in> set (reviews (db s))) (block_task E t)"
    unfolding review_event_def block_task_def by (auto intro!: keeps_rules)
  show "keeps (\<lambda>s. rv \<in> set (reviews (db s))) (reload_gate t v r)"
    unfolding reload_gate_def by (intro keeps_rules)
  show "keeps (\<lambda>s. rv \<in> set (reviews (db s))) (updateCandidate cid' f)"
    by (rule keepsI) (metis updateCandidate_rows)
qed

text \<open>What the outcome of asking the reviewer shows, whichever way it answered.\<close>

lemma reload_gate_Inr:
  assumes "reload_gate task ver rv s = (Inr g, s')" and "finish_fixed (t_task_id task) fl (db s)"
    and "g_ok g" and "fl_review_required fl"
  shows "rv_review_status rv = RV_PASS"
  using assms by (auto simp: reload_gate_def getTask_def run_iff gate_open finish_fixed_def finish_line_of_def split: option.splits)

definition recorded_for :: "string \<Rightarrow> string \<Rightarrow> review \<Rightarrow> core \<Rightarrow> bool" where
  "recorded_for cid sha rv s \<longleftrightarrow> rv \<in> set (reviews (db s)) \<and> rv_candidate_id rv = cid \<and> rv_commit_sha rv = sha \<and>
     rv_invalidated_at rv = None"

lemma recorded_forI:
  "store_review E cid sha st fs ev s0 = (Inr rv, s1) \<Longrightarrow> rv \<in> set (reviews (db s)) \<Longrightarrow> recorded_for cid sha rv s"
  by (simp add: recorded_for_def store_review_result)

lemma codex_failed_outcome:
  assumes run: "codex_failed E iv c task ver cid sha answer s = (Inr (rv, g), s')"
    and fixed: "finish_fixed (t_task_id task) (finish_line_of task) (db s)"
  shows "recorded_for cid sha rv s' \<and> \<not> (g_ok g \<and> t_review_required task)"
proof -
  from run obtain ev fs s2 s3 s4 where st: "store_review E cid sha RV_BLOCKED fs ev s = (Inr rv, s2)"
    and e: "review_event E REVIEW_RECORDED task c cid sha (rv_review_id rv) [(''review_status'', JStr ''BLOCKED'')] s2 = (Inr (), s3)"
    and b: "block_task E task s3 = (Inr (), s4)" and g: "reload_gate task ver rv s4 = (Inr g, s')"
    unfolding codex_failed_def Let_def bnd_Inr thn_Inr ret_run by auto
  note r = store_review_result [OF st]
  have "finish_fixed (t_task_id task) (finish_line_of task) (db s4)"
    by (rule keepsD [OF finish.review_parts_I(3) _ b], rule keepsD [OF finish.review_parts_I(1) _ e],
        rule keepsD [OF finish.store_review_I fixed st])
  from reload_gate_Inr [OF g this] r have "\<not> (g_ok g \<and> t_review_required task)" by (auto simp: finish_line_of_def)
  moreover have "rv \<in> set (reviews (db s'))"
    by (rule keepsD [OF review_frame(3) _ g], rule keepsD [OF review_frame(2) _ b], rule keepsD [OF review_frame(1) _ e]) (use r in simp)
  ultimately show ?thesis using recorded_forI [OF st] by blast
qed

lemma codex_unreadable_outcome:
  assumes run: "codex_unreadable E iv task ver cid sha answer code s = (Inr (rv, g), s')"
    and fixed: "finish_fixed (t_task_id task) (finish_line_of task) (db s)"
  shows "recorded_for cid sha rv s' \<and> \<not> (g_ok g \<and> t_review_required task)"
proof -
  from run obtain ev fs s2 s4 where st: "store_review E cid sha RV_BLOCKED fs ev s = (Inr rv, s2)"
    and b: "block_task E task s2 = (Inr (), s4)" and g: "reload_gate task ver rv s4 = (Inr g, s')"
    unfolding codex_unreadable_def Let_def bnd_Inr thn_Inr ret_run by auto
  note r = store_review_result [OF st]
  have "finish_fixed (t_task_id task) (finish_line_of task) (db s4)"
    by (rule keepsD [OF finish.review_parts_I(3) _ b], rule keepsD [OF finish.store_review_I fixed st])
  from reload_gate_Inr [OF g this] r have "\<not> (g_ok g \<and> t_review_required task)" by (auto simp: finish_line_of_def)
  moreover have "rv \<in> set (reviews (db s'))"
    by (rule keepsD [OF review_frame(3) _ g], rule keepsD [OF review_frame(2) _ b]) (use r in simp)
  ultimately show ?thesis using recorded_forI [OF st] by blast
qed

lemma codex_answered_outcome:
  assumes run: "codex_answered E iv c task ver cid sha answer st fs s = (Inr (rv, g), s')"
    and fixed: "finish_fixed (t_task_id task) (finish_line_of task) (db s)"
  shows "recorded_for cid sha rv s' \<and> rv_review_status rv = st \<and> (g_ok g \<and> t_review_required task \<longrightarrow> st = RV_PASS)"
proof -
  from run obtain ev s2 s3 s4 x where st: "store_review E cid sha st fs ev s = (Inr rv, s2)"
    and e: "review_event E REVIEW_RECORDED task c cid sha (rv_review_id rv) x s2 = (Inr (), s3)"
    and g: "reload_gate task ver rv s3 = (Inr g, s4)"
    and w: "(if \<not> g_ok g \<and> st = RV_REQUEST_CHANGES
        then thn (updateCandidate cid (\<lambda>c. c\<lparr>c_status := C_REJECTED\<rparr>)) (ret ()) else ret ()) s4 = (Inr (), s')" (is "?w s4 = _")
    unfolding codex_answered_def bnd_Inr thn_Inr ret_run by auto
  note r = store_review_result [OF st]
  have "finish_fixed (t_task_id task) (finish_line_of task) (db s3)"
    by (rule keepsD [OF finish.review_parts_I(1) _ e], rule keepsD [OF finish.store_review_I fixed st])
  from reload_gate_Inr [OF g this] r have pass: "g_ok g \<and> t_review_required task \<longrightarrow> st = RV_PASS" by (auto simp: finish_line_of_def)
  have kw: "keeps (\<lambda>s. rv \<in> set (reviews (db s))) ?w" by (intro keeps_rules review_frame)
  have "rv \<in> set (reviews (db s4))"
    by (rule keepsD [OF review_frame(3) _ g], rule keepsD [OF review_frame(1) _ e]) (use r in simp)
  with kw w have "rv \<in> set (reviews (db s'))" unfolding keeps_def by force
  with r pass show ?thesis using recorded_forI [OF st] by blast
qed

lemma ask_codex_outcome:
  assumes run: "ask_codex E iv gd c task ver cid sha s = (Inr (rv, g), s')"
    and fixed: "finish_fixed (t_task_id task) (finish_line_of task) (db s)"
  shows "recorded_for cid sha rv s' \<and>
    (g_ok g \<and> t_review_required task \<longrightarrow> rv_review_status rv = RV_PASS \<and>
       (\<exists>n prompt answer fs. iv_review iv n prompt = Inr answer \<and> opt_truthy (js_get answer ''ok'') \<and>
          parseCodexReviewOutput (js_get answer ''raw'') = ParsedReview RV_PASS fs))"
proof -
  from run obtain prompt answer n s1 where ans: "iv_review iv n prompt = Inr answer" and s1: "db s1 = db s"
    and rest: "(if \<not> opt_truthy (js_get answer ''ok'') then codex_failed E iv c task ver cid sha answer
     else (case parseCodexReviewOutput (js_get answer ''raw'') of
         ReviewUnreadable code \<Rightarrow> codex_unreadable E iv task ver cid sha answer code
       | ParsedReview st findings \<Rightarrow> codex_answered E iv c task ver cid sha answer st findings)) s1 = (Inr (rv, g), s')"
    unfolding ask_codex_def bnd_Inr by (metis call_out_db)
  have f1: "finish_fixed (t_task_id task) (finish_line_of task) (db s1)" using fixed s1 by simp
  consider "codex_failed E iv c task ver cid sha answer s1 = (Inr (rv, g), s')"
    | code where "codex_unreadable E iv task ver cid sha answer code s1 = (Inr (rv, g), s')"
    | st fs where "opt_truthy (js_get answer ''ok'')" "parseCodexReviewOutput (js_get answer ''raw'') = ParsedReview st fs"
        "codex_answered E iv c task ver cid sha answer st fs s1 = (Inr (rv, g), s')"
    using rest by (auto split: if_splits parsed_review.splits)
  then show ?thesis
  proof cases
    case 1
    from codex_failed_outcome [OF this f1] show ?thesis by blast
  next
    case 2
    from codex_unreadable_outcome [OF this f1] show ?thesis by blast
  next
    case 3
    from codex_answered_outcome [OF 3(3) f1] 3(1,2) ans show ?thesis by metis
  qed
qed

lemma required_verification_Inr:
  assumes "required_verification cid c sha presented s = (Inr ver, s')"
  shows "s' = s \<and> c_verification_ref c = Some (v_verification_id ver) \<and>
    find_row v_verification_id (verifications (db s)) (v_verification_id ver) = Some ver \<and>
    isVerificationAuthoritative (v_verification_id ver) s = (Inr True, s) \<and> v_commit_sha ver = sha \<and> v_candidate_id ver = cid"
proof -
  have ro: "isVerificationAuthoritative v s = (r, u) \<Longrightarrow> u = s" for v r u
    by (cases r) (auto simp: isVerificationAuthoritative_def getVerification_def getCandidate_def run_iff run_err
        split: option.splits if_splits)
  from assms obtain u where t: "truthy_str (c_verification_ref c)"
    and f: "find_row v_verification_id (verifications (db s)) (the (c_verification_ref c)) = Some ver"
    and a: "isVerificationAuthoritative (v_verification_id ver) s = (Inr True, u)"
    and "s' = u" "v_commit_sha ver = sha" "v_candidate_id ver = cid"
    by (auto simp: required_verification_def run_iff getVerification_def split: if_splits option.splits)
  with ro [OF a] find_row_Some [OF f] show ?thesis by (auto simp: truthy_str_def)
qed

lemma decide_review_outcome:
  assumes run: "decide_review E invoker gd c task ver cid sha s = (Inr (rv, g), s')"
    and fixed: "finish_fixed (t_task_id task) (finish_line_of task) (db s)"
  shows "recorded_for cid sha rv s' \<and> (g_ok g \<and> t_review_required task \<longrightarrow> rv_review_status rv = RV_PASS \<and>
        (\<exists>iv n prompt answer fs. invoker = Some iv \<and> iv_review iv n prompt = Inr answer \<and>
           parseCodexReviewOutput (js_get answer ''raw'') = ParsedReview RV_PASS fs))"
proof (cases "t_review_required task")
  case False
  with run obtain fs ev s3 where st: "store_review E cid sha RV_PASS fs ev s = (Inr rv, s3)"
    and e: "review_event E REVIEW_BYPASSED task c cid sha (rv_review_id rv) [] s3 = (Inr (), s')"
    by (auto simp: decide_review_def bnd_Inr thn_Inr ret_run simp del: append.simps)
  have "rv \<in> set (reviews (db s'))" by (rule keepsD [OF review_frame(1) _ e]) (use store_review_result [OF st] in simp)
  with recorded_forI [OF st] False show ?thesis by blast
next
  case True
  show ?thesis
  proof (cases invoker)
    case None
    with run True obtain fs ev where st: "store_review E cid sha RV_BLOCKED fs ev s = (Inr rv, s')"
      and g: "g = evaluateReviewGate task (Some ver) (Some rv)"
      by (auto simp: decide_review_def bnd_Inr ret_run simp del: append.simps)
    note r = store_review_result [OF st]
    have "recorded_for cid sha rv s'" by (rule recorded_forI [OF st]) (use r in simp)
    with r g True show ?thesis by (auto simp: gate_open)
  next
    case (Some iv)
    with run True have "ask_codex E iv gd c task ver cid sha s = (Inr (rv, g), s')" by (simp add: decide_review_def)
    from ask_codex_outcome [OF this fixed] Some show ?thesis by blast
  qed
qed

lemma review_facts:
  assumes run: "reviewExactCandidate E cid invoker gd presented s = (Inr (rv, g), s')"
  shows "\<exists>c task ver. find_row c_candidate_id (candidates (db s)) cid = Some c \<and>
     find_row t_task_id (tasks (db s)) (c_task_id c) = Some task \<and>
     c_verification_ref c = Some (v_verification_id ver) \<and> c_commit_sha c = Some (v_commit_sha ver) \<and>
     find_row v_verification_id (verifications (db s)) (v_verification_id ver) = Some ver \<and>
     isVerificationAuthoritative (v_verification_id ver) s = (Inr True, s) \<and>
     recorded_for cid (v_commit_sha ver) rv s' \<and>
     (g_ok g \<and> t_review_required task \<longrightarrow> rv_review_status rv = RV_PASS \<and>
        (\<exists>iv n prompt answer fs. invoker = Some iv \<and> iv_review iv n prompt = Inr answer \<and>
           parseCodexReviewOutput (js_get answer ''raw'') = ParsedReview RV_PASS fs))"
proof -
  from run obtain c task sha ver s1 s2 where sub: "review_subject E cid s = (Inr (c, task), s1)"
    and sha: "assertCommitSha (c_commit_sha c) = Inr sha"
    and rv: "required_verification cid c sha presented s1 = (Inr ver, s2)"
    and rest: "decide_review E invoker gd c task ver cid sha s2 = (Inr (rv, g), s')"
    by (auto simp: reviewExactCandidate_def bnd_Inr lift_run split: prod.splits)
  have c: "find_row c_candidate_id (candidates (db s)) cid = Some c" "find_row t_task_id (tasks (db s)) (c_task_id c) = Some task" "s1 = s"
    using sub by (auto simp: review_subject_def getCandidate_def getTask_def getRun_def run_iff split: option.splits if_splits)
  note v = required_verification_Inr [OF rv]
  have "t_task_id task = c_task_id c" using find_row_Some [OF c(2)] by simp
  with c v have "finish_fixed (t_task_id task) (finish_line_of task) (db s2)" by (simp add: finish_fixed_def)
  from decide_review_outcome [OF rest this] have out: "recorded_for cid sha rv s'"
    "g_ok g \<and> t_review_required task \<longrightarrow> rv_review_status rv = RV_PASS \<and>
        (\<exists>iv n prompt answer fs. invoker = Some iv \<and> iv_review iv n prompt = Inr answer \<and>
           parseCodexReviewOutput (js_get answer ''raw'') = ParsedReview RV_PASS fs)" by blast+
  have cs: "c_commit_sha c = Some sha" using sha by (auto simp: assertCommitSha_def split: option.splits if_splits)
  show ?thesis by (rule exI [of _ c], rule exI [of _ task], rule exI [of _ ver]) (use c v out cs in simp)
qed


definition demo_snap :: js where
  "demo_snap = JObj [(''commit_sha'', JStr demo_sha), (''branch'', JStr ''br''), (''pr_number'', JNum 7),
     (''ci_status'', JStr ''completed''), (''ci_conclusion'', JStr ''success'')]"

definition demo_ver :: verification where
  "demo_ver = \<lparr>v_verification_id = ''V1'', v_candidate_id = ''C1'', v_commit_sha = demo_sha, v_result = V_PASS,
     v_checks = JArr [JObj [(''name'', JStr ''landing_evidence_snapshot''), (''detail'', JStr (json_stringify demo_snap))]],
     v_worker_claim = None, v_failure_class = None, v_created_at = 6, v_invalidated_at = None, v_invalidation_reason = None\<rparr>"

definition demo_rev :: review where
  "demo_rev = \<lparr>rv_review_id = ''RV1'', rv_candidate_id = ''C1'', rv_commit_sha = demo_sha, rv_review_status = RV_PASS,
     rv_findings = JArr [], rv_evidence = Some (JObj [(''verification_id'', JStr ''V1'')]), rv_reviewed_at = 7,
     rv_invalidated_at = None, rv_invalidation_reason = None\<rparr>"

definition demo_verified_candidate :: candidate where
  "demo_verified_candidate = demo_candidate\<lparr>c_status := C_VERIFIED, c_verification_ref := Some ''V1'', c_review_ref := Some ''RV1'',
     c_pr_number := Some 7, c_ci_status := Some ''completed'', c_ci_conclusion := Some ''success''\<rparr>"

definition demo_reviewed :: core where
  "demo_reviewed = demo_built\<lparr>db := (db demo_built)\<lparr>candidates := [demo_verified_candidate], verifications := [demo_ver],
     reviews := [demo_rev]\<rparr>\<rparr>"

lemma demo_reviewed_facts [simp]:
  "tasks (db demo_reviewed) = [demo_task]" "runs (db demo_reviewed) = [demo_run]" "candidates (db demo_reviewed) = [demo_verified_candidate]"
  "verifications (db demo_reviewed) = [demo_ver]" "reviews (db demo_reviewed) = [demo_rev]" "events (db demo_reviewed) = []"
  "ticks demo_reviewed = 0" "approvals (db demo_reviewed) = []"
  by (simp_all add: demo_reviewed_def)

lemma demo_authoritative: "isVerificationAuthoritative ''V1'' demo_reviewed = (Inr True, demo_reviewed)"
proof -
  have "wf_js demo_snap" by (simp add: demo_snap_def)
  note p = json_parse_stringify [OF this]
  have "json_stringify demo_snap \<noteq> []" by (simp add: demo_snap_def)
  with p have "landingSnapshotFromVerification demo_ver = Some demo_snap"
    by (simp add: landingSnapshotFromVerification_def demo_ver_def opt_truthy_def)
  moreover have "snapshot_matches demo_snap demo_verified_candidate" "js_truthy demo_snap"
    by (simp_all add: snapshot_matches_def demo_snap_def demo_verified_candidate_def demo_candidate_def js_of_opt_def same_number_def js_Number_def)
  ultimately show ?thesis
    by (simp add: isVerificationAuthoritative_def getVerification_def getCandidate_def act_defs)
       (simp add: demo_ver_def demo_verified_candidate_def demo_candidate_def)
qed

lemma store_review_ok:
  assumes "find_row c_candidate_id (candidates (db s)) cid = Some c" and "''rev_'' @ env_uuid E (ticks s) \<notin> rv_review_id ` set (reviews (db s))"
  shows "\<exists>rv s'. store_review E cid sha st fs ev s = (Inr rv, s') \<and> events (db s') = events (db s) \<and> ticks s \<le> ticks s' \<and>
    tasks (db s') = tasks (db s) \<and> rv_review_status rv = st \<and> rv_commit_sha rv = sha \<and> rv_candidate_id rv = cid \<and> rv_invalidated_at rv = None"
proof -
  have "cid \<in> c_candidate_id ` set (candidates (db s))" using find_row_Some [OF assms(1)] by force
  then show ?thesis
    using assms by (simp add: store_review_def newId_def now_def insertReview_def updateCandidate_def getCandidate_def act_defs modify_db_def Let_def)
qed

text \<open>A reviewer that passes everything.\<close>

definition demo_invoker :: review_invoker where
  "demo_invoker = \<lparr>iv_mode = ''read-only'', iv_primary_model = JNull, iv_fallback_model = JNull,
     iv_review = (\<lambda>n prompt. Inr (JObj [(''ok'', JBool True),
       (''raw'', JStr (json_stringify (JObj [(''review_status'', JStr ''PASS''), (''findings'', JArr [])])))]))\<rparr>"

lemma demo_review: "\<exists>rv g s'. reviewExactCandidate demo_env ''C1'' (Some demo_invoker) (\<lambda>n x. Inr (JStr ''diff'')) None demo_reviewed =
    (Inr (rv, g), s') \<and> g_ok g"
proof -
  let ?s2 = "demo_reviewed\<lparr>ticks := 2\<rparr>" and ?c = demo_verified_candidate
  let ?ans = "JObj [(''ok'', JBool True), (''raw'', JStr (json_stringify (JObj [(''review_status'', JStr ''PASS''), (''findings'', JArr [])])))]"
  have c: "c_candidate_id ?c = ''C1''" "c_task_id ?c = ''T1''" "c_factory_run_id ?c = ''R1''" "c_commit_sha ?c = Some demo_sha"
    "c_verification_ref ?c = Some ''V1''"
    by (simp_all add: demo_verified_candidate_def demo_candidate_def)
  have v: "v_verification_id demo_ver = ''V1''" "v_commit_sha demo_ver = demo_sha" "v_candidate_id demo_ver = ''C1''"
    "v_result demo_ver = V_PASS" "v_invalidated_at demo_ver = None" by (simp_all add: demo_ver_def)
  have p: "parseCodexReviewOutput (Some (JStr (json_stringify (JObj [(''review_status'', JStr ''PASS''), (''findings'', JArr [])])))) = ParsedReview RV_PASS []"
    by (rule parse_printed_review) simp_all
  obtain ev where ev: "codex_answered demo_env demo_invoker ?c demo_task demo_ver ''C1'' demo_sha ?ans RV_PASS [] =
      bnd (store_review demo_env ''C1'' demo_sha RV_PASS [] ev) (\<lambda>review.
      thn (review_event demo_env REVIEW_RECORDED demo_task ?c ''C1'' demo_sha (rv_review_id review)
            [(''review_status'', JStr (review_status_name (rv_review_status review)))])
     (bnd (reload_gate demo_task demo_ver review) (\<lambda>g.
      thn (if \<not> g_ok g \<and> RV_PASS = RV_REQUEST_CHANGES
          then thn (updateCandidate ''C1'' (\<lambda>c. c\<lparr>c_status := C_REJECTED\<rparr>)) (ret ()) else ret ())
         (ret (review, g)))))" unfolding codex_answered_def by blast
  have "find_row c_candidate_id (candidates (db ?s2)) ''C1'' = Some ?c" by (simp add: c)
  from store_review_ok [OF this, of demo_env demo_sha RV_PASS "[]" ev] obtain rv s3 where
    st: "store_review demo_env ''C1'' demo_sha RV_PASS [] ev ?s2 = (Inr rv, s3)" "events (db s3) = []" "tasks (db s3) = [demo_task]"
    and rv: "rv_review_status rv = RV_PASS" "rv_commit_sha rv = demo_sha" "rv_candidate_id rv = ''C1''" "rv_invalidated_at rv = None"
    by (auto simp: demo_rev_def)
  have fresh: "fresh_env demo_env s3" using st by simp
  let ?g = "evaluateReviewGate demo_task (Some demo_ver) (Some rv)"
  have g: "g_ok ?g" using v rv by (simp add: gate_open)
  have "\<exists>s'. codex_answered demo_env demo_invoker ?c demo_task demo_ver ''C1'' demo_sha ?ans RV_PASS [] ?s2 = (Inr (rv, ?g), s')"
    unfolding ev using st g appendEvent_ok [OF fresh]
    by (simp add: bnd_def thn_def review_event_def reload_gate_def getTask_def gets_def ret_def)
  moreover have "ask_codex demo_env demo_invoker (\<lambda>n x. Inr (JStr ''diff'')) ?c demo_task demo_ver ''C1'' demo_sha demo_reviewed =
      codex_answered demo_env demo_invoker ?c demo_task demo_ver ''C1'' demo_sha ?ans RV_PASS [] ?s2"
    using p by (simp add: ask_codex_def call_out_def bnd_def demo_invoker_def opt_truthy_def numeral_2_eq_2 del: json_stringify.simps)
  moreover have "review_subject demo_env ''C1'' demo_reviewed = (Inr (?c, demo_task), demo_reviewed)"
    by (simp add: review_subject_def getCandidate_def getTask_def getRun_def act_defs c demo_run_def pending_run_def)
  moreover have "required_verification ''C1'' ?c demo_sha None demo_reviewed = (Inr demo_ver, demo_reviewed)"
    using demo_authoritative by (simp add: required_verification_def c v truthy_str_def getVerification_def act_defs)
  ultimately show ?thesis using g
    by (auto simp: reviewExactCandidate_def bnd_def lift_def c assertCommitSha_def decide_review_def)
qed


text \<open>
  An authoritative review implies an authoritative verification: a review counts only
  while it passed and was not invalidated, its candidate names this review and this commit, and
  the verification the candidate names is itself authoritative, passed and not invalidated.
  Whatever revokes that verification therefore revokes the review.
\<close>

lemma authoritative_review_needs_verification:
  assumes "isReviewAuthoritative rvid s = (Inr True, s')"
  shows "\<exists>rv c vid v. find_row rv_review_id (reviews (db s)) rvid = Some rv \<and> rv_invalidated_at rv = None \<and> rv_review_status rv = RV_PASS \<and>
     find_row c_candidate_id (candidates (db s)) (rv_candidate_id rv) = Some c \<and> c_review_ref c = Some rvid \<and>
     c_commit_sha c = Some (rv_commit_sha rv) \<and> c_status c = C_VERIFIED \<and> c_verification_ref c = Some vid \<and>
     fst (isVerificationAuthoritative vid s) = Inr True \<and>
     find_row v_verification_id (verifications (db s)) vid = Some v \<and> v_result v = V_PASS \<and> v_invalidated_at v = None"
proof -
  from assms obtain rv c where rv: "find_row rv_review_id (reviews (db s)) rvid = Some rv" "rv_invalidated_at rv = None"
    "rv_review_status rv = RV_PASS" and c: "find_row c_candidate_id (candidates (db s)) (rv_candidate_id rv) = Some c"
    "c_review_ref c = Some rvid" "c_commit_sha c = Some (rv_commit_sha rv)" "truthy_str (c_verification_ref c)" "c_status c = C_VERIFIED"
    and a: "isVerificationAuthoritative (the (c_verification_ref c)) s = (Inr True, s')"
    by (auto simp: isReviewAuthoritative_def getReview_def getCandidate_def run_iff split: option.splits if_splits)
  from a obtain v where "find_row v_verification_id (verifications (db s)) (the (c_verification_ref c)) = Some v" "v_result v = V_PASS"
    "v_invalidated_at v = None"
    by (auto simp: isVerificationAuthoritative_def getVerification_def getCandidate_def run_iff split: option.splits if_splits)
  moreover obtain vid where "c_verification_ref c = Some vid" using c(4) by (auto simp: truthy_str_def)
  ultimately show ?thesis using rv c a by auto
qed

lemma authoritative_review_needs_verification_witness:
  "\<exists>s'. isReviewAuthoritative ''RV1'' demo_reviewed = (Inr True, s') \<and> (\<exists>vid. fst (isVerificationAuthoritative vid demo_reviewed) = Inr True)"
proof -
  have "isReviewAuthoritative ''RV1'' demo_reviewed = (Inr True, demo_reviewed)"
    using demo_authoritative
    by (simp add: isReviewAuthoritative_def getReview_def getCandidate_def act_defs)
       (simp add: demo_rev_def demo_verified_candidate_def demo_candidate_def truthy_str_def)
  from authoritative_review_needs_verification [OF this] this show ?thesis by blast
qed

end
