(* ===== verification/CiWait.thy ===== *)
theory CiWait
  imports Review
begin

text \<open>
  The bounded wait for continuous integration of an exact commit (\<open>src/builder/ci-wait.js\<close>):
  the classification of a summary, one poll, the polling loop with its deadline, and the
  question whether a task is waiting. The loop runs on fuel; \<open>None\<close> is a loop still running.
  Shown: with a clock that goes on, the wait ends; it ends with success only on GitHub's own
  completed success for the exact commit, read while the pull request still pointed at it; a
  moved head or a renamed branch revokes what was verified.
\<close>

datatype ci_outcome = CI_SUCCESS | CI_FAILURE | CI_TIMEOUT | CI_UNKNOWN | CI_HEAD_CHANGED | CI_PR_MISMATCH

fun ci_outcome_name :: "ci_outcome \<Rightarrow> string" where
  "ci_outcome_name CI_SUCCESS = ''SUCCESS''"
| "ci_outcome_name CI_FAILURE = ''FAILURE''"
| "ci_outcome_name CI_TIMEOUT = ''TIMEOUT''"
| "ci_outcome_name CI_UNKNOWN = ''UNKNOWN''"
| "ci_outcome_name CI_HEAD_CHANGED = ''HEAD_CHANGED''"
| "ci_outcome_name CI_PR_MISMATCH = ''PR_MISMATCH''"

text \<open>\<open>None\<close> is a summary that is not terminal.\<close>

definition classifyCiSummary :: "ci_summary \<Rightarrow> ci_outcome option" where
  "classifyCiSummary summary =
    (let status = ci_status summary; conclusion = ci_conclusion summary in
     if status = ''pending'' then None
     else if status = ''completed'' \<and> conclusion = Some ''success'' then Some CI_SUCCESS
     else if status = ''completed'' \<and> conclusion \<in> {Some ''failure'', Some ''cancelled'', Some ''timed_out''} then Some CI_FAILURE
     else if status = ''completed'' \<and> conclusion = Some ''neutral'' then Some CI_UNKNOWN
     else None)"

section \<open>Evidence\<close>

definition ci_check_js :: "check_run \<Rightarrow> js" where
  "ci_check_js r = JObj [(''id'', cr_id r), (''name'', cr_name r), (''status'', cr_status r),
     (''conclusion'', cr_conclusion r), (''html_url'', cr_html_url r)]"

definition buildCiEvidence ::
  "candidate \<Rightarrow> string \<Rightarrow> pull_request option \<Rightarrow> (string \<times> string option \<times> string option) option \<Rightarrow> check_run list \<Rightarrow> string
   \<Rightarrow> string option \<Rightarrow> nat \<Rightarrow> ci_outcome option \<Rightarrow> string \<Rightarrow> (string \<times> js) list" where
  "buildCiEvidence c sha pr summary checkRuns started finished polls outcome captured =
    [(''candidate_id'', JStr (c_candidate_id c)), (''commit_sha'', JStr sha), (''branch'', jstr_opt (c_branch c)),
     (''pr_number'', (case pr of Some p \<Rightarrow> JNum (pq_number p) | None \<Rightarrow> js_of_opt JNum (c_pr_number c))),
     (''pr_url'', jstr_opt (case pr of None \<Rightarrow> c_pr_url c | Some p \<Rightarrow> (case pq_html_url p of None \<Rightarrow> c_pr_url c | u \<Rightarrow> u))),
     (''pr_head_ref'', jstr_opt (case pr of None \<Rightarrow> None | Some p \<Rightarrow> pq_head_ref p)),
     (''pr_head_sha'', jstr_opt (case pr of None \<Rightarrow> None | Some p \<Rightarrow> pq_head_sha p)),
     (''ci_status'', jstr_opt (map_option fst summary)),
     (''ci_conclusion'', jstr_opt (case summary of None \<Rightarrow> None | Some (_, concl, _) \<Rightarrow> concl)),
     (''combined_state'', jstr_opt (case summary of None \<Rightarrow> None | Some (_, _, comb) \<Rightarrow> comb)),
     (''check_run_ids'', JArr (filter (\<lambda>i. i \<noteq> JNull) (map cr_id checkRuns))),
     (''checks'', JArr (map ci_check_js checkRuns)),
     (''started_at'', JStr started), (''finished_at'', jstr_opt finished), (''polls'', JNum (int polls)),
     (''outcome'', js_of_opt (\<lambda>o'. JStr (ci_outcome_name o')) outcome), (''captured_at'', JStr captured)]"

definition nowIso :: "env \<Rightarrow> string cact" where
  "nowIso E = bnd (now E) (\<lambda>ts. ret (isoString ts))"

text \<open>Evidence of a wait that ends without a summary: the end first, then the capture time.\<close>

definition final_evidence :: "env \<Rightarrow> candidate \<Rightarrow> string \<Rightarrow> pull_request option \<Rightarrow> string \<Rightarrow> nat \<Rightarrow> ci_outcome \<Rightarrow> (string \<times> js) list cact" where
  "final_evidence E c sha pr started polls outcome =
     bnd (nowIso E) (\<lambda>finished.
     bnd (nowIso E) (\<lambda>captured.
     ret (buildCiEvidence c sha pr None [] started (Some finished) polls (Some outcome) captured)))"

section \<open>Is the task waiting?\<close>

record awaiting_ci =
  aw_awaiting :: bool
  aw_candidate :: "candidate option"
  aw_run :: "run option"
  aw_verification :: "verification option"

definition detectAwaitingCi :: "string \<Rightarrow> awaiting_ci cact" where
  "detectAwaitingCi tid =
     bnd (listCandidatesForTask tid) (\<lambda>candidates.
     (case sort_key (\<lambda>c. - int (c_created_at c)) (filter (\<lambda>c. c_status c \<noteq> C_SUPERSEDED) candidates) of
        [] \<Rightarrow> ret \<lparr>aw_awaiting = False, aw_candidate = None, aw_run = None, aw_verification = None\<rparr>
      | c # _ \<Rightarrow>
        bnd (getRun (c_factory_run_id c)) (\<lambda>run.
        if \<not> (\<exists>r \<in> set_option run. r_status r = R_SUCCEEDED)
        then ret \<lparr>aw_awaiting = False, aw_candidate = Some c, aw_run = run, aw_verification = None\<rparr>
        else
          bnd (if truthy_str (c_verification_ref c) then getVerification (the (c_verification_ref c)) else ret None) (\<lambda>ver.
          if \<exists>v \<in> set_option ver. v_result v = V_PASS \<and> v_invalidated_at v = None
          then ret \<lparr>aw_awaiting = False, aw_candidate = Some c, aw_run = run, aw_verification = ver\<rparr>
          else ret \<lparr>aw_awaiting = (\<not> truthy_str (c_ci_status c) \<or> c_ci_status c = Some ''pending'' \<or> c_ci_status c = Some ''unknown''
                       \<or> (\<exists>v \<in> set_option ver. v_result v = V_BLOCKED)),
                    aw_candidate = Some c, aw_run = run, aw_verification = ver\<rparr>))))"

section \<open>One poll\<close>

record ci_wait_result =
  cw_outcome :: ci_outcome
  cw_evidence :: "(string \<times> js) list"
  cw_candidate :: "candidate option"
  cw_new_head :: "string option"

definition invalidate_refs :: "env \<Rightarrow> candidate \<Rightarrow> string \<Rightarrow> unit cact" where
  "invalidate_refs E c reason =
     thn (if truthy_str (c_verification_ref c) then thn (invalidateVerification E (the (c_verification_ref c)) reason) (ret ()) else ret ())
         (if truthy_str (c_review_ref c) then thn (invalidateReview E (the (c_review_ref c)) reason) (ret ()) else ret ())"

definition ci_event :: "env \<Rightarrow> candidate \<Rightarrow> event_type \<Rightarrow> (string \<times> js) list \<Rightarrow> unit cact" where
  "ci_event E c ty payload = appendEvent E (Some (c_task_id c)) (Some (c_factory_run_id c)) ty None (JObj payload)"

definition poll_commit_changed :: "env \<Rightarrow> candidate \<Rightarrow> string \<Rightarrow> string \<Rightarrow> nat \<Rightarrow> ci_wait_result cact" where
  "poll_commit_changed E c sha started polls =
     bnd (final_evidence E c sha None started polls CI_HEAD_CHANGED) (\<lambda>ev.
     thn (ci_event E c CI_WAIT_INVALIDATED ev)
         (ret \<lparr>cw_outcome = CI_HEAD_CHANGED, cw_evidence = ev, cw_candidate = Some c, cw_new_head = None\<rparr>))"

definition poll_branch_changed :: "env \<Rightarrow> candidate \<Rightarrow> string \<Rightarrow> pull_request \<Rightarrow> string \<Rightarrow> nat \<Rightarrow> ci_wait_result cact" where
  "poll_branch_changed E c sha pr started polls =
     bnd (final_evidence E c sha (Some pr) started polls CI_PR_MISMATCH) (\<lambda>ev.
     thn (invalidate_refs E c ''ci_pr_branch_mismatch'')
    (thn (ci_event E c CI_WAIT_FINISHED ev)
         (ret \<lparr>cw_outcome = CI_PR_MISMATCH, cw_evidence = ev, cw_candidate = Some c, cw_new_head = None\<rparr>)))"

definition poll_head_changed :: "env \<Rightarrow> candidate \<Rightarrow> string \<Rightarrow> pull_request \<Rightarrow> string \<Rightarrow> nat \<Rightarrow> ci_wait_result cact" where
  "poll_head_changed E c sha pr started polls =
     thn (invalidate_refs E c ''ci_pr_head_changed'')
    (bnd (final_evidence E c sha (Some pr) started polls CI_HEAD_CHANGED) (\<lambda>ev.
     thn (ci_event E c CI_WAIT_INVALIDATED (obj_spread ev [(''new_head_sha'', jstr_opt (pq_head_sha pr)), (''bound_sha'', JStr sha)]))
         (ret \<lparr>cw_outcome = CI_HEAD_CHANGED, cw_evidence = obj_spread ev [(''new_head_sha'', jstr_opt (pq_head_sha pr))],
              cw_candidate = Some c, cw_new_head = pq_head_sha pr\<rparr>)))"

definition poll_finished :: "env \<Rightarrow> string \<Rightarrow> candidate \<Rightarrow> (string \<times> js) list \<Rightarrow> ci_outcome \<Rightarrow> ci_wait_result cact" where
  "poll_finished E cid c prev outcome =
     bnd (nowIso E) (\<lambda>finished.
     let ev = obj_spread prev [(''finished_at'', JStr finished), (''outcome'', JStr (ci_outcome_name outcome))] in
     thn (updateCandidate cid (\<lambda>r. r\<lparr>c_ci_ref := Some (json_stringify (JObj ev)), c_evidence_at := Some finished\<rparr>))
    (thn (ci_event E c CI_WAIT_FINISHED ev)
    (bnd (getCandidate cid) (\<lambda>c'.
     ret \<lparr>cw_outcome = outcome, cw_evidence = ev, cw_candidate = c', cw_new_head = None\<rparr>))))"

datatype poll_outcome = PollEnded ci_wait_result | PollAgain candidate "(string \<times> js) list"

definition poll_checks :: "env \<Rightarrow> github_client \<Rightarrow> string \<Rightarrow> candidate \<Rightarrow> string \<Rightarrow> pull_request \<Rightarrow> string \<Rightarrow> nat \<Rightarrow> poll_outcome cact" where
  "poll_checks E gh cid c sha pr started polls =
     bnd (call_out (gh_getCheckRuns gh) sha) (\<lambda>checkRuns.
     bnd (call_out (gh_getCombinedStatus gh) sha) (\<lambda>combined.
     bnd (summarizeCi E checkRuns combined) (\<lambda>summary.
     case List.find (\<lambda>r. truthy_str (cr_head_sha r) \<and> cr_head_sha r \<noteq> Some sha) checkRuns of
       Some r \<Rightarrow> throw (builderCoreError (''CI check run head_sha '' @ show_opt (cr_head_sha r) @ '' does not match candidate '' @ sha)
                   ''CI_SHA_MISMATCH'')
     | None \<Rightarrow>
       let captured = isoString (ci_captured_at summary);
           ev = buildCiEvidence c sha (Some pr) (Some (ci_status summary, ci_conclusion summary, ci_combined_state summary)) checkRuns
                  started None polls None captured in
       thn (updateCandidate cid (\<lambda>r. r\<lparr>c_pr_number := Some (pq_number pr), c_pr_url := pq_html_url pr,
              c_pr_ref := Some (show_int (pq_number pr)), c_ci_status := Some (ci_status summary),
              c_ci_conclusion := ci_conclusion summary, c_ci_ref := Some (json_stringify (JObj ev)), c_evidence_at := Some captured\<rparr>))
      (thn (ci_event E c CI_WAIT_PROGRESS
              [(''candidate_id'', JStr cid), (''commit_sha'', JStr sha), (''pr_number'', JNum (pq_number pr)),
               (''ci_status'', JStr (ci_status summary)), (''ci_conclusion'', jstr_opt (ci_conclusion summary)), (''polls'', JNum (int polls)),
               (''check_run_ids'', JArr (filter (\<lambda>i. i \<noteq> JNull) (map cr_id checkRuns))), (''captured_at'', JStr captured)])
      (case classifyCiSummary summary of
         Some outcome \<Rightarrow> bnd (poll_finished E cid c ev outcome) (\<lambda>r. ret (PollEnded r))
       | None \<Rightarrow> ret (PollAgain c ev))))))"

text \<open>
  The candidate was found, and had a pull request, when the wait started. A pull request that
  reports no branch has a mismatched one.
\<close>

definition ci_poll :: "env \<Rightarrow> github_client \<Rightarrow> string \<Rightarrow> string \<Rightarrow> string \<Rightarrow> nat \<Rightarrow> poll_outcome cact" where
  "ci_poll E gh cid boundSha started polls =
     bnd (getCandidate cid) (\<lambda>found. case found of
       None \<Rightarrow> throw (nativeError ''TypeError'' ''Cannot read properties of null (reading 'commit_sha')'')
     | Some c \<Rightarrow>
       bnd (lift (assertCommitSha (c_commit_sha c))) (\<lambda>sha.
       if sha \<noteq> boundSha then bnd (poll_commit_changed E c sha started polls) (\<lambda>r. ret (PollEnded r))
       else
         bnd (call_out (gh_getCommit gh) sha) (\<lambda>commit.
         thn (guard (commit = Some sha \<and> sha \<noteq> []) (builderCoreError (''github commit sha mismatch during CI wait: expected '' @ sha @ '' got ''
                @ show_opt commit) ''SHA_MISMATCH''))
        (bnd (call_out (gh_getPullRequest gh) (case c_pr_number c of Some n \<Rightarrow> n | None \<Rightarrow> 0)) (\<lambda>pr.
         if pq_head_ref pr = None \<or> pq_head_ref pr \<noteq> c_branch c
         then bnd (poll_branch_changed E c sha pr started polls) (\<lambda>r. ret (PollEnded r))
         else if pq_head_sha pr \<noteq> Some sha
         then bnd (poll_head_changed E c sha pr started polls) (\<lambda>r. ret (PollEnded r))
         else poll_checks E gh cid c sha pr started polls)))))"

section \<open>The wait\<close>

definition ci_timeout :: "env \<Rightarrow> string \<Rightarrow> string \<Rightarrow> string \<Rightarrow> nat \<Rightarrow> candidate \<Rightarrow> (string \<times> js) list option \<Rightarrow> ci_wait_result cact" where
  "ci_timeout E cid boundSha started polls c prev =
     bnd (nowIso E) (\<lambda>finished.
     bnd (case prev of Some ev \<Rightarrow> ret ev
          | None \<Rightarrow> bnd (nowIso E) (\<lambda>captured.
              ret (buildCiEvidence c boundSha None (Some (''pending'', None, None)) [] started None polls None captured))) (\<lambda>base.
     let ev = obj_spread base [(''finished_at'', JStr finished), (''outcome'', JStr ''TIMEOUT'')] in
     thn (updateCandidate cid (\<lambda>r. r\<lparr>c_ci_ref := Some (json_stringify (JObj ev)), c_evidence_at := Some finished\<rparr>))
    (thn (ci_event E c CI_WAIT_FINISHED ev)
    (bnd (getCandidate cid) (\<lambda>c'.
     ret \<lparr>cw_outcome = CI_TIMEOUT, cw_evidence = ev, cw_candidate = c', cw_new_head = None\<rparr>)))))"

type_synonym sleep_fn = "nat \<Rightarrow> int \<Rightarrow> js_error + unit"

primrec ci_loop ::
  "nat \<Rightarrow> env \<Rightarrow> github_client \<Rightarrow> sleep_fn \<Rightarrow> int \<Rightarrow> string \<Rightarrow> string \<Rightarrow> string \<Rightarrow> int \<Rightarrow> nat \<Rightarrow> candidate \<Rightarrow> (string \<times> js) list option
   \<Rightarrow> ci_wait_result option cact" where
  "ci_loop 0 E gh sleepFn poll_ms cid boundSha started deadline polls c prev = ret None"
| "ci_loop (Suc n) E gh sleepFn poll_ms cid boundSha started deadline polls c prev =
     bnd (now E) (\<lambda>t.
     if int t < deadline then
       bnd (ci_poll E gh cid boundSha started (Suc polls)) (\<lambda>out. case out of
         PollEnded r \<Rightarrow> ret (Some r)
       | PollAgain c' ev \<Rightarrow>
         bnd (now E) (\<lambda>t'.
         if deadline - int t' \<le> 0
         then bnd (ci_timeout E cid boundSha started (Suc polls) c' (Some ev)) (\<lambda>r. ret (Some r))
         else thn (call_out sleepFn (min poll_ms (deadline - int t')))
                (ci_loop n E gh sleepFn poll_ms cid boundSha started deadline (Suc polls) c' (Some ev))))
     else bnd (ci_timeout E cid boundSha started polls c prev) (\<lambda>r. ret (Some r)))"

definition waitForExactCandidateCi ::
  "nat \<Rightarrow> env \<Rightarrow> string \<Rightarrow> github_client option \<Rightarrow> int \<Rightarrow> int \<Rightarrow> sleep_fn \<Rightarrow> ci_wait_result option cact" where
  "waitForExactCandidateCi fuel E cid client poll_ms timeout_ms sleepFn = (case client of
      None \<Rightarrow> throw (builderCoreError ''githubClient required for exact CI wait'' ''GITHUB_REQUIRED'')
    | Some gh \<Rightarrow>
       thn (guard (1 \<le> poll_ms) (builderCoreError ''ci poll_ms must be >= 1'' ''INVALID_CI_POLL''))
      (thn (guard (1 \<le> timeout_ms) (builderCoreError ''ci timeout_ms must be >= 1'' ''INVALID_CI_TIMEOUT''))
      (bnd (getCandidate cid) (\<lambda>found. case found of
         None \<Rightarrow> throw (builderCoreError (''unknown candidate_id: '' @ cid) ''UNKNOWN_CANDIDATE'')
       | Some c \<Rightarrow>
         bnd (lift (assertCommitSha (c_commit_sha c))) (\<lambda>boundSha.
         thn (guard (truthy_str (c_branch c)) (builderCoreError ''candidate missing branch for CI wait'' ''MISSING_BRANCH''))
        (thn (guard (c_pr_number c \<noteq> None) (builderCoreError ''candidate missing pr_number for CI wait'' ''MISSING_PR''))
        (bnd (nowIso E) (\<lambda>started.
         bnd (now E) (\<lambda>t0.
         thn (ci_event E c CI_WAIT_STARTED
                [(''candidate_id'', JStr cid), (''commit_sha'', JStr boundSha), (''branch'', jstr_opt (c_branch c)),
                 (''pr_number'', js_of_opt JNum (c_pr_number c)), (''poll_ms'', JNum poll_ms), (''timeout_ms'', JNum timeout_ms),
                 (''started_at'', JStr started)])
             (ci_loop fuel E gh sleepFn poll_ms cid boundSha started (int t0 + timeout_ms) 0 c None)))))))))) "

lemma keeps_poll_outcome [keeps_rules]:
  "(\<And>r. keeps I (f r)) \<Longrightarrow> (\<And>c ev. keeps I (g c ev)) \<Longrightarrow> keeps I (case out of PollEnded r \<Rightarrow> f r | PollAgain c ev \<Rightarrow> g c ev)"
  by (cases out) simp_all

context core_frame
begin

lemma nowIso_I [keeps_rules]: "keeps I (nowIso E)"
  unfolding nowIso_def by (intro keeps_rules)

lemma ci_parts_I [keeps_rules]: "keeps I (ci_event E c ty p)" "keeps I (invalidate_refs E c r)"
  "keeps I (final_evidence E c sha pr st n o')"
  unfolding ci_event_def invalidate_refs_def final_evidence_def by (intro keeps_rules)+

lemma ci_ends_I [keeps_rules]: "keeps I (poll_commit_changed E c sha st n)" "keeps I (poll_branch_changed E c sha pr st n)"
  "keeps I (poll_head_changed E c sha pr st n)" "keeps I (poll_finished E cid c l o')" "keeps I (ci_timeout E cid sha st n c prev)"
  unfolding poll_commit_changed_def poll_branch_changed_def poll_head_changed_def poll_finished_def ci_timeout_def Let_def
  by (intro keeps_rules; simp)+

lemma ci_poll_I [keeps_rules]: "keeps I (ci_poll E gh cid sha st n)"
  unfolding ci_poll_def poll_checks_def summarizeCi_def Let_def by (intro keeps_rules ticks_I) simp

lemma ci_loop_I [keeps_rules]: "keeps I (ci_loop n E gh sl pm cid sha st dl k c prev)"
proof (induction n arbitrary: k c prev)
  case (Suc n)
  show ?case unfolding ci_loop.simps by (intro keeps_rules Suc.IH ticks_I)
qed (simp add: keeps_ret)

lemma waitForExactCandidateCi_I [keeps_rules]: "keeps I (waitForExactCandidateCi n E cid gh pm tm sl)"
  unfolding waitForExactCandidateCi_def by (intro keeps_rules)

lemma detectAwaitingCi_I [keeps_rules]: "keeps I (detectAwaitingCi tid)"
  unfolding detectAwaitingCi_def by (intro keeps_rules)

end

section \<open>The wait ends\<close>

lemma ticks_appendEvent: "keeps (\<lambda>s. k \<le> ticks s) (appendEvent E tid rid ty ref p)"
  by (rule keepsI) (auto simp: appendEvent_def newId_def now_def act_defs modify_db_def split: if_splits)

lemma ticks_world:
  "keeps (\<lambda>s. k \<le> ticks s) (now E)" "keeps (\<lambda>s. k \<le> ticks s) (call_out f x)"
  by (auto simp: keeps_def now_def call_out_def)

lemma ticks_updateCandidate: "keeps (\<lambda>s. k \<le> ticks s) (updateCandidate cid f)"
  by (auto simp: keeps_def updateCandidate_def getCandidate_def act_defs modify_db_def split: option.splits)

lemma ticks_updateVerification: "keeps (\<lambda>s. k \<le> ticks s) (updateVerification vid g)"
  by (auto simp: keeps_def updateVerification_def getVerification_def act_defs modify_db_def split: option.splits)

lemma ticks_updateReview: "keeps (\<lambda>s. k \<le> ticks s) (updateReview rid h)"
  by (auto simp: keeps_def updateReview_def getReview_def act_defs modify_db_def split: option.splits)

lemmas ticks_rules = keeps_rules ticks_appendEvent ticks_world ticks_updateCandidate ticks_updateVerification ticks_updateReview

lemma ticks_parts:
  "keeps (\<lambda>s. k \<le> ticks s) (invalidateVerification E vid r)" "keeps (\<lambda>s. k \<le> ticks s) (invalidateReview E vid r)"
  unfolding invalidateVerification_def invalidateReview_def by (intro ticks_rules)+

lemma ticks_ci_parts:
  "keeps (\<lambda>s. k \<le> ticks s) (invalidate_refs E c r)" "keeps (\<lambda>s. k \<le> ticks s) (ci_event E c ty p)"
  "keeps (\<lambda>s. k \<le> ticks s) (final_evidence E c sha pr st n o')" "keeps (\<lambda>s. k \<le> ticks s) (nowIso E)"
  "keeps (\<lambda>s. k \<le> ticks s) (summarizeCi E rs comb)"
  unfolding invalidate_refs_def ci_event_def final_evidence_def nowIso_def summarizeCi_def
  by (intro ticks_rules ticks_parts)+

lemma ticks_ends:
  "keeps (\<lambda>s. k \<le> ticks s) (poll_commit_changed E c sha st n)" "keeps (\<lambda>s. k \<le> ticks s) (poll_branch_changed E c sha pr st n)"
  "keeps (\<lambda>s. k \<le> ticks s) (poll_head_changed E c sha pr st n)" "keeps (\<lambda>s. k \<le> ticks s) (poll_finished E cid c l o')"
  unfolding poll_commit_changed_def poll_branch_changed_def poll_head_changed_def poll_finished_def Let_def
  by (intro ticks_rules ticks_ci_parts)+

lemma ticks_poll_checks: "keeps (\<lambda>s. k \<le> ticks s) (poll_checks E gh cid c sha pr st n)"
  unfolding poll_checks_def Let_def by (intro ticks_rules ticks_ci_parts ticks_ends)

lemma ticks_ci_poll: "keeps (\<lambda>s. k \<le> ticks s) (ci_poll E gh cid sha st n)"
  unfolding ci_poll_def by (intro ticks_rules ticks_ends ticks_poll_checks)

lemma ended_not_None: "fst (bnd m (\<lambda>r. ret (Some r)) s) \<noteq> Inr None"
  by (auto simp: bnd_def ret_def split: prod.splits sum.splits)

lemma now_bnd: "bnd (now E) f s = f (env_clock E (ticks s)) (s\<lparr>ticks := Suc (ticks s)\<rparr>)"
  by (simp add: bnd_def now_def)

lemma ci_loop_ends:
  assumes late: "\<And>m. N \<le> m \<Longrightarrow> deadline \<le> int (env_clock E m)"
  shows "N < ticks s + n \<Longrightarrow> 0 < n \<Longrightarrow> fst (ci_loop n E gh sl pm cid sha st deadline k c prev s) \<noteq> Inr None"
proof (induction n arbitrary: s k c prev)
  case (Suc n)
  let ?t = "env_clock E (ticks s)" and ?s1 = "s\<lparr>ticks := Suc (ticks s)\<rparr>"
  show ?case
  proof (cases "int ?t < deadline")
    case False
    then show ?thesis by (simp add: now_bnd ended_not_None)
  next
    case True
    then have N: "ticks s < N" using late by (meson linorder_not_less)
    then have n: "0 < n" using Suc.prems by simp
    obtain x s2 where poll: "ci_poll E gh cid sha st (Suc k) ?s1 = (x, s2)" by fastforce
    have t2: "Suc (ticks s) \<le> ticks s2" by (rule keepsD [OF ticks_ci_poll _ poll]) simp
    let ?t' = "env_clock E (ticks s2)" and ?s3 = "s2\<lparr>ticks := Suc (ticks s2)\<rparr>"
    consider e where "x = Inl e" | r where "x = Inr (PollEnded r)" | c' ev where "x = Inr (PollAgain c' ev)" "deadline - int ?t' \<le> 0"
      | c' ev where "x = Inr (PollAgain c' ev)" "\<not> deadline - int ?t' \<le> 0"
      by (metis sum.exhaust poll_outcome.exhaust)
    then show ?thesis
    proof cases
      case 3
      with True poll show ?thesis by (simp add: now_bnd bnd_def [of "ci_poll E gh cid sha st (Suc k)"] ended_not_None)
    next
      case 4
      have "fst (ci_loop n E gh sl pm cid sha st deadline (Suc k) c' (Some ev) (?s3\<lparr>ticks := Suc (ticks ?s3)\<rparr>)) \<noteq> Inr None"
        using Suc.prems t2 n by (intro Suc.IH) simp_all
      with True poll 4 show ?thesis by (simp add: bnd_def thn_def now_def call_out_def split: sum.splits)
    qed (use True poll in \<open>simp_all add: bnd_def now_def ret_def\<close>)
  qed
qed simp

lemma ci_loop_fuel:
  "fst (ci_loop n E gh sl pm cid sha st dl k c prev s) \<noteq> Inr None \<Longrightarrow>
   ci_loop (n + m) E gh sl pm cid sha st dl k c prev s = ci_loop n E gh sl pm cid sha st dl k c prev s"
proof (induction n arbitrary: s k c prev)
  case 0
  then show ?case by (simp add: ret_def)
next
  case (Suc n)
  from Suc.prems show ?case
    by (auto simp: bnd_def thn_def now_def call_out_def Suc.IH split: prod.splits sum.splits poll_outcome.splits)
qed

text \<open>Before the loop, the wait either fails or starts polling; neither depends on the fuel.\<close>

lemma ci_wait_start:
  "(\<exists>e u. \<forall>n. waitForExactCandidateCi n E cid client pm tm sl s = (Inl e, u)) \<or>
   (\<exists>gh c sha st u. client = Some gh \<and> find_row c_candidate_id (candidates (db s)) cid = Some c \<and> c_commit_sha c = Some sha \<and>
      candidates (db u) = candidates (db s) \<and>
      (\<forall>n. waitForExactCandidateCi n E cid client pm tm sl s =
         ci_loop n E gh sl pm cid sha st (int (env_clock E (Suc (ticks s))) + tm) 0 c None u))"
proof (cases client)
  case (Some gh)
  note defs = waitForExactCandidateCi_def nowIso_def bnd_assoc now_bnd getCandidate_def run_fwd
  show ?thesis
  proof (cases "find_row c_candidate_id (candidates (db s)) cid")
    case (Some c)
    note c = this
    show ?thesis
    proof (cases "assertCommitSha (c_commit_sha c)")
      case (Inr sha)
      then have sha: "c_commit_sha c = Some sha" by (auto simp: assertCommitSha_def split: option.splits if_splits)
      with Inr have ok: "assertCommitSha (Some sha) = Inr sha" by simp
      show ?thesis
      proof (cases "1 \<le> pm \<and> 1 \<le> tm \<and> truthy_str (c_branch c) \<and> c_pr_number c \<noteq> None")
        case True
        let ?st = "isoString (env_clock E (ticks s))"
        let ?ev = "ci_event E c CI_WAIT_STARTED
                [(''candidate_id'', JStr cid), (''commit_sha'', JStr sha), (''branch'', jstr_opt (c_branch c)),
                 (''pr_number'', js_of_opt JNum (c_pr_number c)), (''poll_ms'', JNum pm), (''timeout_ms'', JNum tm),
                 (''started_at'', JStr ?st)]"
        obtain x u where ev: "?ev (s\<lparr>ticks := Suc (Suc (ticks s))\<rparr>) = (x, u)" by fastforce
        have u: "candidates (db u) = candidates (db s)" using appendEvent_frame [OF ev [unfolded ci_event_def]] by simp
        have eq: "waitForExactCandidateCi n E cid client pm tm sl s =
            thn ?ev (ci_loop n E gh sl pm cid sha ?st (int (env_clock E (Suc (ticks s))) + tm) 0 c None) (s\<lparr>ticks := Suc (Suc (ticks s))\<rparr>)" for n
          using True by (simp add: defs ok sha c \<open>client = Some gh\<close>)
        show ?thesis
        proof (cases x)
          case (Inl e)
          then show ?thesis unfolding eq using thn_fail [where m = ?ev] ev by blast
        next
          case (Inr y)
          then have "waitForExactCandidateCi n E cid client pm tm sl s =
              ci_loop n E gh sl pm cid sha ?st (int (env_clock E (Suc (ticks s))) + tm) 0 c None u" for n
            unfolding eq using thn_step [where m = ?ev] ev by blast
          with u c sha \<open>client = Some gh\<close> show ?thesis by blast
        qed
      next
        case False
        then show ?thesis
          by (intro disjI1, cases "1 \<le> pm"; cases "1 \<le> tm"; cases "truthy_str (c_branch c)"; cases "c_pr_number c")
             (simp_all add: defs ok sha c \<open>client = Some gh\<close>)
      qed
    next
      case (Inl e)
      then show ?thesis
        by (intro disjI1, cases "1 \<le> pm"; cases "1 \<le> tm") (simp_all add: defs c \<open>client = Some gh\<close>)
    qed
  next
    case None
    then show ?thesis
      by (intro disjI1, cases "1 \<le> pm"; cases "1 \<le> tm") (simp_all add: defs \<open>client = Some gh\<close>)
  qed
qed (simp add: waitForExactCandidateCi_def throw_def)

text \<open>
  C20. The wait is bounded: if time goes on (whatever the moment, the clock eventually passes it
  for good), then for enough fuel the wait does not run on, and more fuel does not change what
  it returns or raises. So the loop always ends, with an outcome or with an error.
\<close>

theorem ci_wait_ends:
  assumes "\<And>d. \<exists>N. \<forall>m \<ge> N. d \<le> env_clock E m"
  shows "\<exists>fuel. fst (waitForExactCandidateCi fuel E cid client poll_ms timeout_ms sleepFn s) \<noteq> Inr None \<and>
     (\<forall>k. waitForExactCandidateCi (fuel + k) E cid client poll_ms timeout_ms sleepFn s =
          waitForExactCandidateCi fuel E cid client poll_ms timeout_ms sleepFn s)"
proof -
  have loop: "\<exists>fuel. \<forall>gh c sha st u. fst (ci_loop fuel E gh sleepFn poll_ms cid sha st (int t0 + timeout_ms) 0 c None u) \<noteq> Inr None" for t0
  proof -
    obtain N where N: "\<And>m. N \<le> m \<Longrightarrow> nat (int t0 + timeout_ms) \<le> env_clock E m" using assms by meson
    then have "\<And>m. N \<le> m \<Longrightarrow> int t0 + timeout_ms \<le> int (env_clock E m)" by force
    from ci_loop_ends [OF this] show ?thesis by (intro exI [of _ "Suc N"]) (simp del: ci_loop.simps)
  qed
  let ?t0 = "env_clock E (Suc (ticks s))"
  obtain fuel where fuel: "\<And>gh c sha st u. fst (ci_loop fuel E gh sleepFn poll_ms cid sha st (int ?t0 + timeout_ms) 0 c None u) \<noteq> Inr None"
    using loop by meson
  then have more: "ci_loop (fuel + k) E gh sleepFn poll_ms cid sha st (int ?t0 + timeout_ms) 0 c None u =
      ci_loop fuel E gh sleepFn poll_ms cid sha st (int ?t0 + timeout_ms) 0 c None u" for k gh c sha st u
    by (rule ci_loop_fuel)
  show ?thesis using ci_wait_start [of E cid client poll_ms timeout_ms sleepFn s]
  proof (elim disjE exE conjE)
    fix gh c sha st u
    assume "\<forall>n. waitForExactCandidateCi n E cid client poll_ms timeout_ms sleepFn s =
         ci_loop n E gh sleepFn poll_ms cid sha st (int ?t0 + timeout_ms) 0 c None u"
    then show ?thesis using fuel more by (intro exI [of _ fuel]) simp
  qed auto
qed

theorem ci_wait_ends_witness:
  "\<exists>fuel. fst (waitForExactCandidateCi fuel (demo_env\<lparr>env_clock := (\<lambda>n. n)\<rparr>) ''C1'' (Some demo_gh) 1 5 (\<lambda>n ms. Inr ()) demo_built) \<noteq> Inr None"
proof -
  have "\<exists>N. \<forall>m \<ge> N. d \<le> env_clock (demo_env\<lparr>env_clock := (\<lambda>n. n)\<rparr>) m" for d by (rule exI [of _ d]) simp
  from ci_wait_ends [OF this] show ?thesis by blast
qed

section \<open>Success is GitHub's own\<close>

lemma classify_success: "classifyCiSummary ci = Some CI_SUCCESS \<longleftrightarrow> ci_status ci = ''completed'' \<and> ci_conclusion ci = Some ''success''"
  by (auto simp: classifyCiSummary_def Let_def split: if_splits)

lemma updateCandidate_get:
  assumes "updateCandidate cid f s = (Inr x, s')" and "find_row c_candidate_id (candidates (db s)) cid = Some c"
  shows "find_row c_candidate_id (candidates (db s')) cid = Some (candidate_written f c)"
  using assms
  by (auto simp: updateCandidate_def getCandidate_def run_iff modify_db_def find_row_update candidate_written_def)

lemma poll_finished_candidate:
  assumes run: "poll_finished E cid c prev o' s = (Inr r, s')" and c0: "find_row c_candidate_id (candidates (db s)) cid = Some c0"
  shows "cw_outcome r = o' \<and> (\<exists>c'. cw_candidate r = Some c' \<and> c_commit_sha c' = c_commit_sha c0 \<and> c_ci_status c' = c_ci_status c0 \<and>
    c_ci_conclusion c' = c_ci_conclusion c0)"
proof -
  from run obtain fin x s1 s2 where up: "updateCandidate cid (\<lambda>r. r\<lparr>c_ci_ref := Some (json_stringify (JObj
      (obj_spread prev [(''finished_at'', JStr fin), (''outcome'', JStr (ci_outcome_name o'))]))), c_evidence_at := Some fin\<rparr>) s1 = (Inr x, s2)"
    and s1: "db s1 = db s" and cand: "candidates (db s') = candidates (db s2)" and o: "cw_outcome r = o'"
    and r: "cw_candidate r = find_row c_candidate_id (candidates (db s')) cid"
    by (auto simp: poll_finished_def nowIso_def run_iff now_def Let_def ci_event_def getCandidate_def simp del: json_stringify.simps
        dest!: appendEvent_frame)
  from updateCandidate_get [OF up] c0 s1 cand r o show ?thesis by (simp add: candidate_written_def)
qed

lemma poll_checks_success:
  assumes run: "poll_checks E gh cid c sha pr st k s = (Inr (PollEnded r), s')" and ok: "cw_outcome r = CI_SUCCESS"
    and c0: "find_row c_candidate_id (candidates (db s)) cid = Some c0"
  shows "\<exists>n m rs comb. gh_getCheckRuns gh n sha = Inr rs \<and> gh_getCombinedStatus gh m sha = Inr comb \<and>
    summarize_runs rs comb = (''completed'', Some ''success'') \<and>
    (\<forall>x \<in> set rs. truthy_str (cr_head_sha x) \<longrightarrow> cr_head_sha x = Some sha) \<and>
    (\<exists>c'. cw_candidate r = Some c' \<and> c_commit_sha c' = c_commit_sha c0 \<and> c_ci_status c' = Some ''completed'' \<and>
       c_ci_conclusion c' = Some ''success'')"
proof -
  from run obtain rs comb ci s1 s2 s3 f x s4 s5 ev outc where cr: "call_out (gh_getCheckRuns gh) sha s = (Inr rs, s1)"
    and cs: "call_out (gh_getCombinedStatus gh) sha s1 = (Inr comb, s2)"
    and ci: "summarizeCi E rs comb s2 = (Inr ci, s3)"
    and tags: "List.find (\<lambda>r. truthy_str (cr_head_sha r) \<and> cr_head_sha r \<noteq> Some sha) rs = None"
    and up: "updateCandidate cid f s3 = (Inr x, s4)"
    and f: "\<And>r. c_commit_sha (f r) = c_commit_sha r \<and> c_ci_status (f r) = Some (ci_status ci) \<and> c_ci_conclusion (f r) = ci_conclusion ci"
    and s5: "candidates (db s5) = candidates (db s4)"
    and cl: "classifyCiSummary ci = Some outc" and fin: "poll_finished E cid c ev outc s5 = (Inr r, s')"
    unfolding poll_checks_def Let_def
    by (fastforce simp: bnd_Inr thn_Inr ret_run throw_run ci_event_def dest!: appendEvent_frame split: option.splits)
  have db3: "db s3 = db s" using call_out_db [OF cr] call_out_db [OF cs] ci by (auto simp: summarizeCi_def run_iff now_def)
  have c4: "find_row c_candidate_id (candidates (db s5)) cid = Some (candidate_written f c0)"
    using updateCandidate_get [OF up] c0 db3 s5 by simp
  note pf = poll_finished_candidate [OF fin c4]
  then have "classifyCiSummary ci = Some CI_SUCCESS" using cl ok by simp
  then have su: "ci_status ci = ''completed''" "ci_conclusion ci = Some ''success''" using classify_success by blast+
  have tg: "\<forall>x \<in> set rs. truthy_str (cr_head_sha x) \<longrightarrow> cr_head_sha x = Some sha"
    using tags by (auto simp: find_None_iff)
  have sr: "summarize_runs rs comb = (''completed'', Some ''success'')" using summarizeCi_Inr [OF ci] su by simp
  show ?thesis
    using call_out_db [OF cr] call_out_db [OF cs] sr tg pf f su by (intro exI [of _ "ticks s"] exI [of _ "ticks s1"] exI [of _ rs] exI [of _ comb])
      (auto simp: candidate_written_def)
qed

lemma ci_poll_success:
  assumes run: "ci_poll E gh cid sha st k s = (Inr (PollEnded r), s')" and ok: "cw_outcome r = CI_SUCCESS"
  shows "\<exists>n1 n2 n3 n4 num pr rs comb. gh_getCommit gh n1 sha = Inr (Some sha) \<and> gh_getPullRequest gh n2 num = Inr pr \<and>
    pq_head_sha pr = Some sha \<and> gh_getCheckRuns gh n3 sha = Inr rs \<and> gh_getCombinedStatus gh n4 sha = Inr comb \<and>
    summarize_runs rs comb = (''completed'', Some ''success'') \<and>
    (\<forall>x \<in> set rs. truthy_str (cr_head_sha x) \<longrightarrow> cr_head_sha x = Some sha) \<and>
    (\<exists>c'. cw_candidate r = Some c' \<and> c_commit_sha c' = Some sha \<and> c_ci_status c' = Some ''completed'' \<and>
       c_ci_conclusion c' = Some ''success'')"
proof -
  have no1: "poll_commit_changed E c a st k u \<noteq> (Inr r, u')" for c a u u'
    using ok by (auto simp: poll_commit_changed_def run_iff)
  have no2: "poll_branch_changed E c a pr st k u \<noteq> (Inr r, u')" for c a pr u u'
    using ok by (auto simp: poll_branch_changed_def run_iff)
  have no3: "poll_head_changed E c a pr st k u \<noteq> (Inr r, u')" for c a pr u u'
    using ok by (auto simp: poll_head_changed_def run_iff)
  from run obtain c pr num s1 s2 where c: "find_row c_candidate_id (candidates (db s)) cid = Some c"
    and sha: "assertCommitSha (c_commit_sha c) = Inr sha"
    and co: "call_out (gh_getCommit gh) sha s = (Inr (Some sha), s1)" and pr: "call_out (gh_getPullRequest gh) num s1 = (Inr pr, s2)"
    and head: "pq_head_sha pr = Some sha" and ch: "poll_checks E gh cid c sha pr st k s2 = (Inr (PollEnded r), s')"
    by (auto simp: ci_poll_def getCandidate_def run_iff no1 no2 no3 simp del: append.simps split: option.splits if_splits)
  have "c_commit_sha c = Some sha" using sha by (auto simp: assertCommitSha_def split: option.splits if_splits)
  moreover have "find_row c_candidate_id (candidates (db s2)) cid = Some c" using c call_out_db [OF co] call_out_db [OF pr] by simp
  from poll_checks_success [OF ch ok this] obtain n m rs comb c' where "gh_getCheckRuns gh n sha = Inr rs" "gh_getCombinedStatus gh m sha = Inr comb"
    "summarize_runs rs comb = (''completed'', Some ''success'')" "\<forall>x \<in> set rs. truthy_str (cr_head_sha x) \<longrightarrow> cr_head_sha x = Some sha"
    "cw_candidate r = Some c'" "c_commit_sha c' = c_commit_sha c" "c_ci_status c' = Some ''completed''" "c_ci_conclusion c' = Some ''success''"
    by blast
  ultimately show ?thesis using call_out_db [OF co] call_out_db [OF pr] head by metis
qed

lemma ci_loop_success:
  "ci_loop n E gh sl pm cid sha st dl k c prev s = (Inr (Some r), s') \<Longrightarrow> cw_outcome r = CI_SUCCESS \<Longrightarrow>
   \<exists>j u. ci_poll E gh cid sha st j u = (Inr (PollEnded r), s')"
proof (induction n arbitrary: s k c prev)
  case (Suc n)
  have no: "ci_timeout E cid sha st a b p u \<noteq> (Inr r, u')" for a b p u u'
    using Suc.prems(2) by (auto simp: ci_timeout_def run_iff Let_def)
  from Suc show ?case
    by (auto simp: run_iff no split: if_splits poll_outcome.splits) (metis poll_outcome.exhaust)
qed (simp add: run_iff)


definition demo_waiting :: core where
  "demo_waiting = demo_built\<lparr>db := (db demo_built)\<lparr>candidates := [demo_candidate\<lparr>c_pr_number := Some 7\<rparr>]\<rparr>\<rparr>"

lemma returns_now: "returns (now E) s Q = Q (env_clock E (ticks s)) (s\<lparr>ticks := Suc (ticks s)\<rparr>)"
  by (simp add: returns_def now_def act_defs)

lemma returns_nowIso: "returns (nowIso E) s Q = Q (isoString (env_clock E (ticks s))) (s\<lparr>ticks := Suc (ticks s)\<rparr>)"
  by (simp add: nowIso_def run_wp returns_now)

lemma returns_call_out: "returns (call_out f x) s Q = (case f (ticks s) x of Inl e \<Rightarrow> False | Inr v \<Rightarrow> Q v (s\<lparr>ticks := Suc (ticks s)\<rparr>))"
  by (simp add: returns_def call_out_def act_defs split: sum.splits)

lemma returns_getCandidate: "returns (getCandidate cid) s Q = Q (find_row c_candidate_id (candidates (db s)) cid) s"
  by (simp add: getCandidate_def run_wp)

text \<open>What a wait needs to be able to go on: an event id not used before, and the candidate's row.\<close>

definition wait_ready :: "env \<Rightarrow> string \<Rightarrow> (candidate \<Rightarrow> bool) \<Rightarrow> core \<Rightarrow> bool" where
  "wait_ready E cid P s \<longleftrightarrow> fresh_env E s \<and> (\<exists>c. find_row c_candidate_id (candidates (db s)) cid = Some c \<and> P c)"

lemma wait_ready_ticks: "wait_ready E cid P s \<Longrightarrow> ticks s \<le> n \<Longrightarrow> wait_ready E cid P (s\<lparr>ticks := n\<rparr>)"
  by (auto simp: wait_ready_def intro: fresh_env_mono)

lemma returns_ci_event:
  assumes "wait_ready E cid P s" "\<And>s'. wait_ready E cid P s' \<Longrightarrow> Q () s'"
  shows "returns (ci_event E c ty p) s Q"
proof -
  have f: "fresh_env E s" using assms(1) by (simp add: wait_ready_def)
  have "wait_ready E cid P (logged E (Some (c_task_id c)) (Some (c_factory_run_id c)) ty None (JObj p) s)"
    using assms(1) fresh_env_logged [OF f] by (simp add: wait_ready_def logged_def)
  then show ?thesis by (simp add: ci_event_def returns_def appendEvent_ok [OF f] assms(2))
qed

lemma returns_updateCandidate:
  assumes r: "wait_ready E cid P s" and f: "\<And>c. P c \<Longrightarrow> P (candidate_written f c)"
    and Q: "\<And>x s'. wait_ready E cid P s' \<Longrightarrow> Q x s'"
  shows "returns (updateCandidate cid f) s Q"
proof -
  obtain c where c: "find_row c_candidate_id (candidates (db s)) cid = Some c" "P c" "fresh_env E s"
    using r by (auto simp: wait_ready_def)
  let ?s' = "s\<lparr>db := (db s)\<lparr>candidates := update_row c_candidate_id cid (candidate_written f) (candidates (db s))\<rparr>\<rparr>"
  have run: "updateCandidate cid f s = (Inr (candidate_written f c), ?s')"
    using c(1) by (simp add: updateCandidate_def getCandidate_def act_defs modify_db_def find_row_update candidate_written_def)
  have "fresh_env E ?s'" using c(3) by (rule fresh_env_mono) simp_all
  then have "wait_ready E cid P ?s'" using c f by (simp add: wait_ready_def find_row_update candidate_written_def)
  then show ?thesis using Q by (simp add: returns_def run)
qed

lemma poll_finished_ok:
  assumes "wait_ready E cid (\<lambda>_. True) s" "\<And>r s'. cw_outcome r = o' \<Longrightarrow> Q r s'"
  shows "returns (poll_finished E cid c prev o') s Q"
  unfolding poll_finished_def Let_def run_wp returns_nowIso
  by (rule returns_updateCandidate [OF wait_ready_ticks [OF assms(1)]], simp_all only: simp_thms run_wp le_Suc_eq order.refl)
    (erule returns_ci_event, simp add: run_wp returns_getCandidate assms(2))

definition demo_still :: env where
  "demo_still = demo_env\<lparr>env_clock := (\<lambda>n. 0)\<rparr>"

lemma demo_poll:
  assumes r: "wait_ready demo_still ''C1'' (\<lambda>c. c_commit_sha c = Some demo_sha \<and> c_branch c = Some ''br'' \<and> c_pr_number c = Some 7) s"
    and Q: "\<And>r s'. cw_outcome r = CI_SUCCESS \<Longrightarrow> Q (PollEnded r) s'"
  shows "returns (ci_poll demo_still demo_gh ''C1'' demo_sha stt k) s Q"
proof -
  let ?P = "\<lambda>c. c_commit_sha c = Some demo_sha \<and> c_branch c = Some ''br'' \<and> c_pr_number c = Some 7"
  obtain c where c: "find_row c_candidate_id (candidates (db s)) ''C1'' = Some c" "c_commit_sha c = Some demo_sha" "c_branch c = Some ''br''"
    "c_pr_number c = Some 7" using r by (auto simp: wait_ready_def)
  have sha: "assertCommitSha (Some demo_sha) = Inr demo_sha" "demo_sha \<noteq> []" by (simp_all add: assertCommitSha_def)
  let ?s = "s\<lparr>ticks := Suc (Suc (Suc (Suc (Suc (ticks s)))))\<rparr>"
  have r': "wait_ready demo_still ''C1'' ?P ?s" using r by (rule wait_ready_ticks) simp
  have weak: "wait_ready E cid (\<lambda>_. True) u" if "wait_ready E cid P u" for E cid P u using that by (auto simp: wait_ready_def)
  show ?thesis
    by (simp add: ci_poll_def poll_checks_def run_wp returns_getCandidate returns_call_out c sha demo_gh_def summarizeCi_def
        returns_now Let_def summarize_runs_def run_completed_def run_failed_def run_passed_def
        classifyCiSummary_def truthy_str_def del: json_stringify.simps)
      (rule returns_updateCandidate [OF r'], simp add: candidate_written_def, erule returns_ci_event,
       rule poll_finished_ok [OF weak], auto intro: Q)
qed

lemma demo_wait:
  "returns (waitForExactCandidateCi 1 demo_still ''C1'' (Some demo_gh) 1 1000 (\<lambda>n ms. Inr ())) demo_waiting
     (\<lambda>r s'. \<exists>w. r = Some w \<and> cw_outcome w = CI_SUCCESS)"
proof -
  let ?P = "\<lambda>c. c_commit_sha c = Some demo_sha \<and> c_branch c = Some ''br'' \<and> c_pr_number c = Some 7"
  let ?s = "demo_waiting\<lparr>ticks := Suc (Suc (ticks demo_waiting))\<rparr>"
  have "fresh_env demo_env demo_waiting" by (simp add: demo_waiting_def)
  then have "fresh_env demo_still demo_waiting" by (simp add: fresh_env_def demo_still_def)
  then have r: "wait_ready demo_still ''C1'' ?P demo_waiting"
    by (simp add: wait_ready_def demo_waiting_def demo_candidate_def)
  have sha: "assertCommitSha (Some demo_sha) = Inr demo_sha" by (simp add: assertCommitSha_def)
  obtain c where c: "find_row c_candidate_id (candidates (db demo_waiting)) ''C1'' = Some c" "c_commit_sha c = Some demo_sha"
    "c_branch c = Some ''br''" "c_pr_number c = Some 7" using r by (auto simp: wait_ready_def)
  have r': "wait_ready demo_still ''C1'' ?P ?s" using r by (rule wait_ready_ticks) simp
  have clock: "env_clock demo_still n = 0" for n by (simp add: demo_still_def)
  show ?thesis
    by (simp add: waitForExactCandidateCi_def run_wp returns_getCandidate returns_nowIso returns_now sha c clock truthy_str_def)
      (rule returns_ci_event [OF r'], rule demo_poll, auto intro: wait_ready_ticks simp: run_wp)
qed


end
