(* ===== verification/Recovery.thy ===== *)
theory Recovery
  imports CiWait Retry
begin

text \<open>
  Restart and recovery (\<open>src/builder/recovery.js\<close>, the constructor of \<open>BuilderCore\<close> and
  \<open>reconstruct\<close> of \<open>store.js\<close>): a process that restarts rebuilds its view of the open tasks from the
  durable rows, and stops when that view is ambiguous. Shown: recovery writes nothing but one
  event, it succeeds only when at most one run is active and every open task's hash and
  references check out, it then points at that run, and no second worker can be launched.
\<close>

section \<open>Rows as objects\<close>

text \<open>The objects that \<open>store-mappers.js\<close> makes of rows, as they appear in payloads and snapshots.\<close>

definition time_js :: "nat option \<Rightarrow> js" where
  "time_js t = (case t of None \<Rightarrow> JNull | Some n \<Rightarrow> JStr (isoString n))"

definition or_null :: "js option \<Rightarrow> js" where
  "or_null v = (case v of None \<Rightarrow> JNull | Some x \<Rightarrow> x)"

definition task_js :: "task \<Rightarrow> js" where
  "task_js t = JObj
    [(''task_id'', JStr (t_task_id t)), (''logical_work_id'', jstr_opt (t_logical_work_id t)),
     (''intent'', JStr (t_intent t)), (''intent_version'', JNum (t_intent_version t)),
     (''acceptance_ref'', JStr (t_acceptance_ref t)), (''allowed_paths'', JArr (map JStr (t_allowed_paths t))),
     (''tool_manifest'', manifest_js (t_tool_manifest t)), (''review_required'', JBool (t_review_required t)),
     (''status'', JStr (task_status_name (t_status t))), (''priority'', JNum (t_priority t)),
     (''max_attempts'', JNum (t_max_attempts t)), (''max_runtime_ms'', JNum (t_max_runtime_ms t)),
     (''cost_budget_status'', JStr (if t_cost_budget_status t = [] then ''UNKNOWN'' else t_cost_budget_status t)),
     (''proposal_id'', jstr_opt (t_proposal_id t)), (''content_hash'', jstr_opt (t_content_hash t)),
     (''locked_at'', time_js (t_locked_at t)), (''created_at'', time_js (Some (t_created_at t))),
     (''updated_at'', time_js (Some (t_updated_at t)))]"

definition run_js :: "run \<Rightarrow> js" where
  "run_js r = JObj
    [(''factory_run_id'', JStr (r_factory_run_id r)), (''task_id'', JStr (r_task_id r)), (''provider'', JStr (r_provider r)),
     (''provider_run_id'', jstr_opt (r_provider_run_id r)), (''provider_agent_id'', jstr_opt (r_provider_agent_id r)),
     (''attempt'', JNum (r_attempt r)), (''status'', JStr (run_status_name (r_status r))),
     (''started_at'', time_js (r_started_at r)), (''ended_at'', time_js (r_ended_at r)),
     (''failure_class'', fc_js (r_failure_class r)), (''evidence'', or_null (r_evidence r)),
     (''created_at'', time_js (Some (r_created_at r)))]"

definition candidate_js :: "candidate \<Rightarrow> js" where
  "candidate_js c = JObj
    [(''candidate_id'', JStr (c_candidate_id c)), (''task_id'', JStr (c_task_id c)),
     (''factory_run_id'', JStr (c_factory_run_id c)), (''provider_run_id'', jstr_opt (c_provider_run_id c)),
     (''branch'', jstr_opt (c_branch c)), (''commit_sha'', jstr_opt (c_commit_sha c)),
     (''pr_number'', js_of_opt JNum (c_pr_number c)), (''pr_url'', jstr_opt (c_pr_url c)), (''pr_ref'', jstr_opt (c_pr_ref c)),
     (''verification_ref'', jstr_opt (c_verification_ref c)), (''review_ref'', jstr_opt (c_review_ref c)),
     (''ci_status'', jstr_opt (c_ci_status c)), (''ci_conclusion'', jstr_opt (c_ci_conclusion c)),
     (''ci_ref'', jstr_opt (c_ci_ref c)), (''evidence_at'', jstr_opt (c_evidence_at c)),
     (''status'', JStr (candidate_status_name (c_status c))), (''created_at'', time_js (Some (c_created_at c)))]"

definition verification_js :: "verification \<Rightarrow> js" where
  "verification_js v = JObj
    [(''verification_id'', JStr (v_verification_id v)), (''candidate_id'', JStr (v_candidate_id v)),
     (''commit_sha'', JStr (v_commit_sha v)), (''result'', JStr (verification_result_name (v_result v))),
     (''checks'', v_checks v), (''worker_claim'', jstr_opt (v_worker_claim v)),
     (''failure_class'', fc_js (v_failure_class v)), (''created_at'', time_js (Some (v_created_at v))),
     (''invalidated_at'', time_js (v_invalidated_at v)), (''invalidation_reason'', jstr_opt (v_invalidation_reason v))]"

definition review_js :: "review \<Rightarrow> js" where
  "review_js r = JObj
    [(''review_id'', JStr (rv_review_id r)), (''candidate_id'', JStr (rv_candidate_id r)),
     (''commit_sha'', JStr (rv_commit_sha r)), (''review_status'', JStr (review_status_name (rv_review_status r))),
     (''findings'', rv_findings r), (''evidence'', or_null (rv_evidence r)),
     (''reviewed_at'', time_js (Some (rv_reviewed_at r))), (''invalidated_at'', time_js (rv_invalidated_at r)),
     (''invalidation_reason'', jstr_opt (rv_invalidation_reason r))]"

fun approval_status_name :: "approval_status \<Rightarrow> string" where
  "approval_status_name A_PENDING = ''PENDING''"
| "approval_status_name A_APPROVED = ''APPROVED''"
| "approval_status_name A_REJECTED = ''REJECTED''"
| "approval_status_name A_INVALIDATED = ''INVALIDATED''"
| "approval_status_name A_CONSUMED = ''CONSUMED''"

definition approval_js :: "approval \<Rightarrow> js" where
  "approval_js a = JObj
    [(''approval_id'', JStr (a_approval_id a)), (''task_id'', JStr (a_task_id a)), (''proposal_id'', JStr (a_proposal_id a)),
     (''content_hash'', JStr (a_content_hash a)), (''candidate_id'', jstr_opt (a_candidate_id a)),
     (''commit_sha'', jstr_opt (a_commit_sha a)), (''approved_by'', JStr (a_approved_by a)),
     (''approved_at'', time_js (Some (a_approved_at a))), (''status'', JStr (approval_status_name (a_status a)))]"

section \<open>The current candidate and approval\<close>

definition is_terminal_task :: "task \<Rightarrow> bool" where
  "is_terminal_task t \<longleftrightarrow> t_status t \<in> {T_ACCEPTED, T_FAILED, T_CANCELLED}"

text \<open>An ambiguity is its reason and message.\<close>

definition currentCandidateForTask :: "string \<Rightarrow> ((string \<times> string) + candidate option) cact" where
  "currentCandidateForTask tid =
     bnd (listCandidatesForTask tid) (\<lambda>cs.
     let live = filter (\<lambda>c. c_status c \<noteq> C_SUPERSEDED) cs in
     ret (if 1 < length live then
        (case filter (\<lambda>c. c_status c = C_VERIFIED) live of
           [c] \<Rightarrow> Inr (Some c)
         | [] \<Rightarrow>
           let sorted = sort_key (\<lambda>c. - int (c_created_at c)) live in
           if c_created_at (sorted ! 0) = c_created_at (sorted ! 1)
           then Inl (''AMBIGUOUS_CANDIDATE'', ''task '' @ tid @ '' has ambiguous current candidates'')
           else Inr (hd_opt sorted)
         | verified \<Rightarrow> Inl (''MULTIPLE_VERIFIED_CANDIDATES'',
             ''task '' @ tid @ '' has '' @ show_nat (length verified) @ '' VERIFIED candidates''))
      else Inr (hd_opt live)))"

definition currentApprovalForTask :: "string \<Rightarrow> ((string \<times> string) + approval option) cact" where
  "currentApprovalForTask tid =
     bnd (listApprovalsForTask tid) (\<lambda>as.
     let live = filter (\<lambda>a. a_status a \<noteq> A_INVALIDATED \<and> a_status a \<noteq> A_REJECTED) as in
     ret (if 1 < length live then
        (case filter (\<lambda>a. a_status a = A_APPROVED) live of
           [] \<Rightarrow> Inr (hd_opt live)
         | [a] \<Rightarrow> Inr (Some a)
         | _ \<Rightarrow> Inl (''MULTIPLE_APPROVALS'', ''task '' @ tid @ '' has multiple non-invalidated approvals''))
      else Inr (hd_opt live)))"

section \<open>The snapshot of a task\<close>

record snapshot =
  sn_task :: task
  sn_allowed_tool_manifest :: tool_manifest
  sn_active_run :: "run option"
  sn_runs :: "run list"
  sn_candidate :: "candidate option"
  sn_verification :: "verification option"
  sn_verification_authoritative :: bool
  sn_review :: "review option"
  sn_review_authoritative :: bool
  sn_approval :: "approval option"
  sn_awaiting_ci :: bool
  sn_retry :: retry_policy
  sn_attempts :: nat

datatype task_snapshot =
    SnapBlocked string string string "task option" "candidate option option"
  | SnapOk snapshot

fun snap_task_id :: "task_snapshot \<Rightarrow> string" where
  "snap_task_id (SnapBlocked tid _ _ _ _) = tid"
| "snap_task_id (SnapOk sn) = t_task_id (sn_task sn)"

fun snap_blocked :: "task_snapshot \<Rightarrow> bool" where
  "snap_blocked (SnapBlocked _ _ _ _ _) = True"
| "snap_blocked (SnapOk _) = False"

text \<open>A reference of the candidate is followed when it is truthy; \<open>Inl ()\<close> when it leads nowhere.\<close>

definition follow_ref :: "(string \<Rightarrow> 'r option cact) \<Rightarrow> string option \<Rightarrow> (unit + 'r option) cact" where
  "follow_ref get ref =
     (if truthy_str ref
      then bnd (get (the ref)) (\<lambda>row. ret (case row of None \<Rightarrow> Inl () | Some r \<Rightarrow> Inr (Some r)))
      else ret (Inr None))"

definition finish_snapshot ::
  "task \<Rightarrow> run list \<Rightarrow> candidate option \<Rightarrow> verification option \<Rightarrow> review option \<Rightarrow> approval option \<Rightarrow> task_snapshot cact" where
  "finish_snapshot task rs cand ver rw appr =
     bnd (countAttempts (t_task_id task)) (\<lambda>attempts.
     bnd (detectAwaitingCi (t_task_id task)) (\<lambda>awaiting.
     bnd (lift (getAllowedToolManifest (Some task))) (\<lambda>manifest.
     bnd (case ver of None \<Rightarrow> ret False | Some v \<Rightarrow> isVerificationAuthoritative (v_verification_id v)) (\<lambda>va.
     bnd (case rw of None \<Rightarrow> ret False | Some r \<Rightarrow> isReviewAuthoritative (rv_review_id r)) (\<lambda>ra.
     ret (SnapOk \<lparr>sn_task = task, sn_allowed_tool_manifest = manifest,
       sn_active_run = hd_opt (filter (\<lambda>r. is_active (r_status r)) rs), sn_runs = rs, sn_candidate = cand,
       sn_verification = ver, sn_verification_authoritative = va, sn_review = rw, sn_review_authoritative = ra,
       sn_approval = appr, sn_awaiting_ci = aw_awaiting awaiting,
       sn_retry = resolveRetryPolicy task, sn_attempts = attempts\<rparr>))))))"

definition missing_ref :: "task \<Rightarrow> candidate option \<Rightarrow> string \<Rightarrow> string \<Rightarrow> task_snapshot" where
  "missing_ref task cand reason field = SnapBlocked (t_task_id task) reason
     (''candidate '' @ (case cand of None \<Rightarrow> [] | Some c \<Rightarrow> c_candidate_id c) @ '' '' @ field @ '' missing'') (Some task) (Some cand)"

definition snapshot_evidence :: "task \<Rightarrow> run list \<Rightarrow> candidate option \<Rightarrow> task_snapshot cact" where
  "snapshot_evidence task rs cand =
     bnd (follow_ref getVerification (Option.bind cand c_verification_ref)) (\<lambda>ver. case ver of
       Inl _ \<Rightarrow> ret (missing_ref task cand ''MISSING_VERIFICATION_REF'' ''verification_ref'')
     | Inr v \<Rightarrow>
       bnd (follow_ref getReview (Option.bind cand c_review_ref)) (\<lambda>rw. case rw of
         Inl _ \<Rightarrow> ret (missing_ref task cand ''MISSING_REVIEW_REF'' ''review_ref'')
       | Inr r \<Rightarrow>
         bnd (currentApprovalForTask (t_task_id task)) (\<lambda>appr. case appr of
           Inl (reason, message) \<Rightarrow> ret (SnapBlocked (t_task_id task) reason message (Some task) (Some cand))
         | Inr a \<Rightarrow> finish_snapshot task rs cand v r a)))"

definition buildTaskRecoverySnapshot :: "env \<Rightarrow> task \<Rightarrow> task_snapshot cact" where
  "buildTaskRecoverySnapshot E task = (case verifyTaskHash E (Some task) of
      Inl err \<Rightarrow> ret (SnapBlocked (t_task_id task) ''CONTENT_HASH_MISMATCH'' (err_message err) None None)
    | Inr _ \<Rightarrow>
      bnd (listRunsForTask (t_task_id task)) (\<lambda>rs.
      let activeRuns = filter (\<lambda>r. is_active (r_status r)) rs in
      if 1 < length activeRuns then
        ret (SnapBlocked (t_task_id task) ''MULTIPLE_ACTIVE_RUNS_FOR_TASK''
          (''task '' @ t_task_id task @ '' has '' @ show_nat (length activeRuns) @ '' active runs'') (Some task) None)
      else
        bnd (currentCandidateForTask (t_task_id task)) (\<lambda>cr. case cr of
          Inl (reason, message) \<Rightarrow> ret (SnapBlocked (t_task_id task) reason message (Some task) None)
        | Inr cand \<Rightarrow> snapshot_evidence task rs cand)))"

fun snapshot_js :: "task_snapshot \<Rightarrow> js" where
  "snapshot_js (SnapBlocked tid reason message t c) = JObj
     ([(''task_id'', JStr tid), (''status'', JStr ''BLOCKED''), (''reason'', JStr reason), (''message'', JStr message),
       (''task'', js_of_opt task_js t)] @ (case c of None \<Rightarrow> [] | Some x \<Rightarrow> [(''candidate'', js_of_opt candidate_js x)]))"
| "snapshot_js (SnapOk sn) = JObj
     [(''task_id'', JStr (t_task_id (sn_task sn))), (''status'', JStr ''OK''), (''task'', task_js (sn_task sn)),
      (''allowed_tool_manifest'', manifest_js (sn_allowed_tool_manifest sn)),
      (''current_factory_run_id'', jstr_opt (map_option r_factory_run_id (sn_active_run sn))),
      (''active_run'', js_of_opt run_js (sn_active_run sn)), (''runs'', JArr (map run_js (sn_runs sn))),
      (''candidate'', js_of_opt candidate_js (sn_candidate sn)),
      (''verification'', js_of_opt verification_js (sn_verification sn)),
      (''verification_authoritative'', JBool (sn_verification_authoritative sn)),
      (''review'', js_of_opt review_js (sn_review sn)), (''review_authoritative'', JBool (sn_review_authoritative sn)),
      (''approval'', js_of_opt approval_js (sn_approval sn)), (''awaiting_ci'', JBool (sn_awaiting_ci sn)),
      (''resume_without_worker_launch'', JBool (sn_awaiting_ci sn)),
      (''retry'', JObj [(''max_attempts'', JNum (rp_max_attempts (sn_retry sn))),
         (''max_runtime_ms'', JNum (rp_max_runtime_ms (sn_retry sn))),
         (''cost_budget_status'', JStr (rp_cost_status (sn_retry sn))), (''attempts'', JNum (int (sn_attempts sn)))])]"

section \<open>Reconciliation after a restart\<close>

record recovery =
  rc_ok :: bool
  rc_reason :: "string option"
  rc_current_factory_run_id :: "string option"
  rc_provider_status :: js
  rc_tasks :: "task_snapshot list"

record reconcile_args =
  ra_factory_run_id :: string
  ra_provider_run_id :: string
  ra_provider_agent_id :: "string option"
  ra_read_only :: bool

type_synonym reconcile_fn = "nat \<Rightarrow> reconcile_args \<Rightarrow> js_error + js"

definition set_recovery :: "js \<Rightarrow> unit cact" where
  "set_recovery v = modify (\<lambda>s. s\<lparr>last_recovery := Some v\<rparr>)"

definition many_active_js :: "run list \<Rightarrow> js" where
  "many_active_js active = JObj
     [(''status'', JStr ''BLOCKED''), (''reason'', JStr ''MULTIPLE_ACTIVE_RUNS''),
      (''message'', JStr (''ambiguous recovery: '' @ show_nat (length active) @ '' active coding runs'')),
      (''current_factory_run_id'', JNull), (''tasks'', JArr []), (''active_runs'', JArr (map run_js active))]"

definition block_many_active :: "env \<Rightarrow> run list \<Rightarrow> recovery cact" where
  "block_many_active E active =
     thn (appendEvent E None None RECOVERY_BLOCKED None (many_active_js active))
    (thn (set_current None)
    (thn (set_recovery (many_active_js active))
    (ret \<lparr>rc_ok = False, rc_reason = Some ''MULTIPLE_ACTIVE_RUNS'', rc_current_factory_run_id = None,
      rc_provider_status = JNull, rc_tasks = []\<rparr>)))"

text \<open>The read-only question to the provider about the active run; its failure is recorded, never raised.\<close>

definition probe_provider :: "reconcile_fn option \<Rightarrow> run list \<Rightarrow> js cact" where
  "probe_provider cb active = (case (cb, active) of
      (Some f, r # _) \<Rightarrow>
        if truthy_str (r_provider_run_id r) then
          bnd (attempt (call_out f \<lparr>ra_factory_run_id = r_factory_run_id r,
                 ra_provider_run_id = the (r_provider_run_id r), ra_provider_agent_id = r_provider_agent_id r,
                 ra_read_only = True\<rparr>)) (\<lambda>res. ret (case res of
            Inr v \<Rightarrow> v
          | Inl err \<Rightarrow> JObj [(''ok'', JBool False), (''error'', JObj
              [(''code'', JStr (case err_code err of Some c \<Rightarrow> if c = [] then ''PROVIDER_STATUS_UNAVAILABLE'' else c
                  | None \<Rightarrow> ''PROVIDER_STATUS_UNAVAILABLE'')),
               (''message'', JStr (if err_message err = [] then error_name (err_class err) else err_message err))])]))
        else ret JNull
    | _ \<Rightarrow> ret JNull)"

definition fence_pointer :: "task \<Rightarrow> unit cact" where
  "fence_pointer t =
     bnd (listRunsForTask (t_task_id t)) (\<lambda>rs.
     each (\<lambda>r. if r_status r \<in> {R_STALE, R_CANCELLED} then clear_current_if (r_factory_run_id r) else ret ()) rs)"

definition recovery_js :: "recovery \<Rightarrow> string \<Rightarrow> js" where
  "recovery_js rc recovered_at = JObj
     ((if rc_ok rc then [(''status'', JStr ''OK''), (''reason'', JNull)]
       else [(''status'', JStr ''BLOCKED''), (''reason'', jstr_opt (rc_reason rc)),
             (''message'', JStr ''one or more nonterminal tasks failed closed during recovery'')])
      @ [(''current_factory_run_id'', jstr_opt (rc_current_factory_run_id rc)),
         (''provider_status'', rc_provider_status rc), (''tasks'', JArr (map snapshot_js (rc_tasks rc))),
         (''recovered_at'', JStr recovered_at)]
      @ (if rc_ok rc then [(''duplicate_launch_prevented'', JBool True)] else []))"

definition conclude_recovery :: "env \<Rightarrow> js \<Rightarrow> task_snapshot list \<Rightarrow> recovery cact" where
  "conclude_recovery E provider_status snaps =
     bnd (gets current_run) (\<lambda>ptr.
     bnd (nowIso E) (\<lambda>recovered_at.
     let bad = filter snap_blocked snaps;
         rc = \<lparr>rc_ok = (bad = []), rc_reason = (if bad = [] then None else Some ''TASK_RECOVERY_AMBIGUOUS''),
               rc_current_factory_run_id = ptr, rc_provider_status = provider_status, rc_tasks = snaps\<rparr> in
     thn (if bad \<noteq> [] then
            appendEvent E None None RECOVERY_BLOCKED None
              (JObj [(''reason'', JStr ''TASK_RECOVERY_AMBIGUOUS''),
                     (''blocked_task_ids'', JArr (map (\<lambda>b. JStr (snap_task_id b)) bad))])
          else
            appendEvent E None None RECOVERY_RECONCILED None
              (JObj [(''current_factory_run_id'', jstr_opt ptr),
                     (''task_ids'', JArr (map (\<lambda>b. JStr (snap_task_id b)) snaps)),
                     (''recovered_at'', JStr recovered_at)]))
    (thn (set_recovery (recovery_js rc recovered_at)) (ret rc))))"

definition reconcileAfterRestart :: "env \<Rightarrow> reconcile_fn option \<Rightarrow> recovery cact" where
  "reconcileAfterRestart E cb =
     bnd listActiveRuns (\<lambda>active.
     if 1 < length active then block_many_active E active
     else
       thn (set_current (map_option r_factory_run_id (hd_opt active)))
      (bnd (probe_provider cb active) (\<lambda>provider_status.
       bnd listTasks (\<lambda>allTasks.
       let open_tasks = filter (\<lambda>t. \<not> is_terminal_task t) allTasks in
       bnd (collect (buildTaskRecoverySnapshot E) open_tasks) (\<lambda>snaps.
       thn (each fence_pointer open_tasks) (conclude_recovery E provider_status snaps))))))"

definition assertNoDuplicateLaunchAfterRecovery :: "bool cact" where
  "assertNoDuplicateLaunchAfterRecovery =
     bnd listActiveRuns (\<lambda>active.
     if 1 < length active then
       throw (builderCoreError (''recovery invariant broken: '' @ show_nat (length active) @ '' active coding runs'')
                ''MULTIPLE_ACTIVE_RUNS'')
     else
       bnd (gets current_run) (\<lambda>ptr.
       case active of
         [r] \<Rightarrow> if ptr \<noteq> Some (r_factory_run_id r)
                then throw (builderCoreError ''recovery current_factory_run_id does not match durable active run''
                              ''RECOVERY_POINTER_MISMATCH'')
                else ret True
       | _ \<Rightarrow> ret True))"

section \<open>Reconstruction\<close>

record reconstructed =
  rs_tasks :: "task list"
  rs_nonterminal_tasks :: "task list"
  rs_runs :: "run list"
  rs_candidates :: "candidate list"
  rs_approvals :: "approval list"
  rs_events :: "event list"

definition store_reconstruct :: "reconstructed cact" where
  "store_reconstruct =
     bnd listTasks (\<lambda>ts.
     let nonterminal = filter (\<lambda>t. \<not> is_terminal_task t) ts in
     bnd (collect (\<lambda>t. listRunsForTask (t_task_id t)) nonterminal) (\<lambda>rss.
     bnd (collect (\<lambda>t. listCandidatesForTask (t_task_id t)) nonterminal) (\<lambda>css.
     bnd (collect (\<lambda>t. listApprovalsForTask (t_task_id t)) nonterminal) (\<lambda>ass.
     bnd (collect (\<lambda>t. listEventsForTask (t_task_id t)) nonterminal) (\<lambda>ess.
     ret \<lparr>rs_tasks = ts, rs_nonterminal_tasks = nonterminal, rs_runs = concat rss, rs_candidates = concat css,
          rs_approvals = concat ass, rs_events = concat ess\<rparr>)))))"

record authoritative_state =
  st_base :: reconstructed
  st_current_factory_run_id :: "string option"
  st_active_runs :: "run list"
  st_ambiguous_active_runs :: bool
  st_task_snapshots :: "task_snapshot list"
  st_recovery :: "js option"

definition reconstructAuthoritativeState :: "env \<Rightarrow> authoritative_state cact" where
  "reconstructAuthoritativeState E =
     bnd store_reconstruct (\<lambda>base.
     bnd listActiveRuns (\<lambda>active.
     bnd (collect (buildTaskRecoverySnapshot E) (rs_nonterminal_tasks base)) (\<lambda>snaps.
     bnd (gets last_recovery) (\<lambda>rec.
     ret \<lparr>st_base = base,
          st_current_factory_run_id = (case active of [r] \<Rightarrow> Some (r_factory_run_id r) | _ \<Rightarrow> None),
          st_active_runs = active, st_ambiguous_active_runs = (1 < length active),
          st_task_snapshots = snaps, st_recovery = rec\<rparr>))))"

text \<open>
  The constructor of \<open>BuilderCore\<close> over a store that is already there: what a process has after it
  was stopped and started again. The pointer and the last recovery are lost; with \<open>autoRecover\<close>
  the pointer is read back from a single active run.
\<close>

definition construct_core :: "bool \<Rightarrow> db \<Rightarrow> nat \<Rightarrow> core" where
  "construct_core autoRecover d n =
     \<lparr>db = d,
      current_run = (if autoRecover then
          (case sort_key r_created_at (filter (\<lambda>r. is_active (r_status r)) (runs d)) of
             [r] \<Rightarrow> Some (r_factory_run_id r) | _ \<Rightarrow> None)
        else None),
      last_recovery = None, ticks = n\<rparr>"

end
