(* ===== verification/RecoveryProps.thy ===== *)
theory RecoveryProps
  imports Recovery
begin

text \<open>
  What recovery guarantees: which rows it reads and writes, when it succeeds, and that a process
  that restarted while a worker was running cannot launch another.
\<close>

section \<open>Recovery reads\<close>

lemma authority_reads [keeps_rules]:
  "keeps I (isVerificationAuthoritative vid)" "keeps I (isReviewAuthoritative rvid)"
  unfolding isReviewAuthoritative_def isVerificationAuthoritative_def by (intro keeps_rules)+

lemma detect_reads [keeps_rules]: "keeps I (detectAwaitingCi tid)"
  unfolding detectAwaitingCi_def by (intro keeps_rules)

lemma current_reads [keeps_rules]: "keeps I (currentCandidateForTask tid)" "keeps I (currentApprovalForTask tid)"
  unfolding currentCandidateForTask_def currentApprovalForTask_def Let_def by (intro keeps_rules)+

lemma follow_ref_reads [keeps_rules]: "(\<And>k. keeps I (get k)) \<Longrightarrow> keeps I (follow_ref get ref)"
  unfolding follow_ref_def by (intro keeps_rules)

lemma finish_snapshot_reads [keeps_rules]: "keeps I (finish_snapshot t rs c v r a)"
  unfolding finish_snapshot_def countAttempts_def by (intro keeps_rules)

lemma snapshot_reads [keeps_rules]: "keeps I (buildTaskRecoverySnapshot E t)"
  unfolding buildTaskRecoverySnapshot_def snapshot_evidence_def Let_def by (intro keeps_rules)

lemma reads_state:
  assumes "keeps (\<lambda>x. x = s) m" "m s = (r, s')"
  shows "s' = s"
  using assms(1) refl assms(2) by (rule keepsD)

lemmas snapshot_state = reads_state [OF snapshot_reads]
lemmas snapshots_state = reads_state [OF keeps_collect [OF snapshot_reads]]

lemma store_reconstruct_reads [keeps_rules]: "keeps I store_reconstruct"
  unfolding store_reconstruct_def Let_def by (intro keeps_rules)

lemma reconstructAuthoritativeState_reads [keeps_rules]: "keeps I (reconstructAuthoritativeState E)"
  unfolding reconstructAuthoritativeState_def by (intro keeps_rules)

lemma assertNoDuplicate_reads [keeps_rules]: "keeps I assertNoDuplicateLaunchAfterRecovery"
  unfolding assertNoDuplicateLaunchAfterRecovery_def by (intro keeps_rules)

context core_frame
begin

lemma set_recovery_I [keeps_rules]: "keeps I (set_recovery v)"
  unfolding set_recovery_def by (rule keeps_modify) (rule recovery_I)

lemma probe_provider_I [keeps_rules]: "keeps I (probe_provider cb rs)"
  unfolding probe_provider_def by (intro keeps_rules)

lemma fence_pointer_I [keeps_rules]: "keeps I (fence_pointer t)"
  unfolding fence_pointer_def by (intro keeps_rules)

lemma recovery_ends_I [keeps_rules]: "keeps I (block_many_active E rs)" "keeps I (conclude_recovery E v sns)"
  unfolding block_many_active_def conclude_recovery_def Let_def by (intro keeps_rules)+

lemma reconcileAfterRestart_I [keeps_rules]: "keeps I (reconcileAfterRestart E cb)"
  unfolding reconcileAfterRestart_def Let_def by (intro keeps_rules)

end

section \<open>A good snapshot\<close>

text \<open>
  What an open task must satisfy for recovery to go on: its hash binds it, at most one of its runs is
  active, at most one of its live candidates is verified, and at most one approval stands.
\<close>

definition recoverable :: "env \<Rightarrow> db \<Rightarrow> task \<Rightarrow> bool" where
  "recoverable E d t \<longleftrightarrow>
     verifyTaskHash E (Some t) = Inr () \<and>
     length (filter (\<lambda>r. r_task_id r = t_task_id t \<and> is_active (r_status r)) (runs d)) \<le> 1 \<and>
     length (filter (\<lambda>c. c_task_id c = t_task_id t \<and> c_status c = C_VERIFIED) (candidates d)) \<le> 1 \<and>
     length (filter (\<lambda>a. a_task_id a = t_task_id t \<and> a_status a = A_APPROVED) (approvals d)) \<le> 1"

lemma length_filter_sort: "length (filter P (sort_key k xs)) = length (filter P xs)"
  by (simp add: filter_sort)

lemma filter_twice: "filter P (filter Q xs) = filter (\<lambda>x. Q x \<and> P x) xs"
  by simp

lemma at_most_one_filtered:
  assumes "length (filter Q xs) \<le> 1 \<or> length (filter P (filter Q xs)) \<le> 1" "\<And>x. P x \<Longrightarrow> Q x"
  shows "length (filter P xs) \<le> 1"
proof -
  have "filter P (filter Q xs) = filter P xs" using assms(2) by (auto intro: filter_cong)
  with assms(1) show ?thesis by (metis (no_types) le_trans length_filter_le)
qed

lemma current_candidate_ok:
  assumes "currentCandidateForTask tid s = (Inr (Inr c), s')"
  shows "length (filter (\<lambda>c. c_task_id c = tid \<and> c_status c = C_VERIFIED) (candidates (db s))) \<le> 1"
proof -
  let ?cs = "sort_key c_created_at (filter (\<lambda>c. c_task_id c = tid) (candidates (db s)))"
  have "length (filter (\<lambda>c. c_status c \<noteq> C_SUPERSEDED) ?cs) \<le> 1 \<or>
    length (filter (\<lambda>c. c_status c = C_VERIFIED) (filter (\<lambda>c. c_status c \<noteq> C_SUPERSEDED) ?cs)) \<le> 1"
    using assms
    by (auto simp: currentCandidateForTask_def listCandidatesForTask_def run_iff Let_def
        split: if_splits list.splits)
  then have "length (filter (\<lambda>c. c_status c = C_VERIFIED) ?cs) \<le> 1"
    by (rule at_most_one_filtered) simp
  then show ?thesis by (simp add: length_filter_sort conj_commute)
qed

lemma current_approval_ok:
  assumes "currentApprovalForTask tid s = (Inr (Inr a), s')"
  shows "length (filter (\<lambda>a. a_task_id a = tid \<and> a_status a = A_APPROVED) (approvals (db s))) \<le> 1"
proof -
  let ?as = "sort_key a_approved_at (filter (\<lambda>a. a_task_id a = tid) (approvals (db s)))"
  let ?live = "filter (\<lambda>a. a_status a \<noteq> A_INVALIDATED \<and> a_status a \<noteq> A_REJECTED) ?as"
  have "length ?live \<le> 1 \<or> length (filter (\<lambda>a. a_status a = A_APPROVED) ?live) \<le> 1"
    using assms
    by (auto simp: currentApprovalForTask_def listApprovalsForTask_def run_iff Let_def
        split: if_splits list.splits)
  then have "length (filter (\<lambda>a. a_status a = A_APPROVED) ?as) \<le> 1"
    by (rule at_most_one_filtered) simp
  then show ?thesis by (simp add: length_filter_sort conj_commute)
qed

lemma follow_ref_state:
  "follow_ref getVerification ref s = (r, s') \<Longrightarrow> s' = s"
  "follow_ref getReview ref s = (q, s') \<Longrightarrow> s' = s"
  by (auto simp: follow_ref_def run_iff getVerification_def getReview_def act_defs split: if_splits)

lemma finish_snapshot_task:
  "finish_snapshot t rs c v r a s = (Inr (SnapOk sn), s') \<Longrightarrow> sn_task sn = t"
  by (auto simp: finish_snapshot_def run_iff)

text \<open>A bind that branches at once on the value it was given.\<close>

lemma bnd_case_sum:
  "bnd m (case_sum f g) s = (Inr y, s'') \<longleftrightarrow>
     (\<exists>a s'. m s = (Inr (Inl a), s') \<and> f a s' = (Inr y, s'')) \<or>
     (\<exists>b s'. m s = (Inr (Inr b), s') \<and> g b s' = (Inr y, s''))"
  unfolding bnd_Inr by (metis (no_types, lifting) old.sum.exhaust old.sum.simps(5) old.sum.simps(6))

lemma snapshot_evidence_ok:
  assumes "snapshot_evidence t rs c s = (Inr (SnapOk sn), s')"
  obtains a where "currentApprovalForTask (t_task_id t) s = (Inr (Inr a), s)" "sn_task sn = t"
proof -
  obtain v s1 r s2 a s3 where v: "follow_ref getVerification (Option.bind c c_verification_ref) s = (Inr (Inr v), s1)"
    and r: "follow_ref getReview (Option.bind c c_review_ref) s1 = (Inr (Inr r), s2)"
    and a: "currentApprovalForTask (t_task_id t) s2 = (Inr (Inr a), s3)"
    and fin: "finish_snapshot t rs c v r a s3 = (Inr (SnapOk sn), s')"
    using assms unfolding snapshot_evidence_def
    by (auto simp: bnd_case_sum ret_run missing_ref_def split: prod.splits)
  have "s3 = s2" using a by (rule reads_state [OF current_reads(2)])
  with a follow_ref_state(1) [OF v] follow_ref_state(2) [OF r] finish_snapshot_task [OF fin] that
  show thesis by simp
qed

lemma snapshot_ok:
  assumes "buildTaskRecoverySnapshot E t s = (Inr (SnapOk sn), s')"
  shows "sn_task sn = t \<and> recoverable E (db s) t"
proof -
  have h: "verifyTaskHash E (Some t) = Inr ()"
    using assms by (cases "verifyTaskHash E (Some t)") (simp_all add: buildTaskRecoverySnapshot_def run_iff)
  let ?rs = "sort_key r_attempt (filter (\<lambda>r. r_task_id r = t_task_id t) (runs (db s)))"
  obtain cr s1 where few: "length (filter (\<lambda>r. is_active (r_status r)) ?rs) \<le> 1"
    and cr: "currentCandidateForTask (t_task_id t) s = (Inr cr, s1)"
    and rest: "(case cr of Inl (reason, message) \<Rightarrow> ret (SnapBlocked (t_task_id t) reason message (Some t) None)
      | Inr cand \<Rightarrow> snapshot_evidence t ?rs cand) s1 = (Inr (SnapOk sn), s')"
    using assms h
    by (simp add: buildTaskRecoverySnapshot_def listRunsForTask_def run_iff Let_def split: if_splits) blast
  have s1: "s1 = s" using cr by (rule reads_state [OF current_reads(1)])
  from rest obtain c where c: "currentCandidateForTask (t_task_id t) s = (Inr (Inr c), s1)"
    and ev: "snapshot_evidence t ?rs c s = (Inr (SnapOk sn), s')"
    using cr s1 by (auto simp: run_iff split: sum.splits prod.splits)
  obtain a where a: "currentApprovalForTask (t_task_id t) s = (Inr (Inr a), s)" and "sn_task sn = t"
    using ev by (rule snapshot_evidence_ok)
  with h few current_candidate_ok [OF c] current_approval_ok [OF a] show ?thesis
    by (simp add: recoverable_def length_filter_sort conj_commute)
qed

section \<open>The course of a recovery\<close>

definition active_runs :: "db \<Rightarrow> run list" where
  "active_runs d = sort_key r_created_at (filter (\<lambda>r. is_active (r_status r)) (runs d))"

definition open_tasks :: "db \<Rightarrow> task list" where
  "open_tasks d = filter (\<lambda>t. \<not> is_terminal_task t) (sort_key t_created_at (tasks d))"

lemma set_active_runs [simp]: "set (active_runs d) = {r \<in> set (runs d). is_active (r_status r)}"
  by (auto simp: active_runs_def)

lemma set_open_tasks [simp]: "set (open_tasks d) = {t \<in> set (tasks d). \<not> is_terminal_task t}"
  by (auto simp: open_tasks_def)

text \<open>The database grown by one event.\<close>

definition one_more_event :: "event_type \<Rightarrow> db \<Rightarrow> db \<Rightarrow> bool" where
  "one_more_event ty d d' \<longleftrightarrow> (\<exists>e. d' = d\<lparr>events := events d @ [e]\<rparr> \<and> e_event_type e = ty)"

lemma one_more_event_rows:
  "one_more_event ty d d' \<Longrightarrow> runs d' = runs d \<and> tasks d' = tasks d \<and> active_runs d' = active_runs d"
  by (auto simp: one_more_event_def active_runs_def)

lemma appendEvent_one_more:
  assumes "appendEvent E tid rid ty ref p s = (Inr u, s')"
  shows "one_more_event ty (db s) (db s') \<and> current_run s' = current_run s"
  using assms
  by (auto simp: one_more_event_def appendEvent_def newId_def now_def act_defs modify_db_def split: if_splits)

lemma probe_state:
  assumes "probe_provider cb rs s = (r, s')"
  shows "(\<exists>v. r = Inr v) \<and> db s' = db s \<and> current_run s' = current_run s"
  using assms
  by (auto simp: probe_provider_def act_defs call_out_def split: option.splits list.splits if_splits prod.splits)

lemma each_idle: "(\<And>x. x \<in> set xs \<Longrightarrow> f x s = (Inr (), s)) \<Longrightarrow> each f xs s = (Inr (), s)"
  by (induction xs) (simp_all add: ret_def thn_def bnd_def)

text \<open>The pointer names no fenced run.\<close>

definition pointer_clean :: "core \<Rightarrow> bool" where
  "pointer_clean s \<longleftrightarrow> (\<forall>r \<in> set (runs (db s)). r_status r \<in> {R_STALE, R_CANCELLED} \<longrightarrow> current_run s \<noteq> Some (r_factory_run_id r))"

lemma fence_idle: "pointer_clean s \<Longrightarrow> fence_pointer t s = (Inr (), s)"
  unfolding fence_pointer_def listRunsForTask_def gets_fwd
  by (rule each_idle) (auto simp: pointer_clean_def clear_current_if_def modify_def ret_def)

lemma fences_idle: "pointer_clean s \<Longrightarrow> each fence_pointer ts s = (Inr (), s)"
  by (intro each_idle fence_idle)

lemma pointer_cleanI:
  assumes "distinct (map r_factory_run_id (runs (db s)))"
    and "\<And>p. current_run s = Some p \<Longrightarrow> \<exists>r \<in> set (runs (db s)). r_factory_run_id r = p \<and> is_active (r_status r)"
  shows "pointer_clean s"
  unfolding pointer_clean_def
proof (intro ballI impI notI)
  fix q
  assume q: "q \<in> set (runs (db s))" "r_status q \<in> {R_STALE, R_CANCELLED}" "current_run s = Some (r_factory_run_id q)"
  with assms(2) obtain r where "r \<in> set (runs (db s))" "r_factory_run_id r = r_factory_run_id q" "is_active (r_status r)"
    by blast
  with assms(1) q(1) have "r = q" by (metis find_row_distinct option.inject)
  with q(2) \<open>is_active (r_status r)\<close> show False by (auto simp: is_active_def ACTIVE_RUN_STATUSES_def)
qed

lemma conclude_result:
  assumes "conclude_recovery E v sns s = (Inr rc, s')"
  shows "rc_tasks rc = sns \<and> rc_ok rc = list_all (\<lambda>b. \<not> snap_blocked b) sns \<and>
    rc_current_factory_run_id rc = current_run s \<and> current_run s' = current_run s \<and>
    rc_reason rc = (if rc_ok rc then None else Some ''TASK_RECOVERY_AMBIGUOUS'') \<and>
    one_more_event (if rc_ok rc then RECOVERY_RECONCILED else RECOVERY_BLOCKED) (db s) (db s')"
  using assms
  by (auto simp: conclude_recovery_def run_iff Let_def nowIso_def now_def set_recovery_def filter_empty_conv list_all_iff
      split: if_splits dest!: appendEvent_one_more)

lemma block_result:
  assumes "block_many_active E rs s = (Inr rc, s')"
  shows "\<not> rc_ok rc \<and> rc_reason rc = Some ''MULTIPLE_ACTIVE_RUNS'' \<and> rc_current_factory_run_id rc = None \<and>
    current_run s' = None \<and> one_more_event RECOVERY_BLOCKED (db s) (db s')"
  using assms
  by (auto simp: block_many_active_def run_iff set_recovery_def set_current_def dest!: appendEvent_one_more)

lemma collect_Inr:
  "collect f xs s = (Inr ys, s') \<Longrightarrow> (\<And>x r s'. x \<in> set xs \<Longrightarrow> f x s = (r, s') \<Longrightarrow> s' = s) \<Longrightarrow>
   list_all2 (\<lambda>x y. f x s = (Inr y, s)) xs ys"
proof (induction xs arbitrary: ys)
  case (Cons x xs)
  then obtain y s1 zs where y: "f x s = (Inr y, s1)" and zs: "collect f xs s1 = (Inr zs, s')" "ys = y # zs"
    by (auto simp: run_iff)
  have "s1 = s" using Cons.prems(2) y by (metis list.set_intros(1))
  with Cons y zs show ?case by auto
qed (simp add: run_iff)

lemma pointer_after_probe:
  assumes "integrity s" "db s1 = db s" "current_run s1 = current_run (s\<lparr>current_run := map_option r_factory_run_id (hd_opt (active_runs (db s)))\<rparr>)"
  shows "pointer_clean s1"
proof (rule pointer_cleanI)
  show "distinct (map r_factory_run_id (runs (db s1)))" using assms by (simp add: integrity_def wf_db_def)
  fix p
  assume "current_run s1 = Some p"
  then obtain r rs where "active_runs (db s) = r # rs" "p = r_factory_run_id r"
    using assms by (auto simp: hd_opt_def split: list.splits)
  then show "\<exists>r \<in> set (runs (db s1)). r_factory_run_id r = p \<and> is_active (r_status r)"
    using set_active_runs [of "db s"] by (auto simp: assms)
qed

lemma reconcile_stages:
  assumes i: "integrity s" and few: "length (active_runs (db s)) \<le> 1"
    and run: "reconcileAfterRestart E cb s = (Inr rc, s')"
  obtains v sns s1 where "db s1 = db s" "current_run s1 = map_option r_factory_run_id (hd_opt (active_runs (db s)))"
    "list_all2 (\<lambda>t b. buildTaskRecoverySnapshot E t s1 = (Inr b, s1)) (open_tasks (db s)) sns"
    "conclude_recovery E v sns s1 = (Inr rc, s')"
proof -
  let ?ptr = "map_option r_factory_run_id (hd_opt (active_runs (db s)))"
  obtain v s1 where v: "probe_provider cb (active_runs (db s)) (s\<lparr>current_run := ?ptr\<rparr>) = (Inr v, s1)"
    and rest: "bnd (collect (buildTaskRecoverySnapshot E) (open_tasks (db s1))) (\<lambda>snaps.
       thn (each fence_pointer (open_tasks (db s1))) (conclude_recovery E v snaps)) s1 = (Inr rc, s')"
    using run few
    by (auto simp: reconcileAfterRestart_def listActiveRuns_def listTasks_def set_current_def modify_def gets_fwd
        bnd_Inr thn_Inr Let_def active_runs_def [symmetric] open_tasks_def [symmetric])
  from probe_state [OF v] have s1: "db s1 = db s" "current_run s1 = ?ptr" by simp_all
  from rest obtain sns s2 where c: "collect (buildTaskRecoverySnapshot E) (open_tasks (db s)) s1 = (Inr sns, s2)"
    and rest2: "thn (each fence_pointer (open_tasks (db s))) (conclude_recovery E v sns) s2 = (Inr rc, s')"
    by (auto simp: bnd_Inr s1)
  have s2: "s2 = s1" using c by (rule snapshots_state)
  have "pointer_clean s1" using i s1 by (intro pointer_after_probe) simp_all
  then have "conclude_recovery E v sns s1 = (Inr rc, s')"
    using rest2 by (simp add: s2 thn_def bnd_def fences_idle)
  moreover have "list_all2 (\<lambda>t b. buildTaskRecoverySnapshot E t s1 = (Inr b, s1)) (open_tasks (db s)) sns"
    using collect_Inr [OF c] snapshot_state by blast
  ultimately show thesis using s1 that by blast
qed

section \<open>What recovery guarantees\<close>

lemma reconcile_blocked:
  assumes "1 < length (active_runs (db s))" "reconcileAfterRestart E cb s = (Inr rc, s')"
  shows "\<not> rc_ok rc \<and> rc_reason rc = Some ''MULTIPLE_ACTIVE_RUNS'' \<and> rc_current_factory_run_id rc = None \<and>
    current_run s' = None \<and> one_more_event RECOVERY_BLOCKED (db s) (db s')"
  using assms block_result [of E "active_runs (db s)" s rc s']
  by (simp add: reconcileAfterRestart_def listActiveRuns_def gets_fwd active_runs_def [symmetric])

lemma list_all2_partner: "list_all2 P xs ys \<Longrightarrow> x \<in> set xs \<Longrightarrow> \<exists>y \<in> set ys. P x y"
  by (induction rule: list_all2_induct) auto

lemma good_snapshots:
  assumes "list_all2 (\<lambda>t b. buildTaskRecoverySnapshot E t s = (Inr b, s)) ts sns"
    and "list_all (\<lambda>b. \<not> snap_blocked b) sns" "t \<in> set ts"
  shows "recoverable E (db s) t"
proof -
  obtain b where b: "b \<in> set sns" "buildTaskRecoverySnapshot E t s = (Inr b, s)"
    using list_all2_partner [OF assms(1,3)] by blast
  with assms(2) obtain sn where "b = SnapOk sn" by (cases b) (auto simp: list_all_iff)
  with b(2) snapshot_ok [of E t s sn s] show ?thesis by simp
qed

lemma assertNoDuplicate_ok:
  assumes "length (active_runs (db s)) \<le> 1" "current_run s = map_option r_factory_run_id (hd_opt (active_runs (db s)))"
  shows "assertNoDuplicateLaunchAfterRecovery s = (Inr True, s)"
proof -
  have read: "listActiveRuns s = (Inr (active_runs (db s)), s)"
    by (simp add: listActiveRuns_def active_runs_def gets_def)
  show ?thesis
  proof (cases "active_runs (db s)")
    case Nil
    then show ?thesis
      by (simp add: assertNoDuplicateLaunchAfterRecovery_def bnd_def read gets_def ret_def)
  next
    case (Cons r rs)
    with assms have "active_runs (db s) = [r]" "current_run s = Some (r_factory_run_id r)"
      by (simp_all add: hd_opt_def)
    then show ?thesis
      by (simp add: assertNoDuplicateLaunchAfterRecovery_def bnd_def read gets_def ret_def)
  qed
qed

lemma recovery_facts:
  assumes i: "integrity s" and run: "reconcileAfterRestart E cb s = (Inr rc, s')"
  shows "one_more_event (if rc_ok rc then RECOVERY_RECONCILED else RECOVERY_BLOCKED) (db s) (db s') \<and>
    rc_current_factory_run_id rc = current_run s' \<and>
    (if 1 < length (active_runs (db s)) then \<not> rc_ok rc \<and> current_run s' = None
     else current_run s' = map_option r_factory_run_id (hd_opt (active_runs (db s)))) \<and>
    (rc_ok rc \<longrightarrow> length (active_runs (db s)) \<le> 1 \<and> (\<forall>t \<in> set (open_tasks (db s)). recoverable E (db s) t) \<and>
       assertNoDuplicateLaunchAfterRecovery s' = (Inr True, s'))"
proof (cases "1 < length (active_runs (db s))")
  case True
  from reconcile_blocked [OF this run] True show ?thesis by simp
next
  case False
  then have few: "length (active_runs (db s)) \<le> 1" by simp
  from i few run obtain v sns s1 where s1: "db s1 = db s"
      "current_run s1 = map_option r_factory_run_id (hd_opt (active_runs (db s)))"
    and sns: "list_all2 (\<lambda>t b. buildTaskRecoverySnapshot E t s1 = (Inr b, s1)) (open_tasks (db s)) sns"
    and c: "conclude_recovery E v sns s1 = (Inr rc, s')"
    by (rule reconcile_stages)
  note fin = conclude_result [OF c]
  have "active_runs (db s') = active_runs (db s)"
    using fin one_more_event_rows by (metis s1(1))
  then have "rc_ok rc \<longrightarrow> assertNoDuplicateLaunchAfterRecovery s' = (Inr True, s')"
    using assertNoDuplicate_ok [of s'] few fin s1 by simp
  moreover have "rc_ok rc \<longrightarrow> (\<forall>t \<in> set (open_tasks (db s)). recoverable E (db s) t)"
    using good_snapshots [OF sns] fin by (auto simp: s1(1))
  ultimately show ?thesis using few False fin s1 by (cases "rc_ok rc") simp_all
qed

subsection \<open>Recovery always answers\<close>

text \<open>A read that never raises.\<close>

definition answers :: "('s, 'e, 'a) act \<Rightarrow> bool" where
  "answers m \<longleftrightarrow> (\<forall>s. \<exists>x. m s = (Inr x, s))"

lemma answers_ret: "answers (ret x)"
  by (simp add: answers_def ret_def)

lemma answers_gets: "answers (gets f)"
  by (simp add: answers_def gets_def)

lemma answers_bnd: "answers m \<Longrightarrow> (\<And>x. answers (f x)) \<Longrightarrow> answers (bnd m f)"
  unfolding answers_def bnd_def by (metis (no_types, lifting) old.sum.simps(6) split_conv)

lemma answers_if: "(b \<Longrightarrow> answers m) \<Longrightarrow> (\<not> b \<Longrightarrow> answers k) \<Longrightarrow> answers (if b then m else k)"
  by simp

lemma answers_option: "answers m \<Longrightarrow> (\<And>y. answers (f y)) \<Longrightarrow> answers (case x of None \<Rightarrow> m | Some y \<Rightarrow> f y)"
  by (cases x) simp_all

lemma answers_sum: "(\<And>y. answers (f y)) \<Longrightarrow> (\<And>y. answers (g y)) \<Longrightarrow> answers (case_sum f g x)"
  by (cases x) simp_all

lemma answers_prod: "(\<And>a b. answers (f a b)) \<Longrightarrow> answers (case x of (a, b) \<Rightarrow> f a b)"
  by (cases x) simp_all

lemma answers_list: "answers m \<Longrightarrow> (\<And>y ys. answers (f y ys)) \<Longrightarrow> answers (case x of [] \<Rightarrow> m | y # ys \<Rightarrow> f y ys)"
  by (cases x) simp_all

lemma answers_collect: "(\<And>x. answers (f x)) \<Longrightarrow> answers (collect f xs)"
  by (induction xs) (auto intro: answers_ret answers_bnd)

lemmas answers_rules = answers_ret answers_gets answers_bnd answers_if answers_option answers_sum
  answers_prod answers_list

lemma answers_reads:
  "answers (getTask tid)" "answers (getRun rid)" "answers (getCandidate cid)" "answers (getVerification vid)"
  "answers (getReview rvid)" "answers (listRunsForTask tid)" "answers (listCandidatesForTask tid)"
  "answers (listApprovalsForTask tid)"
  by (simp_all add: answers_gets getTask_def getRun_def getCandidate_def getVerification_def getReview_def
      listRunsForTask_def listCandidatesForTask_def listApprovalsForTask_def)

lemma answers_authority: "answers (isVerificationAuthoritative vid)" "answers (isReviewAuthoritative rvid)"
  unfolding isReviewAuthoritative_def isVerificationAuthoritative_def
  by (intro answers_rules answers_reads)+

lemma answers_detect: "answers (detectAwaitingCi tid)"
  unfolding detectAwaitingCi_def by (intro answers_rules answers_reads)

lemma answers_current: "answers (currentCandidateForTask tid)" "answers (currentApprovalForTask tid)"
  unfolding currentCandidateForTask_def currentApprovalForTask_def Let_def by (intro answers_rules answers_reads)+

lemma answers_follow: "(\<And>k. answers (get k)) \<Longrightarrow> answers (follow_ref get ref)"
  unfolding follow_ref_def by (intro answers_rules)

lemma answers_finish: "answers (finish_snapshot t rs c v r a)"
proof -
  have "answers (lift (getAllowedToolManifest (Some t)))"
    by (simp add: answers_def getAllowedToolManifest_def lift_def)
  then show ?thesis
    unfolding finish_snapshot_def countAttempts_def
    by (intro answers_rules answers_reads answers_detect answers_authority)
qed

lemma answers_snapshot: "answers (buildTaskRecoverySnapshot E t)"
  unfolding buildTaskRecoverySnapshot_def snapshot_evidence_def Let_def
  by (intro answers_rules answers_reads answers_follow answers_current answers_finish)

lemma appendEvent_returns: "fresh_env E s \<Longrightarrow> \<exists>s'. appendEvent E tid rid ty ref p s = (Inr (), s')"
  by (simp add: appendEvent_ok)

lemma conclude_returns:
  assumes "fresh_env E s"
  shows "\<exists>rc s'. conclude_recovery E v sns s = (Inr rc, s')"
proof -
  have "fresh_env E (s\<lparr>ticks := Suc (ticks s)\<rparr>)" using assms by (auto intro: fresh_env_mono)
  then have "\<exists>s'. appendEvent E tid rid ty ref p (s\<lparr>ticks := Suc (ticks s)\<rparr>) = (Inr (), s')" for tid rid ty ref p
    by (rule appendEvent_returns)
  then show ?thesis
    by (simp add: conclude_recovery_def bnd_Inr thn_Inr gets_run nowIso_def now_def set_recovery_def modify_run ret_run Let_def)
qed

lemma probe_ticks: "probe_provider cb rs s = (r, s') \<Longrightarrow> ticks s \<le> ticks s'"
  by (auto simp: probe_provider_def act_defs call_out_def split: option.splits list.splits if_splits prod.splits)

lemma modify_fwd: "thn (modify f) k s = k (f s)"
  by (simp add: thn_def bnd_def modify_def)

lemma reconcile_returns:
  assumes i: "integrity s" and f: "fresh_env E s"
  shows "\<exists>rc s'. reconcileAfterRestart E cb s = (Inr rc, s')"
proof (cases "1 < length (active_runs (db s))")
  case True
  with appendEvent_returns [OF f] show ?thesis
    by (simp add: reconcileAfterRestart_def listActiveRuns_def gets_fwd active_runs_def [symmetric]
        block_many_active_def thn_Inr set_current_def set_recovery_def modify_run ret_run)
next
  case False
  let ?s0 = "s\<lparr>current_run := map_option r_factory_run_id (hd_opt (active_runs (db s)))\<rparr>"
  obtain v s1 where v: "probe_provider cb (active_runs (db s)) ?s0 = (Inr v, s1)"
    using probe_state by (metis surj_pair)
  have s1: "db s1 = db s" "current_run s1 = current_run ?s0" using probe_state [OF v] by simp_all
  have "answers (collect (buildTaskRecoverySnapshot E) (open_tasks (db s)))"
    by (intro answers_collect answers_snapshot)
  then obtain sns where sns: "collect (buildTaskRecoverySnapshot E) (open_tasks (db s)) s1 = (Inr sns, s1)"
    by (auto simp: answers_def)
  have "ticks s \<le> ticks s1" using probe_ticks [OF v] by simp
  then have fr: "fresh_env E s1" using f s1(1) by (auto intro: fresh_env_mono)
  have "\<exists>s2. each fence_pointer (open_tasks (db s)) s1 = (Inr (), s2) \<and> fresh_env E s2"
    using fences_idle [OF pointer_after_probe [OF i s1]] fr by blast
  then obtain s2 where s2: "each fence_pointer (open_tasks (db s)) s1 = (Inr (), s2)" "fresh_env E s2" by blast
  from conclude_returns [OF s2(2)] obtain rc s' where "conclude_recovery E v sns s2 = (Inr rc, s')" by blast
  then have "bnd (collect (buildTaskRecoverySnapshot E) (open_tasks (db s))) (\<lambda>snaps.
      thn (each fence_pointer (open_tasks (db s))) (conclude_recovery E v snaps)) s1 = (Inr rc, s')"
    by (simp add: bnd_def thn_def sns s2(1))
  with False have "reconcileAfterRestart E cb s = (Inr rc, s')"
    by (simp add: reconcileAfterRestart_def listActiveRuns_def gets_fwd active_runs_def [symmetric] set_current_def
        modify_fwd bnd_def [of "probe_provider cb (active_runs (db s))"] v listTasks_def open_tasks_def [symmetric] s1 Let_def)
  then show ?thesis by blast
qed

text \<open>
  C23. Recovery of an intact store always answers and fails closed. Whatever it decides, it writes
  exactly one event and no other row. With more than one active run it is blocked and points at no
  run; otherwise it points at the one active run, or at none. It reports success only if at most one
  run is active and every open task carries a valid hash, at most one active run, one verified
  candidate and one approval; the check against duplicate launches then passes.
\<close>

theorem recovery_fails_closed:
  assumes "integrity s" "fresh_env E s"
  shows "\<exists>rc s'. reconcileAfterRestart E cb s = (Inr rc, s') \<and>
    one_more_event (if rc_ok rc then RECOVERY_RECONCILED else RECOVERY_BLOCKED) (db s) (db s') \<and>
    rc_current_factory_run_id rc = current_run s' \<and>
    (if 1 < length (active_runs (db s)) then \<not> rc_ok rc \<and> current_run s' = None
     else current_run s' = map_option r_factory_run_id (hd_opt (active_runs (db s)))) \<and>
    (rc_ok rc \<longrightarrow> length (active_runs (db s)) \<le> 1 \<and> (\<forall>t \<in> set (open_tasks (db s)). recoverable E (db s) t) \<and>
       assertNoDuplicateLaunchAfterRecovery s' = (Inr True, s'))"
  using reconcile_returns [OF assms, of cb] recovery_facts [OF assms(1), of E cb] by blast

definition demo_live_run :: run where
  "demo_live_run = (pending_run ''R1'' ''T1'' ''cursor'' (Some ''p1'') (Some ''g1'') 1)\<lparr>r_status := R_RUNNING, r_started_at := Some 1\<rparr>"

definition demo_busy :: core where
  "demo_busy = demo_core\<lparr>db := (db demo_core)\<lparr>runs := [demo_live_run]\<rparr>\<rparr>"

lemma demo_busy_facts:
  "integrity demo_busy" "fresh_env demo_env demo_busy" "active_runs (db demo_busy) = [demo_live_run]"
  by (simp_all add: demo_busy_def demo_live_run_def pending_run_def active_runs_def is_active_def ACTIVE_RUN_STATUSES_def
      integrity_def wf_db_def)

theorem recovery_fails_closed_witness:
  "\<exists>rc s'. reconcileAfterRestart demo_env None demo_busy = (Inr rc, s') \<and> current_run s' = Some ''R1''"
  using recovery_fails_closed [OF demo_busy_facts(1,2), of None]
  by (auto simp: demo_busy_facts(3) hd_opt_def demo_live_run_def pending_run_def)

lemma current_run_found:
  assumes "integrity s" "active_runs (db s) = [r]" "current_run s = Some (r_factory_run_id r)"
  shows "\<exists>s'. getCurrentCodingRun s = (Inr (Some r), s') \<and> db s' = db s"
proof -
  have r: "r \<in> set (runs (db s))" "is_active (r_status r)"
    using assms(2) set_active_runs [of "db s"] by auto
  then have "find_row r_factory_run_id (runs (db s)) (r_factory_run_id r) = Some r"
    using assms(1) by (intro find_row_distinct) (simp_all add: integrity_def wf_db_def)
  with r assms(2,3) show ?thesis
    by (auto simp: getCurrentCodingRun_def current_pointer_def active_from_store_def listActiveRuns_def getRun_def
        set_current_def active_runs_def [symmetric] act_defs)
qed



end
