(* ===== verification/Disk.thy ===== *)
theory Disk
  imports Store "HOL-Library.Sublist"
begin

text \<open>
  The part of \<open>node:fs\<close> and \<open>node:path\<close> that the tick uses. A path is the list of its segments
  below the file system's root; a disk maps paths to directories and files. The operating system
  may refuse any call: the parameter \<open>F\<close> gives the error of the n-th call, and a refused call
  changes nothing.
\<close>

named_theorems disk_wp \<open>evaluating a run on a disk\<close>

type_synonym path = "string list"

datatype node = Dir | File string

record disk =
  nodes :: "path \<Rightarrow> node option"
  calls :: nat

type_synonym 'a dact = "(disk, js_error, 'a) act"

type_synonym os_faults = "nat \<Rightarrow> js_error option"

definition fsError :: "string \<Rightarrow> js_error" where
  "fsError code = codedError (ExternalError ''Error'') code code"

section \<open>Paths\<close>

fun split_slash :: "string \<Rightarrow> string \<Rightarrow> string list" where
  "split_slash acc [] = [rev acc]"
| "split_slash acc (c # cs) = (if c = CHR ''/'' then rev acc # split_slash [] cs else split_slash (c # acc) cs)"

text \<open>One segment appended to a normalised path: \<open>absolute\<close> tells an absolute path from a relative one,
  which may begin with dots that lead out of it.\<close>

definition put_segment :: "bool \<Rightarrow> path \<Rightarrow> string \<Rightarrow> path" where
  "put_segment absolute p seg =
     (if seg = [] \<or> seg = ''.'' then p
      else if seg = ''..'' then
        (if p = [] then (if absolute then [] else [seg])
         else if last p = ''..'' \<and> \<not> absolute then p @ [seg] else butlast p)
      else p @ [seg])"

definition join_path :: "path \<Rightarrow> string list \<Rightarrow> path" where
  "join_path root parts = foldl (put_segment True) root (concat (map (split_slash []) parts))"

definition join_rel :: "string list \<Rightarrow> path" where
  "join_rel parts = foldl (put_segment False) [] (concat (map (split_slash []) parts))"

definition path_string :: "path \<Rightarrow> string" where
  "path_string p = (if p = [] then ''.'' else join_with ''/'' p)"

section \<open>Calls\<close>

definition io :: "os_faults \<Rightarrow> 'a dact \<Rightarrow> 'a dact" where
  "io F m = (\<lambda>d. let d' = d\<lparr>calls := Suc (calls d)\<rparr> in
     case F (calls d) of Some e \<Rightarrow> (Inl e, d') | None \<Rightarrow> m d')"

definition put_node :: "path \<Rightarrow> node \<Rightarrow> disk \<Rightarrow> disk" where
  "put_node p n d = d\<lparr>nodes := (nodes d)(p \<mapsto> n)\<rparr>"

text \<open>Why nothing can be created at a path: its parent is missing, or is a file.\<close>

definition parent_problem :: "disk \<Rightarrow> path \<Rightarrow> string option" where
  "parent_problem d p = (case nodes d (butlast p) of
     None \<Rightarrow> Some ''ENOENT'' | Some (File _) \<Rightarrow> Some ''ENOTDIR'' | Some Dir \<Rightarrow> None)"

definition mkdirSync :: "os_faults \<Rightarrow> path \<Rightarrow> unit dact" where
  "mkdirSync F p = io F (\<lambda>d.
     if nodes d p \<noteq> None then (Inl (fsError ''EEXIST''), d)
     else case parent_problem d p of
       Some c \<Rightarrow> (Inl (fsError c), d)
     | None \<Rightarrow> (Inr (), put_node p Dir d))"

text \<open>\<open>mkdirSync(p, { recursive: true })\<close>.\<close>

definition is_file :: "disk \<Rightarrow> path \<Rightarrow> bool" where
  "is_file d p \<longleftrightarrow> (case nodes d p of Some (File _) \<Rightarrow> True | _ \<Rightarrow> False)"

definition mkdirp :: "os_faults \<Rightarrow> path \<Rightarrow> unit dact" where
  "mkdirp F p = io F (\<lambda>d.
     if is_file d p then (Inl (fsError ''EEXIST''), d)
     else if list_ex (is_file d) (prefixes p) then (Inl (fsError ''ENOTDIR''), d)
     else (Inr (), d\<lparr>nodes := (\<lambda>q. if prefix q p then Some Dir else nodes d q)\<rparr>))"

definition writeFileSync :: "os_faults \<Rightarrow> path \<Rightarrow> string \<Rightarrow> unit dact" where
  "writeFileSync F p text = io F (\<lambda>d.
     if nodes d p = Some Dir then (Inl (fsError ''EISDIR''), d)
     else case parent_problem d p of
       Some c \<Rightarrow> (Inl (fsError c), d)
     | None \<Rightarrow> (Inr (), put_node p (File text) d))"

definition existsSync :: "path \<Rightarrow> bool dact" where
  "existsSync p = gets (\<lambda>d. nodes d p \<noteq> None)"

definition readFileSync :: "os_faults \<Rightarrow> path \<Rightarrow> string dact" where
  "readFileSync F p = io F (\<lambda>d. case nodes d p of
     None \<Rightarrow> (Inl (fsError ''ENOENT''), d)
   | Some Dir \<Rightarrow> (Inl (fsError ''EISDIR''), d)
   | Some (File text) \<Rightarrow> (Inr text, d))"

text \<open>\<open>rmSync(p, { recursive: true, force: true })\<close>.\<close>

definition rmSync :: "os_faults \<Rightarrow> path \<Rightarrow> unit dact" where
  "rmSync F p = io F (\<lambda>d. (Inr (), d\<lparr>nodes := (\<lambda>q. if prefix p q then None else nodes d q)\<rparr>))"

section \<open>Calls that are not refused\<close>

lemma mkdirSync_new:
  assumes "F (calls d) = None" "nodes d p = None" "nodes d (butlast p) = Some Dir"
  shows "mkdirSync F p d = (Inr (), put_node p Dir (d\<lparr>calls := Suc (calls d)\<rparr>))"
  using assms by (simp add: mkdirSync_def io_def parent_problem_def Let_def)

lemma mkdirSync_exists:
  assumes "F (calls d) = None" "nodes d p \<noteq> None"
  shows "mkdirSync F p d = (Inl (fsError ''EEXIST''), d\<lparr>calls := Suc (calls d)\<rparr>)"
  using assms by (simp add: mkdirSync_def io_def Let_def)

lemma writeFileSync_new:
  assumes "F (calls d) = None" "nodes d p \<noteq> Some Dir" "nodes d (butlast p) = Some Dir"
  shows "writeFileSync F p text d = (Inr (), put_node p (File text) (d\<lparr>calls := Suc (calls d)\<rparr>))"
  using assms by (simp add: writeFileSync_def io_def parent_problem_def Let_def)

lemma calls_put_node [simp]: "calls (put_node p n d) = calls d"
  by (simp add: put_node_def)

lemma nodes_put_node [simp]: "nodes (put_node p n d) q = (if q = p then Some n else nodes d q)"
  by (simp add: put_node_def)

section \<open>Well-formed disks\<close>

text \<open>Everything stands in a directory that exists.\<close>

definition tree :: "disk \<Rightarrow> bool" where
  "tree d \<longleftrightarrow> nodes d [] = Some Dir \<and> (\<forall>p. p \<noteq> [] \<longrightarrow> nodes d p \<noteq> None \<longrightarrow> nodes d (butlast p) = Some Dir)"

lemma tree_parent: "tree d \<Longrightarrow> nodes d (p @ [s]) \<noteq> None \<Longrightarrow> nodes d p = Some Dir"
  by (metis append_is_Nil_conv butlast_snoc not_Cons_self2 tree_def)

lemma tree_prefix:
  assumes "tree d" "nodes d (p @ qs) \<noteq> None" "qs \<noteq> []"
  shows "nodes d p = Some Dir"
  using assms(2,3)
proof (induction qs rule: rev_induct)
  case (snoc s qs)
  then have "nodes d (p @ qs) = Some Dir"
    using tree_parent [OF assms(1), of "p @ qs" s] by simp
  with snoc.IH show ?case by (cases "qs = []") simp_all
qed simp

lemma tree_absent_below: "tree d \<Longrightarrow> nodes d p = None \<Longrightarrow> prefix p q \<Longrightarrow> nodes d q = None"
  by (metis append_Nil2 option.distinct(1) prefix_def tree_prefix)

lemma io_tree: "(\<And>d'. tree d' \<Longrightarrow> tree (snd (m d'))) \<Longrightarrow> keeps tree (io F m)"
  by (auto simp: keeps_def io_def tree_def Let_def split: option.splits)

lemma put_node_tree:
  "tree d \<Longrightarrow> nodes d (butlast p) = Some Dir \<Longrightarrow> p \<noteq> [] \<Longrightarrow> nodes d p \<noteq> Some Dir \<Longrightarrow> tree (put_node p n d)"
  by (auto simp: tree_def put_node_def)

end
