(* ===== verification/TickLock.thy ===== *)
theory TickLock
  imports Disk
begin

text \<open>
  The exclusive tick lock (\<open>src/builder/tick-lock.js\<close>): a directory whose creation is atomic, with
  the owner written inside it. Shown: on a disk that answers every call the lock refines an
  abstract lock with at most one holder, for every sequence of requests; a call the operating
  system refuses after the directory was made leaves the lock held by nobody.
\<close>

definition tickLockError :: "string \<Rightarrow> string \<Rightarrow> js_error" where
  "tickLockError = codedError TickLockError"

definition tickLockDir :: "path \<Rightarrow> path" where
  "tickLockDir root = join_path root [''.data/builder/jarvis-tick.lock'']"

definition owner_file :: "path \<Rightarrow> path" where
  "owner_file root = join_path (tickLockDir root) [''owner.json'']"

definition owner_record :: "js \<Rightarrow> nat \<Rightarrow> js" where
  "owner_record owner t = JObj [(''owner'', owner), (''acquired_at'', JStr (isoString t))]"

definition acquireTickLock :: "os_faults \<Rightarrow> path \<Rightarrow> js \<Rightarrow> nat \<Rightarrow> path dact" where
  "acquireTickLock F root owner t =
     thn (mkdirp F (join_path root [''.data/builder'']))
    (thn (catch (mkdirSync F (tickLockDir root))
            (\<lambda>err. if err_code err = Some ''EEXIST''
               then throw (tickLockError ''duplicate trigger: tick lock already held'' ''DUPLICATE_TRIGGER'')
               else throw err))
    (thn (writeFileSync F (owner_file root) (json_stringify (owner_record owner t) @ [CHR 0x0A]))
         (ret (tickLockDir root))))"

definition releaseTickLock :: "os_faults \<Rightarrow> path \<Rightarrow> unit dact" where
  "releaseTickLock F root =
     bnd (existsSync (tickLockDir root)) (\<lambda>present.
     if \<not> present then ret ()
     else catch (rmSync F (tickLockDir root)) (\<lambda>_. ret ()))"

definition readTickLock :: "os_faults \<Rightarrow> path \<Rightarrow> js option dact" where
  "readTickLock F root =
     bnd (existsSync (owner_file root)) (\<lambda>present.
     if \<not> present then ret None
     else bnd (attempt (readFileSync F (owner_file root))) (\<lambda>text.
       ret (Some (case text of
           Inl _ \<Rightarrow> JObj [(''owner'', JStr ''unreadable'')]
         | Inr s \<Rightarrow> (case json_parse s of None \<Rightarrow> JObj [(''owner'', JStr ''unreadable'')] | Some v \<Rightarrow> v)))))"

section \<open>The lock as an abstract machine\<close>

text \<open>At most one holder, with the time it took the lock.\<close>

type_synonym lock_state = "(js \<times> nat) option"

datatype lock_command = Acquire js nat | Release | Read

datatype lock_reply = Granted | Duplicate | Released | Holder "js option" | Fault js_error

fun lock_spec :: "lock_command \<Rightarrow> lock_state \<Rightarrow> lock_reply \<times> lock_state" where
  "lock_spec (Acquire w t) None = (Granted, Some (w, t))"
| "lock_spec (Acquire w t) (Some h) = (Duplicate, Some h)"
| "lock_spec Release h = (Released, None)"
| "lock_spec Read h = (Holder (map_option (\<lambda>(w, t). owner_record w t) h), h)"

definition is_duplicate :: "js_error \<Rightarrow> bool" where
  "is_duplicate e \<longleftrightarrow> err_class e = TickLockError \<and> err_code e = Some ''DUPLICATE_TRIGGER''"

fun lock_run :: "lock_command \<Rightarrow> os_faults \<Rightarrow> path \<Rightarrow> lock_reply dact" where
  "lock_run (Acquire w t) F root = bnd (attempt (acquireTickLock F root w t)) (\<lambda>r. ret (case r of
      Inr _ \<Rightarrow> Granted | Inl e \<Rightarrow> if is_duplicate e then Duplicate else Fault e))"
| "lock_run Release F root = thn (releaseTickLock F root) (ret Released)"
| "lock_run Read F root = bnd (readTickLock F root) (\<lambda>v. ret (Holder v))"

definition lock_step :: "path \<Rightarrow> lock_command \<Rightarrow> disk \<Rightarrow> lock_reply \<times> disk" where
  "lock_step root c d = (case lock_run c (\<lambda>_. None) root d of (Inl e, d') \<Rightarrow> (Fault e, d') | (Inr r, d') \<Rightarrow> (r, d'))"

fun lock_legal :: "lock_command \<Rightarrow> bool" where
  "lock_legal (Acquire w t) = wf_js w"
| "lock_legal _ = True"

text \<open>A disk on which the project root is a directory and nothing blocks \<open>.data/builder\<close>.\<close>

definition grounded :: "path \<Rightarrow> disk \<Rightarrow> bool" where
  "grounded root d \<longleftrightarrow> tree d \<and> nodes d root = Some Dir \<and>
     \<not> is_file d (root @ [''.data'']) \<and> \<not> is_file d (root @ [''.data'', ''builder''])"

definition lock_related :: "path \<Rightarrow> disk \<Rightarrow> lock_state \<Rightarrow> bool" where
  "lock_related root d h \<longleftrightarrow> grounded root d \<and> (case h of
      None \<Rightarrow> nodes d (tickLockDir root) = None
    | Some (w, t) \<Rightarrow> wf_js w \<and> nodes d (tickLockDir root) = Some Dir \<and>
        nodes d (owner_file root) = Some (File (json_stringify (owner_record w t) @ [CHR 0x0A])))"

section \<open>Paths of the lock\<close>

lemma lock_dir: "tickLockDir root = root @ [''.data'', ''builder'', ''jarvis-tick.lock'']"
  by (simp add: tickLockDir_def join_path_def put_segment_def)

lemma data_dir: "join_path root [''.data/builder''] = root @ [''.data'', ''builder'']"
  by (simp add: join_path_def put_segment_def)

lemma owner_path: "owner_file root = root @ [''.data'', ''builder'', ''jarvis-tick.lock'', ''owner.json'']"
  by (simp add: owner_file_def lock_dir join_path_def put_segment_def)

lemmas lock_paths = lock_dir data_dir owner_path

lemma root_dirs: "grounded root d \<Longrightarrow> prefix q root \<Longrightarrow> nodes d q = Some Dir"
  by (metis append_Nil2 grounded_def option.distinct(1) prefixE tree_prefix)

lemma parents_not_files:
  assumes "grounded root d"
  shows "\<not> list_ex (is_file d) (prefixes (root @ [''.data'', ''builder'']))"
proof -
  have "\<not> is_file d q" if "prefix q (root @ [''.data'', ''builder''])" for q
  proof -
    from that consider "prefix q root" | "q = root @ [''.data'']" | "q = root @ [''.data'', ''builder'']"
      by (auto simp: prefix_append prefix_Cons)
    then show ?thesis
      using assms by cases (auto simp: grounded_def is_file_def dest: root_dirs [OF assms])
  qed
  then show ?thesis by (auto simp: list_ex_iff)
qed

section \<open>One call at a time\<close>

text \<open>The disk after \<open>.data/builder\<close> was made.\<close>

definition with_data_dir :: "path \<Rightarrow> disk \<Rightarrow> disk" where
  "with_data_dir root d = d\<lparr>calls := Suc (calls d),
     nodes := (\<lambda>q. if prefix q (root @ [''.data'', ''builder'']) then Some Dir else nodes d q)\<rparr>"

lemma mkdirp_data:
  assumes "grounded root d" "F (calls d) = None"
  shows "mkdirp F (root @ [''.data'', ''builder'']) d = (Inr (), with_data_dir root d)"
proof -
  have "\<not> is_file (d\<lparr>calls := n\<rparr>) (root @ [''.data'', ''builder''])"
    "\<not> list_ex (is_file (d\<lparr>calls := n\<rparr>)) (prefixes (root @ [''.data'', ''builder'']))" for n
    using assms(1) parents_not_files [OF assms(1)] by (auto simp: grounded_def is_file_def list_ex_iff)
  then show ?thesis using assms(2) by (simp add: mkdirp_def io_def with_data_dir_def Let_def cong: if_cong)
qed

lemma with_data_dir_tree: "tree d \<Longrightarrow> tree (with_data_dir root d)"
  unfolding tree_def with_data_dir_def
  by (auto dest: prefix_order.trans [OF prefixeq_butlast])

lemma with_data_dir_grounded: "grounded root d \<Longrightarrow> grounded root (with_data_dir root d)"
  using with_data_dir_tree [of d root] by (simp add: grounded_def with_data_dir_def is_file_def)

lemma with_data_dir_lock [simp]:
  "nodes (with_data_dir root d) (root @ ''.data'' # ''builder'' # x # xs) =
   nodes d (root @ ''.data'' # ''builder'' # x # xs)"
  by (simp add: with_data_dir_def prefix_append)

lemma with_data_dir_here [simp]: "nodes (with_data_dir root d) (root @ [''.data'', ''builder'']) = Some Dir"
  by (simp add: with_data_dir_def)

text \<open>The disk of a granted lock.\<close>

definition locked_disk :: "path \<Rightarrow> string \<Rightarrow> disk \<Rightarrow> disk" where
  "locked_disk root text d =
     (let d1 = with_data_dir root d;
          d2 = put_node (tickLockDir root) Dir (d1\<lparr>calls := Suc (calls d1)\<rparr>)
      in put_node (owner_file root) (File text) (d2\<lparr>calls := Suc (calls d2)\<rparr>))"

lemma calls_with_data_dir [simp]: "calls (with_data_dir root d) = Suc (calls d)"
  by (simp add: with_data_dir_def)

lemma mkdir_lock:
  assumes "nodes d (tickLockDir root) = None" "F (Suc (calls d)) = None"
  shows "mkdirSync F (tickLockDir root) (with_data_dir root d) =
    (Inr (), put_node (tickLockDir root) Dir ((with_data_dir root d)\<lparr>calls := Suc (Suc (calls d))\<rparr>))"
  using assms mkdirSync_new [of F "with_data_dir root d" "tickLockDir root"]
  by (simp add: lock_dir butlast_append)

lemma acquire_free:
  assumes d: "grounded root d" "nodes d (tickLockDir root) = None"
    and F: "F (calls d) = None" "F (Suc (calls d)) = None" "F (Suc (Suc (calls d))) = None"
  shows "acquireTickLock F root w t d =
    (Inr (tickLockDir root), locked_disk root (json_stringify (owner_record w t) @ [CHR 0x0A]) d)"
proof -
  let ?d2 = "put_node (tickLockDir root) Dir ((with_data_dir root d)\<lparr>calls := Suc (Suc (calls d))\<rparr>)"
  have "nodes d (owner_file root) = None"
    using d by (auto simp: grounded_def lock_paths elim!: tree_absent_below)
  then have "writeFileSync F (owner_file root) body ?d2 =
      (Inr (), put_node (owner_file root) (File body) (?d2\<lparr>calls := Suc (Suc (Suc (calls d)))\<rparr>))" for body
    using F(3) writeFileSync_new [of F ?d2 "owner_file root"] by (simp add: lock_paths butlast_append)
  then show ?thesis
    using mkdirp_data [of root d F] mkdir_lock [of d root F] d F
    by (simp add: acquireTickLock_def data_dir thn_def bnd_def catch_def ret_def locked_disk_def)
qed

lemma acquire_held:
  assumes d: "grounded root d" "nodes d (tickLockDir root) \<noteq> None"
    and F: "F (calls d) = None" "F (Suc (calls d)) = None"
  shows "acquireTickLock F root w t d =
    (Inl (tickLockError ''duplicate trigger: tick lock already held'' ''DUPLICATE_TRIGGER''),
     (with_data_dir root d)\<lparr>calls := Suc (Suc (calls d))\<rparr>)"
proof -
  have "mkdirSync F (tickLockDir root) (with_data_dir root d) =
      (Inl (fsError ''EEXIST''), (with_data_dir root d)\<lparr>calls := Suc (Suc (calls d))\<rparr>)"
    using d(2) F(2) mkdirSync_exists [of F "with_data_dir root d" "tickLockDir root"] by (simp add: lock_dir)
  then show ?thesis
    using mkdirp_data [of root d F] d F
    by (simp add: acquireTickLock_def data_dir thn_def bnd_def catch_def throw_def fsError_def codedError_def)
qed

section \<open>Refinement\<close>

lemma tree_calls [simp]: "tree (d\<lparr>calls := n\<rparr>) = tree d"
  by (simp add: tree_def)

lemma grounded_calls [simp]: "grounded root (d\<lparr>calls := n\<rparr>) = grounded root d"
  by (simp add: grounded_def is_file_def)

lemma lock_related_calls [simp]: "lock_related root (d\<lparr>calls := n\<rparr>) h = lock_related root d h"
  by (simp add: lock_related_def split: option.splits)

lemma grounded_put:
  assumes "grounded root d" "nodes d (butlast p) = Some Dir" "nodes d p \<noteq> Some Dir" "p \<noteq> []"
    and "p \<noteq> root @ [''.data'']" "p \<noteq> root @ [''.data'', ''builder'']"
  shows "grounded root (put_node p n d)"
  using assms put_node_tree [of d p n] by (auto simp: grounded_def is_file_def)

lemma locked_disk_related:
  assumes d: "grounded root d" "nodes d (tickLockDir root) = None" and w: "wf_js w"
  shows "lock_related root (locked_disk root (json_stringify (owner_record w t) @ [CHR 0x0A]) d) (Some (w, t))"
proof -
  let ?d1 = "(with_data_dir root d)\<lparr>calls := Suc (Suc (calls d))\<rparr>"
  let ?d2 = "put_node (tickLockDir root) Dir ?d1"
  have "grounded root ?d2"
    using d with_data_dir_grounded [OF d(1)] by (intro grounded_put) (simp_all add: lock_dir butlast_append)
  moreover have "nodes d (owner_file root) = None"
    using d by (auto simp: grounded_def lock_paths elim!: tree_absent_below)
  ultimately have "grounded root (put_node (owner_file root) (File body) (?d2\<lparr>calls := m\<rparr>))" for body m
    by (intro grounded_put) (simp_all add: lock_paths butlast_append)
  with w show ?thesis by (simp add: lock_related_def locked_disk_def lock_paths)
qed

lemma with_data_dir_related:
  assumes "lock_related root d h"
  shows "lock_related root (with_data_dir root d) h"
  using assms with_data_dir_grounded [of root d]
  by (auto simp: lock_related_def lock_paths split: option.splits)

lemma removed_tree: "tree d \<Longrightarrow> p \<noteq> [] \<Longrightarrow> tree (d\<lparr>nodes := (\<lambda>q. if prefix p q then None else nodes d q)\<rparr>)"
  unfolding tree_def by (auto dest: prefix_order.trans [OF _ prefixeq_butlast])

lemma released_related:
  assumes "grounded root d"
  shows "lock_related root (d\<lparr>nodes := (\<lambda>q. if prefix (tickLockDir root) q then None else nodes d q)\<rparr>) None"
  using assms removed_tree [of d "tickLockDir root"]
  by (auto simp: lock_related_def grounded_def lock_dir is_file_def)

lemma release_runs:
  assumes "lock_related root d h"
  shows "\<exists>d'. releaseTickLock (\<lambda>_. None) root d = (Inr (), d') \<and> lock_related root d' None"
proof (cases "nodes d (tickLockDir root)")
  case None
  then show ?thesis
    using assms by (auto simp: releaseTickLock_def existsSync_def gets_def bnd_def ret_def lock_related_def)
next
  case (Some n)
  have "grounded root d" using assms by (simp add: lock_related_def)
  moreover have "rmSync (\<lambda>_. None) p d =
      (Inr (), (d\<lparr>nodes := (\<lambda>q. if prefix p q then None else nodes d q)\<rparr>)\<lparr>calls := Suc (calls d)\<rparr>)" for p
    by (simp add: rmSync_def io_def Let_def cong: if_cong)
  ultimately show ?thesis
    using Some released_related [of root d]
    by (simp add: releaseTickLock_def existsSync_def gets_def bnd_def catch_def)
qed

lemma wf_owner_record [simp]: "wf_js (owner_record w t) = wf_js w"
  by (simp add: owner_record_def)

lemma read_runs:
  assumes "lock_related root d h"
  shows "\<exists>n. readTickLock (\<lambda>_. None) root d = (Inr (map_option (\<lambda>(w, t). owner_record w t) h), d\<lparr>calls := n\<rparr>)"
proof (cases h)
  case None
  have "nodes d (owner_file root) = None"
    using assms None by (auto simp: lock_related_def grounded_def lock_paths elim!: tree_absent_below)
  with None show ?thesis
    by (intro exI [of _ "calls d"]) (simp add: readTickLock_def existsSync_def gets_def bnd_def ret_def)
next
  case (Some wt)
  obtain w t where wt: "wt = (w, t)" by (cases wt)
  with assms Some have "nodes d (owner_file root) = Some (File (json_stringify (owner_record w t) @ [CHR 0x0A]))"
    and "wf_js (owner_record w t)"
    by (simp_all add: lock_related_def)
  with Some wt json_parse_line [of "owner_record w t"] show ?thesis
    by (simp add: readTickLock_def existsSync_def gets_def bnd_def ret_def attempt_def readFileSync_def io_def
        Let_def) blast
qed

interpretation tick: refinement "lock_related root" lock_legal "lock_step root" lock_spec for root
proof
  fix d h x
  assume rel: "lock_related root d h" and ok: "lock_legal x"
  then have g: "grounded root d" by (simp add: lock_related_def)
  show "fst (lock_step root x d) = fst (lock_spec x h) \<and>
    lock_related root (snd (lock_step root x d)) (snd (lock_spec x h))"
  proof (cases x)
    case (Acquire w t)
    show ?thesis
    proof (cases h)
      case None
      then have "nodes d (tickLockDir root) = None" using rel by (simp add: lock_related_def)
      with g ok Acquire None locked_disk_related [of root d w t] show ?thesis
        by (simp add: lock_step_def acquire_free attempt_def bnd_def ret_def)
    next
      case (Some wt)
      then have "nodes d (tickLockDir root) \<noteq> None" using rel by (auto simp: lock_related_def split: prod.splits)
      with g Acquire Some with_data_dir_related [OF rel] show ?thesis
        by (simp add: lock_step_def acquire_held attempt_def bnd_def ret_def is_duplicate_def
            tickLockError_def codedError_def)
    qed
  next
    case Release
    with release_runs [OF rel] show ?thesis
      by (auto simp: lock_step_def thn_def bnd_def ret_def)
  next
    case Read
    with read_runs [OF rel] rel show ?thesis
      by (auto simp: lock_step_def bnd_def ret_def)
  qed
qed

text \<open>
  C24. On a disk that answers every call, the lock directory refines an abstract lock with at most
  one holder: for every sequence of acquire, release and read requests the replies are those of
  the abstract lock (granted exactly when nobody holds it, \<open>DUPLICATE_TRIGGER\<close> otherwise, the
  holder's own record on a read), and the disk stays related to its state.
\<close>

theorem tick_lock_refines:
  assumes "lock_related root d h" "list_all lock_legal cs"
  shows "fst (run_commands (lock_step root) cs d) = fst (run_commands lock_spec cs h) \<and>
    lock_related root (snd (run_commands (lock_step root) cs d)) (snd (run_commands lock_spec cs h))"
  using assms by (rule tick.run_refines)

definition bare_disk :: disk where
  "bare_disk = \<lparr>nodes = [[] \<mapsto> Dir, [''repo''] \<mapsto> Dir], calls = 0\<rparr>"

theorem tick_lock_refines_witness:
  "fst (run_commands (lock_step [''repo'']) [Acquire (JNum 7) 5, Acquire (JNum 8) 6, Read, Release, Acquire (JNum 8) 9] bare_disk) =
   [Granted, Duplicate, Holder (Some (owner_record (JNum 7) 5)), Released, Granted]"
proof -
  have "lock_related [''repo''] bare_disk None"
    by (auto simp: lock_related_def grounded_def tree_def bare_disk_def is_file_def lock_dir)
  from tick_lock_refines [OF this, of "[Acquire (JNum 7) 5, Acquire (JNum 8) 6, Read, Release, Acquire (JNum 8) 9]"]
  show ?thesis by simp
qed

section \<open>A refused write\<close>

text \<open>
  When the operating system refuses the write of \<open>owner.json\<close>, the acquire raises and the directory
  it made stays: every later trigger is turned away as a duplicate until someone removes it.
\<close>

lemma acquire_refused_leaks:
  assumes d: "grounded root d" "nodes d (tickLockDir root) = None"
    and F: "F (calls d) = None" "F (Suc (calls d)) = None" "F (Suc (Suc (calls d))) = Some e"
  shows "\<exists>d'. acquireTickLock F root w t d = (Inl e, d') \<and> grounded root d' \<and> nodes d' (tickLockDir root) = Some Dir"
proof -
  let ?d2 = "put_node (tickLockDir root) Dir ((with_data_dir root d)\<lparr>calls := Suc (Suc (calls d))\<rparr>)"
  have "writeFileSync F (owner_file root) body ?d2 = (Inl e, ?d2\<lparr>calls := Suc (Suc (Suc (calls d)))\<rparr>)" for body
    using F(3) by (simp add: writeFileSync_def io_def Let_def)
  moreover have "grounded root ?d2"
    using d with_data_dir_grounded [OF d(1)] by (intro grounded_put) (simp_all add: lock_dir butlast_append)
  ultimately show ?thesis
    using mkdirp_data [of root d F] mkdir_lock [of d root F] d F
    by (simp add: acquireTickLock_def data_dir thn_def bnd_def catch_def)
qed

end
