(* ===== verification/WorkerContract.thy ===== *)
theory WorkerContract
  imports TickLock ToolPolicy
begin

text \<open>
  The worker contract (\<open>src/builder/worker-contract.js\<close>): the bounded brief that is written for one
  run before a worker may be dispatched. Shown: the contract of a run with a plain identifier is
  written at its own place under the project root, names the task, the run and every required
  command, forbids self-certification, and the files of other runs are untouched.
\<close>

definition workerContractRelPath :: "string \<Rightarrow> path" where
  "workerContractRelPath rid = join_rel [''control/runs'', rid, ''worker-contract.md'']"

text \<open>What the contract reads of the orientation; an absent property prints as nothing.\<close>

record orientation_brief =
  ob_active_work_state :: string
  ob_next_phase_candidate :: string

record contract_payload =
  cp_task :: task
  cp_factory_run_id :: string
  cp_head_sha :: "string option"
  cp_orientation :: orientation_brief
  cp_commands :: "string list"

definition jarr :: "string list \<Rightarrow> js" where
  "jarr xs = JArr (map JStr xs)"

definition FORBIDDEN_LINES :: "string list" where
  "FORBIDDEN_LINES =
    [''- Do not set PASS, DONE, ACCEPTED, or otherwise self-certify completion.'',
     ''- Do not advance phases or treat orientation as release-gate proof.'',
     ''- Do not use production or business credentials.'',
     ''- Do not work outside allowed_paths.'',
     ''- Do not enable Hermes, voice, Obsidian, Prime, extra coding workers, or new product scope.'',
     ''- Do not enable the live Jarvis Builder Automation.'']"

definition contract_commands :: "string list \<Rightarrow> string list" where
  "contract_commands cs = (if cs \<noteq> [] then cs else [''npm run verify:sot'', ''npm test''])"

definition contract_lines :: "contract_payload \<Rightarrow> string list" where
  "contract_lines p =
    [''# Worker contract'', [],
     ''You are the Cursor execution-plane worker for one Jarvis Builder task.'',
     ''Jarvis / Builder Core remains the authority plane.'', [],
     ''## Identity'', [],
     ''- task_id: '' @ t_task_id (cp_task p),
     ''- factory_run_id: '' @ cp_factory_run_id p,
     ''- head_sha: '' @ (case cp_head_sha p of None \<Rightarrow> [] | Some h \<Rightarrow> h),
     ''- provider: cursor'', [],
     ''## Locked intent'', [],
     ''- intent: '' @ t_intent (cp_task p),
     ''- acceptance_ref: '' @ t_acceptance_ref (cp_task p),
     ''- allowed_paths: '' @ json_stringify (jarr (t_allowed_paths (cp_task p))),
     ''- allowed_tools: '' @ json_stringify (manifest_js (t_tool_manifest (cp_task p))),
     ''- active_work_state: '' @ ob_active_work_state (cp_orientation p),
     ''- next_phase_candidate: '' @ ob_next_phase_candidate (cp_orientation p), [],
     ''## Required verification'', []]
    @ map (\<lambda>c. ''- '' @ c) (contract_commands (cp_commands p))
    @ [[], ''## Forbidden'', []] @ FORBIDDEN_LINES @ [[]]"

definition buildWorkerContractMarkdown :: "contract_payload \<Rightarrow> string" where
  "buildWorkerContractMarkdown p = join_with [CHR 0x0A] (contract_lines p)"

definition writeWorkerContract :: "os_faults \<Rightarrow> path \<Rightarrow> contract_payload \<Rightarrow> path dact" where
  "writeWorkerContract F root p =
    (let rel = workerContractRelPath (cp_factory_run_id p) in
     thn (mkdirp F (join_path root [''control/runs'', cp_factory_run_id p]))
    (thn (writeFileSync F (join_path root [path_string rel]) (buildWorkerContractMarkdown p))
         (ret rel)))"

section \<open>Where the contract is written\<close>

text \<open>A run identifier that is one segment of a path, as every identifier of the core is.\<close>

definition plain_segment :: "string \<Rightarrow> bool" where
  "plain_segment x \<longleftrightarrow> x \<noteq> [] \<and> x \<noteq> ''.'' \<and> x \<noteq> ''..'' \<and> CHR ''/'' \<notin> set x"

lemma split_slash_last: "CHR ''/'' \<notin> set xs \<Longrightarrow> split_slash acc xs = [rev acc @ xs]"
  by (induction xs arbitrary: acc) auto

lemma split_slash_cut:
  "CHR ''/'' \<notin> set xs \<Longrightarrow> split_slash acc (xs @ CHR ''/'' # ys) = (rev acc @ xs) # split_slash [] ys"
  by (induction xs arbitrary: acc) auto

lemma put_plain: "plain_segment x \<Longrightarrow> put_segment b p x = p @ [x]"
  by (simp add: plain_segment_def put_segment_def)

lemma plain_contract_segments: "plain_segment ''control''" "plain_segment ''runs''" "plain_segment ''worker-contract.md''"
  by code_simp+

lemma split_plain: "plain_segment x \<Longrightarrow> split_slash [] x = [x]"
  by (simp add: plain_segment_def split_slash_last)

lemma split_control_runs: "split_slash [] ''control/runs'' = [''control'', ''runs'']"
  by code_simp

lemmas plain_paths = put_plain plain_contract_segments split_plain split_control_runs

lemma contract_rel:
  "plain_segment rid \<Longrightarrow> workerContractRelPath rid = [''control'', ''runs'', rid, ''worker-contract.md'']"
  by (simp add: workerContractRelPath_def join_rel_def plain_paths)

lemma contract_dir:
  "plain_segment rid \<Longrightarrow> join_path root [''control/runs'', rid] = root @ [''control'', ''runs'', rid]"
  by (simp add: join_path_def plain_paths)

lemma contract_split:
  assumes "plain_segment rid"
  shows "split_slash [] (path_string [''control'', ''runs'', rid, ''worker-contract.md'']) =
    [''control'', ''runs'', rid, ''worker-contract.md'']"
proof -
  have "path_string [''control'', ''runs'', rid, ''worker-contract.md''] =
      ''control'' @ CHR ''/'' # ''runs'' @ CHR ''/'' # rid @ CHR ''/'' # ''worker-contract.md''"
    by (simp add: path_string_def join_with_def)
  then show ?thesis
    using assms by (simp add: plain_segment_def split_slash_cut)
qed

lemma contract_file:
  "plain_segment rid \<Longrightarrow> join_path root [path_string (workerContractRelPath rid)] =
     root @ [''control'', ''runs'', rid, ''worker-contract.md'']"
  by (simp add: contract_rel join_path_def contract_split plain_paths)

lemma io_run: "io F m d = (case F (calls d) of Some e \<Rightarrow> (Inl e, d\<lparr>calls := Suc (calls d)\<rparr>)
    | None \<Rightarrow> m (d\<lparr>calls := Suc (calls d)\<rparr>))"
  by (simp add: io_def Let_def)

lemma mkdirp_frame: "mkdirp F p d = (r, d') \<Longrightarrow> \<not> prefix q p \<Longrightarrow> nodes d' q = nodes d q"
  by (auto simp: mkdirp_def io_run split: option.splits if_splits)

lemma writeFileSync_frame: "writeFileSync F p x d = (r, d') \<Longrightarrow> q \<noteq> p \<Longrightarrow> nodes d' q = nodes d q"
  by (auto simp: writeFileSync_def io_run split: option.splits if_splits)

lemma writeFileSync_done: "writeFileSync F p x d = (Inr u, d') \<Longrightarrow> nodes d' p = Some (File x)"
  by (auto simp: writeFileSync_def io_run split: option.splits if_splits)

lemma mkdirp_clear:
  assumes "F (calls d) = None" "\<And>q. prefix q p \<Longrightarrow> \<not> is_file d q"
  shows "mkdirp F p d = (Inr (), d\<lparr>calls := Suc (calls d), nodes := (\<lambda>q. if prefix q p then Some Dir else nodes d q)\<rparr>)"
proof -
  have same: "is_file (d\<lparr>calls := n\<rparr>) = is_file d" for n by (rule ext) (simp add: is_file_def)
  have "\<not> is_file d p" "\<not> list_ex (is_file d) (prefixes p)" using assms(2) by (auto simp: list_ex_iff)
  then show ?thesis by (simp add: mkdirp_def io_run assms(1) same cong: if_cong)
qed

text \<open>
  For a run with a plain identifier the contract is written at the run's own place under the
  project root and nowhere else: whatever the operating system refuses, no path other than that file
  and the directories above it changes. When the call returns, the file is there, holds exactly the
  contract, and its lines name the task, the run, each required command and the ban on
  self-certification; and when neither call is refused, no file stands in the place of one of the
  directories and no directory in the place of the contract, it does return.
\<close>

theorem worker_contract_written:
  assumes plain: "plain_segment (cp_factory_run_id p)"
    and place: "place = root @ [''control'', ''runs'', cp_factory_run_id p, ''worker-contract.md'']"
    and run: "writeWorkerContract F root p d = (r, d')"
  shows "(\<forall>q. \<not> prefix q place \<longrightarrow> nodes d' q = nodes d q) \<and>
    (case r of
       Inr rel \<Rightarrow> root @ rel = place \<and> nodes d' place = Some (File (join_with [CHR 0x0A] (contract_lines p))) \<and>
         {''- task_id: '' @ t_task_id (cp_task p), ''- factory_run_id: '' @ cp_factory_run_id p,
          ''- Do not set PASS, DONE, ACCEPTED, or otherwise self-certify completion.''} \<subseteq> set (contract_lines p) \<and>
         (\<forall>c \<in> set (cp_commands p). ''- '' @ c \<in> set (contract_lines p))
     | Inl e \<Rightarrow> F (calls d) \<noteq> None \<or> F (Suc (calls d)) \<noteq> None \<or> (\<exists>q. strict_prefix q place \<and> is_file d q) \<or>
         nodes d place = Some Dir)"
proof -
  let ?dir = "root @ [''control'', ''runs'', cp_factory_run_id p]"
  let ?text = "buildWorkerContractMarkdown p"
  have below: "prefix q place" if "prefix q ?dir" for q using prefix_prefix [OF that, of "[''worker-contract.md'']"] by (simp add: place)
  have out: "\<not> prefix place ?dir" by (simp add: place prefix_def)
  have prog: "writeWorkerContract F root p =
      thn (mkdirp F ?dir) (thn (writeFileSync F place ?text) (ret (workerContractRelPath (cp_factory_run_id p))))"
    using plain by (simp add: writeWorkerContract_def Let_def contract_dir contract_file place)
  obtain r1 d1 where mk: "mkdirp F ?dir d = (r1, d1)" by fastforce
  obtain r2 d2 where wr: "writeFileSync F place ?text d1 = (r2, d2)" by fastforce
  have frame1: "nodes d1 q = nodes d q" if "\<not> prefix q place" for q
    using mkdirp_frame [OF mk] below that by blast
  have frame2: "nodes d2 q = nodes d1 q" if "\<not> prefix q place" for q
    by (rule writeFileSync_frame [OF wr]) (use that in auto)
  have result: "(r, d') = (case r1 of Inl e \<Rightarrow> (Inl e, d1) | Inr _ \<Rightarrow> (case r2 of Inl e \<Rightarrow> (Inl e, d2)
      | Inr _ \<Rightarrow> (Inr (workerContractRelPath (cp_factory_run_id p)), d2)))"
    unfolding run [symmetric] prog by (cases r1; cases r2) (simp_all add: thn_def bnd_def ret_def mk wr)
  have clear: "r1 = Inr () \<and> r2 = Inr ()"
    if "F (calls d) = None" "F (Suc (calls d)) = None" "\<And>q. strict_prefix q place \<Longrightarrow> \<not> is_file d q"
      "nodes d place \<noteq> Some Dir"
  proof -
    have "\<not> is_file d q" if "prefix q ?dir" for q
      using \<open>\<And>q. strict_prefix q place \<Longrightarrow> \<not> is_file d q\<close> [of q] below [OF that] out that
      by (auto simp: strict_prefix_def)
    then have "r1 = Inr ()" and d1: "d1 = d\<lparr>calls := Suc (calls d), nodes := (\<lambda>q. if prefix q ?dir then Some Dir else nodes d q)\<rparr>"
      using mkdirp_clear [of F d ?dir] that(1) mk by auto
    moreover have "butlast place = ?dir" by (simp add: place butlast_append)
    ultimately show ?thesis
      using writeFileSync_new [of F d1 place ?text] wr that(2,4) out by (auto simp: d1)
  qed
  have lines: "{''- task_id: '' @ t_task_id (cp_task p), ''- factory_run_id: '' @ cp_factory_run_id p,
      ''- Do not set PASS, DONE, ACCEPTED, or otherwise self-certify completion.''} \<subseteq> set (contract_lines p) \<and>
      (\<forall>c \<in> set (cp_commands p). ''- '' @ c \<in> set (contract_lines p))"
    by (auto simp: contract_lines_def FORBIDDEN_LINES_def contract_commands_def)
  show ?thesis
  proof (cases r)
    case (Inl e)
    with result clear frame1 frame2 show ?thesis by (auto split: sum.splits)
  next
    case (Inr rel)
    with result have "r2 = Inr ()" "d' = d2" "rel = workerContractRelPath (cp_factory_run_id p)"
      by (auto split: sum.splits)
    with Inr frame1 frame2 lines plain writeFileSync_done [of F place ?text d1 "()" d2] wr show ?thesis
      by (simp add: contract_rel place buildWorkerContractMarkdown_def)
  qed
qed

text \<open>A task's contract for run \<open>R1\<close> on a disk with nothing but the project root.\<close>

definition demo_contract :: contract_payload where
  "demo_contract = \<lparr>cp_task = draft_of ''T1'' (Some ''W1'') demo_normal, cp_factory_run_id = ''R1'', cp_head_sha = None,
     cp_orientation = \<lparr>ob_active_work_state = ''READY'', ob_next_phase_candidate = ''P1''\<rparr>, cp_commands = [''npm test'']\<rparr>"

theorem worker_contract_written_witness:
  "\<exists>rel d'. writeWorkerContract (\<lambda>_. None) [''repo''] demo_contract bare_disk = (Inr rel, d') \<and>
     nodes d' [''repo'', ''control'', ''runs'', ''R1'', ''worker-contract.md''] =
       Some (File (join_with [CHR 0x0A] (contract_lines demo_contract)))"
proof -
  obtain r d' where run: "writeWorkerContract (\<lambda>_. None) [''repo''] demo_contract bare_disk = (r, d')" by fastforce
  have rid: "cp_factory_run_id demo_contract = ''R1''" by (simp add: demo_contract_def)
  have plain: "plain_segment (cp_factory_run_id demo_contract)" unfolding rid by code_simp
  have empty: "\<not> is_file bare_disk q" "nodes bare_disk (''repo'' # x # q) = None" for q x
    by (simp_all add: bare_disk_def is_file_def)
  show ?thesis
    using worker_contract_written [OF plain refl run] by (cases r) (auto simp: run rid empty)
qed

end
