(* ===== verification/StoreConfig.thy ===== *)
theory StoreConfig
  imports Store
begin

text \<open>
  Which store a Builder opens (\<open>src/builder/store-config.js\<close>, \<open>src/builder/store-open.js\<close>): the
  mode is resolved from the process environment, and a resolved configuration is opened. Shown:
  whatever the environment holds, unattended mode never opens a local SQLite file, and a shared
  store is opened only with a non-empty URL and a safe schema name.
\<close>

section \<open>Configuration from the environment\<close>

type_synonym process_env = "string \<Rightarrow> string option"

definition DEFAULT_SQLITE_PATH :: string where
  "DEFAULT_SQLITE_PATH = ''.data/builder/jarvis-tasks.sqlite''"

definition BUILDER_PG_SCHEMA :: string where
  "BUILDER_PG_SCHEMA = ''jarvis_builder''"

definition storeConfigError :: "string \<Rightarrow> string \<Rightarrow> js_error" where
  "storeConfigError = codedError BuilderStoreConfigError"

text \<open>\<open>String(value || '').trim()\<close> of a variable, and the left operand of \<open>||\<close>.\<close>

definition trim_var :: "string option \<Rightarrow> string" where
  "trim_var v = trim (case v of None \<Rightarrow> [] | Some s \<Rightarrow> s)"

definition or_else :: "string \<Rightarrow> string \<Rightarrow> string" where
  "or_else a b = (if a = [] then b else a)"

definition requested_store :: "process_env \<Rightarrow> string" where
  "requested_store penv = map to_lower (trim_var (penv ''JARVIS_BUILDER_STORE''))"

definition isUnattendedBuilderMode :: "process_env \<Rightarrow> bool" where
  "isUnattendedBuilderMode penv \<longleftrightarrow>
     requested_store penv = ''postgres''
     \<or> penv ''JARVIS_BUILDER_UNATTENDED'' = Some ''1''
     \<or> penv ''JARVIS_BUILDER_AUTOMATION'' = Some ''1''
     \<or> penv ''JARVIS_TICK_UNATTENDED'' = Some ''1''"

definition is_lower_or_underscore :: "char \<Rightarrow> bool" where
  "is_lower_or_underscore c \<longleftrightarrow> c = CHR ''_'' \<or> 97 \<le> (of_char c :: nat) \<and> (of_char c :: nat) \<le> 122"

fun safe_schema_name :: "string \<Rightarrow> bool" where
  "safe_schema_name [] = False"
| "safe_schema_name (c # cs) \<longleftrightarrow>
     is_lower_or_underscore c \<and> list_all (\<lambda>d. is_lower_or_underscore d \<or> is_digit d) cs"

definition assertSafeSchemaName :: "string \<Rightarrow> js_error + string" where
  "assertSafeSchemaName schema =
     (if safe_schema_name schema then Inr schema
      else Inl (storeConfigError ''invalid Builder Postgres schema name'' ''INVALID_BUILDER_SCHEMA''))"

text \<open>The resolved configuration; a property the object lacks is \<open>None\<close>.\<close>

record store_config =
  sc_ok :: bool
  sc_kind :: string
  sc_required :: bool
  sc_sqliteForbidden :: bool
  sc_reason :: "string option"
  sc_schema :: "string option"
  sc_databaseUrl :: "string option"
  sc_dbPath :: "string option"

definition shared_config :: "bool \<Rightarrow> string option \<Rightarrow> string option \<Rightarrow> string \<Rightarrow> store_config" where
  "shared_config ok reason url schema = \<lparr>sc_ok = ok, sc_kind = ''postgres'', sc_required = True,
     sc_sqliteForbidden = True, sc_reason = reason, sc_schema = Some schema, sc_databaseUrl = url, sc_dbPath = None\<rparr>"

definition local_config :: "bool \<Rightarrow> string \<Rightarrow> string option \<Rightarrow> string option \<Rightarrow> store_config" where
  "local_config ok kind reason path = \<lparr>sc_ok = ok, sc_kind = kind, sc_required = False,
     sc_sqliteForbidden = False, sc_reason = reason, sc_schema = None, sc_databaseUrl = None, sc_dbPath = path\<rparr>"

text \<open>The branches on the mode, once the schema name has been checked.\<close>

definition select_config :: "bool \<Rightarrow> string \<Rightarrow> string \<Rightarrow> string \<Rightarrow> string \<Rightarrow> store_config" where
  "select_config unattended requested url schema path =
    (if unattended \<or> requested = ''postgres'' then
       if requested = ''sqlite'' then shared_config False (Some ''SHARED_STORE_REQUIRED'') None schema
       else if url = [] then shared_config False (Some ''MISSING_SHARED_BUILDER_DATABASE'') None schema
       else shared_config True None (Some url) schema
     else if requested \<noteq> [] \<and> requested \<noteq> ''sqlite'' then
       local_config False requested (Some ''UNKNOWN_BUILDER_STORE'') None
     else local_config True ''sqlite'' None (Some path))"

definition resolveBuilderStoreConfig :: "process_env \<Rightarrow> string option \<Rightarrow> js_error + store_config" where
  "resolveBuilderStoreConfig penv dbPath =
    (case assertSafeSchemaName (or_else (trim_var (penv ''JARVIS_BUILDER_SCHEMA'')) BUILDER_PG_SCHEMA) of
       Inl e \<Rightarrow> Inl e
     | Inr schema \<Rightarrow> Inr (select_config (isUnattendedBuilderMode penv) (requested_store penv)
         (trim_var (penv ''JARVIS_BUILDER_DATABASE_URL'')) schema
         (or_else (case dbPath of None \<Rightarrow> [] | Some p \<Rightarrow> p)
            (or_else (trim_var (penv ''JARVIS_BUILDER_DB'')) DEFAULT_SQLITE_PATH))))"

definition blockedStoreDecision :: "string \<Rightarrow> js" where
  "blockedStoreDecision reason = JObj
     [(''decision'', JStr ''BLOCKED''), (''reason'', JStr reason), (''task_id'', JNull), (''factory_run_id'', JNull),
      (''provider_run_id'', JNull), (''provider'', JNull), (''worker_contract'', JNull), (''pr'', JNull),
      (''head_sha'', JNull),
      (''owner_action'',
        if reason = ''MISSING_SHARED_BUILDER_DATABASE'' then
          JStr ''Set JARVIS_BUILDER_STORE=postgres and JARVIS_BUILDER_DATABASE_URL to a dedicated jarvis_builder database.''
        else if reason = ''SHARED_BUILDER_DATABASE_UNREACHABLE'' then
          JStr ''Shared Builder Postgres is unreachable. Restore JARVIS_BUILDER_DATABASE_URL connectivity.''
        else JNull),
      (''logical_work_id'', JNull), (''dispatched'', JBool False)]"

section \<open>Opening the store\<close>

text \<open>
  \<open>store_arg\<close> is the argument \<open>config\<close>: a configuration with a \<open>kind\<close>, or an object that may hold
  a \<open>dbPath\<close>. The result names the opener that is called, with its arguments.
\<close>

datatype store_arg = Resolved store_config | FromEnv "string option"

datatype store_call = OpenPostgres "string option" "string option" | OpenSqlite string

definition open_resolved :: "store_config \<Rightarrow> js_error + store_call" where
  "open_resolved c =
    (let reason = (case sc_reason c of None \<Rightarrow> [] | Some r \<Rightarrow> r) in
     if \<not> sc_ok c then
       Inl (storeConfigError
         (if reason = ''MISSING_SHARED_BUILDER_DATABASE''
          then ''JARVIS_BUILDER_STORE=postgres requires JARVIS_BUILDER_DATABASE_URL''
          else or_else reason ''builder store configuration is invalid'')
         (or_else reason ''BUILDER_STORE_CONFIG''))
     else if sc_kind c = ''postgres'' then Inr (OpenPostgres (sc_databaseUrl c) (sc_schema c))
     else if sc_sqliteForbidden c then
       Inl (storeConfigError ''shared Builder mode cannot use SQLite'' ''SHARED_STORE_REQUIRED'')
     else Inr (OpenSqlite (or_else (case sc_dbPath c of None \<Rightarrow> [] | Some p \<Rightarrow> p) '':memory:'')))"

definition openBuilderStoreFromConfig :: "store_arg \<Rightarrow> process_env \<Rightarrow> js_error + store_call" where
  "openBuilderStoreFromConfig config penv = (case config of
      Resolved c \<Rightarrow>
        if sc_kind c \<noteq> [] then open_resolved c
        else (case resolveBuilderStoreConfig penv (sc_dbPath c) of Inl e \<Rightarrow> Inl e | Inr r \<Rightarrow> open_resolved r)
    | FromEnv path \<Rightarrow>
        (case resolveBuilderStoreConfig penv path of Inl e \<Rightarrow> Inl e | Inr r \<Rightarrow> open_resolved r))"

definition sandboxOwnerId :: "process_env \<Rightarrow> nat \<Rightarrow> string" where
  "sandboxOwnerId penv pid =
     or_else (case penv ''CURSOR_CLOUD_AGENT_ID'' of None \<Rightarrow> [] | Some a \<Rightarrow> a)
       (or_else (case penv ''CURSOR_AGENT_ID'' of None \<Rightarrow> [] | Some a \<Rightarrow> a) (''pid:'' @ show_nat pid))"

section \<open>Properties\<close>

text \<open>A configuration object of the shape \<open>resolveBuilderStoreConfig\<close> documents.\<close>

definition config_ok :: "store_config \<Rightarrow> bool" where
  "config_ok c \<longleftrightarrow>
     (sc_sqliteForbidden c \<longleftrightarrow> sc_kind c = ''postgres'') \<and> (sc_required c \<longleftrightarrow> sc_kind c = ''postgres'') \<and>
     (sc_ok c \<longleftrightarrow> sc_reason c = None) \<and>
     (if sc_kind c = ''postgres''
      then sc_dbPath c = None \<and> (\<exists>schema. sc_schema c = Some schema \<and> safe_schema_name schema) \<and>
           (if sc_ok c then \<exists>url. sc_databaseUrl c = Some url \<and> url \<noteq> [] else sc_databaseUrl c = None)
      else sc_databaseUrl c = None \<and>
           (if sc_ok c then sc_kind c = ''sqlite'' \<and> (\<exists>path. sc_dbPath c = Some path \<and> path \<noteq> [])
            else sc_kind c \<notin> {[], ''sqlite''} \<and> sc_dbPath c = None))"

lemma assertSafeSchemaName_Inr [simp]:
  "assertSafeSchemaName n = Inr m \<longleftrightarrow> n = m \<and> safe_schema_name m"
  by (auto simp: assertSafeSchemaName_def)

lemma select_config_ok:
  assumes "safe_schema_name schema" "path \<noteq> []"
  shows "config_ok (select_config unattended requested url schema path)"
  using assms by (simp add: select_config_def shared_config_def local_config_def config_ok_def)

lemma select_config_kind:
  assumes "requested = ''postgres'' \<Longrightarrow> unattended"
  shows "sc_kind (select_config unattended requested url schema path) = ''postgres'' \<longleftrightarrow> unattended"
  using assms by (simp add: select_config_def shared_config_def local_config_def)

lemma select_config_accepted:
  assumes "sc_ok (select_config unattended requested url schema path)"
  shows "if unattended \<or> requested = ''postgres'' then requested \<noteq> ''sqlite'' else requested \<in> {[], ''sqlite''}"
  using assms
  by (cases "unattended \<or> requested = ''postgres''")
     (auto simp: select_config_def shared_config_def local_config_def split: if_splits)

lemma requested_postgres: "requested_store penv = ''postgres'' \<Longrightarrow> isUnattendedBuilderMode penv"
  by (simp add: isUnattendedBuilderMode_def)

lemma resolve_cases:
  assumes "resolveBuilderStoreConfig penv path = Inr c"
  shows "config_ok c"
    and "sc_kind c = ''postgres'' \<longleftrightarrow> isUnattendedBuilderMode penv"
    and "sc_ok c \<Longrightarrow> if isUnattendedBuilderMode penv then requested_store penv \<noteq> ''sqlite''
      else requested_store penv \<in> {[], ''sqlite''}"
proof -
  obtain schema fname where c: "c = select_config (isUnattendedBuilderMode penv) (requested_store penv)
      (trim_var (penv ''JARVIS_BUILDER_DATABASE_URL'')) schema fname"
    and ok: "safe_schema_name schema" "fname \<noteq> []"
    using assms by (auto simp: resolveBuilderStoreConfig_def DEFAULT_SQLITE_PATH_def or_else_def
        split: sum.splits)
  from select_config_ok [OF ok] show "config_ok c" by (simp add: c)
  show "sc_kind c = ''postgres'' \<longleftrightarrow> isUnattendedBuilderMode penv"
    unfolding c by (rule select_config_kind) (rule requested_postgres)
  show "if isUnattendedBuilderMode penv then requested_store penv \<noteq> ''sqlite''
      else requested_store penv \<in> {[], ''sqlite''}" if "sc_ok c"
    using select_config_accepted [OF that [unfolded c]] requested_postgres [of penv]
    by (cases "isUnattendedBuilderMode penv") (auto split: if_splits)
qed

lemma resolve_error:
  "resolveBuilderStoreConfig penv path = Inl e \<Longrightarrow>
   e = storeConfigError ''invalid Builder Postgres schema name'' ''INVALID_BUILDER_SCHEMA''"
  by (auto simp: resolveBuilderStoreConfig_def assertSafeSchemaName_def split: sum.splits if_splits)

lemma storeConfigError_class [simp]: "err_class (storeConfigError m c) = BuilderStoreConfigError"
  "err_code (storeConfigError m c) = Some c"
  by (simp_all add: storeConfigError_def codedError_def)

text \<open>
  C40. Every configuration resolved from the environment is well formed: exactly the shared mode
  requires Postgres and forbids SQLite, a rejected configuration gives its reason, an accepted
  shared one has a URL and a schema name that is a plain identifier, an accepted local one has a
  path. Unattended mode always resolves to the shared kind.
\<close>

theorem resolved_config_ok:
  "case resolveBuilderStoreConfig penv path of
     Inl e \<Rightarrow> err_class e = BuilderStoreConfigError \<and> err_code e = Some ''INVALID_BUILDER_SCHEMA''
   | Inr c \<Rightarrow> config_ok c \<and> (isUnattendedBuilderMode penv \<longleftrightarrow> sc_kind c = ''postgres'')"
proof (cases "resolveBuilderStoreConfig penv path")
  case (Inl e)
  with resolve_error [OF Inl] show ?thesis by simp
next
  case (Inr c)
  with resolve_cases [OF Inr] show ?thesis by simp
qed

text \<open>
  C30. Opening the store the environment asks for: a local SQLite file is opened only when no
  unattended switch is set and no other store is named; Postgres is opened only in unattended
  mode, with a non-empty URL and a safe schema name; everything else raises.
\<close>

theorem open_store_fails_closed:
  "case openBuilderStoreFromConfig (FromEnv path) penv of
     Inr (OpenSqlite file) \<Rightarrow>
       \<not> isUnattendedBuilderMode penv \<and> requested_store penv \<in> {[], ''sqlite''} \<and> file \<noteq> []
   | Inr (OpenPostgres url schema) \<Rightarrow>
       isUnattendedBuilderMode penv \<and> requested_store penv \<noteq> ''sqlite'' \<and>
       (\<exists>u s. url = Some u \<and> u \<noteq> [] \<and> schema = Some s \<and> safe_schema_name s)
   | Inl e \<Rightarrow> err_class e = BuilderStoreConfigError"
proof (cases "resolveBuilderStoreConfig penv path")
  case (Inl e)
  with resolve_error [OF Inl] show ?thesis by (simp add: openBuilderStoreFromConfig_def)
next
  case (Inr c)
  show ?thesis
  proof (cases "sc_ok c")
    case False
    with Inr show ?thesis by (simp add: openBuilderStoreFromConfig_def open_resolved_def Let_def)
  next
    case True
    with resolve_cases [OF Inr] Inr show ?thesis
      by (cases "isUnattendedBuilderMode penv")
         (auto simp: openBuilderStoreFromConfig_def open_resolved_def config_ok_def or_else_def)
  qed
qed

end
