(* ===== verification/ApprovedWork.thy ===== *)
theory ApprovedWork
  imports StoreConfig Disk Landing
begin

text \<open>
  The approved-work catalog and what a tick may pick from it: the slices of
  \<open>scripts/build-runner.mjs\<close>, the live items of \<open>scripts/orientation.mjs\<close> (both with the fields the
  tick reads) and \<open>nextEligibleApprovedWork\<close> of \<open>src/builder/tick.js\<close>. Shown: nothing that waits for
  the owner, lies in a forbidden scope or in a future phase is ever picked, and a live item is
  picked only after every gate it waits for.
\<close>

section \<open>The catalogs in the code\<close>

record foundation_slice =
  fs_phase_id :: string
  fs_phase_name :: string
  fs_sot_references :: "string list"
  fs_evidence_marker :: string

definition slice :: "string \<Rightarrow> string \<Rightarrow> string list \<Rightarrow> string \<Rightarrow> foundation_slice" where
  "slice i n refs m = \<lparr>fs_phase_id = i, fs_phase_name = n, fs_sot_references = refs, fs_evidence_marker = m\<rparr>"

definition FOUNDATION_SLICES :: "foundation_slice list" where
  "FOUNDATION_SLICES =
    [slice ''F-01'' ''Private Git repo + SOT sync guard''
       [''12_ACCEPTANCE_AND_IMPLEMENTATION.md#V1.0-FOUNDATION'', ''14_CODING_AGENT_BOOTSTRAP_AND_RUNBOOK.md''] ''scripts/verify-sot.mjs'',
     slice ''F-02'' ''Owner authentication / MFA skeleton''
       [''01_ARCHITECTURE_LOCKS.md#Owner-authentication'', ''07_AUTHORITY_SECURITY_EXECUTION.md#Owner-root-of-trust''] ''migrations/0003_owner_auth.sql'',
     slice ''F-03'' ''Tenants / users / memberships + RLS model''
       [''01_ARCHITECTURE_LOCKS.md#Hard-tenant-isolation'', ''07_AUTHORITY_SECURITY_EXECUTION.md#Tenant-isolation''] ''tests/rls-negative.test.mjs'',
     slice ''F-04'' ''Postgres state / evidence / receipts base''
       [''06_SYSTEM_CONTRACTS.md#CanonicalEvent'', ''06_SYSTEM_CONTRACTS.md#CurrentStateRecord'', ''06_SYSTEM_CONTRACTS.md#ExecutionReceipt''] ''migrations/0006_events_state_evidence.sql'',
     slice ''F-05'' ''Authority / policy / kill epochs''
       [''06_SYSTEM_CONTRACTS.md#AuthorityGrant'', ''06_SYSTEM_CONTRACTS.md#ApprovalDecision'', ''07_AUTHORITY_SECURITY_EXECUTION.md#Kill-revocation-TOCTOU''] ''tests/authority-kill.test.mjs'',
     slice ''F-06'' ''Canonical events + inbound authenticity''
       [''06_SYSTEM_CONTRACTS.md#CanonicalEvent'', ''07_AUTHORITY_SECURITY_EXECUTION.md#Inbound-authenticity''] ''src/contracts/events.js'',
     slice ''F-07'' ''Capability registry''
       [''06_SYSTEM_CONTRACTS.md#Capability'', ''07_AUTHORITY_SECURITY_EXECUTION.md#Idempotency''] ''tests/capability-registry.test.mjs'',
     slice ''F-08'' ''Trusted executor (deterministic idempotency + postcondition verify)''
       [''07_AUTHORITY_SECURITY_EXECUTION.md#Trusted-executor-flow'', ''06_SYSTEM_CONTRACTS.md#Deterministic-idempotency-key''] ''src/runtime/trusted-executor.js'',
     slice ''F-09'' ''DBOS durable workflows''
       [''08_RUNTIME_WORKFLOWS_SPECIALISTS.md#DURABLE-WORKFLOWS''] ''src/runtime/dbos.js'',
     slice ''F-10'' ''Materialized state / freshness / reconciliation''
       [''06_SYSTEM_CONTRACTS.md#CurrentStateRecord'', ''07_AUTHORITY_SECURITY_EXECUTION.md#Reconciliation-safety''] ''src/runtime/reconciliation.js'',
     slice ''F-11'' ''Connector registry + read-only connector adapters''
       [''06_SYSTEM_CONTRACTS.md#Capability'', ''07_AUTHORITY_SECURITY_EXECUTION.md#Credential-architecture''] ''src/contracts/connector.js'',
     slice ''F-12'' ''Observability''
       [''10_OBSERVABILITY_RECOVERY.md'', ''01_ARCHITECTURE_LOCKS.md#Non-silenceable-classes''] ''src/runtime/observability.js'',
     slice ''F-13'' ''Backup / restore rehearsal''
       [''10_OBSERVABILITY_RECOVERY.md'', ''12_ACCEPTANCE_AND_IMPLEMENTATION.md#Recovery''] ''tests/backup-restore.test.mjs'',
     slice ''F-14'' ''Security / privacy acceptance suite''
       [''12_ACCEPTANCE_AND_IMPLEMENTATION.md#Privacy-deletion'', ''07_AUTHORITY_SECURITY_EXECUTION.md#PII-erasure''] ''tests/security-privacy-acceptance.test.mjs'']"

record live_item =
  li_id :: string
  li_title :: string
  li_live_status :: string
  li_sot_ref :: string
  li_ready_after :: "string list"
  li_owner_gate :: bool

definition LIVE_VERIFICATION_ITEMS :: "live_item list" where
  "LIVE_VERIFICATION_ITEMS =
    [\<lparr>li_id = ''postgres-tenant-boundary'', li_title = ''Postgres / tenant boundary live verification'',
       li_live_status = ''OPEN'', li_sot_ref = ''04_LIVE_VERIFICATION_BACKLOG.md#Postgres--tenant-boundary'',
       li_ready_after = [''V1.0A''], li_owner_gate = False\<rparr>,
     \<lparr>li_id = ''inbound-events'', li_title = ''Inbound events live provider verification'',
       li_live_status = ''OPEN'', li_sot_ref = ''04_LIVE_VERIFICATION_BACKLOG.md#Inbound-events'',
       li_ready_after = [''V1.0A''], li_owner_gate = True\<rparr>,
     \<lparr>li_id = ''owner-authentication'', li_title = ''Real MFA enrollment / step-up'',
       li_live_status = ''OPEN'', li_sot_ref = ''04_LIVE_VERIFICATION_BACKLOG.md#Owner-authentication'',
       li_ready_after = [''V1.0A''], li_owner_gate = True\<rparr>,
     \<lparr>li_id = ''authority-executor-effects'', li_title = ''Authority / executor / effects live verification'',
       li_live_status = ''OPEN'', li_sot_ref = ''04_LIVE_VERIFICATION_BACKLOG.md#Authority--executor--effects'',
       li_ready_after = [''V1.0C''], li_owner_gate = False\<rparr>,
     \<lparr>li_id = ''dbos'', li_title = ''DBOS durable workflow (adopt only when justified)'',
       li_live_status = ''CONDITIONAL'', li_sot_ref = ''04_LIVE_VERIFICATION_BACKLOG.md#DBOS'',
       li_ready_after = [''V1.0C''], li_owner_gate = False\<rparr>,
     \<lparr>li_id = ''github-live-candidate-smoke'', li_title = ''Live GitHub candidate/PR/CI smoke (write access required)'',
       li_live_status = ''OPEN'', li_sot_ref = ''04_LIVE_VERIFICATION_BACKLOG.md#Read-only-connectors'',
       li_ready_after = [''BUILDER_STAGE_1''], li_owner_gate = True\<rparr>,
     \<lparr>li_id = ''read-only-connectors'', li_title = ''Read-only connector adapters (GHL/Meta/Google/ClickUp/GitHub/payments)'',
       li_live_status = ''OPEN'', li_sot_ref = ''04_LIVE_VERIFICATION_BACKLOG.md#Read-only-connectors'',
       li_ready_after = [''V1.0A''], li_owner_gate = True\<rparr>,
     \<lparr>li_id = ''hermes-orgo'', li_title = ''Hermes / Orgo boundaries'',
       li_live_status = ''NOT_BLOCKER'', li_sot_ref = ''04_LIVE_VERIFICATION_BACKLOG.md#Hermes--Orgo'',
       li_ready_after = [''V1.0A''], li_owner_gate = False\<rparr>,
     \<lparr>li_id = ''privacy-deletion'', li_title = ''Privacy / deletion before outside customer data'',
       li_live_status = ''OPEN'', li_sot_ref = ''04_LIVE_VERIFICATION_BACKLOG.md#Privacydeletion'',
       li_ready_after = [''V1.0A''], li_owner_gate = False\<rparr>,
     \<lparr>li_id = ''owner-policy-thresholds'', li_title = ''Owner policy thresholds (spend/refund/T2 envelopes)'',
       li_live_status = ''OWNER_THRESHOLD'', li_sot_ref = ''04_LIVE_VERIFICATION_BACKLOG.md#Business-policy-still-requiring-owner-thresholds'',
       li_ready_after = [''V1.0C''], li_owner_gate = True\<rparr>]"

section \<open>Scopes and identifiers\<close>

definition FORBIDDEN_SCOPES :: "string list" where
  "FORBIDDEN_SCOPES = [''hermes'', ''voice'', ''obsidian'', ''prime'', ''extra_coding_workers'', ''new_product_scope'']"

text \<open>\<open>hay.includes(needle)\<close>.\<close>

definition str_includes :: "string \<Rightarrow> string \<Rightarrow> bool" where
  "str_includes hay needle \<longleftrightarrow> list_ex (prefix needle) (suffixes hay)"

definition isForbiddenScope :: "string \<Rightarrow> bool" where
  "isForbiddenScope v \<longleftrightarrow> list_ex (str_includes (map to_lower v)) FORBIDDEN_SCOPES"

definition is_id_char :: "char \<Rightarrow> bool" where
  "is_id_char c \<longleftrightarrow> is_alnum c \<or> c \<in> {CHR ''.'', CHR ''_'', CHR ''-''}"

text \<open>Each run of other characters becomes one underscore.\<close>

fun squash :: "bool \<Rightarrow> string \<Rightarrow> string" where
  "squash inRun [] = []"
| "squash inRun (c # cs) =
     (if is_id_char c then c # squash False cs
      else if inRun then squash True cs else CHR ''_'' # squash True cs)"

definition stableTaskId :: "string \<Rightarrow> string" where
  "stableTaskId workId = ''task_'' @ squash False workId"

section \<open>Picking the next work\<close>

text \<open>What the tick reads of an orientation; an absent property is \<open>None\<close> or the empty list.\<close>

record orientation =
  on_head_sha :: "string option"
  on_next_slice :: "string option"
  on_completed_gates :: "string list"
  on_owner_blockers :: "string list"
  on_next_phase_candidate :: "string option"
  on_claim_via :: "string option"
  on_claim_reason :: "string option"
  on_active_work_state :: "string option"
  on_commands :: "string list"

record work =
  w_work_id :: string
  w_kind :: string
  w_title :: string
  w_acceptance_ref :: "string option"
  w_allowed_paths :: "string list"
  w_owner_gate :: bool
  w_future_phase :: bool

text \<open>\<open>...(v || [])\<close> and \<open>(v || dflt).map(String)\<close> over a property of the catalog file.\<close>

definition notIterable :: js_error where
  "notIterable = nativeError ''TypeError'' ''value is not iterable''"

definition spread_strings :: "js option \<Rightarrow> js_error + string list" where
  "spread_strings v = (case v of
      None \<Rightarrow> Inr []
    | Some x \<Rightarrow> if \<not> js_truthy x then Inr []
        else (case x of JArr xs \<Rightarrow> Inr (map js_String xs) | JStr s \<Rightarrow> Inr (map (\<lambda>c. [c]) s) | _ \<Rightarrow> Inl notIterable))"

definition mapped_strings :: "string list \<Rightarrow> js option \<Rightarrow> js_error + string list" where
  "mapped_strings dflt v = (case v of
      None \<Rightarrow> Inr dflt
    | Some x \<Rightarrow> if \<not> js_truthy x then Inr dflt
        else (case x of JArr xs \<Rightarrow> Inr (map js_String xs) | _ \<Rightarrow> Inl notIterable))"

definition openLiveItems :: "live_item list" where
  "openLiveItems = filter (\<lambda>i. li_live_status i = ''OPEN'') LIVE_VERIFICATION_ITEMS"

definition slice_work :: "foundation_slice \<Rightarrow> work" where
  "slice_work sl = \<lparr>w_work_id = fs_phase_id sl, w_kind = ''implementation_slice'', w_title = fs_phase_name sl,
     w_acceptance_ref = hd_opt (fs_sot_references sl),
     w_allowed_paths = [fs_evidence_marker sl, ''scripts/'', ''tests/''], w_owner_gate = False, w_future_phase = False\<rparr>"

definition item_work :: "live_item \<Rightarrow> work" where
  "item_work i = \<lparr>w_work_id = li_id i, w_kind = ''live_verification'', w_title = li_title i,
     w_acceptance_ref = Some (li_sot_ref i), w_allowed_paths = [''src/'', ''tests/'', ''scripts/''],
     w_owner_gate = False, w_future_phase = False\<rparr>"

definition item_eligible :: "string list \<Rightarrow> string list \<Rightarrow> live_item \<Rightarrow> bool" where
  "item_eligible forbidden completed i \<longleftrightarrow>
     \<not> li_owner_gate i \<and> \<not> isForbiddenScope (li_id i) \<and> \<not> isForbiddenScope (li_title i) \<and>
     map to_lower (li_id i) \<notin> set forbidden \<and> list_all (\<lambda>req. req \<in> set completed) (li_ready_after i)"

definition slice_eligible :: "string list \<Rightarrow> string list \<Rightarrow> foundation_slice \<Rightarrow> bool" where
  "slice_eligible forbidden future sl \<longleftrightarrow>
     map to_lower (fs_phase_id sl) \<notin> set forbidden \<and> fs_phase_id sl \<notin> set future"

definition next_slice :: "orientation \<Rightarrow> foundation_slice option" where
  "next_slice o1 = (case on_next_slice o1 of
      None \<Rightarrow> None
    | Some p \<Rightarrow> if p = [] then None else List.find (\<lambda>sl. fs_phase_id sl = p) FOUNDATION_SLICES)"

definition pick_work :: "string list \<Rightarrow> string list \<Rightarrow> orientation \<Rightarrow> work option" where
  "pick_work forbidden future o1 =
     (case filter (slice_eligible forbidden future) (case next_slice o1 of None \<Rightarrow> [] | Some sl \<Rightarrow> [sl]) of
        sl # _ \<Rightarrow> Some (slice_work sl)
      | [] \<Rightarrow> map_option item_work
          (List.find (item_eligible forbidden (on_completed_gates o1)) openLiveItems))"

definition nextEligibleApprovedWork :: "orientation \<Rightarrow> js \<Rightarrow> js_error + work option" where
  "nextEligibleApprovedWork o1 catalog =
     sum_bind (spread_strings (js_get catalog ''forbidden_scopes'')) (\<lambda>scopes.
     sum_bind (mapped_strings [''V1.1''] (js_get catalog ''future_phases'')) (\<lambda>future.
     Inr (pick_work (map (map to_lower) (FORBIDDEN_SCOPES @ scopes)) future o1)))"

section \<open>Properties\<close>

lemma forbidden_lower: "map to_lower ` set FORBIDDEN_SCOPES = set FORBIDDEN_SCOPES"
  by code_simp

lemma picked_cases:
  assumes "pick_work forbidden future o1 = Some w"
  obtains (slice) sl where "sl \<in> set FOUNDATION_SLICES" "on_next_slice o1 = Some (fs_phase_id sl)" "w = slice_work sl"
      "slice_eligible forbidden future sl"
    | (item) i where "w = item_work i" "i \<in> set openLiveItems" "item_eligible forbidden (on_completed_gates o1) i"
proof (cases "filter (slice_eligible forbidden future) (case next_slice o1 of None \<Rightarrow> [] | Some sl \<Rightarrow> [sl])")
  case Nil
  with assms item show thesis
    unfolding pick_work_def by (auto simp: find_Some_iff)
next
  case (Cons sl rest)
  then have "next_slice o1 = Some sl" "slice_eligible forbidden future sl"
    by (auto split: option.splits if_splits)
  moreover from this(1) have "sl \<in> set FOUNDATION_SLICES" "on_next_slice o1 = Some (fs_phase_id sl)"
    by (auto simp: next_slice_def find_Some_iff split: option.splits if_splits)
  ultimately show thesis using Cons assms slice unfolding pick_work_def by simp
qed

text \<open>
  What a tick may pick by itself: either the slice the orientation names next, if it is neither
  forbidden by the code or the catalog file nor in a future phase, or an open live item that no owner
  gate holds, whose name and title lie in no forbidden scope, and all of whose gates have been
  completed. Nothing else is ever picked.
\<close>

theorem next_work_is_approved:
  "case nextEligibleApprovedWork o1 catalog of
     Inl e \<Rightarrow> e = notIterable
   | Inr None \<Rightarrow> True
   | Inr (Some w) \<Rightarrow>
       \<not> w_owner_gate w \<and> \<not> w_future_phase w \<and> map to_lower (w_work_id w) \<notin> set FORBIDDEN_SCOPES \<and>
       ((\<exists>sl \<in> set FOUNDATION_SLICES. w = slice_work sl \<and> on_next_slice o1 = Some (fs_phase_id sl) \<and>
           (case mapped_strings [''V1.1''] (js_get catalog ''future_phases'') of Inr future \<Rightarrow> fs_phase_id sl \<notin> set future)) \<or>
        (\<exists>i \<in> set LIVE_VERIFICATION_ITEMS. w = item_work i \<and> li_live_status i = ''OPEN'' \<and> \<not> li_owner_gate i \<and>
           \<not> isForbiddenScope (li_id i) \<and> \<not> isForbiddenScope (li_title i) \<and>
           set (li_ready_after i) \<subseteq> set (on_completed_gates o1)))"
proof (cases "nextEligibleApprovedWork o1 catalog")
  case (Inl e)
  then show ?thesis
    by (auto simp: nextEligibleApprovedWork_def sum_bind_def spread_strings_def mapped_strings_def
        split: sum.splits option.splits js.splits if_splits)
next
  case (Inr w)
  then obtain scopes future where future: "mapped_strings [''V1.1''] (js_get catalog ''future_phases'') = Inr future"
    and w: "w = pick_work (map (map to_lower) (FORBIDDEN_SCOPES @ scopes)) future o1"
    by (auto simp: nextEligibleApprovedWork_def sum_bind_def simp del: map_append split: sum.splits)
  show ?thesis
  proof (cases w)
    case None
    with Inr show ?thesis by simp
  next
    case (Some x)
    with w have "pick_work (map (map to_lower) (FORBIDDEN_SCOPES @ scopes)) future o1 = Some x" by simp
    then consider
      (slice) sl where "sl \<in> set FOUNDATION_SLICES" "on_next_slice o1 = Some (fs_phase_id sl)" "x = slice_work sl"
        "slice_eligible (map (map to_lower) (FORBIDDEN_SCOPES @ scopes)) future sl"
    | (item) i where "x = item_work i" "i \<in> set openLiveItems"
        "item_eligible (map (map to_lower) (FORBIDDEN_SCOPES @ scopes)) (on_completed_gates o1) i"
      by (rule picked_cases)
    then show ?thesis
    proof cases
      case slice
      with Inr Some future show ?thesis
        using forbidden_lower by (auto simp: slice_work_def slice_eligible_def)
    next
      case item
      with Inr Some show ?thesis
        using forbidden_lower by (auto simp: item_work_def item_eligible_def openLiveItems_def list_all_iff)
    qed
  qed
qed

text \<open>
  The pieces of approved work never share a task: the task identifiers derived from all slices and
  all live items are different.
\<close>

lemma stable_task_ids_distinct:
  "distinct (map stableTaskId (map fs_phase_id FOUNDATION_SLICES @ map li_id LIVE_VERIFICATION_ITEMS))"
  by code_simp

end
