(* ===== verification/CursorProvider.thy ===== *)
theory CursorProvider
  imports ApprovedWork CandidateRegistry "HOL-Library.AList"
begin

text \<open>
  The Cursor provider (\<open>src/builder/providers/cursor-provider.js\<close>, \<open>cursor-sdk-adapter.js\<close>,
  \<open>cursor-api-key.js\<close>): the one coding-worker provider of the Builder. Its state is the cached API key and
  the handles of the runs it launched. The vendor's SDK, the keychain command and the clock are
  parameters whose answers may differ from call to call. Shown: what a launch refuses reaches
  neither the keychain nor the SDK; an observation says finished only when the vendor's service said so, and
  every failure of the service becomes the status \<open>ERROR\<close>.
\<close>

section \<open>The guard on environment variables\<close>

text \<open>\<open>assertNoBusinessCredentials\<close>, over the entries of the object.\<close>

definition FORBIDDEN_ENV_NAME :: "string list" where
  "FORBIDDEN_ENV_NAME = [''ghl_'', ''highlevel_'', ''meta_'', ''facebook_'', ''stripe_'', ''payment_'', ''paypal_'',
     ''twilio_'', ''customer_'', ''crm_'', ''prod_'', ''production_'', ''jarvis_builder_'', ''postgres_'', ''pg'']"

definition FORBIDDEN_ENV_VALUE_HINT :: "string list" where
  "FORBIDDEN_ENV_VALUE_HINT = [''ghl'', ''highlevel'', ''meta_access'', ''facebook'', ''stripe'', ''payment'',
     ''customer_secret'', ''postgresql://'', ''postgres://'']"

definition hints_credential :: "string \<Rightarrow> bool" where
  "hints_credential v \<longleftrightarrow> list_ex (str_includes (map to_lower v)) FORBIDDEN_ENV_VALUE_HINT"

definition env_entry_check :: "string \<times> js \<Rightarrow> js_error option" where
  "env_entry_check = (\<lambda>(name, value).
     if prefix ''CURSOR_'' name then
       Some (workerProviderError (''CURSOR_* env vars are reserved and cannot be passed to cloud workers: '' @ name) ''RESERVED_ENV'')
     else if isSensitiveKey name \<or> list_ex (\<lambda>p. prefix p (map to_lower name)) FORBIDDEN_ENV_NAME
       \<or> hints_credential name \<or> str_includes (map to_lower name) ''database_url'' then
       Some (workerProviderError (''refusing production/business credential env var: '' @ name) ''BUSINESS_CREDENTIAL_FORBIDDEN'')
     else (case value of
         JStr v \<Rightarrow> if hints_credential v
           then Some (workerProviderError (''refusing env var value that looks like a business credential: '' @ name)
                  ''BUSINESS_CREDENTIAL_FORBIDDEN'')
           else None
       | _ \<Rightarrow> None))"

fun assertNoBusinessCredentials :: "(string \<times> js) list \<Rightarrow> js_error + unit" where
  "assertNoBusinessCredentials [] = Inr ()"
| "assertNoBusinessCredentials (e # es) =
     (case env_entry_check e of Some err \<Rightarrow> Inl err | None \<Rightarrow> assertNoBusinessCredentials es)"

section \<open>Safe errors\<close>

text \<open>\<open>safeErrorFields\<close> of \<open>secrets-redact.js\<close>.\<close>

record safe_error =
  se_name :: string
  se_message :: string
  se_retryable :: bool
  se_code :: string

definition safeErrorFields :: "js_error \<Rightarrow> string \<Rightarrow> string list \<Rightarrow> safe_error" where
  "safeErrorFields err code extraSecrets =
    (let name = (if error_name (err_class err) = [] then ''Error'' else error_name (err_class err)) in
     \<lparr>se_name = name,
      se_message = redactString extraSecrets (if err_message err = [] then name else err_message err),
      se_retryable = err_retryable err,
      se_code = the (or_str (err_code err) (or_str (Some code) (Some ''ERROR'')))\<rparr>)"

definition safe_error_js :: "safe_error \<Rightarrow> js" where
  "safe_error_js e = JObj [(''name'', JStr (se_name e)), (''message'', JStr (se_message e)),
     (''retryable'', JBool (se_retryable e)), (''code'', JStr (se_code e))]"

section \<open>The vendor's SDK\<close>

text \<open>A run of the service: its data, and the methods the provider may call on it.\<close>

record sdk_run =
  ru_fields :: js
  ru_wait :: "(nat \<Rightarrow> js_error + js) option"
  ru_supports :: "(string \<Rightarrow> bool) option"
  ru_unsupportedReason :: "(string \<Rightarrow> string) option"
  ru_cancel :: "nat \<Rightarrow> js_error + unit"

record sdk_agent =
  ag_agentId :: "js option"
  ag_send :: "nat \<Rightarrow> string \<Rightarrow> js_error + sdk_run"

record cursor_sdk =
  sdk_models_list :: "nat \<Rightarrow> js \<Rightarrow> js_error + js"
  sdk_create :: "nat \<Rightarrow> js \<Rightarrow> js_error + sdk_agent"
  sdk_getRun :: "nat \<Rightarrow> string \<times> js \<Rightarrow> js_error + sdk_run"
  sdk_cancelRun :: "(nat \<Rightarrow> string \<times> js \<Rightarrow> js_error + unit) option"

text \<open>The state of a provider object; \<open>cs_calls\<close> counts what it asked of the outside.\<close>

record cursor_state =
  cs_apiKey :: "string option"
  cs_handles :: "(string \<times> sdk_run) list"
  cs_calls :: nat

type_synonym 'a pact = "(cursor_state, js_error, 'a) act"

definition sdk_call :: "(nat \<Rightarrow> 'a \<Rightarrow> js_error + 'b) \<Rightarrow> 'a \<Rightarrow> 'b pact" where
  "sdk_call f x = (\<lambda>s. (f (cs_calls s) x, s\<lparr>cs_calls := Suc (cs_calls s)\<rparr>))"

definition wall_clock :: "env \<Rightarrow> string pact" where
  "wall_clock E = (\<lambda>s. (Inr (isoString (env_clock E (cs_calls s))), s\<lparr>cs_calls := Suc (cs_calls s)\<rparr>))"

text \<open>\<open>createCursorSdkAdapter\<close>.\<close>

definition adapter_listModels :: "cursor_sdk \<Rightarrow> string \<Rightarrow> js pact" where
  "adapter_listModels sdk apiKey = sdk_call (sdk_models_list sdk) (JObj [(''apiKey'', JStr apiKey)])"

definition adapter_cancelRun :: "cursor_sdk \<Rightarrow> string \<Rightarrow> js \<Rightarrow> unit pact" where
  "adapter_cancelRun sdk runId options = (case sdk_cancelRun sdk of
      Some f \<Rightarrow> sdk_call f (runId, options)
    | None \<Rightarrow>
      bnd (sdk_call (sdk_getRun sdk) (runId, options)) (\<lambda>run.
      if (\<exists>f \<in> set_option (ru_supports run). \<not> f ''cancel'') then
        throw (plainError (the (or_str (map_option (\<lambda>g. g ''cancel'') (ru_unsupportedReason run)) (Some ''cancel unsupported''))))
      else sdk_call (\<lambda>n _. ru_cancel run n) ()))"

section \<open>The API key\<close>

definition CURSOR_KEYCHAIN_SERVICE :: string where
  "CURSOR_KEYCHAIN_SERVICE = ''agencyos.cursor.api_key''"

record loaded_key =
  lk_source :: string
  lk_apiKey :: string

definition readKeychainApiKey :: "process_env \<Rightarrow> (nat \<Rightarrow> string list \<Rightarrow> js_error + string) \<Rightarrow> string pact" where
  "readKeychainApiKey penv security =
     bnd (sdk_call security [''find-generic-password'', ''-a'', the (or_str (penv ''USER'') (or_str (penv ''LOGNAME'') (Some []))),
            ''-s'', CURSOR_KEYCHAIN_SERVICE, ''-w'']) (\<lambda>out.
     if trim out = [] then throw (plainError ''keychain returned empty credential'') else ret (trim out))"

definition loadCursorApiKey ::
  "process_env \<Rightarrow> (nat \<Rightarrow> string list \<Rightarrow> js_error + string) \<Rightarrow> bool \<Rightarrow> bool \<Rightarrow> loaded_key pact" where
  "loadCursorApiKey penv security allowKeychain allowEnv =
     bnd (if allowKeychain then attempt (readKeychainApiKey penv security) else ret (Inl (plainError []))) (\<lambda>kc. case kc of
       Inr k \<Rightarrow> ret \<lparr>lk_source = ''keychain'', lk_apiKey = k\<rparr>
     | Inl _ \<Rightarrow>
       let fromEnv = (case penv ''CURSOR_API_KEY'' of None \<Rightarrow> [] | Some v \<Rightarrow> trim v) in
       if allowEnv \<and> fromEnv \<noteq> [] then ret \<lparr>lk_source = ''env'', lk_apiKey = fromEnv\<rparr>
       else if \<not> allowKeychain \<and> \<not> allowEnv then
         throw (plainError ''CURSOR_API_KEY unavailable: keychain and env lookup disabled'')
       else throw (plainError (''CURSOR_API_KEY unavailable via keychain ('' @ CURSOR_KEYCHAIN_SERVICE @ '')''
              @ (if allowEnv then '' or env inject'' else []))))"

definition safeCredentialErrorMessage :: "string \<Rightarrow> string option \<Rightarrow> string" where
  "safeCredentialErrorMessage message apiKey =
     redactString (if truthy_str apiKey then [the apiKey] else [])
       (if message = [] then ''credential error'' else message)"

section \<open>The provider\<close>

record cursor_config =
  cc_sdk :: cursor_sdk
  cc_env :: process_env
  cc_security :: "nat \<Rightarrow> string list \<Rightarrow> js_error + string"
  cc_repoUrl :: string
  cc_startingRef :: string
  cc_model :: string
  cc_autoCreatePR :: bool
  cc_includeCloudMetadata :: bool

definition createCursorProvider :: "string option \<Rightarrow> cursor_state" where
  "createCursorProvider apiKey = \<lparr>cs_apiKey = apiKey, cs_handles = [], cs_calls = 0\<rparr>"

definition provider_toJSON :: "cursor_config \<Rightarrow> js" where
  "provider_toJSON cc = JObj [(''name'', JStr ''cursor''), (''repoUrl'', JStr (cc_repoUrl cc)),
     (''startingRef'', JStr (cc_startingRef cc)), (''model'', JStr (cc_model cc)),
     (''autoCreatePR'', JBool (cc_autoCreatePR cc)), (''apiKey'', JStr REDACTED)]"

definition resolveApiKey :: "cursor_config \<Rightarrow> string pact" where
  "resolveApiKey cc =
     bnd (gets cs_apiKey) (\<lambda>k.
     if truthy_str k then ret (the k)
     else bnd (loadCursorApiKey (cc_env cc) (cc_security cc) True True) (\<lambda>loaded.
       thn (modify (\<lambda>s. s\<lparr>cs_apiKey := Some (lk_apiKey loaded)\<rparr>)) (ret (lk_apiKey loaded))))"

definition secretBag :: "string list pact" where
  "secretBag = gets (\<lambda>s. if truthy_str (cs_apiKey s) then [the (cs_apiKey s)] else [])"

definition safeEvidence :: "js \<Rightarrow> js pact" where
  "safeEvidence evidence = bnd secretBag (\<lambda>bag. ret (redactSecrets bag 0 evidence))"

definition probeAuth :: "cursor_config \<Rightarrow> js pact" where
  "probeAuth cc = catch
     (bnd (resolveApiKey cc) (\<lambda>apiKey.
      bnd (adapter_listModels (cc_sdk cc) apiKey) (\<lambda>models.
      ret (JObj [(''ok'', JBool True),
        (''model_count'', (case models of JArr ms \<Rightarrow> JNum (int (length ms)) | _ \<Rightarrow> JNull))]))))
     (\<lambda>err. bnd secretBag (\<lambda>bag.
      ret (JObj [(''ok'', JBool False), (''error'', safe_error_js (safeErrorFields err ''AUTH_FAILED'' bag))])))"

subsection \<open>Launching\<close>

definition mapCursorRunStatus :: "js option \<Rightarrow> provider_status" where
  "mapCursorRunStatus status =
    (let s = (if opt_truthy status then map to_lower (js_String (the status)) else []) in
     if s = ''creating'' then PS_CREATING
     else if s = ''launched'' then PS_LAUNCHED
     else if s = ''running'' then PS_RUNNING
     else if s = ''finished'' \<or> s = ''completed'' then PS_FINISHED
     else if s = ''error'' \<or> s = ''failed'' then PS_ERROR
     else if s = ''cancelled'' \<or> s = ''canceled'' then PS_CANCELLED
     else if s = ''expired'' then PS_EXPIRED
     else if s = ''timeout'' \<or> s = ''timed_out'' then PS_TIMEOUT
     else PS_UNKNOWN)"

text \<open>\<open>Object.entries\<close>; a property that is \<open>undefined\<close> is left out of an object.\<close>

definition js_entries :: "js \<Rightarrow> (string \<times> js) list" where
  "js_entries v = (case v of
      JStr x \<Rightarrow> map (\<lambda>(i, c). (show_nat i, JStr [c])) (zip [0..<length x] x)
    | _ \<Rightarrow> obj_entries (Some v))"

definition field :: "string \<Rightarrow> js option \<Rightarrow> (string \<times> js) list" where
  "field k v = (case v of None \<Rightarrow> [] | Some x \<Rightarrow> [(k, x)])"

definition agent_options :: "cursor_config \<Rightarrow> launch_args \<Rightarrow> string \<Rightarrow> js" where
  "agent_options cc a apiKey = JObj
     [(''apiKey'', JStr apiKey), (''model'', JObj [(''id'', JStr (cc_model cc))]),
      (''cloud'', JObj (
         [(''repos'', JArr [JObj [(''url'', JStr (cc_repoUrl cc)), (''startingRef'', JStr (cc_startingRef cc))]]),
          (''autoCreatePR'', JBool (cc_autoCreatePR cc)), (''skipReviewerRequest'', JBool True)]
         @ (if js_entries (la_envVars a) \<noteq> [] then [(''envVars'', la_envVars a)] else [])
         @ (if cc_includeCloudMetadata cc then
             [(''metadata'', JObj [(''factory_run_id'', JStr (la_factory_run_id a)),
                (''task_id'', JStr (t_task_id (la_task a))), (''builder_trust_domain'', JStr ''BUILDER_CORE'')])] else [])))]"

text \<open>A result object of the provider, as it is handed to \<open>normalizeProviderResult\<close>.\<close>

definition result_object :: "string \<Rightarrow> js option \<Rightarrow> js option \<Rightarrow> provider_status \<Rightarrow> js \<Rightarrow> js \<Rightarrow> js" where
  "result_object rid prid paid st evidence err = JObj (
     [(''factory_run_id'', JStr rid), (''provider'', JStr ''cursor'')]
     @ field ''provider_run_id'' prid @ field ''provider_agent_id'' paid
     @ [(''provider_status'', JStr (provider_status_name st)), (''evidence'', evidence), (''error'', err)])"

definition launched_status :: "js option \<Rightarrow> provider_status" where
  "launched_status st = (if mapCursorRunStatus st = PS_UNKNOWN then PS_LAUNCHED else mapCursorRunStatus st)"

definition start_cloud_run :: "env \<Rightarrow> cursor_config \<Rightarrow> launch_args \<Rightarrow> string \<Rightarrow> provider_result pact" where
  "start_cloud_run E cc a apiKey =
     thn (guard (la_envVars a \<noteq> JNull) (nativeError ''TypeError'' ''Cannot convert undefined or null to object''))
    (bnd (sdk_call (sdk_create (cc_sdk cc)) (agent_options cc a apiKey)) (\<lambda>agent.
     bnd (sdk_call (ag_send agent) (la_prompt a)) (\<lambda>run.
     thn (modify (\<lambda>s. s\<lparr>cs_handles := AList.update (la_factory_run_id a) run (cs_handles s)\<rparr>))
    (bnd (wall_clock E) (\<lambda>t.
     bnd (safeEvidence (JObj [(''launched_at'', JStr t), (''repo_url'', JStr (cc_repoUrl cc)),
            (''starting_ref'', JStr (cc_startingRef cc)), (''model'', JStr (cc_model cc)), (''runtime'', JStr ''cloud'')])) (\<lambda>ev.
     lift (normalizeProviderResult (result_object (la_factory_run_id a) (js_get (ru_fields run) ''id'') (ag_agentId agent)
            (launched_status (js_get (ru_fields run) ''status'')) ev JNull))))))))"

definition is_auth_error :: "js_error \<Rightarrow> bool" where
  "is_auth_error err \<longleftrightarrow> error_name (err_class err) = ''AuthenticationError''"

definition launch_failed :: "js_error \<Rightarrow> provider_result pact" where
  "launch_failed err = bnd secretBag (\<lambda>bag.
     let safe = safeErrorFields err (if is_auth_error err then ''AUTH_FAILED'' else ''LAUNCH_FAILED'') bag in
     throw ((workerProviderError (''cursor launch failed: '' @ se_message safe) (se_code safe))\<lparr>err_retryable := se_retryable safe\<rparr>))"

definition cursor_launch :: "env \<Rightarrow> cursor_config \<Rightarrow> launch_args \<Rightarrow> provider_result pact" where
  "cursor_launch E cc a =
     thn (guard (la_factory_run_id a \<noteq> []) (workerProviderError ''launch requires factory_run_id'' ''INVALID_LAUNCH''))
    (thn (guard (t_task_id (la_task a) \<noteq> []) (workerProviderError ''launch requires locked task'' ''INVALID_LAUNCH''))
    (thn (guard (trim (la_prompt a) \<noteq> []) (workerProviderError ''launch requires prompt'' ''INVALID_LAUNCH''))
    (thn (lift (assertNoBusinessCredentials (if js_truthy (la_envVars a) then js_entries (la_envVars a) else [])))
    (bnd (attempt (resolveApiKey cc)) (\<lambda>k. case k of
       Inl err \<Rightarrow> bnd secretBag (\<lambda>bag.
         throw (workerProviderError (se_message (safeErrorFields err ''AUTH_UNAVAILABLE'' bag)) ''AUTH_UNAVAILABLE''))
     | Inr apiKey \<Rightarrow> catch (start_cloud_run E cc a apiKey) launch_failed)))))"

subsection \<open>Observing and cancelling\<close>

definition js_or :: "js option \<Rightarrow> js option \<Rightarrow> js option" where
  "js_or a b = (if opt_truthy a then a else b)"

text \<open>\<open>a?.k\<close> for a value that may be absent.\<close>

definition opt_get :: "js option \<Rightarrow> string \<Rightarrow> js option" where
  "opt_get v k = Option.bind v (\<lambda>x. js_get x k)"

definition run_options :: "string \<Rightarrow> string \<Rightarrow> js" where
  "run_options paid apiKey = JObj [(''runtime'', JStr ''cloud''), (''agentId'', JStr paid), (''apiKey'', JStr apiKey)]"

definition is_terminal_status :: "js option \<Rightarrow> bool" where
  "is_terminal_status st \<longleftrightarrow> opt_truthy st \<and>
     map to_lower (js_String (the st)) \<in> {''finished'', ''error'', ''cancelled'', ''canceled''}"

text \<open>The method \<open>wait\<close> that is called, if any: the live handle's while the service still reports a run
  that has not ended, otherwise that of the run just read.\<close>

definition wait_target :: "string \<Rightarrow> bool \<Rightarrow> sdk_run option \<Rightarrow> sdk_run \<Rightarrow> (nat \<Rightarrow> js_error + js) option" where
  "wait_target how wait handle run =
    (let ended = is_terminal_status (js_get (ru_fields run) ''status'');
         target = (if wait \<and> \<not> ended then
             (case Option.bind handle ru_wait of Some w \<Rightarrow> Some w | None \<Rightarrow> ru_wait run) else ru_wait run)
     in if wait \<or> (how = ''collect'' \<and> ended) then target else None)"

definition set_field :: "string \<Rightarrow> js option \<Rightarrow> (string \<times> js) list \<Rightarrow> (string \<times> js) list" where
  "set_field k v kvs = (case v of None \<Rightarrow> AList.delete k kvs | Some x \<Rightarrow> obj_put k x kvs)"

definition first_branch :: "js option \<Rightarrow> js option" where
  "first_branch rawGit = (case opt_get rawGit ''branches'' of Some (JArr xs) \<Rightarrow> hd_opt xs | _ \<Rightarrow> None)"

definition git_evidence :: "js option \<Rightarrow> js \<Rightarrow> js option" where
  "git_evidence waitResult run =
    (let rawGit = js_or (opt_get waitResult ''git'') (js_get run ''git'') in
     if opt_truthy rawGit then
       (let b0 = first_branch rawGit in
        Some (JObj (set_field ''prUrl'' (js_or (opt_get b0 ''prUrl'') (opt_get rawGit ''prUrl''))
          (set_field ''branchName'' (js_or (opt_get b0 ''branch'') (opt_get rawGit ''branchName''))
          (set_field ''branch'' (js_or (opt_get b0 ''branch'') (opt_get rawGit ''branch''))
             (js_entries (the rawGit)))))))
     else if opt_truthy (js_get run ''branch'') \<or> opt_truthy (js_get run ''prUrl'') then
       Some (JObj (field ''branchName'' (js_or (js_get run ''branch'') (js_get run ''branchName''))
         @ field ''prUrl'' (js_or (js_get run ''prUrl'') (js_get run ''pullRequestUrl''))))
     else None)"

definition result_text :: "js option \<Rightarrow> js \<Rightarrow> js option" where
  "result_text waitResult run =
    (let text_of = (\<lambda>v. case v of None \<Rightarrow> None | Some JNull \<Rightarrow> None | Some x \<Rightarrow> Some (JStr (take 4000 (js_String x)))) in
     case text_of (opt_get waitResult ''result'') of Some x \<Rightarrow> Some x | None \<Rightarrow> text_of (js_get run ''result''))"

definition inspect_evidence :: "string \<Rightarrow> string \<Rightarrow> js option \<Rightarrow> js \<Rightarrow> js" where
  "inspect_evidence t how waitResult run = JObj (
     [(''inspected_at'', JStr t), (''mode'', JStr how)] @ field ''run_status'' (js_get run ''status'')
     @ field ''result_text'' (result_text waitResult run) @ field ''git'' (git_evidence waitResult run)
     @ field ''usage'' (let u = js_or (opt_get waitResult ''usage'') (js_get run ''usage'') in if opt_truthy u then u else None))"

definition run_error :: "js \<Rightarrow> js" where
  "run_error evidence = JObj [(''name'', JStr ''CursorRunError''),
     (''message'', (if opt_truthy (js_get evidence ''result_text'') then the (js_get evidence ''result_text'')
        else JStr ''cursor run status=error'')),
     (''retryable'', JBool False), (''code'', JStr ''RUN_ERROR'')]"

definition report_run :: "env \<Rightarrow> string \<Rightarrow> observe_args \<Rightarrow> js \<Rightarrow> js option \<Rightarrow> provider_result pact" where
  "report_run E how a run waitResult =
    (let statusSource = js_or (opt_get waitResult ''status'') (js_get run ''status'') in
     bnd (wall_clock E) (\<lambda>t.
     bnd (safeEvidence (inspect_evidence t how waitResult run)) (\<lambda>evidence.
     lift (normalizeProviderResult (result_object (ob_factory_run_id a) (Some (JStr (ob_provider_run_id a)))
       (Some (JStr (ob_provider_agent_id a))) (mapCursorRunStatus statusSource) evidence
       (if mapCursorRunStatus statusSource = PS_ERROR then run_error evidence else JNull))))))"

definition read_run :: "env \<Rightarrow> cursor_config \<Rightarrow> string \<Rightarrow> bool \<Rightarrow> observe_args \<Rightarrow> string \<Rightarrow> provider_result pact" where
  "read_run E cc how wait a apiKey =
     bnd (gets (\<lambda>s. map_of (cs_handles s) (ob_factory_run_id a))) (\<lambda>handle.
     bnd (sdk_call (sdk_getRun (cc_sdk cc)) (ob_provider_run_id a, run_options (ob_provider_agent_id a) apiKey)) (\<lambda>run.
     case wait_target how wait handle run of
       Some w \<Rightarrow> bnd (sdk_call (\<lambda>n _. w n) ()) (\<lambda>r. report_run E how a (ru_fields run) (Some r))
     | None \<Rightarrow> report_run E how a (ru_fields run) None))"

definition inspect_failed :: "env \<Rightarrow> string \<Rightarrow> observe_args \<Rightarrow> js_error \<Rightarrow> provider_result pact" where
  "inspect_failed E how a err =
     bnd (wall_clock E) (\<lambda>t.
     bnd (safeEvidence (JObj [(''inspected_at'', JStr t), (''mode'', JStr how)])) (\<lambda>evidence.
     bnd secretBag (\<lambda>bag.
     lift (normalizeProviderResult (result_object (ob_factory_run_id a) (Some (JStr (ob_provider_run_id a)))
       (Some (JStr (ob_provider_agent_id a))) PS_ERROR evidence
       (safe_error_js (safeErrorFields err (if is_auth_error err then ''AUTH_FAILED'' else ''STATUS_FAILED'') bag)))))))"

definition cursor_inspect :: "env \<Rightarrow> cursor_config \<Rightarrow> string \<Rightarrow> bool \<Rightarrow> observe_args \<Rightarrow> provider_result pact" where
  "cursor_inspect E cc how wait a =
     thn (guard (ob_provider_run_id a \<noteq> [] \<and> ob_provider_agent_id a \<noteq> [])
            (workerProviderError (how @ '' requires provider_run_id and provider_agent_id'') ''INVALID_RUN_REF''))
    (bnd (resolveApiKey cc) (\<lambda>apiKey. catch (read_run E cc how wait a apiKey) (inspect_failed E how a)))"

definition cursor_status :: "env \<Rightarrow> cursor_config \<Rightarrow> observe_args \<Rightarrow> provider_result pact" where
  "cursor_status E cc a = cursor_inspect E cc ''status'' False a"

definition cursor_collect :: "env \<Rightarrow> cursor_config \<Rightarrow> observe_args \<Rightarrow> provider_result pact" where
  "cursor_collect E cc a = cursor_inspect E cc ''collect'' (ob_wait a) a"

definition cursor_cancel :: "env \<Rightarrow> cursor_config \<Rightarrow> observe_args \<Rightarrow> provider_result pact" where
  "cursor_cancel E cc a =
     bnd (resolveApiKey cc) (\<lambda>apiKey. catch
       (thn (adapter_cancelRun (cc_sdk cc) (ob_provider_run_id a) (run_options (ob_provider_agent_id a) apiKey))
       (bnd (wall_clock E) (\<lambda>t.
        lift (normalizeProviderResult (result_object (ob_factory_run_id a) (Some (JStr (ob_provider_run_id a)))
          (Some (JStr (ob_provider_agent_id a))) PS_CANCELLED (JObj [(''cancelled_at'', JStr t)]) JNull)))))
       (\<lambda>err. bnd secretBag (\<lambda>bag.
        let safe = safeErrorFields err ''CANCEL_FAILED'' bag in
        throw ((workerProviderError (''cursor cancel failed: '' @ se_message safe) ''CANCEL_FAILED'')\<lparr>err_retryable := se_retryable safe\<rparr>))))"

section \<open>What the provider guarantees\<close>

lemma parse_status_name [simp]: "parse_provider_status (Some (JStr (provider_status_name st))) = Some st"
  by (cases st) (simp_all add: parse_provider_status_def PROVIDER_STATUS_def)

lemma result_fields [simp]:
  "js_get (result_object rid prid paid st ev err) ''factory_run_id'' = Some (JStr rid)"
  "js_get (result_object rid prid paid st ev err) ''provider'' = Some (JStr ''cursor'')"
  "js_get (result_object rid prid paid st ev err) ''provider_status'' = Some (JStr (provider_status_name st))"
  "js_get (result_object rid prid paid st ev err) ''evidence'' = Some ev"
  "js_get (result_object rid prid paid st ev err) ''error'' = Some err"
  "is_object (result_object rid prid paid st ev err)"
  "\<not> claims_task_authority (result_object rid prid paid st ev err)"
  by (auto simp: result_object_def field_def claims_task_authority_def is_object_def split: option.splits)

text \<open>A result that belongs to the run it was asked for, from this provider, with nothing raw in it.\<close>

definition bound_result :: "string \<Rightarrow> provider_status \<Rightarrow> provider_result \<Rightarrow> bool" where
  "bound_result rid st res \<longleftrightarrow> pr_factory_run_id res = JStr rid \<and> pr_provider res = JStr ''cursor'' \<and>
     pr_provider_status res = st \<and> secrets_hidden (pr_evidence res) \<and> secrets_hidden (pr_error res)"

lemma normalize_result:
  "case normalizeProviderResult (result_object rid prid paid st ev err) of
     Inr res \<Rightarrow> rid \<noteq> [] \<and> bound_result rid st res | Inl e \<Rightarrow> rid = [] \<and> err_class e = WorkerProviderError"
  by (auto simp: normalizeProviderResult_def opt_truthy_def bound_result_def redactSecrets_hides
      workerProviderError_def codedError_def split: js.splits)

text \<open>
  What the service itself said of a run: the status it reported when it was asked for the run, or the status
  a wait on that run or on the provider's own handle ended with.
\<close>

definition service_said :: "cursor_config \<Rightarrow> cursor_state \<Rightarrow> observe_args \<Rightarrow> provider_status \<Rightarrow> bool" where
  "service_said cc s a st \<longleftrightarrow> (\<exists>n key run.
     sdk_getRun (cc_sdk cc) n (ob_provider_run_id a, run_options (ob_provider_agent_id a) key) = Inr run \<and>
     (mapCursorRunStatus (js_get (ru_fields run) ''status'') = st \<or>
      (\<exists>w m v. (ru_wait run = Some w \<or> Option.bind (map_of (cs_handles s) (ob_factory_run_id a)) ru_wait = Some w) \<and>
         w m = Inr v \<and> mapCursorRunStatus (js_get v ''status'') = st)))"

lemma resolve_handles: "resolveApiKey cc s = (r, s') \<Longrightarrow> cs_handles s' = cs_handles s"
  by (auto simp: resolveApiKey_def loadCursorApiKey_def readKeychainApiKey_def bnd_def gets_def ret_def thn_def modify_def
      attempt_def throw_def sdk_call_def Let_def split: if_splits sum.splits prod.splits option.splits)

lemma wait_target_from: "wait_target how wait h run = Some w \<Longrightarrow> ru_wait run = Some w \<or> Option.bind h ru_wait = Some w"
  by (auto simp: wait_target_def Let_def split: if_splits option.splits)

lemma report_run_result:
  assumes "report_run E how a run wr s = (Inr res, s')"
  shows "bound_result (ob_factory_run_id a) (mapCursorRunStatus (js_or (opt_get wr ''status'') (js_get run ''status''))) res"
proof -
  let ?st = "mapCursorRunStatus (js_or (opt_get wr ''status'') (js_get run ''status''))"
  obtain ev where "normalizeProviderResult (result_object (ob_factory_run_id a) (Some (JStr (ob_provider_run_id a)))
        (Some (JStr (ob_provider_agent_id a))) ?st ev (if ?st = PS_ERROR then run_error ev else JNull)) = Inr res"
    using assms that
    by (simp add: report_run_def Let_def bnd_def wall_clock_def safeEvidence_def secretBag_def gets_def ret_def lift_def
        cong: if_cong) blast
  with normalize_result [where rid = "ob_factory_run_id a" and prid = "Some (JStr (ob_provider_run_id a))"
      and paid = "Some (JStr (ob_provider_agent_id a))" and st = ?st and ev = ev
      and err = "if ?st = PS_ERROR then run_error ev else JNull"] show ?thesis by simp
qed

lemma read_run_said:
  assumes "read_run E cc how wait a key s = (Inr res, s')"
  shows "\<exists>st. bound_result (ob_factory_run_id a) st res \<and> service_said cc s a st"
proof -
  let ?ask = "(ob_provider_run_id a, run_options (ob_provider_agent_id a) key)"
  let ?h = "map_of (cs_handles s) (ob_factory_run_id a)"
  let ?s1 = "s\<lparr>cs_calls := Suc (cs_calls s)\<rparr>"
  obtain run where run: "sdk_getRun (cc_sdk cc) (cs_calls s) ?ask = Inr run"
    using assms by (cases "sdk_getRun (cc_sdk cc) (cs_calls s) ?ask") (auto simp: read_run_def bnd_def gets_def sdk_call_def)
  have said: "service_said cc s a (mapCursorRunStatus (js_get (ru_fields run) ''status''))"
    using run unfolding service_said_def by blast
  show ?thesis
  proof (cases "wait_target how wait ?h run")
    case None
    with assms run have "report_run E how a (ru_fields run) None ?s1 = (Inr res, s')"
      by (simp add: read_run_def bnd_def gets_def sdk_call_def)
    from report_run_result [OF this] said show ?thesis by (auto simp: js_or_def opt_get_def opt_truthy_def)
  next
    case (Some w)
    then obtain v where v: "w (Suc (cs_calls s)) = Inr v"
      and "report_run E how a (ru_fields run) (Some v) (?s1\<lparr>cs_calls := Suc (Suc (cs_calls s))\<rparr>) = (Inr res, s')"
      using assms run
      by (cases "w (Suc (cs_calls s))") (auto simp: read_run_def bnd_def gets_def sdk_call_def)
    from report_run_result [OF this(2)] have
      "bound_result (ob_factory_run_id a) (mapCursorRunStatus (js_or (js_get v ''status'') (js_get (ru_fields run) ''status''))) res"
      by (simp add: opt_get_def)
    moreover have "service_said cc s a (mapCursorRunStatus (js_get v ''status''))"
      using run v wait_target_from [OF Some] unfolding service_said_def by blast
    ultimately show ?thesis using said by (auto simp: js_or_def split: if_splits)
  qed
qed

lemma inspect_failed_result:
  "case inspect_failed E how a err s of
     (Inr res, _) \<Rightarrow> bound_result (ob_factory_run_id a) PS_ERROR res | (Inl e, _) \<Rightarrow> ob_factory_run_id a = []"
  by (simp add: inspect_failed_def bnd_def wall_clock_def safeEvidence_def secretBag_def gets_def ret_def lift_def)
     (use normalize_result in \<open>fastforce split: sum.splits\<close>)


text \<open>What a launch must bring.\<close>

definition launch_entries :: "launch_args \<Rightarrow> (string \<times> js) list" where
  "launch_entries a = (if js_truthy (la_envVars a) then js_entries (la_envVars a) else [])"

definition launch_admitted :: "launch_args \<Rightarrow> bool" where
  "launch_admitted a \<longleftrightarrow> la_factory_run_id a \<noteq> [] \<and> t_task_id (la_task a) \<noteq> [] \<and> trim (la_prompt a) \<noteq> [] \<and>
     (\<forall>e \<in> set (launch_entries a). env_entry_check e = None)"

lemma credentials_ok: "assertNoBusinessCredentials es = Inr () \<longleftrightarrow> (\<forall>e \<in> set es. env_entry_check e = None)"
  by (induction es) (auto split: option.splits)

lemma credentials_error: "assertNoBusinessCredentials es = Inl e \<Longrightarrow> err_class e = WorkerProviderError"
  by (induction es) (auto simp: env_entry_check_def workerProviderError_def codedError_def
      split: option.splits if_splits js.splits)

definition launch_rest :: "env \<Rightarrow> cursor_config \<Rightarrow> launch_args \<Rightarrow> provider_result pact" where
  "launch_rest E cc a = bnd (attempt (resolveApiKey cc)) (\<lambda>k. case k of
       Inl err \<Rightarrow> bnd secretBag (\<lambda>bag.
         throw (workerProviderError (se_message (safeErrorFields err ''AUTH_UNAVAILABLE'' bag)) ''AUTH_UNAVAILABLE''))
     | Inr apiKey \<Rightarrow> catch (start_cloud_run E cc a apiKey) launch_failed)"

lemma cursor_launch_admitted:
  assumes "launch_admitted a"
  shows "cursor_launch E cc a s = launch_rest E cc a s"
proof -
  have "assertNoBusinessCredentials (launch_entries a) = Inr ()"
    using assms by (auto simp: launch_admitted_def credentials_ok)
  with assms show ?thesis
    by (simp add: cursor_launch_def launch_rest_def thn_def bnd_def guard_def lift_def launch_admitted_def launch_entries_def)
qed

lemma cursor_launch_refused:
  assumes "\<not> launch_admitted a"
  shows "\<exists>e. cursor_launch E cc a s = (Inl e, s) \<and> err_class e = WorkerProviderError"
proof (cases "assertNoBusinessCredentials (launch_entries a)")
  case (Inl e)
  with credentials_error [OF Inl] show ?thesis
    by (auto simp: cursor_launch_def thn_def bnd_def guard_def lift_def launch_entries_def workerProviderError_def codedError_def)
next
  case (Inr u)
  with assms have "la_factory_run_id a = [] \<or> t_task_id (la_task a) = [] \<or> trim (la_prompt a) = []"
    using credentials_ok [of "launch_entries a"] by (auto simp: launch_admitted_def)
  then show ?thesis
    by (auto simp: cursor_launch_def thn_def bnd_def guard_def workerProviderError_def codedError_def)
qed

text \<open>A cloud run that the service made for exactly this launch, and that the provider keeps a handle of.\<close>

definition launched_for :: "cursor_config \<Rightarrow> launch_args \<Rightarrow> cursor_state \<Rightarrow> provider_status \<Rightarrow> bool" where
  "launched_for cc a s st \<longleftrightarrow> (\<exists>n m key agent run.
     sdk_create (cc_sdk cc) n (agent_options cc a key) = Inr agent \<and> ag_send agent m (la_prompt a) = Inr run \<and>
     map_of (cs_handles s) (la_factory_run_id a) = Some run \<and> st = launched_status (js_get (ru_fields run) ''status''))"

lemma start_run_result:
  assumes "start_cloud_run E cc a key s = (Inr res, s')"
  shows "\<exists>st. bound_result (la_factory_run_id a) st res \<and> launched_for cc a s' st"
proof -
  let ?mk = "sdk_create (cc_sdk cc) (cs_calls s) (agent_options cc a key)"
  have env: "la_envVars a \<noteq> JNull"
    using assms by (auto simp: start_cloud_run_def thn_def bnd_def guard_def)
  obtain agent where agent: "?mk = Inr agent"
    using assms env by (cases ?mk) (auto simp: start_cloud_run_def thn_def bnd_def guard_def sdk_call_def)
  obtain run where run: "ag_send agent (Suc (cs_calls s)) (la_prompt a) = Inr run"
    using assms env agent by (cases "ag_send agent (Suc (cs_calls s)) (la_prompt a)")
      (auto simp: start_cloud_run_def thn_def bnd_def guard_def sdk_call_def)
  obtain ev where "normalizeProviderResult (result_object (la_factory_run_id a) (js_get (ru_fields run) ''id'') (ag_agentId agent)
      (launched_status (js_get (ru_fields run) ''status'')) ev JNull) = Inr res"
    and h: "cs_handles s' = AList.update (la_factory_run_id a) run (cs_handles s)"
    using assms env agent run
    by (auto simp: start_cloud_run_def thn_def bnd_def guard_def sdk_call_def modify_def wall_clock_def safeEvidence_def
        secretBag_def gets_def ret_def lift_def)
  with normalize_result [where rid = "la_factory_run_id a" and prid = "js_get (ru_fields run) ''id''" and paid = "ag_agentId agent"
      and st = "launched_status (js_get (ru_fields run) ''status'')" and ev = ev and err = JNull]
  have "bound_result (la_factory_run_id a) (launched_status (js_get (ru_fields run) ''status'')) res" by simp
  moreover have "launched_for cc a s' (launched_status (js_get (ru_fields run) ''status''))"
    using agent run unfolding launched_for_def h by (auto simp: update_conv')
  ultimately show ?thesis by blast
qed

lemma launch_failed_class: "\<exists>e. launch_failed err s = (Inl e, s) \<and> err_class e = WorkerProviderError"
  by (simp add: launch_failed_def bnd_def secretBag_def gets_def throw_def Let_def workerProviderError_def codedError_def)

text \<open>
  Launching a cloud run. Without a run, a locked task and a prompt, or with a reserved or business
  credential among its variables, a launch raises before anything is asked of the keychain or the
  service: the provider is as it was. A launch that returns was admitted, and its result belongs to a
  cloud run the service made from exactly these options and this prompt, with the provider
  keeping its handle. Whatever goes wrong is raised as a provider's error.
\<close>

theorem cursor_launch_guarded:
  "case cursor_launch E cc a s of
     (Inl e, s') \<Rightarrow> err_class e = WorkerProviderError \<and> (launch_admitted a \<or> s' = s)
   | (Inr res, s') \<Rightarrow> launch_admitted a \<and>
       (\<exists>st. bound_result (la_factory_run_id a) st res \<and> launched_for cc a s' st)"
proof (cases "launch_admitted a")
  case False
  with cursor_launch_refused [OF False, of E cc s] show ?thesis by auto
next
  case True
  obtain k s1 where k: "resolveApiKey cc s = (k, s1)" by fastforce
  show ?thesis
  proof (cases k)
    case (Inl err)
    with k True show ?thesis
      by (simp add: cursor_launch_admitted launch_rest_def bnd_def attempt_def secretBag_def gets_def throw_def
          workerProviderError_def codedError_def)
  next
    case (Inr key)
    obtain r s2 where r: "start_cloud_run E cc a key s1 = (r, s2)" by fastforce
    have run: "cursor_launch E cc a s = catch (start_cloud_run E cc a key) launch_failed s1"
      using k Inr True by (simp add: cursor_launch_admitted launch_rest_def bnd_def attempt_def)
    show ?thesis
    proof (cases r)
      case (Inl err)
      with launch_failed_class [of err s2] r True show ?thesis by (auto simp: run catch_def)
    next
      case (Inr res)
      with start_run_result [of E cc a key s1 res s2] r True show ?thesis by (simp add: run catch_def)
    qed
  qed
qed

end
