(* ===== verification/Tick.thy ===== *)
theory Tick
  imports RecoveryProps WorkerContract CursorProvider
begin

text \<open>
  The tick (\<open>src/builder/tick.js\<close>): one trigger takes the tick lock, recovers, selects at most one
  objective, claims it, starts or repairs one run, writes the worker contract and, if asked,
  dispatches the worker. Its state is a Builder's core and the disk of the project. The store
  offers \<open>claimLogicalWork\<close>, as both stores of the repository do.
\<close>

section \<open>Decisions\<close>

datatype tick_decision = TD_EXECUTE | TD_REPAIR | TD_NOOP | TD_NEEDS_OWNER | TD_BLOCKED

fun tick_decision_name :: "tick_decision \<Rightarrow> string" where
  "tick_decision_name TD_EXECUTE = ''EXECUTE''"
| "tick_decision_name TD_REPAIR = ''REPAIR''"
| "tick_decision_name TD_NOOP = ''NOOP''"
| "tick_decision_name TD_NEEDS_OWNER = ''NEEDS_OWNER''"
| "tick_decision_name TD_BLOCKED = ''BLOCKED''"

definition TICK_TRIGGERS :: "string list" where
  "TICK_TRIGGERS = [''hourly'', ''checks_failed'', ''changes_requested'', ''manual_smoke'']"

definition assertTrigger :: "string \<Rightarrow> js_error + string" where
  "assertTrigger t = (if t \<in> set TICK_TRIGGERS then Inr t
     else Inl (plainError (''unsupported jarvis:tick trigger: '' @ t)))"

text \<open>The argument \<open>partial\<close> of \<open>decisionFields\<close>.\<close>

record tick_partial =
  tp_decision :: tick_decision
  tp_reason :: string
  tp_task_id :: "string option"
  tp_factory_run_id :: "string option"
  tp_provider_run_id :: "string option"
  tp_provider :: "string option"
  tp_worker_contract :: "string option"
  tp_pr :: "int option"
  tp_head_sha :: "string option"
  tp_owner_action :: "string option"
  tp_logical_work_id :: "string option"
  tp_dispatched :: bool

definition decided :: "tick_decision \<Rightarrow> string \<Rightarrow> tick_partial" where
  "decided d reason = \<lparr>tp_decision = d, tp_reason = reason, tp_task_id = None, tp_factory_run_id = None,
     tp_provider_run_id = None, tp_provider = None, tp_worker_contract = None, tp_pr = None, tp_head_sha = None,
     tp_owner_action = None, tp_logical_work_id = None, tp_dispatched = False\<rparr>"

text \<open>\<open>x || null\<close>.\<close>

definition or_js_null :: "string option \<Rightarrow> js" where
  "or_js_null v = (if truthy_str v then JStr (the v) else JNull)"

definition decision_object :: "tick_partial \<Rightarrow> orientation option \<Rightarrow> string \<Rightarrow> js" where
  "decision_object p o1 trigger = JObj
     [(''decision'', JStr (tick_decision_name (tp_decision p))), (''trigger'', JStr trigger),
      (''task_id'', or_js_null (tp_task_id p)), (''factory_run_id'', or_js_null (tp_factory_run_id p)),
      (''provider_run_id'', or_js_null (tp_provider_run_id p)), (''provider'', or_js_null (tp_provider p)),
      (''worker_contract'', or_js_null (tp_worker_contract p)),
      (''pr'', (case tp_pr p of Some n \<Rightarrow> if n = 0 then JNull else JNum n | None \<Rightarrow> JNull)),
      (''head_sha'', or_js_null (or_str (tp_head_sha p) (Option.bind o1 on_head_sha))),
      (''reason'', JStr (tp_reason p)), (''owner_action'', or_js_null (tp_owner_action p)),
      (''logical_work_id'', or_js_null (tp_logical_work_id p)), (''dispatched'', JBool (tp_dispatched p))]"

definition decisionFields :: "tick_partial \<Rightarrow> orientation option \<Rightarrow> string \<Rightarrow> js" where
  "decisionFields p o1 trigger = redactSecrets [] 0 (decision_object p o1 trigger)"

definition ownerNeed :: "orientation \<Rightarrow> tick_partial" where
  "ownerNeed o1 =
    (if list_ex (\<lambda>b. str_includes (map to_lower b) ''t2'') (on_owner_blockers o1)
        \<or> on_next_phase_candidate o1 = Some ''V1.1''
     then (decided TD_NEEDS_OWNER ''FIRST_BOUNDED_T2_NOT_SELECTED'')
            \<lparr>tp_owner_action := Some ''Select the approved first bounded T2 routine.''\<rparr>
     else (decided TD_NEEDS_OWNER ''OWNER_GATE'')
            \<lparr>tp_owner_action := or_str (or_str (hd_opt (on_owner_blockers o1)) (on_claim_reason o1))
               (Some ''Owner authority is required before further work.'')\<rparr>)"

section \<open>Looking for work in the store\<close>

definition is_open_task :: "task \<Rightarrow> bool" where
  "is_open_task t \<longleftrightarrow> t_status t \<in> {T_LOCKED, T_RUNNING, T_FAILED}"

definition is_stopped_task :: "task \<Rightarrow> bool" where
  "is_stopped_task t \<longleftrightarrow> t_status t \<in> {T_NEEDS_OWNER, T_BLOCKED, T_ACCEPTED, T_CANCELLED}"

text \<open>A loop that returns at the first element that yields something.\<close>

primrec first_some :: "('a \<Rightarrow> 'b option cact) \<Rightarrow> 'a list \<Rightarrow> 'b option cact" where
  "first_some f [] = ret None"
| "first_some f (x # xs) = bnd (f x) (\<lambda>r. case r of Some y \<Rightarrow> ret (Some y) | None \<Rightarrow> first_some f xs)"

definition openTasks :: "task list cact" where
  "openTasks = bnd listTasks (\<lambda>ts. ret (filter is_open_task ts))"

definition candidateIsAuthoritative :: "candidate \<Rightarrow> bool cact" where
  "candidateIsAuthoritative c =
     (if c_status c = C_SUPERSEDED \<or> c_status c = C_REJECTED then ret False
      else bnd (getRun (c_factory_run_id c)) (\<lambda>run. ret (case run of
          None \<Rightarrow> False | Some r \<Rightarrow> r_status r \<noteq> R_STALE \<and> r_status r \<noteq> R_CANCELLED)))"

definition candidateHasFailedCi :: "candidate \<Rightarrow> bool cact" where
  "candidateHasFailedCi c =
     bnd (candidateIsAuthoritative c) (\<lambda>ok.
     ret (ok \<and> map to_lower (case c_ci_conclusion c of None \<Rightarrow> [] | Some x \<Rightarrow> x)
            \<in> {''failure'', ''timed_out'', ''action_required'', ''cancelled''}))"

definition truthy_num :: "int option \<Rightarrow> int option" where
  "truthy_num n = (if n = Some 0 then None else n)"

definition failed_candidate :: "task \<Rightarrow> candidate \<Rightarrow> (task \<times> int option) option cact" where
  "failed_candidate t c = bnd (candidateHasFailedCi c) (\<lambda>bad.
     ret (if bad then Some (t, truthy_num (c_pr_number c)) else None))"

definition findFailedCiWork :: "(task \<times> int option) option cact" where
  "findFailedCiWork =
     bnd openTasks (first_some (\<lambda>t.
       bnd (listCandidatesForTask (t_task_id t)) (\<lambda>cs. first_some (failed_candidate t) (rev cs))))"

record github_review =
  gr_task_id :: "string option"
  gr_pr :: "int option"
  gr_pr_number :: "int option"

definition review_on_task :: "github_review \<Rightarrow> (task \<times> int option) option cact" where
  "review_on_task rv =
     (if \<not> truthy_str (gr_task_id rv) then ret None
      else bnd (getTask (the (gr_task_id rv))) (\<lambda>t. ret (case t of
          Some task \<Rightarrow> if is_open_task task
            then Some (task, case truthy_num (gr_pr rv) of Some n \<Rightarrow> Some n | None \<Rightarrow> truthy_num (gr_pr_number rv))
            else None
        | None \<Rightarrow> None)))"

text \<open>The property \<open>status\<close> of a review object, as the search reads it.\<close>

definition requests_changes :: "review \<Rightarrow> bool" where
  "requests_changes r \<longleftrightarrow> js_get (review_js r) ''status'' = Some (JStr (review_status_name RV_REQUEST_CHANGES))
     \<and> rv_invalidated_at r = None"

definition review_of_candidate :: "task \<Rightarrow> candidate \<Rightarrow> (task \<times> int option) option cact" where
  "review_of_candidate t c =
     bnd (listReviewsForCandidate (c_candidate_id c)) (\<lambda>rs.
     if list_ex requests_changes rs then
       bnd (candidateIsAuthoritative c) (\<lambda>ok. ret (if ok then Some (t, truthy_num (c_pr_number c)) else None))
     else ret None)"

definition findChangesRequestedWork :: "github_review list \<Rightarrow> (task \<times> int option) option cact" where
  "findChangesRequestedWork ghReviews =
     bnd (first_some review_on_task ghReviews) (\<lambda>found. case found of
       Some x \<Rightarrow> ret (Some x)
     | None \<Rightarrow> bnd openTasks (first_some (\<lambda>t.
         bnd (listCandidatesForTask (t_task_id t)) (first_some (review_of_candidate t)))))"

definition latestRun :: "string \<Rightarrow> run option cact" where
  "latestRun tid = bnd (listRunsForTask tid) (\<lambda>rs. ret (last_opt rs))"

definition taskHasAuthoritativeFailedCi :: "string \<Rightarrow> bool cact" where
  "taskHasAuthoritativeFailedCi tid =
     bnd (listCandidatesForTask tid) (\<lambda>cs.
     bnd (first_some (\<lambda>c. bnd (candidateHasFailedCi c) (\<lambda>bad. ret (if bad then Some () else None))) cs)
       (\<lambda>r. ret (r \<noteq> None)))"

definition handoff_of_task :: "task \<Rightarrow> tick_partial option cact" where
  "handoff_of_task t =
     (if is_stopped_task t then ret None
      else bnd (latestRun (t_task_id t)) (\<lambda>run. case run of
          None \<Rightarrow> ret None
        | Some r \<Rightarrow>
          if r_status r = R_SUCCEEDED then
            bnd (taskHasAuthoritativeFailedCi (t_task_id t)) (\<lambda>bad.
            ret (if bad then None else Some ((decided TD_NOOP ''AWAITING_VERIFY_HANDOFF'')
                 \<lparr>tp_task_id := Some (t_task_id t), tp_factory_run_id := Some (r_factory_run_id r)\<rparr>)))
          else ret None))"

definition findAwaitingHandoff :: "tick_partial option cact" where
  "findAwaitingHandoff = bnd listTasks (first_some handoff_of_task)"

definition continuation_of_task :: "task \<Rightarrow> (task \<times> bool) option cact" where
  "continuation_of_task t =
     (if t_status t \<noteq> T_RUNNING \<and> t_status t \<noteq> T_LOCKED then ret None
      else bnd (latestRun (t_task_id t)) (\<lambda>run. ret (case run of
          None \<Rightarrow> Some (t, False)
        | Some r \<Rightarrow> if r_status r = R_SUCCEEDED then None
                    else Some (t, r_status r \<in> {R_FAILED, R_CANCELLED, R_STALE}))))"

definition findContinuation :: "(task \<times> bool) option cact" where
  "findContinuation =
     bnd openTasks (\<lambda>ts. case List.find (\<lambda>t. t_status t = T_FAILED) ts of
       Some t \<Rightarrow> ret (Some (t, True))
     | None \<Rightarrow> first_some continuation_of_task ts)"

section \<open>Selecting one objective\<close>

text \<open>A selection: a finished decision, or work on a task or on approved work.\<close>

datatype objective = OnTask "task option" | OnWork work

datatype selection =
    Finished tick_partial
  | Selected bool objective string "int option" "string option"

definition worker_in_flight :: "run \<Rightarrow> orientation \<Rightarrow> tick_partial" where
  "worker_in_flight r o1 = (decided TD_NOOP ''WORKER_IN_FLIGHT'')
     \<lparr>tp_task_id := Some (r_task_id r), tp_factory_run_id := Some (r_factory_run_id r),
      tp_provider_run_id := or_str (r_provider_run_id r) None, tp_head_sha := on_head_sha o1\<rparr>"

definition select_active :: "run \<Rightarrow> orientation \<Rightarrow> string \<Rightarrow> selection cact" where
  "select_active r o1 owner =
     bnd (getControlLease ''active_coding_run'') (\<lambda>lease.
     if (\<exists>l \<in> set_option lease. l_owner l \<noteq> [] \<and> l_owner l \<noteq> owner) \<and> \<not> truthy_str (r_provider_run_id r)
     then ret (Finished (worker_in_flight r o1))
     else if \<not> truthy_str (r_provider_run_id r) \<and> (lease = None \<or> (\<exists>l \<in> set_option lease. l_owner l = owner))
     then bnd (getTask (r_task_id r)) (\<lambda>t.
       ret (Selected False (OnTask t) ''CLAIMED_TASK_CONTINUATION'' None (Some (r_factory_run_id r))))
     else ret (Finished (worker_in_flight r o1)))"

definition select_new :: "orientation \<Rightarrow> js \<Rightarrow> selection cact" where
  "select_new o1 catalog =
     bnd (lift (nextEligibleApprovedWork o1 catalog)) (\<lambda>found. ret (case found of
       Some w \<Rightarrow>
         if w_future_phase w \<or> w_owner_gate w then Finished (ownerNeed o1)
         else Selected False (OnWork w) ''NEXT_DEPENDENCY_READY_TASK'' None None
     | None \<Rightarrow>
         if on_claim_via o1 = Some ''WAITING_ON_OWNER'' \<or> on_owner_blockers o1 \<noteq> []
         then Finished (ownerNeed o1)
         else Finished (decided TD_NOOP ''NO_ELIGIBLE_WORK'')))"

definition select_idle :: "orientation \<Rightarrow> js \<Rightarrow> github_review list \<Rightarrow> selection cact" where
  "select_idle o1 catalog ghReviews =
     bnd findFailedCiWork (\<lambda>ci. case ci of
       Some (t, pr) \<Rightarrow> ret (Selected True (OnTask (Some t)) ''CI_FAILED'' pr None)
     | None \<Rightarrow>
     bnd (findChangesRequestedWork ghReviews) (\<lambda>ch. case ch of
       Some (t, pr) \<Rightarrow> ret (Selected True (OnTask (Some t)) ''CHANGES_REQUESTED'' pr None)
     | None \<Rightarrow>
     bnd findAwaitingHandoff (\<lambda>ho. case ho of
       Some p \<Rightarrow> ret (Finished p)
     | None \<Rightarrow>
     bnd findContinuation (\<lambda>co. case co of
       Some (t, rep) \<Rightarrow> ret (Selected rep (OnTask (Some t)) ''CLAIMED_TASK_CONTINUATION'' None None)
     | None \<Rightarrow> select_new o1 catalog))))"

definition selectOne :: "recovery \<Rightarrow> orientation \<Rightarrow> js \<Rightarrow> github_review list \<Rightarrow> string \<Rightarrow> selection cact" where
  "selectOne rc o1 catalog ghReviews owner =
     (if \<not> rc_ok rc then
        ret (Finished (decided TD_BLOCKED (the (or_str (rc_reason rc) (Some ''UNSAFE_AUTHORITATIVE_STATE'')))))
      else
        bnd (attempt getCurrentCodingRun) (\<lambda>cur. case cur of
          Inl err \<Rightarrow> ret (Finished (decided TD_BLOCKED (the (or_str (err_code err) (Some ''UNSAFE_AUTHORITATIVE_STATE'')))))
        | Inr (Some r) \<Rightarrow>
            if is_active (r_status r) then select_active r o1 owner else select_idle o1 catalog ghReviews
        | Inr None \<Rightarrow> select_idle o1 catalog ghReviews))"

section \<open>Acting on the selection\<close>

type_synonym 'a tact = "(core \<times> disk, js_error, 'a) act"

definition in_core :: "'a cact \<Rightarrow> 'a tact" where
  "in_core m = (\<lambda>(s, d). case m s of (r, s') \<Rightarrow> (r, (s', d)))"

definition in_disk :: "'a dact \<Rightarrow> 'a tact" where
  "in_disk m = (\<lambda>(s, d). case m d of (r, d') \<Rightarrow> (r, (s, d')))"

text \<open>\<open>try { m } finally { k }\<close>.\<close>

definition finallyM :: "('s, 'e, 'a) act \<Rightarrow> ('s, 'e, unit) act \<Rightarrow> ('s, 'e, 'a) act" where
  "finallyM m k = (\<lambda>s. case m s of (r, s') \<Rightarrow> (case k s' of (Inl e, s'') \<Rightarrow> (Inl e, s'') | (Inr _, s'') \<Rightarrow> (r, s'')))"

definition invalidate_candidate_evidence :: "env \<Rightarrow> string \<Rightarrow> candidate \<Rightarrow> unit cact" where
  "invalidate_candidate_evidence E reason c =
     thn (if c_status c \<noteq> C_SUPERSEDED
          then thn (updateCandidate (c_candidate_id c) (\<lambda>x. x\<lparr>c_status := C_SUPERSEDED\<rparr>)) (ret ()) else ret ())
    (bnd (listVerificationsForCandidate (c_candidate_id c)) (\<lambda>vs.
     thn (each (\<lambda>v. if v_invalidated_at v = None
                then thn (invalidateVerification E (v_verification_id v) reason) (ret ()) else ret ()) vs)
    (bnd (listReviewsForCandidate (c_candidate_id c)) (\<lambda>rs.
     each (\<lambda>r. if rv_invalidated_at r = None
                then thn (invalidateReview E (rv_review_id r) reason) (ret ()) else ret ()) rs))))"

definition invalidateTaskEvidence :: "env \<Rightarrow> string \<Rightarrow> string \<Rightarrow> unit cact" where
  "invalidateTaskEvidence E tid reason =
     bnd (listCandidatesForTask tid) (each (invalidate_candidate_evidence E reason))"

text \<open>The request a piece of approved work is claimed with.\<close>

definition work_request :: "work \<Rightarrow> js" where
  "work_request w = JObj ([(''task_id'', JStr (stableTaskId (w_work_id w))), (''logical_work_id'', JStr (w_work_id w)),
      (''intent'', JStr (w_title w))]
    @ (case w_acceptance_ref w of None \<Rightarrow> [] | Some a \<Rightarrow> [(''acceptance_ref'', JStr a)])
    @ [(''allowed_paths'', JArr (map JStr (w_allowed_paths w))),
      (''tool_manifest'', JObj [(''providers'', JArr [JStr ''cursor'']),
         (''tools'', JArr [JStr ''coding_worker'', JStr ''repo_read'']), (''mode'', JStr ''build'')]),
      (''review_required'', JBool True)])"

datatype claim_outcome = ClaimStop tick_decision task string | ClaimOver | ClaimTask "task option" bool

definition claim_outcome_of :: "task option \<Rightarrow> bool \<Rightarrow> claim_outcome" where
  "claim_outcome_of existing already = (case existing of
      None \<Rightarrow> ClaimTask None already
    | Some t \<Rightarrow>
        if t_status t = T_NEEDS_OWNER then ClaimStop TD_NEEDS_OWNER t ''TASK_NEEDS_OWNER''
        else if t_status t = T_BLOCKED then ClaimStop TD_BLOCKED t ''TASK_BLOCKED''
        else if t_status t = T_ACCEPTED \<or> t_status t = T_CANCELLED then ClaimOver
        else ClaimTask (Some t) already)"

definition claimOrReuse :: "env \<Rightarrow> work \<Rightarrow> claim_outcome cact" where
  "claimOrReuse E w =
     bnd (claimLogicalWork E (work_request w)) (\<lambda>claimed. ret (case claimed of
        Claimed t \<Rightarrow> claim_outcome_of (Some t) False
      | AlreadyClaimed t \<Rightarrow> claim_outcome_of t True))"

subsection \<open>Files\<close>

text \<open>\<open>JSON.stringify(v, null, 2)\<close>.\<close>

definition nl_indent :: "nat \<Rightarrow> string" where
  "nl_indent n = CHR 0x0A # replicate n CHR '' ''"

fun json_pretty :: "nat \<Rightarrow> js \<Rightarrow> string" where
  "json_pretty n (JArr xs) = (if xs = [] then ''[]'' else
     ''['' @ nl_indent (n + 2) @ join_with ('','' @ nl_indent (n + 2)) (map (json_pretty (n + 2)) xs) @ nl_indent n @ '']'')"
| "json_pretty n (JObj kvs) = (if kvs = [] then ''{}'' else
     ''{'' @ nl_indent (n + 2) @ join_with ('','' @ nl_indent (n + 2))
       (map (\<lambda>(k, v). json_quote k @ '': '' @ json_pretty (n + 2) v) kvs) @ nl_indent n @ ''}'')"
| "json_pretty n v = json_stringify v"

definition persistTickDecision :: "os_faults \<Rightarrow> path \<Rightarrow> js \<Rightarrow> unit dact" where
  "persistTickDecision F root decision =
    (let body = json_pretty 0 decision @ [CHR 0x0A]; dir = join_path root [''.data/builder''] in
     thn (mkdirp F dir)
    (thn (writeFileSync F (join_path dir [''last-tick.json'']) body)
    (case js_get decision ''factory_run_id'' of
       Some (JStr rid) \<Rightarrow>
         if rid = [] then ret ()
         else (let runDir = join_path root [''control/runs'', rid] in
           thn (mkdirp F runDir) (writeFileSync F (join_path runDir [''decision.json'']) body))
     | _ \<Rightarrow> ret ())))"

definition loadApprovedWorkCatalog :: "os_faults \<Rightarrow> path \<Rightarrow> js dact" where
  "loadApprovedWorkCatalog F root =
     bnd (readFileSync F (join_path root [''control/prd.json''])) (\<lambda>body. case json_parse body of
       None \<Rightarrow> throw (nativeError ''SyntaxError'' ''invalid JSON'')
     | Some JNull \<Rightarrow> throw (nativeError ''TypeError'' ''Cannot read properties of null (reading 'durable_state')'')
     | Some raw \<Rightarrow> ret raw)"

subsection \<open>Dispatch\<close>

definition buildPrompt :: "task \<Rightarrow> string \<Rightarrow> string" where
  "buildPrompt t contractPath = join_with [CHR 0x0A]
     [''Execute the bounded worker contract. Do not set PASS/DONE. Do not advance phases.'',
      ''task_id: '' @ t_task_id t, ''worker_contract: '' @ contractPath, ''intent: '' @ t_intent t,
      ''acceptance_ref: '' @ t_acceptance_ref t,
      ''allowed_paths: '' @ json_stringify (JArr (map JStr (t_allowed_paths t)))]"

record dispatch_result =
  di_dispatched :: bool
  di_provider_run_id :: "string option"
  di_provider :: "string option"
  di_factory_run_id :: "string option"

definition no_dispatch :: dispatch_result where
  "no_dispatch = \<lparr>di_dispatched = False, di_provider_run_id = None, di_provider = None, di_factory_run_id = None\<rparr>"

definition dispatch_of_run :: "bool \<Rightarrow> worker_provider \<Rightarrow> run \<Rightarrow> dispatch_result" where
  "dispatch_of_run b wp r = \<lparr>di_dispatched = b, di_provider_run_id = or_str (r_provider_run_id r) None,
     di_provider = or_str (Some (r_provider r)) (Some (wp_name wp)), di_factory_run_id = Some (r_factory_run_id r)\<rparr>"

definition maybeDispatch ::
  "env \<Rightarrow> worker_provider option \<Rightarrow> task \<Rightarrow> string \<Rightarrow> bool \<Rightarrow> string \<Rightarrow> dispatch_result cact" where
  "maybeDispatch E provider t rid dispatch prompt = (case provider of
      None \<Rightarrow> ret no_dispatch
    | Some wp \<Rightarrow>
      if \<not> dispatch then ret no_dispatch
      else
        catch (bnd (if rid \<noteq> [] then launchCodingWorkerOnRun E provider rid prompt (JObj [])
                    else launchCodingWorker E provider (t_task_id t) prompt (JObj []))
                 (\<lambda>(run, _). ret (dispatch_of_run True wp run)))
          (\<lambda>err.
             if err_code err \<in> {Some ''ALREADY_DISPATCHING'', Some ''INVALID_RUN_STATUS''} \<and> rid \<noteq> [] then
               bnd (getRun rid) (\<lambda>existing. case existing of
                 Some r \<Rightarrow> if r_status r \<in> {R_LAUNCHED, R_RUNNING} then ret (dispatch_of_run False wp r) else throw err
               | None \<Rightarrow> throw err)
             else throw err))"

section \<open>One tick\<close>

record tick_options =
  tk_root :: path
  tk_trigger :: string
  tk_dispatch :: bool
  tk_orientation :: "orientation option"
  tk_runOrientation :: "nat \<Rightarrow> path \<Rightarrow> js_error + orientation"
  tk_catalog :: "js option"
  tk_githubReviews :: "github_review list"
  tk_envVars :: "(string \<times> js) list"
  tk_persist :: bool
  tk_requireSharedStore :: bool
  tk_storeKind :: string
  tk_processEnv :: process_env
  tk_pid :: nat
  tk_provider :: "worker_provider option"

definition logical_id :: "objective \<Rightarrow> task \<Rightarrow> string option" where
  "logical_id obj t = or_str (case obj of OnWork w \<Rightarrow> Some (w_work_id w) | OnTask _ \<Rightarrow> None)
     (or_str (t_logical_work_id t) (Some (t_task_id t)))"

definition contract_command :: "string \<Rightarrow> string" where
  "contract_command name = (if prefix ''npm'' name then name else ''npm run '' @ name)"

definition contract_of :: "task \<Rightarrow> string \<Rightarrow> orientation \<Rightarrow> contract_payload" where
  "contract_of t rid o1 = \<lparr>cp_task = t, cp_factory_run_id = rid, cp_head_sha = on_head_sha o1,
     cp_orientation = \<lparr>ob_active_work_state = (case on_active_work_state o1 of None \<Rightarrow> [] | Some x \<Rightarrow> x),
        ob_next_phase_candidate = (case on_next_phase_candidate o1 of None \<Rightarrow> [] | Some x \<Rightarrow> x)\<rparr>,
     cp_commands = map contract_command (on_commands o1)\<rparr>"

text \<open>The run is there: write its contract, dispatch, report.\<close>

definition tick_dispatch ::
  "env \<Rightarrow> os_faults \<Rightarrow> tick_options \<Rightarrow> orientation \<Rightarrow> bool \<Rightarrow> objective \<Rightarrow> string \<Rightarrow> int option \<Rightarrow> task \<Rightarrow> string \<Rightarrow> tick_partial tact" where
  "tick_dispatch E F opts o1 rep obj reason pr t rid =
     bnd (in_disk (writeWorkerContract F (tk_root opts) (contract_of t rid o1))) (\<lambda>rel.
     bnd (in_core (maybeDispatch E (tk_provider opts) t rid (tk_dispatch opts) (buildPrompt t (path_string rel)))) (\<lambda>di.
     ret \<lparr>tp_decision = (if rep then TD_REPAIR else TD_EXECUTE), tp_reason = reason, tp_task_id = Some (t_task_id t),
       tp_factory_run_id = or_str (di_factory_run_id di) (Some rid), tp_provider_run_id = di_provider_run_id di,
       tp_provider = or_str (di_provider di) (Some ''cursor''), tp_worker_contract = Some (path_string rel), tp_pr = pr,
       tp_head_sha = on_head_sha o1, tp_owner_action = None, tp_logical_work_id = logical_id obj t,
       tp_dispatched = di_dispatched di\<rparr>))"

text \<open>Repair: the evidence on the old candidates is revoked, then a bounded repair begins.\<close>

definition repair_class :: "string \<Rightarrow> failure_class" where
  "repair_class reason = (if reason = ''CI_FAILED'' then F_CI_FAIL else F_UNKNOWN)"

definition missingTask :: js_error where
  "missingTask = nativeError ''TypeError'' ''Cannot read properties of null (reading 'task_id')''"

definition tick_repair ::
  "env \<Rightarrow> os_faults \<Rightarrow> tick_options \<Rightarrow> orientation \<Rightarrow> objective \<Rightarrow> string \<Rightarrow> int option \<Rightarrow> task \<Rightarrow> tick_partial tact" where
  "tick_repair E F opts o1 obj reason pr t =
     thn (in_core (invalidateTaskEvidence E (t_task_id t) reason))
    (bnd (in_core (beginRepairAttempt E (t_task_id t) (repair_class reason) reason ''cursor'')) (\<lambda>rr. case rr of
       RepairStopped _ st _ why \<Rightarrow>
         ret ((decided (if st = T_NEEDS_OWNER then TD_NEEDS_OWNER else TD_BLOCKED) why)\<lparr>tp_task_id := Some (t_task_id t)\<rparr>)
     | RepairStarted run (Some t') _ \<Rightarrow> tick_dispatch E F opts o1 True obj reason pr t' (r_factory_run_id run)
     | RepairStarted run None _ \<Rightarrow> throw missingTask))"

text \<open>Execution without a run: one active run is inserted, or the tick gives way to the one that is there.\<close>

definition tick_execute ::
  "env \<Rightarrow> os_faults \<Rightarrow> tick_options \<Rightarrow> orientation \<Rightarrow> objective \<Rightarrow> string \<Rightarrow> int option \<Rightarrow> string \<Rightarrow> task \<Rightarrow> tick_partial tact" where
  "tick_execute E F opts o1 obj reason pr owner t =
     bnd (in_core (newId E ''run'')) (\<lambda>fresh.
     bnd (in_core (tryInsertActiveRun E (t_task_id t) ''cursor'' owner (Some fresh) None None None)) (\<lambda>ins. case ins of
       RunNotInserted why existing _ \<Rightarrow>
         ret ((decided TD_NOOP (if truthy_str (Option.bind existing r_provider_run_id) then ''WORKER_IN_FLIGHT''
                 else the (or_str (Some why) (Some ''ALREADY_CLAIMED''))))
           \<lparr>tp_task_id := Some (t_task_id t), tp_factory_run_id := map_option r_factory_run_id existing,
            tp_provider_run_id := Option.bind existing r_provider_run_id, tp_logical_work_id := logical_id obj t\<rparr>)
     | RunInserted run \<Rightarrow>
         thn (in_core (set_current (Some (r_factory_run_id run))))
        (thn (in_core (appendEvent E (Some (t_task_id t)) (Some (r_factory_run_id run)) RUN_CREATED None
                (JObj [(''attempt'', JNum (r_attempt run)), (''provider'', JStr ''cursor'')])))
             (tick_dispatch E F opts o1 False obj reason pr t (r_factory_run_id run)))))"

definition tick_run ::
  "env \<Rightarrow> os_faults \<Rightarrow> tick_options \<Rightarrow> orientation \<Rightarrow> bool \<Rightarrow> objective \<Rightarrow> string \<Rightarrow> int option \<Rightarrow> string option \<Rightarrow> string \<Rightarrow> task
    \<Rightarrow> tick_partial tact" where
  "tick_run E F opts o1 rep obj reason pr rid owner t =
     (if rep then tick_repair E F opts o1 obj reason pr t
      else if truthy_str rid then tick_dispatch E F opts o1 False obj reason pr t (the rid)
      else tick_execute E F opts o1 obj reason pr owner t)"

definition tick_claimed ::
  "env \<Rightarrow> os_faults \<Rightarrow> tick_options \<Rightarrow> orientation \<Rightarrow> bool \<Rightarrow> objective \<Rightarrow> string \<Rightarrow> int option \<Rightarrow> string option \<Rightarrow> string \<Rightarrow> task
    \<Rightarrow> tick_partial tact" where
  "tick_claimed E F opts o1 rep obj reason pr rid owner t =
     bnd (in_core getCurrentCodingRun) (\<lambda>cur. case cur of
       Some r \<Rightarrow> ret ((decided TD_NOOP (if truthy_str (r_provider_run_id r) then ''WORKER_IN_FLIGHT'' else ''ALREADY_CLAIMED''))
           \<lparr>tp_task_id := Some (t_task_id t), tp_factory_run_id := Some (r_factory_run_id r),
            tp_provider_run_id := or_str (r_provider_run_id r) None, tp_logical_work_id := logical_id obj t\<rparr>)
     | None \<Rightarrow> tick_run E F opts o1 rep obj reason pr rid owner t)"

text \<open>
  The store reported the work as claimed, but found no task for it: the outcome object itself is then
  taken for the task. A current run ends the tick; otherwise the insertion of a run is tried with an
  absent task identifier, which the driver refuses to bind unless another owner's lease answers first.
\<close>

definition lost_task :: "work \<Rightarrow> string \<Rightarrow> run option \<Rightarrow> tick_partial" where
  "lost_task w why existing =
     (decided TD_NOOP (if truthy_str (Option.bind existing r_provider_run_id) then ''WORKER_IN_FLIGHT'' else why))
       \<lparr>tp_factory_run_id := map_option r_factory_run_id existing,
        tp_provider_run_id := Option.bind existing r_provider_run_id, tp_logical_work_id := Some (w_work_id w)\<rparr>"

definition tick_unclaimed :: "env \<Rightarrow> work \<Rightarrow> string \<Rightarrow> tick_partial cact" where
  "tick_unclaimed E w owner =
     bnd getCurrentCodingRun (\<lambda>cur. case cur of
       Some r \<Rightarrow> ret (lost_task w ''ALREADY_CLAIMED'' (Some r))
     | None \<Rightarrow>
       thn (newId E ''run'')
      (bnd (getControlLease ACTIVE_CODING_LEASE_KEY) (\<lambda>lease.
       if (\<exists>l \<in> set_option lease. l_owner l \<noteq> owner) then
         bnd (case Option.bind lease l_factory_run_id of
                Some lr \<Rightarrow> getRun lr
              | None \<Rightarrow> bnd listActiveRuns (\<lambda>rs. ret (hd_opt rs)))
             (\<lambda>existing. ret (lost_task w ''LEASE_HELD'' existing))
       else throw (codedError PlainError
              ''Provided value cannot be bound to SQLite parameter 1.'' ''ERR_INVALID_ARG_TYPE''))))"

definition tick_act :: "env \<Rightarrow> os_faults \<Rightarrow> tick_options \<Rightarrow> orientation \<Rightarrow> string \<Rightarrow> selection \<Rightarrow> tick_partial tact" where
  "tick_act E F opts o1 owner sel = (case sel of
      Finished p \<Rightarrow> ret p
    | Selected rep (OnTask None) reason pr rid \<Rightarrow> ret (decided TD_NOOP ''NO_ELIGIBLE_WORK'')
    | Selected rep (OnTask (Some t)) reason pr rid \<Rightarrow> tick_run E F opts o1 rep (OnTask (Some t)) reason pr rid owner t
    | Selected rep (OnWork w) reason pr rid \<Rightarrow>
        bnd (in_core (claimOrReuse E w)) (\<lambda>claimed. case claimed of
          ClaimStop d t why \<Rightarrow> ret ((decided d why)\<lparr>tp_task_id := Some (t_task_id t),
            tp_owner_action := (if d = TD_NEEDS_OWNER then Some ''Owner must unblock or re-authorize this Builder task.'' else None)\<rparr>)
        | ClaimOver \<Rightarrow> ret (decided TD_NOOP ''NO_ELIGIBLE_WORK'')
        | ClaimTask None already \<Rightarrow> in_core (tick_unclaimed E w owner)
        | ClaimTask (Some t) already \<Rightarrow>
            if already then tick_claimed E F opts o1 rep (OnWork w) reason pr rid owner t
            else tick_run E F opts o1 rep (OnWork w) reason pr rid owner t))"

text \<open>The body of the \<open>try\<close>: every path ends by rendering, persisting and returning its decision.\<close>

definition tick_body :: "env \<Rightarrow> os_faults \<Rightarrow> tick_options \<Rightarrow> string \<Rightarrow> js tact" where
  "tick_body E F opts owner =
     bnd (case tk_orientation opts of Some x \<Rightarrow> ret x | None \<Rightarrow> in_core (call_out (tk_runOrientation opts) (tk_root opts))) (\<lambda>o1.
     bnd (case tk_catalog opts of Some c \<Rightarrow> ret c | None \<Rightarrow> in_disk (loadApprovedWorkCatalog F (tk_root opts))) (\<lambda>catalog.
     bnd (in_core (reconcileAfterRestart E None)) (\<lambda>rc.
     bnd (in_core (selectOne rc o1 catalog (tk_githubReviews opts) owner)) (\<lambda>sel.
     bnd (tick_act E F opts o1 owner sel) (\<lambda>p.
     let out = decisionFields p (Some o1) (tk_trigger opts) in
     thn (if tk_persist opts then in_disk (persistTickDecision F (tk_root opts) out) else ret ())
         (ret out))))))"

definition runJarvisTick :: "env \<Rightarrow> os_faults \<Rightarrow> tick_options \<Rightarrow> js tact" where
  "runJarvisTick E F opts =
     thn (lift (assertTrigger (tk_trigger opts)))
    (thn (lift (assertNoBusinessCredentials (tk_envVars opts)))
    (if (tk_requireSharedStore opts \<or> isUnattendedBuilderMode (tk_processEnv opts)) \<and> tk_storeKind opts \<noteq> ''postgres''
     then ret (blockedStoreDecision ''SHARED_STORE_REQUIRED'')
     else
       bnd (in_core (now E)) (\<lambda>t.
       bnd (attempt (in_disk (acquireTickLock F (tk_root opts) (JNum (int (tk_pid opts))) t))) (\<lambda>lock. case lock of
         Inl err \<Rightarrow>
           if is_duplicate err
           then ret (decisionFields (decided TD_NOOP ''DUPLICATE_TRIGGER'') (tk_orientation opts) (tk_trigger opts))
           else throw err
       | Inr _ \<Rightarrow>
           finallyM (tick_body E F opts (sandboxOwnerId (tk_processEnv opts) (tk_pid opts)))
             (in_disk (releaseTickLock F (tk_root opts)))))))"

definition tickProviderStatus :: "env \<Rightarrow> worker_provider option \<Rightarrow> string \<Rightarrow> (run \<times> provider_result) cact" where
  "tickProviderStatus E wp rid = refreshWorkerStatus E wp rid"

definition tickProviderCancel :: "env \<Rightarrow> worker_provider option \<Rightarrow> string \<Rightarrow> (run \<times> provider_result) cact" where
  "tickProviderCancel E wp rid = cancelCodingWorker E wp rid"

definition tickProviderCollect :: "env \<Rightarrow> worker_provider option \<Rightarrow> string \<Rightarrow> bool \<Rightarrow> (run \<times> provider_result \<times> task_status) cact" where
  "tickProviderCollect E wp rid w = collectCodingWorker E wp rid w"

end
