(* ===== verification/RowFrame.thy ===== *)
theory RowFrame
  imports CiWait Retry
begin

text \<open>
  Invariants of the rows themselves, for every operation of the Builder at once: a candidate's
  row never changes its commit or branch, and no operation but the insertion of a run changes how
  many runs a task has.
\<close>

locale row_frame =
  fixes E :: env and J :: "db \<Rightarrow> bool"
  assumes tasks_J: "\<And>d x. J (d\<lparr>tasks := x\<rparr>) = J d"
    and verifications_J: "\<And>d x. J (d\<lparr>verifications := x\<rparr>) = J d"
    and reviews_J: "\<And>d x. J (d\<lparr>reviews := x\<rparr>) = J d"
    and approvals_J: "\<And>d x. J (d\<lparr>approvals := x\<rparr>) = J d"
    and leases_J: "\<And>d x. J (d\<lparr>leases := x\<rparr>) = J d"
    and events_J: "\<And>d x. J (d\<lparr>events := x\<rparr>) = J d"
    and run_J: "\<And>d rid f. J d \<Longrightarrow> (\<And>r. r_factory_run_id (f r) = r_factory_run_id r \<and> r_task_id (f r) = r_task_id r) \<Longrightarrow>
      J (d\<lparr>runs := update_row r_factory_run_id rid f (runs d)\<rparr>)"
    and new_candidate_J: "\<And>d c. J d \<Longrightarrow> c_candidate_id c \<notin> c_candidate_id ` set (candidates d) \<Longrightarrow>
      J (d\<lparr>candidates := candidates d @ [c]\<rparr>)"
    and candidate_J: "\<And>d cid f. J d \<Longrightarrow> (\<And>c. c_candidate_id (f c) = c_candidate_id c \<and> c_task_id (f c) = c_task_id c \<and> c_commit_sha (f c) = c_commit_sha c \<and>
      c_branch (f c) = c_branch c) \<Longrightarrow> J (d\<lparr>candidates := update_row c_candidate_id cid f (candidates d)\<rparr>)"
begin

abbreviation JI :: "core \<Rightarrow> bool" where "JI \<equiv> \<lambda>s. J (db s)"

lemmas other_J = tasks_J verifications_J reviews_J approvals_J leases_J events_J

lemma modify_J: "(\<And>d. J d \<Longrightarrow> J (f d)) \<Longrightarrow> keeps JI (modify_db f)"
  by (simp add: keeps_def modify_db_def modify_def)

lemma tx_J: "keeps JI m \<Longrightarrow> keeps JI (tx m)"
  by (auto simp: keeps_def tx_def split: prod.splits sum.splits)

lemma world_J: "keeps JI (now E)" "keeps JI (newId E p)"
  by (simp_all add: keeps_now keeps_newId)

lemma task_writes_J: "keeps JI (insertTask E t)" "keeps JI (updateTask E tid p)" "keeps JI (appendEvent E tid' rid ty ref pl)"
  unfolding insertTask_def updateTask_def appendEvent_def by (intro keeps_rules world_J modify_J; simp add: other_J)+

lemma lock_J: "keeps JI (createAndLockTask E i)"
  unfolding createAndLockTask_def createDraftTask_def lockTask_def by (intro keeps_rules task_writes_J world_J)

lemma task_ops_J: "keeps JI (updateTaskStatus E tid st)" "keeps JI (claimLogicalWork E i)"
  unfolding updateTaskStatus_def claimLogicalWork_def by (intro tx_J keeps_rules task_writes_J lock_J)+

lemma run_ops_J: "keeps JI (updateRun rid f)" "keeps JI (tryClaimPendingDispatch rid)"
  unfolding updateRun_def tryClaimPendingDispatch_def releaseControlLeaseByRun_def
  by (intro keeps_rules modify_J; simp add: other_J run_J run_written_def Let_def)+

lemma updateCandidate_J:
  "(\<And>c. c_commit_sha (f c) = c_commit_sha c \<and> c_branch (f c) = c_branch c) \<Longrightarrow> keeps JI (updateCandidate cid f)"
  unfolding updateCandidate_def by (intro keeps_rules modify_J; simp add: candidate_J)

lemma insertCandidate_J: "keeps JI (insertCandidate E c)"
proof (rule keepsI)
  fix s r s' assume "J (db s)" "insertCandidate E c s = (r, s')"
  then show "J (db s')"
    by (cases r) (auto simp: insertCandidate_def run_iff run_err now_def modify_db_def Let_def new_candidate_J)
qed

lemma evidence_ops_J: "keeps JI (insertVerification v)" "keeps JI (updateVerification vid g)" "keeps JI (insertReview r)"
  "keeps JI (updateReview rv h)" "keeps JI (insertApproval E a)" "keeps JI (updateApproval aid k)"
  unfolding insertVerification_def updateVerification_def insertReview_def updateReview_def insertApproval_def updateApproval_def
  by (intro keeps_rules world_J modify_J; simp add: other_J)+

lemma lease_ops_J: "keeps JI (acquireControlLease E k w tid rid)" "keeps JI (releaseControlLease k w')"
  unfolding acquireControlLease_def releaseControlLease_def by (intro tx_J keeps_rules world_J modify_J; simp add: other_J)+

end

sublocale row_frame \<subseteq> core_frame E "\<lambda>s. J (db s)"
  by unfold_locales
     (simp_all add: task_writes_J lock_J task_ops_J run_ops_J insertCandidate_J updateCandidate_J evidence_ops_J lease_ops_J)

locale row_invariant = row_frame E J for E :: env and J :: "db \<Rightarrow> bool" +
  assumes new_run_J: "\<And>d r. J d \<Longrightarrow> J (d\<lparr>runs := runs d @ [r]\<rparr>)"
begin

lemma insertRun_J: "keeps JI (insertRun E r)"
  unfolding insertRun_def by (intro keeps_rules world_J modify_J; simp add: new_run_J)

lemma tryInsert_J: "keeps JI (tryInsertActiveRun E tid prov w rid prid paid n)"
  unfolding tryInsertActiveRun_def insert_leased_run_def lease_to_run_def
  by (intro tx_J keeps_rules world_J insertRun_J modify_J; simp add: other_J)

end

sublocale row_invariant \<subseteq> core_invariant E "\<lambda>s. J (db s)"
  by unfold_locales (simp_all add: insertRun_J tryInsert_J)

section \<open>Exact commits\<close>

text \<open>The candidate's row is there and is for this task, commit and branch.\<close>

definition candidate_is :: "string \<Rightarrow> string \<Rightarrow> string option \<Rightarrow> string option \<Rightarrow> db \<Rightarrow> bool" where
  "candidate_is cid tid sha branch d \<longleftrightarrow>
     (\<exists>c. find_row c_candidate_id (candidates d) cid = Some c \<and> c_task_id c = tid \<and> c_commit_sha c = sha \<and> c_branch c = branch)"

interpretation exact: row_invariant E "candidate_is cid tid sha branch" for E cid tid sha branch
  by unfold_locales (auto simp: candidate_is_def find_row_append find_row_update)

section \<open>The number of runs\<close>

definition runs_at_most :: "string \<Rightarrow> nat \<Rightarrow> db \<Rightarrow> bool" where
  "runs_at_most tid n d \<longleftrightarrow> run_count tid (runs d) \<le> n"

interpretation count: row_frame E "runs_at_most tid n" for E tid n
  by unfold_locales (simp_all add: runs_at_most_def run_count_update)

end
