(* ===== verification/TickProps.thy ===== *)
theory TickProps
  imports Tick RowFrame
begin

text \<open>
  What one tick guarantees, whatever the operating system, the worker provider and GitHub do: it
  keeps every invariant of the Builder, it leaves at most one active run and starts at most one, a
  duplicate trigger changes nothing, and the lock is free again when the tick is over.
\<close>

section \<open>Invariants of the core through a tick\<close>

lemma keeps_in_core: "keeps I m \<Longrightarrow> keeps (\<lambda>p. I (fst p)) (in_core m)"
  by (fastforce simp: keeps_def in_core_def split: prod.splits)

lemma keeps_in_disk: "keeps (\<lambda>p. I (fst p)) (in_disk m)"
  by (auto simp: keeps_def in_disk_def split: prod.splits)

lemma keeps_finally: "keeps I m \<Longrightarrow> keeps I k \<Longrightarrow> keeps I (finallyM m k)"
  by (fastforce simp: keeps_def finallyM_def split: prod.splits sum.splits)

lemma keeps_first_some [keeps_rules]: "(\<And>x. x \<in> set xs \<Longrightarrow> keeps I (f x)) \<Longrightarrow> keeps I (first_some f xs)"
  by (induction xs) (auto intro!: keeps_bnd keeps_option)

lemma candidate_reads [keeps_rules]: "keeps I (candidateIsAuthoritative c)" "keeps I (candidateHasFailedCi c)"
  unfolding candidateHasFailedCi_def candidateIsAuthoritative_def by (intro keeps_rules)+

lemma search_reads [keeps_rules]:
  "keeps I openTasks" "keeps I (latestRun tid)" "keeps I (taskHasAuthoritativeFailedCi tid)"
  "keeps I findFailedCiWork" "keeps I (findChangesRequestedWork rvs)" "keeps I findAwaitingHandoff" "keeps I findContinuation"
  unfolding openTasks_def latestRun_def taskHasAuthoritativeFailedCi_def findFailedCiWork_def failed_candidate_def
    findChangesRequestedWork_def review_on_task_def review_of_candidate_def findAwaitingHandoff_def handoff_of_task_def
    findContinuation_def continuation_of_task_def
  by (intro keeps_rules)+

lemma select_reads [keeps_rules]: "keeps I (select_active r o1 w)" "keeps I (select_idle o1 c rvs)"
  unfolding select_active_def select_idle_def select_new_def by (intro keeps_rules)+

lemma selectOne_keeps: "keeps I getCurrentCodingRun \<Longrightarrow> keeps I (selectOne rc o1 c rvs w)"
  unfolding selectOne_def by (intro keeps_rules)

context core_frame
begin

lemma selectOne_I [keeps_rules]: "keeps I (selectOne rc o1 c rvs w)"
  by (rule selectOne_keeps) (rule getCurrentCodingRun_I)

lemma invalidateTaskEvidence_I [keeps_rules]: "keeps I (invalidateTaskEvidence E tid why)"
  unfolding invalidateTaskEvidence_def invalidate_candidate_evidence_def by (intro keeps_rules) simp

lemma claimOrReuse_I [keeps_rules]: "keeps I (claimOrReuse E w)"
  unfolding claimOrReuse_def by (intro keeps_rules)

end

lemma keeps_repair_result [keeps_rules]:
  "(\<And>t st f why. x = RepairStopped t st f why \<Longrightarrow> keeps I (g t st f why)) \<Longrightarrow>
   (\<And>r t n. x = RepairStarted r t n \<Longrightarrow> keeps I (h r t n)) \<Longrightarrow> keeps I (case_repair_result g h x)"
  by (cases x) auto

lemma keeps_insert_result [keeps_rules]:
  "(\<And>r. x = RunInserted r \<Longrightarrow> keeps I (g r)) \<Longrightarrow> (\<And>why r l. x = RunNotInserted why r l \<Longrightarrow> keeps I (h why r l)) \<Longrightarrow>
   keeps I (case_insert_result g h x)"
  by (cases x) auto

lemma keeps_claim_outcome [keeps_rules]:
  "(\<And>d t why. x = ClaimStop d t why \<Longrightarrow> keeps I (f d t why)) \<Longrightarrow> (x = ClaimOver \<Longrightarrow> keeps I g) \<Longrightarrow>
   (\<And>t a. x = ClaimTask t a \<Longrightarrow> keeps I (h t a)) \<Longrightarrow> keeps I (case_claim_outcome f g h x)"
  by (cases x) auto

lemma keeps_selection [keeps_rules]:
  "(\<And>p. x = Finished p \<Longrightarrow> keeps I (f p)) \<Longrightarrow>
   (\<And>b ob why pr rid. x = Selected b ob why pr rid \<Longrightarrow> keeps I (g b ob why pr rid)) \<Longrightarrow> keeps I (case_selection f g x)"
  by (cases x) auto

lemma keeps_objective [keeps_rules]:
  "(\<And>t. x = OnTask t \<Longrightarrow> keeps I (f t)) \<Longrightarrow> (\<And>w. x = OnWork w \<Longrightarrow> keeps I (g w)) \<Longrightarrow> keeps I (case_objective f g x)"
  by (cases x) auto

context core_invariant
begin

abbreviation TI :: "core \<times> disk \<Rightarrow> bool" where "TI \<equiv> \<lambda>p. I (fst p)"

lemma maybeDispatch_I [keeps_rules]: "keeps I (maybeDispatch E wp t rid b p)"
  unfolding maybeDispatch_def by (intro keeps_rules)

lemmas tick_rules = keeps_rules keeps_in_core keeps_in_disk keeps_finally

lemma tick_dispatch_I: "keeps TI (tick_dispatch E F opts o1 b ob why pr t rid)"
  unfolding tick_dispatch_def by (intro tick_rules)

lemma tick_repair_I: "keeps TI (tick_repair E F opts o1 ob why pr t)"
  unfolding tick_repair_def by (intro tick_rules tick_dispatch_I)

lemma tick_execute_I: "keeps TI (tick_execute E F opts o1 ob why pr w t)"
  unfolding tick_execute_def by (intro tick_rules tick_dispatch_I)

lemma tick_run_I: "keeps TI (tick_run E F opts o1 b ob why pr rid w t)"
  unfolding tick_run_def by (intro tick_rules tick_dispatch_I tick_repair_I tick_execute_I)

lemma tick_act_I: "keeps TI (tick_act E F opts o1 w sel)"
  unfolding tick_act_def tick_claimed_def tick_unclaimed_def by (intro tick_rules tick_run_I)

lemma tick_body_I: "keeps TI (tick_body E F opts w)"
  unfolding tick_body_def Let_def by (intro tick_rules tick_act_I)

lemma runJarvisTick_I: "keeps TI (runJarvisTick E F opts)"
  unfolding runJarvisTick_def by (intro tick_rules tick_body_I)

end

section \<open>Operations that leave the runs alone\<close>

lemma runs_modify: "(\<And>d. runs (f d) = runs d) \<Longrightarrow> keeps (\<lambda>s. P (runs (db s))) (modify_db f)"
  by (simp add: keeps_def modify_db_def modify_def)

lemma runs_tx: "keeps (\<lambda>s. P (runs (db s))) m \<Longrightarrow> keeps (\<lambda>s. P (runs (db s))) (tx m)"
  by (auto simp: keeps_def tx_def split: prod.splits sum.splits)

lemmas runs_rules = keeps_rules runs_frame

lemma runs_writes:
  "keeps (\<lambda>s. P (runs (db s))) (insertTask E t)" "keeps (\<lambda>s. P (runs (db s))) (updateTask E tid p)"
  "keeps (\<lambda>s. P (runs (db s))) (updateCandidate cid f)" "keeps (\<lambda>s. P (runs (db s))) (updateVerification vid g)"
  "keeps (\<lambda>s. P (runs (db s))) (updateReview rvid h)"
  unfolding insertTask_def updateTask_def updateCandidate_def updateVerification_def updateReview_def
  by (intro runs_rules runs_modify; simp)+

lemma runs_createAndLock: "keeps (\<lambda>s. P (runs (db s))) (createAndLockTask E i)"
  unfolding createAndLockTask_def createDraftTask_def lockTask_def by (intro runs_rules runs_writes)

lemma runs_claimOrReuse: "keeps (\<lambda>s. P (runs (db s))) (claimOrReuse E w)"
  unfolding claimOrReuse_def claimLogicalWork_def by (intro runs_tx runs_rules runs_createAndLock)

lemma runs_invalidate:
  "keeps (\<lambda>s. P (runs (db s))) (invalidateVerification E vid why)" "keeps (\<lambda>s. P (runs (db s))) (invalidateReview E rvid why)"
  unfolding invalidateVerification_def invalidateReview_def by (intro runs_rules runs_writes)+

lemma runs_invalidateTaskEvidence: "keeps (\<lambda>s. P (runs (db s))) (invalidateTaskEvidence E tid why)"
  unfolding invalidateTaskEvidence_def invalidate_candidate_evidence_def by (intro runs_rules runs_writes runs_invalidate)

lemma runs_reconcile: "keeps (\<lambda>s. P (runs (db s))) (reconcileAfterRestart E cb)"
  unfolding reconcileAfterRestart_def block_many_active_def probe_provider_def fence_pointer_def conclude_recovery_def
    nowIso_def set_recovery_def Let_def
  by (intro runs_rules keeps_modify; simp)

lemma runs_selectOne: "keeps (\<lambda>s. P (runs (db s))) (selectOne rc o1 c rvs w)"
  by (rule selectOne_keeps) (rule runs_frame)

section \<open>Operations that add a run\<close>

definition none_active :: "run list \<Rightarrow> bool" where
  "none_active rs \<longleftrightarrow> (\<forall>r \<in> set rs. \<not> is_active (r_status r))"

text \<open>The runs are those there were, or one more.\<close>

definition one_more :: "run list \<Rightarrow> run list \<Rightarrow> bool" where
  "one_more rs rs' \<longleftrightarrow> rs' = rs \<or> (\<exists>q. rs' = rs @ [q])"

lemma insert_leased_run_runs:
  assumes "insert_leased_run E tid p w (Some rid) prid paid n lease s = (x, s')"
  shows "case x of Inr (RunInserted q) \<Rightarrow> runs (db s') = runs (db s) @ [q] \<and> r_factory_run_id q = rid
    | Inr (RunNotInserted why q l) \<Rightarrow> runs (db s') = runs (db s) | Inl e \<Rightarrow> True"
proof (cases "insertRun E (pending_run rid tid p prid paid n) s")
  case (Pair y s1)
  note ins = insertRun_runs [OF Pair]
  show ?thesis
  proof (cases y)
    case (Inl e)
    with assms Pair show ?thesis by (auto simp: insert_leased_run_def ret_def bnd_def)
  next
    case (Inr q)
    with ins have q: "runs (db s1) = runs (db s) @ [q]" "r_factory_run_id q = rid" by (simp_all add: pending_run_def)
    have "keeps (\<lambda>u. runs (db u) = runs (db s) @ [q])
        (bnd (now E) (\<lambda>ts. thn (lease_to_run tid w q ts lease) (ret (RunInserted q))))"
      unfolding lease_to_run_def by (intro runs_rules runs_modify) simp_all
    moreover have run: "bnd (now E) (\<lambda>ts. thn (lease_to_run tid w q ts lease) (ret (RunInserted q))) s1 = (x, s')"
      using assms Pair Inr by (simp add: insert_leased_run_def ret_def bnd_def)
    ultimately have "runs (db s') = runs (db s) @ [q]" using q(1) by (metis (mono_tags, lifting) keepsD)
    moreover have "x = Inr (RunInserted q)"
      using run by (auto simp: bnd_def thn_def now_def lease_to_run_def modify_db_def modify_def ret_def split: if_splits)
    ultimately show ?thesis using q(2) by simp
  qed
qed

lemma tryInsert_runs:
  assumes "tryInsertActiveRun E tid p w (Some rid) prid paid n s = (x, s')"
  shows "case x of Inr (RunInserted q) \<Rightarrow> runs (db s') = runs (db s) @ [q] \<and> r_factory_run_id q = rid
    | _ \<Rightarrow> runs (db s') = runs (db s)"
proof -
  define body where "body = bnd (getControlLease ACTIVE_CODING_LEASE_KEY) (\<lambda>lease.
     if (\<exists>l \<in> set_option lease. l_owner l \<noteq> w) then
       bnd (case Option.bind lease l_factory_run_id of
              Some lr \<Rightarrow> getRun lr
            | None \<Rightarrow> bnd listActiveRuns (\<lambda>rs. ret (hd_opt rs)))
           (\<lambda>existing. ret (RunNotInserted ''LEASE_HELD'' existing lease))
     else
       bnd (listRunsForTask tid) (\<lambda>existing.
       (case filter (\<lambda>r. is_active (r_status r)) existing of
          r # _ \<Rightarrow> ret (RunNotInserted ''ACTIVE_RUN_EXISTS'' (Some r) lease)
        | [] \<Rightarrow> insert_leased_run E tid p w (Some rid) prid paid
                  (case n of Some a \<Rightarrow> a | None \<Rightarrow> int (length existing) + 1) lease)))"
  obtain y s1 where b: "body s = (y, s1)" by fastforce
  have body: "case y of Inr (RunInserted q) \<Rightarrow> runs (db s1) = runs (db s) @ [q] \<and> r_factory_run_id q = rid
      | Inr (RunNotInserted why q l) \<Rightarrow> runs (db s1) = runs (db s) | Inl e \<Rightarrow> True"
    using b insert_leased_run_runs unfolding body_def
    by (fastforce simp: getControlLease_def getRun_def listActiveRuns_def listRunsForTask_def act_defs
        split: if_splits option.splits list.splits)
  let ?h = "\<lambda>err. if isUniqueViolation err then
          bnd listActiveRuns (\<lambda>active.
          bnd (listRunsForTask tid) (\<lambda>taskRuns.
          ret (RunNotInserted ''UNIQUE_CONSTRAINT''
            (case hd_opt active of Some r \<Rightarrow> Some r | None \<Rightarrow> last_opt taskRuns) None)))
        else throw err"
  have run: "catch (tx body) ?h s = (x, s')"
    using assms by (simp add: tryInsertActiveRun_def body_def)
  have handler: "runs (db u') = runs (db u) \<and> (\<nexists>q. z = Inr (RunInserted q))" if "?h e u = (z, u')" for e u z u'
    using that by (auto simp: listActiveRuns_def listRunsForTask_def act_defs split: if_splits)
  show ?thesis
  proof (cases y)
    case (Inr ir)
    with run b have "x = y" "s' = s1" by (simp_all add: catch_def tx_def)
    with body Inr show ?thesis by (simp split: insert_result.splits)
  next
    case (Inl e)
    with run b have "?h e (s1\<lparr>db := db s\<rparr>) = (x, s')" by (simp add: catch_def tx_def)
    from handler [OF this] show ?thesis by (auto split: sum.splits insert_result.splits)
  qed
qed

lemma close_idle:
  assumes "none_active (runs (db s))" "close_current_run E tid fc why s = (r, s')"
  shows "runs (db s') = runs (db s)"
proof -
  obtain x s1 where cur: "getCurrentCodingRun s = (x, s1)" by fastforce
  have same: "runs (db s1) = runs (db s)" by (rule keepsD [OF runs_frame(9) refl cur])
  have "\<nexists>c. x = Inr (Some c)"
    using getCurrentCodingRun_Some cur assms(1) by (auto simp: none_active_def)
  with assms(2) cur same show ?thesis
    by (auto simp: close_current_run_def bnd_def ret_def split: sum.splits option.splits)
qed

lemma start_repair_runs:
  assumes idle: "none_active (runs (db s))" and run: "start_repair E t tid fc why p n s = (x, s')"
  shows "one_more (runs (db s)) (runs (db s')) \<and>
    (\<forall>q t' k. x = Inr (RepairStarted q t' k) \<longrightarrow> runs (db s') = runs (db s) @ [q] \<and> r_factory_run_id q \<noteq> [])"
proof -
  obtain y s1 where close: "close_current_run E tid fc why s = (y, s1)" by fastforce
  have s1: "runs (db s1) = runs (db s)" by (rule close_idle [OF idle close])
  show ?thesis
  proof (cases y)
    case (Inl e)
    with run close s1 show ?thesis by (auto simp: start_repair_def thn_def bnd_def one_more_def)
  next
    case (Inr u)
    obtain z s2 where new: "createRun E tid p None None None s1 = (z, s2)" by fastforce
    let ?tail = "\<lambda>fresh. thn (set_current (Some (r_factory_run_id fresh))) (thn (start_repair_tail E t tid fc why n fresh)
      (bnd (getTask tid) (\<lambda>t. ret (RepairStarted fresh t n))))"
    have rest: "bnd (createRun E tid p None None None) ?tail s1 = (x, s')"
      using run close Inr by (simp add: start_repair_def thn_def bnd_def)
    show ?thesis
    proof (cases z)
      case (Inl e)
      with rest new have "x = Inl e" "s' = s2" by (simp_all add: bnd_def)
      with createRun_Inl [OF new [unfolded Inl]] s1 show ?thesis by (auto simp: one_more_def)
    next
      case (Inr q)
      note q = createRun_Inr [OF new [unfolded Inr]]
      have tail: "?tail q s2 = (x, s')" using rest new Inr by (simp add: bnd_def)
      have "keeps (\<lambda>u. runs (db u) = runs (db s) @ [q]) (?tail q)"
        by (intro runs_rules start_repair_tail_runs)
      with q s1 tail have "runs (db s') = runs (db s) @ [q]" by (metis (mono_tags, lifting) keepsD)
      moreover have "\<forall>q' t' k. x = Inr (RepairStarted q' t' k) \<longrightarrow> q' = q"
        using tail by (auto simp: run_iff)
      ultimately show ?thesis using q by (auto simp: one_more_def)
    qed
  qed
qed

lemma repair_runs:
  assumes idle: "none_active (runs (db s))" and run: "beginRepairAttempt E tid fc why p s = (x, s')"
  shows "one_more (runs (db s)) (runs (db s')) \<and>
    (\<forall>q t' k. x = Inr (RepairStarted q t' k) \<longrightarrow> runs (db s') = runs (db s) @ [q] \<and> r_factory_run_id q \<noteq> [])"
proof (cases "find_row t_task_id (tasks (db s)) tid")
  case None
  with run show ?thesis
    by (auto simp: beginRepairAttempt_def getTask_def gets_def bnd_def throw_def one_more_def)
next
  case (Some t)
  have stop: "runs (db s') = runs (db u) \<and> (\<nexists>q t' k. x = Inr (RepairStarted q t' k))"
    if "stop_repair E tid st ty pl f y u = (x, s')" for st ty pl f y u
    using keepsD [OF stop_repair_runs [of "\<lambda>rs. rs = runs (db u)"] refl that] that
    by (auto simp: stop_repair_def run_iff)
  from beginRepairAttempt_run [OF Some run] obtain s1 where s1: "runs (db s1) = runs (db s)"
    and "(\<exists>st ty pl f y. stop_repair E tid st ty pl f y s1 = (x, s')) \<or>
      start_repair E t tid fc why p (run_count tid (runs (db s))) s1 = (x, s')"
    by blast
  then show ?thesis
  proof (elim disjE exE)
    fix st ty pl f y assume "stop_repair E tid st ty pl f y s1 = (x, s')"
    with stop s1 show ?thesis by (fastforce simp: one_more_def)
  next
    assume "start_repair E t tid fc why p (run_count tid (runs (db s))) s1 = (x, s')"
    from start_repair_runs [OF _ this] idle s1 show ?thesis by simp
  qed
qed

section \<open>At most one active run\<close>

definition at_most_runs :: "nat \<Rightarrow> db \<Rightarrow> bool" where
  "at_most_runs n d \<longleftrightarrow> length (runs d) \<le> n"

interpretation total: row_frame E "at_most_runs n" for E n
  by unfold_locales (simp_all add: at_most_runs_def)

lemma keeps_bnd_returned:
  assumes "keeps I m" "\<And>s x s'. I s \<Longrightarrow> m s = (Inr x, s') \<Longrightarrow> keeps I (f x)"
  shows "keeps I (bnd m f)"
  using assms unfolding keeps_def bnd_def by (fastforce split: prod.splits sum.splits)

lemma assertAuthorizedRun_id:
  "assertAuthorizedRun E rid b s = (Inr r, s') \<Longrightarrow> r_factory_run_id r = rid"
  by (auto simp: assertAuthorizedRun_def getRun_def run_iff split: option.splits if_splits dest!: find_row_Some)

lemma tryClaim_only: "keeps (\<lambda>s. only_active rid (runs (db s))) (tryClaimPendingDispatch rid)"
  by (rule keepsI)
     (auto simp: tryClaimPendingDispatch_def getRun_def act_defs modify_db_def only_active_def set_update_row
       split: option.splits if_splits)

lemma onRun_only: "keeps (\<lambda>s. only_active rid (runs (db s))) (launchCodingWorkerOnRun E wp rid prompt vars)"
proof (cases wp)
  case None
  then show ?thesis by (simp add: launchCodingWorkerOnRun_def)
next
  case (Some w)
  have auth: "keeps (\<lambda>s. only_active rid (runs (db s))) (assertAuthorizedRun E rid False)"
    unfolding assertAuthorizedRun_def reject_stale_def by (intro runs_rules)
  have perm: "keeps (\<lambda>s. only_active rid (runs (db s))) (require_permitted w t)" for t
    unfolding require_permitted_def by (intro keeps_rules)
  show ?thesis
    unfolding launchCodingWorkerOnRun_def Some option.case
    by (rule keeps_bnd_returned [OF auth])
       (intro runs_rules tryClaim_only perm call_launch_only finish_launch_only; simp add: assertAuthorizedRun_id)
qed

text \<open>The states of a tick: nothing active; only the chosen run active; the claim.\<close>

definition idle_at :: "nat \<Rightarrow> core \<times> disk \<Rightarrow> bool" where
  "idle_at n p \<longleftrightarrow> none_active (runs (db (fst p))) \<and> length (runs (db (fst p))) \<le> n"

definition on_run :: "nat \<Rightarrow> string \<Rightarrow> core \<times> disk \<Rightarrow> bool" where
  "on_run n rid p \<longleftrightarrow> only_active rid (runs (db (fst p))) \<and> at_most_runs (Suc n) (db (fst p))"

definition tidy :: "nat \<Rightarrow> core \<times> disk \<Rightarrow> bool" where
  "tidy n p \<longleftrightarrow> single_active (runs (db (fst p))) \<and> length (runs (db (fst p))) \<le> Suc n"

lemma idle_tidy: "idle_at n p \<Longrightarrow> tidy n p"
  by (auto simp: idle_at_def tidy_def none_active_def single_active_def only_active_def)

lemma on_run_tidy: "on_run n rid p \<Longrightarrow> tidy n p"
  by (auto simp: on_run_def tidy_def single_active_def at_most_runs_def)

lemma one_more_tidy:
  "idle_at n (s, d) \<Longrightarrow> one_more (runs (db s)) (runs (db s')) \<Longrightarrow> tidy n (s', d')"
  by (auto simp: idle_at_def tidy_def one_more_def none_active_def single_active_def only_active_def)

lemma appended_on_run:
  "idle_at n (s, d) \<Longrightarrow> runs (db s') = runs (db s) @ [q] \<Longrightarrow> on_run n (r_factory_run_id q) (s', d')"
  by (auto simp: idle_at_def on_run_def none_active_def only_active_def at_most_runs_def)

lemma maybeDispatch_on_run:
  assumes "rid \<noteq> []"
  shows "keeps (on_run n rid) (in_core (maybeDispatch E wp t rid b prompt))"
proof -
  have "keeps (\<lambda>s. only_active rid (runs (db s))) (maybeDispatch E wp t rid b prompt)"
    unfolding maybeDispatch_def if_not_P [OF assms] using assms
    by (auto intro!: keeps_rules onRun_only)
  moreover have "keeps (\<lambda>s. at_most_runs (Suc n) (db s)) (maybeDispatch E wp t rid b prompt)"
    unfolding maybeDispatch_def using assms
    by (auto intro!: keeps_rules total.launchCodingWorkerOnRun_I)
  ultimately have "keeps (\<lambda>s. only_active rid (runs (db s)) \<and> at_most_runs (Suc n) (db s)) (maybeDispatch E wp t rid b prompt)"
    by (rule keeps_conj)
  from keeps_in_core [OF this] show ?thesis by (simp add: on_run_def [abs_def])
qed

lemma tick_dispatch_on_run:
  assumes "rid \<noteq> []"
  shows "keeps (on_run n rid) (tick_dispatch E F opts o1 b ob why pr t rid)"
proof -
  have "keeps (on_run n rid) (in_disk m)" for m :: "'a dact"
    using keeps_in_disk [of "\<lambda>s. on_run n rid (s, undefined)" m] by (simp add: on_run_def [abs_def])
  then show ?thesis
    unfolding tick_dispatch_def by (intro keeps_rules maybeDispatch_on_run [OF assms])
qed

lemma keeps_idle:
  assumes "keeps (\<lambda>s. none_active (runs (db s)) \<and> length (runs (db s)) \<le> n) m"
  shows "keeps (idle_at n) (in_core m)"
  using keeps_in_core [OF assms] by (simp add: idle_at_def [abs_def])

lemmas idle_runs = keeps_idle [OF runs_invalidateTaskEvidence [where P = "\<lambda>rs. none_active rs \<and> length rs \<le> n" for n]]
  keeps_idle [OF runs_claimOrReuse [where P = "\<lambda>rs. none_active rs \<and> length rs \<le> n" for n]]
  keeps_idle [OF runs_frame(4) [where P = "\<lambda>rs. none_active rs \<and> length rs \<le> n" for n]]
  keeps_idle [OF runs_frame(9) [where P = "\<lambda>rs. none_active rs \<and> length rs \<le> n" for n]]

lemma tick_repair_tidy: "leads (idle_at n) (tick_repair E F opts o1 ob why pr t) (tidy n)"
  unfolding tick_repair_def
proof (rule leads_thn [OF idle_runs(1) _ idle_tidy])
  let ?m = "beginRepairAttempt E (t_task_id t) (repair_class why) why ''cursor''"
  let ?f = "\<lambda>rr. case rr of
       RepairStopped _ st _ y \<Rightarrow>
         ret ((decided (if st = T_NEEDS_OWNER then TD_NEEDS_OWNER else TD_BLOCKED) y)\<lparr>tp_task_id := Some (t_task_id t)\<rparr>)
     | RepairStarted run (Some t') _ \<Rightarrow> tick_dispatch E F opts o1 True ob why pr t' (r_factory_run_id run)
     | RepairStarted run None _ \<Rightarrow> throw missingTask"
  show "leads (idle_at n) (bnd (in_core ?m) ?f) (tidy n)"
    unfolding leads_def
  proof (intro allI impI)
    fix p assume idle: "idle_at n p"
    obtain s d where p: "p = (s, d)" by fastforce
    obtain x s' where m: "?m s = (x, s')" by fastforce
    have runs: "one_more (runs (db s)) (runs (db s'))"
      "\<And>q t' k. x = Inr (RepairStarted q t' k) \<Longrightarrow> runs (db s') = runs (db s) @ [q] \<and> r_factory_run_id q \<noteq> []"
      using repair_runs [OF _ m] idle by (simp_all add: idle_at_def p)
    have tidy: "tidy n (s', d)" using one_more_tidy idle runs(1) p by simp
    show "tidy n (snd (bnd (in_core ?m) ?f p))"
    proof (cases "\<exists>q t' k. x = Inr (RepairStarted q (Some t') k)")
      case True
      then obtain q t' k where x: "x = Inr (RepairStarted q (Some t') k)" by blast
      have "on_run n (r_factory_run_id q) (s', d)" using appended_on_run [OF idle [unfolded p]] runs(2) [OF x] by simp
      then have "on_run n (r_factory_run_id q) (snd (tick_dispatch E F opts o1 True ob why pr t' (r_factory_run_id q) (s', d)))"
        using tick_dispatch_on_run runs(2) [OF x] unfolding keeps_def by blast
      then show ?thesis using on_run_tidy by (simp add: bnd_def in_core_def p m x)
    next
      case False
      then show ?thesis
        using tidy by (cases x)
          (auto simp: bnd_def in_core_def p m ret_def throw_def split: repair_result.splits option.splits)
    qed
  qed
qed

lemma tick_execute_tidy: "leads (idle_at n) (tick_execute E F opts o1 ob why pr w t) (tidy n)"
  unfolding leads_def
proof (intro allI impI)
  fix p assume idle: "idle_at n p"
  obtain s d where p: "p = (s, d)" by fastforce
  let ?fresh = "''run_'' @ env_uuid E (ticks s)"
  let ?s0 = "s\<lparr>ticks := Suc (ticks s)\<rparr>"
  obtain x s' where m: "tryInsertActiveRun E (t_task_id t) ''cursor'' w (Some ?fresh) None None None ?s0 = (x, s')" by fastforce
  note ins = tryInsert_runs [OF m]
  show "tidy n (snd (tick_execute E F opts o1 ob why pr w t p))"
  proof (cases "\<exists>q. x = Inr (RunInserted q)")
    case False
    with ins have "runs (db s') = runs (db s)" by (auto split: sum.splits insert_result.splits)
    with idle p have "tidy n (s', d)" by (auto simp: idle_at_def intro!: idle_tidy)
    with False m show ?thesis
      by (cases x) (auto simp: tick_execute_def bnd_def in_core_def newId_def p ret_def split: insert_result.splits)
  next
    case True
    then obtain q where x: "x = Inr (RunInserted q)" by blast
    with ins have q: "runs (db s') = runs (db s) @ [q]" "r_factory_run_id q \<noteq> []" by simp_all
    let ?rest = "thn (in_core (set_current (Some (r_factory_run_id q))))
      (thn (in_core (appendEvent E (Some (t_task_id t)) (Some (r_factory_run_id q)) RUN_CREATED None
              (JObj [(''attempt'', JNum (r_attempt q)), (''provider'', JStr ''cursor'')])))
           (tick_dispatch E F opts o1 False ob why pr t (r_factory_run_id q)))"
    have "keeps (on_run n (r_factory_run_id q)) ?rest"
      using keeps_in_core [OF runs_frame(5) [where P = "\<lambda>rs. only_active (r_factory_run_id q) rs \<and> length rs \<le> Suc n"]]
        keeps_in_core [OF runs_frame(1) [where P = "\<lambda>rs. only_active (r_factory_run_id q) rs \<and> length rs \<le> Suc n"]]
      by (intro keeps_thn tick_dispatch_on_run q(2)) (simp_all add: on_run_def [abs_def] at_most_runs_def)
    moreover have "on_run n (r_factory_run_id q) (s', d)" using appended_on_run [OF idle [unfolded p] q(1)] .
    ultimately have "tidy n (snd (?rest (s', d)))" unfolding keeps_def using on_run_tidy by blast
    moreover have "bnd (in_core (newId E ''run'')) f (s, d) = f ?fresh (?s0, d)" for f :: "string \<Rightarrow> tick_partial tact"
      by (simp add: bnd_def in_core_def newId_def)
    moreover have "bnd (in_core (tryInsertActiveRun E (t_task_id t) ''cursor'' w (Some ?fresh) None None None)) f (?s0, d) =
        f (RunInserted q) (s', d)" for f :: "insert_result \<Rightarrow> tick_partial tact"
      using m x by (simp add: bnd_def in_core_def)
    ultimately have "tidy n (snd (tick_execute E F opts o1 ob why pr w t (s, d)))"
      by (simp add: tick_execute_def)
    then show ?thesis by (simp add: p)
  qed
qed

lemma leads_ret: "(\<And>p. P p \<Longrightarrow> Q p) \<Longrightarrow> leads P (ret x) Q" "(\<And>p. P p \<Longrightarrow> Q p) \<Longrightarrow> leads P (throw e) Q"
  by (simp_all add: leads_def ret_def throw_def)

lemma tick_run_tidy: "leads (idle_at n) (tick_run E F opts o1 rep ob why pr None w t) (tidy n)"
  unfolding tick_run_def truthy_str_def by (simp add: tick_repair_tidy tick_execute_tidy)

lemma tick_claimed_tidy: "leads (idle_at n) (tick_claimed E F opts o1 rep ob why pr None w t) (tidy n)"
  unfolding tick_claimed_def
  by (intro leads_bnd idle_runs leads_option leads_ret idle_tidy tick_run_tidy)

lemma runs_tick_unclaimed: "keeps (\<lambda>s. P (runs (db s))) (tick_unclaimed E wk w)"
  unfolding tick_unclaimed_def by (intro runs_rules)

lemma tick_unclaimed_tidy: "leads (idle_at n) (in_core (tick_unclaimed E wk w)) (tidy n)"
  using keeps_idle [OF runs_tick_unclaimed [where P = "\<lambda>rs. none_active rs \<and> length rs \<le> n"]] idle_tidy
  by (auto simp: leads_def keeps_def)

lemma leads_claim_outcome:
  "(\<And>d t why. leads P (f d t why) Q) \<Longrightarrow> leads P g Q \<Longrightarrow> (\<And>t a. leads P (h t a) Q) \<Longrightarrow> leads P (case_claim_outcome f g h x) Q"
  by (cases x) simp_all

lemma tick_act_idle: "leads (idle_at n) (tick_act E F opts o1 w (Selected rep ob why pr None)) (tidy n)"
proof (cases ob)
  case (OnTask t)
  then show ?thesis
    by (cases t) (auto simp: tick_act_def intro!: leads_ret idle_tidy tick_run_tidy)
next
  case (OnWork wk)
  then show ?thesis
    by (simp add: tick_act_def)
       (intro leads_bnd idle_runs leads_claim_outcome leads_option leads_ret leads_if idle_tidy tick_run_tidy tick_claimed_tidy
          tick_unclaimed_tidy)
qed

lemma tick_act_on_run:
  assumes "rid \<noteq> []"
  shows "keeps (on_run n rid) (tick_act E F opts o1 w (Selected False (OnTask t) why pr (Some rid)))"
  using assms tick_dispatch_on_run [OF assms] by (cases t) (simp_all add: tick_act_def tick_run_def truthy_str_def)

lemma select_idle_rid:
  "select_idle o1 c rvs s = (Inr (Selected rep ob why pr rid), s') \<Longrightarrow> rid = None"
  by (auto simp: select_idle_def select_new_def run_iff split: option.splits prod.splits if_splits)

lemma select_active_rid:
  "select_active r o1 w s = (Inr (Selected rep ob why pr rid), s') \<Longrightarrow>
   \<not> rep \<and> rid = Some (r_factory_run_id r) \<and> (\<exists>t. ob = OnTask t)"
  by (auto simp: select_active_def run_iff split: if_splits)

text \<open>A run always has a name.\<close>

definition runs_named :: "run list \<Rightarrow> bool" where
  "runs_named rs \<longleftrightarrow> [] \<notin> r_factory_run_id ` set rs"

lemma selectOne_cases:
  assumes one: "single_active (runs (db s))" and named: "runs_named (runs (db s))"
    and run: "selectOne rc o1 c rvs w s = (Inr (Selected rep ob why pr rid), s')"
  shows "rid = None \<and> none_active (runs (db s)) \<or>
    (\<exists>x t. rid = Some x \<and> x \<noteq> [] \<and> \<not> rep \<and> ob = OnTask t \<and> only_active x (runs (db s)))"
proof -
  obtain y s1 where cur: "getCurrentCodingRun s = (y, s1)" by fastforce
  have rest: "(case y of
          Inl err \<Rightarrow> ret (Finished (decided TD_BLOCKED (the (or_str (err_code err) (Some ''UNSAFE_AUTHORITATIVE_STATE'')))))
        | Inr (Some r) \<Rightarrow> if is_active (r_status r) then select_active r o1 w else select_idle o1 c rvs
        | Inr None \<Rightarrow> select_idle o1 c rvs) s1 = (Inr (Selected rep ob why pr rid), s')"
    using run cur by (auto simp: selectOne_def bnd_def attempt_def ret_def split: if_splits)
  show ?thesis
  proof (cases y)
    case (Inl e)
    with rest show ?thesis by (simp add: ret_def)
  next
    case (Inr r)
    show ?thesis
    proof (cases r)
      case None
      with Inr cur have "none_active (runs (db s))"
        using getCurrentCodingRun_None [of s s1] by (simp add: none_active_def)
      with None Inr rest show ?thesis using select_idle_rid by auto
    next
      case (Some q)
      with Inr cur have q: "q \<in> set (runs (db s))" "is_active (r_status q)"
        using getCurrentCodingRun_Some [of s q s1] by simp_all
      from one obtain x where x: "only_active x (runs (db s))" by (auto simp: single_active_def)
      with q have "x = r_factory_run_id q" by (auto simp: only_active_def)
      moreover have "r_factory_run_id q \<noteq> []" using named q(1) by (force simp: runs_named_def)
      ultimately show ?thesis
        using x q(2) rest Inr Some select_active_rid by fastforce
    qed
  qed
qed

text \<open>The body of the tick, up to the decision.\<close>

lemma tick_decision_tidy:
  assumes one: "single_active (runs (db s))" and named: "runs_named (runs (db s))" and len: "length (runs (db s)) \<le> n"
    and run: "bnd (in_core (selectOne rc o1 c rvs w)) (tick_act E F opts o1 w) (s, d) = (x, p)"
  shows "tidy n p"
proof -
  obtain y s1 where sel: "selectOne rc o1 c rvs w s = (y, s1)" by fastforce
  have same: "runs (db s1) = runs (db s)" by (rule keepsD [OF runs_selectOne refl sel])
  have start: "tidy n (s1, d)" using one len same by (simp add: tidy_def)
  show ?thesis
  proof (cases y)
    case (Inl e)
    with run sel start show ?thesis by (simp add: bnd_def in_core_def)
  next
    case (Inr k)
    have act: "tick_act E F opts o1 w k (s1, d) = (x, p)" using run sel Inr by (simp add: bnd_def in_core_def)
    show ?thesis
    proof (cases k)
      case (Finished q)
      with act start show ?thesis by (simp add: tick_act_def ret_def)
    next
      case (Selected rep ob why pr rid)
      from selectOne_cases [OF one named sel [unfolded Inr Selected]] show ?thesis
      proof (elim disjE exE conjE)
        assume r: "rid = None" and "none_active (runs (db s))"
        then have "idle_at n (s1, d)" using len same by (simp add: idle_at_def)
        then show ?thesis using tick_act_idle act Selected r unfolding leads_def by (metis snd_conv)
      next
        fix z t assume z: "rid = Some z" "z \<noteq> []" "\<not> rep" "ob = OnTask t" "only_active z (runs (db s))"
        then have "on_run n z (s1, d)" using len same by (simp add: on_run_def at_most_runs_def)
        then show ?thesis
          using tick_act_on_run [OF z(2)] act Selected z on_run_tidy unfolding keeps_def by (metis (full_types) snd_conv)
      qed
    qed
  qed
qed

definition ready :: "nat \<Rightarrow> core \<times> disk \<Rightarrow> bool" where
  "ready n p \<longleftrightarrow> single_active (runs (db (fst p))) \<and> runs_named (runs (db (fst p))) \<and> length (runs (db (fst p))) \<le> n"

lemma ready_tidy: "ready n p \<Longrightarrow> tidy n p"
  by (simp add: ready_def tidy_def)

lemma ready_core:
  assumes "keeps (\<lambda>s. single_active (runs (db s)) \<and> runs_named (runs (db s)) \<and> length (runs (db s)) \<le> n) m"
  shows "keeps (ready n) (in_core m)"
  using keeps_in_core [OF assms] by (simp add: ready_def [abs_def])

lemma ready_disk: "keeps (ready n) (in_disk m)"
  using keeps_in_disk [of "\<lambda>s. ready n (s, undefined)" m] by (simp add: ready_def [abs_def])

lemma tidy_disk: "keeps (tidy n) (in_disk m)"
  using keeps_in_disk [of "\<lambda>s. tidy n (s, undefined)" m] by (simp add: tidy_def [abs_def])

lemmas ready_runs = ready_core [OF runs_reconcile [where P = "\<lambda>rs. single_active rs \<and> runs_named rs \<and> length rs \<le> n" for n]]
  ready_core [OF runs_frame(7) [where P = "\<lambda>rs. single_active rs \<and> runs_named rs \<and> length rs \<le> n" for n]]
  ready_core [OF runs_frame(3) [where P = "\<lambda>rs. single_active rs \<and> runs_named rs \<and> length rs \<le> n" for n]]

lemma tick_decides: "leads (ready n) (bnd (in_core (selectOne rc o1 c rvs w)) (tick_act E F opts o1 w)) (tidy n)"
  unfolding leads_def
proof (intro allI impI)
  fix p assume "ready n p"
  moreover obtain s d where "p = (s, d)" by fastforce
  ultimately show "tidy n (snd (bnd (in_core (selectOne rc o1 c rvs w)) (tick_act E F opts o1 w) p))"
    using tick_decision_tidy [of s n rc o1 c rvs w E F opts d] by (metis fst_conv prod.collapse ready_def)
qed

lemma tick_body_tidy: "leads (ready n) (tick_body E F opts w) (tidy n)"
proof -
  have decide: "leads (ready n) (bnd (in_core (selectOne rc o1 c rvs w)) (\<lambda>sel. bnd (tick_act E F opts o1 w sel) k)) (tidy n)"
    if "\<And>x. keeps (tidy n) (k x)" for rc o1 c rvs and k :: "tick_partial \<Rightarrow> js tact"
    unfolding bnd_assoc [symmetric] using tick_decides that by (rule leads_bind)
  show ?thesis
    unfolding tick_body_def Let_def
    by (intro leads_bnd keeps_option keeps_ret ready_runs ready_disk ready_tidy decide keeps_thn keeps_if tidy_disk)
qed

lemma leads_finally: "leads P m Q \<Longrightarrow> keeps Q k \<Longrightarrow> leads P (finallyM m k) Q"
  by (fastforce simp: leads_def keeps_def finallyM_def split: prod.splits sum.splits)

lemma keeps_attempt_disk: "keeps (ready n) (attempt (in_disk m))"
  by (intro keeps_attempt ready_disk)

lemma leads_sum:
  "(\<And>y. leads P (f y) Q) \<Longrightarrow> (\<And>y. leads P (g y) Q) \<Longrightarrow> leads P (case_sum f g x) Q"
  by (cases x) simp_all

lemma tick_tidy: "leads (ready n) (runJarvisTick E F opts) (tidy n)"
  unfolding runJarvisTick_def
  by (intro leads_thn leads_bnd leads_if leads_sum leads_ret leads_finally keeps_lift ready_runs keeps_attempt_disk
      tick_body_tidy tidy_disk ready_tidy)

text \<open>
  C8. One tick, one run: if at most one run is active, then after a tick at most one run is active and
  at most one run was added, however the tick ends: whatever the orientation, the catalog and the
  reviews say, whether or not it dispatches, whatever the provider answers and whatever calls the
  operating system refuses.
\<close>

theorem tick_single_run:
  assumes "single_active (runs (db s))" "runs_named (runs (db s))"
    and "runJarvisTick E F opts (s, d) = (r, (s', d'))"
  shows "single_active (runs (db s')) \<and> length (runs (db s')) \<le> Suc (length (runs (db s)))"
  using tick_tidy [of "length (runs (db s))" E F opts] assms
  by (auto simp: leads_def ready_def tidy_def dest!: spec [of _ s] spec [of _ d])

definition demo_orientation :: orientation where
  "demo_orientation = \<lparr>on_head_sha = Some ''abc'', on_next_slice = Some ''F-03'', on_completed_gates = [], on_owner_blockers = [],
     on_next_phase_candidate = None, on_claim_via = None, on_claim_reason = None, on_active_work_state = None, on_commands = [''test'']\<rparr>"

definition demo_tick :: tick_options where
  "demo_tick = \<lparr>tk_root = [''repo''], tk_trigger = ''hourly'', tk_dispatch = True, tk_orientation = Some demo_orientation,
     tk_runOrientation = (\<lambda>n p. Inr demo_orientation), tk_catalog = Some (JObj []), tk_githubReviews = [], tk_envVars = [],
     tk_persist = True, tk_requireSharedStore = False, tk_storeKind = ''sqlite'', tk_processEnv = (\<lambda>v. None), tk_pid = 7,
     tk_provider = Some demo_wp\<rparr>"

theorem tick_single_run_witness:
  "\<exists>r s' d'. runJarvisTick demo_env (\<lambda>_. None) demo_tick (demo_busy, bare_disk) = (r, (s', d')) \<and>
     single_active (runs (db s')) \<and> length (runs (db s')) \<le> 2"
proof -
  obtain r s' d' where run: "runJarvisTick demo_env (\<lambda>_. None) demo_tick (demo_busy, bare_disk) = (r, (s', d'))"
    by (metis prod.collapse)
  have "single_active (runs (db demo_busy))" "runs_named (runs (db demo_busy))"
    by (simp_all add: demo_busy_def demo_live_run_def pending_run_def single_active_def only_active_def runs_named_def)
  from tick_single_run [OF this run] run show ?thesis by (auto simp: demo_busy_def)
qed

section \<open>The lock around a tick\<close>

text \<open>The trigger, the variables and the store mode let the tick begin.\<close>

definition admitted :: "tick_options \<Rightarrow> bool" where
  "admitted opts \<longleftrightarrow> tk_trigger opts \<in> set TICK_TRIGGERS \<and> assertNoBusinessCredentials (tk_envVars opts) = Inr () \<and>
     \<not> ((tk_requireSharedStore opts \<or> isUnattendedBuilderMode (tk_processEnv opts)) \<and> tk_storeKind opts \<noteq> ''postgres'')"

definition tick_locked :: "env \<Rightarrow> os_faults \<Rightarrow> tick_options \<Rightarrow> (js_error + path) \<Rightarrow> js tact" where
  "tick_locked E F opts lock = (case lock of
         Inl err \<Rightarrow>
           if is_duplicate err
           then ret (decisionFields (decided TD_NOOP ''DUPLICATE_TRIGGER'') (tk_orientation opts) (tk_trigger opts))
           else throw err
       | Inr _ \<Rightarrow>
           finallyM (tick_body E F opts (sandboxOwnerId (tk_processEnv opts) (tk_pid opts)))
             (in_disk (releaseTickLock F (tk_root opts))))"

lemma tick_not_admitted:
  assumes "\<not> admitted opts"
  shows "snd (runJarvisTick E F opts p) = p"
  using assms
  by (auto simp: runJarvisTick_def admitted_def assertTrigger_def thn_def bnd_def lift_def ret_def split: sum.splits)

lemma tick_admitted:
  assumes "admitted opts" "acquireTickLock F (tk_root opts) (JNum (int (tk_pid opts))) (env_clock E (ticks s)) d = (lock, d1)"
  shows "runJarvisTick E F opts (s, d) = tick_locked E F opts lock (s\<lparr>ticks := Suc (ticks s)\<rparr>, d1)"
proof -
  have "bnd (in_core (now E)) f (s, d) = f (env_clock E (ticks s)) (s\<lparr>ticks := Suc (ticks s)\<rparr>, d)" for f :: "nat \<Rightarrow> js tact"
    by (simp add: bnd_def in_core_def now_def)
  moreover have "bnd (attempt (in_disk (acquireTickLock F (tk_root opts) (JNum (int (tk_pid opts))) (env_clock E (ticks s))))) f (u, d) = f lock (u, d1)"
    for f :: "js_error + path \<Rightarrow> js tact" and u
    using assms(2) by (simp add: bnd_def attempt_def in_disk_def)
  ultimately show ?thesis
    using assms(1) by (auto simp: runJarvisTick_def admitted_def assertTrigger_def tick_locked_def lift_thn_fwd)
qed

lemma release_frees:
  "\<exists>d'. releaseTickLock (\<lambda>_. None) root d = (Inr (), d') \<and> nodes d' (tickLockDir root) = None"
  by (cases "nodes d (tickLockDir root)")
     (auto simp: releaseTickLock_def existsSync_def gets_def bnd_def ret_def catch_def rmSync_def io_def Let_def)

lemma finally_frees:
  assumes "finallyM m (in_disk (releaseTickLock (\<lambda>_. None) root)) p = (r, (s', d'))"
  shows "nodes d' (tickLockDir root) = None"
proof -
  obtain x s1 d1 where m: "m p = (x, (s1, d1))" by (metis prod.collapse)
  obtain d2 where "releaseTickLock (\<lambda>_. None) root d1 = (Inr (), d2)" "nodes d2 (tickLockDir root) = None"
    using release_frees by blast
  with assms m show ?thesis by (auto simp: finallyM_def in_disk_def)
qed



section \<open>Requested changes that are only stored\<close>

text \<open>
  A stored review object carries its outcome as \<open>review_status\<close>; the scan for requested changes reads
  \<open>status\<close>, which no stored review has. Without review requests from GitHub it therefore finds
  nothing, whatever the reviews table holds.
\<close>

lemma requests_changes_never: "\<not> requests_changes r"
  by (simp add: requests_changes_def review_js_def)

lemma first_some_none:
  assumes "\<And>x s. f x s = (Inr None, s)"
  shows "first_some f xs s = (Inr None, s)"
  by (induction xs arbitrary: s) (simp_all add: assms bnd_def ret_def)

lemma stored_changes_not_found: "findChangesRequestedWork [] s = (Inr None, s)"
proof -
  have rev: "review_of_candidate t c s = (Inr None, s)" for t c s
    by (simp add: review_of_candidate_def listReviewsForCandidate_def bnd_def ret_def gets_def
        requests_changes_never list_ex_iff)
  have cand: "bnd (listCandidatesForTask (t_task_id t)) (first_some (review_of_candidate t)) s = (Inr None, s)"
    for t s using first_some_none [of "review_of_candidate t", OF rev]
    by (simp add: listCandidatesForTask_def bnd_def ret_def gets_def)
  have none: "first_some g xs s = (Inr None, s)"
    if "g = (\<lambda>t. bnd (listCandidatesForTask (t_task_id t)) (first_some (review_of_candidate t)))" for g xs s
    using first_some_none [of g] cand that by simp
  show ?thesis
    unfolding findChangesRequestedWork_def
    by (simp add: bnd_def ret_def gets_def openTasks_def listTasks_def none)
qed

end
