(* ===== verification/Orchestrator.thy ===== *)
theory Orchestrator
  imports CiWait Retry
begin

text \<open>
  The owner-to-Builder pipeline (\<open>src/builder/orchestrator.js\<close>): reading the worker's landing
  evidence, binding the exact commit, registering and verifying it with at most two rebinds, the
  review, the decision, and the bounded cycle from a locked task to a decision. The in-memory
  trajectory of a run is a second component of the state. Waiting for a worker or for CI runs on
  fuel: \<open>None\<close> is a run that is still waiting.
\<close>

definition orchestratorError :: "string \<Rightarrow> string \<Rightarrow> js_error" where
  "orchestratorError msg code = \<lparr>err_class = OrchestratorError, err_code = Some code,
     err_message = redactString [] (if msg = [] then ''orchestrator error'' else msg), err_retryable = False\<rparr>"

datatype orchestration_decision = O_DONE | O_RETRY | O_BLOCKED | O_NEEDS_OWNER

fun decision_name :: "orchestration_decision \<Rightarrow> string" where
  "decision_name O_DONE = ''DONE''"
| "decision_name O_RETRY = ''RETRY''"
| "decision_name O_BLOCKED = ''BLOCKED''"
| "decision_name O_NEEDS_OWNER = ''NEEDS_OWNER''"

section \<open>Landing evidence\<close>

record landing =
  ld_branch :: "string option"
  ld_commit_sha :: "string option"
  ld_pr_number :: "int option"
  ld_pr_url :: "string option"

text \<open>\<open>a || b || ... || null\<close> over property reads.\<close>

definition first_truthy :: "js option list \<Rightarrow> js option" where
  "first_truthy xs = (case filter opt_truthy xs of [] \<Rightarrow> None | x # _ \<Rightarrow> x)"

text \<open>The first \<open>/pull/<digits>\<close> of a text.\<close>

fun pull_number :: "string \<Rightarrow> int option" where
  "pull_number [] = None"
| "pull_number (c # cs) =
     (if take 6 (c # cs) = ''/pull/'' \<and> takeWhile is_digit (drop 6 (c # cs)) \<noteq> []
      then Some (int (digits_value (takeWhile is_digit (drop 6 (c # cs)))))
      else pull_number cs)"

text \<open>
  \<open>Number(v)\<close> on a truthy value. Numbers of the model are integers: a text that is not a row of
  digits would be \<open>NaN\<close> and reads as no number.
\<close>

definition js_Number :: "js \<Rightarrow> int option" where
  "js_Number v = (case v of JNum n \<Rightarrow> Some n
    | JStr s \<Rightarrow> if trim s \<noteq> [] \<and> list_all is_digit (trim s) then Some (int (digits_value (trim s))) else None
    | JBool True \<Rightarrow> Some 1 | _ \<Rightarrow> None)"

definition strip_heads :: "string \<Rightarrow> string" where
  "strip_heads b = (if take 11 b = ''refs/heads/'' then drop 11 b else b)"

definition extractCandidateLanding :: "js \<Rightarrow> landing" where
  "extractCandidateLanding evidence =
    (let git = (case js_get evidence ''git'' of Some (JObj kvs) \<Rightarrow> JObj kvs | _ \<Rightarrow> JObj []);
         branchEntry = (case js_get git ''branches'' of Some (JArr (x # _)) \<Rightarrow> x | _ \<Rightarrow> JNull);
         branch = first_truthy [js_get branchEntry ''branch'', js_get git ''branchName'', js_get git ''branch_name'',
           js_get git ''branch'', js_get git ''ref'', js_get evidence ''branch'', js_get evidence ''head_branch''];
         commit_sha = first_truthy [js_get git ''commitSha'', js_get git ''commit_sha'', js_get git ''headSha'',
           js_get git ''head_sha'', js_get git ''sha'', js_get evidence ''commit_sha'', js_get evidence ''head_sha''];
         pr_url = first_truthy [js_get branchEntry ''prUrl'', js_get git ''prUrl'', js_get git ''pr_url'',
           js_get git ''pullRequestUrl'', js_get evidence ''pr_url''];
         pr_number = first_truthy [js_get git ''prNumber'', js_get git ''pr_number'', js_get git ''pullRequestNumber'',
           js_get evidence ''pr_number'']
     in \<lparr>ld_branch = map_option (\<lambda>b. strip_heads (js_String b)) branch,
         ld_commit_sha = map_option js_String commit_sha,
         ld_pr_number = (case pr_number of
            Some v \<Rightarrow> js_Number v
          | None \<Rightarrow> (case pr_url of Some (JStr u) \<Rightarrow> pull_number u | _ \<Rightarrow> None)),
         ld_pr_url = map_option js_String pr_url\<rparr>)"

definition resolveLandingSha :: "landing \<Rightarrow> github_client option \<Rightarrow> landing cact" where
  "resolveLandingSha l client =
     (if truthy_str (ld_commit_sha l)
      then bnd (lift (assertCommitSha (ld_commit_sha l))) (\<lambda>sha. ret (l\<lparr>ld_commit_sha := Some sha\<rparr>))
      else case client of
        None \<Rightarrow> throw (orchestratorError ''landing missing commit_sha and githubClient unavailable'' ''MISSING_LANDING_SHA'')
      | Some gh \<Rightarrow> (case ld_pr_number l of
          Some n \<Rightarrow>
            bnd (call_out (gh_getPullRequest gh) n) (\<lambda>pr.
            thn (guard (truthy_str (pq_head_sha pr))
                   (orchestratorError (''PR #'' @ show_int n @ '' missing head_sha'') ''MISSING_LANDING_SHA''))
           (thn (guard (\<not> (truthy_str (ld_branch l) \<and> truthy_str (pq_head_ref pr) \<and> pq_head_ref pr \<noteq> ld_branch l))
                   (orchestratorError (''PR head_ref '' @ show_opt (pq_head_ref pr) @ '' != worker branch '' @ show_opt (ld_branch l))
                      ''PR_BRANCH_MISMATCH''))
           (bnd (lift (assertCommitSha (pq_head_sha pr))) (\<lambda>sha.
            ret \<lparr>ld_branch = or_str (ld_branch l) (pq_head_ref pr), ld_commit_sha = Some sha,
                 ld_pr_number = Some (pq_number pr), ld_pr_url = or_str (ld_pr_url l) (pq_html_url pr)\<rparr>))))
        | None \<Rightarrow>
            if truthy_str (ld_branch l) then
              bnd (call_out (gh_getBranchHeadSha gh) (the (ld_branch l))) (\<lambda>head.
              bnd (lift (assertCommitSha (Some head))) (\<lambda>sha.
              ret (l\<lparr>ld_commit_sha := Some sha\<rparr>)))
            else throw (orchestratorError ''cannot resolve exact commit_sha from branch/PR landing evidence'' ''MISSING_LANDING_SHA'')))"

definition buildWorkerPrompt :: "task option \<Rightarrow> string option \<Rightarrow> js_error + string" where
  "buildWorkerPrompt task owner_prompt =
    (if truthy_str (map_option trim owner_prompt) then Inr (trim (the owner_prompt))
     else sum_bind (workerApprovedTools task) (\<lambda>tools. case task of
        None \<Rightarrow> Inl (nativeError ''TypeError'' ''Cannot read properties of null (reading 'task_id')'')
      | Some t \<Rightarrow> Inr (join_with [CHR 0x0A]
         [''You are the Stage-1 coding worker for JARVIS Builder Core.'',
          ''Implement ONLY the locked owner intent below.'',
          ''Do not mark the task DONE. Do not weaken tests or acceptance.'',
          ''Do not use business/production credentials.'',
          [],
          ''task_id: '' @ t_task_id t,
          ''intent: '' @ t_intent t,
          ''acceptance_ref: '' @ t_acceptance_ref t,
          ''allowed_paths: '' @ json_stringify (JArr (map JStr (t_allowed_paths t))),
          ''allowed_tool_manifest: '' @ json_stringify (manifest_js (at_allowed_tool_manifest tools)),
          ''review_required: '' @ (if t_review_required t then ''true'' else ''false'')])))"

section \<open>Waiting for the worker\<close>

primrec worker_loop ::
  "nat \<Rightarrow> env \<Rightarrow> worker_provider option \<Rightarrow> string \<Rightarrow> nat \<Rightarrow> int \<Rightarrow> (run \<times> provider_result) option cact" where
  "worker_loop 0 E wp rid started timeout_ms = ret None"
| "worker_loop (Suc n) E wp rid started timeout_ms =
     bnd (now E) (\<lambda>t.
     if int t - int started < timeout_ms then
       bnd (refreshWorkerStatus E wp rid) (\<lambda>(run, res).
       if r_status run \<in> {R_SUCCEEDED, R_FAILED, R_CANCELLED, R_STALE} \<or> pr_provider_status res = PS_FINISHED
       then ret (Some (run, res))
       else worker_loop n E wp rid started timeout_ms)
     else throw (orchestratorError (''worker wait timed out for '' @ rid) ''WORKER_TIMEOUT''))"

definition waitForWorkerTerminal ::
  "nat \<Rightarrow> env \<Rightarrow> worker_provider option \<Rightarrow> string \<Rightarrow> int \<Rightarrow> (run \<times> provider_result) option cact" where
  "waitForWorkerTerminal fuel E wp rid timeout_ms = bnd (now E) (\<lambda>started. worker_loop fuel E wp rid started timeout_ms)"

definition collectLanding :: "env \<Rightarrow> worker_provider option \<Rightarrow> string \<Rightarrow> (run \<times> landing) cact" where
  "collectLanding E wp rid =
     bnd (collectCodingWorker E wp rid True) (\<lambda>(run, _, _).
     ret (run, extractCandidateLanding (case r_evidence run of Some ev \<Rightarrow> if js_truthy ev then ev else JObj [] | None \<Rightarrow> JObj [])))"

section \<open>The trajectory\<close>

text \<open>
  A computation of the pipeline: the Builder's state and the trajectory recorded so far, newest
  entry last. \<open>on_core\<close> runs an operation of the core.
\<close>

type_synonym 'a oact = "(core \<times> js list, js_error, 'a) act"

definition on_core :: "'a cact \<Rightarrow> 'a oact" where
  "on_core m = (\<lambda>(s, tr). case m s of (r, s') \<Rightarrow> (r, (s', tr)))"

text \<open>A detail whose value is undefined has no entry.\<close>

definition opt_field :: "string \<Rightarrow> js option \<Rightarrow> (string \<times> js) list" where
  "opt_field k v = (case v of None \<Rightarrow> [] | Some x \<Rightarrow> [(k, x)])"

definition push :: "env \<Rightarrow> string \<Rightarrow> (string \<times> js) list \<Rightarrow> unit oact" where
  "push E step detail =
     bnd (on_core (nowIso E)) (\<lambda>at.
     modify (\<lambda>(s, tr). (s, tr @ [redactSecrets [] 0 (JObj (obj_spread [(''at'', JStr at), (''step'', JStr step)] detail))])))"

text \<open>A property read on a row that is not there.\<close>

definition the_row :: "string \<Rightarrow> 'a option \<Rightarrow> 'a oact" where
  "the_row field r = (case r of
      None \<Rightarrow> throw (nativeError ''TypeError'' (''Cannot read properties of null (reading '' @ field @ '')''))
    | Some x \<Rightarrow> ret x)"

section \<open>Registering and verifying\<close>

record orch_options =
  oo_github :: "github_client option"
  oo_codex :: "review_invoker option"
  oo_getDiff :: diff_source
  oo_runTaskTests :: "test_runner option"
  oo_runBuildChecks :: "test_runner option"
  oo_timeout_ms :: int
  oo_ci_poll_ms :: int
  oo_ci_timeout_ms :: int
  oo_max_cycles :: "int option"
  oo_owner_prompt :: "string option"
  oo_sleepFn :: sleep_fn

definition candidate_of_landing :: "env \<Rightarrow> string \<Rightarrow> string \<Rightarrow> landing \<Rightarrow> candidate cact" where
  "candidate_of_landing E tid rid l =
     bnd (lift (assertCommitSha (ld_commit_sha l))) (\<lambda>sha.
     bnd (nowIso E) (\<lambda>at.
     registerExactCandidate E \<lparr>ci_task_id = tid, ci_factory_run_id = rid, ci_branch = ld_branch l, ci_commit_sha = Some sha,
       ci_pr_number = ld_pr_number l, ci_pr_url = ld_pr_url l, ci_pr_ref = None, ci_in_status = None, ci_in_conclusion = None,
       ci_in_ref = None, ci_evidence_at = Some at, ci_worker_claim = None\<rparr>))"

definition new_head :: "ci_wait_result \<Rightarrow> string option" where
  "new_head w = or_str (cw_new_head w) (case map_of (cw_evidence w) ''new_head_sha'' of Some (JStr h) \<Rightarrow> Some h | _ \<Rightarrow> None)"

definition push_ci_wait :: "env \<Rightarrow> ci_wait_result \<Rightarrow> unit oact" where
  "push_ci_wait E w = push E ''ci_wait'' ((''outcome'', JStr (ci_outcome_name (cw_outcome w))) #
     opt_field ''ci_status'' (map_of (cw_evidence w) ''ci_status'') @ opt_field ''ci_conclusion'' (map_of (cw_evidence w) ''ci_conclusion'') @
     opt_field ''polls'' (map_of (cw_evidence w) ''polls''))"

text \<open>One turn of the loop up to the outcome of the CI wait.\<close>

definition bind_once ::
  "nat \<Rightarrow> env \<Rightarrow> orch_options \<Rightarrow> string \<Rightarrow> string \<Rightarrow> landing \<Rightarrow> (candidate \<times> ci_wait_result option) option oact" where
  "bind_once fuel E opts tid rid l =
     bnd (on_core (candidate_of_landing E tid rid l)) (\<lambda>c. case oo_github opts of
       None \<Rightarrow> ret (Some (c, None))
     | Some gh \<Rightarrow>
       thn (on_core (refreshCandidateLanding E (c_candidate_id c) gh))
      (bnd (on_core (waitForExactCandidateCi fuel E (c_candidate_id c) (oo_github opts) (oo_ci_poll_ms opts) (oo_ci_timeout_ms opts)
              (oo_sleepFn opts))) (\<lambda>out. case out of
         None \<Rightarrow> ret None
       | Some w \<Rightarrow> thn (push_ci_wait E w) (ret (Some (c, Some w))))))"

definition wait_ended_in :: "ci_outcome \<Rightarrow> ci_wait_result option \<Rightarrow> bool" where
  "wait_ended_in out w \<longleftrightarrow> (\<exists>r \<in> set_option w. cw_outcome r = out)"

definition rebind_exhausted :: js_error where
  "rebind_exhausted = orchestratorError ''PR head changed during CI wait; rebind exhausted'' ''CI_HEAD_CHANGED''"

definition accept_binding :: "candidate \<Rightarrow> ci_wait_result option \<Rightarrow> (candidate \<times> ci_wait_result option) option oact" where
  "accept_binding c w =
     thn (guard (\<not> wait_ended_in CI_PR_MISMATCH w) (orchestratorError ''PR/branch mismatch during exact CI wait'' ''CI_PR_MISMATCH''))
         (ret (Some (c, w)))"

text \<open>The first argument is the number of rebinds still allowed.\<close>

primrec bind_candidate ::
  "nat \<Rightarrow> nat \<Rightarrow> env \<Rightarrow> orch_options \<Rightarrow> string \<Rightarrow> string \<Rightarrow> landing \<Rightarrow> (candidate \<times> ci_wait_result option) option oact" where
  "bind_candidate 0 fuel E opts tid rid l =
     bnd (bind_once fuel E opts tid rid l) (\<lambda>out. case out of
       None \<Rightarrow> ret None
     | Some (c, w) \<Rightarrow> thn (guard (\<not> wait_ended_in CI_HEAD_CHANGED w) rebind_exhausted) (accept_binding c w))"
| "bind_candidate (Suc left) fuel E opts tid rid l =
     bnd (bind_once fuel E opts tid rid l) (\<lambda>out. case out of
       None \<Rightarrow> ret None
     | Some (c, w) \<Rightarrow>
       if wait_ended_in CI_HEAD_CHANGED w then
         thn (guard (truthy_str (new_head (the w))) rebind_exhausted)
        (bnd (lift (assertCommitSha (new_head (the w)))) (\<lambda>sha.
         bind_candidate left fuel E opts tid rid
           \<lparr>ld_branch = c_branch c, ld_commit_sha = Some sha, ld_pr_number = c_pr_number c, ld_pr_url = c_pr_url c\<rparr>))
       else accept_binding c w)"

definition maxRebinds :: nat where
  "maxRebinds = 2"

definition registerAndVerify ::
  "nat \<Rightarrow> env \<Rightarrow> orch_options \<Rightarrow> string \<Rightarrow> string \<Rightarrow> landing \<Rightarrow> (candidate \<times> verify_outcome \<times> ci_wait_result option) option oact" where
  "registerAndVerify fuel E opts tid rid l =
     thn (guard (truthy_str (ld_branch l) \<or> ld_pr_number l \<noteq> None)
            (orchestratorError ''worker collect missing branch/PR landing evidence'' ''MISSING_LANDING''))
    (bnd (on_core (resolveLandingSha l (oo_github opts))) (\<lambda>resolved.
     thn (guard (truthy_str (ld_branch resolved) \<and> truthy_str (ld_commit_sha resolved))
            (orchestratorError ''unable to bind exact branch + commit_sha from landing evidence'' ''MISSING_LANDING''))
    (bnd (bind_candidate maxRebinds fuel E opts tid rid resolved) (\<lambda>bound. case bound of
       None \<Rightarrow> ret None
     | Some (c, w) \<Rightarrow>
       bnd (on_core (verifyExactCandidate E (c_candidate_id c) (oo_github opts) (oo_runTaskTests opts) (oo_runBuildChecks opts) None))
         (\<lambda>verified. ret (Some (c, verified, w)))))))"

section \<open>Review and decision\<close>

definition maybeReview ::
  "env \<Rightarrow> orch_options \<Rightarrow> task \<Rightarrow> string \<Rightarrow> verify_outcome \<Rightarrow> (review \<times> review_gate) cact" where
  "maybeReview E opts task cid verified =
     (if \<not> t_review_required task
      then reviewExactCandidate E cid None (\<lambda>n a. Inr (JStr [])) (Some (vo_verification verified))
      else if oo_codex opts = None
      then throw (orchestratorError ''review_required=true but Codex invoker unavailable'' ''CODEX_UNAVAILABLE'')
      else reviewExactCandidate E cid (oo_codex opts) (oo_getDiff opts) (Some (vo_verification verified)))"

record decision =
  dc_decision :: orchestration_decision
  dc_failure_class :: "failure_class option"
  dc_reason :: string

definition decide :: "orchestration_decision \<Rightarrow> failure_class option \<Rightarrow> string \<Rightarrow> decision" where
  "decide d fc reason = \<lparr>dc_decision = d, dc_failure_class = fc, dc_reason = reason\<rparr>"

definition decideAfterGates :: "task \<Rightarrow> verify_outcome \<Rightarrow> (review \<times> review_gate) option \<Rightarrow> decision" where
  "decideAfterGates task verified rg =
    (if vo_result verified \<noteq> V_PASS then
       if vo_result verified = V_FAIL then
         decide O_RETRY (Some (case v_failure_class (vo_verification verified) of Some f \<Rightarrow> f | None \<Rightarrow> F_TEST_FAIL))
           ''deterministic_verification_failed''
       else decide O_BLOCKED (Some F_UNKNOWN) ''deterministic_verification_blocked''
     else if t_review_required task \<and> \<not> (\<exists>(r, g) \<in> set_option rg. g_ok g) then
       if \<exists>(r, g) \<in> set_option rg. rv_review_status r = RV_REQUEST_CHANGES then
         decide O_RETRY (Some F_TEST_FAIL) ''codex_request_changes''
       else decide O_BLOCKED (Some F_UNKNOWN)
         (case rg of Some (r, g) \<Rightarrow> if g_reason g = [] then ''codex_review_blocked'' else g_reason g | None \<Rightarrow> ''codex_review_blocked'')
     else decide O_DONE None ''verified_and_reviewed'')"

section \<open>The result\<close>

record review_brief =
  rb_review_id :: string
  rb_review_status :: review_status
  rb_verification_id :: "js option"

definition brief_of :: "review \<Rightarrow> review_brief" where
  "brief_of r = \<lparr>rb_review_id = rv_review_id r, rb_review_status = rv_review_status r,
     rb_verification_id = (let v = (case rv_evidence r of None \<Rightarrow> None | Some ev \<Rightarrow> js_get ev ''verification_id'')
                           in if opt_truthy v then v else None)\<rparr>"

definition brief_fields :: "review_brief \<Rightarrow> (string \<times> js) list" where
  "brief_fields b = [(''review_id'', JStr (rb_review_id b)), (''review_status'', JStr (review_status_name (rb_review_status b))),
     (''verification_id'', js_of_opt (\<lambda>v. v) (rb_verification_id b))]"

definition verification_fields :: "string \<times> verification_result \<Rightarrow> (string \<times> js) list" where
  "verification_fields v = [(''verification_id'', JStr (fst v)), (''result'', JStr (verification_result_name (snd v)))]"

record last_seen =
  ls_factory_run_id :: "string option"
  ls_provider_run_id :: "string option"
  ls_candidate_id :: "string option"
  ls_commit_sha :: "string option"
  ls_verification :: "(string \<times> verification_result) option"
  ls_review :: "review_brief option"
  ls_ci_wait :: "(ci_outcome \<times> js option \<times> js option) option"

definition nothing_seen :: last_seen where
  "nothing_seen = \<lparr>ls_factory_run_id = None, ls_provider_run_id = None, ls_candidate_id = None, ls_commit_sha = None,
     ls_verification = None, ls_review = None, ls_ci_wait = None\<rparr>"

record orch_result =
  or_ok :: bool
  or_decision :: orchestration_decision
  or_reason :: string
  or_task_id :: string
  or_task_status :: task_status
  or_factory_run_id :: "string option"
  or_provider_run_id :: "string option"
  or_candidate_id :: "string option"
  or_commit_sha :: "string option"
  or_verification :: "(string \<times> verification_result) option"
  or_review :: "review_brief option"
  or_gate :: "review_gate option"
  or_repair :: "(task_status \<times> string) option"
  or_trajectory :: "js list"
  or_completed_at :: string

definition finalize ::
  "env \<Rightarrow> string \<Rightarrow> orchestration_decision \<Rightarrow> string \<Rightarrow> last_seen \<Rightarrow> verify_outcome option \<Rightarrow> (review \<times> review_gate) option
   \<Rightarrow> (task_status \<times> string) option \<Rightarrow> orch_result oact" where
  "finalize E tid d reason seen verification rg repair =
     bnd (on_core (getTask tid)) (\<lambda>found.
     bnd (the_row ''status'' found) (\<lambda>task.
     bnd (on_core (nowIso E)) (\<lambda>completed.
     let ver = (case ls_verification seen of
                  Some v \<Rightarrow> Some v
                | None \<Rightarrow> map_option (\<lambda>o'. (v_verification_id (vo_verification o'), vo_result o')) verification);
         rev = (case ls_review seen of Some b \<Rightarrow> Some b | None \<Rightarrow> map_option (\<lambda>p. brief_of (fst p)) rg) in
     thn (on_core (appendEvent E (Some tid) (ls_factory_run_id seen) ORCHESTRATION_DECIDED None
            (JObj [(''decision'', JStr (decision_name d)), (''reason'', JStr reason), (''task_status'', JStr (task_status_name (t_status task))),
                   (''candidate_id'', jstr_opt (ls_candidate_id seen)), (''commit_sha'', jstr_opt (ls_commit_sha seen)),
                   (''verification'', js_of_opt (\<lambda>v. JObj (verification_fields v)) ver),
                   (''review'', js_of_opt (\<lambda>b. JObj (brief_fields b)) rev)])))
    (bnd (gets snd) (\<lambda>trajectory.
     ret \<lparr>or_ok = (d = O_DONE), or_decision = d, or_reason = reason, or_task_id = tid, or_task_status = t_status task,
          or_factory_run_id = ls_factory_run_id seen, or_provider_run_id = ls_provider_run_id seen,
          or_candidate_id = ls_candidate_id seen, or_commit_sha = ls_commit_sha seen, or_verification = ver, or_review = rev,
          or_gate = map_option snd rg, or_repair = repair, or_trajectory = trajectory, or_completed_at = completed\<rparr>)))))"

section \<open>One cycle\<close>

datatype cycle_outcome = CycleEnded orch_result | CycleAgain last_seen | CycleWaiting

definition end_cycle ::
  "env \<Rightarrow> string \<Rightarrow> orchestration_decision \<Rightarrow> string \<Rightarrow> last_seen \<Rightarrow> verify_outcome option \<Rightarrow> (review \<times> review_gate) option
   \<Rightarrow> (task_status \<times> string) option \<Rightarrow> cycle_outcome oact" where
  "end_cycle E tid d reason seen verification rg repair =
     bnd (finalize E tid d reason seen verification rg repair) (\<lambda>r. ret (CycleEnded r))"

text \<open>
  What follows every failure of a cycle: a repair within the retry policy, and the end of the
  task when there is none. \<open>why\<close> is the reason recorded for the retry.
\<close>

definition repair_or_stop ::
  "env \<Rightarrow> worker_provider \<Rightarrow> string \<Rightarrow> failure_class \<Rightarrow> string \<Rightarrow> string \<Rightarrow> (string \<times> js) list \<Rightarrow> last_seen
   \<Rightarrow> verify_outcome option \<Rightarrow> (review \<times> review_gate) option \<Rightarrow> string \<Rightarrow> cycle_outcome oact" where
  "repair_or_stop E wp tid fc reason why extra seen verification rg fallback =
     bnd (on_core (beginRepairAttempt E tid fc reason (wp_name wp))) (\<lambda>repair. case repair of
       RepairStopped _ st _ r \<Rightarrow>
         end_cycle E tid (if st = T_NEEDS_OWNER then O_NEEDS_OWNER else O_BLOCKED) (if r = [] then fallback else r) seen verification rg
           (Some (st, r))
     | RepairStarted run _ _ \<Rightarrow>
         thn (push E ''retry_started'' ([(''fresh_factory_run_id'', JStr (r_factory_run_id run)), (''reason'', JStr why)] @ extra))
             (ret (CycleAgain seen)))"

definition launch_step :: "env \<Rightarrow> worker_provider \<Rightarrow> string \<Rightarrow> string \<Rightarrow> (run \<times> provider_result) cact" where
  "launch_step E wp tid prompt =
     bnd getCurrentCodingRun (\<lambda>current. case current of
       Some cur \<Rightarrow>
         if r_status cur = R_PENDING \<and> r_task_id cur = tid
         then launchCodingWorkerOnRun E (Some wp) (r_factory_run_id cur) prompt (JObj [])
         else launchCodingWorker E (Some wp) tid prompt (JObj [])
     | None \<Rightarrow> launchCodingWorker E (Some wp) tid prompt (JObj []))"

definition error_detail :: "js_error \<Rightarrow> (string \<times> js) list" where
  "error_detail err = opt_field ''code'' (map_option JStr (err_code err)) @ [(''message'', JStr (err_message err))]"

definition apply_decision ::
  "env \<Rightarrow> worker_provider \<Rightarrow> string \<Rightarrow> decision \<Rightarrow> last_seen \<Rightarrow> verify_outcome \<Rightarrow> (review \<times> review_gate) option \<Rightarrow> cycle_outcome oact" where
  "apply_decision E wp tid d seen verified rg =
     thn (push E ''decision'' [(''decision'', JStr (decision_name (dc_decision d))), (''failure_class'', fc_js (dc_failure_class d)),
            (''reason'', JStr (dc_reason d))])
    (if dc_decision d = O_DONE then
       thn (on_core (updateTaskStatus E tid ''ACCEPTED''))
           (end_cycle E tid O_DONE (dc_reason d) seen (Some verified) rg None)
     else if dc_decision d = O_BLOCKED then
       bnd (on_core (getTask tid)) (\<lambda>found.
       bnd (the_row ''status'' found) (\<lambda>task.
       thn (if t_status task \<noteq> T_BLOCKED then thn (on_core (updateTaskStatus E tid ''BLOCKED'')) (ret ()) else ret ())
           (end_cycle E tid O_BLOCKED (dc_reason d) seen (Some verified) rg None)))
     else
       repair_or_stop E wp tid (case dc_failure_class d of Some f \<Rightarrow> f | None \<Rightarrow> F_TEST_FAIL) (dc_reason d) (dc_reason d)
         [(''previous_evidence_preserved'', JBool True)] seen (Some verified) rg ''retry_exhausted'')"

definition decide_cycle ::
  "env \<Rightarrow> worker_provider \<Rightarrow> string \<Rightarrow> last_seen \<Rightarrow> verify_outcome \<Rightarrow> (review \<times> review_gate) option \<Rightarrow> cycle_outcome oact" where
  "decide_cycle E wp tid seen verified rg =
     bnd (on_core (getTask tid)) (\<lambda>found.
     bnd (the_row ''review_required'' found) (\<lambda>task.
     apply_decision E wp tid (decideAfterGates task verified rg) seen verified rg))"

definition gate_status_name :: "gate_status \<Rightarrow> string" where
  "gate_status_name g = (case g of G_PASS \<Rightarrow> ''PASS'' | G_FAIL \<Rightarrow> ''FAIL'' | G_BLOCKED \<Rightarrow> ''BLOCKED'')"

definition review_step :: "env \<Rightarrow> orch_options \<Rightarrow> string \<Rightarrow> string \<Rightarrow> verify_outcome \<Rightarrow> (review \<times> review_gate) oact" where
  "review_step E opts tid cid verified =
     bnd (on_core (getTask tid)) (\<lambda>t.
     bnd (on_core (getCandidate cid)) (\<lambda>c.
     bnd (the_row ''review_required'' t) (\<lambda>task.
     bnd (the_row ''candidate_id'' c) (\<lambda>cand.
     on_core (maybeReview E opts task (c_candidate_id cand) verified)))))"

definition after_review ::
  "env \<Rightarrow> worker_provider \<Rightarrow> string \<Rightarrow> last_seen \<Rightarrow> verify_outcome \<Rightarrow> js_error + (review \<times> review_gate) \<Rightarrow> cycle_outcome oact" where
  "after_review E wp tid seen verified out = (case out of
      Inl err \<Rightarrow>
        thn (push E ''review_failed'' (error_detail err))
            (end_cycle E tid O_BLOCKED (case err_code err of Some code \<Rightarrow> if code = [] then ''review_failed'' else code
                 | None \<Rightarrow> ''review_failed'') seen (Some verified) None None)
    | Inr (r, g) \<Rightarrow>
        thn (push E ''reviewed'' (brief_fields (brief_of r) @ [(''gate'', JStr (gate_status_name (g_status g)))]))
            (decide_cycle E wp tid (seen\<lparr>ls_review := Some (brief_of r)\<rparr>) verified (Some (r, g))))"

definition review_and_decide ::
  "env \<Rightarrow> worker_provider \<Rightarrow> orch_options \<Rightarrow> string \<Rightarrow> last_seen \<Rightarrow> string \<Rightarrow> verify_outcome \<Rightarrow> cycle_outcome oact" where
  "review_and_decide E wp opts tid seen cid verified =
    (if vo_result verified = V_PASS
     then bnd (attempt (review_step E opts tid cid verified)) (after_review E wp tid seen verified)
     else decide_cycle E wp tid seen verified None)"

definition judge ::
  "env \<Rightarrow> worker_provider \<Rightarrow> orch_options \<Rightarrow> string \<Rightarrow> last_seen \<Rightarrow> candidate \<Rightarrow> verify_outcome \<Rightarrow> ci_wait_result option \<Rightarrow> cycle_outcome oact" where
  "judge E wp opts tid seen c verified w =
    (let ver = (v_verification_id (vo_verification verified), vo_result verified) in
     thn (push E ''verified'' (verification_fields ver))
         (review_and_decide E wp opts tid
            (seen\<lparr>ls_candidate_id := Some (c_candidate_id c), ls_commit_sha := c_commit_sha c, ls_verification := Some ver,
               ls_ci_wait := map_option (\<lambda>r. (cw_outcome r, map_of (cw_evidence r) ''ci_status'', map_of (cw_evidence r) ''ci_conclusion'')) w\<rparr>)
            (c_candidate_id c) verified))"

definition landing_js :: "landing \<Rightarrow> js" where
  "landing_js l = JObj [(''branch'', jstr_opt (ld_branch l)), (''commit_sha'', jstr_opt (ld_commit_sha l)),
     (''pr_number'', js_of_opt JNum (ld_pr_number l)), (''pr_url'', jstr_opt (ld_pr_url l))]"

definition after_verify ::
  "env \<Rightarrow> worker_provider \<Rightarrow> orch_options \<Rightarrow> string \<Rightarrow> last_seen \<Rightarrow> js_error + (candidate \<times> verify_outcome \<times> ci_wait_result option) option
   \<Rightarrow> cycle_outcome oact" where
  "after_verify E wp opts tid seen out = (case out of
      Inl err \<Rightarrow>
        thn (push E ''candidate_or_verify_failed'' (error_detail err))
            (repair_or_stop E wp tid F_CI_FAIL (err_message err) ''candidate_or_verify_failed'' [] seen None None
               (case err_code err of Some code \<Rightarrow> if code = [] then ''candidate_verify_failed'' else code | None \<Rightarrow> ''candidate_verify_failed''))
    | Inr None \<Rightarrow> ret CycleWaiting
    | Inr (Some (c, verified, w)) \<Rightarrow> judge E wp opts tid seen c verified w)"

definition after_worker ::
  "nat \<Rightarrow> env \<Rightarrow> worker_provider \<Rightarrow> orch_options \<Rightarrow> string \<Rightarrow> string \<Rightarrow> last_seen \<Rightarrow> cycle_outcome oact" where
  "after_worker fuel E wp opts tid rid seen =
     bnd (on_core (collectLanding E (Some wp) rid)) (\<lambda>(collected, landing).
     thn (push E ''worker_collected'' [(''factory_run_id'', JStr (r_factory_run_id collected)), (''landing'', landing_js landing)])
    (bnd (on_core (getRun rid)) (\<lambda>found.
     bnd (the_row ''status'' found) (\<lambda>runNow.
     if r_status runNow \<in> {R_STALE, R_CANCELLED}
     then end_cycle E tid O_BLOCKED ''stale_or_cancelled_run'' seen None None None
     else bnd (attempt (registerAndVerify fuel E opts tid (r_factory_run_id runNow) landing)) (after_verify E wp opts tid seen)))))"

definition after_wait ::
  "nat \<Rightarrow> env \<Rightarrow> worker_provider \<Rightarrow> orch_options \<Rightarrow> string \<Rightarrow> string \<Rightarrow> last_seen \<Rightarrow> js_error + (run \<times> provider_result) option
   \<Rightarrow> cycle_outcome oact" where
  "after_wait fuel E wp opts tid rid seen out = (case out of
      Inl err \<Rightarrow>
        thn (push E ''worker_wait_failed'' (error_detail err))
            (repair_or_stop E wp tid F_TIMEOUT (err_message err) ''worker_wait_failed'' [] seen None None ''retry_exhausted'')
    | Inr None \<Rightarrow> ret CycleWaiting
    | Inr (Some (terminal, _)) \<Rightarrow>
        if r_status terminal \<in> {R_FAILED, R_CANCELLED, R_STALE} then
          thn (push E ''worker_terminal_failure'' [(''status'', JStr (run_status_name (r_status terminal))),
                 (''failure_class'', fc_js (r_failure_class terminal))])
              (repair_or_stop E wp tid (case r_failure_class terminal of Some f \<Rightarrow> f | None \<Rightarrow> F_WORKER_CRASH)
                 (''worker_'' @ run_status_name (r_status terminal)) ''worker_terminal_failure'' [] seen None None ''retry_exhausted'')
        else after_worker fuel E wp opts tid rid seen)"

definition after_launch ::
  "nat \<Rightarrow> env \<Rightarrow> worker_provider \<Rightarrow> orch_options \<Rightarrow> string \<Rightarrow> nat \<Rightarrow> last_seen \<Rightarrow> run \<Rightarrow> cycle_outcome oact" where
  "after_launch fuel E wp opts tid attempt_no seen0 run =
    (let rid = r_factory_run_id run;
         seen = seen0\<lparr>ls_factory_run_id := Some rid, ls_provider_run_id := r_provider_run_id run\<rparr> in
     thn (push E ''worker_launched'' [(''factory_run_id'', JStr rid), (''provider_run_id'', jstr_opt (r_provider_run_id run)),
            (''provider_agent_id'', jstr_opt (r_provider_agent_id run)), (''attempt'', JNum (int attempt_no))])
    (if \<not> truthy_str (r_provider_run_id run)
     then end_cycle E tid O_BLOCKED ''provider_run_id_missing'' seen None None None
     else bnd (attempt (on_core (waitForWorkerTerminal fuel E (Some wp) rid (oo_timeout_ms opts)))) (after_wait fuel E wp opts tid rid seen)))"

definition cycle ::
  "nat \<Rightarrow> env \<Rightarrow> worker_provider \<Rightarrow> orch_options \<Rightarrow> string \<Rightarrow> nat \<Rightarrow> last_seen \<Rightarrow> cycle_outcome oact" where
  "cycle fuel E wp opts tid attempt_no seen =
     bnd (on_core (getTask tid)) (\<lambda>task.
     bnd (lift (buildWorkerPrompt task (oo_owner_prompt opts))) (\<lambda>prompt.
     bnd (on_core (launch_step E wp tid prompt)) (\<lambda>(run, _).
     after_launch fuel E wp opts tid attempt_no seen run)))"

section \<open>The whole run\<close>

text \<open>The first argument is the number of cycles left under the cap.\<close>

primrec run_cycles ::
  "nat \<Rightarrow> nat \<Rightarrow> env \<Rightarrow> worker_provider \<Rightarrow> orch_options \<Rightarrow> string \<Rightarrow> nat \<Rightarrow> last_seen \<Rightarrow> orch_result option oact" where
  "run_cycles 0 fuel E wp opts tid done_cycles seen =
     thn (on_core (updateTaskStatus E tid ''NEEDS_OWNER''))
    (bnd (finalize E tid O_NEEDS_OWNER ''cycle_cap_exhausted'' seen None None None) (\<lambda>r. ret (Some r)))"
| "run_cycles (Suc n) fuel E wp opts tid done_cycles seen =
     bnd (cycle fuel E wp opts tid (Suc done_cycles) seen) (\<lambda>out. case out of
       CycleEnded r \<Rightarrow> ret (Some r)
     | CycleWaiting \<Rightarrow> ret None
     | CycleAgain seen' \<Rightarrow> run_cycles n fuel E wp opts tid (Suc done_cycles) seen')"

definition announce :: "env \<Rightarrow> task \<Rightarrow> (task \<times> retry_policy) oact" where
  "announce E task =
     bnd (lift (workerApprovedTools (Some task))) (\<lambda>tools.
     thn (push E ''task_locked'' [(''task_id'', JStr (t_task_id task)), (''proposal_id'', jstr_opt (t_proposal_id task)),
            (''content_hash'', jstr_opt (t_content_hash task)), (''review_required'', JBool (t_review_required task)),
            (''allowed_tool_manifest'', manifest_js (at_allowed_tool_manifest tools))])
    (thn (on_core (appendEvent E (Some (t_task_id task)) None ORCHESTRATION_STARTED None
            (JObj [(''task_id'', JStr (t_task_id task)), (''intent'', JStr (t_intent task)), (''acceptance_ref'', JStr (t_acceptance_ref task))])))
    (bnd (on_core (getRetryPolicy (t_task_id task))) (\<lambda>policy. ret (task, policy)))))"

definition start_orchestration :: "env \<Rightarrow> js \<Rightarrow> (task \<times> retry_policy) oact" where
  "start_orchestration E ownerTask = bnd (on_core (createAndLockTask E ownerTask)) (announce E)"

definition orchestrate :: "nat \<Rightarrow> env \<Rightarrow> worker_provider \<Rightarrow> js \<Rightarrow> orch_options \<Rightarrow> orch_result option oact" where
  "orchestrate fuel E wp ownerTask opts =
     bnd (start_orchestration E ownerTask) (\<lambda>(task, policy).
     let cycleCap = (case oo_max_cycles opts of None \<Rightarrow> rp_max_attempts policy | Some n \<Rightarrow> n) in
     run_cycles (nat cycleCap) fuel E wp opts (t_task_id task) 0 nothing_seen)"

definition runOwnerSoftwareTask ::
  "nat \<Rightarrow> env \<Rightarrow> worker_provider option \<Rightarrow> js \<Rightarrow> orch_options \<Rightarrow> orch_result option cact" where
  "runOwnerSoftwareTask fuel E provider ownerTask opts = (case provider of
      None \<Rightarrow> throw (orchestratorError ''Builder Core has no worker provider configured'' ''NO_PROVIDER'')
    | Some wp \<Rightarrow> (\<lambda>s. case orchestrate fuel E wp ownerTask opts (s, []) of (r, (s', _)) \<Rightarrow> (r, s')))"

definition resumeExactCandidateCiAndVerify ::
  "nat \<Rightarrow> env \<Rightarrow> string \<Rightarrow> orch_options \<Rightarrow> (candidate option \<times> verify_outcome \<times> ci_wait_result) option cact" where
  "resumeExactCandidateCiAndVerify fuel E tid opts =
     bnd (detectAwaitingCi tid) (\<lambda>aw. case aw_candidate aw of
       None \<Rightarrow> throw (orchestratorError ''task is not awaiting exact CI for an existing candidate'' ''NOT_AWAITING_CI'')
     | Some c \<Rightarrow>
       thn (guard (aw_awaiting aw) (orchestratorError ''task is not awaiting exact CI for an existing candidate'' ''NOT_AWAITING_CI''))
      (bnd (waitForExactCandidateCi fuel E (c_candidate_id c) (oo_github opts) (oo_ci_poll_ms opts) (oo_ci_timeout_ms opts)
              (oo_sleepFn opts)) (\<lambda>out. case out of
         None \<Rightarrow> ret None
       | Some w \<Rightarrow>
         thn (guard (cw_outcome w \<noteq> CI_HEAD_CHANGED)
                (orchestratorError ''PR head changed during resumed CI wait; re-bind required'' ''CI_HEAD_CHANGED''))
        (thn (guard (cw_outcome w \<noteq> CI_PR_MISMATCH)
                (orchestratorError ''PR/branch mismatch during resumed CI wait'' ''CI_PR_MISMATCH''))
        (bnd (verifyExactCandidate E (c_candidate_id c) (oo_github opts) (oo_runTaskTests opts) (oo_runBuildChecks opts) None) (\<lambda>verified.
         bnd (getCandidate (c_candidate_id c)) (\<lambda>c'.
         ret (Some (c', verified, w)))))))))"

end
