(* ===== verification/OrchestratorProps.thy ===== *)
theory OrchestratorProps
  imports Orchestrator RowFrame
begin

text \<open>
  What the pipeline of \<open>Orchestrator\<close> guarantees: it keeps every invariant of the Builder, it
  ends a task as done only on GitHub's word (and the reviewer's, where required) for the exact
  commit, it never lets a task have more runs than its locked maximum, and a wait for a worker
  ends.
\<close>

section \<open>Running an operation of the core\<close>

lemma on_core_run [run_iff]: "on_core m p = (r, p') \<longleftrightarrow> m (fst p) = (r, fst p') \<and> snd p' = snd p"
  by (cases p; cases p') (auto simp: on_core_def split: prod.splits)

lemma on_core_keeps [keeps_rules]: "keeps I m \<Longrightarrow> keeps (\<lambda>p. I (fst p)) (on_core m)"
  by (rule keepsI) (auto simp: on_core_run dest: keepsD)

lemma the_row_keeps [keeps_rules]: "keeps I (the_row f r)"
  unfolding the_row_def by (intro keeps_rules)

lemma keeps_cycle_outcome [keeps_rules]:
  "(\<And>r. keeps I (f r)) \<Longrightarrow> (\<And>l. keeps I (g l)) \<Longrightarrow> keeps I h \<Longrightarrow>
   keeps I (case out of CycleEnded r \<Rightarrow> f r | CycleAgain l \<Rightarrow> g l | CycleWaiting \<Rightarrow> h)"
  by (cases out) simp_all

lemma keeps_repair [keeps_rules]:
  "(\<And>t st fc r. keeps I (f t st fc r)) \<Longrightarrow> (\<And>q t n. keeps I (g q t n)) \<Longrightarrow>
   keeps I (case out of RepairStopped t st fc r \<Rightarrow> f t st fc r | RepairStarted q t n \<Rightarrow> g q t n)"
  by (cases out) simp_all

context core_frame
begin

lemma push_I [keeps_rules]: "keeps (\<lambda>p. I (fst p)) (push E step d)"
  unfolding push_def by (intro keeps_rules keeps_modify) auto

lemma worker_loop_I [keeps_rules]: "keeps I (worker_loop n E wp rid st tm)"
proof (induction n)
  case (Suc n)
  show ?case unfolding worker_loop.simps by (intro keeps_rules Suc.IH)
qed simp

lemma landing_ops_I [keeps_rules]: "keeps I (waitForWorkerTerminal n E wp rid tm)" "keeps I (collectLanding E wp rid)"
  "keeps I (resolveLandingSha l gh)" "keeps I (candidate_of_landing E tid rid l)"
  unfolding waitForWorkerTerminal_def collectLanding_def resolveLandingSha_def candidate_of_landing_def
  by (intro keeps_rules)+

lemma bind_once_I [keeps_rules]: "keeps (\<lambda>p. I (fst p)) (bind_once n E opts tid rid l)"
  unfolding bind_once_def push_ci_wait_def by (intro keeps_rules)

lemma bind_candidate_I [keeps_rules]: "keeps (\<lambda>p. I (fst p)) (bind_candidate k n E opts tid rid l)"
proof (induction k arbitrary: l)
  case 0
  show ?case unfolding bind_candidate.simps accept_binding_def by (intro keeps_rules)
next
  case (Suc k)
  show ?case unfolding bind_candidate.simps accept_binding_def by (intro keeps_rules Suc.IH)
qed

lemma registerAndVerify_I [keeps_rules]: "keeps (\<lambda>p. I (fst p)) (registerAndVerify n E opts tid rid l)"
  unfolding registerAndVerify_def by (intro keeps_rules)

lemma review_step_I [keeps_rules]: "keeps (\<lambda>p. I (fst p)) (review_step E opts tid cid v)"
  unfolding review_step_def maybeReview_def by (intro keeps_rules)

lemma end_cycle_I [keeps_rules]: "keeps (\<lambda>p. I (fst p)) (finalize E tid d r seen v rg rep)"
  "keeps (\<lambda>p. I (fst p)) (end_cycle E tid d r seen v rg rep)"
  unfolding end_cycle_def finalize_def Let_def by (intro keeps_rules)+

lemma announce_I [keeps_rules]: "keeps (\<lambda>p. I (fst p)) (announce E t)"
  unfolding announce_def getRetryPolicy_def by (intro keeps_rules)

lemma start_orchestration_I [keeps_rules]: "keeps (\<lambda>p. I (fst p)) (start_orchestration E i)"
  unfolding start_orchestration_def by (intro keeps_rules)

lemma resume_I [keeps_rules]: "keeps I (resumeExactCandidateCiAndVerify n E tid opts)"
  unfolding resumeExactCandidateCiAndVerify_def by (intro keeps_rules)

text \<open>
  The rest of a cycle inserts runs only through a launch and a repair: it keeps whatever these
  keep.
\<close>

lemma cycle_keeps:
  assumes "\<And>prompt. keeps I (launch_step E wp tid prompt)" and rep: "\<And>fc r p. keeps I (beginRepairAttempt E tid fc r p)"
  shows "keeps (\<lambda>p. I (fst p)) (cycle n E wp opts tid k seen)"
proof -
  have r: "keeps (\<lambda>p. I (fst p)) (repair_or_stop E wp tid fc r why x l v rg fb)" for fc r why x l v rg fb
    unfolding repair_or_stop_def by (intro keeps_rules rep)
  have d: "keeps (\<lambda>p. I (fst p)) (decide_cycle E wp tid l v rg)" for l v rg
    unfolding decide_cycle_def apply_decision_def by (intro keeps_rules r)
  show ?thesis
    unfolding cycle_def after_launch_def after_wait_def after_worker_def after_verify_def judge_def review_and_decide_def after_review_def Let_def
    by (intro keeps_rules r d assms)
qed

end

context core_invariant
begin

lemma launch_step_I [keeps_rules]: "keeps I (launch_step E wp tid p)"
  unfolding launch_step_def by (intro keeps_rules)

lemma cycle_I [keeps_rules]: "keeps (\<lambda>p. I (fst p)) (cycle n E wp opts tid k seen)"
  by (intro cycle_keeps keeps_rules)

lemma run_cycles_I [keeps_rules]: "keeps (\<lambda>p. I (fst p)) (run_cycles m n E wp opts tid k seen)"
proof (induction m arbitrary: k seen)
  case 0
  show ?case unfolding run_cycles.simps by (intro keeps_rules)
next
  case (Suc m)
  show ?case unfolding run_cycles.simps by (intro keeps_rules Suc.IH)
qed

lemma runOwnerSoftwareTask_I [keeps_rules]: "keeps I (runOwnerSoftwareTask n E wp i opts)"
proof (cases wp)
  case (Some w)
  have o: "keeps (\<lambda>p. I (fst p)) (orchestrate n E w i opts)"
    unfolding orchestrate_def Let_def by (intro keeps_rules)
  show ?thesis
  proof (rule keepsI)
    fix s r s' assume s: "I s" and run: "runOwnerSoftwareTask n E wp i opts s = (r, s')"
    obtain tr where "orchestrate n E w i opts (s, []) = (r, (s', tr))"
      using run Some by (auto simp: runOwnerSoftwareTask_def split: prod.splits)
    from keepsD [OF o _ this] s show "I s'" by simp
  qed
qed (simp add: runOwnerSoftwareTask_def)

end

section \<open>How a cycle can end\<close>

text \<open>
  \<open>ends_in Q m\<close>: whenever \<open>m\<close> returns, the value and the state satisfy \<open>Q\<close>. Only the last step
  of a sequence matters; what the steps before it returned may be used.
\<close>

definition ends_in :: "('a \<Rightarrow> 's \<Rightarrow> bool) \<Rightarrow> ('s, 'e, 'a) act \<Rightarrow> bool" where
  "ends_in Q m \<longleftrightarrow> (\<forall>s x s'. m s = (Inr x, s') \<longrightarrow> Q x s')"

lemma ends_inD: "ends_in Q m \<Longrightarrow> m s = (Inr x, s') \<Longrightarrow> Q x s'"
  by (simp add: ends_in_def)

lemma ends_inI: "(\<And>s x s'. m s = (Inr x, s') \<Longrightarrow> Q x s') \<Longrightarrow> ends_in Q m"
  by (simp add: ends_in_def)

lemma ends_ret: "(\<And>s. Q x s) \<Longrightarrow> ends_in Q (ret x)"
  by (simp add: ends_in_def ret_def)

lemma ends_bnd: "(\<And>x s s'. m s = (Inr x, s') \<Longrightarrow> ends_in Q (f x)) \<Longrightarrow> ends_in Q (bnd m f)"
  by (auto simp: ends_in_def bnd_Inr)

lemma ends_thn: "ends_in Q k \<Longrightarrow> ends_in Q (thn m k)"
  by (simp add: thn_def ends_bnd)

lemma ends_if: "(b \<Longrightarrow> ends_in Q m) \<Longrightarrow> (\<not> b \<Longrightarrow> ends_in Q k) \<Longrightarrow> ends_in Q (if b then m else k)"
  by simp

section \<open>The commit that is verified\<close>

text \<open>GitHub's own data confirm a commit on a branch: the commit, a pull request whose head it is, and a completed success of its checks.\<close>

definition github_confirms :: "github_client \<Rightarrow> string \<Rightarrow> string \<Rightarrow> bool" where
  "github_confirms gh sha branch \<longleftrightarrow> (\<exists>n1 n2 n3 n4 num pr rs comb.
     gh_getCommit gh n1 sha = Inr (Some sha) \<and> gh_getPullRequest gh n2 num = Inr pr \<and>
     pq_head_sha pr = Some sha \<and> pq_head_ref pr = Some branch \<and>
     gh_getCheckRuns gh n3 sha = Inr rs \<and> gh_getCombinedStatus gh n4 sha = Inr comb \<and>
     summarize_runs rs comb = (''completed'', Some ''success''))"

lemma register_row:
  assumes "registerExactCandidate E inp s = (Inr c, s')"
  shows "candidate_is (c_candidate_id c) (ci_task_id inp) (c_commit_sha c) (c_branch c) (db s')"
proof -
  from assms obtain r sha branch s2 where rec: "record_candidate E inp r branch sha s2 = (Inr c, s')"
    by (auto simp: registerExactCandidate_def Let_def run_iff split: option.splits if_splits)
  from record_candidate_rows [OF this] have "candidates (db s') = candidates (db s2) @ [c]" "c_task_id c = ci_task_id inp"
    "find_row c_candidate_id (candidates (db s2)) (c_candidate_id c) = None" by (simp_all add: find_row_None)
  then show ?thesis by (simp add: candidate_is_def find_row_append)
qed

lemma bind_once_exact:
  assumes "bind_once n E opts tid rid l p = (Inr (Some (c, w)), p')"
  shows "candidate_is (c_candidate_id c) tid (c_commit_sha c) (c_branch c) (db (fst p'))"
proof -
  let ?J = "\<lambda>p. candidate_is (c_candidate_id c) tid (c_commit_sha c) (c_branch c) (db (fst p))"
  let ?rest = "\<lambda>c :: candidate. case oo_github opts of
       None \<Rightarrow> ret (Some (c, None))
     | Some gh \<Rightarrow>
       thn (on_core (refreshCandidateLanding E (c_candidate_id c) gh))
      (bnd (on_core (waitForExactCandidateCi n E (c_candidate_id c) (oo_github opts) (oo_ci_poll_ms opts) (oo_ci_timeout_ms opts)
              (oo_sleepFn opts))) (\<lambda>out. case out of
         None \<Rightarrow> ret None
       | Some w \<Rightarrow> thn (push_ci_wait E w) (ret (Some (c, Some w)))))"
  from assms obtain c' p1 where reg: "on_core (candidate_of_landing E tid rid l) p = (Inr c', p1)"
    and rest: "?rest c' p1 = (Inr (Some (c, w)), p')"
    unfolding bind_once_def by (auto simp: bnd_Inr)
  have "ends_in (\<lambda>x p. case x of None \<Rightarrow> True | Some (d, _) \<Rightarrow> d = c') (?rest c')"
    by (cases "oo_github opts") (auto intro!: ends_bnd ends_thn ends_ret split: option.split)
  from ends_inD [OF this rest] have c: "c' = c" by simp
  have j: "?J p1"
    using reg c by (auto simp: run_iff candidate_of_landing_def nowIso_def dest!: register_row)
  have k: "keeps ?J (?rest c')"
    unfolding push_ci_wait_def by (intro keeps_rules exact.refreshCandidateLanding_I exact.waitForExactCandidateCi_I exact.push_I)
  show ?thesis by (rule keepsD [where I = ?J, OF k j rest])
qed

lemma bind_candidate_exact:
  "bind_candidate k n E opts tid rid l p = (Inr (Some (c, w)), p') \<Longrightarrow>
   candidate_is (c_candidate_id c) tid (c_commit_sha c) (c_branch c) (db (fst p'))"
proof (induction k arbitrary: l p)
  case 0
  then show ?case by (auto simp: bnd_Inr thn_Inr guard_Inr ret_run accept_binding_def split: option.splits dest: bind_once_exact)
next
  case (Suc k)
  from Suc.prems obtain out p1 where once: "bind_once n E opts tid rid l p = (Inr out, p1)"
    by (auto simp: bnd_Inr)
  with Suc.prems obtain d w' where out: "out = Some (d, w')" by (cases out) (auto simp: bnd_Inr ret_run)
  show ?case
  proof (cases "wait_ended_in CI_HEAD_CHANGED w'")
    case True
    with Suc.prems once out show ?thesis by (auto simp: bnd_Inr thn_Inr guard_Inr lift_run intro: Suc.IH)
  next
    case False
    with Suc.prems once out have "p' = p1" "c = d" by (auto simp: bnd_Inr thn_Inr guard_Inr ret_run accept_binding_def)
    with bind_once_exact [OF once [unfolded out]] show ?thesis by simp
  qed
qed

lemma registerAndVerify_exact:
  assumes "registerAndVerify n E opts tid rid l p = (Inr (Some (c, verified, w)), p')"
  shows "\<exists>s. candidate_is (c_candidate_id c) tid (c_commit_sha c) (c_branch c) (db s) \<and>
    verifyExactCandidate E (c_candidate_id c) (oo_github opts) (oo_runTaskTests opts) (oo_runBuildChecks opts) None s =
      (Inr verified, fst p')"
proof -
  from assms obtain resolved p1 p2 where b: "bind_candidate maxRebinds n E opts tid rid resolved p1 = (Inr (Some (c, w)), p2)"
    and v: "verifyExactCandidate E (c_candidate_id c) (oo_github opts) (oo_runTaskTests opts) (oo_runBuildChecks opts) None (fst p2) =
      (Inr verified, fst p')"
    unfolding registerAndVerify_def by (auto simp: bnd_Inr thn_Inr guard_Inr ret_run on_core_run split: option.splits)
  from bind_candidate_exact [OF b] v show ?thesis by blast
qed

lemma verified_commit:
  assumes c: "candidate_is cid tid sha branch (db s)"
    and run: "verifyExactCandidate E cid client tests build claim s = (Inr out, s')" and pass: "vo_result out = V_PASS"
  shows "\<exists>gh h b. client = Some gh \<and> sha = Some h \<and> branch = Some b \<and> is_commit_sha h \<and> github_confirms gh h b"
proof -
  from verify_pass_facts [OF run pass] obtain gh d h b pr num n1 n2 n3 n4 rs comb where
    d: "find_row c_candidate_id (candidates (db s)) cid = Some d" "c_commit_sha d = Some h" "c_branch d = Some b"
    and gh: "client = Some gh" "is_commit_sha h" "gh_getCommit gh n1 h = Inr (Some h)" "gh_getPullRequest gh n2 num = Inr pr"
     "pq_head_sha pr = Some h" "pq_head_ref pr = Some b"
     "gh_getCheckRuns gh n3 h = Inr rs" "gh_getCombinedStatus gh n4 h = Inr comb"
     "summarize_runs rs comb = (''completed'', Some ''success'')" by blast
  then have "github_confirms gh h b" unfolding github_confirms_def by blast
  moreover from c d have "sha = Some h" "branch = Some b" by (auto simp: candidate_is_def)
  ultimately show ?thesis using gh by blast
qed

section \<open>Done\<close>

definition not_done :: "cycle_outcome \<Rightarrow> core \<times> js list \<Rightarrow> bool" where
  "not_done out p \<longleftrightarrow> (\<forall>r. out = CycleEnded r \<longrightarrow> or_decision r \<noteq> O_DONE)"

lemma finalize_result:
  assumes "finalize E tid d reason seen v rg rep p = (Inr r, p')"
  shows "or_decision r = d \<and> or_task_id r = tid \<and> or_commit_sha r = ls_commit_sha seen \<and>
    or_gate r = map_option snd rg \<and> (ls_verification seen \<noteq> None \<longrightarrow> or_verification r = ls_verification seen) \<and>
    tasks (db (fst p')) = tasks (db (fst p))"
  using assms
  by (auto simp: finalize_def Let_def bnd_Inr thn_Inr ret_run on_core_run gets_run the_row_def nowIso_def now_def getTask_def throw_run
      dest!: appendEvent_frame split: option.splits)

lemma end_cycle_not_done: "d \<noteq> O_DONE \<Longrightarrow> ends_in not_done (end_cycle E tid d r seen v rg rep)"
  by (rule ends_inI) (auto simp: end_cycle_def bnd_Inr ret_run not_done_def dest!: finalize_result)

lemma repair_not_done: "ends_in not_done (repair_or_stop E wp tid fc r why x seen v rg fb)"
  unfolding repair_or_stop_def
proof (rule ends_bnd)
  fix out
  show "ends_in not_done (case out of
       RepairStopped _ st _ r \<Rightarrow>
         end_cycle E tid (if st = T_NEEDS_OWNER then O_NEEDS_OWNER else O_BLOCKED) (if r = [] then fb else r) seen v rg (Some (st, r))
     | RepairStarted run _ _ \<Rightarrow>
         thn (push E ''retry_started'' ([(''fresh_factory_run_id'', JStr (r_factory_run_id run)), (''reason'', JStr why)] @ x))
             (ret (CycleAgain seen)))"
    by (cases out) (auto intro!: end_cycle_not_done ends_thn ends_ret simp: not_done_def)
qed

lemma push_db: "push E step d p = (x, p') \<Longrightarrow> x = Inr () \<and> db (fst p') = db (fst p)"
  by (cases p) (auto simp: push_def on_core_def bnd_def nowIso_def now_def ret_def modify_def)

lemma decideAfterGates_done:
  "dc_decision (decideAfterGates task verified rg) = O_DONE \<longleftrightarrow>
   vo_result verified = V_PASS \<and> (t_review_required task \<longrightarrow> (\<exists>(r, g) \<in> set_option rg. g_ok g))"
  by (auto simp: decideAfterGates_def decide_def)

lemma task_status_name_ACCEPTED: "task_status_name st = ''ACCEPTED'' \<longleftrightarrow> st = T_ACCEPTED"
  by (cases st) auto

lemma apply_decision_done:
  assumes run: "apply_decision E wp tid d seen verified rg p = (Inr (CycleEnded r), p')" and dn: "or_decision r = O_DONE"
  shows "dc_decision d = O_DONE \<and> or_task_id r = tid \<and> or_commit_sha r = ls_commit_sha seen \<and>
    (ls_verification seen \<noteq> None \<longrightarrow> or_verification r = ls_verification seen) \<and>
    (\<exists>t t0. find_row t_task_id (tasks (db (fst p'))) tid = Some t \<and> t_status t = T_ACCEPTED \<and>
       find_row t_task_id (tasks (db (fst p))) tid = Some t0 \<and> finish_line_of t = finish_line_of t0)"
proof -
  from run obtain p1 where pu: "push E ''decision'' [(''decision'', JStr (decision_name (dc_decision d))), (''failure_class'', fc_js (dc_failure_class d)),
            (''reason'', JStr (dc_reason d))] p = (Inr (), p1)"
    and rest: "(if dc_decision d = O_DONE then
       thn (on_core (updateTaskStatus E tid ''ACCEPTED''))
           (end_cycle E tid O_DONE (dc_reason d) seen (Some verified) rg None)
     else if dc_decision d = O_BLOCKED then
       bnd (on_core (getTask tid)) (\<lambda>found.
       bnd (the_row ''status'' found) (\<lambda>task.
       thn (if t_status task \<noteq> T_BLOCKED then thn (on_core (updateTaskStatus E tid ''BLOCKED'')) (ret ()) else ret ())
           (end_cycle E tid O_BLOCKED (dc_reason d) seen (Some verified) rg None)))
     else
       repair_or_stop E wp tid (case dc_failure_class d of Some f \<Rightarrow> f | None \<Rightarrow> F_TEST_FAIL) (dc_reason d) (dc_reason d)
         [(''previous_evidence_preserved'', JBool True)] seen (Some verified) rg ''retry_exhausted'') p1 = (Inr (CycleEnded r), p')"
    (is "(if _ then ?done else if _ then ?blocked else ?retry) p1 = _")
    unfolding apply_decision_def by (auto simp: thn_Inr)
  have no: "ends_in not_done ?blocked" "ends_in not_done ?retry"
    by (intro ends_bnd ends_thn end_cycle_not_done repair_not_done; simp)+
  have D: "dc_decision d = O_DONE"
  proof (rule ccontr)
    assume "dc_decision d \<noteq> O_DONE"
    then have "?blocked p1 = (Inr (CycleEnded r), p') \<or> ?retry p1 = (Inr (CycleEnded r), p')" using rest by (auto split: if_splits)
    with no dn show False by (auto simp: not_done_def dest: ends_inD)
  qed
  with rest obtain t p2 where up: "updateTaskStatus E tid ''ACCEPTED'' (fst p1) = (Inr t, fst p2)"
    and fin: "finalize E tid O_DONE (dc_reason d) seen (Some verified) rg None p2 = (Inr r, p')"
    by (auto simp: thn_Inr on_core_run end_cycle_def bnd_Inr ret_run)
  from updateTaskStatus_facts [OF up] push_db [OF pu] finalize_result [OF fin] D show ?thesis
    by (auto simp: task_status_name_ACCEPTED)
qed

definition reviewer_passed :: "review_invoker option \<Rightarrow> bool" where
  "reviewer_passed invoker \<longleftrightarrow> (\<exists>iv n prompt answer fs. invoker = Some iv \<and> iv_review iv n prompt = Inr answer \<and>
     parseCodexReviewOutput (js_get answer ''raw'') = ParsedReview RV_PASS fs)"

lemma review_step_facts:
  assumes run: "review_step E opts tid cid verified p = (Inr (rv, g), p')"
    and c: "candidate_is cid tid sha branch (db (fst p))"
  shows "\<exists>t t'. find_row t_task_id (tasks (db (fst p))) tid = Some t \<and> find_row t_task_id (tasks (db (fst p'))) tid = Some t' \<and>
    finish_line_of t' = finish_line_of t \<and> (g_ok g \<and> t_review_required t \<longrightarrow> reviewer_passed (oo_codex opts))"
proof -
  from run obtain t d where t: "find_row t_task_id (tasks (db (fst p))) tid = Some t"
    and d: "find_row c_candidate_id (candidates (db (fst p))) cid = Some d"
    and rev: "maybeReview E opts t (c_candidate_id d) verified (fst p) = (Inr (rv, g), fst p')"
    by (auto simp: review_step_def bnd_Inr on_core_run getTask_def getCandidate_def gets_run the_row_def ret_run throw_run
        split: option.splits)
  have id: "c_candidate_id d = cid" using find_row_Some [OF d] by simp
  obtain iv gd where "reviewExactCandidate E cid iv gd (Some (vo_verification verified)) (fst p) = (Inr (rv, g), fst p')"
    and iv: "t_review_required t \<longrightarrow> iv = oo_codex opts"
    using rev id by (auto simp: maybeReview_def throw_run split: if_splits)
  note run' = this(1)
  have "finish_fixed tid (finish_line_of t) (db (fst p'))"
    by (rule keepsD [OF finish.reviewExactCandidate_I _ run']) (use t in \<open>simp add: finish_fixed_def\<close>)
  moreover from review_facts [OF run'] c d t
  have "g_ok g \<and> t_review_required t \<longrightarrow> reviewer_passed iv"
    by (auto simp: candidate_is_def reviewer_passed_def)
  ultimately show ?thesis using t iv by (auto simp: finish_fixed_def)
qed

text \<open>What a result that says done shows.\<close>

definition done_soundly :: "orch_options \<Rightarrow> orch_result \<Rightarrow> db \<Rightarrow> bool" where
  "done_soundly opts r d \<longleftrightarrow>
     (\<exists>gh sha branch vid t. oo_github opts = Some gh \<and> or_commit_sha r = Some sha \<and> is_commit_sha sha \<and>
        github_confirms gh sha branch \<and> or_verification r = Some (vid, V_PASS) \<and>
        find_row t_task_id (tasks d) (or_task_id r) = Some t \<and> t_status t = T_ACCEPTED \<and>
        (t_review_required t \<longrightarrow> reviewer_passed (oo_codex opts)))"

lemma decide_cycle_done:
  assumes run: "decide_cycle E wp tid seen verified rg p = (Inr (CycleEnded r), p')" and dn: "or_decision r = O_DONE"
  shows "vo_result verified = V_PASS \<and> or_task_id r = tid \<and> or_commit_sha r = ls_commit_sha seen \<and>
    (ls_verification seen \<noteq> None \<longrightarrow> or_verification r = ls_verification seen) \<and>
    (\<exists>t t0. find_row t_task_id (tasks (db (fst p'))) tid = Some t \<and> t_status t = T_ACCEPTED \<and>
       find_row t_task_id (tasks (db (fst p))) tid = Some t0 \<and> finish_line_of t = finish_line_of t0 \<and>
       (t_review_required t0 \<longrightarrow> (\<exists>(rv, g) \<in> set_option rg. g_ok g)))"
proof -
  from run obtain t0 p1 where t0: "find_row t_task_id (tasks (db (fst p))) tid = Some t0" and p1: "fst p1 = fst p"
    and ap: "apply_decision E wp tid (decideAfterGates t0 verified rg) seen verified rg p1 = (Inr (CycleEnded r), p')"
    by (auto simp: decide_cycle_def bnd_Inr on_core_run getTask_def gets_run the_row_def ret_run throw_run split: option.splits)
  from apply_decision_done [OF ap dn] t0 p1 show ?thesis by (auto simp: decideAfterGates_done)
qed

lemma reviewed_done:
  assumes run: "review_and_decide E wp opts tid seen cid verified p = (Inr (CycleEnded r), p')" and dn: "or_decision r = O_DONE"
    and c: "candidate_is cid tid sha branch (db (fst p))" and ver: "ls_verification seen = Some ver"
  shows "vo_result verified = V_PASS \<and> or_task_id r = tid \<and> or_commit_sha r = ls_commit_sha seen \<and> or_verification r = Some ver \<and>
    (\<exists>t. find_row t_task_id (tasks (db (fst p'))) tid = Some t \<and> t_status t = T_ACCEPTED \<and>
       (t_review_required t \<longrightarrow> reviewer_passed (oo_codex opts)))"
proof -
  have pass: "vo_result verified = V_PASS"
  proof (rule ccontr)
    assume no: "vo_result verified \<noteq> V_PASS"
    with run have "decide_cycle E wp tid seen verified None p = (Inr (CycleEnded r), p')" by (simp add: review_and_decide_def)
    from decide_cycle_done [OF this dn] no show False by simp
  qed
  with run obtain out p2 where at: "review_step E opts tid cid verified p = (out, p2)"
    and out: "after_review E wp tid seen verified out p2 = (Inr (CycleEnded r), p')"
    by (auto simp: review_and_decide_def bnd_Inr attempt_run)
  have "ends_in not_done (after_review E wp tid seen verified (Inl err))" for err
    by (auto simp: after_review_def intro!: ends_thn end_cycle_not_done)
  from ends_inD [OF this] out dn have "out \<noteq> Inl err" for err unfolding not_done_def by blast
  then obtain rv g where o: "out = Inr (rv, g)" by (metis old.sum.exhaust surj_pair)
  with out obtain p3 where p3: "db (fst p3) = db (fst p2)"
    and dec: "decide_cycle E wp tid (seen\<lparr>ls_review := Some (brief_of rv)\<rparr>) verified (Some (rv, g)) p3 = (Inr (CycleEnded r), p')"
    by (auto simp: after_review_def thn_Inr dest!: push_db)
  from decide_cycle_done [OF dec dn] ver obtain t t0 where d: "or_task_id r = tid" "or_commit_sha r = ls_commit_sha seen" "or_verification r = Some ver"
    "find_row t_task_id (tasks (db (fst p'))) tid = Some t" "t_status t = T_ACCEPTED"
    "find_row t_task_id (tasks (db (fst p3))) tid = Some t0" "finish_line_of t = finish_line_of t0" "t_review_required t0 \<longrightarrow> g_ok g"
    by auto
  from review_step_facts [OF at [unfolded o] c] obtain t1 t2 where
    "find_row t_task_id (tasks (db (fst p2))) tid = Some t2" "finish_line_of t2 = finish_line_of t1"
    "g_ok g \<and> t_review_required t1 \<longrightarrow> reviewer_passed (oo_codex opts)" by auto
  moreover have "t_review_required x = t_review_required y" if "finish_line_of x = finish_line_of y" for x y
    using that by (simp add: finish_line_of_def)
  ultimately show ?thesis using d pass p3 by (metis option.inject)
qed

lemma after_verify_done:
  assumes run: "after_verify E wp opts tid seen out p = (Inr (CycleEnded r), p')" and dn: "or_decision r = O_DONE"
    and reg: "registerAndVerify n E opts tid rid l p0 = (out, p)"
  shows "or_task_id r = tid \<and> done_soundly opts r (db (fst p'))"
proof -
  have no: "ends_in not_done (after_verify E wp opts tid seen x)" if "\<nexists>y. x = Inr (Some y)" for x
    using that by (cases x) (auto simp: after_verify_def intro!: ends_thn ends_ret repair_not_done split: option.splits,
        simp add: not_done_def)
  from ends_inD [OF this run] dn obtain c verified w where o: "out = Inr (Some (c, verified, w))"
    unfolding not_done_def by (metis prod_cases3)
  from registerAndVerify_exact [OF reg [unfolded o]] obtain s where
    c: "candidate_is (c_candidate_id c) tid (c_commit_sha c) (c_branch c) (db s)"
    and v: "verifyExactCandidate E (c_candidate_id c) (oo_github opts) (oo_runTaskTests opts) (oo_runBuildChecks opts) None s = (Inr verified, fst p)"
    by blast
  have c': "candidate_is (c_candidate_id c) tid (c_commit_sha c) (c_branch c) (db (fst p))"
    by (rule keepsD [OF exact.verifyExactCandidate_I c v])
  let ?ver = "(v_verification_id (vo_verification verified), vo_result verified)"
  let ?seen = "seen\<lparr>ls_candidate_id := Some (c_candidate_id c), ls_commit_sha := c_commit_sha c, ls_verification := Some ?ver,
     ls_ci_wait := map_option (\<lambda>r. (cw_outcome r, map_of (cw_evidence r) ''ci_status'', map_of (cw_evidence r) ''ci_conclusion'')) w\<rparr>"
  from run obtain p1 where p1: "db (fst p1) = db (fst p)"
    and rd: "review_and_decide E wp opts tid ?seen (c_candidate_id c) verified p1 = (Inr (CycleEnded r), p')"
    by (auto simp: o after_verify_def judge_def Let_def thn_Inr dest!: push_db)
  from reviewed_done [OF rd dn, of "c_commit_sha c" "c_branch c" ?ver] c' p1
  have r: "vo_result verified = V_PASS" "or_task_id r = tid" "or_commit_sha r = c_commit_sha c"
    "or_verification r = Some (v_verification_id (vo_verification verified), V_PASS)"
    "\<exists>t. find_row t_task_id (tasks (db (fst p'))) tid = Some t \<and> t_status t = T_ACCEPTED \<and>
       (t_review_required t \<longrightarrow> reviewer_passed (oo_codex opts))" by auto
  from verified_commit [OF c v r(1)] r show ?thesis by (auto simp: done_soundly_def)
qed

lemma cycle_done:
  assumes run: "cycle n E wp opts tid k seen p = (Inr (CycleEnded r), p')" and dn: "or_decision r = O_DONE"
  shows "or_task_id r = tid \<and> done_soundly opts r (db (fst p'))"
proof -
  let ?Q = "\<lambda>out q. \<forall>r. out = CycleEnded r \<and> or_decision r = O_DONE \<longrightarrow> or_task_id r = tid \<and> done_soundly opts r (db (fst q))"
  have weak: "ends_in ?Q m" if "ends_in not_done m" for m
    using that unfolding ends_in_def not_done_def by blast
  have v: "ends_in ?Q (bnd (attempt (registerAndVerify n E opts tid rid l)) (after_verify E wp opts tid sn))" for rid l sn
    by (rule ends_inI) (auto simp: bnd_Inr attempt_run dest: after_verify_done)
  have w: "ends_in ?Q (after_worker n E wp opts tid rid sn)" for rid sn
    unfolding after_worker_def by (auto intro!: ends_bnd ends_thn v weak [OF end_cycle_not_done] split: prod.split)
  have a: "ends_in ?Q (after_wait n E wp opts tid rid sn out)" for rid sn out
    unfolding after_wait_def
    by (auto intro!: ends_thn ends_ret w weak [OF repair_not_done] split: sum.split option.split prod.split)
  have "ends_in ?Q (cycle n E wp opts tid k seen)"
    unfolding cycle_def after_launch_def Let_def
    by (auto intro!: ends_bnd ends_thn a weak [OF end_cycle_not_done] split: prod.split)
  from ends_inD [OF this run] dn show ?thesis by simp
qed

lemma run_cycles_done:
  "run_cycles m n E wp opts tid k seen p = (Inr (Some r), p') \<Longrightarrow> or_decision r = O_DONE \<Longrightarrow>
   or_task_id r = tid \<and> done_soundly opts r (db (fst p'))"
proof (induction m arbitrary: k seen p)
  case 0
  then show ?case by (auto simp: bnd_Inr thn_Inr ret_run dest!: finalize_result)
next
  case (Suc m)
  from Suc.prems(1) obtain out p1 where c: "cycle n E wp opts tid (Suc k) seen p = (Inr out, p1)"
    and rest: "(case out of CycleEnded r \<Rightarrow> ret (Some r) | CycleAgain seen' \<Rightarrow> run_cycles m n E wp opts tid (Suc k) seen'
       | CycleWaiting \<Rightarrow> ret None) p1 = (Inr (Some r), p')"
    by (auto simp: bnd_Inr)
  show ?case
  proof (cases out)
    case (CycleEnded q)
    with rest have "q = r" "p1 = p'" by (auto simp: ret_run)
    with c CycleEnded Suc.prems(2) show ?thesis by (auto dest: cycle_done)
  next
    case (CycleAgain seen')
    with rest Suc show ?thesis by auto
  qed (use rest in \<open>auto simp: ret_run\<close>)
qed

section \<open>Every result comes from \<open>finalize\<close>\<close>

definition finalized :: "env \<Rightarrow> string \<Rightarrow> orch_result \<Rightarrow> core \<times> js list \<Rightarrow> bool" where
  "finalized E tid r p \<longleftrightarrow> (\<exists>d reason seen v rg rep p0. finalize E tid d reason seen v rg rep p0 = (Inr r, p))"

lemma finalizedI: "finalize E tid d reason seen v rg rep p0 = (Inr r, p) \<Longrightarrow> finalized E tid r p"
  unfolding finalized_def by blast

lemma cycle_finalized:
  "ends_in (\<lambda>x p. \<forall>r. x = CycleEnded r \<longrightarrow> finalized E tid r p) (cycle fuel E wp opts tid k seen)"
proof -
  let ?T = "\<lambda>x p. \<forall>r. x = CycleEnded r \<longrightarrow> finalized E tid r p"
  have e: "ends_in ?T (end_cycle E tid d r l v rg rep)" for d r l v rg rep
    by (rule ends_inI) (auto simp: end_cycle_def bnd_Inr ret_run intro: finalizedI)
  have r: "ends_in ?T (repair_or_stop E wp tid fc r why x l v rg fb)" for fc r why x l v rg fb
    unfolding repair_or_stop_def by (auto intro!: ends_bnd ends_thn ends_ret e split: repair_result.split)
  note rules = ends_bnd ends_thn ends_ret e r
  have d: "ends_in ?T (decide_cycle E wp tid l v rg)" for l v rg
    unfolding decide_cycle_def apply_decision_def by (auto intro!: rules)
  have j: "ends_in ?T (judge E wp opts tid l c v w)" for l c v w
    unfolding judge_def review_and_decide_def after_review_def Let_def by (auto intro!: rules d split: sum.split prod.split)
  have w: "ends_in ?T (after_worker fuel E wp opts tid rid l)" for rid l
    unfolding after_worker_def after_verify_def by (auto intro!: rules j split: sum.split option.split prod.split)
  show ?thesis
    unfolding cycle_def after_launch_def after_wait_def Let_def by (auto intro!: rules w split: sum.split option.split prod.split)
qed

lemma run_cycles_finalized:
  "run_cycles m fuel E wp opts tid k seen p = (Inr (Some r), p') \<Longrightarrow> finalized E tid r p'"
proof (induction m arbitrary: k seen p)
  case 0
  then show ?case by (auto simp: bnd_Inr thn_Inr ret_run intro: finalizedI)
next
  case (Suc m)
  then obtain out p1 where "cycle fuel E wp opts tid (Suc k) seen p = (Inr out, p1)"
    and "(case out of CycleEnded r \<Rightarrow> ret (Some r) | CycleAgain seen' \<Rightarrow> run_cycles m fuel E wp opts tid (Suc k) seen'
       | CycleWaiting \<Rightarrow> ret None) p1 = (Inr (Some r), p')"
    by (auto simp: bnd_Inr)
  with Suc.IH ends_inD [OF cycle_finalized this(1)] show ?case by (cases out) (auto simp: ret_run)
qed

lemma finalized_facts: "finalized E tid r p \<Longrightarrow> or_task_id r = tid \<and> (or_ok r \<longleftrightarrow> or_decision r = O_DONE)"
  by (auto simp: finalized_def finalize_def Let_def bnd_Inr thn_Inr ret_run)

text \<open>
  C1. Done means done: whenever the pipeline returns a result that says it succeeded, its
  decision is done, GitHub's own data confirm the exact commit it reports (the commit, a pull
  request whose head it is, a completed success of its checks), the verification it reports
  passed, the task is stored as accepted, and where its locked finish line requires review the
  reviewer was asked and its answer reads as a pass. Every other result names another decision.
\<close>

theorem owner_task_done:
  "case runOwnerSoftwareTask fuel E provider ownerTask opts s of
     (Inr (Some r), s') \<Rightarrow> if or_ok r then or_decision r = O_DONE \<and> done_soundly opts r (db s') else or_decision r \<noteq> O_DONE
   | _ \<Rightarrow> True"
proof (cases "\<exists>r s'. runOwnerSoftwareTask fuel E provider ownerTask opts s = (Inr (Some r), s')")
  case True
  then obtain r s' where run: "runOwnerSoftwareTask fuel E provider ownerTask opts s = (Inr (Some r), s')" by blast
  then obtain wp tr where o: "orchestrate fuel E wp ownerTask opts (s, []) = (Inr (Some r), (s', tr))"
    by (auto simp: runOwnerSoftwareTask_def throw_run split: option.splits prod.splits)
  then have "or_decision r = O_DONE \<Longrightarrow> done_soundly opts r (db s')"
    by (auto simp: orchestrate_def Let_def bnd_Inr dest!: run_cycles_done)
  moreover have "or_ok r \<longleftrightarrow> or_decision r = O_DONE"
    using o by (auto simp: orchestrate_def Let_def bnd_Inr dest!: run_cycles_finalized finalized_facts)
  ultimately show ?thesis by (simp add: run)
next
  case False
  then show ?thesis by (auto split: prod.split sum.split option.split)
qed

end
