(* ===== verification/OrchestratorBounds.thy ===== *)
theory OrchestratorBounds
  imports OrchestratorProps
begin

text \<open>
  The pipeline is bounded: over all its cycles a task never has more runs than its locked maximum
  of attempts, or the one run of the first launch; and with a clock that goes on the wait for a
  worker ends.
\<close>

section \<open>Runs of a task\<close>

text \<open>The task is locked with this finish line and has at most \<open>n\<close> runs.\<close>

definition within :: "string \<Rightarrow> finish_line \<Rightarrow> nat \<Rightarrow> core \<Rightarrow> bool" where
  "within tid fl n s \<longleftrightarrow> finish_fixed tid fl (db s) \<and> integrity s \<and> runs_at_most tid n (db s)"

interpretation within: core_frame E "within tid fl n" for E tid fl n
  unfolding within_def
  by unfold_locales
     (simp_all add: keeps_conj finish.appendEvent_I count.appendEvent_I finish.updateTaskStatus_I count.updateTaskStatus_I
        finish.createAndLockTask_I count.createAndLockTask_I finish.claimLogicalWork_I count.claimLogicalWork_I
        finish.updateRun_I count.updateRun_I finish.tryClaim_I count.tryClaim_I finish.insertCandidate_I count.insertCandidate_I
        finish.updateCandidate_I count.updateCandidate_I finish.insertVerification_I count.insertVerification_I
        finish.updateVerification_I count.updateVerification_I finish.insertReview_I count.insertReview_I
        finish.updateReview_I count.updateReview_I finish.insertApproval_I count.insertApproval_I
        finish.updateApproval_I count.updateApproval_I finish.acquire_I count.acquire_I finish.release_I count.release_I)

lemma within_repair:
  assumes "fl_max_attempts fl \<le> int n"
  shows "keeps (within tid fl n) (beginRepairAttempt E tid fc r p)"
proof (rule keepsI)
  fix s x s' assume w: "within tid fl n s" and run: "beginRepairAttempt E tid fc r p s = (x, s')"
  then obtain t where t: "find_row t_task_id (tasks (db s)) tid = Some t" "finish_line_of t = fl"
    by (auto simp: within_def finish_fixed_def)
  have "t_max_attempts t \<le> int n" using assms t(2) by (auto simp: finish_line_of_def)
  moreover have "run_count tid (runs (db s)) \<le> n" using w by (simp add: within_def runs_at_most_def)
  ultimately have "run_count tid (runs (db s')) \<le> n" using beginRepairAttempt_count [OF t(1) run] by auto
  moreover have "finish_fixed tid fl (db s')"
    by (rule keepsD [OF finish.beginRepairAttempt_I _ run]) (use w in \<open>simp add: within_def\<close>)
  moreover have "integrity s'"
    by (rule keepsD [OF integ.beginRepairAttempt_I _ run]) (use w in \<open>simp add: within_def\<close>)
  ultimately show "within tid fl n s'" by (simp add: within_def runs_at_most_def)
qed

text \<open>The next launch uses a pending run of the task that is there.\<close>

definition pending_current :: "string \<Rightarrow> core \<Rightarrow> bool" where
  "pending_current tid s \<longleftrightarrow> (\<exists>q. current_run s = Some (r_factory_run_id q) \<and> r_factory_run_id q \<noteq> [] \<and>
     find_row r_factory_run_id (runs (db s)) (r_factory_run_id q) = Some q \<and> r_status q = R_PENDING \<and> r_task_id q = tid)"

lemma pending_current_get:
  assumes "pending_current tid s"
  shows "\<exists>q. getCurrentCodingRun s = (Inr (Some q), s) \<and> r_status q = R_PENDING \<and> r_task_id q = tid"
  using assms
  by (auto simp: pending_current_def getCurrentCodingRun_def current_pointer_def act_defs getRun_def is_active_def ACTIVE_RUN_STATUSES_def)

lemma launch_within:
  assumes n: "1 \<le> n" and w: "within tid fl n s" and k: "runs_at_most tid 0 (db s) \<or> pending_current tid s"
    and run: "launch_step E wp tid prompt s = (x, s')"
  shows "within tid fl n s'"
  using k
proof
  assume "pending_current tid s"
  from pending_current_get [OF this] obtain q where "getCurrentCodingRun s = (Inr (Some q), s)" "r_status q = R_PENDING" "r_task_id q = tid" by blast
  with run have "launchCodingWorkerOnRun E (Some wp) (r_factory_run_id q) prompt (JObj []) s = (x, s')"
    by (simp add: launch_step_def bnd_def)
  then show ?thesis by (rule keepsD [OF within.launchCodingWorkerOnRun_I w])
next
  assume z: "runs_at_most tid 0 (db s)"
  have "finish_fixed tid fl (db s')"
    by (rule keepsD [OF finish.launch_step_I _ run]) (use w in \<open>simp add: within_def\<close>)
  moreover have "integrity s'"
    by (rule keepsD [OF integ.launch_step_I _ run]) (use w in \<open>simp add: within_def\<close>)
  moreover have "runs_at_most tid 1 (db s')"
  proof -
    have up: "runs_at_most tid 1 d" if "runs_at_most tid 0 d" for d using that by (simp add: runs_at_most_def)
    have new: "leads (\<lambda>s. runs_at_most tid 0 (db s)) (createRun E tid p None None None) (\<lambda>s. runs_at_most tid 1 (db s))" for p
      unfolding leads_def runs_at_most_def
      by (metis One_nat_def Suc_le_mono createRun_count le_trans prod.collapse)
    have "leads (\<lambda>s. runs_at_most tid 0 (db s)) (launchCodingWorker E (Some wp) tid prompt (JObj [])) (\<lambda>s. runs_at_most tid 1 (db s))"
      unfolding launchCodingWorker_def option.case
      by (rule leads_bnd [OF count.getCurrentCodingRun_I], rule leads_option, rule leads_bnd [OF count.verifyLockedTask_I],
          rule leads_bnd [OF count.require_permitted_I], rule leads_bind [OF new])
        (intro keeps_rules count.set_current_I count.call_launch_I count.finish_launch_I leads_weaken [OF keeps_throw] up; assumption)+
    moreover have "leads (\<lambda>s. runs_at_most tid 0 (db s)) (launchCodingWorkerOnRun E (Some wp) rid prompt (JObj [])) (\<lambda>s. runs_at_most tid 1 (db s))" for rid
      by (rule leads_weaken [OF count.launchCodingWorkerOnRun_I up])
    ultimately have "leads (\<lambda>s. runs_at_most tid 0 (db s)) (launch_step E wp tid prompt) (\<lambda>s. runs_at_most tid 1 (db s))"
      unfolding launch_step_def by (intro leads_bnd leads_option leads_if count.getCurrentCodingRun_I up)
    with z run show ?thesis by (auto simp: leads_def dest!: spec [of _ s])
  qed
  ultimately show ?thesis using n by (auto simp: within_def runs_at_most_def)
qed

section \<open>The whole run\<close>

lemma repair_again:
  assumes run: "repair_or_stop E wp tid fc r why x seen v rg fb p = (Inr (CycleAgain seen'), p')" and i: "integrity (fst p)"
  shows "pending_current tid (fst p')"
proof -
  have no: "end_cycle E tid d r seen v rg rep q \<noteq> (Inr (CycleAgain seen'), p')" for d r rep q
    by (auto simp: end_cycle_def bnd_Inr ret_run)
  from run obtain out p1 where rep': "beginRepairAttempt E tid fc r (wp_name wp) (fst p) = (Inr out, fst p1)"
    and rest: "(case out of
       RepairStopped _ st _ r \<Rightarrow>
         end_cycle E tid (if st = T_NEEDS_OWNER then O_NEEDS_OWNER else O_BLOCKED) (if r = [] then fb else r) seen v rg (Some (st, r))
     | RepairStarted run _ _ \<Rightarrow>
         thn (push E ''retry_started'' ([(''fresh_factory_run_id'', JStr (r_factory_run_id run)), (''reason'', JStr why)] @ x))
             (ret (CycleAgain seen))) p1 = (Inr (CycleAgain seen'), p')"
    by (auto simp: repair_or_stop_def bnd_Inr on_core_run simp del: append.simps)
  from rest no obtain q t n where out: "out = RepairStarted q t n" by (cases out) auto
  with rest have pu: "push E ''retry_started'' ([(''fresh_factory_run_id'', JStr (r_factory_run_id q)), (''reason'', JStr why)] @ x) p1 = (Inr (), p')"
    by (auto simp: thn_Inr ret_run)
  note rep = rep' [unfolded out]
  have "keeps (\<lambda>p. current_run (fst p) = c) (push E st d)" for c st d
    unfolding push_def nowIso_def by (intro keeps_rules keeps_modify on_core_keeps keeps_now) auto
  from keepsD [OF this refl pu] have "current_run (fst p') = current_run (fst p1)" .
  moreover have "db (fst p') = db (fst p1)" using push_db [OF pu] by simp
  ultimately show ?thesis using started_current [OF i rep] by (auto simp: pending_current_def)
qed

text \<open>From a state within the bounds, \<open>m\<close> stays there, and another cycle finds a pending run.\<close>

definition goes_on :: "string \<Rightarrow> finish_line \<Rightarrow> nat \<Rightarrow> cycle_outcome oact \<Rightarrow> bool" where
  "goes_on tid fl n m \<longleftrightarrow> (\<forall>p x p'. within tid fl n (fst p) \<longrightarrow> m p = (x, p') \<longrightarrow>
     within tid fl n (fst p') \<and> (\<forall>seen'. x = Inr (CycleAgain seen') \<longrightarrow> pending_current tid (fst p')))"

lemma goes_bnd:
  assumes m: "keeps (\<lambda>p. within tid fl n (fst p)) m" and f: "\<And>x. goes_on tid fl n (f x)"
  shows "goes_on tid fl n (bnd m f)"
  unfolding goes_on_def
proof (intro allI impI)
  fix p x p' assume w: "within tid fl n (fst p)" and run: "bnd m f p = (x, p')"
  obtain y p1 where y: "m p = (y, p1)" by (cases "m p")
  from keepsD [OF m w y] have w1: "within tid fl n (fst p1)" .
  show "within tid fl n (fst p') \<and> (\<forall>seen'. x = Inr (CycleAgain seen') \<longrightarrow> pending_current tid (fst p'))"
  proof (cases y)
    case (Inl e)
    with run y w1 show ?thesis by (auto simp: bnd_def)
  next
    case (Inr b)
    with run y have "f b p1 = (x, p')" by (simp add: bnd_def)
    with f [of b, unfolded goes_on_def] w1 show ?thesis by blast
  qed
qed

lemma goes_thn: "keeps (\<lambda>p. within tid fl n (fst p)) m \<Longrightarrow> goes_on tid fl n k \<Longrightarrow> goes_on tid fl n (thn m k)"
  by (simp add: thn_def goes_bnd)

lemma goes_stop:
  assumes m: "keeps (\<lambda>p. within tid fl n (fst p)) m" and e: "ends_in (\<lambda>x p. \<forall>l. x \<noteq> CycleAgain l) m"
  shows "goes_on tid fl n m"
  unfolding goes_on_def using keepsD [OF m] ends_inD [OF e] by blast

lemma goes_end: "goes_on tid fl n (end_cycle E tid d r seen v rg rep)"
  by (rule goes_stop [OF within.end_cycle_I(2)]) (auto intro!: ends_inI simp: end_cycle_def bnd_Inr ret_run)

lemma goes_ret: "goes_on tid fl n (ret CycleWaiting)"
  by (rule goes_stop) (auto intro: ends_ret)

lemma goes_repair:
  assumes "fl_max_attempts fl \<le> int n"
  shows "goes_on tid fl n (repair_or_stop E wp tid fc r why x seen v rg fb)"
proof -
  have "keeps (\<lambda>p. within tid fl n (fst p)) (repair_or_stop E wp tid fc r why x seen v rg fb)"
    unfolding repair_or_stop_def by (intro keeps_rules within_repair assms)
  then show ?thesis
    unfolding goes_on_def using repair_again by (metis keepsD within_def)
qed

lemma goes_after_launch:
  assumes n: "fl_max_attempts fl \<le> int n"
  shows "goes_on tid fl n (after_launch fuel E wp opts tid m seen run)"
proof -
  note rules = goes_bnd goes_thn goes_end goes_ret goes_repair [OF n] within.push_I keeps_rules
  have d: "goes_on tid fl n (decide_cycle E wp tid l v rg)" for l v rg
    unfolding decide_cycle_def apply_decision_def by (auto intro!: rules)
  have j: "goes_on tid fl n (judge E wp opts tid l c v w)" for l c v w
    unfolding judge_def review_and_decide_def after_review_def Let_def by (auto intro!: rules d split: sum.split)
  have w: "goes_on tid fl n (after_worker fuel E wp opts tid rid l)" for rid l
    unfolding after_worker_def after_verify_def by (auto intro!: rules j split: sum.split option.split)
  show ?thesis
    unfolding after_launch_def after_wait_def Let_def by (auto intro!: rules w split: sum.split option.split)
qed

lemma cycle_within:
  assumes n: "1 \<le> n" "fl_max_attempts fl \<le> int n" and w: "within tid fl n (fst p)"
    and k: "runs_at_most tid 0 (db (fst p)) \<or> pending_current tid (fst p)"
    and run: "cycle fuel E wp opts tid m seen p = (x, p')"
  shows "within tid fl n (fst p') \<and> (\<forall>seen'. x = Inr (CycleAgain seen') \<longrightarrow> pending_current tid (fst p'))"
proof -
  obtain task where task: "on_core (getTask tid) p = (Inr task, p)" by (cases p) (auto simp: on_core_def getTask_def gets_def)
  show ?thesis
  proof (cases "buildWorkerPrompt task (oo_owner_prompt opts)")
    case (Inl e)
    with run task w show ?thesis by (auto simp: cycle_def bnd_def lift_def)
  next
    case (Inr prompt)
    obtain y p1 where y: "on_core (launch_step E wp tid prompt) p = (y, p1)" by (cases "on_core (launch_step E wp tid prompt) p")
    then have w1: "within tid fl n (fst p1)" using launch_within [OF n(1) w k, of E wp prompt y "fst p1"] by (simp add: on_core_run)
    from run task Inr y have rest: "(case y of Inl e \<Rightarrow> (Inl e, p1) | Inr (run, _) \<Rightarrow> after_launch fuel E wp opts tid m seen run p1) = (x, p')"
      by (auto simp: cycle_def bnd_def lift_def split: sum.splits)
    show ?thesis
    proof (cases y)
      case (Inl e)
      with rest w1 show ?thesis by auto
    next
      case (Inr z)
      with rest have "after_launch fuel E wp opts tid m seen (fst z) p1 = (x, p')" by (auto split: prod.splits)
      with goes_after_launch [OF n(2), unfolded goes_on_def] w1 show ?thesis by blast
    qed
  qed
qed

lemma run_cycles_within:
  assumes n: "1 \<le> n" "fl_max_attempts fl \<le> int n"
  shows "within tid fl n (fst p) \<Longrightarrow> runs_at_most tid 0 (db (fst p)) \<or> pending_current tid (fst p) \<Longrightarrow>
    run_cycles m fuel E wp opts tid k seen p = (x, p') \<Longrightarrow> within tid fl n (fst p')"
proof (induction m arbitrary: k seen p)
  case 0
  have "keeps (\<lambda>p. within tid fl n (fst p)) (run_cycles 0 fuel E wp opts tid k seen)"
    unfolding run_cycles.simps by (intro keeps_rules)
  from keepsD [OF this 0(1) 0(3)] show ?case .
next
  case (Suc m)
  obtain y p1 where y: "cycle fuel E wp opts tid (Suc k) seen p = (y, p1)" by (cases "cycle fuel E wp opts tid (Suc k) seen p")
  note c = cycle_within [OF n Suc.prems(1,2) y]
  show ?case
  proof (cases "\<exists>seen'. y = Inr (CycleAgain seen')")
    case True
    then obtain seen' where "y = Inr (CycleAgain seen')" by blast
    with Suc.prems(3) y c show ?thesis by (auto simp: bnd_def intro!: Suc.IH)
  next
    case False
    with Suc.prems(3) y have "p' = p1" by (auto simp: bnd_def ret_def split: sum.splits cycle_outcome.splits)
    with c show ?thesis by simp
  qed
qed

lemma created_within:
  assumes i: "integrity s" and run: "createAndLockTask E x s = (Inr t, s')"
  shows "within (t_task_id t) (finish_line_of t) 0 s'"
proof -
  from run obtain d s1 where dr: "createDraftTask E x s = (Inr d, s1)" and lo: "lockTask E (t_task_id d) s1 = (Inr t, s')"
    by (auto simp: createAndLockTask_def bnd_Inr)
  from createDraftTask_row [OF dr] have new: "t_task_id d \<notin> t_task_id ` set (tasks (db s))" and "tasks (db s1) = tasks (db s) @ [d]" by simp_all
  then have row: "find_row t_task_id (tasks (db s1)) (t_task_id d) = Some d"
    by (simp add: find_row_append find_row_None [THEN iffD2])
  from lockTask_row [OF lo row] have t: "find_row t_task_id (tasks (db s')) (t_task_id t) = Some t" "t_task_id t = t_task_id d" by auto
  have "runs_at_most (t_task_id d) 0 (db s)"
  proof -
    have "r_task_id ` set (runs (db s)) \<subseteq> t_task_id ` set (tasks (db s))" using i by (simp add: integrity_def wf_db_def)
    with new have "\<forall>r \<in> set (runs (db s)). r_task_id r \<noteq> t_task_id d" by (metis imageI subsetD)
    then show ?thesis by (simp add: runs_at_most_def run_count_def)
  qed
  from keepsD [OF count.createAndLockTask_I this run] keepsD [OF integ.createAndLockTask_I i run] t show ?thesis
    by (simp add: within_def finish_fixed_def)
qed


lemma returns_on_core: "returns (on_core m) p Q = returns m (fst p) (\<lambda>x s. Q x (s, snd p))"
  by (cases p) (simp add: returns_def on_core_def split: prod.split sum.split)

lemma returns_appendEvent: "fresh_env E s \<Longrightarrow> returns (appendEvent E tid rid ty ref p) s Q = Q () (logged E tid rid ty ref p s)"
  by (simp add: returns_def appendEvent_ok)

lemma returns_getTask: "returns (getTask tid) s Q = Q (find_row t_task_id (tasks (db s)) tid) s"
  by (simp add: getTask_def run_wp)

lemma returns_push: "returns (push E step d) p Q = (\<exists>row. Q () ((fst p)\<lparr>ticks := Suc (ticks (fst p))\<rparr>, snd p @ [row]) \<and>
    row = redactSecrets [] 0 (JObj (obj_spread [(''at'', JStr (isoString (env_clock E (ticks (fst p))))), (''step'', JStr step)] d)))"
  by (cases p) (simp add: push_def run_wp returns_on_core returns_nowIso)

definition demo_options :: orch_options where
  "demo_options = \<lparr>oo_github = Some demo_gh, oo_codex = None, oo_getDiff = (\<lambda>n x. Inr (JStr [])), oo_runTaskTests = None,
     oo_runBuildChecks = None, oo_timeout_ms = 1000, oo_ci_poll_ms = 5, oo_ci_timeout_ms = 1000, oo_max_cycles = Some 0,
     oo_owner_prompt = None, oo_sleepFn = (\<lambda>n x. Inr ())\<rparr>"

lemma demo_capped:
  "returns (orchestrate 1 demo_env demo_wp demo_intent demo_options) (new_core, []) (\<lambda>x p. \<exists>r. x = Some r \<and> or_task_id r = ''T1'')"
proof -
  obtain t s1 where cr: "createAndLockTask demo_env demo_intent new_core = (Inr t, s1)" and t: "tasks (db s1) = [t]" "t_task_id t = ''T1''"
    "t_status t = T_LOCKED" "verifyTaskHash demo_env (Some t) = Inr ()" "t_logical_work_id t = js_str_field demo_intent ''logical_work_id''"
    "t_tool_manifest t = \<lparr>providers = [''cursor''], tools = [''code''], mode = ''build''\<rparr>" and fresh: "fresh_env demo_env s1"
    using createAndLockTask_ok [of demo_intent demo_normal "''T1''" new_core demo_env] demo_intent_normal
    by (auto simp: demo_intent_def new_core_def empty_db_def logical_work_free_def demo_normal_def)
  have i: "integrity s1" by (rule keepsD [OF integ.createAndLockTask_I _ cr]) (simp add: integrity_def wf_db_def new_core_def empty_db_def)
  then have ch: "task_checks t" using t by (simp add: integrity_def wf_db_def)
  let ?s2 = "logged demo_env (Some ''T1'') None ORCHESTRATION_STARTED None
     (JObj [(''task_id'', JStr ''T1''), (''intent'', JStr (t_intent t)), (''acceptance_ref'', JStr (t_acceptance_ref t))]) (s1\<lparr>ticks := Suc (ticks s1)\<rparr>)"
  have f1: "fresh_env demo_env (s1\<lparr>ticks := Suc (ticks s1)\<rparr>)" using fresh by (rule fresh_env_mono) simp_all
  obtain u s3 where up: "updateTaskStatus demo_env ''T1'' ''NEEDS_OWNER'' ?s2 = (Inr u, s3)" and s3: "fresh_env demo_env s3"
    "find_row t_task_id (tasks (db s3)) ''T1'' = Some u"
    using updateTaskStatus_ok [of ?s2 "''T1''" t demo_env "''NEEDS_OWNER''" T_NEEDS_OWNER] t ch fresh_env_logged [OF f1]
    by (auto simp: logical_work_free_def update_row_def assertTaskStatus_def)
  have f4: "fresh_env demo_env (s3\<lparr>ticks := Suc (ticks s3)\<rparr>)" using s3(1) by (rule fresh_env_mono) simp_all
  have runs: "returns (createAndLockTask demo_env demo_intent) new_core Q = Q t s1"
    "returns (updateTaskStatus demo_env ''T1'' ''NEEDS_OWNER'') ?s2 Q' = Q' u s3" for Q Q'
    by (simp_all add: returns_def cr up)
  show ?thesis
    using t fresh_env_logged [OF f1]
    by (simp add: orchestrate_def start_orchestration_def announce_def run_wp returns_on_core returns_push getRetryPolicy_def
        runs workerApprovedTools_def sum_bind_def returns_appendEvent f1 returns_getTask demo_options_def
        finalize_def the_row_def returns_nowIso s3 f4 Let_def)
qed


end
