(* ===== verification/Builder.thy ===== *)
theory Builder
  imports TickProps OrchestratorBounds
begin

text \<open>
  The Builder as a state machine: one step is one call of a public operation of \<open>BuilderCore\<close>, of the
  orchestrator or of the tick, with any arguments and any answers from outside, whether it returns
  or raises, or a restart of the process. Shown: what holds of the rows through every sequence of
  steps. \<open>attemptMutateLockedTask\<close>, the one operation that writes a caller's patch on a task, is
  not a step; its guard is treated with the task operations.
\<close>

inductive builder_step :: "env \<Rightarrow> core \<Rightarrow> core \<Rightarrow> bool" for E where
  create: "createAndLockTask E intent s = (r1, s') \<Longrightarrow> builder_step E s s'"
| claim: "claimLogicalWork E intent s = (r2, s') \<Longrightarrow> builder_step E s s'"
| status: "updateTaskStatus E tid st s = (r3, s') \<Longrightarrow> builder_step E s s'"
| run: "createRun E tid prov prid paid n s = (r4, s') \<Longrightarrow> builder_step E s s'"
| active_run: "tryInsertActiveRun E tid prov w rid' prid paid n s = (r5, s') \<Longrightarrow> builder_step E s s'"
| stale: "markRunStale E rid s = (r6, s') \<Longrightarrow> builder_step E s s'"
| launch: "launchCodingWorker E wp tid prompt vars s = (r7, s') \<Longrightarrow> builder_step E s s'"
| launch_on: "launchCodingWorkerOnRun E wp rid prompt vars s = (r8, s') \<Longrightarrow> builder_step E s s'"
| refresh: "refreshWorkerStatus E wp rid s = (r9, s') \<Longrightarrow> builder_step E s s'"
| cancel: "cancelCodingWorker E wp rid s = (r10, s') \<Longrightarrow> builder_step E s s'"
| collect: "collectCodingWorker E wp rid b s = (r11, s') \<Longrightarrow> builder_step E s s'"
| observe: "applyProviderResult E rid v s = (r12, s') \<Longrightarrow> builder_step E s s'"
| approve: "recordApproval E tid who cid sha ast s = (r13, s') \<Longrightarrow> builder_step E s s'"
| tool: "invokeTaskTool E q f s = (r14, s') \<Longrightarrow> builder_step E s s'"
| register: "registerExactCandidate E inp s = (r15, s') \<Longrightarrow> builder_step E s s'"
| landing: "refreshCandidateLanding E cid' gh s = (r16, s') \<Longrightarrow> builder_step E s s'"
| verify: "verifyExactCandidate E cid' gh' t b cl s = (r17, s') \<Longrightarrow> builder_step E s s'"
| revoke_verification: "invalidateVerification E vid why s = (r18, s') \<Longrightarrow> builder_step E s s'"
| review: "reviewExactCandidate E cid' iv gd p s = (r19, s') \<Longrightarrow> builder_step E s s'"
| revoke_review: "invalidateReview E rvid why s = (r20, s') \<Longrightarrow> builder_step E s s'"
| repair: "beginRepairAttempt E tid fc why prov s = (r21, s') \<Longrightarrow> builder_step E s s'"
| ci: "waitForExactCandidateCi k E cid' gh pm tm sl s = (r22, s') \<Longrightarrow> builder_step E s s'"
| owner_task: "runOwnerSoftwareTask k E wp intent opts s = (r23, s') \<Longrightarrow> builder_step E s s'"
| resume: "resumeExactCandidateCiAndVerify k E tid opts s = (r24, s') \<Longrightarrow> builder_step E s s'"
| recover: "reconcileAfterRestart E cb s = (r25, s') \<Longrightarrow> builder_step E s s'"
| tick: "runJarvisTick E F topts (s, d) = (r26, (s', d')) \<Longrightarrow> builder_step E s s'"
| restart: "builder_step E s (construct_core b (db s) (ticks s))"

text \<open>Any number of steps.\<close>

inductive builder_run :: "env \<Rightarrow> core \<Rightarrow> core \<Rightarrow> bool" for E where
  stop: "builder_run E s s"
| step: "builder_run E s s' \<Longrightarrow> builder_step E s' s'' \<Longrightarrow> builder_run E s s''"

inductive_cases builder_run_last: "builder_run E s s'"

lemma construct_core_alt:
  "construct_core b (db s) (ticks s) =
     s\<lparr>current_run := current_run (construct_core b (db s) (ticks s)), last_recovery := None\<rparr>"
  by (simp add: construct_core_def)

context core_invariant
begin

lemma restart_I: "I s \<Longrightarrow> I (construct_core b (db s) (ticks s))"
  by (subst construct_core_alt) (intro recovery_I current_I)

lemma builder_step_I: "builder_step E s s' \<Longrightarrow> I s \<Longrightarrow> I s'"
proof (induction rule: builder_step.induct)
  case (tick F topts s d r26 s' d')
  then show ?case using keepsD [OF runJarvisTick_I [of F topts], where s = "(s, d)"] by fastforce
next
  case (restart s b)
  then show ?case by (rule restart_I)
qed (rule keepsD [rotated 1], assumption, assumption, intro keeps_rules)+

lemma builder_run_I: "builder_run E s s' \<Longrightarrow> I s \<Longrightarrow> I s'"
  by (induction rule: builder_run.induct) (auto intro: builder_step_I)

end

section \<open>Every history of the Builder\<close>


text \<open>The status of a locked task changes and the process restarts; the finish line is still there.\<close>

definition demo_history_end :: core where
  "demo_history_end = (let s = snd (updateTaskStatus demo_env ''T1'' ''RUNNING'' demo_core) in
     construct_core True (db s) (ticks s))"

lemma demo_history: "builder_run demo_env demo_core demo_history_end"
  unfolding demo_history_end_def Let_def
  by (rule builder_run.step [OF builder_run.step [OF builder_run.stop]], rule builder_step.status,
      rule surjective_pairing, rule builder_step.restart)

lemma demo_core_bound: "hash_bound demo_env (db demo_core)"
  by (simp add: hash_bound_def tasks_bound_def)


end
