(* ===== verification/LandingWrites.thy ===== *)
theory LandingWrites
  imports Landing "HOL-Library.Sublist"
begin

text \<open>
  The writing side of the GitHub client (\<open>src/builder/github-landing.js\<close>): the wrapper around the \<open>gh\<close>
  process, the reader of remote URLs, and the opening and closing of pull requests. Shown: the URL of a repository is read
  back to its owner and name, and the number of an opened pull request is the one \<open>gh\<close> printed.
\<close>

section \<open>Running gh\<close>

text \<open>How a child process fails: what it printed and the message of the error; an absent text is empty.\<close>

record exec_failure =
  ef_stderr :: string
  ef_stdout :: string
  ef_message :: string

definition first_nonempty :: "string list \<Rightarrow> string" where
  "first_nonempty xs = (case filter (\<lambda>x. x \<noteq> []) xs of x # _ \<Rightarrow> x | [] \<Rightarrow> ''Error'')"

definition runGh :: "(nat \<Rightarrow> string list \<Rightarrow> exec_failure + string) \<Rightarrow> nat \<Rightarrow> string list \<Rightarrow> js_error + string" where
  "runGh execFileSync n args = (case execFileSync n args of
      Inr out \<Rightarrow> Inr (trim out)
    | Inl err \<Rightarrow> Inl (gitHubLandingError
        (''gh failed: '' @ take 300 (takeWhile (\<lambda>c. c \<noteq> CHR 0x0A) (first_nonempty [ef_stderr err, ef_stdout err, ef_message err])))
        ''GH_CLI_FAILED''))"

section \<open>Remote URLs\<close>

text \<open>
  The pattern \<open>github\.com[:/]([^/]+)\/([^/.]+?)(?:\.git)?$\<close> at one position: both groups are cut off
  by a character they cannot contain, so there is one way to match.
\<close>

definition slug_at :: "string \<Rightarrow> (string \<times> string) option" where
  "slug_at s =
    (let rest = drop 11 s; owner = takeWhile (\<lambda>c. c \<noteq> CHR ''/'') rest; rest2 = dropWhile (\<lambda>c. c \<noteq> CHR ''/'') rest;
         stop = (\<lambda>c. c = CHR ''/'' \<or> c = CHR ''.'');
         repo = takeWhile (\<lambda>c. \<not> stop c) (tl rest2); tail = dropWhile (\<lambda>c. \<not> stop c) (tl rest2) in
     if (prefix ''github.com:'' s \<or> prefix ''github.com/'' s) \<and> owner \<noteq> [] \<and> rest2 \<noteq> [] \<and> repo \<noteq> [] \<and> tail \<in> {[], ''.git''}
     then Some (owner, repo) else None)"

text \<open>The leftmost position at which something is found.\<close>

fun leftmost :: "(string \<Rightarrow> 'a option) \<Rightarrow> string \<Rightarrow> 'a option" where
  "leftmost f [] = f []"
| "leftmost f (c # cs) = (case f (c # cs) of Some x \<Rightarrow> Some x | None \<Rightarrow> leftmost f cs)"

definition parseRepoSlug :: "string \<Rightarrow> js_error + string \<times> string" where
  "parseRepoSlug remoteUrl = (case leftmost slug_at remoteUrl of
      Some x \<Rightarrow> Inr x
    | None \<Rightarrow> Inl (gitHubLandingError (''unsupported github remote: '' @ remoteUrl) ''GITHUB_LANDING_ERROR''))"

section \<open>Pull requests\<close>

text \<open>The digits of \<open>/pull/(\d+)\<close> at one position.\<close>

definition pull_digits_at :: "string \<Rightarrow> string option" where
  "pull_digits_at s =
    (let ds = takeWhile is_digit (drop 6 s) in if prefix ''/pull/'' s \<and> ds \<noteq> [] then Some ds else None)"

text \<open>\<open>out.split('\n')\<close>.\<close>

fun nl_lines :: "string \<Rightarrow> string list" where
  "nl_lines [] = [[]]"
| "nl_lines (c # cs) = (if c = CHR 0x0A then [] # nl_lines cs else (c # hd (nl_lines cs)) # tl (nl_lines cs))"

record opened_pr =
  op_number :: nat
  op_html_url :: string

definition createDraftPullRequest ::
  "(nat \<Rightarrow> string list \<Rightarrow> exec_failure + string) \<Rightarrow> string \<Rightarrow> string \<Rightarrow> nat \<Rightarrow> string \<Rightarrow> string \<Rightarrow> string \<Rightarrow> string
    \<Rightarrow> js_error + opened_pr" where
  "createDraftPullRequest execFileSync owner repo n title body head base =
     sum_bind (runGh execFileSync n [''pr'', ''create'', ''--repo'', owner @ ''/'' @ repo, ''--draft'', ''--base'', base,
       ''--head'', head, ''--title'', title, ''--body'', body]) (\<lambda>out.
     case last_opt (filter (\<lambda>l. l \<noteq> []) (nl_lines out)) of
       None \<Rightarrow> Inl (nativeError ''TypeError'' ''Cannot read properties of undefined (reading 'match')'')
     | Some html_url \<Rightarrow>
         let number = (case leftmost pull_digits_at html_url of None \<Rightarrow> 0 | Some ds \<Rightarrow> digits_value ds) in
         if number = 0 then Inl (gitHubLandingError (''could not parse PR number from: '' @ out) ''GITHUB_LANDING_ERROR'')
         else Inr \<lparr>op_number = number, op_html_url = html_url\<rparr>)"

definition closePullRequest ::
  "(nat \<Rightarrow> string list \<Rightarrow> exec_failure + string) \<Rightarrow> string \<Rightarrow> string \<Rightarrow> nat \<Rightarrow> int \<Rightarrow> js_error + js" where
  "closePullRequest execFileSync owner repo n number =
     sum_bind (runGh execFileSync n [''pr'', ''close'', show_int number, ''--repo'', owner @ ''/'' @ repo]) (\<lambda>_.
     Inr (JObj [(''number'', JNum number), (''closed'', JBool True)]))"

section \<open>Reading back\<close>

lemma takeWhile_until: "\<forall>c \<in> set xs. P c \<Longrightarrow> \<not> P y \<Longrightarrow> takeWhile P (xs @ y # ys) = xs \<and> dropWhile P (xs @ y # ys) = y # ys"
  by (induction xs) auto

lemma takeWhile_all: "\<forall>c \<in> set xs. P c \<Longrightarrow> takeWhile P xs = xs \<and> dropWhile P xs = []"
  by (simp add: takeWhile_eq_all_conv dropWhile_eq_Nil_conv)

lemma slug_at_home:
  assumes "own \<noteq> []" "CHR ''/'' \<notin> set own" "rp \<noteq> []" "CHR ''/'' \<notin> set rp" "CHR ''.'' \<notin> set rp" "suff \<in> {[], ''.git''}"
  shows "slug_at (''github.com/'' @ own @ CHR ''/'' # rp @ suff) = Some (own, rp)"
proof -
  let ?rest = "own @ CHR ''/'' # rp @ suff"
  have sep: "\<forall>c \<in> set own. c \<noteq> CHR ''/''" using assms(2) by auto
  have own: "takeWhile (\<lambda>c. c \<noteq> CHR ''/'') ?rest = own" "dropWhile (\<lambda>c. c \<noteq> CHR ''/'') ?rest = CHR ''/'' # rp @ suff"
    using takeWhile_until [OF sep, of "CHR ''/''" "rp @ suff"] by auto
  let ?P = "\<lambda>c. \<not> (c = CHR ''/'' \<or> c = CHR ''.'')"
  have all: "\<forall>c \<in> set rp. ?P c" using assms(4,5) by auto
  have rp: "takeWhile ?P (rp @ suff) = rp \<and> dropWhile ?P (rp @ suff) = suff"
  proof (cases "suff = []")
    case True
    with takeWhile_all [OF all] show ?thesis by (simp only: append_Nil2)
  next
    case False
    with assms(6) have "suff = CHR ''.'' # ''git''" by simp
    with takeWhile_until [OF all, of "CHR ''.''" "''git''"] show ?thesis by (simp only: simp_thms)
  qed
  have "drop 11 (''github.com/'' @ ?rest) = ?rest" "prefix ''github.com/'' (''github.com/'' @ ?rest)" by simp_all
  with assms(1,3,6) own rp show ?thesis unfolding slug_at_def Let_def by (simp only: list.sel) simp
qed

text \<open>The HTTPS address of a repository, with or without the suffix \<open>.git\<close>, is read back.\<close>

lemma repo_slug_roundtrip:
  assumes "own \<noteq> []" "CHR ''/'' \<notin> set own" "rp \<noteq> []" "CHR ''/'' \<notin> set rp" "CHR ''.'' \<notin> set rp" "suff \<in> {[], ''.git''}"
  shows "parseRepoSlug (''https://github.com/'' @ own @ CHR ''/'' # rp @ suff) = Inr (own, rp)"
proof -
  have skip: "slug_at (c # cs) = None" if "c \<noteq> CHR ''g''" for c cs using that by (auto simp: slug_at_def Let_def)
  have "leftmost slug_at (''https://'' @ x) = leftmost slug_at x" for x by (simp add: skip)
  moreover have "leftmost slug_at (''github.com/'' @ own @ CHR ''/'' # rp @ suff) = Some (own, rp)"
    using slug_at_home [OF assms] by simp
  ultimately show ?thesis by (simp add: parseRepoSlug_def)
qed

text \<open>The number of an opened pull request is the one in the address that \<open>gh\<close> printed.\<close>

lemma nl_lines_one: "CHR 0x0A \<notin> set x \<Longrightarrow> nl_lines x = [x]"
  by (induction x) auto

lemma pull_digits_home: "pull_digits_at (''/pull/'' @ show_nat k) = Some (show_nat k)"
proof -
  have tw: "takeWhile is_digit (show_nat k) = show_nat k" using show_nat_digits [of k] by (simp add: takeWhile_eq_all_conv)
  show ?thesis by (simp add: pull_digits_at_def Let_def tw)
qed

lemma leftmost_skip: "\<forall>i < length x. f (drop i x @ y) = None \<Longrightarrow> leftmost f (x @ y) = leftmost f y"
proof (induction x)
  case (Cons c x)
  then have "f (c # x @ y) = None" "\<forall>i < length x. f (drop i x @ y) = None" by force+
  with Cons.IH show ?case by simp
qed simp

lemma created_number:
  assumes out: "execFileSync n [''pr'', ''create'', ''--repo'', own @ ''/'' @ rp, ''--draft'', ''--base'', base,
       ''--head'', hd_ref, ''--title'', title, ''--body'', body] = Inr printed"
    and printed: "trim printed = home @ ''/pull/'' @ show_nat k" "0 < k" "CHR 0x0A \<notin> set home"
    and home: "\<forall>i < length home. \<not> prefix ''/pull/'' (drop i home @ ''/pull/'' @ show_nat k)"
  shows "createDraftPullRequest execFileSync own rp n title body hd_ref base =
    Inr \<lparr>op_number = k, op_html_url = home @ ''/pull/'' @ show_nat k\<rparr>"
proof -
  let ?url = "home @ ''/pull/'' @ show_nat k"
  have "CHR 0x0A \<notin> set (show_nat k)" using show_nat_digits [of k] by (auto simp: is_digit_def)
  with printed(3) have lines: "nl_lines ?url = [?url]" by (intro nl_lines_one) simp
  have "leftmost pull_digits_at ?url = leftmost pull_digits_at (''/pull/'' @ show_nat k)"
    using home by (intro leftmost_skip) (simp add: pull_digits_at_def Let_def)
  moreover have "leftmost pull_digits_at (''/pull/'' @ show_nat k) = Some (show_nat k)"
    using pull_digits_home [of k] by simp
  ultimately have "leftmost pull_digits_at ?url = Some (show_nat k)" by simp
  with lines printed out show ?thesis
    by (simp add: createDraftPullRequest_def runGh_def sum_bind_def last_opt_def Let_def digits_value_show del: nl_lines.simps)
qed

end
