(* ===== verification/AgencyContracts.thy ===== *)
theory AgencyContracts
  imports TaskLock "HOL-Library.Sublist"
begin

text \<open>
  The contracts of the agency runtime (\<open>src/contracts/\<close>): request hashes and idempotency keys
  (\<open>ids.js\<close>), owner approvals (\<open>approval.js\<close>), authority and kill epochs (\<open>authority.js\<close>), capabilities
  (\<open>capability.js\<close>) and what may follow an ambiguous effect (\<open>runtime/effect-ambiguity.js\<close>,
  \<open>runtime/autonomy.js\<close>). These are functions of their arguments; the database comes with the next
  theory. Shown: exactly when an approval is valid.
\<close>

section \<open>Identifiers\<close>

definition requestHash :: "env \<Rightarrow> js \<Rightarrow> string" where
  "requestHash E canonicalRequest = env_sha256 E (canonicalJson canonicalRequest)"

definition idempotencyKey :: "env \<Rightarrow> string \<Rightarrow> string \<Rightarrow> string \<Rightarrow> string \<Rightarrow> string \<Rightarrow> string" where
  "idempotencyKey E tenant_id workflow_id step_id capability_id request_hash =
     env_sha256 E (tenant_id @ workflow_id @ step_id @ capability_id @ request_hash)"

text \<open>The parts are joined without a separator, so a step and a capability may share their border.\<close>

lemma idempotency_keys_collide:
  "idempotencyKey E t w ''s1'' ''0cap'' h = idempotencyKey E t w ''s10'' ''cap'' h"
  by (simp add: idempotencyKey_def)

section \<open>Errors\<close>

definition agencyError :: "string \<Rightarrow> string \<Rightarrow> string \<Rightarrow> js_error" where
  "agencyError cls code msg = codedError (ExternalError cls) msg code"

definition is_error :: "string \<Rightarrow> js_error \<Rightarrow> bool" where
  "is_error cls e \<longleftrightarrow> err_class e = ExternalError cls"

section \<open>Owner approvals\<close>

record proposal =
  p_proposal_id :: string
  p_tenant_id :: string
  p_workflow_id :: string
  p_step_id :: string
  p_actor :: string
  p_capability_id :: string
  p_target_ref :: string
  p_canonical_request :: js
  p_request_hash :: string
  p_precondition_snapshot_ref :: "string option"
  p_risk_class :: string

record owner_approval =
  oa_approval_id :: string
  oa_proposal_id :: string
  oa_request_hash :: string
  oa_tenant_id :: string
  oa_owner_principal_id :: string
  oa_owner_auth_session_id :: string
  oa_step_up_mfa_required :: bool
  oa_decision :: string
  oa_relevant_state_version :: "string option"
  oa_expires_at :: "nat option"
  oa_consumed_at :: "nat option"

record owner_session =
  os_session_id :: string
  os_owner_principal_id :: string
  os_auth_strength :: string
  os_step_up_verified_at :: "nat option"
  os_step_up_expires_at :: "nat option"
  os_session_expires_at :: "nat option"
  os_revoked_at :: "nat option"

definition reason :: "bool \<Rightarrow> string \<Rightarrow> string list" where
  "reason b msg = (if b then [msg] else [])"

definition before :: "nat option \<Rightarrow> nat \<Rightarrow> bool" where
  "before t tm \<longleftrightarrow> (case t of None \<Rightarrow> False | Some x \<Rightarrow> x < tm)"

definition session_reasons :: "owner_approval \<Rightarrow> owner_session option \<Rightarrow> nat \<Rightarrow> string list" where
  "session_reasons a session tm = (case session of
      None \<Rightarrow> [''no owner session'']
    | Some s \<Rightarrow>
        reason (os_session_id s \<noteq> oa_owner_auth_session_id a) ''session_id does not match approval binding''
        @ reason (os_owner_principal_id s \<noteq> oa_owner_principal_id a) ''owner_principal_id does not match approval binding''
        @ reason (os_revoked_at s \<noteq> None) ''session revoked''
        @ reason (before (os_session_expires_at s) tm) ''session expired'')"

definition step_up_reasons :: "owner_approval \<Rightarrow> owner_session option \<Rightarrow> nat \<Rightarrow> string list" where
  "step_up_reasons a session tm = (case session of
      None \<Rightarrow> []
    | Some s \<Rightarrow>
        if \<not> oa_step_up_mfa_required a then []
        else reason (os_auth_strength s \<noteq> ''step_up_mfa'') ''auth_strength not step_up_mfa''
          @ (case os_step_up_expires_at s of None \<Rightarrow> [''no step-up expiry recorded'']
             | Some x \<Rightarrow> reason (x < tm) ''step-up MFA expired'')
          @ reason (os_step_up_verified_at s = None) ''step-up MFA never verified'')"

definition approval_reasons :: "owner_approval \<Rightarrow> proposal \<Rightarrow> owner_session option \<Rightarrow> nat \<Rightarrow> string list" where
  "approval_reasons a p session tm =
     reason (oa_decision a \<noteq> ''APPROVE'') ''decision is not APPROVE''
     @ reason (oa_consumed_at a \<noteq> None) ''approval already consumed''
     @ reason (before (oa_expires_at a) tm) ''approval expired''
     @ reason (oa_proposal_id a \<noteq> p_proposal_id p) ''proposal_id mismatch''
     @ reason (oa_request_hash a \<noteq> p_request_hash p) ''request_hash mismatch''
     @ session_reasons a session tm
     @ reason (oa_relevant_state_version a \<noteq> None \<and> p_precondition_snapshot_ref p \<noteq> None
         \<and> oa_relevant_state_version a \<noteq> p_precondition_snapshot_ref p)
         ''relevant_state_version no longer matches proposal state''
     @ step_up_reasons a session tm"

definition validateApproval :: "owner_approval option \<Rightarrow> proposal option \<Rightarrow> owner_session option \<Rightarrow> nat \<Rightarrow> bool \<times> string list" where
  "validateApproval approval prop session tm = (case approval of
      None \<Rightarrow> (False, [''no approval record''])
    | Some a \<Rightarrow> (case prop of
        None \<Rightarrow> (False, [''no proposal record''])
      | Some p \<Rightarrow> let reasons = approval_reasons a p session tm in (reasons = [], reasons)))"

definition evaluateRawTextApproval :: "string \<Rightarrow> bool \<times> string list" where
  "evaluateRawTextApproval rawText = (False, [''raw text approval has zero authorization value''])"

text \<open>What a valid approval is: the owner's own decision on this very request, in the session it names.\<close>

definition approves :: "owner_approval \<Rightarrow> proposal \<Rightarrow> owner_session \<Rightarrow> nat \<Rightarrow> bool" where
  "approves a p s tm \<longleftrightarrow> oa_decision a = ''APPROVE'' \<and> oa_consumed_at a = None \<and> \<not> before (oa_expires_at a) tm \<and>
     oa_proposal_id a = p_proposal_id p \<and> oa_request_hash a = p_request_hash p \<and>
     os_session_id s = oa_owner_auth_session_id a \<and> os_owner_principal_id s = oa_owner_principal_id a \<and>
     os_revoked_at s = None \<and> \<not> before (os_session_expires_at s) tm \<and>
     oa_relevant_state_version a \<in> {None, p_precondition_snapshot_ref p} \<union> {v. p_precondition_snapshot_ref p = None} \<and>
     (if oa_step_up_mfa_required a then os_auth_strength s = ''step_up_mfa'' \<and> os_step_up_verified_at s \<noteq> None \<and>
        (\<exists>x. os_step_up_expires_at s = Some x \<and> tm \<le> x) else True)"

lemma reason_Nil [simp]: "reason b m = [] \<longleftrightarrow> \<not> b"
  by (simp add: reason_def)

lemma approval_reasons_Nil:
  "approval_reasons a p session tm = [] \<longleftrightarrow> (\<exists>s. session = Some s \<and> approves a p s tm)"
  by (cases session; cases "os_step_up_expires_at (the session)")
     (auto simp: approval_reasons_def session_reasons_def step_up_reasons_def approves_def)

lemma validateApproval_exact:
  "fst (validateApproval approval prop session tm) \<longleftrightarrow>
     (\<exists>a p s. approval = Some a \<and> prop = Some p \<and> session = Some s \<and> approves a p s tm)"
  by (auto simp: validateApproval_def Let_def approval_reasons_Nil split: option.splits)

section \<open>Authority and kill epochs\<close>

record authority =
  au_active :: bool
  au_revocation_epoch :: int
  au_kill_epoch :: int

definition commitAllowed :: "authority \<Rightarrow> int \<Rightarrow> int \<Rightarrow> bool \<times> string list" where
  "commitAllowed a expectedRevocation expectedKill =
    (let reasons = reason (\<not> au_active a) ''authority not active''
       @ reason (au_revocation_epoch a \<noteq> expectedRevocation) ''revocation_epoch changed before commit''
       @ reason (au_kill_epoch a \<noteq> expectedKill) ''kill_epoch changed before commit''
     in (reasons = [], reasons))"

lemma commitAllowed_iff [simp]:
  "fst (commitAllowed a r k) \<longleftrightarrow> au_active a \<and> au_revocation_epoch a = r \<and> au_kill_epoch a = k"
  by (auto simp: commitAllowed_def Let_def)

section \<open>Capabilities\<close>

definition CONTROL_SURFACES :: "string list" where
  "CONTROL_SURFACES = [''api'', ''mcp'', ''cli'', ''dom'', ''browser_agent'', ''computer_use'', ''human'']"

definition REVERSIBILITIES :: "string list" where
  "REVERSIBILITIES = [''reversible'', ''compensatable'', ''irreversible'']"

definition PROVIDER_IDEMPOTENCY :: "string list" where
  "PROVIDER_IDEMPOTENCY = [''supported'', ''unsupported'', ''unknown'']"

definition CAPABILITY_STATUSES :: "string list" where
  "CAPABILITY_STATUSES = [''active'', ''degraded'', ''disabled'']"

definition FORBIDDEN_SECRET_FIELDS :: "string list" where
  "FORBIDDEN_SECRET_FIELDS = [''password'', ''api_key'', ''apikey'', ''secret'', ''token'', ''access_token'',
     ''refresh_token'', ''client_secret'', ''private_key'', ''bearer'']"

definition capabilityError :: "string \<Rightarrow> js_error" where
  "capabilityError why = \<lparr>err_class = ExternalError ''CapabilityValidationError'', err_code = None,
     err_message = ''invalid capability: '' @ why, err_retryable = False\<rparr>"

definition requireString :: "js \<Rightarrow> string \<Rightarrow> js_error + string" where
  "requireString obj key = (case js_get obj key of
      Some (JStr v) \<Rightarrow> if v = [] then Inl (capabilityError (key @ '' must be a non-empty string'')) else Inr v
    | _ \<Rightarrow> Inl (capabilityError (key @ '' must be a non-empty string'')))"

definition requireEnum :: "js \<Rightarrow> string \<Rightarrow> string list \<Rightarrow> js_error + string" where
  "requireEnum obj key allowed = sum_bind (requireString obj key) (\<lambda>v.
     if v \<in> set allowed then Inr v else Inl (capabilityError (key @ '' must be one of '' @ join_with ''|'' allowed)))"

definition requireObject :: "js \<Rightarrow> string \<Rightarrow> js_error + js" where
  "requireObject obj key = (case js_get obj key of
      Some (JObj kvs) \<Rightarrow> Inr (JObj kvs)
    | _ \<Rightarrow> Inl (capabilityError (key @ '' must be an object'')))"

definition is_jstr :: "js \<Rightarrow> bool" where
  "is_jstr v \<longleftrightarrow> (case v of JStr _ \<Rightarrow> True | _ \<Rightarrow> False)"

definition requireStringArray :: "js \<Rightarrow> string \<Rightarrow> js_error + string list" where
  "requireStringArray obj key = (case js_get obj key of
      Some (JArr xs) \<Rightarrow> if list_all is_jstr xs then Inr (map js_String xs)
        else Inl (capabilityError (key @ '' must be an array of strings''))
    | _ \<Rightarrow> Inl (capabilityError (key @ '' must be an array of strings'')))"

definition requireBool :: "js \<Rightarrow> string \<Rightarrow> js_error + bool" where
  "requireBool obj key = (case js_get obj key of
      Some (JBool b) \<Rightarrow> Inr b | _ \<Rightarrow> Inl (capabilityError (key @ '' must be boolean'')))"

definition assertNoRawSecretFields :: "(string \<times> js) list \<Rightarrow> js_error + unit" where
  "assertNoRawSecretFields kvs = (case List.find (\<lambda>(k, v). map to_lower k \<in> set FORBIDDEN_SECRET_FIELDS) kvs of
      Some (k, v) \<Rightarrow> Inl (capabilityError (''raw credential-bearing field forbidden: '' @ k))
    | None \<Rightarrow> Inr ())"

text \<open>\<open>/^(sk-|Bearer |-----BEGIN )/i\<close>.\<close>

definition looks_secret :: "string \<Rightarrow> bool" where
  "looks_secret v \<longleftrightarrow> (let l = map to_lower v in prefix ''sk-'' l \<or> prefix ''bearer '' l \<or> prefix ''-----begin '' l)"

definition opaque_ref :: "js \<Rightarrow> js_error + string option" where
  "opaque_ref obj = (case js_get obj ''credential_ref'' of
      None \<Rightarrow> Inr None
    | Some JNull \<Rightarrow> Inr None
    | Some (JStr v) \<Rightarrow>
        if v = [] then Inl (capabilityError ''credential_ref must be opaque_ref string or null'')
        else if looks_secret v then Inl (capabilityError ''credential_ref must remain an opaque reference'')
        else Inr (Some v)
    | Some _ \<Rightarrow> Inl (capabilityError ''credential_ref must be opaque_ref string or null''))"

record capability =
  cp_capability_id :: string
  cp_tenant_scope :: string
  cp_provider :: string
  cp_control_surface :: string
  cp_adapter :: string
  cp_operation :: string
  cp_risk_class :: string
  cp_reversibility :: string
  cp_auth_scope :: js
  cp_credential_ref :: "string option"
  cp_provider_idempotency :: string
  cp_postcondition_observable :: bool
  cp_preconditions :: js
  cp_postcondition_verifier :: "string option"
  cp_fallback_routes :: "string list"
  cp_approval_policy :: string
  cp_network_scope :: js
  cp_timeout_retry_policy :: js
  cp_receipt_schema :: string
  cp_status :: string

definition optional_string :: "js \<Rightarrow> string \<Rightarrow> js_error + string option" where
  "optional_string obj key = (case js_get obj key of None \<Rightarrow> Inr None | Some JNull \<Rightarrow> Inr None
     | Some _ \<Rightarrow> sum_bind (requireString obj key) (\<lambda>v. Inr (Some v)))"

definition contract_version_ok :: "js \<Rightarrow> js_error + unit" where
  "contract_version_ok obj =
    (if js_get obj ''contract_version'' \<in> {None, Some JNull, Some (JNum 1)} then Inr ()
     else Inl (capabilityError ''contract_version must be 1''))"

definition capability_fields :: "js \<Rightarrow> js_error + capability" where
  "capability_fields v =
      sum_bind (contract_version_ok v) (\<lambda>_.
      sum_bind (requireString v ''capability_id'') (\<lambda>capability_id.
      sum_bind (requireString v ''tenant_scope'') (\<lambda>tenant_scope.
      sum_bind (requireString v ''provider'') (\<lambda>provider.
      sum_bind (requireEnum v ''control_surface'' CONTROL_SURFACES) (\<lambda>control_surface.
      sum_bind (requireString v ''adapter'') (\<lambda>adapter.
      sum_bind (requireString v ''operation'') (\<lambda>operation.
      sum_bind (requireString v ''risk_class'') (\<lambda>risk_class.
      sum_bind (requireEnum v ''reversibility'' REVERSIBILITIES) (\<lambda>reversibility.
      sum_bind (requireObject v ''auth_scope'') (\<lambda>auth_scope.
      sum_bind (requireEnum v ''provider_idempotency'' PROVIDER_IDEMPOTENCY) (\<lambda>idem.
      sum_bind (requireBool v ''postcondition_observable'') (\<lambda>observable.
      sum_bind (requireObject v ''preconditions'') (\<lambda>preconditions.
      sum_bind (optional_string v ''postcondition_verifier'') (\<lambda>verifier.
      sum_bind (requireStringArray v ''fallback_routes'') (\<lambda>routes.
      sum_bind (requireString v ''approval_policy'') (\<lambda>approval_policy.
      sum_bind (requireObject v ''network_scope'') (\<lambda>network_scope.
      sum_bind (requireObject v ''timeout_retry_policy'') (\<lambda>timeout.
      sum_bind (requireString v ''receipt_schema'') (\<lambda>receipt_schema.
      sum_bind (requireEnum v ''status'' CAPABILITY_STATUSES) (\<lambda>status.
      sum_bind (opaque_ref v) (\<lambda>credential_ref.
      Inr \<lparr>cp_capability_id = capability_id, cp_tenant_scope = tenant_scope, cp_provider = provider,
        cp_control_surface = control_surface, cp_adapter = adapter, cp_operation = operation, cp_risk_class = risk_class,
        cp_reversibility = reversibility, cp_auth_scope = auth_scope, cp_credential_ref = credential_ref,
        cp_provider_idempotency = idem, cp_postcondition_observable = observable, cp_preconditions = preconditions,
        cp_postcondition_verifier = verifier, cp_fallback_routes = routes, cp_approval_policy = approval_policy,
        cp_network_scope = network_scope, cp_timeout_retry_policy = timeout, cp_receipt_schema = receipt_schema,
        cp_status = status\<rparr>)))))))))))))))))))))"

definition validateCapabilityContract :: "js \<Rightarrow> js_error + capability" where
  "validateCapabilityContract v = (case v of
     JObj kvs \<Rightarrow> sum_bind (assertNoRawSecretFields kvs) (\<lambda>_. capability_fields v)
   | _ \<Rightarrow> Inl (capabilityError ''capability must be an object''))"

text \<open>A validated capability as the object it came from; it validates to itself again.\<close>

definition capability_js :: "capability \<Rightarrow> js" where
  "capability_js c = JObj
     [(''contract_version'', JNum 1), (''capability_id'', JStr (cp_capability_id c)), (''tenant_scope'', JStr (cp_tenant_scope c)),
      (''provider'', JStr (cp_provider c)), (''control_surface'', JStr (cp_control_surface c)), (''adapter'', JStr (cp_adapter c)),
      (''operation'', JStr (cp_operation c)), (''risk_class'', JStr (cp_risk_class c)), (''reversibility'', JStr (cp_reversibility c)),
      (''auth_scope'', cp_auth_scope c), (''credential_ref'', jstr_opt (cp_credential_ref c)),
      (''provider_idempotency'', JStr (cp_provider_idempotency c)), (''postcondition_observable'', JBool (cp_postcondition_observable c)),
      (''preconditions'', cp_preconditions c), (''postcondition_verifier'', jstr_opt (cp_postcondition_verifier c)),
      (''fallback_routes'', JArr (map JStr (cp_fallback_routes c))), (''approval_policy'', JStr (cp_approval_policy c)),
      (''network_scope'', cp_network_scope c), (''timeout_retry_policy'', cp_timeout_retry_policy c),
      (''receipt_schema'', JStr (cp_receipt_schema c)), (''status'', JStr (cp_status c))]"

definition is_jobj :: "js \<Rightarrow> bool" where
  "is_jobj v \<longleftrightarrow> (case v of JObj _ \<Rightarrow> True | _ \<Rightarrow> False)"

definition good_capability :: "capability \<Rightarrow> bool" where
  "good_capability c \<longleftrightarrow>
     list_all (\<lambda>x. x \<noteq> []) [cp_capability_id c, cp_tenant_scope c, cp_provider c, cp_adapter c, cp_operation c, cp_risk_class c,
       cp_approval_policy c, cp_receipt_schema c] \<and>
     cp_control_surface c \<in> set CONTROL_SURFACES \<and> cp_reversibility c \<in> set REVERSIBILITIES \<and>
     cp_provider_idempotency c \<in> set PROVIDER_IDEMPOTENCY \<and> cp_status c \<in> set CAPABILITY_STATUSES \<and>
     is_jobj (cp_auth_scope c) \<and> is_jobj (cp_preconditions c) \<and> is_jobj (cp_network_scope c) \<and> is_jobj (cp_timeout_retry_policy c) \<and>
     cp_postcondition_verifier c \<noteq> Some [] \<and> cp_credential_ref c \<noteq> Some [] \<and>
     (case cp_credential_ref c of None \<Rightarrow> True | Some v \<Rightarrow> \<not> looks_secret v)"

lemma sum_bind_Inr: "sum_bind m f = Inr y \<longleftrightarrow> (\<exists>x. m = Inr x \<and> f x = Inr y)"
  by (cases m) (simp_all add: sum_bind_def)

lemma requireString_Inr: "requireString v k = Inr x \<longleftrightarrow> js_get v k = Some (JStr x) \<and> x \<noteq> []"
  by (auto simp: requireString_def split: option.splits js.splits if_splits)

lemma requireEnum_Inr: "requireEnum v k xs = Inr x \<longleftrightarrow> js_get v k = Some (JStr x) \<and> x \<noteq> [] \<and> x \<in> set xs"
  by (auto simp: requireEnum_def sum_bind_Inr requireString_Inr split: if_splits)

lemma requireObject_Inr: "requireObject v k = Inr x \<longleftrightarrow> js_get v k = Some x \<and> is_jobj x"
  by (auto simp: requireObject_def is_jobj_def split: option.splits js.splits)

lemma optional_string_good: "optional_string v k = Inr x \<Longrightarrow> x \<noteq> Some []"
  by (auto simp: optional_string_def sum_bind_Inr requireString_Inr split: option.splits js.splits)

lemma opaque_ref_good: "opaque_ref v = Inr x \<Longrightarrow> x \<noteq> Some [] \<and> (case x of None \<Rightarrow> True | Some r \<Rightarrow> \<not> looks_secret r)"
  by (auto simp: opaque_ref_def split: option.splits js.splits if_splits)

lemma validated_good:
  assumes "validateCapabilityContract v = Inr c"
  shows "good_capability c"
proof (cases v)
  case (JObj kvs)
  with assms obtain idem obs cs rv st au pre net tmo ver rts ref id ts pr ad opn rk ap rs where
    strs: "requireString v ''capability_id'' = Inr id" "requireString v ''tenant_scope'' = Inr ts"
      "requireString v ''provider'' = Inr pr" "requireString v ''adapter'' = Inr ad" "requireString v ''operation'' = Inr opn"
      "requireString v ''risk_class'' = Inr rk" "requireString v ''approval_policy'' = Inr ap" "requireString v ''receipt_schema'' = Inr rs"
    and enums: "requireEnum v ''control_surface'' CONTROL_SURFACES = Inr cs" "requireEnum v ''reversibility'' REVERSIBILITIES = Inr rv"
      "requireEnum v ''provider_idempotency'' PROVIDER_IDEMPOTENCY = Inr idem" "requireEnum v ''status'' CAPABILITY_STATUSES = Inr st"
    and objs: "requireObject v ''auth_scope'' = Inr au" "requireObject v ''preconditions'' = Inr pre"
      "requireObject v ''network_scope'' = Inr net" "requireObject v ''timeout_retry_policy'' = Inr tmo"
    and ver: "optional_string v ''postcondition_verifier'' = Inr ver" and ref: "opaque_ref v = Inr ref"
    and c: "c = \<lparr>cp_capability_id = id, cp_tenant_scope = ts, cp_provider = pr,
        cp_control_surface = cs, cp_adapter = ad, cp_operation = opn, cp_risk_class = rk,
        cp_reversibility = rv, cp_auth_scope = au, cp_credential_ref = ref,
        cp_provider_idempotency = idem, cp_postcondition_observable = obs, cp_preconditions = pre,
        cp_postcondition_verifier = ver, cp_fallback_routes = rts, cp_approval_policy = ap,
        cp_network_scope = net, cp_timeout_retry_policy = tmo, cp_receipt_schema = rs, cp_status = st\<rparr>"
    by (simp only: validateCapabilityContract_def capability_fields_def js.case sum_bind_Inr) blast
  show ?thesis
    using strs enums objs optional_string_good [OF ver] opaque_ref_good [OF ref]
    by (simp add: c good_capability_def requireString_Inr requireEnum_Inr requireObject_Inr)
qed (use assms in \<open>simp_all add: validateCapabilityContract_def\<close>)

lemma require_own:
  "js_get v k = Some (JStr x) \<Longrightarrow> x \<noteq> [] \<Longrightarrow> requireString v k = Inr x"
  "js_get v k = Some (JStr x) \<Longrightarrow> x \<in> set xs \<Longrightarrow> [] \<notin> set xs \<Longrightarrow> requireEnum v k xs = Inr x"
  "js_get v k = Some y \<Longrightarrow> is_jobj y \<Longrightarrow> requireObject v k = Inr y"
  "js_get v k = Some (JBool b) \<Longrightarrow> requireBool v k = Inr b"
  "js_get v k = Some (JArr (map JStr rs)) \<Longrightarrow> requireStringArray v k = Inr rs"
  "js_get v k = Some (jstr_opt ov) \<Longrightarrow> ov \<noteq> Some [] \<Longrightarrow> optional_string v k = Inr ov"
  by (cases ov; auto simp: requireString_Inr requireEnum_Inr requireObject_Inr requireBool_def requireStringArray_def is_jstr_def
      list_all_iff o_def js_of_opt_def optional_string_def sum_bind_Inr)+

lemma capability_js_get [simp]:
  "js_get (capability_js c) ''contract_version'' = Some (JNum 1)"
  "js_get (capability_js c) ''capability_id'' = Some (JStr (cp_capability_id c))"
  "js_get (capability_js c) ''tenant_scope'' = Some (JStr (cp_tenant_scope c))"
  "js_get (capability_js c) ''provider'' = Some (JStr (cp_provider c))"
  "js_get (capability_js c) ''control_surface'' = Some (JStr (cp_control_surface c))"
  "js_get (capability_js c) ''adapter'' = Some (JStr (cp_adapter c))"
  "js_get (capability_js c) ''operation'' = Some (JStr (cp_operation c))"
  "js_get (capability_js c) ''risk_class'' = Some (JStr (cp_risk_class c))"
  "js_get (capability_js c) ''reversibility'' = Some (JStr (cp_reversibility c))"
  "js_get (capability_js c) ''auth_scope'' = Some (cp_auth_scope c)"
  "js_get (capability_js c) ''credential_ref'' = Some (jstr_opt (cp_credential_ref c))"
  "js_get (capability_js c) ''provider_idempotency'' = Some (JStr (cp_provider_idempotency c))"
  "js_get (capability_js c) ''postcondition_observable'' = Some (JBool (cp_postcondition_observable c))"
  "js_get (capability_js c) ''preconditions'' = Some (cp_preconditions c)"
  "js_get (capability_js c) ''postcondition_verifier'' = Some (jstr_opt (cp_postcondition_verifier c))"
  "js_get (capability_js c) ''fallback_routes'' = Some (JArr (map JStr (cp_fallback_routes c)))"
  "js_get (capability_js c) ''approval_policy'' = Some (JStr (cp_approval_policy c))"
  "js_get (capability_js c) ''network_scope'' = Some (cp_network_scope c)"
  "js_get (capability_js c) ''timeout_retry_policy'' = Some (cp_timeout_retry_policy c)"
  "js_get (capability_js c) ''receipt_schema'' = Some (JStr (cp_receipt_schema c))"
  "js_get (capability_js c) ''status'' = Some (JStr (cp_status c))"
  by (simp_all add: capability_js_def)

lemma no_raw_secrets:
  "assertNoRawSecretFields kvs = Inr () \<longleftrightarrow> list_all (\<lambda>k. map to_lower k \<notin> set FORBIDDEN_SECRET_FIELDS) (map fst kvs)"
  by (auto simp: assertNoRawSecretFields_def list_all_iff find_None_iff find_Some_iff split: option.splits) (metis nth_mem fst_conv)

definition capability_keys :: "string list" where
  "capability_keys = [''contract_version'', ''capability_id'', ''tenant_scope'', ''provider'', ''control_surface'', ''adapter'',
     ''operation'', ''risk_class'', ''reversibility'', ''auth_scope'', ''credential_ref'', ''provider_idempotency'',
     ''postcondition_observable'', ''preconditions'', ''postcondition_verifier'', ''fallback_routes'', ''approval_policy'',
     ''network_scope'', ''timeout_retry_policy'', ''receipt_schema'', ''status'']"

lemma capability_keys_clean: "list_all (\<lambda>k. map to_lower k \<notin> set FORBIDDEN_SECRET_FIELDS) capability_keys"
  by code_simp

lemma opaque_ref_own:
  "js_get v ''credential_ref'' = Some (jstr_opt r) \<Longrightarrow> r \<noteq> Some [] \<Longrightarrow>
   (case r of None \<Rightarrow> True | Some x \<Rightarrow> \<not> looks_secret x) \<Longrightarrow> opaque_ref v = Inr r"
  by (cases r) (simp_all add: opaque_ref_def js_of_opt_def)

lemma validate_again:
  assumes "good_capability c"
  shows "validateCapabilityContract (capability_js c) = Inr c"
proof -
  obtain kvs where o: "capability_js c = JObj kvs" and "map fst kvs = capability_keys"
    by (simp add: capability_js_def capability_keys_def)
  with capability_keys_clean have "assertNoRawSecretFields kvs = Inr ()"
    by (simp add: no_raw_secrets)
  moreover have names: "[] \<notin> set CONTROL_SURFACES" "[] \<notin> set REVERSIBILITIES" "[] \<notin> set PROVIDER_IDEMPOTENCY" "[] \<notin> set CAPABILITY_STATUSES"
    by (simp_all add: CONTROL_SURFACES_def REVERSIBILITIES_def PROVIDER_IDEMPOTENCY_def CAPABILITY_STATUSES_def)
  from assms have "capability_fields (capability_js c) = Inr c"
    by (simp add: capability_fields_def good_capability_def sum_bind_def contract_version_ok_def opaque_ref_own names
        require_own)
  ultimately show ?thesis
    by (simp add: validateCapabilityContract_def sum_bind_def o)
qed

record ambiguity_policy =
  ap_retryable :: bool
  ap_min_verdict :: "string option"
  ap_ambiguous_completion :: string
  ap_reason_codes :: "string list"

text \<open>\<open>classifyAmbiguousOutcomePolicy\<close> on a capability that has been validated; validating it again
  changes nothing.\<close>

definition classifyAmbiguousOutcomePolicy :: "capability \<Rightarrow> ambiguity_policy" where
  "classifyAmbiguousOutcomePolicy cap =
    (if cp_provider_idempotency cap \<noteq> ''supported'' \<and> \<not> cp_postcondition_observable cap then
       \<lparr>ap_retryable = False, ap_min_verdict = Some ''APPROVAL_REQUIRED'', ap_ambiguous_completion = ''human_or_blocked'',
        ap_reason_codes = [''PROVIDER_IDEMPOTENCY_NOT_SUPPORTED_OR_UNKNOWN'', ''POSTCONDITION_NOT_OBSERVABLE'',
          ''AUTONOMOUS_RETRY_FORBIDDEN_AFTER_AMBIGUITY'']\<rparr>
     else \<lparr>ap_retryable = (cp_provider_idempotency cap = ''supported''), ap_min_verdict = None,
        ap_ambiguous_completion = ''policy_dependent'', ap_reason_codes = []\<rparr>)"

section \<open>After an ambiguous effect\<close>

definition ambiguous_prior :: "string option \<Rightarrow> string option \<Rightarrow> bool" where
  "ambiguous_prior outcome post \<longleftrightarrow> outcome = Some ''AMBIGUOUS'' \<or>
     post \<in> {Some ''AMBIGUOUS'', Some ''UNKNOWN'', Some ''UNVERIFIED''}"

text \<open>The codes of the refusal, if the retry is refused.\<close>

definition assertAutonomousRetryAllowedAfterAmbiguity ::
  "capability \<Rightarrow> string option \<Rightarrow> string option \<Rightarrow> string list + string list" where
  "assertAutonomousRetryAllowedAfterAmbiguity cap outcome post =
    (if \<not> ambiguous_prior outcome post then Inr []
     else let policy = classifyAmbiguousOutcomePolicy cap in
       if \<not> ap_retryable policy then Inl (''AUTONOMOUS_RETRY_FORBIDDEN_AFTER_AMBIGUITY'' # ap_reason_codes policy)
       else Inr (ap_reason_codes policy))"

definition BROWSER_ORGO_SURFACES :: "string list" where
  "BROWSER_ORGO_SURFACES = [''browser'', ''orgo'', ''browser_orgo'', ''browser_orgo_fallback'']"

definition to_upper :: "char \<Rightarrow> char" where
  "to_upper c = (let n = (of_char c :: nat) in if 97 \<le> n \<and> n \<le> 122 then char_of (n - 32) else c)"

definition assertCrossSurfaceFallbackAllowed ::
  "string option \<Rightarrow> string option \<Rightarrow> bool \<Rightarrow> string + string list" where
  "assertCrossSurfaceFallbackAllowed fallback_surface postcondition durable =
    (case fallback_surface of
       None \<Rightarrow> Inr []
     | Some f \<Rightarrow>
       if f = [] \<or> map to_lower f \<notin> set BROWSER_ORGO_SURFACES then Inr []
       else if \<not> durable then Inl ''FALLBACK_REQUIRES_DURABLE_POSTCONDITION''
       else let status = (case postcondition of None \<Rightarrow> [] | Some p \<Rightarrow> map to_upper p) in
         if status = ''ABSENT'' \<or> status = ''VERIFIED_ABSENT'' then Inr [''PRIOR_EFFECT_VERIFIED_ABSENT'']
         else Inl ''BROWSER_ORGO_FALLBACK_FORBIDDEN'')"

section \<open>Switches\<close>

definition BUSINESS_WRITE_AUTONOMY :: bool where "BUSINESS_WRITE_AUTONOMY = False"

definition LIVE_EXTERNAL_SIDE_EFFECTS :: bool where "LIVE_EXTERNAL_SIDE_EFFECTS = False"

definition assertBusinessWriteAutonomyDisabled :: "js_error + unit" where
  "assertBusinessWriteAutonomyDisabled =
    (if BUSINESS_WRITE_AUTONOMY then Inl (plainError ''BUSINESS_WRITE_AUTONOMY must remain DISABLED'')
     else if LIVE_EXTERNAL_SIDE_EFFECTS then Inl (plainError ''LIVE_EXTERNAL_SIDE_EFFECTS must remain DISABLED'')
     else Inr ())"

end
