(* ===== verification/AgencyDb.thy ===== *)
theory AgencyDb
  imports AgencyContracts
begin

text \<open>
  The database of the agency runtime as its transactions see it (\<open>src/db/index.js\<close>,
  \<open>src/security/tenant-context.js\<close>, the tables of \<open>migrations/\<close>) and the readers of
  \<open>src/contracts/\<close>. A transaction sees only the rows of its tenant. Between two of its statements
  other sessions commit: the control tables (proposals, approvals, grants, capabilities, authority,
  recovery), which the executor only reads, are given per statement by \<open>a_control\<close>, and the
  tables it writes are changed by \<open>a_other\<close>. Any statement may fail (\<open>a_fault\<close>); after a failed statement
  the transaction refuses all others until it is rolled back, to a savepoint or altogether.
  Shown: what a failed transaction leaves, and what the readers return.
\<close>

section \<open>Tables\<close>

record grant =
  gr_grant_id :: string
  gr_tenant_id :: string
  gr_principal :: string
  gr_capability_action_scope :: js
  gr_approval_mode :: "string option"
  gr_effective_at :: nat
  gr_expires_at :: "nat option"
  gr_policy_version :: string
  gr_status :: string

record control =
  k_proposals :: "proposal list"
  k_approvals :: "owner_approval list"
  k_sessions :: "owner_session list"
  k_grants :: "grant list"
  k_capabilities :: "(string \<times> capability) list"
  k_authority :: "(string \<times> authority) list"
  k_writers_frozen :: "bool option"

record policy_decision =
  pd_decision_id :: string
  pd_tenant_id :: string
  pd_proposal_id :: string
  pd_applicable_grants :: "string list"
  pd_policy_version :: string
  pd_verdict :: string
  pd_reason_codes :: "string list"
  pd_revocation_epoch :: int
  pd_kill_epoch :: int

record ledger_row =
  el_effect_id :: string
  el_tenant_id :: string
  el_key :: string
  el_proposal_id :: string
  el_workflow_id :: string
  el_step_id :: string
  el_capability_id :: string
  el_request_hash :: string
  el_status :: string
  el_commit_token :: "string option"
  el_postcondition_status :: "string option"
  el_receipt_id :: "string option"
  el_outcome :: "string option"
  el_error_class :: "string option"
  el_revocation_epoch :: "int option"
  el_kill_epoch :: "int option"
  el_started_at :: nat
  el_committed_at :: "nat option"
  el_completed_at :: "nat option"

record receipt =
  rc_receipt_id :: string
  rc_tenant_id :: string
  rc_workflow_id :: string
  rc_step_id :: string
  rc_actor :: string
  rc_capability_id :: string
  rc_provider :: string
  rc_operation :: string
  rc_target_ref :: string
  rc_key :: string
  rc_request_hash :: string
  rc_precondition_snapshot_ref :: "string option"
  rc_authority_decision_ref :: "string option"
  rc_approval_ref :: "string option"
  rc_revocation_epoch :: "int option"
  rc_kill_epoch :: "int option"
  rc_started_at :: nat
  rc_committed_at :: "nat option"
  rc_provider_request_id :: "string option"
  rc_postcondition_verifier :: "string option"
  rc_verification_status :: string
  rc_error_class :: "string option"
  rc_trace_id :: string

record trace =
  tr_trace_id :: string
  tr_tenant_id :: string
  tr_workflow_id :: "string option"
  tr_root_span :: string
  tr_attributes :: js

record flight =
  fl_flight_id :: string
  fl_tenant_id :: string
  fl_subject_ref :: string
  fl_routine_id :: string
  fl_logical_stage :: string
  fl_workflow_id :: string
  fl_status :: string
  fl_created_at :: nat
  fl_expires_at :: "nat option"
  fl_completed_at :: "nat option"
  fl_cancel_reason :: "string option"

record claim =
  cl_claim_id :: string
  cl_tenant_id :: string
  cl_subject_ref :: string
  cl_semantic_action_key :: string
  cl_workflow_id :: string
  cl_effect_id :: "string option"

record effects =
  f_decisions :: "policy_decision list"
  f_ledger :: "ledger_row list"
  f_receipts :: "receipt list"
  f_traces :: "trace list"
  f_flights :: "flight list"
  f_claims :: "claim list"

section \<open>Transactions\<close>

text \<open>What the external system holds for an idempotency key (\<open>local-effect-adapter.js\<close>). It is no part of the
  database, so no rollback undoes it.\<close>

record commit_record =
  cr_commit_token :: string
  cr_request :: js
  cr_committed_at :: nat

record agency =
  g_effects :: effects
  g_tenant :: "string option"
  g_n :: nat
  g_uuids :: nat
  g_aborted :: bool
  g_locks :: "(string \<times> string) list"
  g_store :: "string \<Rightarrow> commit_record option"

record agency_env =
  a_control :: "nat \<Rightarrow> control"
  a_other :: "nat \<Rightarrow> effects \<Rightarrow> effects"
  a_fault :: "nat \<Rightarrow> bool"
  a_clock :: "nat \<Rightarrow> nat"
  a_sys :: env
  a_role :: string

type_synonym 'a aact = "(agency, js_error, 'a) act"

definition sqlError :: "string \<Rightarrow> js_error" where
  "sqlError msg = plainError msg"

definition uniqueViolation :: js_error where
  "uniqueViolation = codedError UniqueViolation ''duplicate key value violates unique constraint'' ''23505''"

definition constraintViolation :: "string \<Rightarrow> js_error" where
  "constraintViolation msg = \<lparr>err_class = ConstraintViolation, err_code = None, err_message = msg, err_retryable = False\<rparr>"

definition statement :: "agency_env \<Rightarrow> (control \<Rightarrow> string option \<Rightarrow> effects \<Rightarrow> js_error + 'a \<times> effects) \<Rightarrow> 'a aact" where
  "statement A f s =
    (let n = g_n s; s1 = s\<lparr>g_effects := a_other A n (g_effects s), g_n := Suc n\<rparr> in
     if g_aborted s then (Inl (sqlError ''current transaction is aborted''), s1)
     else if a_fault A n then (Inl (sqlError ''Connection terminated''), s1\<lparr>g_aborted := True\<rparr>)
     else case f (a_control A n) (g_tenant s) (g_effects s1) of
       Inl e \<Rightarrow> (Inl e, s1\<lparr>g_aborted := True\<rparr>)
     | Inr (x, d) \<Rightarrow> (Inr x, s1\<lparr>g_effects := d\<rparr>))"

text \<open>A statement that reads, and one that writes without answering.\<close>

definition select :: "agency_env \<Rightarrow> (control \<Rightarrow> string option \<Rightarrow> effects \<Rightarrow> 'a) \<Rightarrow> 'a aact" where
  "select A f = statement A (\<lambda>k t d. Inr (f k t d, d))"

definition execute :: "agency_env \<Rightarrow> (control \<Rightarrow> string option \<Rightarrow> effects \<Rightarrow> js_error + effects) \<Rightarrow> unit aact" where
  "execute A f = statement A (\<lambda>k t d. case f k t d of Inl e \<Rightarrow> Inl e | Inr d' \<Rightarrow> Inr ((), d'))"

text \<open>Row level security: the rows a transaction sees.\<close>

definition visible :: "('r \<Rightarrow> string) \<Rightarrow> string option \<Rightarrow> 'r list \<Rightarrow> 'r list" where
  "visible tenant t rs = filter (\<lambda>r. t = Some (tenant r)) rs"

definition randomUUID :: "agency_env \<Rightarrow> string aact" where
  "randomUUID A s = (Inr (env_uuid (a_sys A) (g_uuids s)), s\<lparr>g_uuids := Suc (g_uuids s)\<rparr>)"

definition Date_now :: "agency_env \<Rightarrow> nat aact" where
  "Date_now A = gets (\<lambda>s. a_clock A (g_n s))"

text \<open>A failed attempt inside a savepoint is rolled back, and the transaction goes on. The statements
  that set, release and roll back to the savepoint may fail themselves.\<close>

definition savepoint :: "agency_env \<Rightarrow> unit aact \<Rightarrow> (js_error + unit) aact" where
  "savepoint A m s =
    (case thn (select A (\<lambda>k t d. ())) (bnd (gets g_effects) (\<lambda>d.
        bnd (attempt (thn m (select A (\<lambda>k t d. ())))) (\<lambda>r. ret (d, r)))) s of
       (Inl e, s') \<Rightarrow> (Inr (Inl e), s')
     | (Inr (d, Inr u), s') \<Rightarrow> (Inr (Inr ()), s')
     | (Inr (d, Inl e), s') \<Rightarrow>
         if a_fault A (g_n s') then (Inr (Inl e), s'\<lparr>g_n := Suc (g_n s'), g_effects := a_other A (g_n s') (g_effects s')\<rparr>)
         else (Inr (Inl e), s'\<lparr>g_n := Suc (g_n s'), g_effects := a_other A (g_n s') d, g_aborted := False\<rparr>))"

definition set_tenant :: "agency_env \<Rightarrow> string \<Rightarrow> unit aact" where
  "set_tenant A t = thn (select A (\<lambda>k u d. ())) (modify (\<lambda>s. s\<lparr>g_tenant := Some t\<rparr>))"

definition currentTenant :: "agency_env \<Rightarrow> string option aact" where
  "currentTenant A = select A (\<lambda>k t d. t)"

text \<open>\<open>tx\<close>: begin, run, commit. On a raise, on a commit that fails and on the commit of a transaction that
  is aborted the tables are as they were at its begin; the tenant and the locks are gone
  in every case. (What others committed meanwhile comes back with the next of their steps.)\<close>

definition rolled_back :: "agency \<Rightarrow> agency \<Rightarrow> agency" where
  "rolled_back s0 s = s\<lparr>g_effects := g_effects s0, g_tenant := None, g_aborted := False, g_locks := []\<rparr>"

definition tx :: "agency_env \<Rightarrow> 'a aact \<Rightarrow> 'a aact" where
  "tx A m s =
    (let n = g_n s;
         s0 = s\<lparr>g_n := Suc n, g_effects := a_other A n (g_effects s), g_aborted := False, g_tenant := None, g_locks := []\<rparr> in
     if a_fault A n then (Inl (sqlError ''Connection terminated''), s0)
     else case m s0 of
       (Inl e, s') \<Rightarrow> (Inl e, rolled_back s0 s')
     | (Inr x, s') \<Rightarrow>
         let s1 = s'\<lparr>g_n := Suc (g_n s')\<rparr> in
         if a_fault A (g_n s') then (Inl (sqlError ''Connection terminated''), rolled_back s0 s1)
         else if g_aborted s' then (Inr x, rolled_back s0 s1)
         else (Inr x, s1\<lparr>g_tenant := None, g_locks := []\<rparr>))"

definition runForTenant :: "agency_env \<Rightarrow> string \<Rightarrow> 'a aact \<Rightarrow> 'a aact" where
  "runForTenant A trustedTenantId fn =
    (if trustedTenantId = [] then throw (plainError ''runForTenant: missing trusted tenant context (fail-closed)'')
     else tx A (thn (set_tenant A trustedTenantId) fn))"

section \<open>Readers\<close>

definition requireTenant :: "agency_env \<Rightarrow> js_error \<Rightarrow> string aact" where
  "requireTenant A e = bnd (currentTenant A) (\<lambda>t. case t of None \<Rightarrow> throw e | Some t \<Rightarrow> if t = [] then throw e else ret t)"

definition loadProposal :: "agency_env \<Rightarrow> string \<Rightarrow> proposal option aact" where
  "loadProposal A proposalId = select A (\<lambda>k t d. find_row p_proposal_id (visible p_tenant_id t (k_proposals k)) proposalId)"

definition loadApproval :: "agency_env \<Rightarrow> string \<Rightarrow> owner_approval option aact" where
  "loadApproval A approvalId = select A (\<lambda>k t d. find_row oa_approval_id (visible oa_tenant_id t (k_approvals k)) approvalId)"

text \<open>The owner's sessions belong to no tenant; the runtime role has no right to read them
  (migration \<open>0003_owner_auth.sql\<close>, line 38).\<close>

definition loadOwnerSession :: "agency_env \<Rightarrow> string \<Rightarrow> owner_session option aact" where
  "loadOwnerSession A sessionId = statement A (\<lambda>k t d.
     if a_role A = ''app_runtime'' then Inl (sqlError ''permission denied for table owner_sessions'')
     else Inr (find_row os_session_id (k_sessions k) sessionId, d))"

definition authorityUnavailable :: js_error where
  "authorityUnavailable = \<lparr>err_class = ExternalError ''AuthorityUnavailableError'', err_code = None,
     err_message = ''authority state unavailable for tenant <runtime: missing tenant context> (fail-closed)'', err_retryable = False\<rparr>"

definition authority_at :: "control \<Rightarrow> string option \<Rightarrow> authority option" where
  "authority_at k t = (case t of None \<Rightarrow> None | Some u \<Rightarrow> map_option snd (find_row fst (k_authority k) u))"

definition readFreshAuthority :: "agency_env \<Rightarrow> authority aact" where
  "readFreshAuthority A = bnd (select A (\<lambda>k t d. authority_at k t)) (\<lambda>row.
     case row of None \<Rightarrow> throw authorityUnavailable | Some a \<Rightarrow> ret a)"

definition revalidateBeforeCommit :: "agency_env \<Rightarrow> int \<Rightarrow> int \<Rightarrow> ((bool \<times> string list) \<times> authority) aact" where
  "revalidateBeforeCommit A priorRevocationEpoch priorKillEpoch =
     bnd (readFreshAuthority A) (\<lambda>fresh. ret (commitAllowed fresh priorRevocationEpoch priorKillEpoch, fresh))"

subsection \<open>Grants\<close>

definition scopeAllowsCapability :: "js \<Rightarrow> string \<Rightarrow> bool" where
  "scopeAllowsCapability scope capabilityId = (case scope of
     JObj kvs \<Rightarrow> js_get scope ''allow_all'' = Some (JBool True) \<or>
       (case (case js_get scope ''capability_ids'' of
          None \<Rightarrow> js_get scope ''capabilities'' | Some JNull \<Rightarrow> js_get scope ''capabilities'' | Some v \<Rightarrow> Some v) of
        Some (JArr ids) \<Rightarrow> JStr capabilityId \<in> set ids | _ \<Rightarrow> False)
   | _ \<Rightarrow> False)"

definition grantError :: "string \<Rightarrow> string \<Rightarrow> js_error" where
  "grantError = agencyError ''GrantError''"

definition grant_active :: "grant \<Rightarrow> string \<Rightarrow> nat \<Rightarrow> bool" where
  "grant_active g capabilityId tm \<longleftrightarrow> scopeAllowsCapability (gr_capability_action_scope g) capabilityId
     \<and> gr_effective_at g \<le> tm \<and> (case gr_expires_at g of None \<Rightarrow> True | Some x \<Rightarrow> tm < x)"

definition active_grant :: "control \<Rightarrow> string option \<Rightarrow> string \<Rightarrow> string \<Rightarrow> nat \<Rightarrow> grant option" where
  "active_grant k t who capabilityId tm =
     List.find (\<lambda>g. grant_active g capabilityId tm)
       (sort_key (\<lambda>g. - int (gr_effective_at g))
         (filter (\<lambda>g. gr_principal g = who \<and> gr_status g = ''active'') (visible gr_tenant_id t (k_grants k))))"

definition loadActiveGrant :: "agency_env \<Rightarrow> string \<Rightarrow> string \<Rightarrow> grant option aact" where
  "loadActiveGrant A who capabilityId = bnd (Date_now A) (\<lambda>tm.
     if who = [] then throw (grantError ''INVALID_PRINCIPAL'' ''principal required'')
     else if capabilityId = [] then throw (grantError ''INVALID_CAPABILITY_ID'' ''capability_id required'')
     else thn (requireTenant A (grantError ''MISSING_TENANT_CONTEXT'' ''missing tenant context: grant load refused''))
       (select A (\<lambda>k t d. active_grant k t who capabilityId tm)))"

definition loadGrantById :: "agency_env \<Rightarrow> string \<Rightarrow> grant option aact" where
  "loadGrantById A grantId = select A (\<lambda>k t d. find_row gr_grant_id (visible gr_tenant_id t (k_grants k)) grantId)"

subsection \<open>Capabilities\<close>

definition resolutionError :: "string \<Rightarrow> string \<Rightarrow> js_error" where
  "resolutionError = agencyError ''CapabilityResolutionError''"

definition rowToCapability :: "string \<times> capability \<Rightarrow> js_error + capability" where
  "rowToCapability row = validateCapabilityContract (capability_js (snd row))"

definition loadCapabilityRow :: "agency_env \<Rightarrow> string \<Rightarrow> (string \<times> capability) option aact" where
  "loadCapabilityRow A capabilityId =
    (if capabilityId = [] then throw (resolutionError ''INVALID_CAPABILITY_ID'' ''capability_id required'')
     else thn (requireTenant A (resolutionError ''MISSING_TENANT_CONTEXT''
         ''missing tenant context: capability resolution refused (fail-closed)''))
       (select A (\<lambda>k t d. find_row (\<lambda>r. cp_capability_id (snd r)) (visible fst t (k_capabilities k)) capabilityId)))"

record resolution =
  rs_executable :: bool
  rs_treated_as_active :: bool
  rs_lifecycle_status :: string
  rs_capability :: capability
  rs_ambiguity_policy :: ambiguity_policy

definition resolveCapability :: "agency_env \<Rightarrow> string \<Rightarrow> resolution aact" where
  "resolveCapability A capabilityId = bnd (loadCapabilityRow A capabilityId) (\<lambda>row. case row of
     None \<Rightarrow> throw (resolutionError ''UNKNOWN_CAPABILITY'' (''unknown capability: '' @ capabilityId @ '' (fail-closed)''))
   | Some row \<Rightarrow> bnd (lift (rowToCapability row)) (\<lambda>capability.
       if cp_capability_id capability \<noteq> capabilityId
       then throw (resolutionError ''CAPABILITY_ID_MUTATION'' ''capability_id must not mutate during resolution'')
       else let status = cp_status capability; ambiguity = classifyAmbiguousOutcomePolicy capability in
         if status = ''disabled'' then ret \<lparr>rs_executable = False, rs_treated_as_active = False, rs_lifecycle_status = ''disabled'',
           rs_capability = capability, rs_ambiguity_policy = ambiguity\<rparr>
         else if status = ''degraded'' then ret \<lparr>rs_executable = True, rs_treated_as_active = False, rs_lifecycle_status = ''degraded'',
           rs_capability = capability, rs_ambiguity_policy = ambiguity\<rparr>
         else ret \<lparr>rs_executable = True, rs_treated_as_active = (status = ''active''), rs_lifecycle_status = ''active'',
           rs_capability = capability, rs_ambiguity_policy = ambiguity\<rparr>))"

definition resolveExecutableCapability :: "agency_env \<Rightarrow> string \<Rightarrow> resolution aact" where
  "resolveExecutableCapability A capabilityId = bnd (resolveCapability A capabilityId) (\<lambda>res.
     if \<not> rs_executable res then throw (resolutionError ''CAPABILITY_NOT_EXECUTABLE''
       (''capability '' @ capabilityId @ '' status='' @ rs_lifecycle_status res @ '' is not executable''))
     else ret res)"

subsection \<open>Writers, locks and traces\<close>

definition writersFrozenError :: js_error where
  "writersFrozenError = agencyError ''WritersFrozenError'' ''WRITERS_FROZEN'' ''writers frozen until Postgres/DBOS/providers reconcile''"

definition readRecovery :: "agency_env \<Rightarrow> bool aact" where
  "readRecovery A = bnd (select A (\<lambda>k t d. k_writers_frozen k)) (\<lambda>row. case row of
     None \<Rightarrow> throw (agencyError ''DbosError'' ''RECOVERY_CONTROL_MISSING'' ''recovery_control singleton missing (fail-closed)'')
   | Some frozen \<Rightarrow> ret frozen)"

definition assertWritersAllowed :: "agency_env \<Rightarrow> unit aact" where
  "assertWritersAllowed A = bnd (readRecovery A) (\<lambda>frozen. if frozen then throw writersFrozenError else ret ())"

text \<open>The lock's identity is computed by one statement and taken by the next; it is held until the
  transaction ends.\<close>

definition LOCAL_EFFECT_SCOPE_TENANT :: string where "LOCAL_EFFECT_SCOPE_TENANT = ''*''"

definition localEffectScopeLockIdentity :: "agency_env \<Rightarrow> string \<Rightarrow> (string \<times> string) aact" where
  "localEffectScopeLockIdentity A tenantId =
    (if tenantId = [] then throw (agencyError ''ReconciliationError'' ''MISSING_TENANT_CONTEXT'' ''tenantId required for scope lock'')
     else select A (\<lambda>k t d. (tenantId, LOCAL_EFFECT_SCOPE_TENANT)))"

definition acquireLocalEffectScopeLock :: "agency_env \<Rightarrow> string \<Rightarrow> (string \<times> string) aact" where
  "acquireLocalEffectScopeLock A tenantId = bnd (localEffectScopeLockIdentity A tenantId) (\<lambda>identity.
     thn (select A (\<lambda>k t d. ())) (thn (modify (\<lambda>s. s\<lparr>g_locks := List.insert identity (g_locks s)\<rparr>)) (ret identity)))"

definition createExecutionTrace :: "agency_env \<Rightarrow> trace \<Rightarrow> string aact" where
  "createExecutionTrace A tr =
    thn (lift assertBusinessWriteAutonomyDisabled)
    (if tr_tenant_id tr = [] then throw (agencyError ''ObservabilityError'' ''INVALID_TRACE'' ''tenant_id required'')
     else bnd (randomUUID A) (\<lambda>traceId.
       thn (execute A (\<lambda>k t d.
         if t \<noteq> Some (tr_tenant_id tr) then Inl (constraintViolation ''new row violates row-level security policy'')
         else if traceId \<in> tr_trace_id ` set (f_traces d) then Inl uniqueViolation
         else Inr (d\<lparr>f_traces := f_traces d @ [tr\<lparr>tr_trace_id := traceId\<rparr>]\<rparr>)))
       (ret traceId)))"

end
