(* ===== verification/SingleFlight.thy ===== *)
theory SingleFlight
  imports AgencyDb
begin

text \<open>
  Decision flights and semantic claims (\<open>src/runtime/single-flight.js\<close>): one active workflow per
  subject, routine and stage, and one owner per logical customer effect. Strings that are absent are
  empty here; both are falsy in the source. SQL's \<open>now()\<close> is the clock when the operation begins.
\<close>

definition flightError :: "string \<Rightarrow> string \<Rightarrow> js_error" where
  "flightError = agencyError ''SingleFlightError''"

abbreviation flight_tenant :: "agency_env \<Rightarrow> string aact" where
  "flight_tenant A \<equiv> requireTenant A (flightError ''MISSING_TENANT_CONTEXT'' ''missing tenant context (fail-closed)'')"

type_synonym flight_key = "string \<times> string \<times> string"

definition fl_key :: "flight \<Rightarrow> flight_key" where
  "fl_key f = (fl_subject_ref f, fl_routine_id f, fl_logical_stage f)"

definition requireParts :: "flight_key \<Rightarrow> js_error + unit" where
  "requireParts q = (case q of (subject_ref, routine_id, logical_stage) \<Rightarrow>
     if subject_ref = [] \<or> routine_id = [] \<or> logical_stage = []
     then Inl (flightError ''INVALID_FLIGHT_KEY'' ''subject_ref, routine_id, and logical_stage are required'')
     else Inr ())"

definition own_active :: "string option \<Rightarrow> (flight \<Rightarrow> bool) \<Rightarrow> flight \<Rightarrow> bool" where
  "own_active t P f \<longleftrightarrow> t = Some (fl_tenant_id f) \<and> P f \<and> fl_status f = ''ACTIVE''"

definition finish_flight :: "string \<Rightarrow> nat \<Rightarrow> flight \<Rightarrow> flight" where
  "finish_flight status tm f = f\<lparr>fl_status := status, fl_completed_at := Some tm\<rparr>"

definition expire_flight :: "nat \<Rightarrow> flight \<Rightarrow> flight" where
  "expire_flight tm f = f\<lparr>fl_status := ''EXPIRED'',
     fl_completed_at := Some (case fl_completed_at f of None \<Rightarrow> tm | Some x \<Rightarrow> x)\<rparr>"

definition update_flights :: "(flight \<Rightarrow> bool) \<Rightarrow> (flight \<Rightarrow> flight) \<Rightarrow> effects \<Rightarrow> effects" where
  "update_flights P f d = d\<lparr>f_flights := map (\<lambda>r. if P r then f r else r) (f_flights d)\<rparr>"

definition expire_stale :: "agency_env \<Rightarrow> (flight \<Rightarrow> bool) \<Rightarrow> nat \<Rightarrow> unit aact" where
  "expire_stale A P tm = execute A (\<lambda>k t d.
     Inr (update_flights (\<lambda>f. own_active t P f \<and> before (fl_expires_at f) tm) (expire_flight tm) d))"

definition active_flight :: "agency_env \<Rightarrow> flight_key \<Rightarrow> flight option aact" where
  "active_flight A q = select A (\<lambda>k t d. List.find (own_active t (\<lambda>f. fl_key f = q)) (f_flights d))"

definition insert_flight :: "agency_env \<Rightarrow> flight \<Rightarrow> unit aact" where
  "insert_flight A f = execute A (\<lambda>k t d. case t of
      None \<Rightarrow> Inl (constraintViolation ''null value in column tenant_id'')
    | Some u \<Rightarrow>
      if fl_flight_id f \<in> fl_flight_id ` set (f_flights d) then Inl uniqueViolation
      else if \<exists>g \<in> set (f_flights d). own_active t (\<lambda>g. fl_key g = fl_key f) g then Inl uniqueViolation
      else Inr (d\<lparr>f_flights := f_flights d @ [f\<lparr>fl_tenant_id := u\<rparr>]\<rparr>))"

record joined =
  j_mode :: string
  j_flight :: "flight option"
  j_competing :: bool

definition join_flight :: "string \<Rightarrow> flight \<Rightarrow> joined" where
  "join_flight workflow_id f = \<lparr>j_mode = (if fl_workflow_id f = workflow_id then ''acquired'' else ''joined''),
     j_flight = Some f, j_competing = (fl_workflow_id f \<noteq> workflow_id)\<rparr>"

definition acquireOrJoinDecisionFlight :: "agency_env \<Rightarrow> flight_key \<Rightarrow> string \<Rightarrow> nat option \<Rightarrow> joined aact" where
  "acquireOrJoinDecisionFlight A q workflow_id expires_at =
    bnd (Date_now A) (\<lambda>tm.
    thn (lift (requireParts q))
    (if workflow_id = [] then throw (flightError ''INVALID_WORKFLOW'' ''workflow_id is required'')
     else
    thn (flight_tenant A)
    (thn (expire_stale A (\<lambda>f. fl_key f = q) tm)
    (bnd (active_flight A q) (\<lambda>existing. case existing of
       Some f \<Rightarrow> ret (join_flight workflow_id f)
     | None \<Rightarrow>
       bnd (randomUUID A) (\<lambda>flightId.
       bnd (savepoint A (insert_flight A \<lparr>fl_flight_id = flightId, fl_tenant_id = [], fl_subject_ref = fst q,
          fl_routine_id = fst (snd q), fl_logical_stage = snd (snd q), fl_workflow_id = workflow_id, fl_status = ''ACTIVE'',
          fl_created_at = tm, fl_expires_at = expires_at, fl_completed_at = None, fl_cancel_reason = None\<rparr>)) (\<lambda>r. case r of
         Inl err \<Rightarrow> bnd (active_flight A q) (\<lambda>raced. case raced of
            Some f \<Rightarrow> ret (join_flight workflow_id f)
          | None \<Rightarrow> throw err)
       | Inr _ \<Rightarrow> bnd (select A (\<lambda>k t d. find_row fl_flight_id (visible fl_tenant_id t (f_flights d)) flightId)) (\<lambda>created.
            ret \<lparr>j_mode = ''acquired'', j_flight = created, j_competing = False\<rparr>))))))))"

text \<open>The update that ends the active flights of a workflow, and the first row it returns.\<close>

definition end_flight :: "agency_env \<Rightarrow> string \<Rightarrow> (flight \<Rightarrow> flight) \<Rightarrow> flight option aact" where
  "end_flight A workflow_id g = statement A (\<lambda>k t d. let P = own_active t (\<lambda>f. fl_workflow_id f = workflow_id) in
     Inr (map_option g (List.find P (f_flights d)), update_flights P g d))"

definition cancelDecisionFlight :: "agency_env \<Rightarrow> string \<Rightarrow> string \<Rightarrow> flight option aact" where
  "cancelDecisionFlight A workflow_id why =
    (if workflow_id = [] then throw (flightError ''INVALID_WORKFLOW'' ''workflow_id is required'')
     else thn (flight_tenant A) (bnd (Date_now A) (\<lambda>tm.
       end_flight A workflow_id (\<lambda>f. finish_flight ''CANCELLED'' tm f\<lparr>fl_cancel_reason := Some why\<rparr>))))"

definition completeDecisionFlight :: "agency_env \<Rightarrow> string \<Rightarrow> flight option aact" where
  "completeDecisionFlight A workflow_id =
    (if workflow_id = [] then throw (flightError ''INVALID_WORKFLOW'' ''workflow_id is required'')
     else thn (flight_tenant A) (bnd (Date_now A) (\<lambda>tm.
       end_flight A workflow_id (finish_flight ''COMPLETED'' tm))))"

text \<open>The latest flight of a workflow: \<open>ORDER BY created_at DESC LIMIT 1\<close>.\<close>

definition latest_flight :: "string option \<Rightarrow> string \<Rightarrow> flight list \<Rightarrow> flight option" where
  "latest_flight t workflow_id fs =
    (case sort_key (\<lambda>f. - int (fl_created_at f)) (filter (\<lambda>f. fl_workflow_id f = workflow_id) (visible fl_tenant_id t fs)) of
       [] \<Rightarrow> None | f # _ \<Rightarrow> Some f)"

definition commit_fence :: "bool \<Rightarrow> flight_key \<Rightarrow> flight \<Rightarrow> js_error + flight" where
  "commit_fence requireActiveFlight q f = (case q of (subject_ref, routine_id, logical_stage) \<Rightarrow>
     if fl_status f = ''CANCELLED'' then Inl (flightError ''WORKFLOW_CANCELLED'' ''cancelled workflow cannot commit late effect'')
     else if fl_status f = ''EXPIRED'' then Inl (flightError ''WORKFLOW_EXPIRED'' ''expired workflow cannot commit late effect'')
     else if fl_status f \<noteq> ''ACTIVE'' then Inl (flightError ''WORKFLOW_NOT_ACTIVE'' (''workflow status '' @ fl_status f @ '' cannot commit effect''))
     else if requireActiveFlight \<and> (subject_ref = [] \<or> routine_id = [] \<or> logical_stage = [])
       then Inl (flightError ''FLIGHT_BINDING_REQUIRED'' ''enforce_single_flight requires subject_ref, routine_id, and logical_stage'')
     else if subject_ref \<noteq> [] \<and> fl_subject_ref f \<noteq> subject_ref
       then Inl (flightError ''FLIGHT_SUBJECT_MISMATCH'' ''subject_ref does not match active flight'')
     else if routine_id \<noteq> [] \<and> fl_routine_id f \<noteq> routine_id
       then Inl (flightError ''FLIGHT_ROUTINE_MISMATCH'' ''routine_id does not match active flight'')
     else if logical_stage \<noteq> [] \<and> fl_logical_stage f \<noteq> logical_stage
       then Inl (flightError ''FLIGHT_STAGE_MISMATCH'' ''logical_stage does not match active flight'')
     else Inr f)"

definition assertWorkflowMayCommitEffect :: "agency_env \<Rightarrow> string \<Rightarrow> flight_key \<Rightarrow> bool \<Rightarrow> flight option aact" where
  "assertWorkflowMayCommitEffect A workflow_id q requireActiveFlight =
    bnd (Date_now A) (\<lambda>tm.
    if workflow_id = [] then throw (flightError ''INVALID_WORKFLOW'' ''workflow_id is required'')
    else thn (flight_tenant A)
    (thn (expire_stale A (\<lambda>f. fl_workflow_id f = workflow_id) tm)
    (bnd (select A (\<lambda>k t d. latest_flight t workflow_id (f_flights d))) (\<lambda>found. case found of
       None \<Rightarrow> if requireActiveFlight then throw (flightError ''FLIGHT_REQUIRED''
                 ''enforce_single_flight requires an ACTIVE decision flight for this workflow'')
               else ret None
     | Some f \<Rightarrow> bnd (lift (commit_fence requireActiveFlight q f)) (\<lambda>f. ret (Some f))))))"

section \<open>Semantic claims\<close>

definition own_claim :: "string option \<Rightarrow> string \<Rightarrow> string \<Rightarrow> claim \<Rightarrow> bool" where
  "own_claim t subject_ref action_key c \<longleftrightarrow>
     t = Some (cl_tenant_id c) \<and> cl_subject_ref c = subject_ref \<and> cl_semantic_action_key c = action_key"

definition find_claim :: "agency_env \<Rightarrow> string \<Rightarrow> string \<Rightarrow> claim option aact" where
  "find_claim A subject_ref action_key = select A (\<lambda>k t d. List.find (own_claim t subject_ref action_key) (f_claims d))"

definition insert_claim :: "agency_env \<Rightarrow> claim \<Rightarrow> unit aact" where
  "insert_claim A c = execute A (\<lambda>k t d. case t of
      None \<Rightarrow> Inl (constraintViolation ''null value in column tenant_id'')
    | Some u \<Rightarrow>
      if cl_claim_id c \<in> cl_claim_id ` set (f_claims d) then Inl uniqueViolation
      else if \<exists>x \<in> set (f_claims d). own_claim t (cl_subject_ref c) (cl_semantic_action_key c) x then Inl uniqueViolation
      else Inr (d\<lparr>f_claims := f_claims d @ [c\<lparr>cl_tenant_id := u\<rparr>]\<rparr>))"

text \<open>The claim found, and whether it was there before.\<close>

definition join_claim :: "string \<Rightarrow> claim \<Rightarrow> js_error + claim option \<times> bool" where
  "join_claim workflow_id prior =
    (if cl_workflow_id prior = workflow_id then Inr (Some prior, True)
     else Inl (flightError ''SEMANTIC_ACTION_DUPLICATE'' ''semantic action key already claimed by another workflow''))"

definition claimSemanticAction :: "agency_env \<Rightarrow> string \<Rightarrow> string \<Rightarrow> string \<Rightarrow> string option \<Rightarrow> (claim option \<times> bool) aact" where
  "claimSemanticAction A subject_ref action_key workflow_id effect_id =
    (if subject_ref = [] \<or> action_key = [] \<or> workflow_id = []
     then throw (flightError ''INVALID_SEMANTIC_CLAIM'' ''subject_ref, semantic_action_key, and workflow_id are required'')
     else
    thn (flight_tenant A)
    (bnd (randomUUID A) (\<lambda>claimId.
     bnd (find_claim A subject_ref action_key) (\<lambda>existing. case existing of
       Some prior \<Rightarrow> lift (join_claim workflow_id prior)
     | None \<Rightarrow>
       bnd (savepoint A (insert_claim A \<lparr>cl_claim_id = claimId, cl_tenant_id = [], cl_subject_ref = subject_ref,
          cl_semantic_action_key = action_key, cl_workflow_id = workflow_id, cl_effect_id = effect_id\<rparr>)) (\<lambda>r. case r of
         Inl err \<Rightarrow> bnd (find_claim A subject_ref action_key) (\<lambda>raced. case raced of
            Some prior \<Rightarrow> lift (join_claim workflow_id prior)
          | None \<Rightarrow> throw err)
       | Inr _ \<Rightarrow> bnd (select A (\<lambda>k t d. find_row cl_claim_id (visible cl_tenant_id t (f_claims d)) claimId)) (\<lambda>created.
            ret (created, False)))))))"

definition releaseSemanticActionClaim :: "agency_env \<Rightarrow> string \<Rightarrow> string \<Rightarrow> string \<Rightarrow> string option aact" where
  "releaseSemanticActionClaim A subject_ref action_key workflow_id =
    (if subject_ref = [] \<or> action_key = [] \<or> workflow_id = [] then ret None
     else thn (flight_tenant A) (statement A (\<lambda>k t d.
       let P = (\<lambda>c. own_claim t subject_ref action_key c \<and> cl_workflow_id c = workflow_id) in
       Inr (map_option cl_claim_id (List.find P (f_claims d)), d\<lparr>f_claims := filter (\<lambda>c. \<not> P c) (f_claims d)\<rparr>))))"

end
