(* ===== verification/TrustedExecutor.thy ===== *)
theory TrustedExecutor
  imports SingleFlight
begin

text \<open>
  The trusted executor (\<open>src/runtime/trusted-executor.js\<close>) and the external system it commits to
  (\<open>src/runtime/local-effect-adapter.js\<close>). A proposal passes a sequence of gates, each of which may end the
  run with a denial; then the effect is committed once and its receipt written, or the work of an earlier,
  interrupted run is completed. A field of the result that the source leaves out is \<open>None\<close>,
  \<open>False\<close> or the empty list.
\<close>

section \<open>The local effect adapter\<close>

definition LOCAL_FAKE_SURFACE :: string where "LOCAL_FAKE_SURFACE = ''local_fake''"

record adapter =
  ad_surface :: string
  ad_default_postcondition :: string

definition createLocalEffectAdapter :: "string option \<Rightarrow> adapter" where
  "createLocalEffectAdapter defaultPostcondition = \<lparr>ad_surface = LOCAL_FAKE_SURFACE,
     ad_default_postcondition = (case defaultPostcondition of None \<Rightarrow> ''VERIFIED'' | Some p \<Rightarrow> p)\<rparr>"

definition hasCommitted :: "string \<Rightarrow> bool aact" where
  "hasCommitted key = gets (\<lambda>s. g_store s key \<noteq> None)"

definition getCommitted :: "string \<Rightarrow> commit_record option aact" where
  "getCommitted key = gets (\<lambda>s. g_store s key)"

text \<open>The commit token, and whether the key was there already.\<close>

definition adapter_commit :: "agency_env \<Rightarrow> string \<Rightarrow> js \<Rightarrow> (string \<times> bool) aact" where
  "adapter_commit A key request = bnd (getCommitted key) (\<lambda>existing. case existing of
     Some r \<Rightarrow> ret (cr_commit_token r, True)
   | None \<Rightarrow> bnd (randomUUID A) (\<lambda>token. bnd (Date_now A) (\<lambda>tm.
       thn (modify (\<lambda>s. s\<lparr>g_store := (g_store s)(key \<mapsto> \<lparr>cr_commit_token = token, cr_request = request, cr_committed_at = tm\<rparr>)\<rparr>))
         (ret (token, False)))))"

definition verifyPostcondition :: "adapter \<Rightarrow> string \<Rightarrow> string option \<Rightarrow> string aact" where
  "verifyPostcondition ad key forcedStatus =
    (let status = (case forcedStatus of None \<Rightarrow> ad_default_postcondition ad | Some p \<Rightarrow> p) in
     if status \<in> {''ABSENT'', ''UNKNOWN'', ''AMBIGUOUS'', ''FAILED''} then ret status
     else bnd (hasCommitted key) (\<lambda>present. ret (if present then ''VERIFIED'' else ''ABSENT'')))"

section \<open>Outcomes\<close>

definition mapPostconditionToVerification :: "string option \<Rightarrow> string" where
  "mapPostconditionToVerification status =
    (if status = Some ''VERIFIED'' then ''VERIFIED'' else if status = Some ''FAILED'' then ''FAILED''
     else if status = Some ''UNVERIFIED'' then ''UNVERIFIED'' else ''AMBIGUOUS'')"

definition outcomeFromVerification :: "string \<Rightarrow> string" where
  "outcomeFromVerification verificationStatus =
    (if verificationStatus = ''VERIFIED'' then ''SUCCEEDED'' else if verificationStatus = ''FAILED'' then ''FAILED'' else ''AMBIGUOUS'')"

definition executorError :: "string \<Rightarrow> string \<Rightarrow> js_error" where
  "executorError = agencyError ''TrustedExecutorError''"

definition crashAfterCommitError :: js_error where
  "crashAfterCommitError = \<lparr>err_class = ExternalError ''CrashAfterCommitError'', err_code = None,
     err_message = ''injected crash after adapter commit before local completion'', err_retryable = False\<rparr>"

record exec_result =
  x_status :: "string option"
  x_verification_status :: "string option"
  x_postcondition_status :: "string option"
  x_reason_codes :: "string list"
  x_receipt_id :: "string option"
  x_effect_id :: "string option"
  x_idempotency_key :: "string option"
  x_commit_token :: "string option"
  x_resumed :: bool
  x_duplicate :: bool
  x_claimed_success :: bool
  x_policy_decision_id :: "string option"

definition denied :: "string list \<Rightarrow> string option \<Rightarrow> string option \<Rightarrow> exec_result" where
  "denied codes key decision = \<lparr>x_status = Some ''DENIED'', x_verification_status = None, x_postcondition_status = None,
     x_reason_codes = codes, x_receipt_id = None, x_effect_id = None, x_idempotency_key = key, x_commit_token = None,
     x_resumed = False, x_duplicate = False, x_claimed_success = False, x_policy_decision_id = decision\<rparr>"

record exec_args =
  e_proposal_id :: string
  e_principal :: string
  e_adapter :: "adapter option"
  e_approval_id :: "string option"
  e_owner_session_id :: "string option"
  e_inject_crash :: bool
  e_forced_postcondition :: "string option"
  e_retry_after_ambiguity :: bool
  e_prior_outcome :: "string option"
  e_prior_postcondition :: "string option"
  e_fallback_surface :: "string option"
  e_prior_idempotency_key :: "string option"
  e_durable_postcondition_evidence :: bool
  e_enforce_single_flight :: bool
  e_subject_ref :: string
  e_routine_id :: string
  e_logical_stage :: string
  e_semantic_action_key :: string

definition truthy_str :: "string option \<Rightarrow> bool" where
  "truthy_str x \<longleftrightarrow> x \<noteq> None \<and> x \<noteq> Some []"

section \<open>Policy\<close>

record policy =
  po_verdict :: string
  po_reason_codes :: "string list"
  po_policy_version :: string

definition or_string :: "string option \<Rightarrow> string \<Rightarrow> string" where
  "or_string x y = (case x of None \<Rightarrow> y | Some v \<Rightarrow> if v = [] then y else v)"

definition high_risk :: "grant \<Rightarrow> capability \<Rightarrow> proposal \<Rightarrow> bool" where
  "high_risk g cap p \<longleftrightarrow>
    (let approvalMode = or_string (gr_approval_mode g) (or_string (Some (cp_approval_policy cap)) ''default'') in
     p_risk_class p = ''high'' \<or> p_risk_class p = ''t4'' \<or> approvalMode = ''owner_step_up'' \<or> approvalMode = ''approval_required''
     \<or> ap_min_verdict (classifyAmbiguousOutcomePolicy cap) = Some ''APPROVAL_REQUIRED'')"

definition decidePolicy :: "grant option \<Rightarrow> capability \<Rightarrow> proposal \<Rightarrow> policy" where
  "decidePolicy grnt cap p = (case grnt of
     None \<Rightarrow> \<lparr>po_verdict = ''DENY'', po_reason_codes = [''NO_ACTIVE_GRANT''], po_policy_version = ''executor-v1''\<rparr>
   | Some g \<Rightarrow>
     let ambiguity = classifyAmbiguousOutcomePolicy cap; version = or_string (Some (gr_policy_version g)) ''executor-v1'' in
     if high_risk g cap p then
       \<lparr>po_verdict = ''APPROVAL_REQUIRED'',
        po_reason_codes = (if ap_min_verdict ambiguity = Some ''APPROVAL_REQUIRED''
          then ''HIGH_RISK_OR_APPROVAL_MODE'' # ap_reason_codes ambiguity else [''HIGH_RISK_OR_APPROVAL_MODE'']),
        po_policy_version = version\<rparr>
     else \<lparr>po_verdict = ''ALLOW'', po_reason_codes = [''ACTIVE_GRANT''], po_policy_version = version\<rparr>)"

section \<open>The ledger and its receipts\<close>

definition withLocalEffectScopeLock :: "agency_env \<Rightarrow> string \<Rightarrow> 'a aact \<Rightarrow> 'a aact" where
  "withLocalEffectScopeLock A tenantId fn = thn (acquireLocalEffectScopeLock A tenantId) fn"

definition loadLedgerByKey :: "agency_env \<Rightarrow> string \<Rightarrow> ledger_row option aact" where
  "loadLedgerByKey A key = select A (\<lambda>k t d. find_row el_key (visible el_tenant_id t (f_ledger d)) key)"

definition own_row :: "string option \<Rightarrow> string \<Rightarrow> ledger_row \<Rightarrow> bool" where
  "own_row t effectId r \<longleftrightarrow> t = Some (el_tenant_id r) \<and> el_effect_id r = effectId"

definition update_ledger :: "agency_env \<Rightarrow> string \<Rightarrow> (ledger_row \<Rightarrow> ledger_row) \<Rightarrow> unit aact" where
  "update_ledger A effectId f = execute A (\<lambda>k t d.
     Inr (d\<lparr>f_ledger := map (\<lambda>r. if own_row t effectId r then f r else r) (f_ledger d)\<rparr>))"

text \<open>Inserting a ledger row. With \<open>ON CONFLICT (idempotency_key) DO NOTHING\<close> a taken key is no error.\<close>

definition insert_ledger :: "agency_env \<Rightarrow> bool \<Rightarrow> ledger_row \<Rightarrow> unit aact" where
  "insert_ledger A onConflictDoNothing r = execute A (\<lambda>k t d.
     if t \<noteq> Some (el_tenant_id r) then Inl (constraintViolation ''new row violates row-level security policy'')
     else if el_key r \<in> el_key ` set (f_ledger d) then (if onConflictDoNothing then Inr d else Inl uniqueViolation)
     else if el_effect_id r \<in> el_effect_id ` set (f_ledger d) then Inl uniqueViolation
     else if el_proposal_id r \<notin> p_proposal_id ` set (k_proposals k) then Inl (constraintViolation ''foreign key proposal_id'')
     else Inr (d\<lparr>f_ledger := f_ledger d @ [r]\<rparr>))"

definition VERIFICATION_STATUSES :: "string list" where
  "VERIFICATION_STATUSES = [''VERIFIED'', ''UNVERIFIED'', ''AMBIGUOUS'', ''FAILED'']"

definition appendReceipt :: "agency_env \<Rightarrow> receipt \<Rightarrow> string aact" where
  "appendReceipt A r = bnd (randomUUID A) (\<lambda>receiptId.
     thn (execute A (\<lambda>k t d.
       if t \<noteq> Some (rc_tenant_id r) then Inl (constraintViolation ''new row violates row-level security policy'')
       else if rc_revocation_epoch r = None \<or> rc_kill_epoch r = None then Inl (constraintViolation ''null value in an epoch column'')
       else if rc_verification_status r \<notin> set VERIFICATION_STATUSES then Inl (constraintViolation ''verification_status'')
       else if receiptId \<in> rc_receipt_id ` set (f_receipts d) \<or> rc_key r \<in> rc_key ` set (f_receipts d) then Inl uniqueViolation
       else if (rc_tenant_id r, rc_trace_id r) \<notin> (\<lambda>x. (tr_tenant_id x, tr_trace_id x)) ` set (f_traces d)
         then Inl (constraintViolation ''foreign key trace_id'')
       else Inr (d\<lparr>f_receipts := f_receipts d @ [r\<lparr>rc_receipt_id := receiptId\<rparr>]\<rparr>)))
     (ret receiptId))"

definition error_class_of :: "string \<Rightarrow> string \<Rightarrow> string option" where
  "error_class_of outcome post = (if outcome = ''SUCCEEDED'' then None else Some (''postcondition_'' @ map to_lower post))"

definition complete_row :: "string \<Rightarrow> string \<Rightarrow> string \<Rightarrow> nat \<Rightarrow> ledger_row \<Rightarrow> ledger_row" where
  "complete_row post receiptId outcome tm r = r\<lparr>el_status := ''COMPLETED'',
     el_postcondition_status := Some (if post = ''ABSENT'' then ''UNKNOWN'' else post), el_receipt_id := Some receiptId,
     el_outcome := Some outcome, el_completed_at := Some tm, el_error_class := error_class_of outcome post\<rparr>"

text \<open>The receipt is appended and the row completed under the lock shared with reconciliation.\<close>

definition record_completion :: "agency_env \<Rightarrow> string \<Rightarrow> receipt \<Rightarrow> string \<Rightarrow> string \<Rightarrow> string aact" where
  "record_completion A effectId r post outcome =
    bnd (appendReceipt A r) (\<lambda>receiptId.
    bnd (Date_now A) (\<lambda>tm.
    thn (withLocalEffectScopeLock A (rc_tenant_id r) (update_ledger A effectId (complete_row post receiptId outcome tm)))
    (ret receiptId)))"

definition completeFromCommitted :: "agency_env \<Rightarrow> adapter \<Rightarrow> ledger_row \<Rightarrow> proposal \<Rightarrow> capability \<Rightarrow> string \<Rightarrow> string option
  \<Rightarrow> string option \<Rightarrow> nat \<Rightarrow> exec_result aact" where
  "completeFromCommitted A ad ledger p cap decision approvalRef forcedPostcondition startedAt =
    bnd (verifyPostcondition ad (el_key ledger) forcedPostcondition) (\<lambda>post.
    let verificationStatus = mapPostconditionToVerification (Some post); outcome = outcomeFromVerification verificationStatus in
    thn (guard (\<not> (outcome = ''SUCCEEDED'' \<and> verificationStatus \<noteq> ''VERIFIED''))
      (executorError ''UNVERIFIED_SUCCESS_FORBIDDEN'' ''success claimed without VERIFIED receipt (fail-closed)''))
    (bnd (createExecutionTrace A \<lparr>tr_trace_id = [], tr_tenant_id = p_tenant_id p, tr_workflow_id = Some (p_workflow_id p),
       tr_root_span = ''trusted_executor'', tr_attributes = JObj [(''step_id'', JStr (p_step_id p)),
         (''capability_id'', JStr (p_capability_id p)), (''effect_id'', JStr (el_effect_id ledger))]\<rparr>) (\<lambda>traceId.
     bnd (record_completion A (el_effect_id ledger) \<lparr>rc_receipt_id = [], rc_tenant_id = p_tenant_id p, rc_workflow_id = p_workflow_id p, rc_step_id = p_step_id p,
       rc_actor = p_actor p, rc_capability_id = p_capability_id p, rc_provider = cp_provider cap, rc_operation = cp_operation cap,
       rc_target_ref = p_target_ref p, rc_key = el_key ledger, rc_request_hash = p_request_hash p,
       rc_precondition_snapshot_ref = p_precondition_snapshot_ref p, rc_authority_decision_ref = Some decision,
       rc_approval_ref = approvalRef, rc_revocation_epoch = el_revocation_epoch ledger, rc_kill_epoch = el_kill_epoch ledger,
       rc_started_at = startedAt, rc_committed_at = el_committed_at ledger, rc_provider_request_id = el_commit_token ledger,
       rc_postcondition_verifier = cp_postcondition_verifier cap, rc_verification_status = verificationStatus,
       rc_error_class = error_class_of outcome post, rc_trace_id = traceId\<rparr> post outcome) (\<lambda>receiptId.
     ret \<lparr>x_status = Some outcome, x_verification_status = Some verificationStatus, x_postcondition_status = Some post,
       x_reason_codes = [], x_receipt_id = Some receiptId, x_effect_id = Some (el_effect_id ledger),
       x_idempotency_key = Some (el_key ledger), x_commit_token = el_commit_token ledger, x_resumed = True, x_duplicate = False,
       x_claimed_success = (outcome = ''SUCCEEDED''), x_policy_decision_id = None\<rparr>))))"

section \<open>The gates\<close>

text \<open>A gate ends the run with a result or lets it go on with a value.\<close>

definition gate :: "('r + 'a) aact \<Rightarrow> ('a \<Rightarrow> 'r aact) \<Rightarrow> 'r aact" where
  "gate m f = bnd m (\<lambda>r. case r of Inl x \<Rightarrow> ret x | Inr y \<Rightarrow> f y)"

text \<open>A denial in place of the errors of one class; others are raised again.\<close>

definition deny_on :: "string \<Rightarrow> 'a aact \<Rightarrow> (js_error \<Rightarrow> exec_result aact) \<Rightarrow> (exec_result + 'a) aact" where
  "deny_on cls m h = bnd (attempt m) (\<lambda>r. case r of
     Inr x \<Rightarrow> ret (Inr x)
   | Inl e \<Rightarrow> if is_error cls e then bnd (h e) (\<lambda>x. ret (Inl x)) else throw e)"

definition error_code :: "js_error \<Rightarrow> string list" where
  "error_code e = (case err_code e of None \<Rightarrow> [] | Some c \<Rightarrow> [c])"

definition executor_start :: "agency_env \<Rightarrow> exec_args \<Rightarrow> (adapter \<times> string \<times> proposal) aact" where
  "executor_start A args =
    thn (lift assertBusinessWriteAutonomyDisabled)
    (thn (guard (\<not> BUSINESS_WRITE_AUTONOMY) (executorError ''BUSINESS_WRITE_AUTONOMY_ENABLED'' ''business-write autonomy must remain DISABLED''))
    (thn (catch (assertWritersAllowed A) (\<lambda>err. if is_error ''WritersFrozenError'' err
       then throw (executorError ''WRITERS_FROZEN'' (err_message err)) else throw err))
    (case e_adapter args of
       None \<Rightarrow> throw (executorError ''LIVE_EXTERNAL_FORBIDDEN'' ''only local_fake adapters are permitted in F-08 (no live external side effects)'')
     | Some ad \<Rightarrow>
       if ad_surface ad \<noteq> LOCAL_FAKE_SURFACE
       then throw (executorError ''LIVE_EXTERNAL_FORBIDDEN'' ''only local_fake adapters are permitted in F-08 (no live external side effects)'')
       else
       bnd (requireTenant A (executorError ''MISSING_TENANT_CONTEXT'' ''missing tenant context (fail-closed)'')) (\<lambda>tenantId.
       bnd (loadProposal A (e_proposal_id args)) (\<lambda>found. case found of
         None \<Rightarrow> throw (executorError ''PROPOSAL_NOT_FOUND'' (''proposal '' @ e_proposal_id args @ '' not found''))
       | Some p \<Rightarrow> if p_tenant_id p \<noteq> tenantId
           then throw (executorError ''TENANT_MISMATCH'' ''proposal tenant does not match trusted context'')
           else ret (ad, tenantId, p))))))"

definition insert_decision :: "agency_env \<Rightarrow> policy_decision \<Rightarrow> unit aact" where
  "insert_decision A r = execute A (\<lambda>k t d.
     if t \<noteq> Some (pd_tenant_id r) then Inl (constraintViolation ''new row violates row-level security policy'')
     else if pd_decision_id r \<in> pd_decision_id ` set (f_decisions d) then Inl uniqueViolation
     else Inr (d\<lparr>f_decisions := f_decisions d @ [r]\<rparr>))"

text \<open>The authority is read and the decision recorded; without authority or grant the run ends here.\<close>

definition policy_gate :: "agency_env \<Rightarrow> string \<Rightarrow> proposal \<Rightarrow> grant option \<Rightarrow> policy
  \<Rightarrow> (exec_result + string \<times> authority) aact" where
  "policy_gate A tenantId p grnt pol =
    bnd (randomUUID A) (\<lambda>decision.
    bnd (deny_on ''AuthorityUnavailableError'' (readFreshAuthority A) (\<lambda>e.
      thn (insert_decision A \<lparr>pd_decision_id = decision, pd_tenant_id = tenantId, pd_proposal_id = p_proposal_id p,
          pd_applicable_grants = [], pd_policy_version = po_policy_version pol, pd_verdict = ''DENY'',
          pd_reason_codes = [''AUTHORITY_KILL_STORE_UNAVAILABLE''], pd_revocation_epoch = -1, pd_kill_epoch = -1\<rparr>)
        (ret (denied [''AUTHORITY_KILL_STORE_UNAVAILABLE''] None None)))) (\<lambda>r. case r of
      Inl x \<Rightarrow> ret (Inl x)
    | Inr authority \<Rightarrow>
      thn (insert_decision A \<lparr>pd_decision_id = decision, pd_tenant_id = tenantId, pd_proposal_id = p_proposal_id p,
          pd_applicable_grants = (case grnt of None \<Rightarrow> [] | Some g \<Rightarrow> [gr_grant_id g]), pd_policy_version = po_policy_version pol,
          pd_verdict = po_verdict pol, pd_reason_codes = po_reason_codes pol,
          pd_revocation_epoch = au_revocation_epoch authority, pd_kill_epoch = au_kill_epoch authority\<rparr>)
      (ret (if po_verdict pol = ''DENY'' then Inl (denied (po_reason_codes pol) None (Some decision))
            else Inr (decision, authority)))))"

definition approval_gate :: "agency_env \<Rightarrow> exec_args \<Rightarrow> proposal \<Rightarrow> policy \<Rightarrow> string \<Rightarrow> (exec_result + string option) aact" where
  "approval_gate A args p pol decision =
    (if po_verdict pol \<noteq> ''APPROVAL_REQUIRED'' then ret (Inr None)
     else if \<not> truthy_str (e_approval_id args) then ret (Inl (denied [''APPROVAL_REQUIRED''] None (Some decision)))
     else bnd (loadApproval A (the (e_approval_id args))) (\<lambda>approval.
       bnd (if truthy_str (e_owner_session_id args) then loadOwnerSession A (the (e_owner_session_id args)) else ret None) (\<lambda>session.
       bnd (Date_now A) (\<lambda>tm.
       let v = validateApproval approval (Some p) session tm in
       if \<not> fst v then ret (Inl (denied (''INVALID_APPROVAL'' # snd v) None (Some decision)))
       else ret (Inr (map_option oa_approval_id approval))))))"

definition effect_key :: "agency_env \<Rightarrow> proposal \<Rightarrow> string" where
  "effect_key A p = idempotencyKey (a_sys A) (p_tenant_id p) (p_workflow_id p) (p_step_id p) (p_capability_id p) (p_request_hash p)"

definition first_of :: "'a option \<Rightarrow> 'a option \<Rightarrow> 'a option" where
  "first_of x y = (case x of None \<Rightarrow> y | Some v \<Rightarrow> Some v)"

definition ambiguity_gate :: "agency_env \<Rightarrow> exec_args \<Rightarrow> capability \<Rightarrow> string \<Rightarrow> string \<Rightarrow> (exec_result + unit) aact" where
  "ambiguity_gate A args cap key decision = bnd (loadLedgerByKey A key) (\<lambda>prior.
     let priorOutcome = first_of (Option.bind prior el_outcome) (e_prior_outcome args);
         priorPost = first_of (Option.bind prior el_postcondition_status) (e_prior_postcondition args) in
     if e_retry_after_ambiguity args \<or> (ambiguous_prior priorOutcome priorPost \<and> map_option el_status prior = Some ''COMPLETED'')
     then (case assertAutonomousRetryAllowedAfterAmbiguity cap priorOutcome priorPost of
        Inl codes \<Rightarrow> ret (Inl (denied codes (Some key) (Some decision)))
      | Inr _ \<Rightarrow> ret (Inr ()))
     else ret (Inr ()))"

definition fallback_gate :: "agency_env \<Rightarrow> exec_args \<Rightarrow> string \<Rightarrow> string \<Rightarrow> (exec_result + unit) aact" where
  "fallback_gate A args key decision =
    (if \<not> truthy_str (e_fallback_surface args) then ret (Inr ())
     else bnd (if truthy_str (e_prior_idempotency_key args) then loadLedgerByKey A (the (e_prior_idempotency_key args)) else ret None) (\<lambda>prior.
       let recorded = Option.bind prior el_postcondition_status;
           postStatus = (if truthy_str recorded then recorded else e_prior_postcondition args);
           durable = (truthy_str recorded \<or> (e_durable_postcondition_evidence args \<and> truthy_str postStatus)) in
       (case assertCrossSurfaceFallbackAllowed (e_fallback_surface args) postStatus durable of
          Inl code \<Rightarrow> ret (Inl (denied [code] (Some key) (Some decision)))
        | Inr _ \<Rightarrow> ret (Inr ()))))"

definition flight_gate :: "agency_env \<Rightarrow> exec_args \<Rightarrow> proposal \<Rightarrow> string \<Rightarrow> string \<Rightarrow> (exec_result + unit) aact" where
  "flight_gate A args p key decision =
    (if \<not> e_enforce_single_flight args then ret (Inr ())
     else deny_on ''SingleFlightError''
       (thn (assertWorkflowMayCommitEffect A (p_workflow_id p) (e_subject_ref args, e_routine_id args, e_logical_stage args) True) (ret ()))
       (\<lambda>e. ret (denied (error_code e) (Some key) (Some decision))))"

text \<open>The claim on the logical effect; the value tells whether one is held.\<close>

definition claim_gate :: "agency_env \<Rightarrow> exec_args \<Rightarrow> proposal \<Rightarrow> string \<Rightarrow> string \<Rightarrow> (exec_result + bool) aact" where
  "claim_gate A args p key decision =
    (if e_semantic_action_key args = [] \<or> e_subject_ref args = [] then ret (Inr False)
     else deny_on ''SingleFlightError''
       (thn (claimSemanticAction A (e_subject_ref args) (e_semantic_action_key args) (p_workflow_id p) None) (ret True))
       (\<lambda>e. ret (denied (error_code e) (Some key) (Some decision))))"

definition releaseSemanticIfNeeded :: "agency_env \<Rightarrow> exec_args \<Rightarrow> proposal \<Rightarrow> bool \<Rightarrow> unit aact" where
  "releaseSemanticIfNeeded A args p held = whenM held
     (thn (releaseSemanticActionClaim A (e_subject_ref args) (e_semantic_action_key args) (p_workflow_id p)) (ret ()))"

section \<open>Committing and completing\<close>

definition completed_result :: "ledger_row \<Rightarrow> string \<Rightarrow> string option \<Rightarrow> string \<Rightarrow> exec_result" where
  "completed_result ledger key token decision = \<lparr>x_status = el_outcome ledger,
     x_verification_status = Some (if el_postcondition_status ledger = Some ''VERIFIED'' then ''VERIFIED''
       else mapPostconditionToVerification (el_postcondition_status ledger)),
     x_postcondition_status = None, x_reason_codes = [], x_receipt_id = el_receipt_id ledger, x_effect_id = Some (el_effect_id ledger),
     x_idempotency_key = Some key, x_commit_token = token, x_resumed = False, x_duplicate = True,
     x_claimed_success = (el_outcome ledger = Some ''SUCCEEDED''), x_policy_decision_id = Some decision\<rparr>"

text \<open>A ledger row for this proposal.\<close>

definition new_row :: "string \<Rightarrow> string \<Rightarrow> string \<Rightarrow> proposal \<Rightarrow> nat \<Rightarrow> ledger_row" where
  "new_row effectId tenantId key p tm = \<lparr>el_effect_id = effectId, el_tenant_id = tenantId, el_key = key,
     el_proposal_id = p_proposal_id p, el_workflow_id = p_workflow_id p, el_step_id = p_step_id p,
     el_capability_id = p_capability_id p, el_request_hash = p_request_hash p, el_status = ''PENDING'', el_commit_token = None,
     el_postcondition_status = None, el_receipt_id = None, el_outcome = None, el_error_class = None,
     el_revocation_epoch = None, el_kill_epoch = None, el_started_at = tm, el_committed_at = None, el_completed_at = None\<rparr>"

definition commit_row :: "string option \<Rightarrow> authority \<Rightarrow> nat \<Rightarrow> ledger_row \<Rightarrow> ledger_row" where
  "commit_row token a tm r = r\<lparr>el_status := ''COMMITTED'', el_commit_token := token, el_committed_at := Some tm,
     el_revocation_epoch := Some (au_revocation_epoch a), el_kill_epoch := Some (au_kill_epoch a)\<rparr>"

text \<open>The update of crash recovery keeps what the row already says (\<open>COALESCE\<close>).\<close>

definition recommit_row :: "string option \<Rightarrow> authority \<Rightarrow> nat \<Rightarrow> ledger_row \<Rightarrow> ledger_row" where
  "recommit_row token a tm r = r\<lparr>el_status := ''COMMITTED'', el_commit_token := first_of (el_commit_token r) token,
     el_committed_at := first_of (el_committed_at r) (Some tm),
     el_revocation_epoch := first_of (el_revocation_epoch r) (Some (au_revocation_epoch a)),
     el_kill_epoch := first_of (el_kill_epoch r) (Some (au_kill_epoch a))\<rparr>"

text \<open>What a run knows once it has passed the gates.\<close>

record passed =
  q_adapter :: adapter
  q_tenant :: string
  q_proposal :: proposal
  q_capability :: capability
  q_decision :: string
  q_authority :: authority
  q_approval :: "string option"
  q_key :: string
  q_held :: bool

text \<open>A row that must be there: reading a property of a missing one raises.\<close>

definition need :: "'a option \<Rightarrow> 'a aact" where
  "need x = (case x of None \<Rightarrow> throw (plainError ''Cannot read properties of null'') | Some y \<Rightarrow> ret y)"

definition finish_resumed :: "agency_env \<Rightarrow> exec_args \<Rightarrow> passed \<Rightarrow> ledger_row \<Rightarrow> exec_result aact" where
  "finish_resumed A args q ledger =
    bnd (completeFromCommitted A (q_adapter q) ledger (q_proposal q) (q_capability q) (q_decision q) (q_approval q)
      (e_forced_postcondition args) (el_started_at ledger)) (\<lambda>resumed.
    thn (whenM (\<not> x_claimed_success resumed) (releaseSemanticIfNeeded A args (q_proposal q) (q_held q)))
    (ret (resumed\<lparr>x_policy_decision_id := Some (q_decision q), x_duplicate := True\<rparr>)))"

definition recreate_committed :: "agency_env \<Rightarrow> passed \<Rightarrow> unit aact" where
  "recreate_committed A q =
    bnd (getCommitted (q_key q)) (\<lambda>existing. bnd (randomUUID A) (\<lambda>effectId. bnd (Date_now A) (\<lambda>tm.
    withLocalEffectScopeLock A (q_tenant q) (bnd (need existing) (\<lambda>r.
      insert_ledger A False (commit_row (Some (cr_commit_token r)) (q_authority q) tm
        (new_row effectId (q_tenant q) (q_key q) (q_proposal q) tm)))))))"

definition mark_committed :: "agency_env \<Rightarrow> passed \<Rightarrow> ledger_row \<Rightarrow> unit aact" where
  "mark_committed A q row =
    bnd (Date_now A) (\<lambda>tm. withLocalEffectScopeLock A (q_tenant q)
      (bnd (getCommitted (q_key q)) (\<lambda>existing.
        update_ledger A (el_effect_id row) (recommit_row (map_option cr_commit_token existing) (q_authority q) tm))))"

text \<open>Crash recovery: the effect is committed already, so it is only completed.\<close>

definition resume_committed :: "agency_env \<Rightarrow> exec_args \<Rightarrow> passed \<Rightarrow> ledger_row option \<Rightarrow> exec_result aact" where
  "resume_committed A args q ledger =
    bnd (case ledger of
        None \<Rightarrow> thn (recreate_committed A q) (loadLedgerByKey A (q_key q))
      | Some row \<Rightarrow> if el_status row \<noteq> ''COMMITTED'' then thn (mark_committed A q row) (loadLedgerByKey A (q_key q))
          else ret (Some row)) (\<lambda>ledger.
    bnd (need ledger) (finish_resumed A args q))"

definition complete_commit :: "agency_env \<Rightarrow> exec_args \<Rightarrow> passed \<Rightarrow> nat \<Rightarrow> bool \<Rightarrow> ledger_row \<Rightarrow> exec_result aact" where
  "complete_commit A args q startedAt already ledger =
    (if e_inject_crash args then throw crashAfterCommitError
     else
    bnd (completeFromCommitted A (q_adapter q) ledger (q_proposal q) (q_capability q) (q_decision q) (q_approval q)
      (e_forced_postcondition args) startedAt) (\<lambda>finished.
    thn (whenM (\<not> x_claimed_success finished) (releaseSemanticIfNeeded A args (q_proposal q) (q_held q)))
    (ret (finished\<lparr>x_resumed := False, x_duplicate := already, x_policy_decision_id := Some (q_decision q)\<rparr>))))"

text \<open>The commit itself, with the row the ledger holds for the key.\<close>

definition commit_effect :: "agency_env \<Rightarrow> exec_args \<Rightarrow> passed \<Rightarrow> authority \<Rightarrow> ledger_row \<Rightarrow> nat \<Rightarrow> exec_result aact" where
  "commit_effect A args q fresh row startedAt =
    bnd (adapter_commit A (q_key q) (p_canonical_request (q_proposal q))) (\<lambda>(token, already).
    bnd (Date_now A) (\<lambda>tm.
    thn (withLocalEffectScopeLock A (q_tenant q) (update_ledger A (el_effect_id row) (commit_row (Some token) fresh tm)))
    (bnd (loadLedgerByKey A (q_key q)) (\<lambda>ledger.
    bnd (need ledger) (complete_commit A args q startedAt already)))))"

text \<open>Another worker may have inserted first.\<close>

definition commit_row_or_resume :: "agency_env \<Rightarrow> exec_args \<Rightarrow> passed \<Rightarrow> authority \<Rightarrow> string \<Rightarrow> nat \<Rightarrow> ledger_row \<Rightarrow> exec_result aact" where
  "commit_row_or_resume A args q fresh effectId startedAt row =
    (if el_status row = ''COMPLETED'' then ret (completed_result row (q_key q) None (q_decision q))
     else bnd (hasCommitted (q_key q)) (\<lambda>committed.
       if el_effect_id row \<noteq> effectId \<and> (el_status row = ''COMMITTED'' \<or> committed) then finish_resumed A args q row
       else commit_effect A args q fresh row startedAt))"

text \<open>The authority is read again right before the commit.\<close>

definition fresh_commit :: "agency_env \<Rightarrow> exec_args \<Rightarrow> passed \<Rightarrow> exec_result aact" where
  "fresh_commit A args q =
    gate (deny_on ''AuthorityUnavailableError''
        (revalidateBeforeCommit A (au_revocation_epoch (q_authority q)) (au_kill_epoch (q_authority q)))
        (\<lambda>e. thn (releaseSemanticIfNeeded A args (q_proposal q) (q_held q))
          (ret (denied [''AUTHORITY_KILL_STORE_UNAVAILABLE_AT_COMMIT''] (Some (q_key q)) (Some (q_decision q)))))) (\<lambda>(verdict, fresh).
    if \<not> fst verdict then thn (releaseSemanticIfNeeded A args (q_proposal q) (q_held q))
      (ret (denied (snd verdict) (Some (q_key q)) (Some (q_decision q))))
    else
    bnd (randomUUID A) (\<lambda>effectId. bnd (Date_now A) (\<lambda>startedAt.
    thn (withLocalEffectScopeLock A (q_tenant q)
      (insert_ledger A True (new_row effectId (q_tenant q) (q_key q) (q_proposal q) startedAt)))
    (bnd (loadLedgerByKey A (q_key q)) (\<lambda>ledger. case ledger of
       None \<Rightarrow> throw (executorError ''LEDGER_INSERT_FAILED'' ''effect ledger row missing after insert'')
     | Some row \<Rightarrow> commit_row_or_resume A args q fresh effectId startedAt row)))))"

text \<open>At most once: what is completed is reported, what is committed is completed.\<close>

definition continue_effect :: "agency_env \<Rightarrow> exec_args \<Rightarrow> passed \<Rightarrow> ledger_row option \<Rightarrow> exec_result aact" where
  "continue_effect A args q ledger =
    bnd (hasCommitted (q_key q)) (\<lambda>committed.
    if map_option el_status ledger = Some ''COMPLETED'' then
      thn (whenM (Option.bind ledger el_outcome \<noteq> Some ''SUCCEEDED'') (releaseSemanticIfNeeded A args (q_proposal q) (q_held q)))
      (ret (completed_result (the ledger) (q_key q) (Option.bind ledger el_commit_token) (q_decision q)))
    else if map_option el_status ledger = Some ''COMMITTED'' \<or> committed then resume_committed A args q ledger
    else fresh_commit A args q)"

definition run_effect :: "agency_env \<Rightarrow> exec_args \<Rightarrow> passed \<Rightarrow> exec_result aact" where
  "run_effect A args q = bnd (loadLedgerByKey A (q_key q)) (continue_effect A args q)"

text \<open>The gates after the decision, then the effect.\<close>

definition execute_decided :: "agency_env \<Rightarrow> exec_args \<Rightarrow> adapter \<Rightarrow> string \<Rightarrow> proposal \<Rightarrow> capability \<Rightarrow> policy \<Rightarrow> string \<times> authority
  \<Rightarrow> exec_result aact" where
  "execute_decided A args ad tenantId p cap pol = (\<lambda>(decision, authority).
    let key = effect_key A p in
    gate (approval_gate A args p pol decision) (\<lambda>approvalRef.
    gate (ambiguity_gate A args cap key decision) (\<lambda>_.
    gate (fallback_gate A args key decision) (\<lambda>_.
    gate (flight_gate A args p key decision) (\<lambda>_.
    gate (claim_gate A args p key decision) (\<lambda>held.
    run_effect A args \<lparr>q_adapter = ad, q_tenant = tenantId, q_proposal = p, q_capability = cap, q_decision = decision,
      q_authority = authority, q_approval = approvalRef, q_key = key, q_held = held\<rparr>))))))"

definition execute_proposal :: "agency_env \<Rightarrow> exec_args \<Rightarrow> adapter \<times> string \<times> proposal \<Rightarrow> exec_result aact" where
  "execute_proposal A args = (\<lambda>(ad, tenantId, p).
    bnd (resolveExecutableCapability A (p_capability_id p)) (\<lambda>res.
    bnd (loadActiveGrant A (e_principal args) (p_capability_id p)) (\<lambda>grnt.
    let cap = rs_capability res; pol = decidePolicy grnt cap p in
    gate (policy_gate A tenantId p grnt pol) (execute_decided A args ad tenantId p cap pol))))"

definition executeTrustedEffect :: "agency_env \<Rightarrow> exec_args \<Rightarrow> exec_result aact" where
  "executeTrustedEffect A args = bnd (executor_start A args) (execute_proposal A args)"

definition computeEffectIdempotencyKey :: "agency_env \<Rightarrow> string \<Rightarrow> string \<Rightarrow> string \<Rightarrow> string \<Rightarrow> string \<Rightarrow> string" where
  "computeEffectIdempotencyKey A = idempotencyKey (a_sys A)"

end
