(* ===== verification/ExecutorFrame.thy ===== *)
theory ExecutorFrame
  imports TrustedExecutor
begin

text \<open>
  What the statements of a transaction never touch: its tenant and the external system; and their count
  only grows. Every gate of the executor leaves both alone, so a run changes the external system only at its one commit.
\<close>

definition frame :: "(string option \<Rightarrow> (string \<Rightarrow> commit_record option) \<Rightarrow> bool) \<Rightarrow> nat \<Rightarrow> agency \<Rightarrow> bool" where
  "frame Q n0 s \<longleftrightarrow> Q (g_tenant s) (g_store s) \<and> n0 \<le> g_n s"

lemma statement_fields [simp]:
  "g_store (snd (statement A f s)) = g_store s" "g_tenant (snd (statement A f s)) = g_tenant s"
  "g_n (snd (statement A f s)) = Suc (g_n s)"
  by (simp_all add: statement_def Let_def split: sum.splits prod.splits)

lemma statement_Inr:
  "statement A f s = (Inr x, s') \<longleftrightarrow> \<not> g_aborted s \<and> \<not> a_fault A (g_n s) \<and>
     (\<exists>d. f (a_control A (g_n s)) (g_tenant s) (a_other A (g_n s) (g_effects s)) = Inr (x, d) \<and>
       s' = s\<lparr>g_effects := d, g_n := Suc (g_n s)\<rparr>)"
  by (auto simp: statement_def Let_def split: sum.splits prod.splits)

lemma select_Inr:
  "select A f s = (Inr x, s') \<longleftrightarrow> \<not> g_aborted s \<and> \<not> a_fault A (g_n s) \<and>
     x = f (a_control A (g_n s)) (g_tenant s) (a_other A (g_n s) (g_effects s)) \<and>
     s' = s\<lparr>g_effects := a_other A (g_n s) (g_effects s), g_n := Suc (g_n s)\<rparr>"
  by (auto simp: select_def statement_Inr)

lemma execute_Inr:
  "execute A f s = (Inr u, s') \<longleftrightarrow> \<not> g_aborted s \<and> \<not> a_fault A (g_n s) \<and>
     (\<exists>d. f (a_control A (g_n s)) (g_tenant s) (a_other A (g_n s) (g_effects s)) = Inr d \<and>
       s' = s\<lparr>g_effects := d, g_n := Suc (g_n s)\<rparr>)"
  by (auto simp: execute_def statement_Inr split: sum.splits)

lemma statement_frame [keeps_rules]:
  "keeps (frame Q n0) (statement A f)" "keeps (frame Q n0) (select A g)" "keeps (frame Q n0) (execute A h)"
  by (simp_all add: keeps_def frame_def select_def execute_def)

lemma modify_frame [keeps_rules]:
  "(\<And>s. g_tenant (f s) = g_tenant s \<and> g_store (f s) = g_store s \<and> g_n (f s) = g_n s) \<Longrightarrow> keeps (frame Q n0) (modify f)"
  by (rule keeps_modify) (simp add: frame_def)

lemma source_frame [keeps_rules]: "keeps (frame Q n0) (randomUUID A)" "keeps (frame Q n0) (Date_now A)"
  by (simp_all add: keeps_def frame_def randomUUID_def Date_now_def gets_def)

lemma savepoint_frame [keeps_rules]:
  assumes "keeps (frame Q n0) m"
  shows "keeps (frame Q n0) (savepoint A m)"
proof (rule keepsI)
  fix s r s' assume s: "frame Q n0 s" and run: "savepoint A m s = (r, s')"
  let ?p = "thn (select A (\<lambda>k t d. ())) (bnd (gets g_effects) (\<lambda>d.
        bnd (attempt (thn m (select A (\<lambda>k t d. ())))) (\<lambda>r. ret (d, r))))"
  obtain x s1 where p: "?p s = (x, s1)"
    by (cases "?p s")
  have "keeps (frame Q n0) ?p"
    by (intro keeps_rules assms)
  then have "frame Q n0 (snd (?p s))"
    using s by (simp only: keeps_def)
  then have "frame Q n0 s1"
    by (simp only: p snd_conv)
  with run show "frame Q n0 s'"
    by (auto simp: savepoint_def p frame_def split: sum.splits prod.splits if_splits)
qed

lemma readers_frame [keeps_rules]:
  "keeps (frame Q n0) (currentTenant A)" "keeps (frame Q n0) (requireTenant A e)"
  "keeps (frame Q n0) (loadProposal A i)" "keeps (frame Q n0) (loadApproval A i)" "keeps (frame Q n0) (loadOwnerSession A i)"
  "keeps (frame Q n0) (readFreshAuthority A)" "keeps (frame Q n0) (revalidateBeforeCommit A x y)"
  "keeps (frame Q n0) (loadActiveGrant A who i)" "keeps (frame Q n0) (resolveExecutableCapability A i)"
  "keeps (frame Q n0) (assertWritersAllowed A)" "keeps (frame Q n0) (acquireLocalEffectScopeLock A i)"
  "keeps (frame Q n0) (loadLedgerByKey A i)" "keeps (frame Q n0) (createExecutionTrace A tr)"
  unfolding currentTenant_def requireTenant_def loadProposal_def loadApproval_def loadOwnerSession_def readFreshAuthority_def
    revalidateBeforeCommit_def loadActiveGrant_def resolveExecutableCapability_def resolveCapability_def loadCapabilityRow_def
    assertWritersAllowed_def readRecovery_def acquireLocalEffectScopeLock_def localEffectScopeLockIdentity_def
    loadLedgerByKey_def createExecutionTrace_def Let_def
  by (intro keeps_rules | simp)+

lemma adapter_frame [keeps_rules]:
  "keeps (frame Q n0) (hasCommitted i)" "keeps (frame Q n0) (getCommitted i)" "keeps (frame Q n0) (need x)"
  "keeps (frame Q n0) (verifyPostcondition ad i y)"
  unfolding hasCommitted_def getCommitted_def need_def verifyPostcondition_def Let_def by (intro keeps_rules | simp)+

lemma flights_frame [keeps_rules]:
  "keeps (frame Q n0) (assertWorkflowMayCommitEffect A w q b)" "keeps (frame Q n0) (claimSemanticAction A x y w e)"
  "keeps (frame Q n0) (releaseSemanticActionClaim A x y w)"
  unfolding assertWorkflowMayCommitEffect_def claimSemanticAction_def find_claim_def insert_claim_def expire_stale_def
    releaseSemanticActionClaim_def by (intro keeps_rules | simp)+

lemma ledger_frame [keeps_rules]:
  "keeps (frame Q n0) (update_ledger A i f)" "keeps (frame Q n0) (insert_ledger A b r)" "keeps (frame Q n0) (appendReceipt A c)"
  "keeps (frame Q n0) (insert_decision A pd)"
  unfolding update_ledger_def insert_ledger_def appendReceipt_def insert_decision_def by (intro keeps_rules | simp)+

lemma combinators_frame [keeps_rules]:
  "keeps (frame Q n0) m \<Longrightarrow> (\<And>x. keeps (frame Q n0) (f x)) \<Longrightarrow> keeps (frame Q n0) (gate m f)"
  "keeps (frame Q n0) n \<Longrightarrow> (\<And>e. keeps (frame Q n0) (h e)) \<Longrightarrow> keeps (frame Q n0) (deny_on cls n h)"
  "keeps (frame Q n0) l \<Longrightarrow> keeps (frame Q n0) (withLocalEffectScopeLock A t l)"
  unfolding gate_def deny_on_def withLocalEffectScopeLock_def by (intro keeps_rules | simp)+

lemma gates_frame [keeps_rules]:
  "keeps (frame Q n0) (executor_start A args)" "keeps (frame Q n0) (policy_gate A t p g pol)"
  "keeps (frame Q n0) (approval_gate A args p pol dec)" "keeps (frame Q n0) (ambiguity_gate A args cap i dec)"
  "keeps (frame Q n0) (fallback_gate A args i dec)" "keeps (frame Q n0) (flight_gate A args p i dec)"
  "keeps (frame Q n0) (claim_gate A args p i dec)" "keeps (frame Q n0) (releaseSemanticIfNeeded A args p held)"
  unfolding executor_start_def policy_gate_def approval_gate_def ambiguity_gate_def fallback_gate_def flight_gate_def
    claim_gate_def releaseSemanticIfNeeded_def Let_def by (intro keeps_rules | simp)+

lemma completion_frame [keeps_rules]:
  "keeps (frame Q n0) (record_completion A i c st out)" "keeps (frame Q n0) (completeFromCommitted A ad r p cap dec ap post tm)" "keeps (frame Q n0) (finish_resumed A args q r)"
  "keeps (frame Q n0) (recreate_committed A q)" "keeps (frame Q n0) (mark_committed A q r)"
  "keeps (frame Q n0) (resume_committed A args q row)" "keeps (frame Q n0) (complete_commit A args q tm2 b r)"
  unfolding record_completion_def completeFromCommitted_def finish_resumed_def recreate_committed_def mark_committed_def resume_committed_def complete_commit_def Let_def
  by (intro keeps_rules | simp)+

lemma frame_store:
  "keeps (frame (\<lambda>t st. t = g_tenant s \<and> st = g_store s) (g_n s)) m \<Longrightarrow> m s = (r, s') \<Longrightarrow>
   g_tenant s' = g_tenant s \<and> g_store s' = g_store s \<and> g_n s \<le> g_n s'"
  by (simp add: keeps_def frame_def) (metis order_refl snd_conv)

section \<open>What a run returns\<close>

definition yields :: "('s \<Rightarrow> bool) \<Rightarrow> ('s, 'e, 'a) act \<Rightarrow> ('a \<Rightarrow> 's \<Rightarrow> bool) \<Rightarrow> bool" where
  "yields P m R \<longleftrightarrow> (\<forall>s x s'. P s \<longrightarrow> m s = (Inr x, s') \<longrightarrow> R x s')"

lemma yieldsD: "yields P m R \<Longrightarrow> P s \<Longrightarrow> m s = (Inr x, s') \<Longrightarrow> R x s'"
  by (auto simp: yields_def)

lemma yields_ret: "(\<And>s. P s \<Longrightarrow> R x s) \<Longrightarrow> yields P (ret x) R"
  by (simp add: yields_def run_iff)

lemma yields_throw: "yields P (throw e) R"
  by (simp add: yields_def run_iff)

lemma yields_bnd: "yields P m Q \<Longrightarrow> (\<And>x. yields (Q x) (f x) R) \<Longrightarrow> yields P (bnd m f) R"
  unfolding yields_def bnd_Inr by blast

lemma yields_bnd_keeps: "keeps P m \<Longrightarrow> (\<And>x. yields P (f x) R) \<Longrightarrow> yields P (bnd m f) R"
  by (rule yields_bnd [where Q = "\<lambda>_. P"]) (auto simp: yields_def dest: keepsD)

lemma yields_thn_keeps: "keeps P m \<Longrightarrow> yields P k R \<Longrightarrow> yields P (thn m k) R"
  unfolding thn_def by (rule yields_bnd_keeps)

lemma yields_if: "(b \<Longrightarrow> yields P m R) \<Longrightarrow> (\<not> b \<Longrightarrow> yields P k R) \<Longrightarrow> yields P (if b then m else k) R"
  by simp

lemma yields_mono: "yields P m R \<Longrightarrow> (\<And>x s. R x s \<Longrightarrow> R' x s) \<Longrightarrow> yields P m R'"
  by (auto simp: yields_def)

lemma gate_Inr:
  "gate m f s = (Inr x, s') \<longleftrightarrow> m s = (Inr (Inl x), s') \<or> (\<exists>y s1. m s = (Inr (Inr y), s1) \<and> f y s1 = (Inr x, s'))"
  by (force simp: gate_def bnd_Inr ret_run split: sum.split_asm)

text \<open>A gate ends a run only with a denial.\<close>

definition is_denial :: "exec_result \<Rightarrow> bool" where
  "is_denial x \<longleftrightarrow> x_status x = Some ''DENIED'' \<and> \<not> x_claimed_success x"

definition denies :: "(exec_result + 'a) aact \<Rightarrow> bool" where
  "denies m \<longleftrightarrow> (\<forall>s x s'. m s = (Inr (Inl x), s') \<longrightarrow> is_denial x)"

lemma denies_ret [simp]: "denies (ret r) \<longleftrightarrow> (\<forall>x. r = Inl x \<longrightarrow> is_denial x)"
  by (auto simp: denies_def run_iff)

lemma denies_throw [simp]: "denies (throw e)"
  by (simp add: denies_def run_iff)

lemma denies_bnd: "(\<And>x. denies (f x)) \<Longrightarrow> denies (bnd m f)"
  by (auto simp: denies_def bnd_Inr)

lemma denies_case: "denies m \<Longrightarrow> (\<And>y. denies (f y)) \<Longrightarrow> denies (bnd m (\<lambda>r. case r of Inl x \<Rightarrow> ret (Inl x) | Inr y \<Rightarrow> f y))"
  unfolding denies_def
proof (intro allI impI)
  fix s x s'
  assume m: "\<forall>s x s'. m s = (Inr (Inl x), s') \<longrightarrow> is_denial x"
    and f: "\<And>y. \<forall>s x s'. f y s = (Inr (Inl x), s') \<longrightarrow> is_denial x"
    and "bnd m (\<lambda>r. case r of Inl x \<Rightarrow> ret (Inl x) | Inr y \<Rightarrow> f y) s = (Inr (Inl x), s')"
  then obtain r s1 where "m s = (Inr r, s1)" "(case r of Inl x \<Rightarrow> ret (Inl x) | Inr y \<Rightarrow> f y) s1 = (Inr (Inl x), s')"
    by (auto simp: bnd_Inr)
  then show "is_denial x"
    using m f [rule_format] by (cases r) (auto simp: ret_run)
qed

lemma denies_thn: "denies k \<Longrightarrow> denies (thn m k)"
  unfolding thn_def by (rule denies_bnd)

lemma denies_deny_on:
  assumes "\<And>e s x s'. h e s = (Inr x, s') \<Longrightarrow> is_denial x"
  shows "denies (deny_on cls m h)"
  unfolding deny_on_def
proof (rule denies_bnd)
  show "denies (case r of Inl e \<Rightarrow> if is_error cls e then bnd (h e) (\<lambda>x. ret (Inl x)) else throw e | Inr x \<Rightarrow> ret (Inr x))" for r
    by (cases r) (auto simp: denies_def bnd_Inr ret_run throw_run dest: assms)
qed

lemma yields_gate:
  assumes "denies m" "keeps P m" "\<And>y. yields P (f y) (\<lambda>x s. is_denial x \<or> R x s)"
  shows "yields P (gate m f) (\<lambda>x s. is_denial x \<or> R x s)"
  unfolding yields_def
proof (intro allI impI)
  fix s x s' assume s: "P s" and "gate m f s = (Inr x, s')"
  then consider "m s = (Inr (Inl x), s')" | y s1 where "m s = (Inr (Inr y), s1)" "f y s1 = (Inr x, s')"
    by (auto simp: gate_Inr)
  then show "is_denial x \<or> R x s'"
  proof cases
    case 1
    with assms(1) show ?thesis by (auto simp: denies_def)
  next
    case 2
    then have "P s1"
      using assms(2) s by (simp add: keeps_def) (metis snd_conv)
    with 2 assms(3) show ?thesis by (blast dest: yieldsD)
  qed
qed

lemma denied_is_denial [simp]: "is_denial (denied codes key dec)"
  by (simp add: is_denial_def denied_def)

lemma gates_deny:
  "denies (policy_gate A t p g pol)" "denies (approval_gate A args p pol dec)" "denies (ambiguity_gate A args cap i dec)"
  "denies (fallback_gate A args i dec)" "denies (flight_gate A args p i dec)" "denies (claim_gate A args p i dec)"
  "denies (deny_on ''AuthorityUnavailableError'' (revalidateBeforeCommit A x y)
     (\<lambda>e. thn (releaseSemanticIfNeeded A args p held) (ret (denied codes key decision))))"
proof -
  show "denies (policy_gate A t p g pol)"
    unfolding policy_gate_def
    by (intro denies_bnd denies_case denies_deny_on denies_thn) (auto simp: thn_Inr ret_run)
  show "denies (flight_gate A args p i dec)" "denies (claim_gate A args p i dec)"
    unfolding flight_gate_def claim_gate_def by (auto intro!: denies_deny_on simp: ret_run)
  show "denies (deny_on ''AuthorityUnavailableError'' (revalidateBeforeCommit A x y)
     (\<lambda>e. thn (releaseSemanticIfNeeded A args p held) (ret (denied codes key decision))))"
    by (rule denies_deny_on) (auto simp: thn_Inr ret_run)
  show "denies (approval_gate A args p pol dec)" "denies (ambiguity_gate A args cap i dec)" "denies (fallback_gate A args i dec)"
    unfolding approval_gate_def ambiguity_gate_def fallback_gate_def Let_def
    by (auto intro!: denies_bnd split: sum.splits)
qed

section \<open>Live transactions\<close>

text \<open>A run that got past its gates returns only from a transaction that is not aborted, so its commit is one.\<close>

definition lives :: "'a aact \<Rightarrow> bool" where
  "lives m \<longleftrightarrow> yields (\<lambda>s. \<not> g_aborted s) m (\<lambda>_ s. \<not> g_aborted s)"

lemma lives_iff: "lives m \<longleftrightarrow> (\<forall>s x s'. \<not> g_aborted s \<longrightarrow> m s = (Inr x, s') \<longrightarrow> \<not> g_aborted s')"
  by (simp add: lives_def yields_def)

lemma lives_basic:
  "lives (ret x)" "lives (throw e)" "lives (gets g)" "lives (lift r)" "lives (guard b e)"
  by (auto simp: lives_iff ret_run throw_run gets_run lift_run guard_Inr)

lemma lives_source: "lives (randomUUID A)" "lives (Date_now A)"
  by (auto simp: lives_iff randomUUID_def Date_now_def gets_run)

lemma lives_statement: "lives (statement A f)"
  by (auto simp: lives_iff statement_Inr)

lemma lives_query: "lives (select A f)" "lives (execute A g)"
  unfolding select_def execute_def by (rule lives_statement)+

lemma lives_modify: "(\<And>s. g_aborted (f s) = g_aborted s) \<Longrightarrow> lives (modify f)"
  by (simp add: lives_iff run_iff)

lemma lives_bnd: "lives m \<Longrightarrow> (\<And>x. lives (f x)) \<Longrightarrow> lives (bnd m f)"
  unfolding lives_iff bnd_Inr by blast

lemma lives_thn: "lives m \<Longrightarrow> lives k \<Longrightarrow> lives (thn m k)"
  unfolding thn_def by (rule lives_bnd)

lemma lives_whenM: "lives m \<Longrightarrow> lives (whenM b m)"
  using lives_basic(1) [of "()"] by (cases b) (simp_all add: whenM_def ret_def)

lemma lives_if: "lives m \<Longrightarrow> lives k \<Longrightarrow> lives (if b then m else k)"
  by simp

lemma lives_option: "lives m \<Longrightarrow> (\<And>y. lives (f y)) \<Longrightarrow> lives (case x of None \<Rightarrow> m | Some y \<Rightarrow> f y)"
  by (cases x) auto

lemma lives_prod: "(\<And>a b. lives (f a b)) \<Longrightarrow> lives (case x of (a, b) \<Rightarrow> f a b)"
  by (cases x) auto

lemma lives_sum: "(\<And>y. lives (f y)) \<Longrightarrow> (\<And>y. lives (g y)) \<Longrightarrow> lives (case x of Inl y \<Rightarrow> f y | Inr y \<Rightarrow> g y)"
  by (cases x) auto

lemmas lives_rules = lives_basic lives_source lives_statement lives_query lives_modify lives_bnd lives_thn lives_whenM lives_if lives_option lives_prod lives_sum

lemma lives_revalidate:
  assumes "\<And>e. lives (h e)"
  shows "lives (deny_on ''AuthorityUnavailableError'' (revalidateBeforeCommit A x y) h)"
proof -
  have alive: "\<not> g_aborted s'" if "revalidateBeforeCommit A x y s = (r, s')" "\<not> g_aborted s"
    "\<And>e. r = Inl e \<Longrightarrow> is_error ''AuthorityUnavailableError'' e" for r s s'
  proof -
    obtain z s1 where sel: "select A (\<lambda>k t d. authority_at k t) s = (z, s1)"
      by (cases "select A (\<lambda>k t d. authority_at k t) s")
    show ?thesis
    proof (cases z)
      case (Inl e)
      then have "e = sqlError ''Connection terminated''" "r = Inl e"
        using sel that(1,2) by (auto simp: select_def statement_def Let_def revalidateBeforeCommit_def readFreshAuthority_def bnd_def
            split: if_splits sum.splits)
      with that(3) show ?thesis by (simp add: is_error_def sqlError_def plainError_def)
    next
      case (Inr a)
      with sel have "\<not> g_aborted s1"
        by (auto simp: select_Inr)
      with sel Inr that(1) show ?thesis
        by (auto simp: revalidateBeforeCommit_def readFreshAuthority_def bnd_def ret_def throw_def split: option.splits)
    qed
  qed
  show ?thesis
    unfolding lives_iff deny_on_def
  proof (intro allI impI)
    fix s x' s' assume s: "\<not> g_aborted s" and "bnd (attempt (revalidateBeforeCommit A x y)) (\<lambda>r. case r of
       Inl e \<Rightarrow> if is_error ''AuthorityUnavailableError'' e then bnd (h e) (\<lambda>x. ret (Inl x)) else throw e
     | Inr x \<Rightarrow> ret (Inr x)) s = (Inr x', s')"
    then obtain r s1 where r: "revalidateBeforeCommit A x y s = (r, s1)" and rest: "(case r of
       Inl e \<Rightarrow> if is_error ''AuthorityUnavailableError'' e then bnd (h e) (\<lambda>x. ret (Inl x)) else throw e
     | Inr x \<Rightarrow> ret (Inr x)) s1 = (Inr x', s')"
      by (auto simp: bnd_Inr attempt_run)
    then have "\<not> g_aborted s1"
      by (intro alive [OF r s]) (auto simp: throw_run split: if_splits)
    moreover have "lives (bnd (h e) (\<lambda>x. ret (Inl x)))" for e
      by (intro lives_rules assms)
    ultimately show "\<not> g_aborted s'"
      using rest by (cases r) (auto simp: lives_iff ret_run throw_run split: if_splits)
  qed
qed

lemma run_effect_lives: "run_effect A args q s = (Inr x, s') \<Longrightarrow> \<not> g_aborted s'"
proof -
  have release: "lives (releaseSemanticIfNeeded A args p held)" for p held
    unfolding releaseSemanticIfNeeded_def releaseSemanticActionClaim_def requireTenant_def currentTenant_def by (intro lives_rules)
  have parts: "lives (withLocalEffectScopeLock A i m)" if "lives m" for i and m :: "unit aact"
    unfolding withLocalEffectScopeLock_def acquireLocalEffectScopeLock_def localEffectScopeLockIdentity_def
    by (intro lives_rules that) simp
  have complete: "lives (completeFromCommitted A ad r p cap dec ap post tm)" for ad r p cap dec ap post tm
    unfolding completeFromCommitted_def verifyPostcondition_def hasCommitted_def createExecutionTrace_def record_completion_def
      appendReceipt_def update_ledger_def Let_def
    by (intro lives_rules parts)
  have writes: "lives (update_ledger A i f)" "lives (insert_ledger A b r)" "lives (loadLedgerByKey A i)" "lives (need z)"
    "lives (getCommitted i)" "lives (hasCommitted i)" "lives (adapter_commit A i js)" for i f b r js and z :: "'z option"
    unfolding update_ledger_def insert_ledger_def loadLedgerByKey_def need_def getCommitted_def hasCommitted_def adapter_commit_def
    by (intro lives_rules; simp)+
  have continue: "lives (continue_effect A args q l)" for l
    unfolding continue_effect_def resume_committed_def fresh_commit_def gate_def recreate_committed_def mark_committed_def
      finish_resumed_def commit_row_or_resume_def commit_effect_def complete_commit_def Let_def
    by (intro lives_rules lives_revalidate release parts complete writes)
  assume "run_effect A args q s = (Inr x, s')"
  then obtain l s1 where "loadLedgerByKey A (q_key q) s = (Inr l, s1)" "continue_effect A args q l s1 = (Inr x, s')"
    by (auto simp: run_effect_def bnd_Inr)
  then show "\<not> g_aborted s'"
    using continue [of l, unfolded lives_iff, rule_format, of s1 x s'] by (auto simp: loadLedgerByKey_def select_Inr)
qed

lemma gate_passed:
  "gate m f s = (Inr x, s') \<Longrightarrow> denies m \<Longrightarrow> \<not> is_denial x \<Longrightarrow> \<exists>y s1. m s = (Inr (Inr y), s1) \<and> f y s1 = (Inr x, s')"
  unfolding gate_Inr denies_def by blast

lemma executeTrustedEffect_lives:
  assumes run: "executeTrustedEffect A args s = (Inr x, s')" and x: "\<not> is_denial x"
  shows "\<not> g_aborted s'"
proof -
  obtain q s1 where "run_effect A args q s1 = (Inr x, s')"
    using run unfolding executeTrustedEffect_def execute_proposal_def execute_decided_def bnd_Inr Let_def case_prod_unfold
    by (elim exE conjE)
      ((drule gate_passed [OF _ _ x], rule gates_deny, elim exE conjE)+)
  then show ?thesis by (rule run_effect_lives)
qed

end
