(* ===== verification/LedgerFrame.thy ===== *)
theory LedgerFrame
  imports ExecutorFrame
begin

text \<open>
  Properties of the tables that other sessions keep, in three layers: one that every statement keeps if its own
  change does (\<open>session_frame\<close>), one that does not look at the recorded policy decisions, so that the
  executor's first gates keep it (\<open>decision_frame\<close>), and one that looks only at the ledger and its receipts, so that all gates
  do (\<open>ledger_frame\<close>). They are interpreted for the growth of the ledger, for a ledger nobody changes, for the uniqueness
  of flights and claims, and for a workflow without an active flight.
\<close>

abbreviation (input) on_effects :: "(effects \<Rightarrow> bool) \<Rightarrow> agency \<Rightarrow> bool" where
  "on_effects I s \<equiv> I (g_effects s)"

locale session_frame =
  fixes A :: agency_env and I :: "effects \<Rightarrow> bool"
  assumes others: "I d \<Longrightarrow> I (a_other A n d)"
begin

lemma statement_keeps:
  assumes "\<And>k t d x d'. I d \<Longrightarrow> f k t d = Inr (x, d') \<Longrightarrow> I d'"
  shows "keeps (on_effects I) (statement A f)"
proof (rule keepsI)
  fix s r s' assume "on_effects I s" "statement A f s = (r, s')"
  then show "on_effects I s'"
    using others [of "g_effects s" "g_n s"] assms
    by (auto simp: statement_def Let_def split: if_splits sum.splits prod.splits)
qed

lemma select_keeps [keeps_rules]: "keeps (on_effects I) (select A f)"
  unfolding select_def by (rule statement_keeps) simp

lemma execute_keeps:
  assumes "\<And>k t d d'. I d \<Longrightarrow> f k t d = Inr d' \<Longrightarrow> I d'"
  shows "keeps (on_effects I) (execute A f)"
  unfolding execute_def by (rule statement_keeps) (use assms in \<open>auto split: sum.splits\<close>)

lemma modify_keeps [keeps_rules]: "(\<And>s. g_effects (f s) = g_effects s) \<Longrightarrow> keeps (on_effects I) (modify f)"
  by (rule keeps_modify) simp

lemma randomUUID_keeps [keeps_rules]: "keeps (on_effects I) (randomUUID A)"
  by (rule keepsI) (auto simp: randomUUID_def)

lemma Date_now_keeps [keeps_rules]: "keeps (on_effects I) (Date_now A)"
  by (simp add: Date_now_def)

lemma savepoint_keeps [keeps_rules]:
  assumes "keeps (on_effects I) m"
  shows "keeps (on_effects I) (savepoint A m)"
proof (rule keepsI)
  fix s r s' assume s: "on_effects I s" and run: "savepoint A m s = (r, s')"
  let ?p = "thn (select A (\<lambda>k t d. ())) (bnd (gets g_effects) (\<lambda>d.
        bnd (attempt (thn m (select A (\<lambda>k t d. ())))) (\<lambda>r. ret (d, r))))"
  obtain x s1 where p: "?p s = (x, s1)"
    by (cases "?p s")
  have "keeps (on_effects I) ?p"
    by (intro keeps_rules assms)
  then have "on_effects I (snd (?p s))"
    using s by (simp only: keeps_def)
  then have g1: "on_effects I s1"
    by (simp only: p snd_conv)
  have d: "I d" if x: "x = Inr (d, y)" for d y
  proof -
    obtain u s2 where "select A (\<lambda>k t d. ()) s = (Inr u, s2)" and "d = g_effects s2"
      using p unfolding x thn_Inr bnd_Inr gets_run ret_run by auto
    then show ?thesis
      using keepsD [where I = "on_effects I", OF select_keeps s] by simp
  qed
  show "on_effects I s'"
  proof (cases x)
    case (Inl e)
    with run g1 show ?thesis by (simp add: savepoint_def p)
  next
    case (Inr y)
    obtain d z where y: "y = (d, z)" by (cases y)
    with Inr d have "I d" by simp
    with run g1 show ?thesis
      by (cases z) (auto simp: savepoint_def p Inr y others split: if_splits)
  qed
qed

lemma readers_keep [keeps_rules]:
  "keeps (on_effects I) (currentTenant A)" "keeps (on_effects I) (requireTenant A e)"
  "keeps (on_effects I) (loadProposal A i)" "keeps (on_effects I) (loadApproval A i)"
  "keeps (on_effects I) (readFreshAuthority A)" "keeps (on_effects I) (revalidateBeforeCommit A x y)"
  "keeps (on_effects I) (loadActiveGrant A who i)" "keeps (on_effects I) (resolveExecutableCapability A i)"
  "keeps (on_effects I) (assertWritersAllowed A)" "keeps (on_effects I) (acquireLocalEffectScopeLock A i)"
  "keeps (on_effects I) (loadLedgerByKey A i)"
  unfolding currentTenant_def requireTenant_def loadProposal_def loadApproval_def readFreshAuthority_def
      revalidateBeforeCommit_def loadActiveGrant_def resolveExecutableCapability_def resolveCapability_def loadCapabilityRow_def
      assertWritersAllowed_def readRecovery_def acquireLocalEffectScopeLock_def localEffectScopeLockIdentity_def
      loadLedgerByKey_def Let_def by (intro keeps_rules | simp)+

lemma loadOwnerSession_keeps [keeps_rules]: "keeps (on_effects I) (loadOwnerSession A i)"
  unfolding loadOwnerSession_def by (rule statement_keeps) (auto split: if_splits)

lemma adapter_keeps [keeps_rules]:
  "keeps (on_effects I) (hasCommitted i)" "keeps (on_effects I) (getCommitted i)" "keeps (on_effects I) (need x)"
  "keeps (on_effects I) (verifyPostcondition ad i y)" "keeps (on_effects I) (adapter_commit A i z)"
  unfolding hasCommitted_def getCommitted_def need_def verifyPostcondition_def adapter_commit_def Let_def by (intro keeps_rules | simp)+

lemma gate_keeps [keeps_rules]:
  "keeps (on_effects I) m \<Longrightarrow> (\<And>x. keeps (on_effects I) (f x)) \<Longrightarrow> keeps (on_effects I) (gate m f)"
  unfolding gate_def by (intro keeps_rules)

lemma deny_on_keeps [keeps_rules]:
  "keeps (on_effects I) m \<Longrightarrow> (\<And>e. keeps (on_effects I) (h e)) \<Longrightarrow> keeps (on_effects I) (deny_on cls m h)"
  unfolding deny_on_def by (intro keeps_rules)

end

locale decision_frame = session_frame +
  assumes same_but_decisions: "I d \<Longrightarrow> I (d\<lparr>f_decisions := x\<rparr>)"
begin

lemma insert_decision_keeps [keeps_rules]: "keeps (on_effects I) (insert_decision A r)"
  unfolding insert_decision_def by (rule execute_keeps) (auto intro: same_but_decisions split: if_splits)

lemma first_gates_keep [keeps_rules]:
  "keeps (on_effects I) (executor_start A args)" "keeps (on_effects I) (policy_gate A t p g pol)"
  "keeps (on_effects I) (approval_gate A args p pol dec)" "keeps (on_effects I) (ambiguity_gate A args cap i dec)"
  "keeps (on_effects I) (fallback_gate A args i dec)"
  unfolding executor_start_def policy_gate_def approval_gate_def ambiguity_gate_def fallback_gate_def Let_def
  by (intro keeps_rules | simp)+

end

locale ledger_frame = session_frame +
  assumes same_ledger: "I d \<Longrightarrow> f_ledger e = f_ledger d \<Longrightarrow> f_receipts e = f_receipts d \<Longrightarrow> I e"

sublocale ledger_frame < decision_frame A I
  by unfold_locales (auto elim: same_ledger)

context ledger_frame
begin

lemma rows_keep [keeps_rules]:
  "keeps (on_effects I) (insert_flight A f)" "keeps (on_effects I) (expire_stale A P tm)" "keeps (on_effects I) (insert_claim A c)"
  unfolding insert_flight_def expire_stale_def insert_claim_def update_flights_def
  by (rule execute_keeps; auto elim!: same_ledger split: if_splits option.splits)+

lemma createExecutionTrace_keeps [keeps_rules]: "keeps (on_effects I) (createExecutionTrace A tr)"
  unfolding createExecutionTrace_def
  by (intro keeps_rules execute_keeps) (auto elim!: same_ledger split: if_splits)

lemma flights_keep [keeps_rules]:
  "keeps (on_effects I) (assertWorkflowMayCommitEffect A w q b)" "keeps (on_effects I) (claimSemanticAction A x y w e)"
  unfolding assertWorkflowMayCommitEffect_def claimSemanticAction_def find_claim_def by (intro keeps_rules | simp)+

lemma releaseSemanticActionClaim_keeps [keeps_rules]: "keeps (on_effects I) (releaseSemanticActionClaim A x y w)"
  unfolding releaseSemanticActionClaim_def
  by (intro keeps_rules statement_keeps) (auto simp: Let_def elim!: same_ledger)

lemma gates_keep [keeps_rules]:
  "keeps (on_effects I) (flight_gate A args p i dec)" "keeps (on_effects I) (claim_gate A args p i dec)"
  "keeps (on_effects I) (releaseSemanticIfNeeded A args p held)"
  unfolding flight_gate_def claim_gate_def releaseSemanticIfNeeded_def by (intro keeps_rules | simp)+

end

end
