(* ===== verification/ExecutorLedger.thy ===== *)
theory ExecutorLedger
  imports LedgerFrame
begin

text \<open>
  The effect ledger under concurrent sessions. \<open>effects_ok\<close> says that every completed effect is
  vouched for by its receipt; \<open>grows\<close> is how the ledger may change from one moment to a later one: receipts stay, rows
  keep their identity, completed rows stay as they are. The locale \<open>other_sessions\<close> relies on others
  to change the tables only so, and shows that every run of the executor does the same, whether
  it returns, is denied or raises. It is interpreted for a database nobody else uses and
  for one in which other runs of the executor commit between any two statements.
\<close>

definition is_completed :: "ledger_row \<Rightarrow> bool" where
  "is_completed r \<longleftrightarrow> el_status r = ''COMPLETED''"

definition vouches :: "receipt \<Rightarrow> ledger_row \<Rightarrow> bool" where
  "vouches c r \<longleftrightarrow> el_receipt_id r = Some (rc_receipt_id c) \<and> rc_key c = el_key r \<and>
     el_outcome r = Some (outcomeFromVerification (rc_verification_status c)) \<and>
     rc_verification_status c = mapPostconditionToVerification (el_postcondition_status r)"

definition effects_ok :: "effects \<Rightarrow> bool" where
  "effects_ok d \<longleftrightarrow> distinct (map el_effect_id (f_ledger d)) \<and> distinct (map el_key (f_ledger d)) \<and>
     distinct (map rc_receipt_id (f_receipts d)) \<and> distinct (map rc_key (f_receipts d)) \<and>
     (\<forall>r \<in> set (f_ledger d). is_completed r \<longrightarrow> (\<exists>c \<in> set (f_receipts d). vouches c r))"

definition identity :: "ledger_row \<Rightarrow> string \<times> string \<times> string" where
  "identity r = (el_effect_id r, el_key r, el_tenant_id r)"

definition grows :: "effects \<Rightarrow> effects \<Rightarrow> bool" where
  "grows d d' \<longleftrightarrow> effects_ok d' \<and> set (f_receipts d) \<subseteq> set (f_receipts d') \<and>
     identity ` set (f_ledger d) \<subseteq> identity ` set (f_ledger d') \<and>
     (\<forall>r \<in> set (f_ledger d). is_completed r \<longrightarrow> r \<in> set (f_ledger d'))"

lemma grows_refl: "effects_ok d \<Longrightarrow> grows d d"
  by (simp add: grows_def)

lemma grows_ok: "grows d d' \<Longrightarrow> effects_ok d'"
  by (simp add: grows_def)

lemma grows_trans: "grows d e \<Longrightarrow> grows e f \<Longrightarrow> grows d f"
  unfolding grows_def by (meson order_trans)

text \<open>Changes outside the ledger and its receipts.\<close>

lemma grows_same:
  "grows d e \<Longrightarrow> f_ledger e' = f_ledger e \<Longrightarrow> f_receipts e' = f_receipts e \<Longrightarrow> grows d e'"
  by (simp add: grows_def effects_ok_def)

section \<open>Writes to the ledger\<close>

lemma grows_insert:
  assumes "effects_ok d" "el_key r \<notin> el_key ` set (f_ledger d)" "el_effect_id r \<notin> el_effect_id ` set (f_ledger d)"
    and "\<not> is_completed r"
  shows "grows d (d\<lparr>f_ledger := f_ledger d @ [r]\<rparr>)"
  using assms by (auto simp: grows_def effects_ok_def)

lemma grows_receipt:
  assumes "effects_ok d" "rc_receipt_id c \<notin> rc_receipt_id ` set (f_receipts d)" "rc_key c \<notin> rc_key ` set (f_receipts d)"
  shows "grows d (d\<lparr>f_receipts := f_receipts d @ [c]\<rparr>)"
  using assms by (auto simp: grows_def effects_ok_def)

text \<open>An update of one row: it keeps the row's identity, does not touch a completed row, and what it completes
  has a receipt.\<close>

lemma grows_update:
  assumes grown: "grows d0 d" and id: "\<And>r. identity (f r) = identity r"
    and open_row: "\<And>r. r \<in> set (f_ledger d0) \<Longrightarrow> is_completed r \<Longrightarrow> \<not> P r"
    and vouched: "\<And>r. r \<in> set (f_ledger d) \<Longrightarrow> P r \<Longrightarrow> is_completed (f r) \<Longrightarrow> \<exists>c \<in> set (f_receipts d). vouches c (f r)"
  shows "grows d0 (d\<lparr>f_ledger := map (\<lambda>r. if P r then f r else r) (f_ledger d)\<rparr>)"
proof -
  define g where "g r = (if P r then f r else r)" for r
  have id': "identity (g r) = identity r" for r
    by (simp add: g_def id)
  then have keys: "el_effect_id (g r) = el_effect_id r" "el_key (g r) = el_key r" for r
    by (simp_all add: identity_def)
  have "\<exists>c \<in> set (f_receipts d). vouches c (g r)" if "r \<in> set (f_ledger d)" "is_completed (g r)" for r
    using that vouched grows_ok [OF grown] by (cases "P r") (auto simp: effects_ok_def g_def)
  then have "effects_ok (d\<lparr>f_ledger := map g (f_ledger d)\<rparr>)"
    using grows_ok [OF grown] by (auto simp: effects_ok_def o_def keys)
  moreover have "identity ` set (f_ledger d) = identity ` set (map g (f_ledger d))"
    by (simp add: image_image id')
  moreover have "r \<in> g ` set (f_ledger d)" if "r \<in> set (f_ledger d0)" "is_completed r" for r
    using that open_row grown by (intro image_eqI [of _ _ r]) (auto simp: g_def grows_def)
  ultimately show ?thesis
    using grown by (simp add: grows_def g_def [symmetric])
qed

lemma row_of_effect:
  assumes "effects_ok d" "r \<in> set (f_ledger d)" "r' \<in> set (f_ledger d)" "el_effect_id r = el_effect_id r'"
  shows "r = r'"
  using assms by (auto simp: effects_ok_def dest: inj_onD distinct_map [THEN iffD1])

lemma row_of_key:
  assumes "effects_ok d" "r \<in> set (f_ledger d)" "r' \<in> set (f_ledger d)" "el_key r = el_key r'"
  shows "r = r'"
  using assms by (auto simp: effects_ok_def dest: inj_onD distinct_map [THEN iffD1])

text \<open>An effect that no completed row of an earlier moment belongs to.\<close>

definition unfinished :: "effects \<Rightarrow> string \<Rightarrow> bool" where
  "unfinished d i \<longleftrightarrow> (\<forall>r \<in> set (f_ledger d). is_completed r \<longrightarrow> el_effect_id r \<noteq> i)"

section \<open>Statements beside other sessions\<close>

abbreviation (input) grown :: "effects \<Rightarrow> agency \<Rightarrow> bool" where
  "grown d s \<equiv> grows d (g_effects s)"

locale other_sessions =
  fixes A :: agency_env
  assumes others_grow: "effects_ok d \<Longrightarrow> grows d (a_other A n d)"
begin

lemma others_grown: "grows d0 d \<Longrightarrow> grows d0 (a_other A n d)"
  using grows_trans others_grow grows_ok by blast

end

sublocale other_sessions < grows: ledger_frame A "grows d0" for d0
  by unfold_locales (auto intro: others_grown elim: grows_same)

context other_sessions
begin

lemmas execute_grows = grows.execute_keeps

lemma statement_leads:
  assumes "\<And>k t d x d'. grows d1 d \<Longrightarrow> f k t d = Inr (x, d') \<Longrightarrow> grows d0 d'" and "grows d0 d1"
  shows "leads (grown d1) (statement A f) (grown d0)"
  unfolding leads_def
proof (intro allI impI)
  fix s assume "grown d1 s"
  then show "grown d0 (snd (statement A f s))"
    using others_grown [of d1 "g_effects s" "g_n s"] assms grows_trans [of d0 d1]
    by (auto simp: statement_def Let_def split: if_splits sum.splits prod.splits)
qed

lemma execute_leads:
  assumes "\<And>k t d d'. grows d1 d \<Longrightarrow> f k t d = Inr d' \<Longrightarrow> grows d0 d'" and "grows d0 d1"
  shows "leads (grown d1) (execute A f) (grown d0)"
  unfolding execute_def by (rule statement_leads) (use assms in \<open>auto split: sum.splits\<close>)

subsection \<open>Operations that write the ledger\<close>

lemma lock_grows [keeps_rules]: "keeps (grown d0) m \<Longrightarrow> keeps (grown d0) (withLocalEffectScopeLock A t m)"
  unfolding withLocalEffectScopeLock_def by (intro keeps_rules)

lemma insert_ledger_grows [keeps_rules]:
  assumes "\<not> is_completed r"
  shows "keeps (grown d0) (insert_ledger A b r)"
  unfolding insert_ledger_def
  by (rule execute_grows)
    (use assms in \<open>auto intro: grows_trans [OF _ grows_insert [OF grows_ok]] split: if_splits\<close>)

lemma appendReceipt_grows [keeps_rules]: "keeps (grown d0) (appendReceipt A c)"
  unfolding appendReceipt_def
  by (intro keeps_rules execute_grows)
    (auto intro!: grows_trans [OF _ grows_receipt [OF grows_ok]] split: if_splits)

lemma update_ledger_grows:
  assumes "unfinished d0 i" "\<And>r. identity (f r) = identity r" "\<And>r. \<not> is_completed (f r)"
  shows "keeps (grown d0) (update_ledger A i f)"
  unfolding update_ledger_def
  by (rule execute_grows) (use assms in \<open>auto intro!: grows_update simp: own_row_def unfinished_def\<close>)

lemma complete_leads:
  assumes "grows d0 d1" "unfinished d0 i" "(i, rc_key c, t) \<in> identity ` set (f_ledger d1)" "c \<in> set (f_receipts d1)"
    and status: "rc_verification_status c = mapPostconditionToVerification (Some post)"
  shows "leads (grown d1) (update_ledger A i
    (complete_row post (rc_receipt_id c) (outcomeFromVerification (rc_verification_status c)) tm)) (grown d0)"
  unfolding update_ledger_def
proof (rule execute_leads)
  fix k t' d d' assume d: "grows d1 d"
    and d': "Inr (d\<lparr>f_ledger := map (\<lambda>r. if own_row t' i r then complete_row post (rc_receipt_id c)
      (outcomeFromVerification (rc_verification_status c)) tm r else r) (f_ledger d)\<rparr>) = Inr d'"
  have c: "c \<in> set (f_receipts d)" and i: "(i, rc_key c, t) \<in> identity ` set (f_ledger d)"
    using d assms(3,4) by (auto simp: grows_def)
  have v: "vouches c (complete_row post (rc_receipt_id c) (outcomeFromVerification (rc_verification_status c)) tm r)"
    if "r \<in> set (f_ledger d)" "own_row t' i r" for r
  proof -
    obtain q where "q \<in> set (f_ledger d)" "identity q = (i, rc_key c, t)"
      using i by auto
    with that have "q = r"
      using row_of_effect [OF grows_ok [OF d]] by (auto simp: own_row_def identity_def)
    then show ?thesis
      using \<open>identity q = _\<close> status by (auto simp: vouches_def complete_row_def identity_def mapPostconditionToVerification_def)
  qed
  have "grows d0 (d\<lparr>f_ledger := map (\<lambda>r. if own_row t' i r then complete_row post (rc_receipt_id c)
      (outcomeFromVerification (rc_verification_status c)) tm r else r) (f_ledger d)\<rparr>)"
  proof (rule grows_update [OF grows_trans [OF assms(1) d]])
    show "\<not> own_row t' i r" if "r \<in> set (f_ledger d0)" "is_completed r" for r
      using that assms(2) by (simp add: unfinished_def own_row_def)
  qed (use c v in \<open>blast | simp add: identity_def complete_row_def\<close>)+
  with d' show "grows d0 d'"
    by simp
qed (rule assms(1))

lemma appendReceipt_there:
  "appendReceipt A c s = (Inr i, s') \<Longrightarrow> c\<lparr>rc_receipt_id := i\<rparr> \<in> set (f_receipts (g_effects s'))"
  by (auto simp: appendReceipt_def run_iff execute_Inr randomUUID_def split: if_splits)

lemma record_completion_leads:
  assumes d1: "grows d0 d1" and "unfinished d0 i" and i: "(i, rc_key c, t) \<in> identity ` set (f_ledger d1)"
    and status: "rc_verification_status c = mapPostconditionToVerification (Some post)"
    and out: "out = outcomeFromVerification (rc_verification_status c)"
  shows "leads (grown d1) (record_completion A i c post out) (grown d0)"
  unfolding leads_def
proof (intro allI impI)
  fix s assume s: "grown d1 s"
  obtain r s1 where run: "appendReceipt A c s = (r, s1)"
    by (cases "appendReceipt A c s")
  have s1: "grown d1 s1"
    using appendReceipt_grows [of d1 c] s run by (simp add: keeps_def) (metis snd_conv)
  show "grown d0 (snd (record_completion A i c post out s))"
  proof (cases r)
    case (Inl e)
    with run s1 d1 show ?thesis
      by (simp add: record_completion_def bnd_fail) (rule grows_trans)
  next
    case (Inr receiptId)
    let ?c = "c\<lparr>rc_receipt_id := receiptId\<rparr>" and ?d = "g_effects s1"
    have c: "?c \<in> set (f_receipts ?d)" and i': "(i, rc_key ?c, t) \<in> identity ` set (f_ledger ?d)"
      using appendReceipt_there run Inr i s1 by (auto simp: grows_def)
    have "leads (grown ?d) (update_ledger A i (complete_row post receiptId out tm)) (grown d0)" for tm
      using complete_leads [OF grows_trans [OF d1 s1] assms(2) i' c] status out by simp
    then have "leads (grown ?d) (bnd (Date_now A) (\<lambda>tm.
        thn (withLocalEffectScopeLock A (rc_tenant_id c) (update_ledger A i (complete_row post receiptId out tm))) (ret receiptId))) (grown d0)"
      unfolding withLocalEffectScopeLock_def
      by (intro leads_bnd leads_then [where Q = "grown d0"] leads_thn keeps_rules grows_trans [OF grows_trans [OF d1 s1]])
    with grows_refl [OF grows_ok [OF s1]] show ?thesis
      by (simp add: record_completion_def leads_def run Inr
          bnd_step [where m = "appendReceipt A c" and s = s and x = receiptId and s' = s1])
  qed
qed

lemma completeFromCommitted_leads:
  assumes "grows d0 d1" "unfinished d0 (el_effect_id r)" "r \<in> set (f_ledger d1)"
  shows "leads (grown d1) (completeFromCommitted A ad r p cap dec ap forced tm) (grown d0)"
proof -
  have "(el_effect_id r, el_key r, el_tenant_id r) \<in> identity ` set (f_ledger d1)"
    using assms(3) by (force simp: identity_def)
  then show ?thesis
    unfolding completeFromCommitted_def Let_def using assms
    by (intro leads_bnd [OF _ leads_thn [OF _ leads_bnd [OF _ leads_bind]]] record_completion_leads keeps_rules)
      (simp_all add: grows_trans [OF assms(1)])
qed

end

section \<open>Whole runs\<close>

text \<open>A run beside others, in the context of one tenant.\<close>

definition within :: "effects \<Rightarrow> string option \<Rightarrow> agency \<Rightarrow> bool" where
  "within d t s \<longleftrightarrow> grows d (g_effects s) \<and> g_tenant s = t"

lemma keeps_within:
  "keeps (\<lambda>s. grows d (g_effects s)) m \<Longrightarrow> keeps (frame (\<lambda>u st. u = t) 0) m \<Longrightarrow> keeps (within d t) m"
  by (simp add: keeps_def within_def frame_def)

lemma leads_within:
  "leads (\<lambda>s. grows e (g_effects s)) m (\<lambda>s. grows d (g_effects s)) \<Longrightarrow> keeps (frame (\<lambda>u st. u = t) 0) m \<Longrightarrow>
   leads (within e t) m (within d t)"
  by (simp add: leads_def keeps_def within_def frame_def)

text \<open>No completed row of this key is visible.\<close>

definition none_completed :: "effects \<Rightarrow> string option \<Rightarrow> string \<Rightarrow> bool" where
  "none_completed d t key \<longleftrightarrow> (\<forall>r \<in> set (f_ledger d). el_key r = key \<and> t = Some (el_tenant_id r) \<longrightarrow> \<not> is_completed r)"

lemma none_completed_unfinished:
  assumes "none_completed d t key" "grows d e" "r \<in> set (f_ledger e)" "el_key r = key" "t = Some (el_tenant_id r)"
  shows "unfinished d (el_effect_id r)"
  unfolding unfinished_def
proof (intro ballI impI notI)
  fix q assume q: "q \<in> set (f_ledger d)" "is_completed q" "el_effect_id q = el_effect_id r"
  with assms have "q = r"
    using row_of_effect [OF grows_ok [OF assms(2)], of q r] by (auto simp: grows_def)
  with q assms show False
    by (auto simp: none_completed_def)
qed

lemma visible_row:
  "find_row el_key (visible el_tenant_id t rs) key = Some r \<Longrightarrow> r \<in> set rs \<and> el_key r = key \<and> t = Some (el_tenant_id r)"
  by (auto simp: visible_def dest: find_row_Some)

lemma none_completed_of_load:
  assumes ok: "effects_ok e" and row: "ledger = find_row el_key (visible el_tenant_id t (f_ledger e)) key"
    and "map_option el_status ledger \<noteq> Some ''COMPLETED''"
  shows "none_completed e t key"
  unfolding none_completed_def
proof (intro ballI impI, elim conjE)
  fix r assume r: "r \<in> set (f_ledger e)" "el_key r = key" "t = Some (el_tenant_id r)"
  show "\<not> is_completed r"
  proof (cases ledger)
    case None
    with row have "key \<notin> el_key ` set (visible el_tenant_id t (f_ledger e))"
      by (simp only: find_row_None [symmetric])
    with r show ?thesis by (force simp: visible_def)
  next
    case (Some r')
    with row have "r' \<in> set (f_ledger e)" "el_key r' = key"
      using visible_row [of t "f_ledger e" key r'] by simp_all
    then have "r' = r"
      by (intro row_of_key [OF ok _ r(1)]) (simp_all add: r(2))
    with Some assms(3) show ?thesis by (simp add: is_completed_def)
  qed
qed

lemma need_simps [simp]: "bnd (need (Some x)) f = f x" "bnd (need None) f = throw (plainError ''Cannot read properties of null'')"
  by (auto simp: need_def bnd_def throw_def ret_def)

context other_sessions
begin

lemma keeps_load:
  assumes "\<And>e r. grows d e \<Longrightarrow> r \<in> set (f_ledger e) \<Longrightarrow> el_key r = key \<Longrightarrow> t = Some (el_tenant_id r) \<Longrightarrow>
      leads (within e t) (f (Some r)) (within d t)"
    and "keeps (within d t) (f None)"
  shows "keeps (within d t) (bnd (loadLedgerByKey A key) f)"
  unfolding keeps_def
proof (intro allI impI)
  fix s assume s: "within d t s"
  obtain x s1 where run: "loadLedgerByKey A key s = (x, s1)"
    by (cases "loadLedgerByKey A key s")
  have "keeps (within d t) (loadLedgerByKey A key)"
    by (intro keeps_within keeps_rules)
  then have s1: "within d t s1"
    using s run by (simp add: keeps_def) (metis snd_conv)
  show "within d t (snd (bnd (loadLedgerByKey A key) f s))"
  proof (cases x)
    case (Inl e)
    with run s1 show ?thesis by (simp add: bnd_def)
  next
    case (Inr found)
    have "within d t (snd (f found s1))"
    proof (cases found)
      case None
      with assms(2) s1 show ?thesis by (simp add: keeps_def)
    next
      case (Some r)
      with run Inr s have "r \<in> set (f_ledger (g_effects s1)) \<and> el_key r = key \<and> t = Some (el_tenant_id r)"
        by (auto simp: loadLedgerByKey_def select_Inr within_def dest!: sym [of "Some r"] visible_row)
      moreover have "grows d (g_effects s1)" "within (g_effects s1) t s1"
        using s1 by (auto simp: within_def intro: grows_refl grows_ok)
      ultimately show ?thesis
        using assms(1) [of "g_effects s1" r] by (simp add: leads_def Some)
    qed
    with run Inr show ?thesis by (simp add: bnd_def)
  qed
qed

lemma finish_resumed_within:
  assumes "grows d e" "unfinished d (el_effect_id r)" "r \<in> set (f_ledger e)"
  shows "leads (within e t) (finish_resumed A args q r) (within d t)"
  unfolding finish_resumed_def
  by (intro leads_bind [where Q = "within d t"] leads_within completeFromCommitted_leads assms keeps_within keeps_rules)

lemma commit_frame [keeps_rules]: "keeps (frame (\<lambda>u st. u = t) 0) (adapter_commit A i z)"
  unfolding adapter_commit_def
  by (intro keeps_rules keeps_modify) (simp_all add: frame_def)

lemma within_weaken: "grows d e \<Longrightarrow> keeps (within d t) m \<Longrightarrow> leads (within e t) m (within d t)"
  by (auto simp: leads_def keeps_def within_def intro: grows_trans)

lemma resume_committed_within:
  assumes none: "none_completed d t (q_key q)"
    and row: "\<And>r. row = Some r \<Longrightarrow> r \<in> set (f_ledger e) \<and> el_key r = q_key q \<and> t = Some (el_tenant_id r)"
    and e: "grows d e"
  shows "leads (within e t) (resume_committed A args q row) (within d t)"
proof -
  have reload: "keeps (within d t) (bnd (loadLedgerByKey A (q_key q)) (\<lambda>l. bnd (need l) (finish_resumed A args q)))"
    by (rule keeps_load) (auto intro: finish_resumed_within none_completed_unfinished [OF none] keeps_rules)
  have un: "unfinished d (el_effect_id r)" if "row = Some r" for r
    using none_completed_unfinished [OF none e] row [OF that] by blast
  have mark: "keeps (within d t) (mark_committed A q r)" if "row = Some r" for r
    unfolding mark_committed_def
    by (intro keeps_within keeps_rules update_ledger_grows un [OF that])
      (simp_all add: recommit_row_def identity_def is_completed_def)
  have recreate: "keeps (within d t) (recreate_committed A q)"
    unfolding recreate_committed_def
    by (intro keeps_within keeps_rules) (simp_all add: commit_row_def is_completed_def)
  show ?thesis
  proof (cases row)
    case None
    with e reload recreate show ?thesis
      by (simp add: resume_committed_def thn_def bnd_assoc within_weaken keeps_bnd)
  next
    case (Some r)
    then show ?thesis
      using e reload mark [OF Some] row [OF Some] finish_resumed_within [OF e un [OF Some]]
      by (simp add: resume_committed_def thn_def bnd_assoc within_weaken keeps_bnd)
  qed
qed

lemma complete_commit_within:
  assumes "grows d e" "unfinished d (el_effect_id r)" "r \<in> set (f_ledger e)"
  shows "leads (within e t) (complete_commit A args q tm b r) (within d t)"
proof (cases "e_inject_crash args")
  case True
  with assms(1) show ?thesis
    by (simp add: complete_commit_def within_weaken)
next
  case False
  have "leads (within e t) (bnd (completeFromCommitted A (q_adapter q) r (q_proposal q) (q_capability q) (q_decision q) (q_approval q)
      (e_forced_postcondition args) tm) (\<lambda>finished.
    thn (whenM (\<not> x_claimed_success finished) (releaseSemanticIfNeeded A args (q_proposal q) (q_held q)))
    (ret (finished\<lparr>x_resumed := False, x_duplicate := b, x_policy_decision_id := Some (q_decision q)\<rparr>)))) (within d t)"
    by (intro leads_bind [where Q = "within d t"] leads_within completeFromCommitted_leads assms keeps_within keeps_rules)
  with False show ?thesis
    by (simp add: complete_commit_def)
qed

lemma commit_effect_within:
  assumes "none_completed d t (q_key q)" "unfinished d (el_effect_id row)"
  shows "keeps (within d t) (commit_effect A args q fresh row tm)"
proof -
  have after: "keeps (within d t) (bnd (loadLedgerByKey A (q_key q)) (\<lambda>l. bnd (need l) (complete_commit A args q tm already)))" for already
    by (rule keeps_load) (auto intro: complete_commit_within none_completed_unfinished [OF assms(1)])
  have "keeps (within d t) (withLocalEffectScopeLock A x (update_ledger A (el_effect_id row) (commit_row y fresh z)))" for x y z
    by (intro keeps_within keeps_rules update_ledger_grows assms) (simp_all add: commit_row_def identity_def is_completed_def)
  moreover have "keeps (within d t) (adapter_commit A i z)" "keeps (within d t) (Date_now A)" for i z
    by (intro keeps_within keeps_rules)+
  ultimately show ?thesis
    unfolding commit_effect_def by (auto intro!: keeps_bnd keeps_prod keeps_thn after)
qed

lemma commit_row_or_resume_within:
  assumes none: "none_completed d t (q_key q)"
    and e: "grows d e" "r \<in> set (f_ledger e)" "el_key r = q_key q" "t = Some (el_tenant_id r)"
  shows "leads (within e t) (commit_row_or_resume A args q fresh i tm r) (within d t)"
proof -
  note un = none_completed_unfinished [OF none e]
  have "leads (within e t) (finish_resumed A args q r) (within d t)"
    by (rule finish_resumed_within [OF e(1) un e(2)])
  moreover have "leads (within e t) (commit_effect A args q fresh r tm) (within d t)"
    by (rule within_weaken [OF e(1) commit_effect_within [OF none un]])
  moreover have "keeps (within e t) (hasCommitted (q_key q))"
    by (intro keeps_within keeps_rules)
  moreover have "leads (within e t) (ret x) (within d t)" for x
    by (rule within_weaken [OF e(1)]) simp
  moreover have "within d t s" if "within e t s" for s
    using that grows_trans [OF e(1)] by (simp add: within_def)
  ultimately show ?thesis
    unfolding commit_row_or_resume_def by (intro leads_if leads_bnd)
qed

lemma fresh_commit_within:
  assumes "none_completed d t (q_key q)"
  shows "keeps (within d t) (fresh_commit A args q)"
proof -
  have loaded: "keeps (within d t) (bnd (loadLedgerByKey A (q_key q)) (\<lambda>ledger. case ledger of
       None \<Rightarrow> throw err | Some row \<Rightarrow> commit_row_or_resume A args q fresh i tm row))" for i fresh tm err
  proof (rule keeps_load)
    show "leads (within e t) (case Some r of None \<Rightarrow> throw err | Some row \<Rightarrow> commit_row_or_resume A args q fresh i tm row) (within d t)"
      if "grows d e" "r \<in> set (f_ledger e)" "el_key r = q_key q" "t = Some (el_tenant_id r)" for e r
      using commit_row_or_resume_within [OF assms that] by simp
  qed simp
  have "keeps (within d t) (withLocalEffectScopeLock A x (insert_ledger A True (new_row i x key p tm)))" for x i key p tm
    by (intro keeps_within keeps_rules) (simp_all add: new_row_def is_completed_def)
  moreover have "keeps (within d t) (randomUUID A)" "keeps (within d t) (Date_now A)"
      "keeps (within d t) (releaseSemanticIfNeeded A args (q_proposal q) (q_held q))"
      "keeps (within d t) (deny_on ''AuthorityUnavailableError'' (revalidateBeforeCommit A x y)
        (\<lambda>e. thn (releaseSemanticIfNeeded A args (q_proposal q) (q_held q)) (ret z)))" for x y z
    by (intro keeps_within keeps_rules)+
  ultimately show ?thesis
    unfolding fresh_commit_def gate_def
    by (auto intro!: keeps_bnd keeps_prod keeps_thn keeps_sum keeps_if loaded)
qed

lemma continue_effect_within:
  assumes ok: "effects_ok e" and row: "ledger = find_row el_key (visible el_tenant_id t (f_ledger e)) (q_key q)"
  shows "keeps (within e t) (continue_effect A args q ledger)"
  unfolding continue_effect_def
proof (intro keeps_bnd keeps_if)
  assume "map_option el_status ledger \<noteq> Some ''COMPLETED''"
  note none = none_completed_of_load [OF ok row this]
  show "keeps (within e t) (resume_committed A args q ledger)"
    unfolding keeps_iff_leads
  proof (rule resume_committed_within [OF none _ grows_refl [OF ok]])
    show "r \<in> set (f_ledger e) \<and> el_key r = q_key q \<and> t = Some (el_tenant_id r)" if "ledger = Some r" for r
      using visible_row [of t "f_ledger e" "q_key q" r] row that by simp
  qed
  show "keeps (within e t) (fresh_commit A args q)"
    by (rule fresh_commit_within [OF none])
qed (intro keeps_within keeps_rules)+

lemma run_effect_within: "keeps (within d t) (run_effect A args q)"
  unfolding keeps_def
proof (intro allI impI)
  fix s assume s: "within d t s"
  obtain x s1 where load: "loadLedgerByKey A (q_key q) s = (x, s1)"
    by (cases "loadLedgerByKey A (q_key q) s")
  have "keeps (within d t) (loadLedgerByKey A (q_key q))"
    by (intro keeps_within keeps_rules)
  then have s1: "within d t s1"
    using s load by (simp add: keeps_def) (metis snd_conv)
  show "within d t (snd (run_effect A args q s))"
  proof (cases x)
    case (Inl e)
    with load s1 show ?thesis by (simp add: run_effect_def bnd_fail)
  next
    case (Inr ledger)
    with load s s1 have "ledger = find_row el_key (visible el_tenant_id t (f_ledger (g_effects s1))) (q_key q)"
      by (auto simp: loadLedgerByKey_def select_Inr within_def)
    moreover have "effects_ok (g_effects s1)" "within (g_effects s1) t s1"
      using s1 by (auto simp: within_def grows_ok grows_refl)
    ultimately have "within (g_effects s1) t (snd (run_effect A args q s))"
      using continue_effect_within [of "g_effects s1" ledger t q args]
      by (simp add: run_effect_def keeps_def load Inr bnd_step [where m = "loadLedgerByKey A (q_key q)" and s = s and x = ledger and s' = s1])
    then show ?thesis
      using s1 grows_trans by (auto simp: within_def)
  qed
qed

lemma executeTrustedEffect_within: "keeps (within d t) (executeTrustedEffect A args)"
  unfolding executeTrustedEffect_def execute_proposal_def execute_decided_def gate_def Let_def
  by (intro keeps_bnd keeps_prod keeps_sum run_effect_within keeps_ret; intro keeps_within keeps_rules)

text \<open>A transaction of the executor, as other sessions see it once it has ended.\<close>

lemma transaction_grows:
  assumes "effects_ok (g_effects s)"
  shows "grows (g_effects s) (g_effects (snd (runForTenant A t (executeTrustedEffect A args) s)))"
proof (cases "t = []")
  case True
  with assms show ?thesis by (simp add: runForTenant_def throw_def grows_refl)
next
  case False
  let ?n = "g_n s" and ?m = "thn (set_tenant A t) (executeTrustedEffect A args)"
  let ?s0 = "s\<lparr>g_n := Suc ?n, g_effects := a_other A ?n (g_effects s), g_aborted := False, g_tenant := None, g_locks := []\<rparr>"
  have s0: "grows (g_effects s) (g_effects ?s0)"
    using others_grow [OF assms] by simp
  have "keeps (\<lambda>s. grows d (g_effects s)) (executeTrustedEffect A args)" for d
    using executeTrustedEffect_within by (auto simp: keeps_def within_def)
  then have "keeps (\<lambda>s. grows d (g_effects s)) ?m" for d
    unfolding set_tenant_def by (intro keeps_rules) (auto simp: keeps_def)
  then have "grows (g_effects s) (g_effects (snd (?m ?s0)))"
    using s0 by (simp add: keeps_def)
  with s0 False show ?thesis
    by (auto simp: runForTenant_def tx_def Let_def rolled_back_def split: sum.splits prod.splits)
qed

end

section \<open>What a result rests on\<close>

text \<open>The ledger holds a completed row with the outcome and the receipt that the result names.\<close>

definition recorded :: "exec_result \<Rightarrow> agency \<Rightarrow> bool" where
  "recorded x s \<longleftrightarrow> (\<exists>r \<in> set (f_ledger (g_effects s)). is_completed r \<and> x_idempotency_key x = Some (el_key r) \<and>
     el_outcome r = x_status x \<and> el_receipt_id r = x_receipt_id x \<and> (x_claimed_success x \<longleftrightarrow> el_outcome r = Some ''SUCCEEDED''))"

lemma recorded_grows: "recorded x s \<Longrightarrow> grows (g_effects s) (g_effects s') \<Longrightarrow> recorded x s'"
  by (fastforce simp: recorded_def grows_def)

lemma recorded_fields [simp]:
  "recorded (x\<lparr>x_policy_decision_id := a, x_duplicate := b\<rparr>) s = recorded x s"
  "recorded (x\<lparr>x_resumed := e, x_duplicate := b, x_policy_decision_id := a\<rparr>) s = recorded x s"
  by (simp_all add: recorded_def)

lemma completed_recorded:
  "r \<in> set (f_ledger (g_effects s)) \<Longrightarrow> is_completed r \<Longrightarrow> el_key r = key \<Longrightarrow> recorded (completed_result r key tok dec) s"
  by (auto simp: recorded_def completed_result_def)

context other_sessions
begin

lemma yields_load:
  assumes "\<And>e r. grows d e \<Longrightarrow> r \<in> set (f_ledger e) \<Longrightarrow> el_key r = key \<Longrightarrow> t = Some (el_tenant_id r) \<Longrightarrow>
      yields (within e t) (f (Some r)) R"
    and "yields (within d t) (f None) R"
  shows "yields (within d t) (bnd (loadLedgerByKey A key) f) R"
  unfolding yields_def
proof (intro allI impI)
  fix s x s' assume s: "within d t s" and "bnd (loadLedgerByKey A key) f s = (Inr x, s')"
  then obtain found s1 where load: "loadLedgerByKey A key s = (Inr found, s1)" and f: "f found s1 = (Inr x, s')"
    by (auto simp: bnd_Inr)
  have "keeps (within d t) (loadLedgerByKey A key)"
    by (intro keeps_within keeps_rules)
  then have s1: "within d t s1"
    using s load by (simp add: keeps_def) (metis snd_conv)
  show "R x s'"
  proof (cases found)
    case None
    with assms(2) s1 f show ?thesis by (auto simp: yields_def)
  next
    case (Some r)
    with load s have "r \<in> set (f_ledger (g_effects s1)) \<and> el_key r = key \<and> t = Some (el_tenant_id r)"
      by (auto simp: loadLedgerByKey_def select_Inr within_def dest!: sym [of "Some r"] visible_row)
    moreover have "grows d (g_effects s1)" "within (g_effects s1) t s1"
      using s1 by (auto simp: within_def grows_refl grows_ok)
    ultimately show ?thesis
      using assms(1) [of "g_effects s1" r] f by (auto simp: yields_def Some)
  qed
qed

lemma update_ledger_yields:
  assumes "r \<in> set (f_ledger d)" "t = Some (el_tenant_id r)"
  shows "yields (within d t) (update_ledger A (el_effect_id r) f)
    (\<lambda>_ s. \<exists>q. identity q = identity r \<and> f q \<in> set (f_ledger (g_effects s)))"
  unfolding yields_def
proof (intro allI impI)
  fix s u s' assume s: "within d t s" and run: "update_ledger A (el_effect_id r) f s = (Inr u, s')"
  have "grows d (a_other A (g_n s) (g_effects s))"
    using s others_grown by (simp add: within_def)
  then obtain q where "q \<in> set (f_ledger (a_other A (g_n s) (g_effects s)))" "identity q = identity r"
    using assms(1) by (auto simp: grows_def dest!: subsetD [OF _ imageI])
  then show "\<exists>q. identity q = identity r \<and> f q \<in> set (f_ledger (g_effects s'))"
    using run s assms(2) by (intro exI [of _ q]) (auto simp: update_ledger_def execute_Inr within_def own_row_def identity_def)
qed

lemma record_completion_yields:
  assumes "r \<in> set (f_ledger d)" "t = Some (el_tenant_id r)"
  shows "yields (within d t) (record_completion A (el_effect_id r) c post out)
    (\<lambda>receiptId s. \<exists>q \<in> set (f_ledger (g_effects s)). is_completed q \<and> el_key q = el_key r \<and> el_outcome q = Some out \<and>
       el_receipt_id q = Some receiptId)"
  unfolding record_completion_def withLocalEffectScopeLock_def thn_def bnd_assoc
proof (rule yields_bnd_keeps [OF _ yields_bnd_keeps [OF _ yields_bnd_keeps]])
  fix receiptId tm l
  show "yields (within d t) (bnd (update_ledger A (el_effect_id r) (complete_row post receiptId out tm)) (\<lambda>_. ret receiptId))
    (\<lambda>receiptId s. \<exists>q \<in> set (f_ledger (g_effects s)). is_completed q \<and> el_key q = el_key r \<and> el_outcome q = Some out \<and>
       el_receipt_id q = Some receiptId)"
    by (rule yields_bnd [OF update_ledger_yields [OF assms]], rule yields_ret, elim exE conjE, rule bexI [rotated], assumption)
      (simp add: complete_row_def is_completed_def identity_def)
qed (intro keeps_within keeps_rules)+

lemma completeFromCommitted_yields:
  assumes "r \<in> set (f_ledger d)" "t = Some (el_tenant_id r)"
  shows "yields (within d t) (completeFromCommitted A ad r p cap dec ap forced tm) recorded"
  unfolding completeFromCommitted_def Let_def
  by (intro yields_bnd_keeps yields_thn_keeps yields_bnd [OF record_completion_yields [OF assms]] yields_ret;
      (intro keeps_within keeps_rules)?) (force simp: recorded_def)

text \<open>Releasing the claim afterwards leaves the record.\<close>

lemma release_yields:
  assumes m: "yields (within e t) m recorded" "leads (within e t) m (within d t)"
    and same: "\<And>x s. recorded (g x) s = recorded x s"
  shows "yields (within e t) (bnd m (\<lambda>x. thn (whenM (b x) (releaseSemanticIfNeeded A args p held)) (ret (g x)))) recorded"
  unfolding yields_def
proof (intro allI impI)
  fix s y s'
  assume s: "within e t s"
    and "bnd m (\<lambda>x. thn (whenM (b x) (releaseSemanticIfNeeded A args p held)) (ret (g x))) s = (Inr y, s')"
  then obtain x s1 u s2 where x: "m s = (Inr x, s1)" and
    w: "whenM (b x) (releaseSemanticIfNeeded A args p held) s1 = (Inr u, s2)" and y: "y = g x" "s' = s2"
    by (auto simp: bnd_Inr thn_Inr ret_run)
  have "recorded x s1"
    using m(1) s x by (rule yieldsD)
  moreover have "effects_ok (g_effects s1)"
    using m(2) s x by (simp add: leads_def within_def) (metis grows_ok snd_conv)
  moreover have "keeps (\<lambda>s. grows (g_effects s1) (g_effects s)) (whenM (b x) (releaseSemanticIfNeeded A args p held))"
    by (intro keeps_rules)
  ultimately have "recorded x s2"
    using w by (simp add: keeps_def) (metis grows_refl recorded_grows snd_conv)
  then show "recorded y s'"
    by (simp add: y same)
qed

lemma finish_resumed_yields:
  assumes "grows d e" "unfinished d (el_effect_id r)" "r \<in> set (f_ledger e)" "t = Some (el_tenant_id r)"
  shows "yields (within e t) (finish_resumed A args q r) recorded"
  unfolding finish_resumed_def
  by (intro release_yields [where d = d] completeFromCommitted_yields leads_within completeFromCommitted_leads assms keeps_rules) simp

lemma complete_commit_yields:
  assumes "grows d e" "unfinished d (el_effect_id r)" "r \<in> set (f_ledger e)" "t = Some (el_tenant_id r)"
  shows "yields (within e t) (complete_commit A args q tm b r) recorded"
  unfolding complete_commit_def
  by (intro yields_if yields_throw release_yields [where d = d] completeFromCommitted_yields leads_within completeFromCommitted_leads
      assms keeps_rules) simp

lemma yields_weaken: "yields (within e t) m R \<Longrightarrow> yields (within e t) m (\<lambda>x s. is_denial x \<or> R x s)"
  by (erule yields_mono) simp

lemma commit_effect_yields:
  assumes "none_completed d t (q_key q)" "unfinished d (el_effect_id row)"
  shows "yields (within d t) (commit_effect A args q fresh row tm) recorded"
proof -
  have after: "yields (within d t) (bnd (loadLedgerByKey A (q_key q)) (\<lambda>l. bnd (need l) (complete_commit A args q tm already))) recorded" for already
  proof (rule yields_load)
    show "yields (within e t) (bnd (need (Some r)) (complete_commit A args q tm already)) recorded"
      if e: "grows d e" "r \<in> set (f_ledger e)" "el_key r = q_key q" "t = Some (el_tenant_id r)" for e r
      using complete_commit_yields [OF e(1) none_completed_unfinished [OF assms(1) e] e(2,4)] by simp
  qed (simp add: yields_throw)
  have "keeps (within d t) (withLocalEffectScopeLock A x (update_ledger A (el_effect_id row) (commit_row y fresh z)))" for x y z
    by (intro keeps_within keeps_rules update_ledger_grows assms) (simp_all add: commit_row_def identity_def is_completed_def)
  moreover have "keeps (within d t) (adapter_commit A i z)" "keeps (within d t) (Date_now A)" for i z
    by (intro keeps_within keeps_rules)+
  ultimately show ?thesis
    unfolding commit_effect_def by (auto intro!: yields_bnd_keeps yields_thn_keeps after split: prod.split)
qed

lemma resume_committed_yields:
  assumes none: "none_completed d t (q_key q)"
    and row: "\<And>r. row = Some r \<Longrightarrow> r \<in> set (f_ledger d) \<and> el_key r = q_key q \<and> t = Some (el_tenant_id r)"
    and ok: "effects_ok d"
  shows "yields (within d t) (resume_committed A args q row) recorded"
proof -
  note d = grows_refl [OF ok]
  have reload: "yields (within d t) (bnd (loadLedgerByKey A (q_key q)) (\<lambda>l. bnd (need l) (finish_resumed A args q))) recorded"
  proof (rule yields_load)
    show "yields (within e t) (bnd (need (Some r)) (finish_resumed A args q)) recorded"
      if e: "grows d e" "r \<in> set (f_ledger e)" "el_key r = q_key q" "t = Some (el_tenant_id r)" for e r
      using finish_resumed_yields [OF e(1) none_completed_unfinished [OF none e] e(2,4)] by simp
  qed (simp add: yields_throw)
  show ?thesis
  proof (cases row)
    case None
    have "keeps (within d t) (recreate_committed A q)"
      unfolding recreate_committed_def
      by (intro keeps_within keeps_rules) (simp_all add: commit_row_def is_completed_def)
    then show ?thesis
      using reload by (simp add: None resume_committed_def thn_def bnd_assoc yields_bnd_keeps)
  next
    case (Some r)
    note r = row [OF Some]
    have un: "unfinished d (el_effect_id r)"
      using none_completed_unfinished [OF none d] r by blast
    have "keeps (within d t) (mark_committed A q r)"
      unfolding mark_committed_def
      by (intro keeps_within keeps_rules update_ledger_grows un) (simp_all add: recommit_row_def identity_def is_completed_def)
    then show ?thesis
      using reload finish_resumed_yields [OF d un] r by (simp add: Some resume_committed_def thn_def bnd_assoc yields_bnd_keeps)
  qed
qed

lemma fresh_commit_yields:
  assumes none: "none_completed d t (q_key q)"
  shows "yields (within d t) (fresh_commit A args q) (\<lambda>x s. is_denial x \<or> recorded x s)"
proof -
  have loaded: "yields (within d t) (bnd (loadLedgerByKey A (q_key q)) (\<lambda>ledger. case ledger of
       None \<Rightarrow> throw err | Some row \<Rightarrow> commit_row_or_resume A args q fresh i tm row)) (\<lambda>x s. is_denial x \<or> recorded x s)"
    for i fresh tm err
  proof (rule yields_load)
    fix e r assume e: "grows d e" "r \<in> set (f_ledger e)" "el_key r = q_key q" "t = Some (el_tenant_id r)"
    have none': "none_completed e t (q_key q)" if "\<not> is_completed r"
      using that row_of_key [OF grows_ok [OF e(1)] e(2)] e(3) by (auto simp: none_completed_def)
    have un: "unfinished d (el_effect_id r)" and un': "\<not> is_completed r \<Longrightarrow> unfinished e (el_effect_id r)"
      using none_completed_unfinished [OF none e] none_completed_unfinished [OF none' grows_refl [OF grows_ok [OF e(1)]] e(2-4)] by blast+
    have "yields (within e t) (commit_row_or_resume A args q fresh i tm r) recorded"
    proof (cases "is_completed r")
      case True
      moreover have "recorded (completed_result r (q_key q) None (q_decision q)) s" if "within e t s" for s
        using that True e by (intro completed_recorded) (auto simp: within_def grows_def)
      ultimately show ?thesis
        by (simp add: commit_row_or_resume_def is_completed_def yields_ret)
    next
      case False
      have "keeps (within e t) (hasCommitted (q_key q))"
        by (intro keeps_within keeps_rules)
      with False show ?thesis
        using finish_resumed_yields [OF e(1) un e(2,4)] commit_effect_yields [OF none' un'] 
        by (simp add: commit_row_or_resume_def is_completed_def) (intro yields_bnd_keeps yields_if)
    qed
    then show "yields (within e t) (case Some r of None \<Rightarrow> throw err | Some row \<Rightarrow> commit_row_or_resume A args q fresh i tm row)
        (\<lambda>x s. is_denial x \<or> recorded x s)"
      by (simp add: yields_weaken)
  qed (simp add: yields_throw)
  have "keeps (within d t) (withLocalEffectScopeLock A x (insert_ledger A True (new_row i x key p tm)))" for x i key p tm
    by (intro keeps_within keeps_rules) (simp_all add: new_row_def is_completed_def)
  moreover have "keeps (within d t) (randomUUID A)" "keeps (within d t) (Date_now A)"
      "keeps (within d t) (releaseSemanticIfNeeded A args (q_proposal q) (q_held q))"
    by (intro keeps_within keeps_rules)+
  ultimately show ?thesis
    unfolding fresh_commit_def
    by (intro yields_gate gates_deny keeps_within keeps_rules)
      (auto split: prod.split intro!: yields_bnd_keeps yields_thn_keeps yields_ret loaded)
qed

lemma yields_load_at:
  assumes "\<And>e. effects_ok e \<Longrightarrow> yields (within e t) (f (find_row el_key (visible el_tenant_id t (f_ledger e)) key)) R"
  shows "yields (within d t) (bnd (loadLedgerByKey A key) f) R"
  unfolding yields_def
proof (intro allI impI)
  fix s x s' assume s: "within d t s" and "bnd (loadLedgerByKey A key) f s = (Inr x, s')"
  then obtain found s1 where load: "loadLedgerByKey A key s = (Inr found, s1)" and f: "f found s1 = (Inr x, s')"
    by (auto simp: bnd_Inr)
  have "keeps (within d t) (loadLedgerByKey A key)"
    by (intro keeps_within keeps_rules)
  then have "within d t s1"
    using s load by (simp add: keeps_def) (metis snd_conv)
  then have "effects_ok (g_effects s1)" "within (g_effects s1) t s1"
    by (auto simp: within_def grows_refl grows_ok)
  moreover have "found = find_row el_key (visible el_tenant_id t (f_ledger (g_effects s1))) key"
    using load s by (auto simp: loadLedgerByKey_def select_Inr within_def)
  ultimately show "R x s'"
    using assms [of "g_effects s1"] f by (auto simp: yields_def)
qed

lemma continue_effect_yields:
  assumes ok: "effects_ok e" and row: "ledger = find_row el_key (visible el_tenant_id t (f_ledger e)) (q_key q)"
  shows "yields (within e t) (continue_effect A args q ledger) (\<lambda>x s. is_denial x \<or> recorded x s)"
  unfolding continue_effect_def
proof (intro yields_bnd_keeps yields_if yields_thn_keeps yields_ret)
  have vis: "r \<in> set (f_ledger e) \<and> el_key r = q_key q \<and> t = Some (el_tenant_id r)" if "ledger = Some r" for r
    using visible_row [of t "f_ledger e" "q_key q" r] that by (simp add: row)
  fix s tok
  assume "map_option el_status ledger = Some ''COMPLETED''" "within e t s"
  then show "is_denial (completed_result (the ledger) (q_key q) (Option.bind ledger el_commit_token) (q_decision q))
      \<or> recorded (completed_result (the ledger) (q_key q) (Option.bind ledger el_commit_token) (q_decision q)) s"
    using vis by (intro disjI2 completed_recorded) (auto simp: within_def grows_def is_completed_def)
next
  assume "map_option el_status ledger \<noteq> Some ''COMPLETED''"
  note none = none_completed_of_load [OF ok row this]
  have "r \<in> set (f_ledger e) \<and> el_key r = q_key q \<and> t = Some (el_tenant_id r)" if "ledger = Some r" for r
    using visible_row [of t "f_ledger e" "q_key q" r] that by (simp add: row)
  then show "yields (within e t) (resume_committed A args q ledger) (\<lambda>x s. is_denial x \<or> recorded x s)"
    by (intro yields_weaken resume_committed_yields none ok)
  show "yields (within e t) (fresh_commit A args q) (\<lambda>x s. is_denial x \<or> recorded x s)"
    by (rule fresh_commit_yields [OF none])
qed (intro keeps_within keeps_rules)+

lemma run_effect_yields:
  "yields (within d t) (run_effect A args q) (\<lambda>x s. is_denial x \<or> recorded x s)"
  unfolding run_effect_def by (rule yields_load_at) (rule continue_effect_yields [OF _ refl])

lemma executeTrustedEffect_yields:
  "yields (within d t) (executeTrustedEffect A args) (\<lambda>x s. is_denial x \<or> recorded x s)"
  unfolding executeTrustedEffect_def execute_proposal_def execute_decided_def Let_def case_prod_unfold
  by (intro yields_bnd_keeps yields_gate run_effect_yields gates_deny; intro keeps_within keeps_rules)

text \<open>The same once the transaction is over: what it reports is committed.\<close>

lemma transaction_recorded:
  assumes ok: "effects_ok (g_effects s)" and run: "runForTenant A t (executeTrustedEffect A args) s = (Inr x, s')"
    and "\<not> is_denial x"
  shows "recorded x s'"
proof -
  define s0 where "s0 = s\<lparr>g_n := Suc (g_n s), g_effects := a_other A (g_n s) (g_effects s), g_aborted := False,
    g_tenant := None, g_locks := []\<rparr>"
  obtain s1 where m: "thn (set_tenant A t) (executeTrustedEffect A args) s0 = (Inr x, s1)"
    and end1: "g_effects s' = (if g_aborted s1 then g_effects s0 else g_effects s1)"
    using run by (auto simp: runForTenant_def tx_def throw_def Let_def rolled_back_def s0_def [symmetric]
        split: if_splits sum.splits prod.splits)
  then obtain u s2 where u: "set_tenant A t s0 = (Inr u, s2)" and e: "executeTrustedEffect A args s2 = (Inr x, s1)"
    by (auto simp: thn_Inr)
  have ok0: "effects_ok (g_effects s0)"
    using grows_ok [OF others_grow [OF ok]] by (simp add: s0_def)
  have "keeps (\<lambda>s. grows (g_effects s0) (g_effects s)) (set_tenant A t)"
    unfolding set_tenant_def by (intro keeps_rules) simp
  then have "grows (g_effects s0) (g_effects (snd (set_tenant A t s0)))"
    using grows_refl [OF ok0] by (simp only: keeps_def)
  then have "within (g_effects s0) (g_tenant s2) s2"
    by (simp add: u within_def)
  then have "recorded x s1"
    using yieldsD [OF executeTrustedEffect_yields _ e] assms(3) by blast
  moreover have "\<not> g_aborted s1"
    using executeTrustedEffect_lives [OF e assms(3)] .
  ultimately show ?thesis
    using end1 by (simp add: recorded_def)
qed

end

section \<open>Sessions that share the database\<close>

text \<open>Nobody else, or other transactions of the executor: \<open>reqs\<close> says which one, by a session in what state, commits before
  the n-th statement.\<close>

definition alone :: "agency_env \<Rightarrow> agency_env" where
  "alone A = A\<lparr>a_other := (\<lambda>n d. d)\<rparr>"

definition other_run :: "agency_env \<Rightarrow> (nat \<Rightarrow> (string \<times> exec_args \<times> agency) option) \<Rightarrow> nat \<Rightarrow> effects \<Rightarrow> effects" where
  "other_run A reqs n d = (case reqs n of None \<Rightarrow> d
     | Some (t, args, s) \<Rightarrow> g_effects (snd (runForTenant (alone A) t (executeTrustedEffect (alone A) args) (s\<lparr>g_effects := d\<rparr>))))"

definition beside :: "agency_env \<Rightarrow> (nat \<Rightarrow> (string \<times> exec_args \<times> agency) option) \<Rightarrow> agency_env" where
  "beside A reqs = A\<lparr>a_other := other_run A reqs\<rparr>"

interpretation alone: other_sessions "alone A" for A
  by unfold_locales (simp add: alone_def grows_refl)

interpretation beside: other_sessions "beside A reqs" for A reqs
proof
  fix d n assume d: "effects_ok d"
  show "grows d (a_other (beside A reqs) n d)"
    using alone.transaction_grows [of "s\<lparr>g_effects := d\<rparr>" A t args for s t args] d
    by (auto simp: beside_def other_run_def grows_refl split: option.splits)
qed

end
