(* ===== verification/ExecutorAuthority.thy ===== *)
theory ExecutorAuthority
  imports ExecutorFrame
begin

text \<open>
  When the executor may touch the external system. \<open>authorised\<close> lists what must have been in the
  control tables, at which of the run's statements; the main theorem says that a run which changes the external
  system was authorised so, and changed exactly one key.
\<close>

section \<open>Runs that change the external system\<close>

definition changes :: "'a aact \<Rightarrow> agency \<Rightarrow> agency \<Rightarrow> bool" where
  "changes m s s' \<longleftrightarrow> s' = snd (m s) \<and> g_store s' \<noteq> g_store s"

text \<open>What stayed the same from one moment of a run to a later one.\<close>

definition onward :: "agency \<Rightarrow> agency \<Rightarrow> bool" where
  "onward s s' \<longleftrightarrow> g_tenant s' = g_tenant s \<and> g_store s' = g_store s \<and> g_n s \<le> g_n s'"

lemma onward_trans: "onward s s1 \<Longrightarrow> onward s1 s2 \<Longrightarrow> onward s s2"
  by (simp add: onward_def)

lemma unchanged: "keeps (frame (\<lambda>t st. t = g_tenant s \<and> st = g_store s) (g_n s)) m \<Longrightarrow> \<not> changes m s s'"
proof
  assume k: "keeps (frame (\<lambda>t st. t = g_tenant s \<and> st = g_store s) (g_n s)) m" and "changes m s s'"
  then have "m s = (fst (m s), s')" "g_store s' \<noteq> g_store s"
    by (auto simp: changes_def)
  with frame_store [OF k] show False by blast
qed

lemma changes_bnd:
  assumes "changes (bnd m f) s s'" "keeps (frame (\<lambda>t st. t = g_tenant s \<and> st = g_store s) (g_n s)) m"
  shows "\<exists>x s1. m s = (Inr x, s1) \<and> onward s s1 \<and> changes (f x) s1 s'"
proof -
  obtain r s1 where m: "m s = (r, s1)" by (cases "m s")
  with assms(2) have "onward s s1"
    using frame_store [OF assms(2) m] by (simp add: onward_def)
  with assms(1) m show ?thesis
    by (cases r) (auto simp: changes_def bnd_def onward_def)
qed

lemma changes_thn:
  assumes "changes (thn m k) s s'" "keeps (frame (\<lambda>t st. t = g_tenant s \<and> st = g_store s) (g_n s)) m"
  shows "\<exists>x s1. m s = (Inr x, s1) \<and> onward s s1 \<and> changes k s1 s'"
  using changes_bnd [OF assms(1) [unfolded thn_def] assms(2)] .

lemma changes_gate:
  assumes "changes (gate m f) s s'" "keeps (frame (\<lambda>t st. t = g_tenant s \<and> st = g_store s) (g_n s)) m"
  shows "\<exists>y s1. m s = (Inr (Inr y), s1) \<and> onward s s1 \<and> changes (f y) s1 s'"
proof -
  obtain r s1 where r: "m s = (Inr r, s1)" "onward s s1" "changes (case r of Inl x \<Rightarrow> ret x | Inr y \<Rightarrow> f y) s1 s'"
    using changes_bnd [OF assms(1) [unfolded gate_def] assms(2)] by blast
  then show ?thesis
    by (cases r) (auto simp: changes_def ret_def)
qed

section \<open>What each gate has read\<close>

lemma no_autonomy [simp]: "assertBusinessWriteAutonomyDisabled = Inr ()" "\<not> BUSINESS_WRITE_AUTONOMY"
  by (simp_all add: assertBusinessWriteAutonomyDisabled_def BUSINESS_WRITE_AUTONOMY_def LIVE_EXTERNAL_SIDE_EFFECTS_def)

abbreviation (input) stepped :: "agency_env \<Rightarrow> agency \<Rightarrow> agency" where
  "stepped A s \<equiv> s\<lparr>g_effects := a_other A (g_n s) (g_effects s), g_n := Suc (g_n s)\<rparr>"

lemma requireTenant_Inr:
  "requireTenant A e s = (Inr t, s') \<Longrightarrow> g_tenant s = Some t \<and> s' = stepped A s"
  by (auto simp: requireTenant_def currentTenant_def bnd_Inr select_Inr ret_run throw_run split: option.splits if_splits)

lemma writers_allowed:
  assumes "catch (assertWritersAllowed A) (\<lambda>e. if b e then throw (h e) else throw e) s = (Inr u, s')"
  shows "k_writers_frozen (a_control A (g_n s)) = Some False \<and> s' = stepped A s"
proof -
  have "assertWritersAllowed A s = (Inr u, s')"
    using assms by (auto simp: catch_Inr throw_run split: if_splits)
  then show ?thesis
    by (auto simp: assertWritersAllowed_def readRecovery_def bnd_Inr select_Inr ret_run throw_run split: option.splits if_splits)
qed

lemma executor_start_Inr:
  assumes "executor_start A args s = (Inr (ad, t, p), s')"
  shows "k_writers_frozen (a_control A (g_n s)) = Some False \<and> e_adapter args = Some ad \<and> ad_surface ad = LOCAL_FAKE_SURFACE \<and>
    g_tenant s = Some t \<and> p_tenant_id p = t \<and>
    find_row p_proposal_id (visible p_tenant_id (g_tenant s) (k_proposals (a_control A (g_n s + 2)))) (e_proposal_id args) = Some p \<and>
    g_n s' = g_n s + 3"
proof -
  define rest where "rest = (case e_adapter args of
       None \<Rightarrow> throw (executorError ''LIVE_EXTERNAL_FORBIDDEN'' ''only local_fake adapters are permitted in F-08 (no live external side effects)'')
     | Some ad \<Rightarrow>
       if ad_surface ad \<noteq> LOCAL_FAKE_SURFACE
       then throw (executorError ''LIVE_EXTERNAL_FORBIDDEN'' ''only local_fake adapters are permitted in F-08 (no live external side effects)'')
       else
       bnd (requireTenant A (executorError ''MISSING_TENANT_CONTEXT'' ''missing tenant context (fail-closed)'')) (\<lambda>tenantId.
       bnd (loadProposal A (e_proposal_id args)) (\<lambda>found. case found of
         None \<Rightarrow> throw (executorError ''PROPOSAL_NOT_FOUND'' (''proposal '' @ e_proposal_id args @ '' not found''))
       | Some p \<Rightarrow> if p_tenant_id p \<noteq> tenantId
           then throw (executorError ''TENANT_MISMATCH'' ''proposal tenant does not match trusted context'')
           else ret (ad, tenantId, p))))"
  obtain u s1 where w: "catch (assertWritersAllowed A) (\<lambda>e. if is_error ''WritersFrozenError'' e
       then throw (executorError ''WRITERS_FROZEN'' (err_message e)) else throw e) s = (Inr u, s1)" and r: "rest s1 = (Inr (ad, t, p), s')"
    using assms unfolding executor_start_def rest_def [symmetric] by (auto simp: thn_Inr lift_run guard_Inr)
  from writers_allowed [OF w] have s1: "k_writers_frozen (a_control A (g_n s)) = Some False" "s1 = stepped A s"
    by simp_all
  have "e_adapter args = Some ad \<and> ad_surface ad = LOCAL_FAKE_SURFACE \<and> g_tenant s1 = Some t \<and> p_tenant_id p = t \<and>
    find_row p_proposal_id (visible p_tenant_id (g_tenant s1) (k_proposals (a_control A (Suc (g_n s1))))) (e_proposal_id args) = Some p \<and>
    g_n s' = g_n s1 + 2"
  proof -
    from r obtain ad' where ad: "e_adapter args = Some ad'" "ad_surface ad' = LOCAL_FAKE_SURFACE"
      by (cases "e_adapter args") (auto simp: rest_def throw_run split: if_splits)
    with r obtain t' s2 found where t': "requireTenant A (executorError ''MISSING_TENANT_CONTEXT'' ''missing tenant context (fail-closed)'') s1
        = (Inr t', s2)" and "loadProposal A (e_proposal_id args) s2 = (Inr found, s')" "found = Some p" "p_tenant_id p = t'" "t = t'" "ad = ad'"
      by (auto simp: rest_def bnd_Inr ret_run throw_run split: option.split_asm if_split_asm)
    with requireTenant_Inr [OF t'] ad show ?thesis
      by (auto simp: loadProposal_def select_Inr)
  qed
  with s1 show ?thesis by auto
qed

lemma resolve_Inr:
  assumes "resolveExecutableCapability A i s = (Inr res, s')"
  shows "\<exists>row. find_row (\<lambda>r. cp_capability_id (snd r)) (visible fst (g_tenant s) (k_capabilities (a_control A (g_n s + 1)))) i = Some row \<and>
    rowToCapability row = Inr (rs_capability res) \<and> cp_status (rs_capability res) \<noteq> ''disabled'' \<and> g_n s' = g_n s + 2"
proof -
  obtain res' where "resolveCapability A i s = (Inr res', s')" and x: "rs_executable res'" "res = res'"
    using assms by (auto simp: resolveExecutableCapability_def bnd_Inr ret_run throw_run split: if_splits)
  then obtain row s1 where row: "loadCapabilityRow A i s = (Inr (Some row), s1)" and cap: "rowToCapability row = Inr (rs_capability res)"
    "cp_status (rs_capability res) \<noteq> ''disabled''" "s' = s1"
    by (auto simp: resolveCapability_def bnd_Inr ret_run throw_run lift_run Let_def split: option.splits if_splits)
  from row obtain t s2 where t: "requireTenant A (resolutionError ''MISSING_TENANT_CONTEXT''
         ''missing tenant context: capability resolution refused (fail-closed)'') s = (Inr t, s2)"
    and "Some row = find_row (\<lambda>r. cp_capability_id (snd r)) (visible fst (g_tenant s2) (k_capabilities (a_control A (g_n s2)))) i"
    "g_n s1 = Suc (g_n s2)"
    by (auto simp: loadCapabilityRow_def thn_Inr select_Inr throw_run split: if_splits)
  with requireTenant_Inr [OF t] cap show ?thesis
    by (intro exI [of _ row]) simp
qed

lemma loadActiveGrant_Inr:
  assumes "loadActiveGrant A who i s = (Inr g, s')"
  shows "g = active_grant (a_control A (g_n s + 1)) (g_tenant s) who i (a_clock A (g_n s)) \<and> g_n s' = g_n s + 2"
  using assms by (auto simp: loadActiveGrant_def bnd_Inr Date_now_def gets_run thn_Inr select_Inr throw_run
      dest!: requireTenant_Inr split: if_splits)

lemma readFreshAuthority_Inr:
  "readFreshAuthority A s = (Inr a, s') \<longleftrightarrow> \<not> g_aborted s \<and> \<not> a_fault A (g_n s) \<and>
     authority_at (a_control A (g_n s)) (g_tenant s) = Some a \<and> s' = stepped A s"
  by (auto simp: readFreshAuthority_def bnd_Inr select_Inr ret_run throw_run split: option.splits)

lemma deny_on_Inr: "deny_on cls m h s = (Inr (Inr x), s') \<longleftrightarrow> m s = (Inr x, s')"
proof
  assume "deny_on cls m h s = (Inr (Inr x), s')"
  then obtain r s1 where "m s = (r, s1)" "(case r of Inr x \<Rightarrow> ret (Inr x)
     | Inl e \<Rightarrow> if is_error cls e then bnd (h e) (\<lambda>x. ret (Inl x)) else throw e) s1 = (Inr (Inr x), s')"
    by (auto simp: deny_on_def bnd_Inr attempt_run)
  then show "m s = (Inr x, s')"
    by (cases r) (auto simp: ret_run throw_run bnd_Inr split: if_splits)
qed (simp add: deny_on_def bnd_def attempt_def ret_def)

lemma policy_gate_Inr:
  assumes "policy_gate A t p g pol s = (Inr (Inr (dec, a)), s')"
  shows "authority_at (a_control A (g_n s)) (g_tenant s) = Some a \<and> po_verdict pol \<noteq> ''DENY'' \<and> g_n s < g_n s'"
proof -
  obtain r s1 s2 where "randomUUID A s = (Inr dec, s1)" and d: "deny_on ''AuthorityUnavailableError'' (readFreshAuthority A) (\<lambda>e.
      thn (insert_decision A \<lparr>pd_decision_id = dec, pd_tenant_id = t, pd_proposal_id = p_proposal_id p,
          pd_applicable_grants = [], pd_policy_version = po_policy_version pol, pd_verdict = ''DENY'',
          pd_reason_codes = [''AUTHORITY_KILL_STORE_UNAVAILABLE''], pd_revocation_epoch = -1, pd_kill_epoch = -1\<rparr>)
        (ret (denied [''AUTHORITY_KILL_STORE_UNAVAILABLE''] None None))) s1 = (Inr r, s2)"
    and r: "(case r of Inl x \<Rightarrow> ret (Inl x) | Inr a \<Rightarrow>
      thn (insert_decision A \<lparr>pd_decision_id = dec, pd_tenant_id = t, pd_proposal_id = p_proposal_id p,
          pd_applicable_grants = (case g of None \<Rightarrow> [] | Some g \<Rightarrow> [gr_grant_id g]), pd_policy_version = po_policy_version pol,
          pd_verdict = po_verdict pol, pd_reason_codes = po_reason_codes pol,
          pd_revocation_epoch = au_revocation_epoch a, pd_kill_epoch = au_kill_epoch a\<rparr>)
      (ret (if po_verdict pol = ''DENY'' then Inl (denied (po_reason_codes pol) None (Some dec)) else Inr (dec, a)))) s2
      = (Inr (Inr (dec, a)), s')"
    using assms unfolding policy_gate_def bnd_Inr
    by (elim exE conjE) (rename_tac dec' s1 r s2, case_tac r; auto simp: ret_run thn_Inr split: if_splits)
  from r have "r = Inr a" "po_verdict pol \<noteq> ''DENY''" and ins: "g_n s' = Suc (g_n s2)"
    by (cases r; auto simp: ret_run thn_Inr insert_decision_def execute_Inr split: if_splits)+
  with d have "authority_at (a_control A (g_n s1)) (g_tenant s1) = Some a" "g_n s2 = Suc (g_n s1)"
    by (simp_all add: deny_on_Inr readFreshAuthority_Inr)
  with \<open>randomUUID A s = (Inr dec, s1)\<close> \<open>po_verdict pol \<noteq> _\<close> ins show ?thesis
    by (auto simp: randomUUID_def)
qed

text \<open>An approval the owner gave for this very request, in a session that is theirs, as read at two statements.\<close>

definition approved_at :: "agency_env \<Rightarrow> exec_args \<Rightarrow> string option \<Rightarrow> proposal \<Rightarrow> nat \<Rightarrow> bool" where
  "approved_at A args t p n \<longleftrightarrow> (\<exists>i j a ss. e_approval_id args = Some i \<and> e_owner_session_id args = Some j \<and>
     find_row oa_approval_id (visible oa_tenant_id t (k_approvals (a_control A n))) i = Some a \<and>
     find_row os_session_id (k_sessions (a_control A (Suc n))) j = Some ss \<and> a_role A \<noteq> ''app_runtime'' \<and>
     approves a p ss (a_clock A (Suc (Suc n))))"

lemma approval_gate_Inr:
  assumes run: "approval_gate A args p pol dec s = (Inr (Inr ap), s')"
  shows "(po_verdict pol = ''APPROVAL_REQUIRED'' \<longrightarrow> approved_at A args (g_tenant s) p (g_n s)) \<and> g_n s \<le> g_n s'"
proof (cases "po_verdict pol = ''APPROVAL_REQUIRED''")
  case False
  with run show ?thesis by (simp add: approval_gate_def ret_run)
next
  case True
  then have id: "truthy_str (e_approval_id args)"
    using run by (auto simp: approval_gate_def ret_run split: if_splits)
  with True run obtain a s1 ss s2 where l: "loadApproval A (the (e_approval_id args)) s = (Inr a, s1)"
    and o: "(if truthy_str (e_owner_session_id args) then loadOwnerSession A (the (e_owner_session_id args)) else ret None) s1 = (Inr ss, s2)"
    and v: "fst (validateApproval a (Some p) ss (a_clock A (g_n s2)))" "s' = s2"
    by (auto simp: approval_gate_def bnd_Inr Date_now_def gets_run ret_run Let_def split: if_splits)
  then obtain a' ss' where a': "a = Some a'" "ss = Some ss'" "approves a' p ss' (a_clock A (g_n s2))"
    by (auto simp: validateApproval_exact)
  have sid: "truthy_str (e_owner_session_id args)"
    using o a' by (auto simp: ret_run split: if_splits)
  with o a' have "find_row os_session_id (k_sessions (a_control A (g_n s1))) (the (e_owner_session_id args)) = Some ss'"
    "a_role A \<noteq> ''app_runtime''" "g_n s2 = Suc (g_n s1)"
    by (auto simp: loadOwnerSession_def statement_Inr split: if_splits)
  with l a' v id sid show ?thesis
    by (auto simp: approved_at_def loadApproval_def select_Inr truthy_str_def dest!: sym [of "Some a'"])
qed

section \<open>Authorised commits\<close>

text \<open>At statements \<open>n0\<close> to \<open>n5\<close> of the run, in this order: writers were not frozen, the proposal was the tenant's, its
  capability valid and not disabled, a grant of the principal active and in scope, the authority
  readable, and, right before the commit, active with both epochs unchanged. A risky proposal was approved.\<close>

definition authorised :: "agency_env \<Rightarrow> exec_args \<Rightarrow> string option \<Rightarrow> proposal \<Rightarrow> nat \<Rightarrow> nat \<Rightarrow> bool" where
  "authorised A args t p lo hi \<longleftrightarrow> (\<exists>n0 n1 n2 n3 n4 n5 row cap g a a'.
     lo \<le> n0 \<and> n0 < n1 \<and> n1 < n2 \<and> n2 < n3 \<and> n3 < n4 \<and> n4 < n5 \<and> n5 < hi \<and>
     k_writers_frozen (a_control A n0) = Some False \<and>
     find_row p_proposal_id (visible p_tenant_id t (k_proposals (a_control A n1))) (e_proposal_id args) = Some p \<and>
     find_row (\<lambda>r. cp_capability_id (snd r)) (visible fst t (k_capabilities (a_control A n2))) (p_capability_id p) = Some row \<and>
     rowToCapability row = Inr cap \<and> cp_status cap \<noteq> ''disabled'' \<and>
     active_grant (a_control A n3) t (e_principal args) (p_capability_id p) (a_clock A (n3 - 1)) = Some g \<and>
     authority_at (a_control A n4) t = Some a \<and>
     (high_risk g cap p \<longrightarrow> (\<exists>m. n4 < m \<and> m < n5 \<and> approved_at A args t p m)) \<and>
     authority_at (a_control A n5) t = Some a' \<and> au_active a' \<and>
     au_revocation_epoch a' = au_revocation_epoch a \<and> au_kill_epoch a' = au_kill_epoch a)"

lemma decidePolicy_verdict:
  "po_verdict (decidePolicy grnt cap p) \<noteq> ''DENY'' \<longleftrightarrow> grnt \<noteq> None"
  "grnt = Some g \<Longrightarrow> po_verdict (decidePolicy grnt cap p) = ''APPROVAL_REQUIRED'' \<longleftrightarrow> high_risk g cap p"
  by (auto simp: decidePolicy_def Let_def split: option.splits)

text \<open>The commit, past the gates.\<close>

lemma adapter_commit_store:
  assumes "adapter_commit A key req s = (r, s')"
  shows "g_store s' = g_store s \<or> (\<exists>c. cr_request c = req \<and> g_store s key = None \<and> g_store s' = (g_store s)(key \<mapsto> c))"
proof (cases "g_store s key")
  case None
  let ?c = "\<lparr>cr_commit_token = env_uuid (a_sys A) (g_uuids s), cr_request = req, cr_committed_at = a_clock A (g_n s)\<rparr>"
  have "g_store s' = (g_store s)(key \<mapsto> ?c)"
    using assms None
    by (auto simp: adapter_commit_def getCommitted_def bnd_def gets_def ret_def randomUUID_def Date_now_def thn_def modify_def)
  with None show ?thesis
    by (intro disjI2 exI [of _ ?c]) simp
next
  case (Some c)
  with assms show ?thesis
    by (auto simp: adapter_commit_def getCommitted_def bnd_def gets_def ret_def)
qed

lemma commit_effect_changes:
  assumes "changes (commit_effect A args q fresh row tm) s s'"
  shows "\<exists>c. cr_request c = p_canonical_request (q_proposal q) \<and> g_store s (q_key q) = None \<and> g_store s' = (g_store s)(q_key q \<mapsto> c) \<and>
    g_n s \<le> g_n s'"
proof -
  define rest where "rest tok already = bnd (Date_now A) (\<lambda>tm'.
    thn (withLocalEffectScopeLock A (q_tenant q) (update_ledger A (el_effect_id row) (commit_row (Some tok) fresh tm')))
    (bnd (loadLedgerByKey A (q_key q)) (\<lambda>ledger. bnd (need ledger) (complete_commit A args q tm already))))" for tok already
  obtain r s1 where c: "adapter_commit A (q_key q) (p_canonical_request (q_proposal q)) s = (r, s1)"
    by (cases "adapter_commit A (q_key q) (p_canonical_request (q_proposal q)) s")
  then have n: "g_n s1 = g_n s"
    by (cases "g_store s (q_key q)")
      (auto simp: adapter_commit_def getCommitted_def bnd_def gets_def ret_def randomUUID_def Date_now_def thn_def modify_def)
  have "g_store s' = g_store s1 \<and> g_n s1 \<le> g_n s'"
  proof (cases r)
    case (Inl e)
    with c assms show ?thesis by (simp add: changes_def commit_effect_def bnd_def)
  next
    case (Inr x)
    have "commit_effect A args q fresh row tm = bnd (adapter_commit A (q_key q) (p_canonical_request (q_proposal q)))
        (\<lambda>x. rest (fst x) (snd x))"
      by (simp add: commit_effect_def rest_def case_prod_unfold)
    then have "s' = snd (rest (fst x) (snd x) s1)"
      using assms by (simp add: changes_def c Inr
          bnd_step [where m = "adapter_commit A (q_key q) (p_canonical_request (q_proposal q))" and s = s and x = x and s' = s1])
    moreover have "keeps (frame Q n0) (rest tok already)" for Q n0 tok already
      unfolding rest_def by (intro keeps_rules)
    ultimately show ?thesis
      using frame_store [of s1 "rest (fst x) (snd x)" "fst (rest (fst x) (snd x) s1)" s'] by simp
  qed
  with adapter_commit_store [OF c] n assms show ?thesis
    by (auto simp: changes_def)
qed

lemma fresh_commit_changes:
  assumes "changes (fresh_commit A args q) s s'"
  shows "\<exists>a' c. authority_at (a_control A (g_n s)) (g_tenant s) = Some a' \<and> au_active a' \<and> g_n s < g_n s' \<and>
    au_revocation_epoch a' = au_revocation_epoch (q_authority q) \<and> au_kill_epoch a' = au_kill_epoch (q_authority q) \<and>
    cr_request c = p_canonical_request (q_proposal q) \<and> g_store s (q_key q) = None \<and> g_store s' = (g_store s)(q_key q \<mapsto> c)"
proof -
  obtain verdict fresh s1 where re: "deny_on ''AuthorityUnavailableError''
        (revalidateBeforeCommit A (au_revocation_epoch (q_authority q)) (au_kill_epoch (q_authority q)))
        (\<lambda>e. thn (releaseSemanticIfNeeded A args (q_proposal q) (q_held q))
          (ret (denied [''AUTHORITY_KILL_STORE_UNAVAILABLE_AT_COMMIT''] (Some (q_key q)) (Some (q_decision q))))) s
      = (Inr (Inr (verdict, fresh)), s1)" and s1: "onward s s1"
    and ch: "changes (if \<not> fst verdict then thn (releaseSemanticIfNeeded A args (q_proposal q) (q_held q))
        (ret (denied (snd verdict) (Some (q_key q)) (Some (q_decision q))))
      else bnd (randomUUID A) (\<lambda>effectId. bnd (Date_now A) (\<lambda>startedAt.
        thn (withLocalEffectScopeLock A (q_tenant q) (insert_ledger A True (new_row effectId (q_tenant q) (q_key q) (q_proposal q) startedAt)))
        (bnd (loadLedgerByKey A (q_key q)) (\<lambda>ledger. case ledger of
           None \<Rightarrow> throw (executorError ''LEDGER_INSERT_FAILED'' ''effect ledger row missing after insert'')
         | Some row \<Rightarrow> commit_row_or_resume A args q fresh effectId startedAt row))))) s1 s'"
    using changes_gate [OF assms [unfolded fresh_commit_def]] by (fastforce intro: keeps_rules)
  have a: "authority_at (a_control A (g_n s)) (g_tenant s) = Some fresh" "g_n s1 = Suc (g_n s)"
      "verdict = commitAllowed fresh (au_revocation_epoch (q_authority q)) (au_kill_epoch (q_authority q))"
    using re by (auto simp: deny_on_Inr revalidateBeforeCommit_def bnd_Inr readFreshAuthority_Inr ret_run)
  have "\<not> changes (thn (releaseSemanticIfNeeded A args (q_proposal q) (q_held q)) (ret x)) s1 s'" for x :: exec_result
    by (intro unchanged keeps_rules)
  with ch have allowed: "fst verdict"
    by (auto split: if_splits)
  have "\<exists>i tm row s2. onward s1 s2 \<and> changes (commit_row_or_resume A args q fresh i tm row) s2 s'"
  proof -
    let ?load = "\<lambda>i tm. bnd (loadLedgerByKey A (q_key q)) (\<lambda>ledger. case ledger of
           None \<Rightarrow> throw (executorError ''LEDGER_INSERT_FAILED'' ''effect ledger row missing after insert'')
         | Some row \<Rightarrow> commit_row_or_resume A args q fresh i tm row)"
    obtain i s2 where 2: "onward s1 s2" "changes (bnd (Date_now A) (\<lambda>tm. thn (withLocalEffectScopeLock A (q_tenant q)
        (insert_ledger A True (new_row i (q_tenant q) (q_key q) (q_proposal q) tm))) (?load i tm))) s2 s'"
      using changes_bnd [OF ch [simplified allowed not_True_eq_False if_False]] by (fastforce intro: keeps_rules)
    obtain tm s3 where 3: "onward s2 s3" "changes (thn (withLocalEffectScopeLock A (q_tenant q)
        (insert_ledger A True (new_row i (q_tenant q) (q_key q) (q_proposal q) tm))) (?load i tm)) s3 s'"
      using changes_bnd [OF 2(2)] by (fastforce intro: keeps_rules)
    obtain s4 where 4: "onward s3 s4" "changes (?load i tm) s4 s'"
      using changes_thn [OF 3(2)] by (fastforce intro: keeps_rules)
    obtain l s5 where 5: "onward s4 s5" "changes (case l of
           None \<Rightarrow> throw (executorError ''LEDGER_INSERT_FAILED'' ''effect ledger row missing after insert'')
         | Some row \<Rightarrow> commit_row_or_resume A args q fresh i tm row) s5 s'"
      using changes_bnd [OF 4(2)] by (fastforce intro: keeps_rules)
    then show ?thesis
      using onward_trans [OF onward_trans [OF onward_trans [OF 2(1) 3(1)] 4(1)] 5(1)]
      by (cases l) (auto simp: changes_def throw_def)
  qed
  then obtain i tm row s2 where 2: "onward s1 s2" "changes (commit_row_or_resume A args q fresh i tm row) s2 s'"
    by blast
  then have "\<exists>s3. onward s2 s3 \<and> changes (commit_effect A args q fresh row tm) s3 s'"
  proof (cases "el_status row = ''COMPLETED''")
    case True
    with 2 show ?thesis by (auto simp: commit_row_or_resume_def changes_def ret_def)
  next
    case False
    obtain b s3 where "onward s2 s3" "changes (if el_effect_id row \<noteq> i \<and> (el_status row = ''COMMITTED'' \<or> b) then finish_resumed A args q row
       else commit_effect A args q fresh row tm) s3 s'"
      using changes_bnd [OF 2(2) [unfolded commit_row_or_resume_def if_not_P [OF False]]] by (fastforce intro: keeps_rules)
    moreover have "\<not> changes (finish_resumed A args q row) s3 s'" for s3
      by (intro unchanged keeps_rules)
    ultimately show ?thesis by (auto split: if_splits)
  qed
  then obtain s3 where 3: "onward s2 s3" "changes (commit_effect A args q fresh row tm) s3 s'"
    by blast
  have "onward s s3"
    by (rule onward_trans [OF onward_trans [OF s1 2(1)] 3(1)])
  moreover have "g_n s1 \<le> g_n s3"
    using 2(1) 3(1) by (simp add: onward_def)
  ultimately show ?thesis
    using commit_effect_changes [OF 3(2)] a allowed by (auto simp: onward_def)
qed

lemma run_effect_changes:
  assumes "changes (run_effect A args q) s s'"
  shows "\<exists>a' n5 c. g_n s \<le> n5 \<and> n5 < g_n s' \<and> authority_at (a_control A n5) (g_tenant s) = Some a' \<and> au_active a' \<and>
    au_revocation_epoch a' = au_revocation_epoch (q_authority q) \<and> au_kill_epoch a' = au_kill_epoch (q_authority q) \<and>
    cr_request c = p_canonical_request (q_proposal q) \<and> g_store s (q_key q) = None \<and> g_store s' = (g_store s)(q_key q \<mapsto> c)"
proof -
  obtain l s1 where 1: "onward s s1" "changes (continue_effect A args q l) s1 s'"
    using changes_bnd [OF assms [unfolded run_effect_def]] by (fastforce intro: keeps_rules)
  then obtain b s2 where 2: "onward s1 s2" "changes (if map_option el_status l = Some ''COMPLETED'' then
      thn (whenM (Option.bind l el_outcome \<noteq> Some ''SUCCEEDED'') (releaseSemanticIfNeeded A args (q_proposal q) (q_held q)))
      (ret (completed_result (the l) (q_key q) (Option.bind l el_commit_token) (q_decision q)))
    else if map_option el_status l = Some ''COMMITTED'' \<or> b then resume_committed A args q l
    else fresh_commit A args q) s2 s'"
    using changes_bnd [OF 1(2) [unfolded continue_effect_def]] by (fastforce intro: keeps_rules)
  have "\<not> changes (resume_committed A args q l) s2 s'"
    "\<not> changes (thn (whenM c (releaseSemanticIfNeeded A args (q_proposal q) (q_held q))) (ret x)) s2 s'" for c and x :: exec_result
    by (intro unchanged keeps_rules)+
  with 2(2) have "changes (fresh_commit A args q) s2 s'"
    by (auto split: if_splits)
  with fresh_commit_changes [OF this] onward_trans [OF 1(1) 2(1)] show ?thesis
    by (auto simp: onward_def intro!: exI [of _ "g_n s2"])
qed

lemma execute_decided_changes:
  assumes "changes (execute_decided A args ad t p cap pol (dec, a)) s s'"
  shows "\<exists>n5 a' c. (po_verdict pol = ''APPROVAL_REQUIRED'' \<longrightarrow> approved_at A args (g_tenant s) p (g_n s) \<and> g_n s < n5) \<and>
    g_n s \<le> n5 \<and> n5 < g_n s' \<and> authority_at (a_control A n5) (g_tenant s) = Some a' \<and> au_active a' \<and>
    au_revocation_epoch a' = au_revocation_epoch a \<and> au_kill_epoch a' = au_kill_epoch a \<and>
    cr_request c = p_canonical_request p \<and> g_store s (effect_key A p) = None \<and> g_store s' = (g_store s)(effect_key A p \<mapsto> c)"
proof -
  note ch = assms [unfolded execute_decided_def Let_def prod.case]
  obtain ap s1 where 1: "approval_gate A args p pol dec s = (Inr (Inr ap), s1)" "onward s s1"
    and ch1: "changes (gate (ambiguity_gate A args cap (effect_key A p) dec) (\<lambda>_.
      gate (fallback_gate A args (effect_key A p) dec) (\<lambda>_. gate (flight_gate A args p (effect_key A p) dec) (\<lambda>_.
      gate (claim_gate A args p (effect_key A p) dec) (\<lambda>held.
      run_effect A args \<lparr>q_adapter = ad, q_tenant = t, q_proposal = p, q_capability = cap, q_decision = dec,
        q_authority = a, q_approval = ap, q_key = effect_key A p, q_held = held\<rparr>))))) s1 s'"
    using changes_gate [OF ch] by (fastforce intro: keeps_rules)
  then obtain s2 where 2: "ambiguity_gate A args cap (effect_key A p) dec s1 = (Inr (Inr ()), s2)" "onward s1 s2"
    and ch2: "changes (gate (fallback_gate A args (effect_key A p) dec) (\<lambda>_. gate (flight_gate A args p (effect_key A p) dec) (\<lambda>_.
      gate (claim_gate A args p (effect_key A p) dec) (\<lambda>held.
      run_effect A args \<lparr>q_adapter = ad, q_tenant = t, q_proposal = p, q_capability = cap, q_decision = dec,
        q_authority = a, q_approval = ap, q_key = effect_key A p, q_held = held\<rparr>)))) s2 s'"
    using changes_gate [OF ch1] by (fastforce intro: keeps_rules)
  then obtain s3 where 3: "onward s2 s3" and ch3: "changes (gate (flight_gate A args p (effect_key A p) dec) (\<lambda>_.
      gate (claim_gate A args p (effect_key A p) dec) (\<lambda>held.
      run_effect A args \<lparr>q_adapter = ad, q_tenant = t, q_proposal = p, q_capability = cap, q_decision = dec,
        q_authority = a, q_approval = ap, q_key = effect_key A p, q_held = held\<rparr>))) s3 s'"
    using changes_gate [OF ch2] by (fastforce intro: keeps_rules)
  then obtain s4 where 4: "onward s3 s4" and ch4: "changes (gate (claim_gate A args p (effect_key A p) dec) (\<lambda>held.
      run_effect A args \<lparr>q_adapter = ad, q_tenant = t, q_proposal = p, q_capability = cap, q_decision = dec,
        q_authority = a, q_approval = ap, q_key = effect_key A p, q_held = held\<rparr>)) s4 s'"
    using changes_gate [OF ch3] by (fastforce intro: keeps_rules)
  then obtain held s5 where 5: "onward s4 s5" and ch5: "changes (run_effect A args \<lparr>q_adapter = ad, q_tenant = t, q_proposal = p,
      q_capability = cap, q_decision = dec, q_authority = a, q_approval = ap, q_key = effect_key A p, q_held = held\<rparr>) s5 s'"
    using changes_gate [OF ch4] by (fastforce intro: keeps_rules)
  have "onward s2 s5"
    by (rule onward_trans [OF onward_trans [OF 3 4] 5])
  moreover have "g_n s1 < g_n s2"
    using 2(1) by (auto simp: ambiguity_gate_def bnd_Inr loadLedgerByKey_def select_Inr ret_run Let_def split: if_splits sum.splits)
  moreover obtain n5 a' c where "g_n s5 \<le> n5" "n5 < g_n s'" "authority_at (a_control A n5) (g_tenant s5) = Some a'" "au_active a'"
      "au_revocation_epoch a' = au_revocation_epoch a" "au_kill_epoch a' = au_kill_epoch a"
      "cr_request c = p_canonical_request p" "g_store s5 (effect_key A p) = None" "g_store s' = (g_store s5)(effect_key A p \<mapsto> c)"
    using run_effect_changes [OF ch5] by auto
  ultimately show ?thesis
    using approval_gate_Inr [OF 1(1)] 1(2) 2(2)
    by (intro exI [of _ n5] exI [of _ a'] exI [of _ c]) (auto simp: onward_def)
qed

text \<open>The key was new to the external system, so no run commits it a second time.\<close>

lemma commit_authorised:
  assumes "executeTrustedEffect A args s = (r, s')" and "g_store s' \<noteq> g_store s"
  shows "\<exists>p c ad. authorised A args (g_tenant s) p (g_n s) (g_n s') \<and> g_tenant s = Some (p_tenant_id p) \<and>
    e_adapter args = Some ad \<and> ad_surface ad = LOCAL_FAKE_SURFACE \<and>
    cr_request c = p_canonical_request p \<and> g_store s (effect_key A p) = None \<and> g_store s' = (g_store s)(effect_key A p \<mapsto> c)"
proof -
  have "changes (executeTrustedEffect A args) s s'"
    using assms by (simp add: changes_def)
  then obtain ad t p s1 where 1: "executor_start A args s = (Inr (ad, t, p), s1)" "onward s s1" and ch1: "changes (execute_proposal A args (ad, t, p)) s1 s'"
    using changes_bnd [of "executor_start A args" "execute_proposal A args" s s']
    unfolding executeTrustedEffect_def by (fastforce intro: keeps_rules)
  then obtain res s2 where 2: "resolveExecutableCapability A (p_capability_id p) s1 = (Inr res, s2)" "onward s1 s2"
    and ch2: "changes (bnd (loadActiveGrant A (e_principal args) (p_capability_id p)) (\<lambda>grnt.
      gate (policy_gate A t p grnt (decidePolicy grnt (rs_capability res) p))
        (execute_decided A args ad t p (rs_capability res) (decidePolicy grnt (rs_capability res) p)))) s2 s'"
    using changes_bnd [OF ch1 [unfolded execute_proposal_def prod.case Let_def]] by (fastforce intro: keeps_rules)
  then obtain grnt s3 where 3: "loadActiveGrant A (e_principal args) (p_capability_id p) s2 = (Inr grnt, s3)" "onward s2 s3"
    and ch3: "changes (gate (policy_gate A t p grnt (decidePolicy grnt (rs_capability res) p))
        (execute_decided A args ad t p (rs_capability res) (decidePolicy grnt (rs_capability res) p))) s3 s'"
    using changes_bnd [OF ch2] by (fastforce intro: keeps_rules)
  then obtain dec a s4 where 4: "policy_gate A t p grnt (decidePolicy grnt (rs_capability res) p) s3 = (Inr (Inr (dec, a)), s4)" "onward s3 s4"
    and ch4: "changes (execute_decided A args ad t p (rs_capability res) (decidePolicy grnt (rs_capability res) p) (dec, a)) s4 s'"
    using changes_gate [OF ch3] by (fastforce intro: keeps_rules)
  note start = executor_start_Inr [OF 1(1)] and grant = loadActiveGrant_Inr [OF 3(1)] and decision = policy_gate_Inr [OF 4(1)]
  obtain g where g: "grnt = Some g"
    using decision decidePolicy_verdict(1) [of grnt] by auto
  obtain row where row: "find_row (\<lambda>r. cp_capability_id (snd r)) (visible fst (g_tenant s1) (k_capabilities (a_control A (g_n s1 + 1))))
      (p_capability_id p) = Some row" "rowToCapability row = Inr (rs_capability res)" "cp_status (rs_capability res) \<noteq> ''disabled''" "g_n s2 = g_n s1 + 2"
    using resolve_Inr [OF 2(1)] by blast
  obtain n5 a' c where end1: "high_risk g (rs_capability res) p \<longrightarrow> approved_at A args (g_tenant s4) p (g_n s4) \<and> g_n s4 < n5"
      "g_n s4 \<le> n5" "n5 < g_n s'" "authority_at (a_control A n5) (g_tenant s4) = Some a'" "au_active a'"
      "au_revocation_epoch a' = au_revocation_epoch a" "au_kill_epoch a' = au_kill_epoch a"
    and c: "cr_request c = p_canonical_request p" "g_store s4 (effect_key A p) = None" "g_store s' = (g_store s4)(effect_key A p \<mapsto> c)"
    using execute_decided_changes [OF ch4] decidePolicy_verdict(2) [OF g] by auto
  have same: "g_tenant s1 = g_tenant s" "g_tenant s2 = g_tenant s" "g_tenant s3 = g_tenant s" "g_tenant s4 = g_tenant s" "g_store s4 = g_store s"
    using 1(2) 2(2) 3(2) 4(2) by (simp_all add: onward_def)
  have "authorised A args (g_tenant s) p (g_n s) (g_n s')"
    unfolding authorised_def
    by (rule exI [of _ "g_n s"], rule exI [of _ "g_n s + 2"], rule exI [of _ "g_n s1 + 1"], rule exI [of _ "g_n s2 + 1"],
        rule exI [of _ "g_n s3"], rule exI [of _ n5], rule exI [of _ row], rule exI [of _ "rs_capability res"], rule exI [of _ g],
        rule exI [of _ a], rule exI [of _ a'])
      (use start grant decision row end1 g same in auto)
  with start c same show ?thesis by auto
qed

end
