(* ===== verification/ExecutorDemo.thy ===== *)
theory ExecutorDemo
  imports ExecutorLedger ExecutorAuthority
begin

text \<open>
  A small database on which the executor is run: the examples that show that the hypotheses of its properties can hold.
\<close>

section \<open>A small database\<close>

text \<open>One tenant with a capability, a grant and three proposals, the first two of one workflow.\<close>

definition demo_proposal :: "string \<Rightarrow> string \<Rightarrow> string \<Rightarrow> string \<Rightarrow> proposal" where
  "demo_proposal i w st risk = \<lparr>p_proposal_id = i, p_tenant_id = ''T'', p_workflow_id = w, p_step_id = st, p_actor = ''a0'', p_capability_id = ''c'',
     p_target_ref = ''x'', p_canonical_request = JObj [], p_request_hash = ''h'', p_precondition_snapshot_ref = None, p_risk_class = risk\<rparr>"

definition demo_capability :: capability where
  "demo_capability = \<lparr>cp_capability_id = ''c'', cp_tenant_scope = ''t'', cp_provider = ''l'', cp_control_surface = ''api'', cp_adapter = ''l'',
     cp_operation = ''n'', cp_risk_class = ''low'', cp_reversibility = ''reversible'', cp_auth_scope = JObj [], cp_credential_ref = None,
     cp_provider_idempotency = ''supported'', cp_postcondition_observable = True, cp_preconditions = JObj [], cp_postcondition_verifier = None,
     cp_fallback_routes = [], cp_approval_policy = ''default'', cp_network_scope = JObj [], cp_timeout_retry_policy = JObj [],
     cp_receipt_schema = ''r'', cp_status = ''active''\<rparr>"

definition demo_control :: "bool \<Rightarrow> control" where
  "demo_control active = \<lparr>k_proposals = [demo_proposal ''p1'' ''w1'' ''1'' ''low'', demo_proposal ''p2'' ''w1'' ''2'' ''low'',
       demo_proposal ''p3'' ''w2'' ''1'' ''low'', demo_proposal ''p4'' ''w3'' ''1'' ''high''],
     k_approvals = [], k_sessions = [], k_grants = [\<lparr>gr_grant_id = ''g'', gr_tenant_id = ''T'', gr_principal = ''me'',
       gr_capability_action_scope = JObj [(''capability_ids'', JArr [JStr ''c''])], gr_approval_mode = None, gr_effective_at = 0,
       gr_expires_at = None, gr_policy_version = ''v1'', gr_status = ''active''\<rparr>],
     k_capabilities = [(''T'', demo_capability)],
     k_authority = [(''T'', \<lparr>au_active = active, au_revocation_epoch = 0, au_kill_epoch = 0\<rparr>)], k_writers_frozen = Some False\<rparr>"

definition demo_sys :: env where
  "demo_sys = \<lparr>env_uuid = (\<lambda>n. replicate n CHR ''u''), env_clock = (\<lambda>n. n), env_sha256 = (\<lambda>x. x)\<rparr>"

definition demo_env :: "bool \<Rightarrow> agency_env" where
  "demo_env active = \<lparr>a_control = (\<lambda>n. demo_control active), a_other = (\<lambda>n d. d), a_fault = (\<lambda>n. False), a_clock = (\<lambda>n. n),
     a_sys = demo_sys, a_role = ''app_runtime''\<rparr>"

definition demo_state :: agency where
  "demo_state = \<lparr>g_effects = \<lparr>f_decisions = [], f_ledger = [], f_receipts = [], f_traces = [], f_flights = [], f_claims = []\<rparr>,
     g_tenant = None, g_n = 0, g_uuids = 0, g_aborted = False, g_locks = [], g_store = (\<lambda>_. None)\<rparr>"

definition demo_args :: "string \<Rightarrow> bool \<Rightarrow> string \<Rightarrow> exec_args" where
  "demo_args i crash action_key = \<lparr>e_proposal_id = i, e_principal = ''me'', e_adapter = Some (createLocalEffectAdapter None), e_approval_id = None,
     e_owner_session_id = None, e_inject_crash = crash, e_forced_postcondition = None, e_retry_after_ambiguity = False,
     e_prior_outcome = None, e_prior_postcondition = None, e_fallback_surface = None, e_prior_idempotency_key = None,
     e_durable_postcondition_evidence = False, e_enforce_single_flight = False, e_subject_ref = ''s'', e_routine_id = [],
     e_logical_stage = [], e_semantic_action_key = action_key\<rparr>"

definition demo_run :: "bool \<Rightarrow> string \<Rightarrow> bool \<Rightarrow> string \<Rightarrow> agency \<Rightarrow> (js_error + exec_result) \<times> agency" where
  "demo_run active i crash action_key = runForTenant (demo_env active) ''T'' (executeTrustedEffect (demo_env active) (demo_args i crash action_key))"

definition succeeded :: "(js_error + exec_result) \<times> agency \<Rightarrow> bool" where
  "succeeded r = (case fst r of Inl e \<Rightarrow> False | Inr x \<Rightarrow> x_claimed_success x)"

text \<open>Another session, without a grant, asks for the third proposal between two statements and is denied.\<close>

definition demo_others :: "nat \<Rightarrow> (string \<times> exec_args \<times> agency) option" where
  "demo_others n = (if n = 9 then Some (''T'', (demo_args ''p3'' False [])\<lparr>e_principal := ''you''\<rparr>, demo_state\<lparr>g_uuids := 9\<rparr>) else None)"

end
