(* ===== verification/ExecutorProps.thy ===== *)
theory ExecutorProps
  imports ExecutorDemo
begin

text \<open>
  The properties of the trusted executor: authority of every commit, at most one commit per key, recovery after a
  crash, what the runtime role cannot do, and a hole in the claims on logical effects.
\<close>

lemma demo_ok: "effects_ok (g_effects demo_state)"
  by (simp add: demo_state_def effects_ok_def)

lemma demo_shared_succeeds:
  "succeeded (runForTenant (beside (demo_env True) demo_others) ''T'' (executeTrustedEffect (beside (demo_env True) demo_others)
      (demo_args ''p1'' False [])) demo_state)"
  by code_simp

section \<open>The ledger\<close>

text \<open>C4. However other runs of the executor interleave with a transaction, and whether it returns, is denied or raises at any
  statement, it only extends the ledger: all receipts stay, every row keeps its identity, every
  completed effect stays exactly as it was, and every completed effect still has the one receipt that vouches for its outcome.\<close>

theorem effects_only_grow:
  assumes "effects_ok (g_effects s)"
  shows "grows (g_effects s) (g_effects (snd (runForTenant (beside A reqs) t (executeTrustedEffect (beside A reqs) args) s)))"
  using assms by (rule beside.transaction_grows)

theorem effects_only_grow_witness:
  "effects_ok (g_effects demo_state) \<and> grows (g_effects demo_state) (g_effects (snd (runForTenant (beside (demo_env True) demo_others) ''T''
     (executeTrustedEffect (beside (demo_env True) demo_others) (demo_args ''p1'' False [])) demo_state)))"
  using effects_only_grow [OF demo_ok] demo_ok by blast

text \<open>C6. A success is never claimed without proof: when a transaction reports success, the committed ledger holds a completed row for
  its idempotency key and the receipt it names, and that receipt says \<open>VERIFIED\<close>.\<close>

theorem success_is_verified:
  assumes "effects_ok (g_effects s)"
    and "runForTenant (beside A reqs) t (executeTrustedEffect (beside A reqs) args) s = (Inr x, s')" and "x_claimed_success x"
  shows "\<exists>r \<in> set (f_ledger (g_effects s')). \<exists>c \<in> set (f_receipts (g_effects s')). is_completed r \<and>
     x_idempotency_key x = Some (el_key r) \<and> x_receipt_id x = Some (rc_receipt_id c) \<and> rc_key c = el_key r \<and>
     rc_verification_status c = ''VERIFIED''"
proof -
  have "\<not> is_denial x"
    using assms(3) by (simp add: is_denial_def)
  then obtain r where r: "r \<in> set (f_ledger (g_effects s'))" "is_completed r" "x_idempotency_key x = Some (el_key r)"
    "el_receipt_id r = x_receipt_id x" "el_outcome r = Some ''SUCCEEDED''"
    using beside.transaction_recorded [OF assms(1,2)] assms(3) by (auto simp: recorded_def)
  moreover have "effects_ok (g_effects s')"
    using grows_ok [OF beside.transaction_grows [OF assms(1)]] assms(2) by (metis snd_conv)
  ultimately obtain c where c: "c \<in> set (f_receipts (g_effects s'))" "vouches c r"
    by (auto simp: effects_ok_def)
  with r(5) have "rc_verification_status c = ''VERIFIED''"
    by (auto simp: vouches_def outcomeFromVerification_def split: if_splits)
  with r c show ?thesis
    by (intro bexI [of _ r] bexI [of _ c]) (auto simp: vouches_def)
qed

theorem success_is_verified_witness:
  "\<exists>x s'. runForTenant (beside (demo_env True) demo_others) ''T'' (executeTrustedEffect (beside (demo_env True) demo_others)
      (demo_args ''p1'' False [])) demo_state = (Inr x, s') \<and> x_claimed_success x \<and>
    (\<exists>r \<in> set (f_ledger (g_effects s')). \<exists>c \<in> set (f_receipts (g_effects s')). is_completed r \<and>
     x_idempotency_key x = Some (el_key r) \<and> x_receipt_id x = Some (rc_receipt_id c) \<and> rc_key c = el_key r \<and>
     rc_verification_status c = ''VERIFIED'')"
proof -
  obtain x s' where run: "runForTenant (beside (demo_env True) demo_others) ''T'' (executeTrustedEffect (beside (demo_env True) demo_others)
      (demo_args ''p1'' False [])) demo_state = (Inr x, s')" and x: "x_claimed_success x"
    using demo_shared_succeeds by (auto simp: succeeded_def split: sum.splits) (metis fst_conv surj_pair)
  then show ?thesis
    using success_is_verified [OF demo_ok run x] by blast
qed

section \<open>Recovery\<close>

interpretation no_row: ledger_frame "alone A" "\<lambda>d. key \<notin> el_key ` set (f_ledger d)" for A key
  by unfold_locales (simp_all add: alone_def)

lemma finish_resumed_Inr:
  assumes "finish_resumed A args q r s = (Inr x, s')"
  shows "x_commit_token x = el_commit_token r \<and> x_resumed x \<and> x_duplicate x"
  using assms
  by (auto simp: finish_resumed_def completeFromCommitted_def Let_def bnd_Inr thn_Inr ret_run guard_Inr)

lemma alone_other [simp]: "a_other (alone A) n d = d" "a_control (alone A) = a_control A" "a_sys (alone A) = a_sys A"
  by (simp_all add: alone_def)

lemma lock_alone:
  assumes "withLocalEffectScopeLock (alone A) t m s = (Inr x, s')"
  shows "\<exists>s1. m s1 = (Inr x, s') \<and> g_effects s1 = g_effects s \<and> g_tenant s1 = g_tenant s \<and> g_store s1 = g_store s"
  using assms
  by (auto simp: withLocalEffectScopeLock_def acquireLocalEffectScopeLock_def localEffectScopeLockIdentity_def thn_Inr bnd_Inr
      select_Inr modify_run ret_run throw_run split: if_splits)

lemma recreate_committed_Inr:
  assumes "recreate_committed (alone A) q s = (Inr (), s1)" and c: "g_store s (q_key q) = Some c"
  shows "\<exists>row. f_ledger (g_effects s1) = f_ledger (g_effects s) @ [row] \<and> el_key row = q_key q \<and> g_tenant s1 = Some (el_tenant_id row) \<and>
    el_commit_token row = Some (cr_commit_token c)"
proof -
  obtain i tm s2 where lock: "withLocalEffectScopeLock (alone A) (q_tenant q) (bnd (need (Some c)) (\<lambda>r.
      insert_ledger (alone A) False (commit_row (Some (cr_commit_token r)) (q_authority q) tm
        (new_row i (q_tenant q) (q_key q) (q_proposal q) tm)))) s2 = (Inr (), s1)"
    and s2: "g_effects s2 = g_effects s"
    using assms by (auto simp: recreate_committed_def bnd_Inr getCommitted_def gets_run randomUUID_def Date_now_def)
  obtain s3 where "insert_ledger (alone A) False (commit_row (Some (cr_commit_token c)) (q_authority q) tm
        (new_row i (q_tenant q) (q_key q) (q_proposal q) tm)) s3 = (Inr (), s1)" "g_effects s3 = g_effects s"
    using lock_alone [OF lock] s2 by auto
  then show ?thesis
    by (auto simp: insert_ledger_def execute_Inr commit_row_def new_row_def split: if_splits)
qed

lemma resume_none_Inr:
  assumes run: "resume_committed (alone A) args q None s = (Inr x, s')" and c: "g_store s (q_key q) = Some c"
    and free: "q_key q \<notin> el_key ` set (f_ledger (g_effects s))"
  shows "x_commit_token x = Some (cr_commit_token c) \<and> x_resumed x \<and> x_duplicate x"
proof -
  obtain s1 l s2 where re: "recreate_committed (alone A) q s = (Inr (), s1)" and l: "loadLedgerByKey (alone A) (q_key q) s1 = (Inr l, s2)"
    and fin: "bnd (need l) (finish_resumed (alone A) args q) s2 = (Inr x, s')"
    using run by (auto simp: resume_committed_def bnd_Inr thn_Inr)
  obtain row where row: "f_ledger (g_effects s1) = f_ledger (g_effects s) @ [row]" "el_key row = q_key q" "g_tenant s1 = Some (el_tenant_id row)"
    "el_commit_token row = Some (cr_commit_token c)"
    using recreate_committed_Inr [OF re c] by blast
  have "find_row el_key (filter P (f_ledger (g_effects s))) (q_key q) = None" for P
    using free by (auto simp: find_row_None)
  then have "l = Some row"
    using l row by (auto simp: loadLedgerByKey_def select_Inr visible_def find_row_append)
  with fin row(4) show ?thesis
    using finish_resumed_Inr by fastforce
qed

lemma run_effect_resumes:
  assumes "q_key q = key"
  shows "yields (\<lambda>s. key \<notin> el_key ` set (f_ledger (g_effects s)) \<and> g_store s = st \<and> st key = Some c) (run_effect (alone A) args q)
    (\<lambda>x s. x_commit_token x = Some (cr_commit_token c) \<and> x_resumed x \<and> x_duplicate x \<and> g_store s = st)"
  unfolding yields_def
proof (intro allI impI)
  fix s x s' assume s: "key \<notin> el_key ` set (f_ledger (g_effects s)) \<and> g_store s = st \<and> st key = Some c"
    and "run_effect (alone A) args q s = (Inr x, s')"
  then obtain l s1 where l: "loadLedgerByKey (alone A) key s = (Inr l, s1)" and run: "continue_effect (alone A) args q l s1 = (Inr x, s')"
    by (auto simp: run_effect_def bnd_Inr assms)
  have none: "l = None" and s1: "g_effects s1 = g_effects s" "g_store s1 = st"
    using l s by (auto simp: loadLedgerByKey_def select_Inr find_row_None visible_def)
  have res: "resume_committed (alone A) args q None s1 = (Inr x, s')"
    using run s s1 assms by (auto simp: continue_effect_def none bnd_Inr hasCommitted_def gets_run)
  moreover have "g_store s' = st"
    using frame_store [of s1 "resume_committed (alone A) args q None" "Inr x" s', OF completion_frame(6) res] s1 by simp
  ultimately show "x_commit_token x = Some (cr_commit_token c) \<and> x_resumed x \<and> x_duplicate x \<and> g_store s' = st"
    using resume_none_Inr [OF res, of c] s s1 assms by simp
qed

text \<open>The same from the start of a run.\<close>

definition orphan :: "string \<Rightarrow> (string \<Rightarrow> commit_record option) \<Rightarrow> commit_record \<Rightarrow> agency \<Rightarrow> bool" where
  "orphan key st c s \<longleftrightarrow> key \<notin> el_key ` set (f_ledger (g_effects s)) \<and> g_store s = st \<and> st key = Some c"

lemma keeps_orphan:
  "keeps (\<lambda>s. key \<notin> el_key ` set (f_ledger (g_effects s))) m \<Longrightarrow> keeps (frame (\<lambda>t st'. st' = st) 0) m \<Longrightarrow> keeps (orphan key st c) m"
  by (simp add: keeps_def orphan_def frame_def)

lemma execute_decided_resumes:
  assumes "effect_key (alone A) p = key"
  shows "yields (orphan key st c) (execute_decided (alone A) args ad t p cap pol (dec, a))
    (\<lambda>x s. is_denial x \<or> x_commit_token x = Some (cr_commit_token c) \<and> x_resumed x \<and> x_duplicate x \<and> g_store s = st)"
proof -
  have "yields (orphan key st c) (run_effect (alone A) args q)
    (\<lambda>x s. is_denial x \<or> x_commit_token x = Some (cr_commit_token c) \<and> x_resumed x \<and> x_duplicate x \<and> g_store s = st)"
    if "q_key q = key" for q
    using run_effect_resumes [OF that, of st c A args] unfolding orphan_def by (rule yields_mono) simp
  then show ?thesis
    unfolding execute_decided_def Let_def prod.case
    by (intro yields_gate gates_deny keeps_orphan keeps_rules) (simp add: assms)
qed

lemma execute_proposal_resumes:
  assumes "effect_key (alone A) p = key"
  shows "yields (orphan key st c) (execute_proposal (alone A) args (ad, t, p))
    (\<lambda>x s. is_denial x \<or> x_commit_token x = Some (cr_commit_token c) \<and> x_resumed x \<and> x_duplicate x \<and> g_store s = st)"
  unfolding execute_proposal_def prod.case Let_def
proof (intro yields_bnd_keeps yields_gate gates_deny)
  show "yields (orphan key st c) (execute_decided (alone A) args ad t p cap pol y)
    (\<lambda>x s. is_denial x \<or> x_commit_token x = Some (cr_commit_token c) \<and> x_resumed x \<and> x_duplicate x \<and> g_store s = st)" for cap pol y
    using execute_decided_resumes [OF assms] by (cases y) simp
qed (intro keeps_orphan keeps_rules)+

lemma execute_resumes:
  assumes run: "executeTrustedEffect (alone A) args s = (Inr x, s')"
    and prp: "\<And>n. find_row p_proposal_id (visible p_tenant_id (g_tenant s) (k_proposals (a_control A n))) (e_proposal_id args) = Some p"
    and s: "g_store s (effect_key A p) = Some c" "effect_key A p \<notin> el_key ` set (f_ledger (g_effects s))"
  shows "is_denial x \<or> x_commit_token x = Some (cr_commit_token c) \<and> x_resumed x \<and> x_duplicate x \<and> g_store s' = g_store s"
proof -
  have k: "effect_key (alone A) p = effect_key A p"
    by (simp add: effect_key_def)
  obtain y s1 where y: "executor_start (alone A) args s = (Inr y, s1)" "execute_proposal (alone A) args y s1 = (Inr x, s')"
    using run by (auto simp: executeTrustedEffect_def bnd_Inr)
  obtain ad t p' where y': "y = (ad, t, p')"
    by (cases y)
  then have "p' = p"
    using executor_start_Inr [of "alone A" args s ad t p' s1] y(1) prp by simp
  have "keeps (orphan (effect_key A p) (g_store s) c) (executor_start (alone A) args)"
    by (intro keeps_orphan keeps_rules)
  then have "orphan (effect_key A p) (g_store s) c s1"
    using y(1) s by (simp add: keeps_def orphan_def) (metis snd_conv)
  then show ?thesis
    using yieldsD [OF execute_proposal_resumes [OF k]] y(2) by (simp add: y' \<open>p' = p\<close>)
qed

lemma runForTenant_Inl:
  assumes "runForTenant (alone A) t m s = (Inl e, s')"
  shows "g_effects s' = g_effects s"
  using assms
  by (auto simp: runForTenant_def throw_def tx_def Let_def rolled_back_def split: if_splits prod.splits sum.splits)

lemma runForTenant_Inr:
  assumes "runForTenant (alone A) t m s = (Inr x, s')"
  shows "\<exists>s1 s2. m s1 = (Inr x, s2) \<and> g_tenant s1 = Some t \<and> g_store s1 = g_store s \<and> g_effects s1 = g_effects s \<and> g_store s' = g_store s2"
proof -
  let ?s0 = "s\<lparr>g_n := Suc (g_n s), g_effects := g_effects s, g_aborted := False, g_tenant := None, g_locks := []\<rparr>"
  obtain s2 where m: "thn (set_tenant (alone A) t) m ?s0 = (Inr x, s2)" and st: "g_store s' = g_store s2"
    using assms by (auto simp: runForTenant_def throw_def tx_def Let_def rolled_back_def split: if_splits prod.splits sum.splits)
  then obtain s1 where "m s1 = (Inr x, s2)" "g_tenant s1 = Some t" "g_store s1 = g_store s" "g_effects s1 = g_effects s"
    by (auto simp: thn_Inr set_tenant_def select_Inr modify_run)
  with st show ?thesis by blast
qed


lemma demo_crash:
  "case demo_run True ''p1'' True [] demo_state of
     (Inl e, s1) \<Rightarrow> g_store s1 (effect_key (demo_env True) (demo_proposal ''p1'' ''w1'' ''1'' ''low'')) \<noteq> None \<and>
       succeeded (demo_run True ''p1'' False [] s1)
   | (Inr x, s1) \<Rightarrow> False"
  by code_simp


section \<open>Authority\<close>

text \<open>C2. The executor touches the external system only with authority, and a key at most once. Whatever other sessions do to the
  control tables during a run, and however it ends, if it changed the external system then it added exactly the
  key of the tenant's own proposal, which was not there before, with the request that proposal holds, through a local
  adapter; and at its statements, in this order, writers were not frozen, the capability was valid and not disabled, the
  principal had an active grant in scope, and the authority, read again after all gates, was active with
  revocation and kill epochs unchanged since the decision. A risky proposal had the owner's own approval of this very request.\<close>

theorem commit_is_authorised:
  assumes "executeTrustedEffect A args s = (r, s')" and "g_store s' \<noteq> g_store s"
  shows "\<exists>p c ad. authorised A args (g_tenant s) p (g_n s) (g_n s') \<and> g_tenant s = Some (p_tenant_id p) \<and>
    e_adapter args = Some ad \<and> ad_surface ad = LOCAL_FAKE_SURFACE \<and>
    cr_request c = p_canonical_request p \<and> g_store s (effect_key A p) = None \<and> g_store s' = (g_store s)(effect_key A p \<mapsto> c)"
  using assms by (rule commit_authorised)

lemma demo_commits:
  "g_store (snd (executeTrustedEffect (demo_env True) (demo_args ''p1'' False []) (demo_state\<lparr>g_tenant := Some ''T''\<rparr>)))
     (effect_key (demo_env True) (demo_proposal ''p1'' ''w1'' ''1'' ''low'')) \<noteq> None"
  by code_simp

theorem commit_is_authorised_witness:
  "\<exists>r s' p. executeTrustedEffect (demo_env True) (demo_args ''p1'' False []) (demo_state\<lparr>g_tenant := Some ''T''\<rparr>) = (r, s') \<and>
     g_store s' \<noteq> g_store demo_state \<and> authorised (demo_env True) (demo_args ''p1'' False []) (Some ''T'') p 0 (g_n s')"
proof -
  obtain r s' where run: "executeTrustedEffect (demo_env True) (demo_args ''p1'' False []) (demo_state\<lparr>g_tenant := Some ''T''\<rparr>) = (r, s')"
    by fastforce
  with demo_commits have "g_store s' \<noteq> g_store (demo_state\<lparr>g_tenant := Some ''T''\<rparr>)"
    by (auto simp: demo_state_def)
  with commit_is_authorised [OF run this] run show ?thesis
    by (auto simp: demo_state_def)
qed

text \<open>C32. With the rights the migrations give it, the runtime role can never carry out a proposal of risk class \<open>high\<close>, approved or
  not: the approval path reads the owner's sessions, which that role may not read.\<close>

theorem runtime_role_never_commits_high_risk:
  assumes "a_role A = ''app_runtime''"
    and "\<And>n p. find_row p_proposal_id (visible p_tenant_id (g_tenant s) (k_proposals (a_control A n))) (e_proposal_id args) = Some p \<Longrightarrow>
      p_risk_class p = ''high''"
  shows "g_store (snd (executeTrustedEffect A args s)) = g_store s"
proof (rule ccontr)
  assume changed: "g_store (snd (executeTrustedEffect A args s)) \<noteq> g_store s"
  then obtain p where "authorised A args (g_tenant s) p (g_n s) (g_n (snd (executeTrustedEffect A args s)))"
    using commit_authorised [of A args s "fst (executeTrustedEffect A args s)" "snd (executeTrustedEffect A args s)"] by auto
  then obtain n1 g cap m where "find_row p_proposal_id (visible p_tenant_id (g_tenant s) (k_proposals (a_control A n1))) (e_proposal_id args) = Some p"
    and "high_risk g cap p \<longrightarrow> (\<exists>m. approved_at A args (g_tenant s) p m)"
    unfolding authorised_def by blast
  with assms show False
    by (auto simp: high_risk_def approved_at_def Let_def)
qed

theorem runtime_role_never_commits_high_risk_witness:
  "g_store (snd (executeTrustedEffect (demo_env True) (demo_args ''p4'' False []) (demo_state\<lparr>g_tenant := Some ''T''\<rparr>))) = g_store demo_state"
  using runtime_role_never_commits_high_risk [of "demo_env True" "demo_state\<lparr>g_tenant := Some ''T''\<rparr>" "demo_args ''p4'' False []"]
  by (auto simp: demo_env_def demo_control_def demo_proposal_def demo_args_def demo_state_def visible_def)

section \<open>Claims\<close>

definition demo_claim :: claim where
  "demo_claim = \<lparr>cl_claim_id = ''u'', cl_tenant_id = ''T'', cl_subject_ref = ''s'', cl_semantic_action_key = ''k'', cl_workflow_id = ''w1'',
     cl_effect_id = None\<rparr>"

definition demo_claimed :: agency where
  "demo_claimed = demo_state\<lparr>g_effects := (g_effects demo_state)\<lparr>f_claims := [demo_claim]\<rparr>\<rparr>"

lemma demo_claim_kept:
  "(case demo_run True ''p1'' False ''k'' demo_state of
     (r, s1) \<Rightarrow> succeeded (r, s1) \<and> f_claims (g_effects s1) = [demo_claim])"
  by code_simp

lemma demo_other_refused: "\<not> succeeded (demo_run True ''p3'' False ''k'' demo_claimed)"
  by code_simp

lemma demo_released_then_again:
  "(case demo_run False ''p2'' False ''k'' demo_claimed of
     (r, s1) \<Rightarrow> f_claims (g_effects s1) = [] \<and> succeeded (demo_run True ''p3'' False ''k'' s1))"
  by code_simp


section \<open>Fallback\<close>

text \<open>The status the gate goes by, and whether it counts as durable.\<close>

definition known_status :: "exec_args \<Rightarrow> ledger_row option \<Rightarrow> string option" where
  "known_status args prior = (let recorded = Option.bind prior el_postcondition_status in
     if truthy_str recorded then recorded else e_prior_postcondition args)"

definition known_durably :: "exec_args \<Rightarrow> ledger_row option \<Rightarrow> bool" where
  "known_durably args prior \<longleftrightarrow> truthy_str (Option.bind prior el_postcondition_status) \<or>
     e_durable_postcondition_evidence args \<and> truthy_str (known_status args prior)"

lemma fallback_gate_alt:
  "fallback_gate A args key dec =
    (if \<not> truthy_str (e_fallback_surface args) then ret (Inr ())
     else bnd (if truthy_str (e_prior_idempotency_key args) then loadLedgerByKey A (the (e_prior_idempotency_key args)) else ret None) (\<lambda>prior.
       case assertCrossSurfaceFallbackAllowed (e_fallback_surface args) (known_status args prior) (known_durably args prior) of
          Inl code \<Rightarrow> ret (Inl (denied [code] (Some key) (Some dec)))
        | Inr _ \<Rightarrow> ret (Inr ())))"
  by (simp only: fallback_gate_def known_durably_def known_status_def Let_def)

lemma fallback_gate_Inr:
  assumes "fallback_gate A args key dec s = (Inr (Inr u), s')" "e_fallback_surface args = Some b" "b \<noteq> []"
  shows "\<exists>prior codes. (\<forall>r. prior = Some r \<longrightarrow> r \<in> set (f_ledger (a_other A (g_n s) (g_effects s)))) \<and>
    assertCrossSurfaceFallbackAllowed (Some b) (known_status args prior) (known_durably args prior) = Inr codes"
proof -
  let ?load = "if truthy_str (e_prior_idempotency_key args) then loadLedgerByKey A (the (e_prior_idempotency_key args)) else ret None"
  define rest :: "ledger_row option \<Rightarrow> (exec_result + unit) aact" where
    "rest prior = (case assertCrossSurfaceFallbackAllowed (Some b) (known_status args prior) (known_durably args prior) of
          Inl code \<Rightarrow> ret (Inl (denied [code] (Some key) (Some dec))) | Inr _ \<Rightarrow> ret (Inr ()))" for prior
  have "bnd ?load rest s = (Inr (Inr u), s')"
    using assms by (simp add: fallback_gate_alt truthy_str_def rest_def [abs_def])
  then obtain prior s1 where load: "?load s = (Inr prior, s1)" and rest: "rest prior s1 = (Inr (Inr u), s')"
    unfolding bnd_Inr by blast
  have "\<exists>codes. assertCrossSurfaceFallbackAllowed (Some b) (known_status args prior) (known_durably args prior) = Inr codes"
    using rest by (auto simp: rest_def ret_run split: sum.splits)
  moreover have "r \<in> set (f_ledger (a_other A (g_n s) (g_effects s)))" if "prior = Some r" for r
    using load that by (cases "truthy_str (e_prior_idempotency_key args)") (auto simp: loadLedgerByKey_def select_Inr ret_run dest: visible_row [OF sym])
  ultimately show ?thesis
    by blast
qed

lemma fallback_passed:
  assumes "assertCrossSurfaceFallbackAllowed (Some b) post durable = Inr codes" "map to_lower b \<in> set BROWSER_ORGO_SURFACES" "b \<noteq> []"
  shows "durable \<and> (\<exists>x. post = Some x \<and> map to_upper x \<in> {''ABSENT'', ''VERIFIED_ABSENT''})"
  using assms by (auto simp: assertCrossSurfaceFallbackAllowed_def Let_def split: option.splits if_splits)

lemma statuses_not_absent:
  "\<forall>x \<in> {''VERIFIED'', ''UNVERIFIED'', ''AMBIGUOUS'', ''FAILED'', ''UNKNOWN''}. map to_upper x \<notin> {''ABSENT'', ''VERIFIED_ABSENT''}"
  by code_simp

text \<open>C34. The fallback to a browser never rests on the ledger. The ledger's column holds one of five statuses, none of which says that
  the effect is absent, so a run on a browser surface that passes the fallback gate passed it on the word of the
  caller alone: the caller gave the status and itself vouched that the evidence is durable.\<close>

theorem browser_fallback_on_word:
  assumes "fallback_gate A args key dec s = (Inr (Inr u), s')" and "e_fallback_surface args = Some b"
    and "map to_lower b \<in> set BROWSER_ORGO_SURFACES"
    and "\<forall>r \<in> set (f_ledger (a_other A (g_n s) (g_effects s))). \<forall>x. el_postcondition_status r = Some x \<longrightarrow>
      x \<in> {''VERIFIED'', ''UNVERIFIED'', ''AMBIGUOUS'', ''FAILED'', ''UNKNOWN''}"
  shows "e_durable_postcondition_evidence args \<and>
    (\<exists>x. e_prior_postcondition args = Some x \<and> map to_upper x \<in> {''ABSENT'', ''VERIFIED_ABSENT''})"
proof -
  have b: "b \<noteq> []"
    using assms(3) by (auto simp: BROWSER_ORGO_SURFACES_def)
  obtain prior codes where row: "\<forall>r. prior = Some r \<longrightarrow> r \<in> set (f_ledger (a_other A (g_n s) (g_effects s)))"
    and ok: "assertCrossSurfaceFallbackAllowed (Some b) (known_status args prior) (known_durably args prior) = Inr codes"
    using fallback_gate_Inr [OF assms(1,2) b] by (elim exE conjE)
  have "\<not> truthy_str (Option.bind prior el_postcondition_status)"
  proof
    assume recorded: "truthy_str (Option.bind prior el_postcondition_status)"
    then obtain r x where "prior = Some r" "el_postcondition_status r = Some x"
      by (auto simp: truthy_str_def bind_eq_Some_conv)
    with row have "r \<in> set (f_ledger (a_other A (g_n s) (g_effects s)))"
      by simp
    then have "x \<in> {''VERIFIED'', ''UNVERIFIED'', ''AMBIGUOUS'', ''FAILED'', ''UNKNOWN''}"
      by (rule assms(4) [rule_format]) fact
    moreover have "map to_upper x \<in> {''ABSENT'', ''VERIFIED_ABSENT''}"
      using fallback_passed [OF ok assms(3) b] recorded \<open>prior = Some r\<close> \<open>el_postcondition_status r = Some x\<close>
      by (simp add: known_status_def)
    ultimately show False
      by (rule statuses_not_absent [THEN bspec, THEN notE])
  qed
  with fallback_passed [OF ok assms(3) b] show ?thesis
    by (auto simp: known_status_def known_durably_def)
qed

definition demo_fallback :: exec_args where
  "demo_fallback = (demo_args ''p1'' False [])\<lparr>e_fallback_surface := Some ''Browser'', e_prior_postcondition := Some ''absent'',
     e_durable_postcondition_evidence := True\<rparr>"

lemma demo_fallback_passes:
  "(case fallback_gate (demo_env True) demo_fallback ''k'' ''d'' demo_state of (Inr (Inr u), s') \<Rightarrow> True | _ \<Rightarrow> False)"
  by code_simp

theorem browser_fallback_on_word_witness:
  "\<exists>u s'. fallback_gate (demo_env True) demo_fallback ''k'' ''d'' demo_state = (Inr (Inr u), s') \<and>
     e_durable_postcondition_evidence demo_fallback"
proof -
  obtain u s' where run: "fallback_gate (demo_env True) demo_fallback ''k'' ''d'' demo_state = (Inr (Inr u), s')"
    using demo_fallback_passes by (auto split: prod.splits sum.splits)
  have "map to_lower ''Browser'' \<in> set BROWSER_ORGO_SURFACES"
    by code_simp
  with browser_fallback_on_word [OF run] run show ?thesis
    by (auto simp: demo_fallback_def demo_args_def demo_env_def demo_state_def)
qed

end
