(* ===== verification/FlightProps.thy ===== *)
theory FlightProps
  imports ExecutorDemo
begin

text \<open>
  Single flight beside other sessions. At most one flight of a subject, routine and stage is active and one workflow
  claims a logical effect, however sessions interleave, since every operation keeps the two unique keys; a
  second decision joins the first; and the executor's fence keeps a workflow without an active flight from committing.
\<close>

section \<open>Unique flights and claims\<close>

abbreviation (input) is_flying :: "flight \<Rightarrow> bool" where
  "is_flying f \<equiv> fl_status f = ''ACTIVE''"

definition flight_slot :: "flight \<Rightarrow> string \<times> flight_key" where
  "flight_slot f = (fl_tenant_id f, fl_key f)"

definition claim_slot :: "claim \<Rightarrow> string \<times> string \<times> string" where
  "claim_slot c = (cl_tenant_id c, cl_subject_ref c, cl_semantic_action_key c)"

definition flights_ok :: "effects \<Rightarrow> bool" where
  "flights_ok d \<longleftrightarrow> distinct (map fl_flight_id (f_flights d)) \<and> distinct (map flight_slot (filter is_flying (f_flights d))) \<and>
     distinct (map cl_claim_id (f_claims d)) \<and> distinct (map claim_slot (f_claims d))"

lemma distinct_map_filter_ends:
  assumes "distinct (map key (filter P xs))" and "\<And>x. Q x \<Longrightarrow> \<not> P (f x)"
  shows "distinct (map key (filter P (map (\<lambda>x. if Q x then f x else x) xs)))"
proof -
  have "filter P (map (\<lambda>x. if Q x then f x else x) xs) = filter (\<lambda>x. \<not> Q x) (filter P xs)"
    using assms(2) by (induction xs) auto
  then show ?thesis
    using assms(1) by (simp only:) (rule distinct_map_filter)
qed

lemma update_flights_ok:
  assumes "flights_ok d" and "\<And>f. Q f \<Longrightarrow> \<not> is_flying (g f)" and "\<And>f. fl_flight_id (g f) = fl_flight_id f"
  shows "flights_ok (update_flights Q g d)"
proof -
  let ?fs = "map (\<lambda>r. if Q r then g r else r) (f_flights d)"
  have "map fl_flight_id ?fs = map fl_flight_id (f_flights d)"
    using assms(3) by simp
  moreover have "distinct (map flight_slot (filter is_flying ?fs))"
    by (rule distinct_map_filter_ends) (use assms in \<open>auto simp: flights_ok_def\<close>)
  ultimately show ?thesis
    using assms(1) by (simp add: flights_ok_def update_flights_def del: map_map)
qed

lemma append_flight_ok:
  assumes "flights_ok d" "fl_flight_id f \<notin> fl_flight_id ` set (f_flights d)"
    and "\<And>g. g \<in> set (f_flights d) \<Longrightarrow> is_flying g \<Longrightarrow> flight_slot g \<noteq> flight_slot f"
  shows "flights_ok (d\<lparr>f_flights := f_flights d @ [f]\<rparr>)"
  using assms by (force simp: flights_ok_def)

lemma append_claim_ok:
  assumes "flights_ok d" "cl_claim_id c \<notin> cl_claim_id ` set (f_claims d)" "claim_slot c \<notin> claim_slot ` set (f_claims d)"
  shows "flights_ok (d\<lparr>f_claims := f_claims d @ [c]\<rparr>)"
  using assms by (force simp: flights_ok_def)

lemma filter_claims_ok: "flights_ok d \<Longrightarrow> flights_ok (d\<lparr>f_claims := filter P (f_claims d)\<rparr>)"
  by (simp add: flights_ok_def distinct_map_filter)

section \<open>Every operation keeps them unique\<close>

locale flight_sessions =
  fixes A :: agency_env
  assumes others_unique: "flights_ok d \<Longrightarrow> flights_ok (a_other A n d)"

sublocale flight_sessions < unique: decision_frame A flights_ok
proof unfold_locales
  show "flights_ok (a_other A n d)" if "flights_ok d" for d n
    using that by (rule others_unique)
  show "flights_ok (d\<lparr>f_decisions := x\<rparr>)" if "flights_ok d" for d x
    using that by (simp add: flights_ok_def)
qed

context flight_sessions
begin

lemma expire_stale_unique [keeps_rules]: "keeps (on_effects flights_ok) (expire_stale A P tm)"
  unfolding expire_stale_def
  by (rule unique.execute_keeps) (auto intro!: update_flights_ok simp: expire_flight_def)

lemma insert_flight_unique [keeps_rules]: "keeps (on_effects flights_ok) (insert_flight A f)"
  unfolding insert_flight_def
  by (rule unique.execute_keeps)
    (force intro!: append_flight_ok simp: flight_slot_def fl_key_def own_active_def split: option.splits if_splits)

lemma insert_claim_unique [keeps_rules]: "keeps (on_effects flights_ok) (insert_claim A c)"
  unfolding insert_claim_def
  by (rule unique.execute_keeps)
    (force intro!: append_claim_ok simp: claim_slot_def own_claim_def split: option.splits if_splits)

lemma end_flight_unique [keeps_rules]:
  assumes "\<And>f. \<not> is_flying (g f)" "\<And>f. fl_flight_id (g f) = fl_flight_id f"
  shows "keeps (on_effects flights_ok) (end_flight A w g)"
  unfolding end_flight_def
  by (rule unique.statement_keeps) (use assms in \<open>auto intro!: update_flights_ok simp: Let_def\<close>)

lemma flights_unique:
  "keeps (on_effects flights_ok) (acquireOrJoinDecisionFlight A q w ex)" "keeps (on_effects flights_ok) (cancelDecisionFlight A w why)"
  "keeps (on_effects flights_ok) (completeDecisionFlight A w)" "keeps (on_effects flights_ok) (assertWorkflowMayCommitEffect A w q b)"
  "keeps (on_effects flights_ok) (claimSemanticAction A x y w ei)"
  unfolding acquireOrJoinDecisionFlight_def active_flight_def cancelDecisionFlight_def completeDecisionFlight_def
    assertWorkflowMayCommitEffect_def claimSemanticAction_def find_claim_def
  by (intro keeps_rules end_flight_unique | simp add: finish_flight_def)+

lemma release_unique: "keeps (on_effects flights_ok) (releaseSemanticActionClaim A x y w)"
  unfolding releaseSemanticActionClaim_def
  by (intro keeps_rules unique.statement_keeps) (auto simp: Let_def intro: filter_claims_ok)

end

section \<open>Whole transactions\<close>

datatype flight_op =
    Acquire flight_key string "nat option"
  | Cancel string string
  | Complete string
  | MayCommit string flight_key bool
  | Claim string string string "string option"
  | Release string string string

primrec flight_action :: "agency_env \<Rightarrow> flight_op \<Rightarrow> unit aact" where
  "flight_action A (Acquire q w ex) = thn (acquireOrJoinDecisionFlight A q w ex) (ret ())"
| "flight_action A (Cancel w why) = thn (cancelDecisionFlight A w why) (ret ())"
| "flight_action A (Complete w) = thn (completeDecisionFlight A w) (ret ())"
| "flight_action A (MayCommit w q b) = thn (assertWorkflowMayCommitEffect A w q b) (ret ())"
| "flight_action A (Claim x y w ei) = thn (claimSemanticAction A x y w ei) (ret ())"
| "flight_action A (Release x y w) = thn (releaseSemanticActionClaim A x y w) (ret ())"

primrec flight_actions :: "agency_env \<Rightarrow> flight_op list \<Rightarrow> unit aact" where
  "flight_actions A [] = ret ()"
| "flight_actions A (op # ops) = thn (flight_action A op) (flight_actions A ops)"

text \<open>Transactions one after the other, each of some tenant; one that raises is rolled back and the next begins.\<close>

definition flight_history :: "agency_env \<Rightarrow> (string \<times> flight_op list) list \<Rightarrow> agency \<Rightarrow> agency" where
  "flight_history A txs s = fold (\<lambda>(t, ops) s. snd (runForTenant A t (flight_actions A ops) s)) txs s"

context session_frame
begin

lemma tx_keeps:
  assumes "keeps (on_effects I) m"
  shows "keeps (on_effects I) (AgencyDb.tx A m)"
proof (rule keepsI)
  fix s r s' assume s: "on_effects I s" and run: "AgencyDb.tx A m s = (r, s')"
  let ?s0 = "s\<lparr>g_n := Suc (g_n s), g_effects := a_other A (g_n s) (g_effects s), g_aborted := False, g_tenant := None, g_locks := []\<rparr>"
  obtain x s1 where m: "m ?s0 = (x, s1)"
    by (cases "m ?s0")
  have I0: "I (a_other A (g_n s) (g_effects s))"
    using s by (rule others)
  then have "on_effects I (snd (m ?s0))"
    using assms by (simp add: keeps_def)
  with m have "on_effects I s1"
    by simp
  with run I0 show "on_effects I s'"
    by (auto simp: AgencyDb.tx_def Let_def m rolled_back_def split: if_splits sum.splits)
qed

lemma runForTenant_keeps: "keeps (on_effects I) m \<Longrightarrow> keeps (on_effects I) (runForTenant A t m)"
  unfolding runForTenant_def set_tenant_def by (intro keeps_rules tx_keeps) simp_all

end

context flight_sessions
begin

lemma flight_action_unique: "keeps (on_effects flights_ok) (flight_action A op)"
  by (cases op) (auto intro!: keeps_rules flights_unique release_unique)

lemma flight_actions_unique: "keeps (on_effects flights_ok) (flight_actions A ops)"
  by (induction ops) (auto intro!: keeps_rules flight_action_unique)

lemma history_unique: "flights_ok (g_effects s) \<Longrightarrow> flights_ok (g_effects (flight_history A txs s))"
proof (induction txs arbitrary: s)
  case (Cons tx txs)
  obtain t ops where [simp]: "tx = (t, ops)" by (cases tx)
  have "flights_ok (g_effects (snd (runForTenant A t (flight_actions A ops) s)))"
    using unique.runForTenant_keeps [OF flight_actions_unique] Cons.prems by (simp add: keeps_def)
  then show ?case
    using Cons.IH by (simp add: flight_history_def)
qed (simp add: flight_history_def)

end

interpretation lone_flights: flight_sessions "alone A" for A
  by unfold_locales (simp add: alone_def)

text \<open>Beside any number of sessions, each of which runs transactions of this kind between two statements.\<close>

definition among_flights :: "agency_env \<Rightarrow> (nat \<Rightarrow> (string \<times> flight_op list) list \<times> agency) \<Rightarrow> agency_env" where
  "among_flights A sched = A\<lparr>a_other := (\<lambda>n d. case sched n of (txs, s) \<Rightarrow> g_effects (flight_history (alone A) txs (s\<lparr>g_effects := d\<rparr>)))\<rparr>"

interpretation busy_flights: flight_sessions "among_flights A sched" for A sched
  by unfold_locales (auto simp: among_flights_def intro: lone_flights.history_unique split: prod.splits)

text \<open>C7. However many sessions interleave acquiring, cancelling, completing, checking, claiming and releasing, with whatever
  failures and rollbacks: if the other sessions keep the two keys unique, as all of these operations do, then through any number
  of transactions a tenant has at most one active flight per subject, routine and stage, and at
  most one claim per subject and semantic action.\<close>

theorem single_flight_unique:
  assumes "\<And>n d. flights_ok d \<Longrightarrow> flights_ok (a_other A n d)" and "flights_ok (g_effects s)"
    and d: "d = g_effects (flight_history A txs s)"
  shows "(\<forall>f \<in> set (f_flights d). \<forall>g \<in> set (f_flights d). fl_status f = ''ACTIVE'' \<and> fl_status g = ''ACTIVE'' \<and>
      fl_tenant_id f = fl_tenant_id g \<and> fl_key f = fl_key g \<longrightarrow> f = g) \<and>
    (\<forall>b \<in> set (f_claims d). \<forall>c \<in> set (f_claims d). claim_slot b = claim_slot c \<longrightarrow> b = c)"
proof -
  have "flights_ok d"
    unfolding d by (rule flight_sessions.history_unique [OF flight_sessions.intro]) (use assms in blast)+
  then have "inj_on flight_slot (set (filter is_flying (f_flights d)))" "inj_on claim_slot (set (f_claims d))"
    by (simp_all add: flights_ok_def distinct_map)
  then show ?thesis
    by (simp add: inj_on_def flight_slot_def)
qed

text \<open>Two workflows decide on one subject, while a third session does so as well.\<close>

definition demo_flights :: "(string \<times> flight_op list) list" where
  "demo_flights = [(''T'', [Acquire (''s'', ''r'', ''l'') ''w1'' None, Claim ''s'' ''k'' ''w1'' None]), (''T'', [Acquire (''s'', ''r'', ''l'') ''w2'' None])]"

definition demo_sched :: "nat \<Rightarrow> (string \<times> flight_op list) list \<times> agency" where
  "demo_sched n = (if n = 2 then [(''T'', [Acquire (''s'', ''r'', ''l'') ''w3'' None])] else [], demo_state)"

lemma demo_flights_one:
  "map fl_workflow_id (f_flights (g_effects (flight_history (among_flights (demo_env True) demo_sched) demo_flights demo_state))) = [''w3'']"
  by code_simp

theorem single_flight_unique_witness:
  "\<exists>d. d = g_effects (flight_history (among_flights (demo_env True) demo_sched) demo_flights demo_state) \<and> f_flights d \<noteq> [] \<and>
    (\<forall>f \<in> set (f_flights d). \<forall>g \<in> set (f_flights d). fl_status f = ''ACTIVE'' \<and> fl_status g = ''ACTIVE'' \<and>
      fl_tenant_id f = fl_tenant_id g \<and> fl_key f = fl_key g \<longrightarrow> f = g)"
proof -
  have "flights_ok (g_effects demo_state)"
    by (simp add: flights_ok_def demo_state_def)
  from single_flight_unique [OF busy_flights.others_unique this refl] demo_flights_one show ?thesis
    by (intro exI conjI) (rule refl, force, blast)
qed

section \<open>Joining\<close>

text \<open>No other session interferes and no statement fails.\<close>

definition calm :: "agency_env \<Rightarrow> bool" where
  "calm A \<longleftrightarrow> (\<forall>n d. a_other A n d = d) \<and> (\<forall>n. \<not> a_fault A n)"

lemma calm_statement:
  assumes "calm A" "\<not> g_aborted s"
  shows "statement A f s = (case f (a_control A (g_n s)) (g_tenant s) (g_effects s) of
     Inl e \<Rightarrow> (Inl e, s\<lparr>g_n := Suc (g_n s), g_aborted := True\<rparr>) | Inr (x, d) \<Rightarrow> (Inr x, s\<lparr>g_n := Suc (g_n s), g_effects := d\<rparr>))"
  using assms by (auto simp: statement_def calm_def Let_def split: sum.splits)

lemma calm_select:
  "calm A \<Longrightarrow> \<not> g_aborted s \<Longrightarrow>
   select A f s = (Inr (f (a_control A (g_n s)) (g_tenant s) (g_effects s)), s\<lparr>g_n := Suc (g_n s)\<rparr>)"
  by (simp add: select_def calm_statement)

lemma calm_execute:
  "calm A \<Longrightarrow> \<not> g_aborted s \<Longrightarrow> f (a_control A (g_n s)) (g_tenant s) (g_effects s) = Inr d \<Longrightarrow>
   execute A f s = (Inr (), s\<lparr>g_n := Suc (g_n s), g_effects := d\<rparr>)"
  by (simp add: execute_def calm_statement)

lemma calm_savepoint:
  assumes "calm A" "\<not> g_aborted s" "m (s\<lparr>g_n := Suc (g_n s)\<rparr>) = (Inr (), s1)" "\<not> g_aborted s1"
  shows "savepoint A m s = (Inr (Inr ()), s1\<lparr>g_n := Suc (g_n s1)\<rparr>)"
  using assms by (simp add: savepoint_def calm_select bnd_step thn_step gets_def attempt_def ret_def)

text \<open>An active flight of this key that has not run out.\<close>

definition standing :: "string \<Rightarrow> flight_key \<Rightarrow> nat \<Rightarrow> flight \<Rightarrow> bool" where
  "standing t q tm f \<longleftrightarrow> own_active (Some t) (\<lambda>f. fl_key f = q) f \<and> \<not> before (fl_expires_at f) tm"

definition expired :: "string \<Rightarrow> flight_key \<Rightarrow> nat \<Rightarrow> effects \<Rightarrow> effects" where
  "expired t q tm = update_flights (\<lambda>f. own_active (Some t) (\<lambda>f. fl_key f = q) f \<and> before (fl_expires_at f) tm) (expire_flight tm)"

lemma expired_standing:
  "f \<in> set (f_flights (expired t q tm d)) \<and> own_active (Some t) (\<lambda>f. fl_key f = q) f \<longleftrightarrow> f \<in> set (f_flights d) \<and> standing t q tm f"
  by (auto simp: expired_def update_flights_def standing_def own_active_def expire_flight_def)

lemma expired_ids: "fl_flight_id ` set (f_flights (expired t q tm d)) = fl_flight_id ` set (f_flights d)"
proof -
  have "map fl_flight_id (f_flights (expired t q tm d)) = map fl_flight_id (f_flights d)"
    by (simp add: expired_def update_flights_def expire_flight_def)
  then show ?thesis
    by (metis list.set_map)
qed

lemma find_own:
  "List.find (own_active (Some t) (\<lambda>f. fl_key f = q)) (f_flights (expired t q tm d)) = Some f \<Longrightarrow>
     f \<in> set (f_flights (expired t q tm d)) \<and> f \<in> set (f_flights d) \<and> standing t q tm f"
  using expired_standing [of f t q tm d] by (auto simp: find_Some_iff)

lemma find_own_None:
  "List.find (own_active (Some t) (\<lambda>f. fl_key f = q)) (f_flights (expired t q tm d)) = None \<Longrightarrow>
     \<not> (\<exists>f \<in> set (f_flights (expired t q tm d)). own_active (Some t) (\<lambda>f. fl_key f = q) f)"
  by (auto simp: find_None_iff)

lemma tenant_there:
  assumes "calm A" "\<not> g_aborted s" "g_tenant s = Some t" "t \<noteq> []"
  shows "requireTenant A e s = (Inr t, s\<lparr>g_n := Suc (g_n s)\<rparr>)"
  using assms by (simp add: requireTenant_def currentTenant_def bnd_def calm_select ret_def)

lemma find_row_last: "k \<notin> key ` set xs \<Longrightarrow> key x = k \<Longrightarrow> find_row key (xs @ [x]) k = Some x"
  by (simp add: find_row_append find_row_None [THEN iffD2])

definition new_flight :: "string \<Rightarrow> flight_key \<Rightarrow> string \<Rightarrow> nat \<Rightarrow> nat option \<Rightarrow> flight" where
  "new_flight i q w tm ex = \<lparr>fl_flight_id = i, fl_tenant_id = [], fl_subject_ref = fst q, fl_routine_id = fst (snd q),
     fl_logical_stage = snd (snd q), fl_workflow_id = w, fl_status = ''ACTIVE'', fl_created_at = tm, fl_expires_at = ex,
     fl_completed_at = None, fl_cancel_reason = None\<rparr>"

lemma new_flight_inserted:
  assumes "calm A" "\<not> g_aborted s" "g_tenant s = Some t" "i \<notin> fl_flight_id ` set (f_flights (g_effects s))"
    and "\<not> (\<exists>f \<in> set (f_flights (g_effects s)). own_active (Some t) (\<lambda>f. fl_key f = q) f)"
  shows "insert_flight A (new_flight i q w tm ex) s = (Inr (), s\<lparr>g_n := Suc (g_n s),
     g_effects := (g_effects s)\<lparr>f_flights := f_flights (g_effects s) @ [new_flight i q w tm ex\<lparr>fl_tenant_id := t\<rparr>]\<rparr>\<rparr>)"
  unfolding insert_flight_def
  by (rule calm_execute) (use assms in \<open>simp_all add: new_flight_def fl_key_def\<close>)

lemma acquire_begins:
  assumes "calm A" "\<not> g_aborted s" "g_tenant s = Some t" "t \<noteq> []" "requireParts q = Inr ()" "w \<noteq> []" and tm: "tm = a_clock A (g_n s)"
  shows "acquireOrJoinDecisionFlight A q w ex s =
    (case List.find (own_active (Some t) (\<lambda>f. fl_key f = q)) (f_flights (expired t q tm (g_effects s))) of
       Some f \<Rightarrow> ret (join_flight w f)
     | None \<Rightarrow> bnd (randomUUID A) (\<lambda>i. bnd (savepoint A (insert_flight A (new_flight i q w tm ex))) (\<lambda>r. case r of
         Inl err \<Rightarrow> bnd (active_flight A q) (\<lambda>raced. case raced of Some f \<Rightarrow> ret (join_flight w f) | None \<Rightarrow> throw err)
       | Inr _ \<Rightarrow> bnd (select A (\<lambda>k t d. find_row fl_flight_id (visible fl_tenant_id t (f_flights d)) i)) (\<lambda>created.
            ret \<lparr>j_mode = ''acquired'', j_flight = created, j_competing = False\<rparr>))))
     (s\<lparr>g_n := g_n s + 3, g_effects := expired t q tm (g_effects s)\<rparr>)"
proof -
  let ?s1 = "s\<lparr>g_n := Suc (g_n s)\<rparr>" and ?s2 = "s\<lparr>g_n := Suc (Suc (g_n s)), g_effects := expired t q tm (g_effects s)\<rparr>"
  let ?s3 = "s\<lparr>g_n := g_n s + 3, g_effects := expired t q tm (g_effects s)\<rparr>"
  have 1: "requireTenant A e s = (Inr t, ?s1)" for e
    using assms by (intro tenant_there)
  have 2: "expire_stale A (\<lambda>f. fl_key f = q) tm ?s1 = (Inr (), ?s2)"
    using assms(1-3) by (simp add: expire_stale_def calm_execute expired_def)
  have 3: "active_flight A q ?s2 =
      (Inr (List.find (own_active (Some t) (\<lambda>f. fl_key f = q)) (f_flights (expired t q tm (g_effects s)))), ?s3)"
    using assms(1-3) by (simp add: active_flight_def calm_select)
  have 0: "Date_now A s = (Inr tm, s)" "lift (requireParts q) s = (Inr (), s)"
    using assms(5) by (simp_all add: Date_now_def gets_def lift_def tm)
  show ?thesis
    unfolding acquireOrJoinDecisionFlight_def new_flight_def [symmetric]
    using assms(6)
    by (simp add: bnd_step [where m = "Date_now A" and s = s, OF 0(1)] thn_step [where m = "lift (requireParts q)" and s = s, OF 0(2)]
        thn_step [where m = "requireTenant A e" and s = s for e, OF 1] thn_step [where m = "expire_stale A (\<lambda>f. fl_key f = q) tm" and s = ?s1, OF 2]
        bnd_step [where m = "active_flight A q" and s = ?s2, OF 3])
qed


definition demo_flight :: flight where
  "demo_flight = (new_flight ''f'' (''s'', ''r'', ''l'') ''w1'' 0 None)\<lparr>fl_tenant_id := ''T''\<rparr>"

definition demo_deciding :: agency where
  "demo_deciding = demo_state\<lparr>g_tenant := Some ''T'', g_effects := (g_effects demo_state)\<lparr>f_flights := [demo_flight]\<rparr>\<rparr>"


section \<open>The fence\<close>

definition idle :: "string \<Rightarrow> string \<Rightarrow> effects \<Rightarrow> bool" where
  "idle t w d \<longleftrightarrow> (\<forall>f \<in> set (f_flights d). \<not> own_active (Some t) (\<lambda>f. fl_workflow_id f = w) f)"

lemma latest_flight_Some:
  assumes "latest_flight t w fs = Some f"
  shows "f \<in> set fs \<and> fl_workflow_id f = w \<and> t = Some (fl_tenant_id f)"
proof -
  let ?fs = "sort_key (\<lambda>f. - int (fl_created_at f)) (filter (\<lambda>f. fl_workflow_id f = w) (visible fl_tenant_id t fs))"
  obtain rest where "?fs = f # rest"
    using assms by (cases ?fs) (simp_all add: latest_flight_def)
  then have "f \<in> set ?fs"
    by (simp only: list.set_intros)
  then show ?thesis
    by (simp add: visible_def)
qed

lemma commit_fence_active: "commit_fence b q f = Inr g \<Longrightarrow> is_flying f"
  by (auto simp: commit_fence_def split: prod.splits if_splits)

locale idle_workflow =
  fixes A :: agency_env and t :: string and w :: string
  assumes others_idle: "idle t w d \<Longrightarrow> idle t w (a_other A n d)"

sublocale idle_workflow < decision_frame A "idle t w"
proof unfold_locales
  show "idle t w (a_other A n d)" if "idle t w d" for d n
    using that by (rule others_idle)
  show "idle t w (d\<lparr>f_decisions := x\<rparr>)" if "idle t w d" for d x
    using that by (simp add: idle_def)
qed

context idle_workflow
begin

definition still :: "(string \<Rightarrow> commit_record option) \<Rightarrow> agency \<Rightarrow> bool" where
  "still st s \<longleftrightarrow> idle t w (g_effects s) \<and> frame (\<lambda>u x. u = Some t \<and> x = st) 0 s"

lemma keeps_bnd_when:
  assumes "keeps J m" "\<And>s x s'. J s \<Longrightarrow> m s = (Inr x, s') \<Longrightarrow> keeps J (f x)"
  shows "keeps J (bnd m f)"
  using assms unfolding keeps_def bnd_def by (fastforce split: prod.splits sum.splits)

lemma stillI: "keeps (on_effects (idle t w)) m \<Longrightarrow> keeps (frame (\<lambda>u x. u = Some t \<and> x = st) 0) m \<Longrightarrow> keeps (still st) m"
  by (simp add: keeps_def still_def)

lemma expire_idle [keeps_rules]: "keeps (on_effects (idle t w)) (expire_stale A P tm)"
  unfolding expire_stale_def
  by (rule execute_keeps) (auto simp: idle_def update_flights_def own_active_def expire_flight_def)

lemma insert_flight_idle [keeps_rules]: "fl_workflow_id f \<noteq> w \<Longrightarrow> keeps (on_effects (idle t w)) (insert_flight A f)"
  unfolding insert_flight_def
  by (rule execute_keeps) (auto simp: idle_def own_active_def split: option.splits if_splits)

lemma insert_claim_idle [keeps_rules]: "keeps (on_effects (idle t w)) (insert_claim A c)"
  unfolding insert_claim_def by (rule execute_keeps) (auto simp: idle_def split: option.splits if_splits)

lemma end_flight_idle [keeps_rules]: "(\<And>f. \<not> is_flying (g f)) \<Longrightarrow> keeps (on_effects (idle t w)) (end_flight A x g)"
  unfolding end_flight_def
  by (rule statement_keeps) (auto simp: idle_def update_flights_def own_active_def Let_def)

lemma release_idle [keeps_rules]: "keeps (on_effects (idle t w)) (releaseSemanticActionClaim A x y z)"
  unfolding releaseSemanticActionClaim_def by (intro keeps_rules statement_keeps) (auto simp: idle_def Let_def)

lemma flights_idle:
  "v \<noteq> w \<Longrightarrow> keeps (on_effects (idle t w)) (acquireOrJoinDecisionFlight A q v ex)" "keeps (on_effects (idle t w)) (cancelDecisionFlight A v why)"
  "keeps (on_effects (idle t w)) (completeDecisionFlight A v)" "keeps (on_effects (idle t w)) (assertWorkflowMayCommitEffect A v q b)"
  "keeps (on_effects (idle t w)) (claimSemanticAction A x y v ei)"
  unfolding acquireOrJoinDecisionFlight_def active_flight_def cancelDecisionFlight_def completeDecisionFlight_def
    assertWorkflowMayCommitEffect_def claimSemanticAction_def find_claim_def
  by (intro keeps_rules end_flight_idle | simp add: finish_flight_def)+

lemma flight_action_idle: "(\<forall>q ex. op \<noteq> Acquire q w ex) \<Longrightarrow> keeps (on_effects (idle t w)) (flight_action A op)"
  by (cases op) (auto intro!: keeps_thn flights_idle release_idle)

lemma flight_actions_idle: "(\<forall>q ex. Acquire q w ex \<notin> set ops) \<Longrightarrow> keeps (on_effects (idle t w)) (flight_actions A ops)"
  by (induction ops) (auto intro!: keeps_thn flight_action_idle)

lemma history_idle:
  assumes "\<forall>(u, ops) \<in> set txs. \<forall>q ex. Acquire q w ex \<notin> set ops" "idle t w (g_effects s)"
  shows "idle t w (g_effects (flight_history A txs s))"
  using assms
proof (induction txs arbitrary: s)
  case (Cons tx txs)
  obtain u ops where [simp]: "tx = (u, ops)" by (cases tx)
  have "keeps (on_effects (idle t w)) (runForTenant A u (flight_actions A ops))"
    using Cons.prems(1) by (intro runForTenant_keeps flight_actions_idle) auto
  then have "idle t w (g_effects (snd (runForTenant A u (flight_actions A ops) s)))"
    using Cons.prems(2) by (simp add: keeps_def)
  then show ?case
    using Cons.IH Cons.prems(1) by (simp add: flight_history_def)
qed (simp add: flight_history_def)

lemma expire_frame: "keeps (frame Q n0) (expire_stale A P tm)"
  unfolding expire_stale_def by (rule statement_frame)

lemma latest_stops: "yields (still st) (bnd (select A (\<lambda>k t d. latest_flight t w (f_flights d))) (\<lambda>found. case found of
       None \<Rightarrow> if True then throw e else ret None
     | Some f \<Rightarrow> bnd (lift (commit_fence True q f)) (\<lambda>f. ret (Some f)))) (\<lambda>_ _. False)"
  unfolding yields_def
proof (intro allI impI notI)
  fix s x s' assume s: "still st s" and run: "bnd (select A (\<lambda>k t d. latest_flight t w (f_flights d))) (\<lambda>found. case found of
       None \<Rightarrow> if True then throw e else ret None
     | Some f \<Rightarrow> bnd (lift (commit_fence True q f)) (\<lambda>f. ret (Some f))) s = (Inr x, s')"
  then obtain f g where f: "latest_flight (g_tenant s) w (f_flights (a_other A (g_n s) (g_effects s))) = Some f" "commit_fence True q f = Inr g"
    by (auto simp: bnd_Inr select_Inr run_iff split: option.splits)
  have "idle t w (a_other A (g_n s) (g_effects s))" "g_tenant s = Some t"
    using s others_idle by (auto simp: still_def frame_def)
  with latest_flight_Some [OF f(1)] commit_fence_active [OF f(2)] show False
    by (auto simp: idle_def own_active_def)
qed

lemma fence_stops: "yields (still st) (assertWorkflowMayCommitEffect A w q True) (\<lambda>_ _. False)"
  unfolding assertWorkflowMayCommitEffect_def
  by (rule latest_stops | rule yields_bnd_keeps [OF stillI] yields_thn_keeps [OF stillI] yields_if yields_throw expire_frame | intro keeps_rules)+

lemma flight_gate_stops:
  assumes "e_enforce_single_flight args" "p_workflow_id p = w"
  shows "yields (still st) (flight_gate A args p key dec) (\<lambda>r s. \<exists>x. r = Inl x)"
  unfolding yields_def
proof (intro allI impI)
  fix s r s' assume s: "still st s" and run: "flight_gate A args p key dec s = (Inr r, s')"
  have "\<not> (\<exists>x s1. assertWorkflowMayCommitEffect A w q True s = (Inr x, s1))" for q
    using fence_stops s unfolding yields_def by blast
  with run assms have "r \<noteq> Inr u" for u
    by (auto simp: flight_gate_def thn_Inr deny_on_Inr)
  then show "\<exists>x. r = Inl x"
    by (cases r) auto
qed

lemma flight_gate_still: "keeps (still st) (flight_gate A args p key dec)"
  unfolding flight_gate_def assertWorkflowMayCommitEffect_def
  by (intro keeps_if keeps_rules stillI expire_frame | simp)+

lemma gate_stops:
  assumes "keeps I m" "yields I m (\<lambda>r s. \<exists>x. r = Inl x)"
  shows "keeps I (gate m f)"
  unfolding gate_def
proof (rule keeps_bnd_when [OF assms(1)])
  fix s x s' assume "I s" "m s = (Inr x, s')"
  then obtain y where "x = Inl y"
    using assms(2) unfolding yields_def by blast
  then show "keeps I (case x of Inl y \<Rightarrow> ret y | Inr z \<Rightarrow> f z)"
    by simp
qed

lemma gate_pass: "keeps I m \<Longrightarrow> (\<And>y. keeps I (f y)) \<Longrightarrow> keeps I (gate m f)"
  unfolding gate_def by (intro keeps_rules)

lemma first_still:
  "keeps (still st) (executor_start A args)" "keeps (still st) (resolveExecutableCapability A i)" "keeps (still st) (loadActiveGrant A who i)"
  "keeps (still st) (policy_gate A tn p g pol)" "keeps (still st) (approval_gate A args p pol dec)"
  "keeps (still st) (ambiguity_gate A args cap i dec)" "keeps (still st) (fallback_gate A args i dec)"
  by (intro stillI keeps_rules)+

lemma decided_still:
  assumes "e_enforce_single_flight args" "p_workflow_id p = w"
  shows "keeps (still st) (execute_decided A args ad tn p cap pol x)"
proof -
  have "keeps (still st) (gate (flight_gate A args p key dec) f)" for key dec f
    by (rule gate_stops [OF flight_gate_still flight_gate_stops [OF assms]])
  then show ?thesis
    unfolding execute_decided_def Let_def
    by (cases x) (simp, rule gate_pass, rule first_still, rule gate_pass, rule first_still, rule gate_pass, rule first_still)
qed

lemma proposal_still:
  assumes "e_enforce_single_flight args" "p_workflow_id p = w"
  shows "keeps (still st) (execute_proposal A args (ad, tn, p))"
  unfolding execute_proposal_def prod.case Let_def
  by (intro keeps_bnd gate_pass first_still decided_still assms)

lemma idle_cannot_commit:
  assumes "e_enforce_single_flight args" "idle t w (g_effects s)" "g_tenant s = Some t"
    and "\<And>n p. find_row p_proposal_id (visible p_tenant_id (Some t) (k_proposals (a_control A n))) (e_proposal_id args) = Some p \<Longrightarrow>
      p_workflow_id p = w"
  shows "g_store (snd (executeTrustedEffect A args s)) = g_store s"
proof -
  have "keeps (still (g_store s)) (executeTrustedEffect A args)"
    unfolding executeTrustedEffect_def
  proof (rule keeps_bnd_when [OF first_still(1)])
    fix s1 x s2 assume s1: "still (g_store s) s1" and run: "executor_start A args s1 = (Inr x, s2)"
    obtain ad tn p where x: "x = (ad, tn, p)" by (cases x)
    have "p_workflow_id p = w"
      using executor_start_Inr [OF run [unfolded x]] s1 by (auto simp: still_def frame_def intro: assms(4))
    then show "keeps (still (g_store s)) (execute_proposal A args x)"
      unfolding x by (rule proposal_still [OF assms(1)])
  qed
  then have "still (g_store s) (snd (executeTrustedEffect A args s))"
    using assms(2,3) by (simp add: keeps_def still_def frame_def)
  then show ?thesis
    by (simp add: still_def frame_def)
qed

end

interpretation lone_idle: idle_workflow "alone A" t w for A t w
  by unfold_locales (simp add: alone_def)

text \<open>Sessions of other workflows: those whose transactions would acquire a flight for \<open>w\<close> do not take place.\<close>

definition among_others :: "agency_env \<Rightarrow> string \<Rightarrow> (nat \<Rightarrow> (string \<times> flight_op list) list \<times> agency) \<Rightarrow> agency_env" where
  "among_others A w sched = A\<lparr>a_other := (\<lambda>n d. case sched n of (txs, s) \<Rightarrow>
     if \<forall>(u, ops) \<in> set txs. \<forall>q ex. Acquire q w ex \<notin> set ops then g_effects (flight_history (alone A) txs (s\<lparr>g_effects := d\<rparr>)) else d)\<rparr>"

interpretation other_workflows: idle_workflow "among_others A w sched" t w for A w sched t
  by unfold_locales (auto simp: among_others_def intro!: lone_idle.history_idle split: prod.splits)

lemma set_update_flights: "set (f_flights (update_flights P g d)) = (\<lambda>r. if P r then g r else r) ` set (f_flights d)"
  by (simp add: update_flights_def)

lemma idle_update: "idle t w (update_flights (own_active (Some t) (\<lambda>f. fl_workflow_id f = w)) (\<lambda>f. finish_flight ''CANCELLED'' tm f\<lparr>fl_cancel_reason := x\<rparr>) d)"
  unfolding idle_def
proof
  let ?P = "own_active (Some t) (\<lambda>f. fl_workflow_id f = w)" and ?g = "\<lambda>f. finish_flight ''CANCELLED'' tm f\<lparr>fl_cancel_reason := x\<rparr>"
  fix f assume "f \<in> set (f_flights (update_flights ?P ?g d))"
  then have "f \<in> (\<lambda>r. if ?P r then ?g r else r) ` set (f_flights d)"
    by (simp only: set_update_flights)
  then obtain r where "f = (if ?P r then ?g r else r)"
    by (rule imageE)
  then show "\<not> ?P f"
    by (cases "?P r") (simp_all add: own_active_def finish_flight_def)
qed

lemma cancelled_is_idle:
  assumes "cancelDecisionFlight A w why s = (Inr c, s')" "g_tenant s = Some t"
  shows "idle t w (g_effects s')"
proof -
  let ?stop = "\<lambda>tm. end_flight A w (\<lambda>f. finish_flight ''CANCELLED'' tm f\<lparr>fl_cancel_reason := Some why\<rparr>)"
  have "w \<noteq> []"
    using assms(1) unfolding cancelDecisionFlight_def by (cases "w = []") (simp_all add: throw_run)
  then have "thn (flight_tenant A) (bnd (Date_now A) ?stop) s = (Inr c, s')"
    using assms(1) by (simp add: cancelDecisionFlight_def)
  then obtain x s1 where 1: "flight_tenant A s = (Inr x, s1)" and "bnd (Date_now A) ?stop s1 = (Inr c, s')"
    unfolding thn_Inr by blast
  then have 2: "?stop (a_clock A (g_n s1)) s1 = (Inr c, s')"
    by (simp add: bnd_def Date_now_def gets_def)
  have "g_tenant s1 = Some t"
    using requireTenant_Inr [OF 1] assms(2) by simp
  with 2 have "g_effects s' = update_flights (own_active (Some t) (\<lambda>f. fl_workflow_id f = w))
      (\<lambda>f. finish_flight ''CANCELLED'' (a_clock A (g_n s1)) f\<lparr>fl_cancel_reason := Some why\<rparr>) (a_other A (g_n s1) (g_effects s1))"
    unfolding end_flight_def statement_Inr Let_def by (elim conjE exE) simp
  then show ?thesis
    by (simp add: idle_update)
qed

text \<open>C12. A cancelled workflow cannot commit late. Once a cancellation of the workflow's flights has returned, no later run of the executor that
  enforces single flight changes the external system for a proposal of that workflow, as long as no session gives the
  workflow a new flight.\<close>

theorem cancelled_workflow_cannot_commit:
  assumes "cancelDecisionFlight B w why s0 = (Inr c, s1)" "g_tenant s0 = Some t"
    and "g_effects s = g_effects s1" "g_tenant s = Some t"
    and "\<And>n d. idle t w d \<Longrightarrow> idle t w (a_other A n d)" and "e_enforce_single_flight args"
    and "\<And>n p. find_row p_proposal_id (visible p_tenant_id (Some t) (k_proposals (a_control A n))) (e_proposal_id args) = Some p \<Longrightarrow>
      p_workflow_id p = w"
  shows "g_store (snd (executeTrustedEffect A args s)) = g_store s"
proof (rule idle_workflow.idle_cannot_commit [OF idle_workflow.intro])
  show "idle t w (g_effects s)"
    using cancelled_is_idle [OF assms(1,2)] assms(3) by simp
qed (use assms in \<open>simp_all\<close>)

lemma demo_cancelled:
  "(case cancelDecisionFlight (demo_env True) ''w1'' ''no'' demo_deciding of (Inl e, s1) \<Rightarrow> False | (Inr c, s1) \<Rightarrow> g_tenant s1 = Some ''T'')"
  by code_simp

theorem cancelled_workflow_cannot_commit_witness:
  "\<exists>c s1. cancelDecisionFlight (demo_env True) ''w1'' ''no'' demo_deciding = (Inr c, s1) \<and>
     g_store (snd (executeTrustedEffect (demo_env True) ((demo_args ''p1'' False [])\<lparr>e_enforce_single_flight := True\<rparr>) s1)) = g_store s1"
proof -
  obtain c s1 where c: "cancelDecisionFlight (demo_env True) ''w1'' ''no'' demo_deciding = (Inr c, s1)" and t: "g_tenant s1 = Some ''T''"
    using demo_cancelled by (auto split: prod.splits sum.splits)
  have "g_store (snd (executeTrustedEffect (demo_env True) ((demo_args ''p1'' False [])\<lparr>e_enforce_single_flight := True\<rparr>) s1)) = g_store s1"
  proof (rule cancelled_workflow_cannot_commit [OF c _ refl t])
    show "idle ''T'' ''w1'' (a_other (demo_env True) n d)" if "idle ''T'' ''w1'' d" for n d
      using that by (simp add: demo_env_def)
  qed (auto simp: demo_deciding_def demo_env_def demo_control_def demo_proposal_def demo_args_def visible_def)
  with c show ?thesis by blast
qed

end
