(* ===== verification/Spec2Isabelle.thy ===== *)
theory Spec2Isabelle
  imports Builder LandingWrites ExecutorProps FlightProps
begin

text \<open>
  The JARVIS Builder and the trusted executor of the agency runtime, modelled and verified.

  \<^bold>\<open>The program.\<close> The Builder turns an owner's request into a reviewed commit. A task is normalised
  and locked, so that what counts as finished (its finish line) is bound to a hash; a coding worker is
  launched on a run of the task; the commit it lands is registered as a candidate; GitHub's own
  data, continuous integration and the test runs are verified for exactly that commit; an
  independent reviewer judges it; and only then may the task be accepted. Failures lead to bounded
  repairs. A tick, started by a trigger, takes a lock on disk, recovers from what the last process
  left, and moves at most one objective forward. Everything is kept in a database of tasks, runs,
  candidates, verifications, reviews, approvals, events and leases. Sources under
  \<open>src/src/builder/\<close>.
  Beside the Builder stands the agency runtime, which carries out business effects for tenants and shares no state with
  it. Its core is the trusted executor: a proposal is carried out only with a capability, a grant,
  the owner's approval where it is risky and an authority read again right before the commit; the effect
  is committed at most once per idempotency key, verified, and recorded with a receipt.
  Decision flights keep one workflow at a time on a subject. Sources under \<open>src/src/runtime/\<close>, \<open>contracts/\<close>, \<open>db/\<close>
  and \<open>security/\<close>, with the tables of \<open>src/migrations/\<close>.

  \<^bold>\<open>How it is modelled.\<close> \<open>Prelude\<close> holds computations on a state that return a value or raise an error
  and keep the state of the moment they raised in, as JavaScript does; the rules that run
  them (\<open>run_iff\<close>), that show a property kept whatever the outcome (\<open>keeps_rules\<close>), and the locales
  \<open>table\<close> (a keyed list of rows) and \<open>refinement\<close> (a machine that implements another). \<open>JsValue\<close>,
  \<open>JsonParse\<close> and \<open>Regex\<close> are the JavaScript the sources use: JSON values, coercions,
  \<open>JSON.stringify\<close>, \<open>JSON.parse\<close> and backtracking regular expressions. \<open>Disk\<close> is the part of
  \<open>node:fs\<close> and \<open>node:path\<close> that is used, on a disk where every call may be refused.
  Code outside the repository is a parameter: the worker provider, \<open>gh\<close>, the reviewer's process, the
  clock, SHA-256 and random identifiers. What such a parameter answers may depend on how many calls were made
  before; nothing is assumed of the answers except where a theorem says so. The Builder's operations run one after the
  other, as the store is synchronous and each process has one Builder. In the agency runtime several sessions
  share a database: a computation is a sequence of SQL statements, before each of which other sessions may have
  changed the tables in any way (\<open>a_other\<close> for those the executor writes, \<open>a_control\<close> for those it reads), and each of
  which may fail (\<open>a_fault\<close>). A failed statement aborts the transaction until a rollback, to a savepoint or
  altogether; the external system keeps what was committed to it through every rollback.

  \<^bold>\<open>The components\<close>, each theory with the source it models:
  \<^item> \<open>Contracts\<close>: \<open>contracts.js\<close>, \<open>errors.js\<close>; \<open>Redact\<close>: \<open>secrets-redact.js\<close>.
  \<^item> \<open>Store\<close>, \<open>StoreProps\<close>: \<open>store.js\<close>, \<open>store-mappers.js\<close>, \<open>schema.sql\<close>; \<open>StoreConfig\<close>: \<open>store-config.js\<close>,
    \<open>store-open.js\<close>. The record \<open>db\<close> has one list of rows per table; \<open>core\<close> adds the in-memory
    pointer to the current run and the last recovery.
  \<^item> \<open>TaskLock\<close>: \<open>task-lock.js\<close> and the store's claim of logical work.
  \<^item> \<open>CoreTasks\<close>, \<open>CoreWorkers\<close>: \<open>core.js\<close>; \<open>WorkerProvider\<close>: \<open>worker-provider.js\<close>; \<open>ToolPolicy\<close>: \<open>tool-policy.js\<close>.
  \<^item> \<open>Landing\<close>, \<open>LandingWrites\<close>: \<open>github-landing.js\<close>; \<open>Verification\<close>, \<open>VerificationProps\<close>: \<open>verifier.js\<close>; \<open>Retry\<close>: \<open>retry.js\<close>;
    \<open>CandidateRegistry\<close>: \<open>candidate-registry.js\<close>; \<open>Review\<close>: \<open>codex-review.js\<close>; \<open>CiWait\<close>: \<open>ci-wait.js\<close>.
  \<^item> \<open>Orchestrator\<close>, \<open>OrchestratorProps\<close>, \<open>OrchestratorBounds\<close>: \<open>orchestrator.js\<close>.
  \<^item> \<open>Recovery\<close>, \<open>RecoveryProps\<close>: \<open>recovery.js\<close>, the constructor of \<open>BuilderCore\<close>, the store's reconstruction.
  \<^item> \<open>TickLock\<close>: \<open>tick-lock.js\<close>; \<open>WorkerContract\<close>: \<open>worker-contract.js\<close>; \<open>ApprovedWork\<close>: the choice of work in
    \<open>tick.js\<close> with the registries of \<open>scripts/build-runner.mjs\<close> and \<open>scripts/orientation.mjs\<close>; \<open>Tick\<close>,
    \<open>TickProps\<close>: the rest of \<open>tick.js\<close>.
  \<^item> \<open>CursorProvider\<close>: \<open>providers/cursor-provider.js\<close>, \<open>cursor-sdk-adapter.js\<close>, \<open>cursor-api-key.js\<close>.
  \<^item> \<open>Builder\<close>: all public operations and restarts as one step relation.
  \<^item> \<open>AgencyContracts\<close>: \<open>contracts/ids.js\<close>, \<open>approval.js\<close>, \<open>authority.js\<close>, \<open>capability.js\<close>, \<open>runtime/effect-ambiguity.js\<close>,
    \<open>autonomy.js\<close>; \<open>AgencyDb\<close>: \<open>db/index.js\<close>, \<open>security/tenant-context.js\<close>, \<open>contracts/grants.js\<close>,
    \<open>capability-resolver.js\<close>, the tables, and what the executor calls of \<open>runtime/dbos.js\<close>, \<open>reconciliation.js\<close> and
    \<open>observability.js\<close>.
  \<^item> \<open>SingleFlight\<close>, \<open>FlightProps\<close>: \<open>runtime/single-flight.js\<close>.
  \<^item> \<open>TrustedExecutor\<close>: \<open>runtime/trusted-executor.js\<close>, \<open>local-effect-adapter.js\<close>, one definition per gate and per branch of
    the commit; \<open>ExecutorFrame\<close>, \<open>LedgerFrame\<close>, \<open>ExecutorLedger\<close>, \<open>ExecutorAuthority\<close>, \<open>ExecutorDemo\<close>,
    \<open>ExecutorProps\<close>: what is shown of it.

  \<^bold>\<open>Invariants.\<close> The locale \<open>core_invariant\<close> (with \<open>core_frame\<close>, \<open>db_frame\<close>, \<open>row_frame\<close> and
  \<open>row_invariant\<close> as ways to obtain it) lists what a property of the state must survive: the primitive
  writes of the store. Its lemmas carry the property through every operation, from a
  status change to the whole pipeline and the tick. It is interpreted for the integrity of the tables
  (\<open>integ\<close>), the hash of every finish line (\<open>bound\<close>), the append-only log (\<open>log\<close>), the finish line of a
  task (\<open>finish\<close>, in \<open>FinishLine\<close>), the commit of a candidate (\<open>exact\<close>, in \<open>RowFrame\<close>); counts of runs
  use the frames alone (\<open>count\<close>, \<open>within\<close>, \<open>total\<close>). For the agency runtime \<open>session_frame\<close>, \<open>decision_frame\<close> and
  \<open>ledger_frame\<close> carry a property of the tables that other sessions keep through the statements of a run;
  \<open>other_sessions\<close> (interpreted for a session alone and beside other runs of the executor), \<open>flight_sessions\<close> (alone and
  among other flight transactions) and \<open>idle_workflow\<close> (alone and among other workflows) are their uses.

  \<^bold>\<open>What is shown.\<close> Locking binds the finish line and no operation but an explicit mutation of a task
  changes it; a locked field is not changed by a guarded mutation. Work is claimed once. Cancelled
  and stale runs stay so; there is at most one active run after a launch, a tick or a recovery, and a
  restarted process cannot launch beside a running worker. Tools outside the manifest are never
  invoked. Verification passes exactly on GitHub's data for the exact commit, registration of a new commit and
  changed evidence revoke what rested on the old, the review gate opens exactly on passed
  verification and review, and the pipeline reports done only on all of these. Repairs and the
  pipeline stay within the locked attempts; the wait for CI ends. The tick lock implements an
  abstract lock and is given back; the store configuration fails closed; what a tick picks is
  approved work. The Cursor provider reports only what the service said and launches nothing with a business
  credential. Secrets are redacted from what is stored. Reviews printed as JSON are read back.
  The executor changes the external system only with the authority listed above and at most once per key, beside any
  other sessions; it only extends the ledger, claims success only with a verified receipt, and after a crash completes
  the first commit instead of making a second. Active flights and claims are unique, a second decision joins
  the first, a cancelled workflow does not commit late. Three theorems show where the code departs from its intent: the runtime
  role cannot carry out a risky proposal at all, a later denial releases the claim of a committed effect,
  and a browser fallback rests on the caller's word.

  \<^bold>\<open>Fuel.\<close> Two loops of the source wait for the outside world: for a worker (\<open>worker_loop\<close>) and for CI
  (\<open>ci_loop\<close>). They run on fuel and return nothing when it ends; with a clock that goes on by at least
  one millisecond per reading the fuel suffices as soon as it exceeds the deadline, which is
  proved. The cycles of the pipeline are bounded by the source itself. All other definitions are
  total by structural recursion.

  \<^bold>\<open>Not modelled.\<close> The Postgres store (the same operations over an asynchronous client), the promise
  helpers, and the command-line scripts except their registries: programs over git, files and child processes.
  Of the agency runtime: durable workflows, reconciliation, backup, erasure, observability, connectors, credentials,
  memory, inbound messages and briefings, which are further users of the same tables and are covered here only as
  other sessions; writing capabilities; migrations, whose tables, keys and rights the model states directly. Two
  Builder processes at once are treated only where the code does: in the leases and in the tick lock.
\<close>

end
